(* ===== verification/ZIS_Prelude.thy ===== *)
theory ZIS_Prelude
  imports Main "HOL-Library.Word" "HOL-Library.AList"
begin

unbundle bit_operations_syntax

text \<open>
  Shared vocabulary of the development: return codes, C strings and fixed-size character
  buffers, flag words, a loop that stops at its first failure, and the generic lemmas on lists
  the component theories use.

  Conventions of the models. A C \<open>int\<close> that is only a return or reason code is an \<open>int\<close>;
  a flag field is a \<open>32 word\<close>; a character array is a \<open>string\<close>. An address is a \<open>nat\<close>
  and a pointer an \<open>addr option\<close> (\<open>None\<close> is \<open>NULL\<close>). A definition whose
  result type is an outer \<open>option\<close> answers \<open>None\<close> where the C code has no defined result:
  it would use a \<open>NULL\<close> pointer, write past a buffer, or follow a chain for ever.
\<close>

named_theorems parm_simps \<open>unfolding of the parameter set operations on well-formed sets\<close>
named_theorems server_simps \<open>unfolding of the server's registry operations\<close>
named_theorems rc_simps \<open>the numeric return codes\<close>

type_synonym rc = int
type_synonym addr = nat
type_synonym flags = "32 word"

section \<open>C strings and fixed-size fields\<close>

definition nul :: char where
  "nul = CHR 0x00"

text \<open>The C string found in a character buffer: everything before the first NUL.\<close>

definition cstr :: "string \<Rightarrow> string" where
  "cstr s = takeWhile (\<lambda>c. c \<noteq> nul) s"

text \<open>\<open>memset(' ')\<close> followed by \<open>memcpy\<close> into a field of \<open>n\<close> bytes.\<close>

definition space_pad :: "nat \<Rightarrow> string \<Rightarrow> string" where
  "space_pad n s = s @ replicate (n - length s) CHR '' ''"

text \<open>\<open>snprintf\<close> into a buffer of \<open>n\<close> bytes.\<close>

definition snprintf :: "nat \<Rightarrow> string \<Rightarrow> string" where
  "snprintf n s = take (n - 1) s"

text \<open>Digits of \<open>%d\<close> and \<open>%X\<close>.\<close>

fun decimal :: "nat \<Rightarrow> string" where
  "decimal n = (if n < 10 then [''0123456789'' ! n] else decimal (n div 10) @ [''0123456789'' ! (n mod 10)])"

declare decimal.simps [simp del]

definition hexDigit :: "nat \<Rightarrow> char" where "hexDigit n = ''0123456789ABCDEF'' ! n"

text \<open>\<open>strchr(s, c)\<close>: the text before the first \<open>c\<close>, and the text behind it if there is one.\<close>

definition split_at :: "char \<Rightarrow> string \<Rightarrow> string \<times> string option" where
  "split_at c s =
     (takeWhile (\<lambda>x. x \<noteq> c) s,
      case dropWhile (\<lambda>x. x \<noteq> c) s of [] \<Rightarrow> None | _ # r \<Rightarrow> Some r)"

lemma takeWhile_ne_id: "c \<notin> set s \<Longrightarrow> takeWhile (\<lambda>x. x \<noteq> c) s = s"
  by (auto simp: takeWhile_eq_all_conv)

lemma takeWhile_ne_sep: "c \<notin> set s \<Longrightarrow> takeWhile (\<lambda>x. x \<noteq> c) (s @ c # r) = s"
  by (induction s) auto

lemma dropWhile_ne_sep: "c \<notin> set s \<Longrightarrow> dropWhile (\<lambda>x. x \<noteq> c) (s @ c # r) = c # r"
  by (induction s) auto

lemma dropWhile_ne_id: "c \<notin> set s \<Longrightarrow> dropWhile (\<lambda>x. x \<noteq> c) s = []"
  by (induction s) auto

lemma cstr_id: "nul \<notin> set s \<Longrightarrow> cstr s = s"
  by (simp add: cstr_def takeWhile_ne_id)

lemma split_at_sep: "c \<notin> set s \<Longrightarrow> split_at c (s @ c # r) = (s, Some r)"
  by (simp add: split_at_def takeWhile_ne_sep dropWhile_ne_sep)

lemma split_at_none: "c \<notin> set s \<Longrightarrow> split_at c s = (s, None)"
  by (simp add: split_at_def takeWhile_ne_id dropWhile_ne_id)

lemma split_at_fst_notin: "c \<notin> set (fst (split_at c s))"
  by (auto simp: split_at_def dest: set_takeWhileD)

lemma length_space_pad: "length s \<le> n \<Longrightarrow> length (space_pad n s) = n"
  by (simp add: space_pad_def)

section \<open>Flag words\<close>

definition has_flag :: "flags \<Rightarrow> flags \<Rightarrow> bool" where
  "has_flag w f \<longleftrightarrow> w AND f \<noteq> 0"

definition set_flag :: "flags \<Rightarrow> flags \<Rightarrow> flags" where
  "set_flag w f = w OR f"

definition clear_flag :: "flags \<Rightarrow> flags \<Rightarrow> flags" where
  "clear_flag w f = w AND NOT f"

lemma clear_flag_has [simp]: "\<not> has_flag (clear_flag w f) f"
  by (simp add: has_flag_def clear_flag_def and.assoc)

lemma set_flag_has: "f \<noteq> 0 \<Longrightarrow> has_flag (set_flag w f) f"
proof -
  assume "f \<noteq> 0"
  have "(w OR f) AND f = f"
    by (rule bit_word_eqI) (auto simp: bit_and_iff bit_or_iff)
  with \<open>f \<noteq> 0\<close> show ?thesis by (simp add: has_flag_def set_flag_def)
qed

lemma has_flag_set_other: "f AND g = 0 \<Longrightarrow> has_flag (set_flag w f) g = has_flag w g"
  by (simp add: has_flag_def set_flag_def bit.conj_disj_distrib2)

lemma has_flag_clear_other: "f AND g = 0 \<Longrightarrow> has_flag (clear_flag w f) g = has_flag w g"
proof -
  assume disj: "f AND g = 0"
  have "bit (w AND NOT f AND g) n = bit (w AND g) n" for n
  proof -
    have "\<not> (bit f n \<and> bit g n)"
      using disj by (metis bit_0_eq bit_and_iff bot_apply bot_bool_def)
    then show ?thesis by (auto simp: bit_and_iff bit_not_iff dest: bit_imp_le_length)
  qed
  then have "w AND NOT f AND g = w AND g" by (simp add: bit_eq_iff)
  then show ?thesis by (simp add: has_flag_def clear_flag_def and.assoc)
qed

lemma has_flag_zero [simp]: "\<not> has_flag 0 f"
  by (simp add: has_flag_def)

section \<open>Loops that stop at their first failure\<close>

fun fold_opt :: "('a \<Rightarrow> 's \<Rightarrow> 's option) \<Rightarrow> 'a list \<Rightarrow> 's \<Rightarrow> 's option" where
  "fold_opt f [] s = Some s"
| "fold_opt f (x # xs) s = (case f x s of None \<Rightarrow> None | Some s' \<Rightarrow> fold_opt f xs s')"

lemma fold_opt_append:
  "fold_opt f (xs @ ys) s = (case fold_opt f xs s of None \<Rightarrow> None | Some s' \<Rightarrow> fold_opt f ys s')"
  by (induction xs arbitrary: s) (auto split: option.splits)

lemma fold_opt_invariant:
  assumes "fold_opt f xs s = Some t" and "P s"
    and "\<And>x u v. x \<in> set xs \<Longrightarrow> P u \<Longrightarrow> f x u = Some v \<Longrightarrow> P v"
  shows "P t"
  using assms
proof (induction xs arbitrary: s)
  case Nil
  then show ?case by simp
next
  case (Cons x xs)
  from Cons.prems(1) obtain s' where s': "f x s = Some s'" and rest: "fold_opt f xs s' = Some t"
    by (auto split: option.splits)
  have "P s'" using Cons.prems(3) [of x s s'] Cons.prems(2) s' by simp
  with rest show ?case
    by (rule Cons.IH) (use Cons.prems(3) in auto)
qed

section \<open>Lists\<close>

lemma list_all_nthI: "(\<And>i. i < length xs \<Longrightarrow> P (xs ! i)) \<Longrightarrow> list_all P xs"
  by (simp add: list_all_length)

lemma map_update_nth:
  "i < length xs \<Longrightarrow> map f (xs[i := y]) = (map f xs)[i := f y]"
  by (simp add: map_update)

lemma map_add_rev_Cons: "m(k \<mapsto> v) ++ map_of (rev xs) = m ++ map_of (rev xs @ [(k, v)])"
  by (auto simp: map_add_def fun_eq_iff split: option.splits)

lemma find_Some_mem: "find P xs = Some x \<Longrightarrow> x \<in> set xs \<and> P x"
  by (auto simp: find_Some_iff)

section \<open>Pointer chains\<close>

text \<open>
  A singly linked list in storage. \<open>nx a\<close> is \<open>None\<close> where no node is stored at \<open>a\<close>, and otherwise
  the node's \<open>next\<close> pointer. \<open>chain nx p xs\<close>: following the pointers from \<open>p\<close> visits exactly \<open>xs\<close>
  and ends with \<open>NULL\<close>.
\<close>

primrec chain :: "(addr \<Rightarrow> addr option option) \<Rightarrow> addr option \<Rightarrow> addr list \<Rightarrow> bool" where
  "chain nx p [] = (p = None)"
| "chain nx p (x # xs) = (p = Some x \<and> (case nx x of None \<Rightarrow> False | Some q \<Rightarrow> chain nx q xs))"

text \<open>The C search loop \<open>while (p) { if (P(p)) return p; p = p->next; }\<close>.\<close>

partial_function (option) chain_find ::
    "(addr \<Rightarrow> 'n option) \<Rightarrow> ('n \<Rightarrow> addr option) \<Rightarrow> ('n \<Rightarrow> bool) \<Rightarrow> addr option \<Rightarrow> addr option option" where
  "chain_find get nextOf P p =
     (case p of
        None \<Rightarrow> Some None
      | Some a \<Rightarrow>
          (case get a of
             None \<Rightarrow> None
           | Some node \<Rightarrow> (if P node then Some (Some a) else chain_find get nextOf P (nextOf node))))"

text \<open>The C loop \<open>while (p) { body(p); p = p->next; }\<close>: the pointer is read after the body.\<close>

partial_function (option) chain_each ::
    "('s \<Rightarrow> addr \<Rightarrow> addr option option) \<Rightarrow> (addr \<Rightarrow> 's \<Rightarrow> 's option) \<Rightarrow> addr option \<Rightarrow> 's \<Rightarrow> 's option" where
  "chain_each nx body p s =
     (case p of
        None \<Rightarrow> Some s
      | Some a \<Rightarrow>
          (case body a s of
             None \<Rightarrow> None
           | Some s' \<Rightarrow> (case nx s' a of None \<Rightarrow> None | Some q \<Rightarrow> chain_each nx body q s')))"

lemma chain_cong:
  "(\<And>x. x \<in> set xs \<Longrightarrow> nx x = nx' x) \<Longrightarrow> chain nx p xs = chain nx' p xs"
  by (induction xs arbitrary: p) (auto split: option.splits)

lemma chain_unique: "chain nx p xs \<Longrightarrow> chain nx p ys \<Longrightarrow> xs = ys"
proof (induction xs arbitrary: p ys)
  case Nil
  then show ?case by (cases ys) auto
next
  case (Cons x xs)
  then show ?case by (cases ys) (auto split: option.splits)
qed

lemma chain_drop:
  "chain nx p (ys @ x # zs) \<Longrightarrow> chain nx (Some x) (x # zs)"
proof (induction ys arbitrary: p)
  case (Cons y ys)
  then obtain q where "chain nx q (ys @ x # zs)" by (auto split: option.splits)
  then show ?case by (rule Cons.IH)
qed simp

text \<open>A chain that ends cannot visit a node twice.\<close>

lemma chain_distinct: "chain nx p xs \<Longrightarrow> distinct xs"
proof (induction xs arbitrary: p)
  case Nil
  then show ?case by simp
next
  case (Cons x xs)
  then obtain q where q: "nx x = Some q" "chain nx q xs" by (auto split: option.splits)
  have "x \<notin> set xs"
  proof
    assume "x \<in> set xs"
    then obtain ys zs where xs: "xs = ys @ x # zs" by (auto simp: in_set_conv_decomp)
    with q have "chain nx (Some x) (x # zs)" by (auto dest: chain_drop)
    with q have "chain nx q zs" by simp
    with q(2) have "xs = zs" by (rule chain_unique)
    with xs show False by simp
  qed
  with Cons.IH [OF q(2)] show ?case by simp
qed

lemma chain_valid: "chain nx p xs \<Longrightarrow> x \<in> set xs \<Longrightarrow> nx x \<noteq> None"
  by (induction xs arbitrary: p) (auto split: option.splits)

lemma chain_push: "nx x = Some p \<Longrightarrow> chain nx p xs \<Longrightarrow> chain nx (Some x) (x # xs)"
  by simp

lemma chain_find_list:
  "chain (\<lambda>a. map_option nextOf (get a)) p xs \<Longrightarrow>
   chain_find get nextOf P p = Some (find (\<lambda>a. P (the (get a))) xs)"
proof (induction xs arbitrary: p)
  case Nil
  then show ?case by (subst chain_find.simps) simp
next
  case (Cons x xs)
  then obtain node where "p = Some x" "get x = Some node"
    "chain (\<lambda>a. map_option nextOf (get a)) (nextOf node) xs"
    by (auto split: option.splits)
  with Cons.IH show ?case by (subst chain_find.simps) simp
qed

lemma chain_each_list:
  assumes "chain (nx s) p xs"
    and "\<And>a u v b. a \<in> set xs \<Longrightarrow> b \<in> set xs \<Longrightarrow> body a u = Some v \<Longrightarrow> nx v b = nx u b"
  shows "chain_each nx body p s = fold_opt body xs s"
  using assms
proof (induction xs arbitrary: p s)
  case Nil
  then show ?case by (subst chain_each.simps) simp
next
  case (Cons x xs)
  then obtain q where p: "p = Some x" and q: "nx s x = Some q" "chain (nx s) q xs"
    by (auto split: option.splits)
  show ?case
  proof (cases "body x s")
    case None
    with p show ?thesis by (subst chain_each.simps) simp
  next
    case (Some s')
    have same: "nx s' b = nx s b" if "b \<in> set (x # xs)" for b
      using Cons.prems(2) [of x b s s'] that Some by simp
    then have "chain (nx s') q xs" using q(2) chain_cong [of xs "nx s'" "nx s" q] by simp
    then have "chain_each nx body q s' = fold_opt body xs s'"
      using Cons.prems(2) by (intro Cons.IH) (auto simp: image_iff)
    with p q same [of x] Some show ?thesis by (subst chain_each.simps) simp
  qed
qed

lemma chain_each_fold:
  assumes "chain (nx s) p xs" and "fold_opt body xs s = Some t"
    and "\<And>ys zs u. xs = ys @ zs \<Longrightarrow> fold_opt body ys s = Some u \<Longrightarrow> (\<forall>b \<in> set xs. nx u b = nx s b)"
  shows "chain_each nx body p s = Some t"
  using assms
proof (induction xs arbitrary: p s)
  case Nil
  then show ?case by (subst chain_each.simps) simp
next
  case (Cons x xs)
  from Cons.prems(1) obtain q where p: "p = Some x" and q: "nx s x = Some q" "chain (nx s) q xs"
    by (auto split: option.splits)
  from Cons.prems(2) obtain s' where s': "body x s = Some s'" "fold_opt body xs s' = Some t"
    by (auto split: option.splits)
  have same: "\<forall>b \<in> set (x # xs). nx s' b = nx s b"
    using Cons.prems(3) [of "[x]" xs s'] s' by simp
  have "chain (nx s') q xs" using q(2) same chain_cong [of xs "nx s'" "nx s" q] by simp
  moreover have "\<forall>b \<in> set xs. nx u b = nx s' b"
    if "xs = ys @ zs" "fold_opt body ys s' = Some u" for ys zs u
    using Cons.prems(3) [of "x # ys" zs u] that s' same by simp
  ultimately have "chain_each nx body q s' = Some t" using s'(2) by (intro Cons.IH) auto
  with p q same s' show ?case by (subst chain_each.simps) simp
qed

end
