(* ===== verification/ZIS_Registry.thy ===== *)
theory ZIS_Registry
  imports ZIS_Prelude
begin

text \<open>
  The descriptors a plug-in hands to the cross-memory server and the anchors the server keeps for
  them in common storage (src/c/zis/service.c, src/c/zis/plugin.c, src/h/zis/service.h,
  src/h/zis/plugin.h and the anchors of src/h/zis/server.h).

  A descriptor (\<open>ZISPlugin\<close>, \<open>ZISService\<close>) is private storage; an anchor (\<open>ZISPluginAnchor\<close>,
  \<open>ZISServiceAnchor\<close>, \<open>ZISServerAnchor\<close>) is a block of common storage that outlives the server and
  is found again by the next one. Common storage is modelled as three stores indexed by address.
  \<open>cmAlloc\<close> and \<open>safeMalloc\<close> are code outside the repository and are parameters. A name field of
  16 or 4 bytes is a string of that length; a zero-terminated class or entity field is the string
  before its NUL. Function pointers are addresses.
\<close>

type_synonym fnptr = addr

section \<open>Return codes and flags\<close>

abbreviation (input) RC_ZIS_OK :: rc where "RC_ZIS_OK \<equiv> 0"
abbreviation (input) RC_ZIS_ERROR :: rc where "RC_ZIS_ERROR \<equiv> 8"

abbreviation (input) RC_ZIS_PLUGIN_OK :: rc where "RC_ZIS_PLUGIN_OK \<equiv> 0"
abbreviation (input) RC_ZIS_PLUGIN_SEVICE_TABLE_FULL :: rc where "RC_ZIS_PLUGIN_SEVICE_TABLE_FULL \<equiv> 8"
abbreviation (input) RC_ZIS_PLUGIN_INCOMPATIBLE_SEVICE :: rc where
  "RC_ZIS_PLUGIN_INCOMPATIBLE_SEVICE \<equiv> 9"
abbreviation (input) RC_ZIS_PLUGIN_BAD_SERVICE_NAME :: rc where "RC_ZIS_PLUGIN_BAD_SERVICE_NAME \<equiv> 10"

definition ZIS_SERVICE_FLAG_SPACE_SWITCH :: flags where "ZIS_SERVICE_FLAG_SPACE_SWITCH = 1"
definition ZIS_SERVICE_FLAG_SPECIFIC_AUTH :: flags where "ZIS_SERVICE_FLAG_SPECIFIC_AUTH = 2"
definition ZIS_SERVICE_ANCHOR_FLAG_SPACE_SWITCH :: flags where "ZIS_SERVICE_ANCHOR_FLAG_SPACE_SWITCH = 1"
definition ZIS_SERVICE_ANCHOR_FLAG_SPECIFIC_AUTH :: flags where "ZIS_SERVICE_ANCHOR_FLAG_SPECIFIC_AUTH = 2"
definition ZIS_SERVICE_ANCHOR_STATE_ACTIVE :: flags where "ZIS_SERVICE_ANCHOR_STATE_ACTIVE = 1"
definition ZIS_SERVICE_ANCHOR_STATE_DISCARDED :: flags where "ZIS_SERVICE_ANCHOR_STATE_DISCARDED = 2"
definition ZIS_PLUGIN_FLAG_LPA :: flags where "ZIS_PLUGIN_FLAG_LPA = 1"
definition ZIS_PLUGIN_ANCHOR_FLAG_LPA :: flags where "ZIS_PLUGIN_ANCHOR_FLAG_LPA = 1"
definition ZIS_SERVER_ANCHOR_FLAG_DYNLINK :: flags where "ZIS_SERVER_ANCHOR_FLAG_DYNLINK = 1"
definition ZIS_SERVER_ANCHOR_VERSIONED_CONTEXT :: flags where "ZIS_SERVER_ANCHOR_VERSIONED_CONTEXT = 2"

lemmas flag_defs =
  ZIS_SERVICE_FLAG_SPACE_SWITCH_def ZIS_SERVICE_FLAG_SPECIFIC_AUTH_def
  ZIS_SERVICE_ANCHOR_FLAG_SPACE_SWITCH_def ZIS_SERVICE_ANCHOR_FLAG_SPECIFIC_AUTH_def
  ZIS_SERVICE_ANCHOR_STATE_ACTIVE_def ZIS_SERVICE_ANCHOR_STATE_DISCARDED_def
  ZIS_PLUGIN_FLAG_LPA_def ZIS_PLUGIN_ANCHOR_FLAG_LPA_def ZIS_SERVER_ANCHOR_FLAG_DYNLINK_def
  ZIS_SERVER_ANCHOR_VERSIONED_CONTEXT_def

definition ZIS_SERVICE_EYECATCHER :: string where "ZIS_SERVICE_EYECATCHER = ''ZISSRVCE''"
definition ZIS_SERVICE_ANCHOR_EYECATCHER :: string where "ZIS_SERVICE_ANCHOR_EYECATCHER = ''ZISSVCAN''"
definition ZIS_PLUGIN_EYECATCHER :: string where "ZIS_PLUGIN_EYECATCHER = ''ZISPLUGN''"
definition ZIS_PLUGIN_ANCHOR_EYECATCHER :: string where "ZIS_PLUGIN_ANCHOR_EYECATCHER = ''ZISPLGAN''"
definition ZIS_SERVER_ANCHOR_EYECATCHER :: string where "ZIS_SERVER_ANCHOR_EYECATCHER = ''ZISSRVAN''"

definition ZIS_SERVICE_VERSION :: int where "ZIS_SERVICE_VERSION = 2"
definition ZIS_SERVICE_ANCHOR_VERSION :: int where "ZIS_SERVICE_ANCHOR_VERSION = 2"
definition ZIS_SERVICE_ANCHOR_VERSION_SAF_SUPPORT :: int where "ZIS_SERVICE_ANCHOR_VERSION_SAF_SUPPORT = 2"
definition ZIS_PLUGIN_VERSION :: int where "ZIS_PLUGIN_VERSION = 1"
definition ZIS_PLUGIN_ANCHOR_VERSION :: int where "ZIS_PLUGIN_ANCHOR_VERSION = 1"
definition ZIS_SERVER_ANCHOR_VERSION :: int where "ZIS_SERVER_ANCHOR_VERSION = 1"
definition ZIS_SERVICE_ANY_VERSION :: "32 word" where "ZIS_SERVICE_ANY_VERSION = 0xFFFFFFFF"

section \<open>Descriptors and anchors\<close>

type_synonym ZISPluginName = string
type_synonym ZISPluginNickname = string
type_synonym ZISServiceName = string

record ZISServicePath =
  pluginName :: ZISPluginName
  serviceName :: ZISServiceName

record ZISServiceAnchor =
  sa_eyecatcher :: string
  sa_version :: int
  sa_size :: nat
  sa_flags :: flags
  sa_state :: flags
  sa_path :: ZISServicePath
  sa_serviceVersion :: "32 word"
  sa_next :: "addr option"
  sa_pluginAnchor :: "addr option"
  sa_serve :: "fnptr option"
  sa_serviceData :: string
  sa_safClassName :: string
  sa_safEntityName :: string

record ZISService =
  s_eyecatcher :: string
  s_version :: int
  s_flags :: flags
  s_anchor :: "addr option"
  s_name :: ZISServiceName
  s_init :: "fnptr option"
  s_term :: "fnptr option"
  s_serve :: "fnptr option"
  s_serviceVersion :: "32 word"
  s_safClassName :: string
  s_safEntityName :: string

text \<open>The parts of \<open>LPMEA\<close> the server reads: the module's name and its entry point.\<close>

record LPMEA =
  lp_name :: string
  lp_entryPointAddr :: "32 word"

record ZISPluginAnchor =
  pa_eyecatcher :: string
  pa_version :: int
  pa_size :: nat
  pa_flags :: flags
  pa_name :: ZISPluginName
  pa_pluginVersion :: "32 word"
  pa_next :: "addr option"
  pa_firstService :: "addr option"
  pa_moduleInfo :: LPMEA
  pa_pluginData :: string

text \<open>
  \<open>p_services\<close> are the service slots that the descriptor's storage really has room for;
  \<open>p_maxServiceCount\<close> and \<open>p_serviceCount\<close> are the two counters of the struct.
\<close>

record ZISPlugin =
  p_eyecatcher :: string
  p_version :: int
  p_size :: "32 word"
  p_flags :: flags
  p_maxServiceCount :: "32 word"
  p_next :: "addr option"
  p_anchor :: "addr option"
  p_name :: ZISPluginName
  p_nickname :: ZISPluginNickname
  p_init :: "fnptr option"
  p_term :: "fnptr option"
  p_handleCommand :: "fnptr option"
  p_pluginVersion :: "32 word"
  p_serviceCount :: "32 word"
  p_services :: "ZISService list"

record 'm ZISServerAnchor =
  sv_eyecatcher :: string
  sv_version :: int
  sv_size :: nat
  sv_flags :: flags
  sv_serviceTable :: "'m option"
  sv_firstPlugin :: "addr option"

definition sizeof_ZISServiceAnchor :: nat where "sizeof_ZISServiceAnchor = 424"
definition sizeof_ZISServerAnchor :: nat where "sizeof_ZISServerAnchor = 64"
definition sizeof_ZISPlugin :: "32 word" where "sizeof_ZISPlugin = 1028"
definition sizeof_ZISService :: "32 word" where "sizeof_ZISService = 504"

text \<open>Common storage.\<close>

record 'm CommonStorage =
  cs_servers :: "addr \<Rightarrow> 'm ZISServerAnchor option"
  cs_plugins :: "addr \<Rightarrow> ZISPluginAnchor option"
  cs_services :: "addr \<Rightarrow> ZISServiceAnchor option"

definition used :: "'m CommonStorage \<Rightarrow> addr \<Rightarrow> bool" where
  "used cs a \<longleftrightarrow> cs_servers cs a \<noteq> None \<or> cs_plugins cs a \<noteq> None \<or> cs_services cs a \<noteq> None"

section \<open>Services\<close>

definition emptyService :: ZISService where
  "emptyService = \<lparr>s_eyecatcher = replicate 8 nul, s_version = 0, s_flags = 0, s_anchor = None,
     s_name = replicate 16 nul, s_init = None, s_term = None, s_serve = None, s_serviceVersion = 0,
     s_safClassName = [], s_safEntityName = []\<rparr>"

definition zisCreateService ::
    "ZISServiceName \<Rightarrow> flags \<Rightarrow> fnptr option \<Rightarrow> fnptr option \<Rightarrow> fnptr option \<Rightarrow> 32 word \<Rightarrow> ZISService" where
  "zisCreateService name fl initFunction termFunction serveFunction version =
     emptyService\<lparr>s_eyecatcher := ZIS_SERVICE_EYECATCHER, s_version := ZIS_SERVICE_VERSION,
       s_flags := fl, s_name := name, s_init := initFunction, s_term := termFunction,
       s_serve := serveFunction, s_serviceVersion := version\<rparr>"

definition zisCreateSpaceSwitchService ::
    "ZISServiceName \<Rightarrow> fnptr option \<Rightarrow> fnptr option \<Rightarrow> fnptr option \<Rightarrow> 32 word \<Rightarrow> ZISService" where
  "zisCreateSpaceSwitchService name initFunction termFunction serveFunction version =
     zisCreateService name ZIS_SERVICE_FLAG_SPACE_SWITCH initFunction termFunction serveFunction version"

definition zisCreateCurrentPrimaryService ::
    "ZISServiceName \<Rightarrow> fnptr option \<Rightarrow> fnptr option \<Rightarrow> fnptr option \<Rightarrow> 32 word \<Rightarrow> ZISService" where
  "zisCreateCurrentPrimaryService name initFunction termFunction serveFunction version =
     zisCreateService name 0 initFunction termFunction serveFunction version"

definition zisServiceUseSpecificAuth :: "ZISService \<Rightarrow> string \<Rightarrow> string \<Rightarrow> rc \<times> ZISService" where
  "zisServiceUseSpecificAuth service className entityName =
     (if length className + 1 > 9 then (-1, service)
      else if length entityName + 1 > 256 then (-1, service)
      else (0, service\<lparr>s_safClassName := className, s_safEntityName := entityName,
                       s_flags := set_flag (s_flags service) ZIS_SERVICE_FLAG_SPECIFIC_AUTH\<rparr>))"

text \<open>
  \<open>zisCreateServiceAnchor\<close>: \<open>allocated\<close> is what \<open>cmAlloc\<close> answers for
  \<open>sizeof_ZISServiceAnchor\<close> bytes.
\<close>

definition serviceAnchorFlags :: "ZISService \<Rightarrow> flags" where
  "serviceAnchorFlags service =
     (let f0 = (if has_flag (s_flags service) ZIS_SERVICE_FLAG_SPACE_SWITCH
                then set_flag 0 ZIS_SERVICE_ANCHOR_FLAG_SPACE_SWITCH else 0)
      in if has_flag (s_flags service) ZIS_SERVICE_FLAG_SPECIFIC_AUTH
         then set_flag f0 ZIS_SERVICE_ANCHOR_FLAG_SPECIFIC_AUTH else f0)"

definition newServiceAnchor :: "ZISPlugin \<Rightarrow> ZISService \<Rightarrow> ZISServiceAnchor" where
  "newServiceAnchor plugin service =
     \<lparr>sa_eyecatcher = ZIS_SERVICE_ANCHOR_EYECATCHER, sa_version = ZIS_SERVICE_ANCHOR_VERSION,
      sa_size = sizeof_ZISServiceAnchor, sa_flags = serviceAnchorFlags service, sa_state = 0,
      sa_path = \<lparr>pluginName = p_name plugin, serviceName = s_name service\<rparr>,
      sa_serviceVersion = s_serviceVersion service, sa_next = None,
      sa_pluginAnchor = p_anchor plugin, sa_serve = s_serve service,
      sa_serviceData = replicate 64 nul,
      sa_safClassName = s_safClassName service, sa_safEntityName = s_safEntityName service\<rparr>"

definition zisCreateServiceAnchor ::
    "addr option \<Rightarrow> ZISPlugin \<Rightarrow> ZISService \<Rightarrow> 'm CommonStorage \<Rightarrow> addr option \<times> 'm CommonStorage" where
  "zisCreateServiceAnchor allocated plugin service cs =
     (case allocated of
        None \<Rightarrow> (None, cs)
      | Some a \<Rightarrow>
          (Some a, cs\<lparr>cs_services := (cs_services cs)(a \<mapsto> newServiceAnchor plugin service)\<rparr>))"

definition zisUpdateServiceAnchor :: "ZISServiceAnchor \<Rightarrow> ZISService \<Rightarrow> ZISServiceAnchor" where
  "zisUpdateServiceAnchor anchor service =
     (let anchor1 = anchor\<lparr>sa_flags := s_flags service, sa_serve := s_serve service,
                           sa_serviceVersion := s_serviceVersion service\<rparr>
      in if has_flag (s_flags service) ZIS_SERVICE_FLAG_SPECIFIC_AUTH \<and>
            sa_version anchor1 \<ge> ZIS_SERVICE_ANCHOR_VERSION_SAF_SUPPORT
         then anchor1\<lparr>sa_safClassName := s_safClassName service,
                      sa_safEntityName := s_safEntityName service\<rparr>
         else anchor1)"

section \<open>Plug-ins\<close>

text \<open>The character classes of the C locale.\<close>

definition isprint :: "char \<Rightarrow> bool" where
  "isprint c \<longleftrightarrow> 32 \<le> (of_char c :: nat) \<and> (of_char c :: nat) \<le> 126"

definition isgraph :: "char \<Rightarrow> bool" where
  "isgraph c \<longleftrightarrow> 33 \<le> (of_char c :: nat) \<and> (of_char c :: nat) \<le> 126"

definition isspace :: "char \<Rightarrow> bool" where
  "isspace c \<longleftrightarrow> of_char c = (32 :: nat) \<or> (9 \<le> (of_char c :: nat) \<and> (of_char c :: nat) \<le> 13)"

definition isPluginNameValid :: "ZISPluginName \<Rightarrow> bool" where
  "isPluginNameValid name = list_all isprint name"

definition isServiceNameValid :: "ZISServiceName \<Rightarrow> bool" where
  "isServiceNameValid name = list_all isprint name"

fun isNicknameValid_loop :: "nat \<Rightarrow> bool \<Rightarrow> string \<Rightarrow> bool" where
  "isNicknameValid_loop i spaceFound [] = True"
| "isNicknameValid_loop i spaceFound (c # cs) =
     (if \<not> isprint c then False
      else if isgraph c \<and> spaceFound then False
      else if isspace c
           then (if i = 0 then False else isNicknameValid_loop (Suc i) True cs)
           else isNicknameValid_loop (Suc i) spaceFound cs)"

definition isNicknameValid :: "ZISPluginNickname \<Rightarrow> bool" where
  "isNicknameValid nickname = isNicknameValid_loop 0 False nickname"

text \<open>
  \<open>zisCreatePlugin\<close>: the size is computed in 32 bits, and the storage holds as many service slots
  as that size has room for. \<open>malloc_ok\<close> tells whether \<open>safeMalloc\<close> can provide a size. The result
  is \<open>NULL\<close> or the descriptor; filling in a descriptor larger than its storage has no result.
\<close>

definition pluginSize :: "32 word \<Rightarrow> 32 word" where
  "pluginSize serviceCount = sizeof_ZISPlugin + sizeof_ZISService * serviceCount"

definition pluginSlots :: "32 word \<Rightarrow> nat" where
  "pluginSlots sz = (unat sz - unat sizeof_ZISPlugin) div unat sizeof_ZISService"

definition zisCreatePlugin ::
    "(32 word \<Rightarrow> bool) \<Rightarrow> ZISPluginName \<Rightarrow> ZISPluginNickname \<Rightarrow> fnptr option \<Rightarrow> fnptr option
     \<Rightarrow> fnptr option \<Rightarrow> 32 word \<Rightarrow> 32 word \<Rightarrow> flags \<Rightarrow> ZISPlugin option option" where
  "zisCreatePlugin malloc_ok name nickname initFunction termFunction commandFunction version
       serviceCount fl =
     (if \<not> isPluginNameValid name then Some None
      else if \<not> isNicknameValid nickname then Some None
      else let requiredSize = pluginSize serviceCount
           in if \<not> malloc_ok requiredSize then Some None
              else if requiredSize < sizeof_ZISPlugin then None
              else Some (Some
                \<lparr>p_eyecatcher = ZIS_PLUGIN_EYECATCHER, p_version = ZIS_PLUGIN_VERSION,
                 p_size = requiredSize, p_flags = fl, p_maxServiceCount = serviceCount,
                 p_next = None, p_anchor = None, p_name = name, p_nickname = nickname,
                 p_init = initFunction, p_term = termFunction,
                 p_handleCommand = commandFunction, p_pluginVersion = version,
                 p_serviceCount = 0,
                 p_services = replicate (pluginSlots requiredSize) emptyService\<rparr>))"

text \<open>
  \<open>zisPluginAddService\<close>: a service that runs in the current primary space needs a plug-in in the
  LPA. Storing behind the descriptor's storage has no result.
\<close>

definition zisPluginAddService :: "ZISPlugin \<Rightarrow> ZISService \<Rightarrow> (rc \<times> ZISPlugin) option" where
  "zisPluginAddService plugin service =
     (if p_maxServiceCount plugin = p_serviceCount plugin
      then Some (RC_ZIS_PLUGIN_SEVICE_TABLE_FULL, plugin)
      else let isPCCPService = \<not> has_flag (s_flags service) ZIS_SERVICE_ANCHOR_FLAG_SPACE_SWITCH;
               isLPAPlugin = has_flag (p_flags plugin) ZIS_PLUGIN_ANCHOR_FLAG_LPA
           in if isPCCPService \<and> \<not> isLPAPlugin
              then Some (RC_ZIS_PLUGIN_INCOMPATIBLE_SEVICE, plugin)
              else if \<not> isServiceNameValid (s_name service)
                   then Some (RC_ZIS_PLUGIN_BAD_SERVICE_NAME, plugin)
              else let i = unat (p_serviceCount plugin)
                   in if i < length (p_services plugin)
                      then Some (RC_ZIS_PLUGIN_OK,
                                 plugin\<lparr>p_services := (p_services plugin)[i := service],
                                        p_serviceCount := p_serviceCount plugin + 1\<rparr>)
                      else None)"

text \<open>\<open>zisCreatePluginAnchor\<close>: the size of \<open>LPMEA\<close> is outside the repository.\<close>

definition emptyLPMEA :: LPMEA where
  "emptyLPMEA = \<lparr>lp_name = replicate 8 nul, lp_entryPointAddr = 0\<rparr>"

definition sizeof_ZISPluginAnchor :: "nat \<Rightarrow> nat" where
  "sizeof_ZISPluginAnchor sizeof_LPMEA = 64 + sizeof_LPMEA + 64 + 88"

definition newPluginAnchor :: "nat \<Rightarrow> ZISPlugin \<Rightarrow> ZISPluginAnchor" where
  "newPluginAnchor sz plugin =
     \<lparr>pa_eyecatcher = ZIS_PLUGIN_ANCHOR_EYECATCHER, pa_version = ZIS_PLUGIN_ANCHOR_VERSION,
      pa_size = sz, pa_flags = 0, pa_name = p_name plugin,
      pa_pluginVersion = p_pluginVersion plugin, pa_next = None, pa_firstService = None,
      pa_moduleInfo = emptyLPMEA, pa_pluginData = replicate 64 nul\<rparr>"

definition zisCreatePluginAnchor ::
    "addr option \<Rightarrow> nat \<Rightarrow> ZISPlugin \<Rightarrow> 'm CommonStorage \<Rightarrow> addr option \<times> 'm CommonStorage" where
  "zisCreatePluginAnchor allocated sz plugin cs =
     (case allocated of
        None \<Rightarrow> (None, cs)
      | Some a \<Rightarrow> (Some a, cs\<lparr>cs_plugins := (cs_plugins cs)(a \<mapsto> newPluginAnchor sz plugin)\<rparr>))"

section \<open>Lemmas\<close>

lemma unat_pluginSize:
  assumes "unat n \<le> 8521758"
  shows "unat (pluginSize n) = 1028 + 504 * unat n"
proof -
  have "504 * unat n < 2 ^ 32" using assms by simp
  then have "unat (504 * n) = 504 * unat n"
    by (simp add: unat_mult_lem [THEN iffD1] unat_word_ariths)
  then show ?thesis
    using assms by (simp add: pluginSize_def sizeof_ZISPlugin_def sizeof_ZISService_def unat_word_ariths)
qed

lemma pluginSlots_pluginSize:
  "unat n \<le> 8521758 \<Longrightarrow> pluginSlots (pluginSize n) = unat n"
  by (simp add: pluginSlots_def unat_pluginSize sizeof_ZISPlugin_def sizeof_ZISService_def)

section \<open>Nicknames\<close>

lemma blank_char: "of_char c = (32 :: nat) \<longleftrightarrow> c = CHR '' ''"
proof
  assume "of_char c = (32 :: nat)"
  then have "of_char c = (of_char (CHR '' '') :: nat)" by simp
  then show "c = CHR '' ''" by (simp only: of_char_eq_iff)
qed simp

lemma isprint_cases: "isprint c \<longleftrightarrow> isgraph c \<or> c = CHR '' ''"
  using blank_char [of c] by (auto simp: isprint_def isgraph_def)

lemma isspace_blank: "isprint c \<Longrightarrow> isspace c \<longleftrightarrow> c = CHR '' ''"
  using blank_char [of c] by (auto simp: isprint_def isspace_def)

lemma blank_not_graph: "\<not> isgraph CHR '' ''"
  by (simp add: isgraph_def)

lemma nickname_after_blank:
  "i > 0 \<Longrightarrow> isNicknameValid_loop i True cs \<longleftrightarrow> cs = replicate (length cs) CHR '' ''"
proof (induction cs arbitrary: i)
  case (Cons c cs)
  then show ?case
    using isprint_cases [of c] isspace_blank [of c] blank_not_graph by auto
qed simp

lemma nickname_before_blank:
  "i > 0 \<Longrightarrow> isNicknameValid_loop i False cs \<longleftrightarrow>
     (\<exists>g k. list_all isgraph g \<and> cs = g @ replicate k CHR '' '')"
proof (induction cs arbitrary: i)
  case Nil
  then show ?case by simp
next
  case (Cons c cs)
  show ?case
  proof (cases "c = CHR '' ''")
    case True
    have "isNicknameValid_loop i False (c # cs) \<longleftrightarrow> c # cs = replicate (length (c # cs)) CHR '' ''"
      using True Cons.prems nickname_after_blank [of "Suc i" cs] isprint_cases [of c]
        isspace_blank [of c] blank_not_graph by simp
    also have "\<dots> \<longleftrightarrow> (\<exists>g k. list_all isgraph g \<and> c # cs = g @ replicate k CHR '' '')"
    proof
      assume "c # cs = replicate (length (c # cs)) CHR '' ''"
      then have "list_all isgraph [] \<and> c # cs = [] @ replicate (length (c # cs)) CHR '' ''" by simp
      then show "\<exists>g k. list_all isgraph g \<and> c # cs = g @ replicate k CHR '' ''" by blast
    next
      assume "\<exists>g k. list_all isgraph g \<and> c # cs = g @ replicate k CHR '' ''"
      then obtain g k where g: "list_all isgraph g" "c # cs = g @ replicate k CHR '' ''" by blast
      then have "g = []" using True blank_not_graph by (cases g) auto
      with g(2) show "c # cs = replicate (length (c # cs)) CHR '' ''"
        by (metis append_Nil length_replicate)
    qed
    finally show ?thesis .
  next
    case False
    then have "isNicknameValid_loop i False (c # cs) \<longleftrightarrow>
        isgraph c \<and> (\<exists>g k. list_all isgraph g \<and> cs = g @ replicate k CHR '' '')"
      using Cons.IH [of "Suc i"] isprint_cases [of c] isspace_blank [of c] by auto
    also have "\<dots> \<longleftrightarrow> (\<exists>g k. list_all isgraph g \<and> c # cs = g @ replicate k CHR '' '')"
    proof
      assume "isgraph c \<and> (\<exists>g k. list_all isgraph g \<and> cs = g @ replicate k CHR '' '')"
      then obtain g k where "list_all isgraph (c # g)" "c # cs = (c # g) @ replicate k CHR '' ''"
        by auto
      then show "\<exists>g k. list_all isgraph g \<and> c # cs = g @ replicate k CHR '' ''" by blast
    next
      assume "\<exists>g k. list_all isgraph g \<and> c # cs = g @ replicate k CHR '' ''"
      then obtain g k where g: "list_all isgraph g" "c # cs = g @ replicate k CHR '' ''" by blast
      with False obtain g' where "g = c # g'" by (cases g; cases k) auto
      with g show "isgraph c \<and> (\<exists>g k. list_all isgraph g \<and> cs = g @ replicate k CHR '' '')" by auto
    qed
    finally show ?thesis .
  qed
qed

section \<open>Filling the service table\<close>

definition service_acceptable :: "flags \<Rightarrow> ZISService \<Rightarrow> bool" where
  "service_acceptable fl s \<longleftrightarrow>
     isServiceNameValid (s_name s) \<and>
     (has_flag (s_flags s) ZIS_SERVICE_FLAG_SPACE_SWITCH \<or> has_flag fl ZIS_PLUGIN_FLAG_LPA)"

definition add_ok :: "ZISService \<Rightarrow> ZISPlugin \<Rightarrow> ZISPlugin option" where
  "add_ok s p = (case zisPluginAddService p s of
     Some (r, p') \<Rightarrow> (if r = RC_ZIS_PLUGIN_OK then Some p' else None) | None \<Rightarrow> None)"

definition plugin_table :: "ZISPlugin \<Rightarrow> ZISService list" where
  "plugin_table p = take (unat (p_serviceCount p)) (p_services p)"

text \<open>The counters agree with the storage of the descriptor.\<close>

definition plugin_wf :: "ZISPlugin \<Rightarrow> bool" where
  "plugin_wf p \<longleftrightarrow>
     unat (p_serviceCount p) \<le> unat (p_maxServiceCount p) \<and>
     length (p_services p) = unat (p_maxServiceCount p)"

lemma zisCreatePlugin_wf:
  assumes "zisCreatePlugin m name nick i t c v n fl = Some (Some p)" and "unat n \<le> 8521758"
  shows "plugin_wf p \<and> plugin_table p = [] \<and> p_flags p = fl \<and> p_maxServiceCount p = n"
  using assms
  by (auto simp: zisCreatePlugin_def plugin_wf_def plugin_table_def pluginSlots_pluginSize Let_def
      split: if_splits)

lemma count_less:
  assumes "unat (a :: 32 word) \<le> unat b" and "b \<noteq> a"
  shows "unat a < unat b" and "unat (a + 1) = Suc (unat a)"
proof -
  show l: "unat a < unat b" using assms by (metis le_neq_implies_less unsigned_word_eqI)
  have "a \<noteq> - 1"
  proof
    assume "a = - 1"
    then have "b \<le> a" by simp
    with l show False by (simp add: word_less_nat_alt word_le_nat_alt)
  qed
  then have "1 + a \<noteq> 0" by (metis add.commute add_eq_0_iff)
  then have "unat (1 + a) = Suc (unat a)" by (simp add: unatSuc)
  then show "unat (a + 1) = Suc (unat a)" by (simp add: add.commute)
qed

lemma zisPluginAddService_wf:
  assumes "plugin_wf p"
  shows "zisPluginAddService p s =
     (if p_maxServiceCount p = p_serviceCount p then Some (RC_ZIS_PLUGIN_SEVICE_TABLE_FULL, p)
      else if \<not> has_flag (s_flags s) ZIS_SERVICE_FLAG_SPACE_SWITCH \<and> \<not> has_flag (p_flags p) ZIS_PLUGIN_FLAG_LPA
           then Some (RC_ZIS_PLUGIN_INCOMPATIBLE_SEVICE, p)
      else if \<not> isServiceNameValid (s_name s) then Some (RC_ZIS_PLUGIN_BAD_SERVICE_NAME, p)
      else Some (RC_ZIS_PLUGIN_OK,
                 p\<lparr>p_services := (p_services p)[unat (p_serviceCount p) := s],
                   p_serviceCount := p_serviceCount p + 1\<rparr>))"
  using assms count_less(1) [of "p_serviceCount p" "p_maxServiceCount p"]
  by (auto simp: zisPluginAddService_def plugin_wf_def Let_def flag_defs)

lemma add_ok_wf:
  assumes "plugin_wf p" and "p_maxServiceCount p \<noteq> p_serviceCount p"
    and "service_acceptable (p_flags p) s"
  obtains p' where "add_ok s p = Some p'" and "plugin_wf p'"
    and "plugin_table p' = plugin_table p @ [s]" and "p_flags p' = p_flags p"
    and "p_maxServiceCount p' = p_maxServiceCount p"
proof -
  let ?n = "unat (p_serviceCount p)"
  let ?p' = "p\<lparr>p_services := (p_services p)[?n := s], p_serviceCount := p_serviceCount p + 1\<rparr>"
  have le: "?n \<le> unat (p_maxServiceCount p)" and len: "length (p_services p) = unat (p_maxServiceCount p)"
    using assms(1) by (auto simp: plugin_wf_def)
  note c = count_less [OF le assms(2)]
  have "add_ok s p = Some ?p'"
    using assms by (auto simp: add_ok_def zisPluginAddService_wf service_acceptable_def)
  moreover have "plugin_wf ?p'" using c len by (simp add: plugin_wf_def)
  moreover have "plugin_table ?p' = plugin_table p @ [s]"
    using c len by (simp add: plugin_table_def take_Suc_conv_app_nth)
  ultimately show thesis by (intro that [of ?p']) auto
qed

lemma plugin_table_length: "plugin_wf p \<Longrightarrow> length (plugin_table p) = unat (p_serviceCount p)"
  by (simp add: plugin_table_def plugin_wf_def)

lemma add_all_wf:
  assumes "plugin_wf p" and "list_all (service_acceptable (p_flags p)) ss"
    and "length (plugin_table p) + length ss \<le> unat (p_maxServiceCount p)"
  shows "\<exists>p'. fold_opt add_ok ss p = Some p' \<and> plugin_wf p' \<and>
     plugin_table p' = plugin_table p @ ss \<and> p_maxServiceCount p' = p_maxServiceCount p"
  using assms
proof (induction ss arbitrary: p)
  case Nil
  then show ?case by simp
next
  case (Cons s ss)
  have "p_maxServiceCount p \<noteq> p_serviceCount p"
    using Cons.prems(3) plugin_table_length [OF Cons.prems(1)] by auto
  then obtain p1 where p1: "add_ok s p = Some p1" "plugin_wf p1" "plugin_table p1 = plugin_table p @ [s]"
    "p_flags p1 = p_flags p" "p_maxServiceCount p1 = p_maxServiceCount p"
    using add_ok_wf [OF Cons.prems(1)] Cons.prems(2) by auto
  with Cons.IH [of p1] Cons.prems show ?case by auto
qed

section \<open>Properties\<close>

text \<open>
  A nickname of four bytes is accepted exactly when it is one or more graphic characters
  followed by blanks only, so that it is the space-padded form of a non-empty name.
\<close>

theorem isNicknameValid_shape:
  assumes "length nick = 4"
  shows "isNicknameValid nick \<longleftrightarrow>
     (\<exists>g k. g \<noteq> [] \<and> list_all isgraph g \<and> nick = g @ replicate k CHR '' '')"
proof -
  obtain c cs where n: "nick = c # cs" using assms by (cases nick) auto
  have "isNicknameValid nick \<longleftrightarrow> isgraph c \<and> (\<exists>g k. list_all isgraph g \<and> cs = g @ replicate k CHR '' '')"
    using nickname_before_blank [of 1 cs] isprint_cases [of c] isspace_blank [of c] blank_not_graph n
    by (auto simp: isNicknameValid_def)
  also have "\<dots> \<longleftrightarrow> (\<exists>g k. g \<noteq> [] \<and> list_all isgraph g \<and> nick = g @ replicate k CHR '' '')"
  proof
    assume "isgraph c \<and> (\<exists>g k. list_all isgraph g \<and> cs = g @ replicate k CHR '' '')"
    then obtain g k where "list_all isgraph (c # g)" "nick = (c # g) @ replicate k CHR '' ''"
      using n by auto
    then show "\<exists>g k. g \<noteq> [] \<and> list_all isgraph g \<and> nick = g @ replicate k CHR '' ''" by blast
  next
    assume "\<exists>g k. g \<noteq> [] \<and> list_all isgraph g \<and> nick = g @ replicate k CHR '' ''"
    then show "isgraph c \<and> (\<exists>g k. list_all isgraph g \<and> cs = g @ replicate k CHR '' '')"
      using n by (auto simp: Cons_eq_append_conv)
  qed
  finally show ?thesis .
qed

theorem isNicknameValid_shape_witness:
  "length ''SVC '' = 4 \<and> (\<exists>g k. g \<noteq> [] \<and> list_all isgraph g \<and> ''SVC '' = g @ replicate k CHR '' '')"
proof -
  have "isNicknameValid ''SVC ''" by (simp add: isNicknameValid_def isprint_def isgraph_def isspace_def)
  then show ?thesis using isNicknameValid_shape [of "''SVC ''"] by simp
qed

text \<open>
  A descriptor made for \<open>n\<close> services, where the size computed in 32 bits does not wrap, takes
  exactly \<open>n\<close> acceptable services: each is stored behind the previous ones, inside the
  descriptor's storage, and the table then refuses every further service.
\<close>

theorem plugin_service_capacity:
  assumes "zisCreatePlugin malloc_ok name nick i t c v n fl = Some (Some p)" and "unat n \<le> 8521758"
    and "list_all (service_acceptable fl) ss" and "length ss \<le> unat n"
  shows "\<exists>p'. fold_opt add_ok ss p = Some p' \<and> plugin_table p' = ss \<and>
     (length ss = unat n \<longrightarrow> zisPluginAddService p' s = Some (RC_ZIS_PLUGIN_SEVICE_TABLE_FULL, p'))"
proof -
  note p = zisCreatePlugin_wf [OF assms(1,2)]
  then obtain p' where p': "fold_opt add_ok ss p = Some p'" "plugin_wf p'" "plugin_table p' = ss"
    "p_maxServiceCount p' = n"
    using add_all_wf [of p ss] assms(3,4) by auto
  have "length ss = unat n \<Longrightarrow> p_maxServiceCount p' = p_serviceCount p'"
    using plugin_table_length [OF p'(2)] p'(3,4) by (metis unsigned_word_eqI)
  with p' show ?thesis by (auto simp: zisPluginAddService_wf)
qed

theorem plugin_service_capacity_witness:
  "\<exists>p p'. zisCreatePlugin (\<lambda>_. True) ''PLUGIN          '' ''PLG '' None None None 1 1 1 = Some (Some p) \<and>
     fold_opt add_ok [zisCreateCurrentPrimaryService ''SERVICE         '' None None (Some 7) 1] p = Some p' \<and>
     zisPluginAddService p' emptyService = Some (RC_ZIS_PLUGIN_SEVICE_TABLE_FULL, p')"
proof -
  let ?s = "zisCreateCurrentPrimaryService ''SERVICE         '' None None (Some 7) 1"
  obtain p where p: "zisCreatePlugin (\<lambda>_. True) ''PLUGIN          '' ''PLG '' None None None 1 1 1 = Some (Some p)"
    by (simp add: zisCreatePlugin_def isPluginNameValid_def isNicknameValid_def isprint_def
        isgraph_def isspace_def pluginSize_def sizeof_ZISPlugin_def sizeof_ZISService_def)
  have "list_all (service_acceptable 1) [?s]"
    by (simp add: service_acceptable_def isServiceNameValid_def isprint_def has_flag_def flag_defs
        zisCreateCurrentPrimaryService_def zisCreateService_def emptyService_def)
  with p show ?thesis
    using plugin_service_capacity [OF p, of "[?s]" emptyService] by auto
qed

text \<open>
  \<open>zisCreatePlugin\<close> does not check that its size computation stays within 32 bits: for
  8521759 services the size wraps to 268 bytes, less than the descriptor alone, and when
  \<open>safeMalloc\<close> provides those bytes the code fills in fields behind them.
\<close>

theorem zisCreatePlugin_size_wraps:
  assumes "isPluginNameValid name" and "isNicknameValid nick" and "malloc_ok 268"
  shows "pluginSize 8521759 = 268 \<and>
     zisCreatePlugin malloc_ok name nick i t c v 8521759 fl = None"
proof -
  have wrap: "pluginSize 8521759 = 268"
    by (simp add: pluginSize_def sizeof_ZISPlugin_def sizeof_ZISService_def)
  show ?thesis
    using assms unfolding zisCreatePlugin_def Let_def wrap by (simp add: sizeof_ZISPlugin_def)
qed

theorem zisCreatePlugin_size_wraps_witness:
  "zisCreatePlugin (\<lambda>n. n = 268) ''PLUGIN          '' ''PLG '' None None None 1 8521759 0 = None"
  using zisCreatePlugin_size_wraps [of "''PLUGIN          ''" "''PLG ''" "\<lambda>n. n = 268" None None None 1 0]
  by (simp add: isPluginNameValid_def isNicknameValid_def isprint_def isgraph_def isspace_def)

text \<open>
  A service that was given a SAF class and entity keeps them on the way into common storage:
  the call succeeds exactly when the class has at most 8 and the entity at most 255 characters, and
  then both a new anchor and an existing anchor that is updated, if its version supports SAF
  fields, ask for the specific authorization with that class and entity.
\<close>

theorem specific_auth_carried:
  assumes "zisServiceUseSpecificAuth service cls ent = (r, service')"
  shows "(r = 0 \<longleftrightarrow> length cls \<le> 8 \<and> length ent \<le> 255) \<and> (r \<noteq> 0 \<longrightarrow> service' = service) \<and>
     (r = 0 \<longrightarrow> (\<forall>anchor \<in> {newServiceAnchor plugin service', zisUpdateServiceAnchor old service'}.
        sa_version anchor \<ge> ZIS_SERVICE_ANCHOR_VERSION_SAF_SUPPORT \<longrightarrow>
        has_flag (sa_flags anchor) ZIS_SERVICE_ANCHOR_FLAG_SPECIFIC_AUTH \<and>
        sa_safClassName anchor = cls \<and> sa_safEntityName anchor = ent))"
proof -
  have set2: "has_flag (set_flag w 2) 2" for w by (rule set_flag_has) simp
  show ?thesis
    using assms
    by (auto simp: zisServiceUseSpecificAuth_def newServiceAnchor_def serviceAnchorFlags_def
        zisUpdateServiceAnchor_def flag_defs set2 Let_def split: if_splits)
qed

theorem specific_auth_carried_witness:
  "\<forall>p. has_flag
     (sa_flags (newServiceAnchor p (snd (zisServiceUseSpecificAuth emptyService ''FACILITY'' ''ZWES.X''))))
     ZIS_SERVICE_ANCHOR_FLAG_SPECIFIC_AUTH"
proof
  fix p
  let ?s = "snd (zisServiceUseSpecificAuth emptyService ''FACILITY'' ''ZWES.X'')"
  have "zisServiceUseSpecificAuth emptyService ''FACILITY'' ''ZWES.X'' = (0, ?s)"
    by (simp add: zisServiceUseSpecificAuth_def)
  from specific_auth_carried [OF this, of p]
  show "has_flag (sa_flags (newServiceAnchor p ?s)) ZIS_SERVICE_ANCHOR_FLAG_SPECIFIC_AUTH"
    by (simp add: newServiceAnchor_def ZIS_SERVICE_ANCHOR_VERSION_def
        ZIS_SERVICE_ANCHOR_VERSION_SAF_SUPPORT_def)
qed

end
