(* ===== verification/ZIS_Parm.thy ===== *)
theory ZIS_Parm
  imports ZIS_Prelude
begin

text \<open>
  The parameter set of the cross-memory server (src/c/zis/parm.c, src/h/zis/parm.h): the linked
  list of key/value entries (\<open>zisMakeParmSet\<close>, \<open>zisPutParmValue\<close>, \<open>zisGetParmValue\<close>,
  \<open>zisIterateParms\<close>, \<open>zisLoadParmsToCMServer\<close>), the JCL parameter string
  (\<open>zisReadMainParms\<close>) and the PARMLIB member (\<open>getTrimmedSlice\<close>, \<open>handleParmRecord\<close>,
  \<open>iterateMember\<close>, \<open>zisReadParmlib\<close>).

  The list is modelled at the level of its pointers: an entry's address is its position in
  \<open>ps_entries\<close>, and \<open>ps_firstEntry\<close>, \<open>ps_lastEntry\<close> and \<open>pse_next\<close> are the pointers of the
  C structs. The loops over it follow those pointers. \<open>SLHAlloc\<close>, the IEFPRMLB macro,
  \<open>safeMalloc31\<close>, \<open>safeMalloc\<close> and \<open>cmsAddConfigParm\<close> are code outside the repository and are parameters.
\<close>

section \<open>Return codes\<close>

abbreviation (input) RC_ZISPARM_OK :: rc where "RC_ZISPARM_OK \<equiv> 0"
abbreviation (input) RC_ZISPARM_MEMBER_NOT_FOUND :: rc where "RC_ZISPARM_MEMBER_NOT_FOUND \<equiv> 2"
abbreviation (input) RC_ZISPARM_DDNAME_TOO_LONG :: rc where "RC_ZISPARM_DDNAME_TOO_LONG \<equiv> 8"
abbreviation (input) RC_ZISPARM_MEMBER_NAME_TOO_LONG :: rc where "RC_ZISPARM_MEMBER_NAME_TOO_LONG \<equiv> 9"
abbreviation (input) RC_ZISPARM_PARMLIB_ALLOC_FAILED :: rc where "RC_ZISPARM_PARMLIB_ALLOC_FAILED \<equiv> 10"
abbreviation (input) RC_ZISPARM_READ_BUFFER_ALLOC_FAILED :: rc where
  "RC_ZISPARM_READ_BUFFER_ALLOC_FAILED \<equiv> 11"
abbreviation (input) RC_ZISPARM_PARMLIB_READ_FAILED :: rc where "RC_ZISPARM_PARMLIB_READ_FAILED \<equiv> 12"
abbreviation (input) RC_ZISPARM_PARMLIB_FREE_FAILED :: rc where "RC_ZISPARM_PARMLIB_FREE_FAILED \<equiv> 13"
abbreviation (input) RC_ZISPARM_SLH_ALLOC_FAILED :: rc where "RC_ZISPARM_SLH_ALLOC_FAILED \<equiv> 16"
abbreviation (input) RC_ZISPARM_CMS_CALL_FAILED :: rc where "RC_ZISPARM_CMS_CALL_FAILED \<equiv> 17"
abbreviation (input) RC_ZISPARM_ALLOC_FAILED :: rc where "RC_ZISPARM_ALLOC_FAILED \<equiv> 18"
abbreviation (input) RC_ZISPARM_CONTINUATION_TOO_LONG :: rc where
  "RC_ZISPARM_CONTINUATION_TOO_LONG \<equiv> 19"

section \<open>The short-lived heap\<close>

text \<open>
  \<open>SLHAlloc\<close> belongs to zowe-common-c. A heap is its allocation function together with its
  internal state: asked for \<open>n\<close> bytes it answers \<open>NULL\<close> or the C string that the fresh storage
  happens to hold. \<open>strcat\<close> appends to that string.
\<close>

record 's ShortLivedHeap =
  slh_alloc :: "'s \<Rightarrow> nat \<Rightarrow> string option \<times> 's"
  slh_state :: 's

definition SLHAlloc :: "'s ShortLivedHeap \<Rightarrow> nat \<Rightarrow> string option \<times> 's ShortLivedHeap" where
  "SLHAlloc h n =
     (let (r, st) = slh_alloc h (slh_state h) n in (r, h\<lparr>slh_state := st\<rparr>))"

text \<open>What \<open>zisPutParmValue\<close> relies on: fresh storage starts as an empty string.\<close>

definition slh_zeroed :: "'s ShortLivedHeap \<Rightarrow> bool" where
  "slh_zeroed h \<longleftrightarrow> (\<forall>st n s st'. slh_alloc h st n = (Some s, st') \<longrightarrow> s = [])"

section \<open>The parameter set\<close>

record ZISParmSetEntry =
  pse_next :: "addr option"
  pse_key :: "string option"
  pse_value :: "string option"

record 's ZISParmSet =
  ps_slh :: "'s ShortLivedHeap"
  ps_firstEntry :: "addr option"
  ps_lastEntry :: "addr option"
  ps_entries :: "ZISParmSetEntry list"

definition sizeof_ZISParmSetEntry :: nat where
  "sizeof_ZISParmSetEntry = 32"

definition sizeof_ZISParmSet :: nat where
  "sizeof_ZISParmSet = 32"

text \<open>\<open>findEntry\<close>: the loop follows \<open>next\<close> from \<open>firstEntry\<close>; \<open>strcmp\<close> needs a key.\<close>

partial_function (option) findEntry_loop ::
    "ZISParmSetEntry list \<Rightarrow> addr option \<Rightarrow> string \<Rightarrow> addr option option" where
  "findEntry_loop es parm name =
     (case parm of
        None \<Rightarrow> Some None
      | Some a \<Rightarrow>
          (if a < length es
           then (case pse_key (es ! a) of
                   None \<Rightarrow> None
                 | Some k \<Rightarrow>
                     (if k = name then Some (Some a)
                      else findEntry_loop es (pse_next (es ! a)) name))
           else None))"

definition findEntry :: "'s ZISParmSet \<Rightarrow> string \<Rightarrow> addr option option" where
  "findEntry parms name = findEntry_loop (ps_entries parms) (ps_firstEntry parms) name"

text \<open>
  The first half of \<open>zisPutParmValue\<close>: take the entry found, or allocate one, zero it and link it
  behind \<open>lastEntry\<close>. The result holds the entry's address, or \<open>None\<close> when the allocation failed.
\<close>

definition newEntry :: ZISParmSetEntry where
  "newEntry = \<lparr>pse_next = None, pse_key = None, pse_value = None\<rparr>"

definition obtainEntry :: "'s ZISParmSet \<Rightarrow> string \<Rightarrow> (addr option \<times> 's ZISParmSet) option" where
  "obtainEntry parms name =
     (case findEntry parms name of
        None \<Rightarrow> None
      | Some (Some a) \<Rightarrow> Some (Some a, parms)
      | Some None \<Rightarrow>
          (case SLHAlloc (ps_slh parms) sizeof_ZISParmSetEntry of
             (None, slh) \<Rightarrow> Some (None, parms\<lparr>ps_slh := slh\<rparr>)
           | (Some _, slh) \<Rightarrow>
               (let a = length (ps_entries parms);
                    es = ps_entries parms @ [newEntry];
                    parms = parms\<lparr>ps_slh := slh\<rparr>
                in case ps_firstEntry parms of
                     None \<Rightarrow>
                       Some (Some a, parms\<lparr>ps_entries := es, ps_firstEntry := Some a,
                                           ps_lastEntry := Some a\<rparr>)
                   | Some _ \<Rightarrow>
                       (case ps_lastEntry parms of
                          None \<Rightarrow> None
                        | Some l \<Rightarrow>
                            (if l < length es
                             then Some (Some a, parms\<lparr>ps_entries := es[l := (es ! l)\<lparr>pse_next := Some a\<rparr>],
                                                      ps_lastEntry := Some a\<rparr>)
                             else None)))))"

text \<open>\<open>entry->key\<close>, allocated and filled by \<open>strcat\<close> only when it is still \<open>NULL\<close>.\<close>

definition setEntryKey :: "'s ZISParmSet \<Rightarrow> addr \<Rightarrow> string \<Rightarrow> rc \<times> 's ZISParmSet" where
  "setEntryKey parms a name =
     (let es = ps_entries parms in
      case pse_key (es ! a) of
        Some _ \<Rightarrow> (RC_ZISPARM_OK, parms)
      | None \<Rightarrow>
          (case SLHAlloc (ps_slh parms) (length name + 1) of
             (None, slh) \<Rightarrow> (RC_ZISPARM_SLH_ALLOC_FAILED, parms\<lparr>ps_slh := slh\<rparr>)
           | (Some s, slh) \<Rightarrow>
               (RC_ZISPARM_OK,
                parms\<lparr>ps_slh := slh, ps_entries := es[a := (es ! a)\<lparr>pse_key := Some (s @ name)\<rparr>]\<rparr>)))"

text \<open>\<open>entry->value\<close> is overwritten even when the allocation answers \<open>NULL\<close>.\<close>

definition setEntryValue :: "'s ZISParmSet \<Rightarrow> addr \<Rightarrow> string \<Rightarrow> rc \<times> 's ZISParmSet" where
  "setEntryValue parms a val =
     (let es = ps_entries parms in
      case SLHAlloc (ps_slh parms) (length val + 1) of
        (None, slh) \<Rightarrow>
          (RC_ZISPARM_SLH_ALLOC_FAILED,
           parms\<lparr>ps_slh := slh, ps_entries := es[a := (es ! a)\<lparr>pse_value := None\<rparr>]\<rparr>)
      | (Some s, slh) \<Rightarrow>
          (RC_ZISPARM_OK,
           parms\<lparr>ps_slh := slh, ps_entries := es[a := (es ! a)\<lparr>pse_value := Some (s @ val)\<rparr>]\<rparr>))"

definition zisPutParmValue ::
    "'s ZISParmSet \<Rightarrow> string \<Rightarrow> string \<Rightarrow> (rc \<times> 's ZISParmSet) option" where
  "zisPutParmValue parms name val =
     (case obtainEntry parms name of
        None \<Rightarrow> None
      | Some (None, parms1) \<Rightarrow> Some (RC_ZISPARM_SLH_ALLOC_FAILED, parms1)
      | Some (Some a, parms1) \<Rightarrow>
          (let (keyRC, parms2) = setEntryKey parms1 a name
           in if keyRC \<noteq> RC_ZISPARM_OK then Some (keyRC, parms2)
              else Some (setEntryValue parms2 a val)))"

definition zisGetParmValue :: "'s ZISParmSet \<Rightarrow> string \<Rightarrow> string option option" where
  "zisGetParmValue parms name =
     (case findEntry parms name of
        None \<Rightarrow> None
      | Some None \<Rightarrow> Some None
      | Some (Some a) \<Rightarrow> Some (pse_value (ps_entries parms ! a)))"

definition ZIS_PARM_TEST_PARM_NAME :: string where
  "ZIS_PARM_TEST_PARM_NAME = ''TEST_ZIS_PARM''"

definition ZIS_PARM_TEST_PARM_VALUE :: string where
  "ZIS_PARM_TEST_PARM_VALUE = ''THIS VALUE MUST BE AVAILABLE IN ANY SERVICE''"

text \<open>
  \<open>zisMakeParmSet\<close>: the argument is what \<open>makeShortLivedHeap\<close> answers. The inner \<open>option\<close> of the
  result is the returned pointer; on every failure the heap is freed and \<open>NULL\<close> returned.
\<close>

definition zisMakeParmSet :: "'s ShortLivedHeap option \<Rightarrow> 's ZISParmSet option option" where
  "zisMakeParmSet made =
     (case made of
        None \<Rightarrow> Some None
      | Some slh0 \<Rightarrow>
          (case SLHAlloc slh0 sizeof_ZISParmSet of
             (None, _) \<Rightarrow> Some None
           | (Some _, slh) \<Rightarrow>
               (case zisPutParmValue
                       \<lparr>ps_slh = slh, ps_firstEntry = None, ps_lastEntry = None, ps_entries = []\<rparr>
                       ZIS_PARM_TEST_PARM_NAME ZIS_PARM_TEST_PARM_VALUE of
                  None \<Rightarrow> None
                | Some (putRC, parms) \<Rightarrow>
                    Some (if putRC \<noteq> RC_ZISPARM_OK then None else Some parms))))"

text \<open>
  \<open>zisIterateParms\<close>: the visitor gets the two pointers of each entry; its user data is the
  accumulator.
\<close>

partial_function (option) iterateParms_loop ::
    "ZISParmSetEntry list \<Rightarrow> (string option \<Rightarrow> string option \<Rightarrow> 'd \<Rightarrow> 'd) \<Rightarrow> addr option \<Rightarrow> 'd \<Rightarrow> 'd option" where
  "iterateParms_loop es visitor currParm d =
     (case currParm of
        None \<Rightarrow> Some d
      | Some a \<Rightarrow>
          (if a < length es
           then iterateParms_loop es visitor (pse_next (es ! a))
                  (visitor (pse_key (es ! a)) (pse_value (es ! a)) d)
           else None))"

definition zisIterateParms ::
    "'s ZISParmSet \<Rightarrow> (string option \<Rightarrow> string option \<Rightarrow> 'd \<Rightarrow> 'd) \<Rightarrow> 'd \<Rightarrow> 'd option" where
  "zisIterateParms parms visitor d =
     iterateParms_loop (ps_entries parms) visitor (ps_firstEntry parms) d"

text \<open>
  \<open>zisLoadParmsToCMServer\<close>: \<open>cmsAddConfigParm\<close> is a parameter that answers its return code and
  the server behind the call. The result holds the return code, the reason code and the server.
\<close>

partial_function (option) loadParms_loop ::
    "('srv \<Rightarrow> string option \<Rightarrow> string option \<Rightarrow> rc \<times> 'srv) \<Rightarrow> ZISParmSetEntry list \<Rightarrow> addr option
     \<Rightarrow> 'srv \<Rightarrow> rc \<Rightarrow> (rc \<times> rc \<times> 'srv) option" where
  "loadParms_loop cmsAddConfigParm es parm server reasonCode =
     (case parm of
        None \<Rightarrow> Some (RC_ZISPARM_OK, reasonCode, server)
      | Some a \<Rightarrow>
          (if a < length es
           then let r = cmsAddConfigParm server (pse_key (es ! a)) (pse_value (es ! a))
                in if fst r \<noteq> 0 then Some (RC_ZISPARM_CMS_CALL_FAILED, fst r, snd r)
                   else loadParms_loop cmsAddConfigParm es (pse_next (es ! a)) (snd r) reasonCode
           else None))"

definition zisLoadParmsToCMServer ::
    "('srv \<Rightarrow> string option \<Rightarrow> string option \<Rightarrow> rc \<times> 'srv) \<Rightarrow> 'srv \<Rightarrow> 's ZISParmSet \<Rightarrow> rc
     \<Rightarrow> (rc \<times> rc \<times> 'srv) option" where
  "zisLoadParmsToCMServer cmsAddConfigParm server parms reasonCode =
     loadParms_loop cmsAddConfigParm (ps_entries parms) (ps_firstEntry parms) server reasonCode"

section \<open>The JCL parameter string\<close>

text \<open>
  \<open>zisReadMainParms\<close>: the inner loop looks for the next comma, the outer one puts each piece
  into the set. The piece is copied into the work buffer and read back as a C string.
\<close>

function endOfParm :: "string \<Rightarrow> nat \<Rightarrow> nat" where
  "endOfParm text endIdx =
     (if endIdx < length text \<and> text ! endIdx \<noteq> CHR '','' then endOfParm text (Suc endIdx) else endIdx)"
  by pat_completeness auto
termination
  by (relation "measure (\<lambda>(text, endIdx). length text - endIdx)") auto

declare endOfParm.simps [simp del]

lemma endOfParm_ge: "i \<le> endOfParm str i"
proof (induction str i rule: endOfParm.induct)
  case (1 str i)
  then show ?case by (subst endOfParm.simps) (auto intro: Suc_leD)
qed

definition parmKeyValue :: "string \<Rightarrow> string \<times> string" where
  "parmKeyValue rec =
     (case split_at CHR ''='' (cstr rec) of
        (key, None) \<Rightarrow> (key, [])
      | (key, Some val) \<Rightarrow> (key, val))"

function readMainParms_loop ::
    "'s ZISParmSet \<Rightarrow> string \<Rightarrow> nat \<Rightarrow> (rc \<times> 's ZISParmSet) option" where
  "readMainParms_loop parms text startIdx =
     (if startIdx < length text
      then let endIdx = endOfParm text startIdx;
               (key, val) = parmKeyValue (take (endIdx - startIdx) (drop startIdx text))
           in case zisPutParmValue parms key val of
                None \<Rightarrow> None
              | Some (addRC, parms') \<Rightarrow>
                  (if addRC \<noteq> RC_ZISPARM_OK then Some (addRC, parms')
                   else readMainParms_loop parms' text (Suc endIdx))
      else Some (RC_ZISPARM_OK, parms))"
  by pat_completeness auto
termination
  by (relation "measure (\<lambda>(parms, text, startIdx). length text - startIdx)")
    (auto intro!: diff_less_mono2 simp: endOfParm_ge less_Suc_eq_le)

declare readMainParms_loop.simps [simp del]

definition zisReadMainParms ::
    "bool \<Rightarrow> 's ZISParmSet \<Rightarrow> string \<Rightarrow> (rc \<times> 's ZISParmSet) option" where
  "zisReadMainParms workBufferAllocated parms text =
     (if \<not> workBufferAllocated then Some (RC_ZISPARM_ALLOC_FAILED, parms)
      else readMainParms_loop parms text 0)"

section \<open>PARMLIB records\<close>

text \<open>
  \<open>getTrimmedSlice\<close>: two index loops over the record. The result is the offset of the slice and
  its length; an all-blank record keeps offset 0.
\<close>

function trimFront :: "string \<Rightarrow> nat \<Rightarrow> nat \<Rightarrow> nat \<times> nat" where
  "trimFront str i resultLength =
     (if i < length str
      then if str ! i \<noteq> CHR '' '' then (i, resultLength) else trimFront str (Suc i) (resultLength - 1)
      else (0, resultLength))"
  by pat_completeness auto
termination
  by (relation "measure (\<lambda>(str, i, resultLength). length str - i)") auto

function trimBack :: "string \<Rightarrow> nat \<Rightarrow> nat \<Rightarrow> nat" where
  "trimBack str i resultLength =
     (if resultLength = 0 \<or> str ! i \<noteq> CHR '' '' then resultLength
      else trimBack str (i - 1) (resultLength - 1))"
  by pat_completeness auto
termination
  by (relation "measure (\<lambda>(str, i, resultLength). resultLength)") auto

declare trimFront.simps [simp del] trimBack.simps [simp del]

definition getTrimmedSlice :: "string \<Rightarrow> nat \<times> nat" where
  "getTrimmedSlice str =
     (if length str = 0 then (0, 0)
      else let (result, resultLength) = trimFront str 0 (length str)
           in (result, trimBack str (length str - 1) resultLength))"

definition isParmCommentedOut :: "string \<Rightarrow> bool" where
  "isParmCommentedOut parm =
     ((length parm \<ge> 1 \<and> take 1 parm = ''*'') \<or> (length parm \<ge> 3 \<and> take 3 parm = ''//*''))"

text \<open>
  \<open>ParmRecordVisitorData\<close>: \<open>pv_currRecord\<close> is the first \<open>currRecordLen\<close> bytes of the buffer, so
  \<open>currRecordLen\<close> is its length.
\<close>

record 's ParmRecordVisitorData =
  pv_parmSet :: "'s ZISParmSet"
  pv_currRecordStart :: nat
  pv_currRecordEnd :: nat
  pv_currRecord :: string

definition sizeof_currRecord :: nat where
  "sizeof_currRecord = 4096"

text \<open>The last part of \<open>handleParmRecord\<close>: a copy of the full record, split at \<open>=\<close> and put.\<close>

definition putFullRecord ::
    "'s ParmRecordVisitorData \<Rightarrow> (rc \<times> 's ParmRecordVisitorData) option" where
  "putFullRecord ctx =
     (let full = pv_currRecord ctx; parms = pv_parmSet ctx in
      case SLHAlloc (ps_slh parms) (length full + 1) of
        (None, slh) \<Rightarrow> Some (RC_ZISPARM_SLH_ALLOC_FAILED, ctx\<lparr>pv_parmSet := parms\<lparr>ps_slh := slh\<rparr>\<rparr>)
      | (Some _, slh) \<Rightarrow>
          (let ctx = ctx\<lparr>pv_currRecord := [], pv_parmSet := parms\<lparr>ps_slh := slh\<rparr>\<rparr>;
               (key, val) = parmKeyValue full
           in case zisPutParmValue (pv_parmSet ctx) key val of
                None \<Rightarrow> None
              | Some (putRC, parms') \<Rightarrow> Some (putRC, ctx\<lparr>pv_parmSet := parms'\<rparr>)))"

definition handleParmRecord ::
    "string \<Rightarrow> 's ParmRecordVisitorData \<Rightarrow> (rc \<times> 's ParmRecordVisitorData) option" where
  "handleParmRecord rec ctx0 =
     (let ctx1 = ctx0\<lparr>pv_currRecordEnd := pv_currRecordEnd ctx0 + 1\<rparr>;
          ctx = (if pv_currRecord ctx1 = []
                 then ctx1\<lparr>pv_currRecordStart := pv_currRecordEnd ctx1\<rparr> else ctx1);
          (off, sliceLength) = getTrimmedSlice rec;
          slice = take sliceLength (drop off rec)
      in if pv_currRecord ctx = [] \<and> isParmCommentedOut slice then Some (RC_ZISPARM_OK, ctx)
         else if length (pv_currRecord ctx) + sliceLength + 1 > sizeof_currRecord
              then Some (RC_ZISPARM_CONTINUATION_TOO_LONG, ctx)
         else let joined = pv_currRecord ctx @ slice
              in if sliceLength > 0 \<and> slice ! (sliceLength - 1) = CHR 0x5C
                 then Some (RC_ZISPARM_OK, ctx\<lparr>pv_currRecord := butlast joined\<rparr>)
                 else putFullRecord (ctx\<lparr>pv_currRecord := joined\<rparr>))"

text \<open>\<open>iterateMember\<close> over the records of the member, with \<open>handleParmRecord\<close> as the visitor.\<close>

fun iterateMember ::
    "string list \<Rightarrow> 's ParmRecordVisitorData \<Rightarrow> (rc \<times> 's ParmRecordVisitorData) option" where
  "iterateMember [] ctx = Some (RC_ZISPARM_OK, ctx)"
| "iterateMember (r # rs) ctx =
     (case handleParmRecord r ctx of
        None \<Rightarrow> None
      | Some (visitorRC, ctx') \<Rightarrow>
          (if visitorRC \<noteq> 0 then Some (visitorRC, ctx') else iterateMember rs ctx'))"

section \<open>Reading the PARMLIB member\<close>

text \<open>
  The IEFPRMLB services and \<open>safeMalloc31\<close> as parameters. \<open>pl_read\<close> is given the padded DD and
  member names and the size of the buffer, and answers its return and reason codes, the size the
  member requires and the records it stored.
\<close>

record iefprmlb =
  pl_alloc :: "string \<Rightarrow> rc \<times> rc"
  pl_read :: "string \<Rightarrow> string \<Rightarrow> nat \<Rightarrow> rc \<times> rc \<times> nat \<times> string list"
  pl_free :: "string \<Rightarrow> rc \<times> rc"
  pl_malloc31 :: "nat \<Rightarrow> bool"

abbreviation (input) RC_IEFPRMLB_OK :: rc where "RC_IEFPRMLB_OK \<equiv> 0"
abbreviation (input) RC_IEFPRMLB_WARN :: rc where "RC_IEFPRMLB_WARN \<equiv> 4"
abbreviation (input) RC_IEFPRMLB_FAILED :: rc where "RC_IEFPRMLB_FAILED \<equiv> 12"
abbreviation (input) RSN_IEFPRMLB_ALREADY_ALLOCATED :: rc where "RSN_IEFPRMLB_ALREADY_ALLOCATED \<equiv> 1"
abbreviation (input) RSN_IEFPRMLB_MEMBER_NOT_FOUND :: rc where "RSN_IEFPRMLB_MEMBER_NOT_FOUND \<equiv> 1"
abbreviation (input) RSN_IEFPRMLB_BUFFER_FULL :: rc where "RSN_IEFPRMLB_BUFFER_FULL \<equiv> 10"

record ZISParmStatus =
  st_internalRC :: int
  st_internalRSN :: int

definition READ_BUFFER_DEFAULT_SIZE :: nat where
  "READ_BUFFER_DEFAULT_SIZE = 1024 * 1024"

definition sizeof_IEFPRMLBHeader :: nat where
  "sizeof_IEFPRMLBHeader = 24"

definition allocReadBuffer :: "iefprmlb \<Rightarrow> nat \<Rightarrow> bool" where
  "allocReadBuffer lib bufSize = (bufSize > sizeof_IEFPRMLBHeader \<and> pl_malloc31 lib bufSize)"

text \<open>
  The read loop, at most two rounds. Its result is the status, the read status and the buffer's
  records (\<open>None\<close>: the buffer pointer is \<open>NULL\<close>).
\<close>

fun readMember_loop ::
    "iefprmlb \<Rightarrow> string \<Rightarrow> string \<Rightarrow> nat \<Rightarrow> nat \<Rightarrow> rc \<Rightarrow> ZISParmStatus \<Rightarrow> string list option
     \<Rightarrow> rc \<times> ZISParmStatus \<times> string list option" where
  "readMember_loop lib dd mem 0 bufSize status rs buf = (status, rs, buf)"
| "readMember_loop lib dd mem (Suc rounds) bufSize status rs buf =
     (if status \<noteq> RC_ZISPARM_OK then (status, rs, buf)
      else if \<not> allocReadBuffer lib bufSize then (RC_ZISPARM_READ_BUFFER_ALLOC_FAILED, rs, None)
      else let (readRC, readRSN, required, records) = pl_read lib dd mem bufSize
           in if readRC = RC_IEFPRMLB_OK then (status, rs, Some records)
              else if readRC = RC_IEFPRMLB_FAILED \<and> readRSN = RSN_IEFPRMLB_MEMBER_NOT_FOUND
                   then (RC_ZISPARM_MEMBER_NOT_FOUND, rs, Some records)
              else if readRC = RC_IEFPRMLB_FAILED \<and> readRSN = RSN_IEFPRMLB_BUFFER_FULL
                   then readMember_loop lib dd mem rounds required status rs None
              else readMember_loop lib dd mem rounds bufSize RC_ZISPARM_PARMLIB_READ_FAILED
                     \<lparr>st_internalRC = readRC, st_internalRSN = readRSN\<rparr> (Some records))"

definition zisReadParmlib ::
    "iefprmlb \<Rightarrow> 's ZISParmSet \<Rightarrow> string \<Rightarrow> string \<Rightarrow> ZISParmStatus
     \<Rightarrow> (rc \<times> ZISParmStatus \<times> 's ZISParmSet) option" where
  "zisReadParmlib lib parms ddname member readStatus =
     (if length ddname > 8 then Some (RC_ZISPARM_DDNAME_TOO_LONG, readStatus, parms)
      else if length member > 8 then Some (RC_ZISPARM_MEMBER_NAME_TOO_LONG, readStatus, parms)
      else
        let dd = space_pad 8 ddname; mem = space_pad 8 member;
            (allocRC, allocRSN) = pl_alloc lib dd;
            (ddnameAllocated, status0, rs0) =
              (if allocRC = RC_IEFPRMLB_OK then (True, RC_ZISPARM_OK, readStatus)
               else if allocRC = RC_IEFPRMLB_WARN \<and> allocRSN = RSN_IEFPRMLB_ALREADY_ALLOCATED
                    then (False, RC_ZISPARM_OK, readStatus)
               else (False, RC_ZISPARM_PARMLIB_ALLOC_FAILED,
                     \<lparr>st_internalRC = allocRC, st_internalRSN = allocRSN\<rparr>));
            (status1, rs1, buf) =
              readMember_loop lib dd mem 2 READ_BUFFER_DEFAULT_SIZE status0 rs0 None;
            visited =
              (if status1 = RC_ZISPARM_OK
               then (case buf of
                       None \<Rightarrow> None
                     | Some records \<Rightarrow>
                         (case iterateMember records
                                 \<lparr>pv_parmSet = parms, pv_currRecordStart = 0,
                                  pv_currRecordEnd = 0, pv_currRecord = []\<rparr> of
                            None \<Rightarrow> None
                          | Some (iterateRC, v) \<Rightarrow>
                              Some (iterateRC,
                                    (if iterateRC \<noteq> RC_ZISPARM_OK
                                     then \<lparr>st_internalRC = int (pv_currRecordStart v),
                                           st_internalRSN = int (pv_currRecordEnd v)\<rparr>
                                     else rs1),
                                    pv_parmSet v)))
               else Some (status1, rs1, parms))
        in case visited of
             None \<Rightarrow> None
           | Some (status2, rs2, parms2) \<Rightarrow>
               (if ddnameAllocated
                then let (freeRC, freeRSN) = pl_free lib dd
                     in if freeRC = RC_IEFPRMLB_OK then Some (status2, rs2, parms2)
                        else if status2 \<noteq> RC_ZISPARM_OK
                             then Some (RC_ZISPARM_PARMLIB_FREE_FAILED,
                                        \<lparr>st_internalRC = freeRC, st_internalRSN = freeRSN\<rparr>, parms2)
                             else Some (status2, rs2, parms2)
                else Some (status2, rs2, parms2)))"

section \<open>Well-formed sets\<close>

text \<open>
  The chain runs through all entries in the order of their allocation, every entry has a key and
  a value, and no key occurs twice.
\<close>

definition parm_ptr :: "ZISParmSetEntry list \<Rightarrow> nat \<Rightarrow> addr option" where
  "parm_ptr es i = (if i < length es then Some i else None)"

definition parm_linked :: "'s ZISParmSet \<Rightarrow> bool" where
  "parm_linked ps \<longleftrightarrow>
     (let es = ps_entries ps in
      ps_firstEntry ps = parm_ptr es 0 \<and>
      ps_lastEntry ps = (if es = [] then None else Some (length es - 1)) \<and>
      (\<forall>i < length es. pse_next (es ! i) = parm_ptr es (Suc i)))"

definition entry_full :: "ZISParmSetEntry \<Rightarrow> bool" where
  "entry_full e \<longleftrightarrow> pse_key e \<noteq> None \<and> pse_value e \<noteq> None"

definition parm_wf :: "'s ZISParmSet \<Rightarrow> bool" where
  "parm_wf ps \<longleftrightarrow>
     parm_linked ps \<and> list_all entry_full (ps_entries ps) \<and>
     distinct (map pse_key (ps_entries ps))"

text \<open>The abstract value of a set: its keys and values, in the order of the chain.\<close>

definition entry_pair :: "ZISParmSetEntry \<Rightarrow> string \<times> string" where
  "entry_pair e = (the (pse_key e), the (pse_value e))"

definition parm_alist :: "'s ZISParmSet \<Rightarrow> (string \<times> string) list" where
  "parm_alist ps = map entry_pair (ps_entries ps)"

definition parm_inv :: "'s ZISParmSet \<Rightarrow> bool" where
  "parm_inv ps \<longleftrightarrow> parm_wf ps \<and> slh_zeroed (ps_slh ps)"

section \<open>Lookup follows the chain\<close>

lemma findEntry_loop_from:
  assumes links: "\<forall>i < length es. pse_next (es ! i) = parm_ptr es (Suc i)"
    and keys: "\<forall>i < length es. pse_key (es ! i) \<noteq> None"
    and "j \<le> length es"
  shows "findEntry_loop es (parm_ptr es j) name =
           Some (find (\<lambda>i. pse_key (es ! i) = Some name) [j..<length es])"
  using assms(3)
proof (induction "length es - j" arbitrary: j)
  case 0
  then have "j = length es" by simp
  then show ?case by (subst findEntry_loop.simps) (simp add: parm_ptr_def)
next
  case (Suc n)
  then have j: "j < length es" by simp
  then obtain k where k: "pse_key (es ! j) = Some k" using keys by auto
  have "findEntry_loop es (parm_ptr es (Suc j)) name =
          Some (find (\<lambda>i. pse_key (es ! i) = Some name) [Suc j..<length es])"
    using Suc.hyps(1) [of "Suc j"] Suc.hyps(2) j by simp
  with j k links show ?case
    by (subst findEntry_loop.simps) (simp add: parm_ptr_def upt_conv_Cons)
qed

lemma findEntry_wf:
  assumes "parm_wf ps"
  shows "findEntry ps name =
           Some (find (\<lambda>i. pse_key (ps_entries ps ! i) = Some name) [0..<length (ps_entries ps)])"
proof -
  have "\<forall>i < length (ps_entries ps). pse_key (ps_entries ps ! i) \<noteq> None"
    using assms by (auto simp: parm_wf_def list_all_length entry_full_def)
  then show ?thesis
    using assms findEntry_loop_from [of "ps_entries ps" 0 name]
    by (simp add: findEntry_def parm_wf_def parm_linked_def Let_def)
qed

lemma findEntry_absent:
  assumes "parm_wf ps" and "Some name \<notin> set (map pse_key (ps_entries ps))"
  shows "findEntry ps name = Some None"
proof -
  have "find (\<lambda>i. pse_key (ps_entries ps ! i) = Some name) [0..<length (ps_entries ps)] = None"
    using assms(2) by (auto simp: find_None_iff) (metis imageI nth_mem)
  then show ?thesis using findEntry_wf [OF assms(1)] by simp
qed

lemma findEntry_present:
  assumes wf: "parm_wf ps" and i: "i < length (ps_entries ps)"
    and key: "pse_key (ps_entries ps ! i) = Some name"
  shows "findEntry ps name = Some (Some i)"
proof -
  let ?es = "ps_entries ps"
  have uniq: "j = i" if "j < length ?es" "pse_key (?es ! j) = Some name" for j
    using wf that i key by (auto simp: parm_wf_def distinct_conv_nth) metis
  have "find (\<lambda>i. pse_key (?es ! i) = Some name) [0..<length ?es] \<noteq> None"
    using i key by (auto simp: find_None_iff)
  then obtain j where j: "find (\<lambda>i. pse_key (?es ! i) = Some name) [0..<length ?es] = Some j"
    by auto
  then have "j < length ?es" "pse_key (?es ! j) = Some name"
    by (auto dest: find_Some_mem)
  with uniq j show ?thesis using findEntry_wf [OF wf] by simp
qed

lemma parm_alist_keys:
  "parm_wf ps \<Longrightarrow> map Some (map fst (parm_alist ps)) = map pse_key (ps_entries ps)"
  by (auto simp: parm_wf_def parm_alist_def list_all_iff entry_pair_def entry_full_def)

lemma parm_alist_distinct: "parm_wf ps \<Longrightarrow> distinct (map fst (parm_alist ps))"
  using parm_alist_keys [of ps] distinct_map [of Some "map fst (parm_alist ps)"]
  by (simp add: parm_wf_def)

lemma parm_absent_iff:
  "parm_wf ps \<Longrightarrow> Some name \<notin> set (map pse_key (ps_entries ps)) \<longleftrightarrow> name \<notin> set (map fst (parm_alist ps))"
  by (force simp: parm_wf_def parm_alist_def list_all_iff entry_pair_def entry_full_def)

lemma zisGetParmValue_wf:
  assumes wf: "parm_wf ps"
  shows "zisGetParmValue ps name = Some (map_of (parm_alist ps) name)"
proof (cases "Some name \<in> set (map pse_key (ps_entries ps))")
  case False
  then have "map_of (parm_alist ps) name = None"
    using parm_absent_iff [OF wf] by (simp add: map_of_eq_None_iff)
  with False show ?thesis
    using findEntry_absent [OF wf] by (simp add: zisGetParmValue_def)
next
  case True
  then obtain i where i: "i < length (ps_entries ps)" "pse_key (ps_entries ps ! i) = Some name"
    by (auto simp: in_set_conv_nth)
  obtain v where v: "pse_value (ps_entries ps ! i) = Some v"
    using wf i(1) by (auto simp: parm_wf_def list_all_length entry_full_def)
  have "(name, v) \<in> set (parm_alist ps)"
    using i v by (force simp: parm_alist_def entry_pair_def in_set_conv_nth)
  then have "map_of (parm_alist ps) name = Some v"
    using parm_alist_distinct [OF wf] by simp
  with findEntry_present [OF wf i] v show ?thesis by (simp add: zisGetParmValue_def)
qed

section \<open>Insertion refines the update of an association list\<close>

lemma alist_update_present:
  "distinct (map fst al) \<Longrightarrow> i < length al \<Longrightarrow> fst (al ! i) = k \<Longrightarrow>
   AList.update k v al = al[i := (k, v)]"
proof (induction al arbitrary: i)
  case Nil
  then show ?case by simp
next
  case (Cons p al)
  show ?case
  proof (cases i)
    case 0
    with Cons.prems show ?thesis by (cases p) simp
  next
    case (Suc j)
    with Cons.prems have "fst p \<noteq> k" by (metis distinct.simps(2) length_Cons list.simps(9)
        not_less_eq nth_Cons_Suc nth_map nth_mem length_map)
    with Suc Cons show ?thesis by (cases p) simp
  qed
qed

lemma alist_update_absent:
  "k \<notin> set (map fst al) \<Longrightarrow> AList.update k v al = al @ [(k, v)]"
  by (induction al) auto

lemma SLHAlloc_props:
  assumes "SLHAlloc h n = (r, h')"
  shows "slh_zeroed h' = slh_zeroed h" and "slh_zeroed h \<Longrightarrow> r = Some s \<Longrightarrow> s = []"
proof -
  have "slh_alloc h' = slh_alloc h" using assms by (auto simp: SLHAlloc_def split: prod.splits)
  then show "slh_zeroed h' = slh_zeroed h" unfolding slh_zeroed_def by simp
  show "slh_zeroed h \<Longrightarrow> r = Some s \<Longrightarrow> s = []"
    using assms unfolding slh_zeroed_def SLHAlloc_def by (auto split: prod.splits)
qed

lemma parm_ptr_append:
  "i < length es \<Longrightarrow> parm_ptr (es @ [e]) (Suc i) = Some (Suc i)"
  by (simp add: parm_ptr_def)

text \<open>Linking a fresh entry behind the last one keeps the chain complete.\<close>

definition appendEntry :: "'s ZISParmSet \<Rightarrow> 's ShortLivedHeap \<Rightarrow> 's ZISParmSet" where
  "appendEntry ps slh =
     (let es = ps_entries ps; n = length es in
      ps\<lparr>ps_slh := slh,
         ps_entries := (if n = 0 then [newEntry]
                        else (es @ [newEntry])[n - 1 := (es ! (n - 1))\<lparr>pse_next := Some n\<rparr>]),
         ps_firstEntry := Some 0, ps_lastEntry := Some n\<rparr>)"

lemma obtainEntry_absent:
  assumes wf: "parm_wf ps" and absent: "Some name \<notin> set (map pse_key (ps_entries ps))"
  shows "obtainEntry ps name =
           Some (case SLHAlloc (ps_slh ps) sizeof_ZISParmSetEntry of
                   (None, slh) \<Rightarrow> (None, ps\<lparr>ps_slh := slh\<rparr>)
                 | (Some _, slh) \<Rightarrow> (Some (length (ps_entries ps)), appendEntry ps slh))"
  using findEntry_absent [OF wf absent] wf
  by (auto simp: obtainEntry_def appendEntry_def parm_wf_def parm_linked_def parm_ptr_def Let_def
      nth_append split: prod.splits option.splits)

lemma appendEntry_linked:
  assumes "parm_linked ps"
  shows "parm_linked (appendEntry ps slh)"
proof (cases "ps_entries ps = []")
  case True
  then show ?thesis
    by (simp add: appendEntry_def parm_linked_def parm_ptr_def newEntry_def)
next
  case False
  then obtain n where "length (ps_entries ps) = Suc n" by (cases "ps_entries ps") auto
  with False assms show ?thesis
    by (auto simp: appendEntry_def parm_linked_def parm_ptr_def newEntry_def nth_append
        nth_list_update Let_def less_Suc_eq)
qed

lemma appendEntry_pairs:
  "map (\<lambda>e. (pse_key e, pse_value e)) (ps_entries (appendEntry ps slh)) =
   map (\<lambda>e. (pse_key e, pse_value e)) (ps_entries ps) @ [(None, None)]"
  by (rule nth_equalityI)
    (auto simp: appendEntry_def newEntry_def nth_append nth_list_update Let_def less_Suc_eq)

lemma linked_update:
  assumes "parm_linked ps" and "pse_next e = pse_next (ps_entries ps ! a)"
  shows "parm_linked (ps\<lparr>ps_slh := slh, ps_entries := (ps_entries ps)[a := e]\<rparr>)"
proof -
  have "pse_next ((ps_entries ps)[a := e] ! i) = pse_next (ps_entries ps ! i)"
    if "i < length (ps_entries ps)" for i
    using assms(2) that by (cases "i = a") auto
  then show ?thesis
    using assms(1) by (simp add: parm_linked_def parm_ptr_def Let_def)
qed

lemma setEntryKey_fresh:
  assumes set: "setEntryKey ps a k = (rc, ps')" and none: "pse_key (ps_entries ps ! a) = None"
    and z: "slh_zeroed (ps_slh ps)"
  shows "(rc = 0 \<and> slh_zeroed (ps_slh ps') \<and> (\<exists>slh. ps' = ps\<lparr>ps_slh := slh,
            ps_entries := (ps_entries ps)[a := (ps_entries ps ! a)\<lparr>pse_key := Some k\<rparr>]\<rparr>))
         \<or> rc = RC_ZISPARM_SLH_ALLOC_FAILED"
proof -
  obtain r slh where alloc: "SLHAlloc (ps_slh ps) (length k + 1) = (r, slh)" by fastforce
  show ?thesis
    using set none alloc SLHAlloc_props [OF alloc] z
    by (cases r) (auto simp: setEntryKey_def Let_def)
qed

lemma setEntryValue_ok:
  assumes set: "setEntryValue ps a v = (rc, ps')" and z: "slh_zeroed (ps_slh ps)"
  shows "(rc = 0 \<and> slh_zeroed (ps_slh ps') \<and> (\<exists>slh. ps' = ps\<lparr>ps_slh := slh,
            ps_entries := (ps_entries ps)[a := (ps_entries ps ! a)\<lparr>pse_value := Some v\<rparr>]\<rparr>))
         \<or> rc = RC_ZISPARM_SLH_ALLOC_FAILED"
proof -
  obtain r slh where alloc: "SLHAlloc (ps_slh ps) (length v + 1) = (r, slh)" by fastforce
  show ?thesis
    using set alloc SLHAlloc_props [OF alloc] z
    by (cases r) (auto simp: setEntryValue_def Let_def)
qed

lemma put_present:
  assumes inv: "parm_inv ps" and i: "i < length (ps_entries ps)"
    and key: "pse_key (ps_entries ps ! i) = Some k"
  obtains rc ps' where "zisPutParmValue ps k v = Some (rc, ps')"
    and "rc = 0 \<and> parm_inv ps' \<and> parm_alist ps' = (parm_alist ps)[i := (k, v)]
         \<or> rc = RC_ZISPARM_SLH_ALLOC_FAILED"
proof -
  let ?es = "ps_entries ps"
  have wf: "parm_wf ps" and z: "slh_zeroed (ps_slh ps)" using inv by (auto simp: parm_inv_def)
  obtain rc ps' where sv: "setEntryValue ps i v = (rc, ps')" by fastforce
  have put: "zisPutParmValue ps k v = Some (rc, ps')"
    using findEntry_present [OF wf i key] key sv
    by (simp add: zisPutParmValue_def obtainEntry_def setEntryKey_def)
  have "rc = 0 \<Longrightarrow> parm_inv ps' \<and> parm_alist ps' = (parm_alist ps)[i := (k, v)]"
  proof -
    assume "rc = 0"
    with setEntryValue_ok [OF sv z] obtain slh where z': "slh_zeroed (ps_slh ps')"
      and ps': "ps' = ps\<lparr>ps_slh := slh, ps_entries := ?es[i := (?es ! i)\<lparr>pse_value := Some v\<rparr>]\<rparr>"
      by auto
    have "parm_linked ps'" unfolding ps' using wf by (intro linked_update) (auto simp: parm_wf_def)
    moreover have "list_all entry_full (ps_entries ps')"
      using wf i key by (auto simp: ps' parm_wf_def list_all_length entry_full_def nth_list_update)
    moreover have "map pse_key (ps_entries ps') = map pse_key ?es"
      using i by (auto simp: ps' intro!: nth_equalityI simp: nth_list_update)
    ultimately have "parm_wf ps'" using wf by (simp add: parm_wf_def)
    moreover have "parm_alist ps' = (parm_alist ps)[i := (k, v)]"
      using i key by (simp add: ps' parm_alist_def map_update entry_pair_def)
    ultimately show ?thesis using z' by (simp add: parm_inv_def)
  qed
  with put setEntryValue_ok [OF sv z] show thesis by (intro that) auto
qed

text \<open>A linked entry that got its key and its value extends the abstract list by one pair.\<close>

lemma completed_entry:
  fixes ps :: "'s ZISParmSet"
  defines "n \<equiv> length (ps_entries ps)"
  assumes wf: "parm_wf ps" and absent: "Some k \<notin> set (map pse_key (ps_entries ps))"
    and es1: "es1 = ps_entries (appendEntry ps slh)"
    and ps': "ps' = (appendEntry ps slh)\<lparr>ps_slh := slh', ps_entries :=
                 es1[n := (es1 ! n)\<lparr>pse_key := Some k, pse_value := Some v\<rparr>]\<rparr>"
  shows "parm_wf ps'" and "parm_alist ps' = parm_alist ps @ [(k, v)]"
proof -
  let ?kv = "\<lambda>e. (pse_key e, pse_value e)"
  have kv1: "map ?kv es1 = map ?kv (ps_entries ps) @ [(None, None)]"
    unfolding es1 by (rule appendEntry_pairs)
  have len1: "length es1 = Suc n" using arg_cong [OF kv1, of length] by (simp add: n_def)
  have kv: "map ?kv (ps_entries ps') = map ?kv (ps_entries ps) @ [(Some k, Some v)]"
  proof -
    have "map ?kv (ps_entries ps') = (map ?kv es1)[n := (Some k, Some v)]"
      using len1 by (simp add: ps' map_update)
    then show ?thesis by (simp add: kv1 n_def list_update_append)
  qed
  have keys: "map pse_key (ps_entries ps') = map pse_key (ps_entries ps) @ [Some k]"
    using arg_cong [OF kv, of "map fst"] by (simp add: o_def)
  have "list_all (\<lambda>p. fst p \<noteq> None \<and> snd p \<noteq> None) (map ?kv (ps_entries ps'))"
    using wf by (simp add: kv parm_wf_def list_all_iff entry_full_def)
  then have full: "list_all entry_full (ps_entries ps')"
    by (simp add: list_all_iff entry_full_def)
  have "parm_linked ps'" unfolding ps' es1
    using wf by (intro linked_update appendEntry_linked) (auto simp: parm_wf_def)
  with keys full wf absent show "parm_wf ps'" by (simp add: parm_wf_def)
  show "parm_alist ps' = parm_alist ps @ [(k, v)]"
    using arg_cong [OF kv, of "map (\<lambda>p. (the (fst p), the (snd p)))"]
    by (simp add: parm_alist_def entry_pair_def [abs_def] o_def)
qed

lemma put_absent:
  assumes inv: "parm_inv ps" and absent: "Some k \<notin> set (map pse_key (ps_entries ps))"
  obtains rc ps' where "zisPutParmValue ps k v = Some (rc, ps')"
    and "rc = 0 \<and> parm_inv ps' \<and> parm_alist ps' = parm_alist ps @ [(k, v)]
         \<or> rc = RC_ZISPARM_SLH_ALLOC_FAILED"
proof -
  let ?n = "length (ps_entries ps)"
  have wf: "parm_wf ps" and z: "slh_zeroed (ps_slh ps)" using inv by (auto simp: parm_inv_def)
  obtain r slh where alloc: "SLHAlloc (ps_slh ps) sizeof_ZISParmSetEntry = (r, slh)" by fastforce
  let ?ps1 = "appendEntry ps slh"
  obtain rc1 ps2 where sk: "setEntryKey ?ps1 ?n k = (rc1, ps2)" by fastforce
  obtain rc ps' where sv: "setEntryValue ps2 ?n v = (rc, ps')" by fastforce
  have z1: "slh_zeroed (ps_slh ?ps1)"
    using SLHAlloc_props [OF alloc] z by (simp add: appendEntry_def Let_def)
  have len1: "length (ps_entries ?ps1) = Suc ?n"
    using arg_cong [OF appendEntry_pairs, of length ps slh] by simp
  have none: "pse_key (ps_entries ?ps1 ! ?n) = None"
    using arg_cong [OF appendEntry_pairs, of "\<lambda>l. l ! ?n" ps slh] len1 by (simp add: nth_append)
  note key_cases = setEntryKey_fresh [OF sk none z1]
  note ob = obtainEntry_absent [OF wf absent, unfolded alloc]
  consider "r = None" | "r \<noteq> None" "rc1 \<noteq> 0" | "r \<noteq> None" "rc1 = 0" by blast
  then show thesis
  proof cases
    case 1
    then show thesis using that ob by (simp add: zisPutParmValue_def)
  next
    case 2
    then show thesis using that ob sk key_cases by (auto simp: zisPutParmValue_def)
  next
    case 3
    then have put: "zisPutParmValue ps k v = Some (rc, ps')"
      using ob sk sv by (auto simp: zisPutParmValue_def)
    from 3 key_cases have z2: "slh_zeroed (ps_slh ps2)" by auto
    have "parm_inv ps' \<and> parm_alist ps' = parm_alist ps @ [(k, v)]" if "rc = 0"
    proof -
      from 3 key_cases setEntryValue_ok [OF sv z2] that len1 obtain slh' where
        "slh_zeroed (ps_slh ps')" and "ps' = ?ps1\<lparr>ps_slh := slh', ps_entries :=
           (ps_entries ?ps1)[?n := (ps_entries ?ps1 ! ?n)\<lparr>pse_key := Some k, pse_value := Some v\<rparr>]\<rparr>"
        by auto
      with completed_entry [OF wf absent refl] show ?thesis by (simp add: parm_inv_def)
    qed
    with put setEntryValue_ok [OF sv z2] show thesis by (intro that) auto
  qed
qed

lemma zisPutParmValue_cases:
  assumes inv: "parm_inv ps"
  obtains rc ps' where "zisPutParmValue ps k v = Some (rc, ps')"
    and "rc = 0 \<and> parm_inv ps' \<and> parm_alist ps' = AList.update k v (parm_alist ps)
         \<or> rc = RC_ZISPARM_SLH_ALLOC_FAILED"
proof (cases "Some k \<in> set (map pse_key (ps_entries ps))")
  case True
  then obtain i where i: "i < length (ps_entries ps)" "pse_key (ps_entries ps ! i) = Some k"
    by (auto simp: in_set_conv_nth)
  have wf: "parm_wf ps" using inv by (simp add: parm_inv_def)
  have "AList.update k v (parm_alist ps) = (parm_alist ps)[i := (k, v)]"
    using i parm_alist_distinct [OF wf]
    by (intro alist_update_present) (auto simp: parm_alist_def entry_pair_def)
  then show thesis using that put_present [OF inv i, of v] by metis
next
  case False
  have wf: "parm_wf ps" using inv by (simp add: parm_inv_def)
  have "AList.update k v (parm_alist ps) = parm_alist ps @ [(k, v)]"
    using False parm_absent_iff [OF wf] by (intro alist_update_absent) auto
  then show thesis using that put_absent [OF inv False, of v] by metis
qed

section \<open>The interface of a parameter store\<close>

text \<open>
  What the readers of configuration rely on: a successful put keeps the store's invariant and
  changes exactly the binding of its key. The lemmas on whole sequences of puts hold for every
  such store.
\<close>

locale parm_store =
  fixes inv :: "'s \<Rightarrow> bool"
    and lookup :: "'s \<Rightarrow> string \<Rightarrow> string option"
    and put :: "string \<times> string \<Rightarrow> 's \<Rightarrow> 's option"
  assumes put_inv: "inv s \<Longrightarrow> put kv s = Some s' \<Longrightarrow> inv s'"
    and put_lookup: "inv s \<Longrightarrow> put kv s = Some s' \<Longrightarrow> lookup s' = (lookup s)(fst kv \<mapsto> snd kv)"
begin

lemma put_all_inv: "inv s \<Longrightarrow> fold_opt put kvs s = Some s' \<Longrightarrow> inv s'"
  by (rule fold_opt_invariant [where P = inv]) (auto intro: put_inv)

lemma put_all_lookup:
  "inv s \<Longrightarrow> fold_opt put kvs s = Some s' \<Longrightarrow> lookup s' = lookup s ++ map_of (rev kvs)"
proof (induction kvs arbitrary: s)
  case Nil
  then show ?case by simp
next
  case (Cons kv kvs)
  then obtain s1 where s1: "put kv s = Some s1" and rest: "fold_opt put kvs s1 = Some s'"
    by (auto split: option.splits)
  have "lookup s' = lookup s1 ++ map_of (rev kvs)"
    using Cons.IH [OF put_inv [OF Cons.prems(1) s1] rest] .
  then show ?case using put_lookup [OF Cons.prems(1) s1] by (simp only: map_add_rev_Cons rev.simps prod.collapse)
qed

lemma put_all_frame:
  assumes "inv s" and "fold_opt put kvs s = Some s'" and "k \<notin> fst ` set kvs"
  shows "lookup s' k = lookup s k"
proof -
  have "map_of (rev kvs) k = None" using assms(3) by (simp add: map_of_eq_None_iff)
  then show ?thesis using put_all_lookup [OF assms(1,2)] by (simp add: map_add_def)
qed

lemma put_all_last:
  assumes "inv s" and "fold_opt put (kvs @ (k, v) # rest) s = Some s'" and "k \<notin> fst ` set rest"
  shows "lookup s' k = Some v"
proof -
  have "map_of (rev rest) k = None" using assms(3) by (simp add: map_of_eq_None_iff)
  then show ?thesis using put_all_lookup [OF assms(1,2)] by (simp add: map_add_def)
qed

end

definition parm_map :: "'s ZISParmSet \<Rightarrow> string \<Rightarrow> string option" where
  "parm_map ps = map_of (parm_alist ps)"

definition put_ok :: "string \<times> string \<Rightarrow> 's ZISParmSet \<Rightarrow> 's ZISParmSet option" where
  "put_ok kv ps =
     (case zisPutParmValue ps (fst kv) (snd kv) of
        Some (rc, ps') \<Rightarrow> (if rc = RC_ZISPARM_OK then Some ps' else None)
      | None \<Rightarrow> None)"

lemma put_ok_refines:
  assumes inv: "parm_inv ps" and ok: "put_ok kv ps = Some ps'"
  shows "parm_inv ps' \<and> parm_alist ps' = AList.update (fst kv) (snd kv) (parm_alist ps)"
  using ok by (rule_tac zisPutParmValue_cases [OF inv, of "fst kv" "snd kv"])
    (auto simp: put_ok_def split: if_splits)

interpretation zis_parms: parm_store parm_inv parm_map put_ok
  by unfold_locales (auto dest: put_ok_refines simp: parm_map_def update_conv')

section \<open>Heaps with enough storage\<close>

text \<open>
  A short-lived heap is limited. \<open>slh_serves N\<close> says that it grants every further sequence of requests for \<open>N\<close>
  bytes together; \<open>slh_total\<close> that it never refuses.
\<close>

definition slh_total :: "'s ShortLivedHeap \<Rightarrow> bool" where
  "slh_total h \<longleftrightarrow> (\<forall>st n. fst (slh_alloc h st n) \<noteq> None)"

fun slh_grants :: "('s \<Rightarrow> nat \<Rightarrow> string option \<times> 's) \<Rightarrow> 's \<Rightarrow> nat list \<Rightarrow> bool" where
  "slh_grants alloc st [] = True"
| "slh_grants alloc st (n # ns) = (case alloc st n of (None, _) \<Rightarrow> False | (Some _, st') \<Rightarrow> slh_grants alloc st' ns)"

definition slh_serves :: "nat \<Rightarrow> 's ShortLivedHeap \<Rightarrow> bool" where
  "slh_serves N h \<longleftrightarrow> (\<forall>ns. 0 \<notin> set ns \<longrightarrow> sum_list ns \<le> N \<longrightarrow> slh_grants (slh_alloc h) (slh_state h) ns)"

definition parm_good :: "nat \<Rightarrow> 's ZISParmSet \<Rightarrow> bool" where
  "parm_good N ps \<longleftrightarrow> parm_inv ps \<and> slh_serves N (ps_slh ps)"

text \<open>What one parameter may cost: an entry, the name and the value with their terminators.\<close>

definition put_cost :: "string \<times> string \<Rightarrow> nat" where
  "put_cost kv = sizeof_ZISParmSetEntry + (length (fst kv) + 1) + (length (snd kv) + 1)"

definition parms_cost :: "(string \<times> string) list \<Rightarrow> nat" where
  "parms_cost kvs = sum_list (map put_cost kvs)"

lemma parms_cost_simps [simp]:
  "parms_cost [] = 0" "parms_cost (kv # kvs) = put_cost kv + parms_cost kvs" "parms_cost (xs @ ys) = parms_cost xs + parms_cost ys"
  by (simp_all add: parms_cost_def)

lemma slh_serves_mono: "slh_serves N h \<Longrightarrow> M \<le> N \<Longrightarrow> slh_serves M h"
  by (auto simp: slh_serves_def)

lemma parm_good_mono: "parm_good N ps \<Longrightarrow> M \<le> N \<Longrightarrow> parm_good M ps"
  by (auto simp: parm_good_def intro: slh_serves_mono)

lemma slh_total_grants: "\<forall>st n. fst (alloc st n) \<noteq> None \<Longrightarrow> slh_grants alloc st ns"
proof (induction ns arbitrary: st)
  case (Cons n ns)
  then obtain x st' where "alloc st n = (Some x, st')" by (metis not_Some_eq prod.collapse)
  with Cons show ?case by simp
qed simp

lemma slh_total_serves: "slh_total h \<Longrightarrow> slh_serves N h"
  by (simp add: slh_total_def slh_serves_def slh_total_grants)

lemma SLHAlloc_alloc: "SLHAlloc h n = (r, h') \<Longrightarrow> slh_alloc h' = slh_alloc h"
  by (auto simp: SLHAlloc_def split: prod.splits)

lemma SLHAlloc_total:
  assumes "slh_total h" and "SLHAlloc h n = (r, h')"
  shows "r \<noteq> None" and "slh_total h'"
proof -
  have "r = fst (slh_alloc h (slh_state h) n)"
    using assms(2) by (auto simp: SLHAlloc_def split: prod.splits)
  with assms(1) show "r \<noteq> None" unfolding slh_total_def by simp
  show "slh_total h'" using assms SLHAlloc_alloc [OF assms(2)] by (simp add: slh_total_def)
qed

lemma SLHAlloc_serves:
  assumes "SLHAlloc h n = (r, h')" and "slh_serves (n + N) h" and "0 < n"
  shows "r \<noteq> None \<and> slh_serves N h'"
proof -
  have h': "slh_alloc h (slh_state h) n = (r, slh_state h')" "slh_alloc h' = slh_alloc h"
    using assms(1) by (auto simp: SLHAlloc_def split: prod.splits)
  have "slh_grants (slh_alloc h) (slh_state h) (n # ns)" if "0 \<notin> set ns" "sum_list ns \<le> N" for ns
    using assms(2,3) that unfolding slh_serves_def by (auto dest: spec [of _ "n # ns"])
  then have "r \<noteq> None \<and> slh_grants (slh_alloc h) (slh_state h') ns" if "0 \<notin> set ns" "sum_list ns \<le> N" for ns
    using that h'(1) by (fastforce split: option.splits)
  from this [of "[]"] this show ?thesis using h'(2) by (auto simp: slh_serves_def)
qed

lemma obtainEntry_serves:
  assumes "obtainEntry ps name = Some (r, ps')" and "slh_serves (sizeof_ZISParmSetEntry + N) (ps_slh ps)"
  shows "r \<noteq> None \<and> slh_serves N (ps_slh ps')"
  using assms SLHAlloc_serves [OF _ assms(2)] slh_serves_mono [OF assms(2), of N]
  by (fastforce simp: obtainEntry_def Let_def sizeof_ZISParmSetEntry_def split: option.splits prod.splits if_splits)

lemma setEntryKey_serves:
  assumes "slh_serves (length k + 1 + N) (ps_slh ps)"
  shows "fst (setEntryKey ps a k) = 0 \<and> slh_serves N (ps_slh (snd (setEntryKey ps a k)))"
  using assms SLHAlloc_serves [OF _ assms] slh_serves_mono [OF assms, of N]
  by (fastforce simp: setEntryKey_def Let_def split: option.splits prod.splits)

lemma setEntryValue_serves:
  assumes "slh_serves (length v + 1 + N) (ps_slh ps)"
  shows "fst (setEntryValue ps a v) = 0 \<and> slh_serves N (ps_slh (snd (setEntryValue ps a v)))"
  using assms SLHAlloc_serves [OF _ assms]
  by (fastforce simp: setEntryValue_def Let_def split: option.splits prod.splits)

lemma put_serves:
  assumes "slh_serves (put_cost (k, v) + N) (ps_slh ps)" and "zisPutParmValue ps k v = Some (rc, ps')"
  shows "rc = 0" and "slh_serves N (ps_slh ps')"
proof -
  have room: "slh_serves (sizeof_ZISParmSetEntry + (length k + 1 + (length v + 1 + N))) (ps_slh ps)"
    using assms(1) by (simp add: put_cost_def algebra_simps)
  from assms(2) obtain r ps1 where "obtainEntry ps k = Some (r, ps1)"
    by (auto simp: zisPutParmValue_def split: option.splits)
  with obtainEntry_serves [OF _ room] obtain a
    where ob: "obtainEntry ps k = Some (Some a, ps1)" and t1: "slh_serves (length k + 1 + (length v + 1 + N)) (ps_slh ps1)"
    by blast
  note t2 = setEntryKey_serves [OF t1, of a]
  note t3 = setEntryValue_serves [OF conjunct2 [OF t2], of a]
  have "(rc, ps') = setEntryValue (snd (setEntryKey ps1 a k)) a v"
    using assms(2) ob t2 by (auto simp: zisPutParmValue_def split: prod.splits)
  then show "rc = 0" and "slh_serves N (ps_slh ps')" using t3 by (metis fst_conv, metis snd_conv)
qed

lemma put_good:
  assumes "parm_good (put_cost (k, v) + N) ps"
  obtains ps' where "zisPutParmValue ps k v = Some (0, ps')" and "put_ok (k, v) ps = Some ps'"
    and "parm_good N ps'" and "parm_alist ps' = AList.update k v (parm_alist ps)"
proof -
  from assms have inv: "parm_inv ps" and t: "slh_serves (put_cost (k, v) + N) (ps_slh ps)" by (auto simp: parm_good_def)
  obtain rc ps' where p: "zisPutParmValue ps k v = Some (rc, ps')"
    and c: "rc = 0 \<and> parm_inv ps' \<and> parm_alist ps' = AList.update k v (parm_alist ps)
         \<or> rc = RC_ZISPARM_SLH_ALLOC_FAILED"
    using zisPutParmValue_cases [OF inv] by blast
  with put_serves [OF t p] show thesis by (intro that [of ps']) (auto simp: put_ok_def parm_good_def)
qed

section \<open>The JCL parameter string as a list of tokens\<close>

function parm_tokens :: "string \<Rightarrow> string list" where
  "parm_tokens s =
     (if s = [] then []
      else takeWhile (\<lambda>c. c \<noteq> CHR '','') s #
           (case dropWhile (\<lambda>c. c \<noteq> CHR '','') s of [] \<Rightarrow> [] | _ # r \<Rightarrow> parm_tokens r))"
  by pat_completeness auto
termination
proof (relation "measure length", simp)
  fix s :: string and c r
  assume "dropWhile (\<lambda>c. c \<noteq> CHR '','') s = c # r"
  then have "length (c # r) \<le> length s" by (metis length_dropWhile_le)
  then show "(r, s) \<in> measure length" by simp
qed

declare parm_tokens.simps [simp del]

lemma endOfParm_eq:
  "i \<le> length s \<Longrightarrow> endOfParm s i = i + length (takeWhile (\<lambda>c. c \<noteq> CHR '','') (drop i s))"
proof (induction s i rule: endOfParm.induct)
  case (1 s i)
  show ?case
  proof (cases "i < length s")
    case True
    then have "drop i s = s ! i # drop (Suc i) s" by (simp add: Cons_nth_drop_Suc)
    with True "1" show ?thesis by (subst endOfParm.simps) auto
  next
    case False
    with "1.prems" show ?thesis by (subst endOfParm.simps) simp
  qed
qed

lemma drop_dropWhile: "drop (length (takeWhile P s)) s = dropWhile P s"
  by (metis dropWhile_eq_drop)

lemma parm_tokens_Nil [simp]: "parm_tokens [] = []"
  by (simp add: parm_tokens.simps)

lemma parm_tokens_nonempty:
  "s \<noteq> [] \<Longrightarrow> parm_tokens s =
     takeWhile (\<lambda>c. c \<noteq> CHR '','') s # parm_tokens (tl (dropWhile (\<lambda>c. c \<noteq> CHR '','') s))"
proof -
  have "(case d of [] \<Rightarrow> [] | _ # r \<Rightarrow> parm_tokens r) = parm_tokens (tl d)" for d
    by (cases d) simp_all
  then show "s \<noteq> [] \<Longrightarrow> ?thesis" by (subst parm_tokens.simps) simp
qed

lemma token_at:
  assumes "i < length s"
  shows "take (endOfParm s i - i) (drop i s) = takeWhile (\<lambda>c. c \<noteq> CHR '','') (drop i s)"
    and "parm_tokens (drop i s) =
         takeWhile (\<lambda>c. c \<noteq> CHR '','') (drop i s) # parm_tokens (drop (Suc (endOfParm s i)) s)"
proof -
  let ?w = "takeWhile (\<lambda>c. c \<noteq> CHR '','') (drop i s)"
  have e: "endOfParm s i = i + length ?w" using assms endOfParm_eq by simp
  then show "take (endOfParm s i - i) (drop i s) = ?w"
    by (metis diff_add_inverse takeWhile_eq_take)
  have "dropWhile (\<lambda>c. c \<noteq> CHR '','') (drop i s) = drop (length ?w) (drop i s)"
    by (rule drop_dropWhile [symmetric])
  then have "tl (dropWhile (\<lambda>c. c \<noteq> CHR '','') (drop i s)) = drop (Suc (endOfParm s i)) s"
    by (simp only: e drop_drop tl_drop) (simp add: drop_Suc tl_drop add.commute)
  then show "parm_tokens (drop i s) = ?w # parm_tokens (drop (Suc (endOfParm s i)) s)"
    using parm_tokens_nonempty [of "drop i s"] assms by simp
qed

lemma readMainParms_loop_good:
  assumes "parm_good (parms_cost (map parmKeyValue (parm_tokens (drop i s))) + N) ps"
  shows "\<exists>ps'. readMainParms_loop ps s i = Some (0, ps') \<and> parm_good N ps' \<and>
     fold_opt put_ok (map parmKeyValue (parm_tokens (drop i s))) ps = Some ps'"
  using assms
proof (induction ps s i rule: readMainParms_loop.induct)
  case (1 ps s i)
  show ?case
  proof (cases "i < length s")
    case False
    with "1.prems" show ?thesis
      by (subst readMainParms_loop.simps) (simp add: parm_tokens.simps)
  next
    case True
    let ?kv = "parmKeyValue (take (endOfParm s i - i) (drop i s))"
    let ?rest = "parms_cost (map parmKeyValue (parm_tokens (drop (Suc (endOfParm s i)) s))) + N"
    have room: "parm_good (put_cost (fst ?kv, snd ?kv) + ?rest) ps"
      using "1.prems" token_at [OF True] by (simp add: add.assoc)
    obtain ps1 where p: "zisPutParmValue ps (fst ?kv) (snd ?kv) = Some (0, ps1)"
      "put_ok ?kv ps = Some ps1" "parm_good ?rest ps1"
      using put_good [OF room] by auto
    obtain ps2 where ih: "readMainParms_loop ps1 s (Suc (endOfParm s i)) = Some (0, ps2)"
      "parm_good N ps2"
      "fold_opt put_ok (map parmKeyValue (parm_tokens (drop (Suc (endOfParm s i)) s))) ps1 = Some ps2"
      using "1.IH" [OF True refl, of ?kv "fst ?kv" "snd ?kv"] p by simp blast
    with True p token_at [OF True] show ?thesis
      by (subst readMainParms_loop.simps) (auto split: prod.splits)
  qed
qed

section \<open>Round trip of the parameter string\<close>

text \<open>The text of a list of parameters: \<open>key=value\<close> pieces separated by commas.\<close>

fun parm_text :: "(string \<times> string) list \<Rightarrow> string" where
  "parm_text [] = []"
| "parm_text [(k, v)] = k @ CHR ''='' # v"
| "parm_text ((k, v) # kv # kvs) = k @ CHR ''='' # v @ CHR '','' # parm_text (kv # kvs)"

definition clean_parm :: "string \<times> string \<Rightarrow> bool" where
  "clean_parm kv \<longleftrightarrow>
     CHR '','' \<notin> set (fst kv) \<and> CHR ''='' \<notin> set (fst kv) \<and> nul \<notin> set (fst kv) \<and>
     CHR '','' \<notin> set (snd kv) \<and> nul \<notin> set (snd kv)"

lemma parmKeyValue_clean:
  "clean_parm (k, v) \<Longrightarrow> parmKeyValue (k @ CHR ''='' # v) = (k, v)"
  by (simp add: parmKeyValue_def clean_parm_def cstr_id nul_def split_at_sep)

lemma parm_tokens_last: "s \<noteq> [] \<Longrightarrow> CHR '','' \<notin> set s \<Longrightarrow> parm_tokens s = [s]"
  by (simp add: parm_tokens_nonempty takeWhile_ne_id dropWhile_ne_id)

lemma parm_tokens_sep: "CHR '','' \<notin> set s \<Longrightarrow> parm_tokens (s @ CHR '','' # r) = s # parm_tokens r"
  by (simp add: parm_tokens_nonempty takeWhile_ne_sep dropWhile_ne_sep)

lemma parm_tokens_text:
  "list_all clean_parm kvs \<Longrightarrow> parm_tokens (parm_text kvs) = map (\<lambda>(k, v). k @ CHR ''='' # v) kvs"
proof (induction kvs rule: parm_text.induct)
  case (3 k v kv kvs)
  then show ?case
    using parm_tokens_sep [of "k @ CHR ''='' # v" "parm_text (kv # kvs)"]
    by (simp add: clean_parm_def)
qed (auto simp: parm_tokens_last clean_parm_def)

lemma parm_text_keyValues:
  "list_all clean_parm kvs \<Longrightarrow> map parmKeyValue (parm_tokens (parm_text kvs)) = kvs"
  by (auto simp: parm_tokens_text list_all_iff parmKeyValue_clean intro!: map_idI)

section \<open>Trimming\<close>

abbreviation (input) is_blank :: "char \<Rightarrow> bool" where "is_blank c \<equiv> c = CHR '' ''"

definition trim :: "string \<Rightarrow> string" where
  "trim s = rev (dropWhile is_blank (rev (dropWhile is_blank s)))"

lemma trimFront_eq:
  "i \<le> length s \<Longrightarrow> trimFront s i (length s - i) =
     (if dropWhile is_blank (drop i s) = [] then (0, 0)
      else let j = i + length (takeWhile is_blank (drop i s)) in (j, length s - j))"
proof (induction "length s - i" arbitrary: i)
  case 0
  then show ?case by (subst trimFront.simps) simp
next
  case (Suc n)
  then have "i < length s" and d: "drop i s = s ! i # drop (Suc i) s"
    by (auto simp: Cons_nth_drop_Suc)
  with Suc.hyps(1) [of "Suc i"] Suc.hyps(2) show ?case
    by (subst trimFront.simps) (auto simp: Let_def)
qed

lemma trimBack_eq:
  "off + n \<le> length s \<Longrightarrow>
   trimBack s (off + n - 1) n = length (dropWhile is_blank (rev (take n (drop off s))))"
proof (induction n)
  case 0
  then show ?case by (subst trimBack.simps) simp
next
  case (Suc n)
  then have "take (Suc n) (drop off s) = take n (drop off s) @ [s ! (off + n)]"
    by (simp add: take_Suc_conv_app_nth)
  with Suc show ?case by (subst trimBack.simps) auto
qed

lemma take_dropWhile_rev: "take (length (dropWhile P (rev t))) t = rev (dropWhile P (rev t))"
proof -
  have "rev t = takeWhile P (rev t) @ dropWhile P (rev t)" by simp
  then have "t = rev (dropWhile P (rev t)) @ rev (takeWhile P (rev t))"
    by (metis rev_append rev_rev_ident)
  then show ?thesis by (metis append_eq_conv_conj length_rev)
qed

lemma trim_slice:
  "getTrimmedSlice s = (off, n) \<Longrightarrow> take n (drop off s) = trim s \<and> n = length (trim s)"
proof -
  assume g: "getTrimmedSlice s = (off, n)"
  show ?thesis
  proof (cases "dropWhile is_blank s = []")
    case True
    then have "trimFront s 0 (length s) = (0, 0)" using trimFront_eq [of 0 s] by simp
    with g True have "n = 0"
      by (subst (asm) getTrimmedSlice_def) (auto simp: trimBack.simps split: if_splits)
    then show ?thesis unfolding trim_def True by simp
  next
    case False
    define j where "j = length (takeWhile is_blank s)"
    have dj: "drop j s = dropWhile is_blank s" by (simp add: j_def drop_dropWhile)
    have jl: "j < length s" using False dj by (metis drop_eq_Nil linorder_not_less)
    have "trimFront s 0 (length s) = (j, length s - j)"
      using trimFront_eq [OF le0, of s] False
      by (simp only: j_def drop_0 diff_zero if_False Let_def add_0)
    moreover have "trimBack s (length s - 1) (length s - j) =
        length (dropWhile is_blank (rev (drop j s)))"
      using trimBack_eq [of j "length s - j" s] jl by simp
    ultimately have "off = j" "n = length (dropWhile is_blank (rev (drop j s)))"
      using g jl by (auto simp: getTrimmedSlice_def Let_def split: if_splits)
    then show ?thesis
      using take_dropWhile_rev [of is_blank "drop j s"] by (simp add: trim_def dj)
  qed
qed

section \<open>The logical records of a member\<close>

text \<open>
  The specification of a member: trimmed lines, comment lines left out where no continuation is
  open, lines joined while they end in a backslash. A continuation still open at the end of the
  member yields no record.
\<close>

fun member_records :: "string \<Rightarrow> string list \<Rightarrow> string list" where
  "member_records acc [] = []"
| "member_records acc (r # rs) =
     (let line = trim r in
      if acc = [] \<and> isParmCommentedOut line then member_records [] rs
      else if line \<noteq> [] \<and> last line = CHR 0x5C then member_records (acc @ butlast line) rs
      else (acc @ line) # member_records [] rs)"

text \<open>The joined text stays inside the buffer of 4096 bytes at every line.\<close>

fun member_fits :: "string \<Rightarrow> string list \<Rightarrow> bool" where
  "member_fits acc [] = True"
| "member_fits acc (r # rs) =
     (let line = trim r in
      if acc = [] \<and> isParmCommentedOut line then member_fits [] rs
      else length acc + length line + 1 \<le> sizeof_currRecord \<and>
           (if line \<noteq> [] \<and> last line = CHR 0x5C then member_fits (acc @ butlast line) rs
            else member_fits [] rs))"

text \<open>A logical record costs a copy of its own, and then the parameter it sets.\<close>

definition records_cost :: "string list \<Rightarrow> nat" where
  "records_cost rs = sum_list (map (\<lambda>r. length r + 1 + put_cost (parmKeyValue r)) rs)"

lemma records_cost_simps [simp]:
  "records_cost [] = 0" "records_cost (r # rs) = length r + 1 + put_cost (parmKeyValue r) + records_cost rs"
  by (simp_all add: records_cost_def)

lemma slh_change_good:
  assumes "parm_good (n + N) ps" and "SLHAlloc (ps_slh ps) n = (r, slh)" and "0 < n"
  shows "r \<noteq> None" and "parm_good N (ps\<lparr>ps_slh := slh\<rparr>)" and "parm_alist (ps\<lparr>ps_slh := slh\<rparr>) = parm_alist ps"
proof -
  have "slh_serves (n + N) (ps_slh ps)" using assms(1) by (simp add: parm_good_def)
  then have s: "r \<noteq> None \<and> slh_serves N slh" using SLHAlloc_serves [OF assms(2)] assms(3) by blast
  then show "r \<noteq> None" ..
  show "parm_good N (ps\<lparr>ps_slh := slh\<rparr>)" "parm_alist (ps\<lparr>ps_slh := slh\<rparr>) = parm_alist ps"
    using assms(1) s SLHAlloc_props(1) [OF assms(2)]
    by (simp_all add: parm_good_def parm_inv_def parm_wf_def parm_linked_def parm_alist_def)
qed

lemma putFullRecord_good:
  assumes "parm_good (length (pv_currRecord ctx) + 1 + put_cost (parmKeyValue (pv_currRecord ctx)) + N) (pv_parmSet ctx)"
  obtains ctx' where "putFullRecord ctx = Some (0, ctx')" and "parm_good N (pv_parmSet ctx')"
    and "pv_currRecord ctx' = []"
    and "parm_map (pv_parmSet ctx') = (parm_map (pv_parmSet ctx))
           (fst (parmKeyValue (pv_currRecord ctx)) \<mapsto> snd (parmKeyValue (pv_currRecord ctx)))"
proof -
  let ?ps = "pv_parmSet ctx" and ?kv = "parmKeyValue (pv_currRecord ctx)"
  have room: "parm_good ((length (pv_currRecord ctx) + 1) + (put_cost (fst ?kv, snd ?kv) + N)) ?ps"
    using assms by (simp add: algebra_simps)
  obtain r slh where a0: "SLHAlloc (ps_slh ?ps) (length (pv_currRecord ctx) + 1) = (r, slh)" by fastforce
  note g = slh_change_good [OF room a0]
  then obtain j where a: "SLHAlloc (ps_slh ?ps) (length (pv_currRecord ctx) + 1) = (Some j, slh)" using a0 by auto
  obtain ps' where p: "zisPutParmValue (?ps\<lparr>ps_slh := slh\<rparr>) (fst ?kv) (snd ?kv) = Some (0, ps')"
    "parm_good N ps'" "parm_alist ps' = AList.update (fst ?kv) (snd ?kv) (parm_alist ?ps)"
    using put_good [OF g(2)] g(3) by (metis zero_less_Suc Suc_eq_plus1)
  have "putFullRecord ctx = Some (0, ctx\<lparr>pv_currRecord := [], pv_parmSet := ps'\<rparr>)"
    using a p(1) by (cases ?kv) (simp add: putFullRecord_def Let_def)
  then show thesis
    using p by (intro that) (auto simp: parm_map_def update_conv')
qed

text \<open>\<open>handleParmRecord\<close> in terms of the trimmed line.\<close>

definition countRecord :: "'s ParmRecordVisitorData \<Rightarrow> 's ParmRecordVisitorData" where
  "countRecord ctx =
     (let ctx1 = ctx\<lparr>pv_currRecordEnd := pv_currRecordEnd ctx + 1\<rparr>
      in if pv_currRecord ctx1 = [] then ctx1\<lparr>pv_currRecordStart := pv_currRecordEnd ctx1\<rparr> else ctx1)"

lemma countRecord_frame [simp]:
  "pv_currRecord (countRecord ctx) = pv_currRecord ctx"
  "pv_parmSet (countRecord ctx) = pv_parmSet ctx"
  by (simp_all add: countRecord_def Let_def)

lemma handleParmRecord_trim:
  "handleParmRecord r ctx =
     (let c = countRecord ctx; acc = pv_currRecord ctx; line = trim r in
      if acc = [] \<and> isParmCommentedOut line then Some (RC_ZISPARM_OK, c)
      else if length acc + length line + 1 > sizeof_currRecord
           then Some (RC_ZISPARM_CONTINUATION_TOO_LONG, c)
      else if line \<noteq> [] \<and> last line = CHR 0x5C
           then Some (RC_ZISPARM_OK, c\<lparr>pv_currRecord := acc @ butlast line\<rparr>)
      else putFullRecord (c\<lparr>pv_currRecord := acc @ line\<rparr>))"
proof -
  obtain off n where sl: "getTrimmedSlice r = (off, n)" by fastforce
  then have tr: "take n (drop off r) = trim r" "n = length (trim r)" using trim_slice by blast+
  have lst: "trim r \<noteq> [] \<Longrightarrow> trim r ! (length (trim r) - 1) = last (trim r)"
    by (simp add: last_conv_nth)
  show ?thesis
    unfolding handleParmRecord_def countRecord_def Let_def sl prod.case tr(1) unfolding tr(2)
    using lst by (cases ctx; cases "trim r = []") (simp_all add: butlast_append)
qed

lemma iterateMember_good:
  assumes "parm_good (records_cost (member_records (pv_currRecord ctx) rs) + N) (pv_parmSet ctx)" and "member_fits (pv_currRecord ctx) rs"
  shows "\<exists>ctx'. iterateMember rs ctx = Some (0, ctx') \<and> parm_good N (pv_parmSet ctx') \<and>
     parm_map (pv_parmSet ctx') = parm_map (pv_parmSet ctx) ++
       map_of (rev (map parmKeyValue (member_records (pv_currRecord ctx) rs)))"
  using assms
proof (induction rs arbitrary: ctx)
  case Nil
  then show ?case by simp
next
  case (Cons r rs)
  let ?acc = "pv_currRecord ctx" and ?line = "trim r" and ?c = "countRecord ctx"
  consider (comment) "?acc = []" "isParmCommentedOut ?line"
    | (cont) "\<not> (?acc = [] \<and> isParmCommentedOut ?line)" "?line \<noteq> []" "last ?line = CHR 0x5C"
    | (full) "\<not> (?acc = [] \<and> isParmCommentedOut ?line)" "\<not> (?line \<noteq> [] \<and> last ?line = CHR 0x5C)"
    by blast
  then show ?case
  proof cases
    case comment
    then show ?thesis using Cons.IH [of ?c] Cons.prems by (simp add: handleParmRecord_trim Let_def)
  next
    case cont
    then show ?thesis
      using Cons.IH [of "?c\<lparr>pv_currRecord := ?acc @ butlast ?line\<rparr>"] Cons.prems
      by (auto simp: handleParmRecord_trim Let_def)
  next
    case full
    then have h: "handleParmRecord r ctx = putFullRecord (?c\<lparr>pv_currRecord := ?acc @ ?line\<rparr>)"
      and fits: "member_fits [] rs"
      and recs: "member_records ?acc (r # rs) = (?acc @ ?line) # member_records [] rs"
      using Cons.prems(2) by (auto simp: handleParmRecord_trim Let_def)
    let ?rest = "records_cost (member_records [] rs) + N"
    obtain ctx1 where p: "putFullRecord (?c\<lparr>pv_currRecord := ?acc @ ?line\<rparr>) = Some (0, ctx1)"
      "parm_good ?rest (pv_parmSet ctx1)" "pv_currRecord ctx1 = []"
      "parm_map (pv_parmSet ctx1) = (parm_map (pv_parmSet ctx))
         (fst (parmKeyValue (?acc @ ?line)) \<mapsto> snd (parmKeyValue (?acc @ ?line)))"
      using putFullRecord_good [of "?c\<lparr>pv_currRecord := ?acc @ ?line\<rparr>" ?rest] Cons.prems(1) unfolding recs
      by (auto simp: algebra_simps)
    obtain ctx' where it: "iterateMember rs ctx1 = Some (0, ctx')" "parm_good N (pv_parmSet ctx')"
      and pm: "parm_map (pv_parmSet ctx') = parm_map (pv_parmSet ctx1) ++
                 map_of (rev (map parmKeyValue (member_records [] rs)))"
      using Cons.IH [of ctx1] p(2,3) fits by auto
    have "parm_map (pv_parmSet ctx') = parm_map (pv_parmSet ctx) ++
            map_of (rev (map parmKeyValue (member_records ?acc (r # rs))))"
      unfolding pm p(4) map_add_rev_Cons recs by simp
    with it h p(1) show ?thesis by simp
  qed
qed

section \<open>Walking the chain of a well-formed set\<close>

lemma iterateParms_loop_from:
  assumes links: "\<forall>i < length es. pse_next (es ! i) = parm_ptr es (Suc i)" and "j \<le> length es"
  shows "iterateParms_loop es visitor (parm_ptr es j) d =
           Some (fold (\<lambda>e. visitor (pse_key e) (pse_value e)) (drop j es) d)"
  using assms(2)
proof (induction "length es - j" arbitrary: j d)
  case 0
  then have "j = length es" by simp
  then show ?case by (subst iterateParms_loop.simps) (simp add: parm_ptr_def)
next
  case (Suc n)
  then have j: "j < length es" by simp
  have "drop j es = es ! j # drop (Suc j) es" using j by (simp add: Cons_nth_drop_Suc)
  with j links Suc.hyps(1) [of "Suc j"] Suc.hyps(2) show ?case
    by (subst iterateParms_loop.simps) (simp add: parm_ptr_def)
qed

lemma zisIterateParms_wf:
  assumes "parm_wf ps"
  shows "zisIterateParms ps visitor d =
           Some (fold (\<lambda>(k, v). visitor (Some k) (Some v)) (parm_alist ps) d)"
proof -
  have full: "list_all entry_full (ps_entries ps)" using assms by (simp add: parm_wf_def)
  have "fold (\<lambda>(k, v). visitor (Some k) (Some v)) (map entry_pair es) d =
        fold (\<lambda>e. visitor (pse_key e) (pse_value e)) es d" if "list_all entry_full es" for es
    using that by (induction es arbitrary: d) (auto simp: entry_pair_def entry_full_def)
  with full iterateParms_loop_from [of "ps_entries ps" 0 visitor d] assms show ?thesis
    by (simp add: zisIterateParms_def parm_alist_def parm_wf_def parm_linked_def Let_def)
qed

text \<open>The specification of loading: call the server for each pair until a call fails.\<close>

fun load_pairs ::
    "('srv \<Rightarrow> string option \<Rightarrow> string option \<Rightarrow> rc \<times> 'srv) \<Rightarrow> (string \<times> string) list \<Rightarrow> 'srv \<Rightarrow> rc
     \<Rightarrow> rc \<times> rc \<times> 'srv" where
  "load_pairs add [] server rsn = (RC_ZISPARM_OK, rsn, server)"
| "load_pairs add ((k, v) # kvs) server rsn =
     (case add server (Some k) (Some v) of
        (r, server') \<Rightarrow> (if r \<noteq> 0 then (RC_ZISPARM_CMS_CALL_FAILED, r, server')
                        else load_pairs add kvs server' rsn))"

lemma loadParms_loop_from:
  assumes links: "\<forall>i < length es. pse_next (es ! i) = parm_ptr es (Suc i)"
    and full: "\<forall>i < length es. entry_full (es ! i)" and "j \<le> length es"
  shows "loadParms_loop add es (parm_ptr es j) server rsn =
           Some (load_pairs add (map entry_pair (drop j es)) server rsn)"
  using assms(3)
proof (induction "length es - j" arbitrary: j server)
  case 0
  then have "j = length es" by simp
  then show ?case by (subst loadParms_loop.simps) (simp add: parm_ptr_def)
next
  case (Suc n)
  then have j: "j < length es" by simp
  then obtain k v where kv: "pse_key (es ! j) = Some k" "pse_value (es ! j) = Some v"
    using full by (auto simp: entry_full_def)
  have "drop j es = es ! j # drop (Suc j) es" using j by (simp add: Cons_nth_drop_Suc)
  with j kv links Suc.hyps(1) [of "Suc j"] Suc.hyps(2) show ?case
    by (subst loadParms_loop.simps) (auto simp: parm_ptr_def entry_pair_def Let_def split: prod.splits)
qed

section \<open>A heap and a set to evaluate on\<close>

definition plain_heap :: "unit ShortLivedHeap" where
  "plain_heap = \<lparr>slh_alloc = (\<lambda>st n. (Some [], st)), slh_state = ()\<rparr>"

definition empty_set :: "unit ZISParmSet" where
  "empty_set = \<lparr>ps_slh = plain_heap, ps_firstEntry = None, ps_lastEntry = None, ps_entries = []\<rparr>"

text \<open>A heap of limited size, which hands its bytes out until too few are left.\<close>

definition limited_heap :: "nat \<Rightarrow> nat ShortLivedHeap" where
  "limited_heap cap = \<lparr>slh_alloc = (\<lambda>left n. if n \<le> left then (Some [], left - n) else (None, left)), slh_state = cap\<rparr>"

definition limited_set :: "nat ZISParmSet" where
  "limited_set = \<lparr>ps_slh = limited_heap (10 * 65536), ps_firstEntry = None, ps_lastEntry = None, ps_entries = []\<rparr>"

lemma plain_heap_laws: "slh_zeroed plain_heap" "slh_total plain_heap"
  by (simp_all add: slh_zeroed_def slh_total_def plain_heap_def)

lemma limited_heap_laws: "slh_zeroed (limited_heap cap)" "slh_serves cap (limited_heap cap)"
proof -
  show "slh_zeroed (limited_heap cap)" by (auto simp: slh_zeroed_def limited_heap_def split: if_splits)
  have "slh_grants (\<lambda>left n. if n \<le> left then (Some [], left - n) else (None, left)) left ns" if "sum_list ns \<le> left" for ns left
    using that by (induction ns arbitrary: left) auto
  then show "slh_serves cap (limited_heap cap)" by (simp add: slh_serves_def limited_heap_def)
qed

lemma limited_set_good: "N \<le> 10 * 65536 \<Longrightarrow> parm_good N limited_set"
  using limited_heap_laws(1) slh_serves_mono [OF limited_heap_laws(2), of N "10 * 65536"]
  by (simp add: parm_good_def parm_inv_def parm_wf_def parm_linked_def parm_ptr_def limited_set_def)

lemma empty_set_good: "parm_good N empty_set"
  using plain_heap_laws
  by (simp add: parm_good_def parm_inv_def parm_wf_def parm_linked_def parm_ptr_def empty_set_def slh_total_serves)

lemma empty_set_inv: "parm_inv empty_set"
  using empty_set_good [of 0] by (simp add: parm_good_def)

text \<open>The storage that the set itself and its test parameter need.\<close>

abbreviation set_cost :: nat where
  "set_cost \<equiv> sizeof_ZISParmSet + put_cost (ZIS_PARM_TEST_PARM_NAME, ZIS_PARM_TEST_PARM_VALUE)"

lemma makeParmSet_inv:
  assumes "slh_zeroed slh"
  shows "(zisMakeParmSet (Some slh) = Some None \<and> \<not> slh_serves set_cost slh) \<or>
     (\<exists>ps. zisMakeParmSet (Some slh) = Some (Some ps) \<and> parm_inv ps \<and>
           parm_alist ps = [(ZIS_PARM_TEST_PARM_NAME, ZIS_PARM_TEST_PARM_VALUE)])"
proof -
  obtain r h where a: "SLHAlloc slh sizeof_ZISParmSet = (r, h)" by fastforce
  let ?ps0 = "\<lparr>ps_slh = h, ps_firstEntry = None, ps_lastEntry = None, ps_entries = []\<rparr>"
  have "parm_inv ?ps0"
    using assms SLHAlloc_props [OF a]
    by (simp add: parm_inv_def parm_wf_def parm_linked_def parm_ptr_def)
  then obtain rc ps' where
    p: "zisPutParmValue ?ps0 ZIS_PARM_TEST_PARM_NAME ZIS_PARM_TEST_PARM_VALUE = Some (rc, ps')"
    and c: "rc = 0 \<and> parm_inv ps' \<and> parm_alist ps' =
           AList.update ZIS_PARM_TEST_PARM_NAME ZIS_PARM_TEST_PARM_VALUE (parm_alist ?ps0)
         \<or> rc = RC_ZISPARM_SLH_ALLOC_FAILED"
    using zisPutParmValue_cases by blast
  have "slh_serves set_cost slh \<Longrightarrow> r \<noteq> None \<and> rc = 0"
    using SLHAlloc_serves [OF a] put_serves(1) [OF _ p, of 0] by (simp add: sizeof_ZISParmSet_def)
  with a p c show ?thesis by (cases r) (auto simp: zisMakeParmSet_def parm_alist_def)
qed

lemma readMainParms_text:
  assumes "parm_good (parms_cost kvs + N) ps" and "list_all clean_parm kvs"
  shows "\<exists>ps'. zisReadMainParms True ps (parm_text kvs) = Some (RC_ZISPARM_OK, ps') \<and> parm_good N ps' \<and>
     (\<forall>n. zisGetParmValue ps' n =
          (case map_of (rev kvs) n of Some v \<Rightarrow> Some (Some v) | None \<Rightarrow> zisGetParmValue ps n))"
proof -
  obtain ps' where r: "readMainParms_loop ps (parm_text kvs) 0 = Some (0, ps')" "parm_good N ps'"
    and f: "fold_opt put_ok (map parmKeyValue (parm_tokens (parm_text kvs))) ps = Some ps'"
    using readMainParms_loop_good [of 0 "parm_text kvs" N ps] assms(1) parm_text_keyValues [OF assms(2)] by auto
  have inv: "parm_inv ps" "parm_wf ps" "parm_wf ps'"
    using assms(1) r(2) by (auto simp: parm_good_def parm_inv_def)
  have "parm_map ps' = parm_map ps ++ map_of (rev kvs)"
    using zis_parms.put_all_lookup [OF inv(1) f] parm_text_keyValues [OF assms(2)] by simp
  with r inv show ?thesis
    by (auto simp: zisReadMainParms_def zisGetParmValue_wf parm_map_def map_add_def
        split: option.splits)
qed

lemma readParmlib_member:
  assumes good: "parm_good (records_cost (member_records [] records) + N) ps"
    and names: "length dd \<le> 8" "length mem \<le> 8"
    and alloc: "fst (pl_alloc lib (space_pad 8 dd)) = RC_IEFPRMLB_OK \<or>
                pl_alloc lib (space_pad 8 dd) = (RC_IEFPRMLB_WARN, RSN_IEFPRMLB_ALREADY_ALLOCATED)"
    and storage: "pl_malloc31 lib READ_BUFFER_DEFAULT_SIZE" "pl_malloc31 lib n"
    and full: "n \<noteq> READ_BUFFER_DEFAULT_SIZE \<Longrightarrow> n > sizeof_IEFPRMLBHeader \<and>
         pl_read lib (space_pad 8 dd) (space_pad 8 mem) READ_BUFFER_DEFAULT_SIZE
           = (RC_IEFPRMLB_FAILED, RSN_IEFPRMLB_BUFFER_FULL, n, part)"
    and read: "pl_read lib (space_pad 8 dd) (space_pad 8 mem) n = (RC_IEFPRMLB_OK, rsn, sz, records)"
    and fits: "member_fits [] records"
  shows "\<exists>ps'. zisReadParmlib lib ps dd mem st = Some (RC_ZISPARM_OK, st, ps') \<and> parm_good N ps' \<and>
     (\<forall>k. zisGetParmValue ps' k =
        (case map_of (rev (map parmKeyValue (member_records [] records))) k of
           Some v \<Rightarrow> Some (Some v) | None \<Rightarrow> zisGetParmValue ps k))"
proof -
  let ?v0 = "\<lparr>pv_parmSet = ps, pv_currRecordStart = 0, pv_currRecordEnd = 0, pv_currRecord = []\<rparr>"
  obtain v where it: "iterateMember records ?v0 = Some (0, v)" "parm_good N (pv_parmSet v)"
    and m: "parm_map (pv_parmSet v) =
              parm_map ps ++ map_of (rev (map parmKeyValue (member_records [] records)))"
    using iterateMember_good [of ?v0 records N] good fits by auto
  have loop: "readMember_loop lib (space_pad 8 dd) (space_pad 8 mem) 2 READ_BUFFER_DEFAULT_SIZE 0 st None
                = (0, st, Some records)"
    using storage full read
    by (cases "n = READ_BUFFER_DEFAULT_SIZE")
      (simp_all add: numeral_2_eq_2 allocReadBuffer_def sizeof_IEFPRMLBHeader_def
        READ_BUFFER_DEFAULT_SIZE_def)
  have "zisReadParmlib lib ps dd mem st = Some (0, st, pv_parmSet v)"
    using names alloc loop it(1)
    by (cases "pl_alloc lib (space_pad 8 dd)"; cases "pl_free lib (space_pad 8 dd)")
      (auto simp: zisReadParmlib_def Let_def)
  moreover have "zisGetParmValue (pv_parmSet v) k =
      (case map_of (rev (map parmKeyValue (member_records [] records))) k of
         Some v \<Rightarrow> Some (Some v) | None \<Rightarrow> zisGetParmValue ps k)" for k
    using m good it(2)
    by (simp add: zisGetParmValue_wf parm_good_def parm_inv_def parm_map_def map_add_def
        split: option.splits)
  ultimately show ?thesis using it(2) by auto
qed

section \<open>Properties\<close>

text \<open>
  C18. On a set that satisfies the invariant, \<open>zisPutParmValue\<close> returns. When it returns
  \<open>RC_ZISPARM_OK\<close> the invariant still holds, the key/value list of the chain is the update of the
  one before (in place for a known key, at the end for a new one), and \<open>zisGetParmValue\<close> answers
  the new value for the key and what it answered before for every other name. The only other
  return code is \<open>RC_ZISPARM_SLH_ALLOC_FAILED\<close>.
\<close>

theorem zisPutParmValue_refines:
  assumes "parm_inv ps"
  shows "\<exists>rc ps'. zisPutParmValue ps k v = Some (rc, ps') \<and>
     (rc = RC_ZISPARM_OK \<longrightarrow>
        parm_inv ps' \<and> parm_alist ps' = AList.update k v (parm_alist ps) \<and>
        (\<forall>n. zisGetParmValue ps' n = (if n = k then Some (Some v) else zisGetParmValue ps n))) \<and>
     (rc \<noteq> RC_ZISPARM_OK \<longrightarrow> rc = RC_ZISPARM_SLH_ALLOC_FAILED)"
proof -
  obtain rc ps' where p: "zisPutParmValue ps k v = Some (rc, ps')"
    and c: "rc = 0 \<and> parm_inv ps' \<and> parm_alist ps' = AList.update k v (parm_alist ps)
         \<or> rc = RC_ZISPARM_SLH_ALLOC_FAILED"
    using zisPutParmValue_cases [OF assms] by blast
  from assms have wf: "parm_wf ps" by (simp add: parm_inv_def)
  have "zisGetParmValue ps' n = (if n = k then Some (Some v) else zisGetParmValue ps n)"
    if "parm_inv ps'" "parm_alist ps' = AList.update k v (parm_alist ps)" for n
    using that wf by (simp add: zisGetParmValue_wf parm_inv_def update_conv')
  with p c show ?thesis by auto
qed

theorem zisPutParmValue_refines_witness:
  "parm_inv empty_set \<and>
   (\<exists>ps'. zisPutParmValue empty_set ''NAME'' ''ZWESIS_STD'' = Some (0, ps') \<and>
     parm_alist ps' = [(''NAME'', ''ZWESIS_STD'')] \<and>
     zisGetParmValue ps' ''NAME'' = Some (Some ''ZWESIS_STD''))"
proof -
  obtain ps' where p: "zisPutParmValue empty_set ''NAME'' ''ZWESIS_STD'' = Some (0, ps')"
    using put_good [OF empty_set_good] by blast
  have "parm_alist empty_set = []" by (simp add: parm_alist_def empty_set_def)
  with p show ?thesis
    using zisPutParmValue_refines [OF empty_set_inv, of "''NAME''" "''ZWESIS_STD''"] empty_set_inv
    by auto
qed

text \<open>
  A parameter set made on zeroed storage satisfies the invariant and holds exactly the test
  parameter; \<open>zisMakeParmSet\<close> always returns, with \<open>NULL\<close> when the heap cannot be made or is
  exhausted.
\<close>

theorem zisMakeParmSet_established:
  assumes "slh_zeroed slh"
  shows "(zisMakeParmSet (Some slh) = Some None \<and> \<not> slh_serves set_cost slh) \<or>
     (\<exists>ps. zisMakeParmSet (Some slh) = Some (Some ps) \<and> parm_inv ps \<and>
           parm_alist ps = [(ZIS_PARM_TEST_PARM_NAME, ZIS_PARM_TEST_PARM_VALUE)])"
  using assms by (rule makeParmSet_inv)

theorem zisMakeParmSet_established_witness:
  "slh_zeroed plain_heap \<and>
   (\<exists>ps. zisMakeParmSet (Some plain_heap) = Some (Some ps) \<and> parm_inv ps)"
proof -
  show ?thesis
    using zisMakeParmSet_established [OF plain_heap_laws(1)] plain_heap_laws(1) slh_total_serves [OF plain_heap_laws(2)] by auto
qed

text \<open>
  C33. Round trip of the JCL parameter string: the text \<open>k1=v1,k2=v2,...\<close> of a list of parameters whose names and values
  hold no separator is read into a well-formed set. When the reader gets its work buffer and the set's heap, which is
  zeroed and limited, still grants requests for the bytes the list needs (an entry, the name and the value of each parameter),
  \<open>zisReadMainParms\<close> returns \<open>RC_ZISPARM_OK\<close> and leaves a set that answers, for every name, the last value of the
  list, or what it answered before when the list does not have the name. The heap then still grants what it had beyond that.
\<close>

theorem zisReadMainParms_roundtrip:
  assumes "parm_good (parms_cost kvs + N) ps" and "list_all clean_parm kvs"
  shows "\<exists>ps'. zisReadMainParms True ps (parm_text kvs) = Some (RC_ZISPARM_OK, ps') \<and> parm_good N ps' \<and>
     (\<forall>n. zisGetParmValue ps' n =
          (case map_of (rev kvs) n of Some v \<Rightarrow> Some (Some v) | None \<Rightarrow> zisGetParmValue ps n))"
  using assms by (rule readMainParms_text)

theorem zisReadMainParms_roundtrip_witness:
  "\<exists>ps'. zisReadMainParms True limited_set ''NAME=A,DEBUG=Y,NAME=B'' = Some (0, ps') \<and>
     zisGetParmValue ps' ''NAME'' = Some (Some ''B'') \<and>
     zisGetParmValue ps' ''DEBUG'' = Some (Some ''Y'')"
proof -
  let ?kvs = "[(''NAME'', ''A''), (''DEBUG'', ''Y''), (''NAME'', ''B'')]"
  have "list_all clean_parm ?kvs" by (simp add: clean_parm_def nul_def)
  from zisReadMainParms_roundtrip [OF limited_set_good this, of 0] show ?thesis
    by (auto simp: put_cost_def sizeof_ZISParmSetEntry_def)
qed

text \<open>
  C35. The slice that \<open>getTrimmedSlice\<close> returns by its two index loops is the record without its
  leading and trailing blanks, and its length is exact.
\<close>

theorem getTrimmedSlice_is_trim:
  "case getTrimmedSlice s of (off, n) \<Rightarrow>
     take n (drop off s) = trim s \<and> n = length (trim s) \<and> off + n \<le> length s"
proof -
  obtain off n where g: "getTrimmedSlice s = (off, n)" by fastforce
  with trim_slice have t: "take n (drop off s) = trim s" "n = length (trim s)" by blast+
  then have "n \<le> length s - off" by (metis length_drop length_take min.cobounded1)
  moreover have "off \<le> length s"
    using g trimFront_eq [of 0 s] length_takeWhile_le [of is_blank s]
    by (auto simp: getTrimmedSlice_def Let_def split: if_splits prod.splits)
  ultimately show ?thesis using g t by auto
qed


text \<open>
  C34. \<open>zisReadParmlib\<close> with DD and member names of at most eight characters, on a DD that is allocated by the call or was
  allocated before, and a member that can be read, in the default buffer or, after a \<open>BUFFER_FULL\<close>, in one of the size the
  service asked for. The 31-bit buffers of these two sizes can be allocated, the joined lines fit the record buffer, and
  the heap of the set, which is zeroed and limited, still grants requests for the bytes that the records and their parameters need. Then it
  returns \<open>RC_ZISPARM_OK\<close>, and the set answers for every name the value of the last
  logical record (lines trimmed, comments dropped, continuations joined) that has the name, or
  what it answered before. The return code of the final free request does not matter.
\<close>

theorem zisReadParmlib_reads:
  assumes good: "parm_good (records_cost (member_records [] records) + N) ps"
    and names: "length dd \<le> 8" "length mem \<le> 8"
    and alloc: "fst (pl_alloc lib (space_pad 8 dd)) = RC_IEFPRMLB_OK \<or>
                pl_alloc lib (space_pad 8 dd) = (RC_IEFPRMLB_WARN, RSN_IEFPRMLB_ALREADY_ALLOCATED)"
    and storage: "pl_malloc31 lib READ_BUFFER_DEFAULT_SIZE" "pl_malloc31 lib n"
    and full: "n \<noteq> READ_BUFFER_DEFAULT_SIZE \<Longrightarrow> n > sizeof_IEFPRMLBHeader \<and>
         pl_read lib (space_pad 8 dd) (space_pad 8 mem) READ_BUFFER_DEFAULT_SIZE
           = (RC_IEFPRMLB_FAILED, RSN_IEFPRMLB_BUFFER_FULL, n, part)"
    and read: "pl_read lib (space_pad 8 dd) (space_pad 8 mem) n = (RC_IEFPRMLB_OK, rsn, sz, records)"
    and fits: "member_fits [] records"
  shows "\<exists>ps'. zisReadParmlib lib ps dd mem st = Some (RC_ZISPARM_OK, st, ps') \<and> parm_good N ps' \<and>
     (\<forall>k. zisGetParmValue ps' k =
        (case map_of (rev (map parmKeyValue (member_records [] records))) k of
           Some v \<Rightarrow> Some (Some v) | None \<Rightarrow> zisGetParmValue ps k))"
  using assms by (rule readParmlib_member)

definition demo_lib :: iefprmlb where
  "demo_lib =
     \<lparr>pl_alloc = (\<lambda>dd. (0, 0)),
      pl_read = (\<lambda>dd mem n. if n = READ_BUFFER_DEFAULT_SIZE then (12, 10, 2000000, [])
         else (0, 0, 0, [''* comment  '', ''NAME=ZWE'' @ [CHR 0x5C] @ ''  '', ''  SIS'', ''DEBUG=Y ''])),
      pl_free = (\<lambda>dd. (8, 0)), pl_malloc31 = (\<lambda>n. True)\<rparr>"

theorem zisReadParmlib_reads_witness:
  "\<exists>ps'. zisReadParmlib demo_lib limited_set ''PARMLIB'' ''ZWESIP00'' \<lparr>st_internalRC = 0, st_internalRSN = 0\<rparr>
     = Some (0, \<lparr>st_internalRC = 0, st_internalRSN = 0\<rparr>, ps') \<and>
   zisGetParmValue ps' ''NAME'' = Some (Some ''ZWESIS'') \<and>
   zisGetParmValue ps' ''DEBUG'' = Some (Some ''Y'')"
proof -
  let ?rs = "[''* comment  '', ''NAME=ZWE'' @ [CHR 0x5C] @ ''  '', ''  SIS'', ''DEBUG=Y '']"
  have fits: "member_fits [] ?rs"
    by (simp add: trim_def isParmCommentedOut_def sizeof_currRecord_def)
  have kv: "map parmKeyValue (member_records [] ?rs) = [(''NAME'', ''ZWESIS''), (''DEBUG'', ''Y'')]"
    by (simp add: trim_def isParmCommentedOut_def parmKeyValue_def cstr_def split_at_def nul_def)
  have room: "parm_good (records_cost (member_records [] ?rs) + 0) limited_set"
    by (rule limited_set_good)
      (simp add: trim_def isParmCommentedOut_def put_cost_def parmKeyValue_def cstr_def split_at_def nul_def sizeof_ZISParmSetEntry_def)
  have "\<exists>ps'. zisReadParmlib demo_lib limited_set ''PARMLIB'' ''ZWESIP00'' \<lparr>st_internalRC = 0, st_internalRSN = 0\<rparr>
     = Some (0, \<lparr>st_internalRC = 0, st_internalRSN = 0\<rparr>, ps') \<and> parm_good 0 ps' \<and>
     (\<forall>k. zisGetParmValue ps' k =
        (case map_of (rev (map parmKeyValue (member_records [] ?rs))) k of
           Some v \<Rightarrow> Some (Some v) | None \<Rightarrow> zisGetParmValue limited_set k))"
    by (rule zisReadParmlib_reads [where n = 2000000 and part = "[]" and rsn = 0 and sz = 0])
      (use room fits in \<open>auto simp: demo_lib_def READ_BUFFER_DEFAULT_SIZE_def
        sizeof_IEFPRMLBHeader_def\<close>)
  then show ?thesis unfolding kv by auto
qed

text \<open>
  When the DD was allocated by the call and freeing it fails, the outcome depends on the
  outcome of the read in the opposite way to what its name suggests: an earlier error, here a
  member that does not exist, is replaced by \<open>RC_ZISPARM_PARMLIB_FREE_FAILED\<close> with the codes of the
  free request.
\<close>

theorem zisReadParmlib_free_masks_error:
  assumes "length dd \<le> 8" and "length mem \<le> 8" and "fst (pl_alloc lib (space_pad 8 dd)) = RC_IEFPRMLB_OK"
    and "pl_malloc31 lib READ_BUFFER_DEFAULT_SIZE"
    and "pl_read lib (space_pad 8 dd) (space_pad 8 mem) READ_BUFFER_DEFAULT_SIZE
           = (RC_IEFPRMLB_FAILED, RSN_IEFPRMLB_MEMBER_NOT_FOUND, sz, records)"
    and "pl_free lib (space_pad 8 dd) = (freeRC, freeRSN)"
  shows "zisReadParmlib lib ps dd mem st =
     (if freeRC = RC_IEFPRMLB_OK then Some (RC_ZISPARM_MEMBER_NOT_FOUND, st, ps)
      else Some (RC_ZISPARM_PARMLIB_FREE_FAILED, \<lparr>st_internalRC = freeRC, st_internalRSN = freeRSN\<rparr>, ps))"
  using assms
  by (cases "pl_alloc lib (space_pad 8 dd)")
    (simp add: zisReadParmlib_def numeral_2_eq_2 allocReadBuffer_def sizeof_IEFPRMLBHeader_def
      READ_BUFFER_DEFAULT_SIZE_def)

theorem zisReadParmlib_free_masks_error_witness:
  "zisReadParmlib
     \<lparr>pl_alloc = (\<lambda>dd. (0, 0)), pl_read = (\<lambda>dd mem n. (12, 1, 0, [])), pl_free = (\<lambda>dd. (8, 4)),
      pl_malloc31 = (\<lambda>n. True)\<rparr> empty_set ''PARMLIB'' ''ZWESIP99'' \<lparr>st_internalRC = 0, st_internalRSN = 0\<rparr>
   = Some (RC_ZISPARM_PARMLIB_FREE_FAILED, \<lparr>st_internalRC = 8, st_internalRSN = 4\<rparr>, empty_set)"
  by (subst zisReadParmlib_free_masks_error [where sz = 0 and records = "[]" and freeRC = 8 and freeRSN = 4])
    simp_all

text \<open>
  The buffer that joins continuation lines never overflows: whatever the record,
  \<open>handleParmRecord\<close> leaves the joined text shorter than the 4096 bytes of \<open>currRecord\<close> (room for
  its NUL), in every branch, errors included; and a line too many is refused with
  \<open>RC_ZISPARM_CONTINUATION_TOO_LONG\<close>, leaving the parameter set alone.
\<close>

theorem handleParmRecord_bounds:
  assumes "length (pv_currRecord ctx) < sizeof_currRecord"
    and "handleParmRecord r ctx = Some (rc, ctx')"
  shows "length (pv_currRecord ctx') < sizeof_currRecord \<and>
     (length (pv_currRecord ctx) + length (trim r) \<ge> sizeof_currRecord \<longrightarrow>
      \<not> (pv_currRecord ctx = [] \<and> isParmCommentedOut (trim r)) \<longrightarrow>
      rc = RC_ZISPARM_CONTINUATION_TOO_LONG \<and> pv_parmSet ctx' = pv_parmSet ctx)"
proof -
  have put: "length (pv_currRecord c') \<le> length (pv_currRecord c)"
    if "putFullRecord c = Some (rc, c')" for c c' :: "'a ParmRecordVisitorData"
    using that by (auto simp: putFullRecord_def Let_def split: prod.splits option.splits)
  have "length (pv_currRecord ctx') < sizeof_currRecord"
    using assms put [of _ ctx'] unfolding handleParmRecord_trim Let_def
    by (fastforce split: if_splits)
  then show ?thesis
    using assms(2) unfolding handleParmRecord_trim Let_def by (auto split: if_splits)
qed

theorem handleParmRecord_bounds_witness:
  "\<exists>ctx'. handleParmRecord ''B''
       \<lparr>pv_parmSet = empty_set, pv_currRecordStart = 1, pv_currRecordEnd = 60,
        pv_currRecord = replicate 4095 CHR ''A''\<rparr> = Some (RC_ZISPARM_CONTINUATION_TOO_LONG, ctx') \<and>
     length (pv_currRecord ctx') < sizeof_currRecord"
proof -
  let ?ctx = "\<lparr>pv_parmSet = empty_set, pv_currRecordStart = 1, pv_currRecordEnd = 60,
        pv_currRecord = replicate 4095 CHR ''A''\<rparr>"
  have "handleParmRecord ''B'' ?ctx = Some (RC_ZISPARM_CONTINUATION_TOO_LONG, countRecord ?ctx)"
    by (simp add: handleParmRecord_trim trim_def sizeof_currRecord_def Let_def)
  then show ?thesis
    using handleParmRecord_bounds [of ?ctx "''B''"] by (auto simp: sizeof_currRecord_def)
qed

text \<open>
  \<open>zisLoadParmsToCMServer\<close> hands every parameter to the server in the order of the chain and
  stops at the first refusal, with \<open>RC_ZISPARM_CMS_CALL_FAILED\<close> and the server's code as the reason
  code; on a well-formed set it always returns.
\<close>

theorem zisLoadParmsToCMServer_in_order:
  assumes "parm_wf ps"
  shows "zisLoadParmsToCMServer add server ps rsn = Some (load_pairs add (parm_alist ps) server rsn)"
  using assms loadParms_loop_from [of "ps_entries ps" 0 add server rsn]
  by (simp add: zisLoadParmsToCMServer_def parm_alist_def parm_wf_def parm_linked_def Let_def
      list_all_length)

theorem zisLoadParmsToCMServer_in_order_witness:
  "zisLoadParmsToCMServer (\<lambda>srv k v. (if k = Some ''B'' then 7 else 0, srv @ [the k]))
     [] \<lparr>ps_slh = plain_heap, ps_firstEntry = Some 0, ps_lastEntry = Some 1,
         ps_entries = [\<lparr>pse_next = Some 1, pse_key = Some ''A'', pse_value = Some ''1''\<rparr>,
                       \<lparr>pse_next = None, pse_key = Some ''B'', pse_value = Some ''2''\<rparr>]\<rparr> 0
   = Some (RC_ZISPARM_CMS_CALL_FAILED, 7, [''A'', ''B''])"
  by (subst zisLoadParmsToCMServer_in_order)
    (auto simp: parm_wf_def parm_linked_def parm_ptr_def entry_full_def parm_alist_def entry_pair_def
      less_Suc_eq)

end
