(* ===== verification/ZIS_Server.thy ===== *)
theory ZIS_Server
  imports ZIS_Registry ZIS_Parm
begin

text \<open>
  The plug-in and service registry of the cross-memory server (src/c/zis/server.c from
  \<open>zisRouteService\<close> to \<open>handleModifyCommands\<close>, and src/c/zis/server-api.c): the service router, the
  chains of plug-in and service anchors in common storage, the service table, the installation,
  relocation, cleaning and termination of plug-ins.

  The state is the server's context, common storage and the private storage of the plug-in
  descriptors, all at the level of addresses: the loops follow \<open>next\<close> pointers. Code outside the
  repository is the record \<open>ServerEnv\<close> of parameters: \<open>cmAlloc\<close>, the cross-memory map, \<open>cmsTestAuth\<close>,
  the recovery facility, the LPA services, module loading, and the functions of the plug-ins
  themselves. A plug-in's function gets its anchor and may change the data area there; its
  return code \<open>None\<close> stands for an abend, which the recovery facility intercepts. Logging is left
  out.
\<close>

section \<open>The environment and the state\<close>

type_synonym PluginStore = "addr \<Rightarrow> ZISPlugin option"

record CMSFlags =
  CMS_SERVER_FLAG_COLD_START :: flags
  CMS_SERVER_FLAG_DEBUG :: flags
  CMS_SERVER_FLAG_CHECKAUTH :: flags
  CMS_SERVER_FLAG_DEV_MODE :: flags
  CMS_SERVER_FLAG_DEV_MODE_LPA :: flags
  CMS_SERVER_FLAG_RESET_LOOKUP :: flags

record 'm ServerEnv =
  cmAlloc :: "'m CommonStorage \<Rightarrow> nat \<Rightarrow> addr option"
  makeCrossMemoryMap :: "nat \<Rightarrow> 'm option"
  crossMemoryMapGet :: "'m \<Rightarrow> ZISServicePath \<Rightarrow> addr option"
  crossMemoryMapPut :: "'m \<Rightarrow> ZISServicePath \<Rightarrow> addr \<Rightarrow> rc \<times> 'm"
  crossMemoryMapSet :: "'m \<Rightarrow> ZISServicePath \<Rightarrow> addr \<Rightarrow> 'm option"
  cmsTestAuth :: "string \<Rightarrow> string \<Rightarrow> bool"
  recoveryPush :: "string \<Rightarrow> rc"
  callback :: "fnptr \<Rightarrow> string option \<Rightarrow> rc option \<times> string"
  commandCallback :: "fnptr \<Rightarrow> string option \<Rightarrow> string option \<Rightarrow> string"
  serveCallback :: "fnptr \<Rightarrow> addr option \<Rightarrow> string \<Rightarrow> rc \<times> string"
  lpaAdd :: "LPMEA \<Rightarrow> string \<Rightarrow> string \<Rightarrow> rc \<times> LPMEA"
  lpaDelete :: "LPMEA \<Rightarrow> rc \<times> LPMEA"
  loadByNameLocally :: "string \<Rightarrow> (32 word option \<times> int) option"
  pluginDescriptor :: "32 word \<Rightarrow> PluginStore \<Rightarrow> addr option option \<times> PluginStore"
  sizeof_LPMEA :: nat
  cmsFlagValues :: CMSFlags
  ZIS_LPA_DEV_MODE :: bool
  ZIS_DEV_MODE :: bool

record 's ZISContext =
  cx_parms :: "'s ZISParmSet option"
  cx_cmServer :: "addr option"
  cx_cmsGA :: "addr option"
  cx_zisAnchor :: "addr option"
  cx_firstPlugin :: "addr option"
  cx_cmsFlags :: flags
  cx_zisModuleName :: string
  cx_dynlinkModuleName :: string

record ('m, 's) ServerState =
  ss_context :: "'s ZISContext"
  ss_common :: "'m CommonStorage"
  ss_plugins :: PluginStore
  ss_userServerAnchor :: "addr option"

text \<open>Updates through a pointer: \<open>None\<close> where nothing is stored at the address.\<close>

definition modService :: "addr \<Rightarrow> (ZISServiceAnchor \<Rightarrow> ZISServiceAnchor) \<Rightarrow> 'm CommonStorage \<Rightarrow> 'm CommonStorage option" where
  "modService a f cs =
     (case cs_services cs a of
        None \<Rightarrow> None
      | Some sa \<Rightarrow> Some (cs\<lparr>cs_services := (cs_services cs)(a \<mapsto> f sa)\<rparr>))"

definition modPluginAnchor :: "addr \<Rightarrow> (ZISPluginAnchor \<Rightarrow> ZISPluginAnchor) \<Rightarrow> 'm CommonStorage \<Rightarrow> 'm CommonStorage option" where
  "modPluginAnchor a f cs =
     (case cs_plugins cs a of
        None \<Rightarrow> None
      | Some pa \<Rightarrow> Some (cs\<lparr>cs_plugins := (cs_plugins cs)(a \<mapsto> f pa)\<rparr>))"

definition modServer :: "addr \<Rightarrow> ('m ZISServerAnchor \<Rightarrow> 'm ZISServerAnchor) \<Rightarrow> 'm CommonStorage \<Rightarrow> 'm CommonStorage option" where
  "modServer a f cs =
     (case cs_servers cs a of
        None \<Rightarrow> None
      | Some sv \<Rightarrow> Some (cs\<lparr>cs_servers := (cs_servers cs)(a \<mapsto> f sv)\<rparr>))"

definition modPlugin :: "addr \<Rightarrow> (ZISPlugin \<Rightarrow> ZISPlugin) \<Rightarrow> PluginStore \<Rightarrow> PluginStore option" where
  "modPlugin a f ps = (case ps a of None \<Rightarrow> None | Some p \<Rightarrow> Some (ps(a \<mapsto> f p)))"

text \<open>The \<open>next\<close> pointers of the three chains.\<close>

definition pluginNext :: "'m CommonStorage \<Rightarrow> addr \<Rightarrow> addr option option" where
  "pluginNext cs a = map_option pa_next (cs_plugins cs a)"

definition serviceNext :: "'m CommonStorage \<Rightarrow> addr \<Rightarrow> addr option option" where
  "serviceNext cs a = map_option sa_next (cs_services cs a)"

definition descriptorNext :: "PluginStore \<Rightarrow> addr \<Rightarrow> addr option option" where
  "descriptorNext ps a = map_option p_next (ps a)"

section \<open>The service router\<close>

abbreviation (input) RC_ZIS_SRVC_BAD_EYECATCHER :: rc where "RC_ZIS_SRVC_BAD_EYECATCHER \<equiv> 12"
abbreviation (input) RC_ZIS_SRVC_BAD_ROUTER_VERSION :: rc where "RC_ZIS_SRVC_BAD_ROUTER_VERSION \<equiv> 13"
abbreviation (input) RC_ZIS_SRVC_SERVICE_NOT_FOUND :: rc where "RC_ZIS_SRVC_SERVICE_NOT_FOUND \<equiv> 14"
abbreviation (input) RC_ZIS_SRVC_BAD_SERVICE_VERSION :: rc where "RC_ZIS_SRVC_BAD_SERVICE_VERSION \<equiv> 15"
abbreviation (input) RC_ZIS_SRVC_SERVICE_INACTIVE :: rc where "RC_ZIS_SRVC_SERVICE_INACTIVE \<equiv> 16"
abbreviation (input) RC_ZIS_SRVC_SPECIFIC_AUTH_FAILED :: rc where "RC_ZIS_SRVC_SPECIFIC_AUTH_FAILED \<equiv> 17"

record ZISServiceRouterParm =
  rp_eyecatcher :: string
  rp_version :: "32 word"
  rp_size :: "32 word"
  rp_targetServicePath :: ZISServicePath
  rp_targetServiceParm :: "addr option"
  rp_serviceVersion :: "32 word"

definition ZIS_SERVICE_ROUTER_EYECATCHER :: string where "ZIS_SERVICE_ROUTER_EYECATCHER = ''ZISSREYE''"
definition ZIS_SERVICE_ROUTER_VERSION :: "32 word" where "ZIS_SERVICE_ROUTER_VERSION = 1"

text \<open>
  \<open>zisRouteService\<close> on the caller's parameter list, already copied from the secondary space. The
  result holds the return code, the serve function that was entered, if any, and common storage
  behind the call (a serve function may change its service's data area).
\<close>

definition callServe ::
    "'m ServerEnv \<Rightarrow> addr \<Rightarrow> ZISServiceAnchor \<Rightarrow> addr option \<Rightarrow> 'm CommonStorage
     \<Rightarrow> (rc \<times> fnptr option \<times> 'm CommonStorage) option" where
  "callServe env a sa serviceParm cs =
     (case sa_serve sa of
        None \<Rightarrow> None
      | Some fn \<Rightarrow>
          (let (r, dat) = serveCallback env fn serviceParm (sa_serviceData sa)
           in map_option (\<lambda>cs'. (r, Some fn, cs')) (modService a (sa_serviceData_update (\<lambda>_. dat)) cs)))"

definition zisRouteService ::
    "'m ServerEnv \<Rightarrow> addr option \<Rightarrow> ZISServiceRouterParm \<Rightarrow> 'm CommonStorage
     \<Rightarrow> (rc \<times> fnptr option \<times> 'm CommonStorage) option" where
  "zisRouteService env userServerAnchor localParm cs =
     (if rp_eyecatcher localParm \<noteq> ZIS_SERVICE_ROUTER_EYECATCHER
      then Some (RC_ZIS_SRVC_BAD_EYECATCHER, None, cs)
      else if rp_version localParm > ZIS_SERVICE_ROUTER_VERSION
      then Some (RC_ZIS_SRVC_BAD_ROUTER_VERSION, None, cs)
      else
        case userServerAnchor of
          None \<Rightarrow> None
        | Some svAddr \<Rightarrow>
            (case cs_servers cs svAddr of
               None \<Rightarrow> None
             | Some serverAnchor \<Rightarrow>
                 (case sv_serviceTable serverAnchor of
                    None \<Rightarrow> None
                  | Some serviceTable \<Rightarrow>
                      (case crossMemoryMapGet env serviceTable (rp_targetServicePath localParm) of
                         None \<Rightarrow> Some (RC_ZIS_SRVC_SERVICE_NOT_FOUND, None, cs)
                       | Some a \<Rightarrow>
                           (case cs_services cs a of
                              None \<Rightarrow> None
                            | Some sa \<Rightarrow>
                                (if rp_serviceVersion localParm > sa_serviceVersion sa \<and>
                                    rp_serviceVersion localParm \<noteq> ZIS_SERVICE_ANY_VERSION
                                 then Some (RC_ZIS_SRVC_BAD_SERVICE_VERSION, None, cs)
                                 else if \<not> has_flag (sa_state sa) ZIS_SERVICE_ANCHOR_STATE_ACTIVE
                                 then Some (RC_ZIS_SRVC_SERVICE_INACTIVE, None, cs)
                                 else if has_flag (sa_flags sa) ZIS_SERVICE_ANCHOR_FLAG_SPECIFIC_AUTH \<and>
                                         \<not> cmsTestAuth env (sa_safClassName sa) (sa_safEntityName sa)
                                 then Some (RC_ZIS_SRVC_SPECIFIC_AUTH_FAILED, None, cs)
                                 else callServe env a sa (rp_targetServiceParm localParm) cs))))))"

section \<open>The core services\<close>

text \<open>
  \<open>registerCoreServices\<close>: \<open>cmsRegisterService\<close> is a parameter that gets the service's number,
  the name of its function and its flags, and answers its return code and the server behind the
  call. Registration stops at the first refusal.
\<close>

datatype cms_service_flag = CMS_SERVICE_FLAG_RELOCATE_TO_COMMON | CMS_SERVICE_FLAG_SPACE_SWITCH

type_synonym 'srv cmsRegister = "'srv \<Rightarrow> nat \<Rightarrow> string \<Rightarrow> cms_service_flag list \<Rightarrow> rc \<times> 'srv"

fun registerAll ::
    "'srv cmsRegister \<Rightarrow> (nat \<times> string \<times> cms_service_flag list) list \<Rightarrow> 'srv \<Rightarrow> rc \<times> 'srv" where
  "registerAll cmsRegisterService [] server = (RC_ZIS_OK, server)"
| "registerAll cmsRegisterService ((serviceID, fn, fl) # rest) server =
     (case cmsRegisterService server serviceID fn fl of
        (regRC, server') \<Rightarrow>
          (if regRC \<noteq> 0 then (RC_ZIS_ERROR, server') else registerAll cmsRegisterService rest server'))"

definition registerZISServiceRouter :: "'srv cmsRegister \<Rightarrow> 'srv \<Rightarrow> rc \<times> 'srv" where
  "registerZISServiceRouter cmsRegisterService cms =
     registerAll cmsRegisterService
       [(65, ''zisRouteService'', [CMS_SERVICE_FLAG_RELOCATE_TO_COMMON]),
        (64, ''zisRouteService'', [CMS_SERVICE_FLAG_RELOCATE_TO_COMMON, CMS_SERVICE_FLAG_SPACE_SWITCH])]
       cms"

definition coreServices :: "(nat \<times> string \<times> cms_service_flag list) list" where
  "coreServices =
     [(11, ''zisAuthServiceFunction'', [CMS_SERVICE_FLAG_RELOCATE_TO_COMMON]),
      (12, ''zisSnarferServiceFunction'', [CMS_SERVICE_FLAG_SPACE_SWITCH, CMS_SERVICE_FLAG_RELOCATE_TO_COMMON]),
      (13, ''zisNWMServiceFunction'', [CMS_SERVICE_FLAG_RELOCATE_TO_COMMON]),
      (14, ''zisUserProfilesServiceFunction'', [CMS_SERVICE_FLAG_RELOCATE_TO_COMMON]),
      (15, ''zisGenresProfilesServiceFunction'', [CMS_SERVICE_FLAG_RELOCATE_TO_COMMON]),
      (16, ''zisGenresAccessListServiceFunction'', [CMS_SERVICE_FLAG_RELOCATE_TO_COMMON]),
      (17, ''zisGenresProfileAdminServiceFunction'', [CMS_SERVICE_FLAG_RELOCATE_TO_COMMON]),
      (18, ''zisGroupProfilesServiceFunction'', [CMS_SERVICE_FLAG_RELOCATE_TO_COMMON]),
      (19, ''zisGroupAccessListServiceFunction'', [CMS_SERVICE_FLAG_RELOCATE_TO_COMMON]),
      (20, ''zisGroupAdminServiceFunction'', [CMS_SERVICE_FLAG_RELOCATE_TO_COMMON])]"

definition registerCoreServices :: "'srv cmsRegister \<Rightarrow> 'srv \<Rightarrow> rc \<times> 'srv" where
  "registerCoreServices cmsRegisterService server =
     (case registerAll cmsRegisterService coreServices server of
        (regRC, server1) \<Rightarrow>
          (if regRC \<noteq> RC_ZIS_OK then (RC_ZIS_ERROR, server1)
           else case registerZISServiceRouter cmsRegisterService server1 of
                  (routerRC, server2) \<Rightarrow>
                    (if routerRC \<noteq> 0 then (RC_ZIS_ERROR, server2) else (RC_ZIS_OK, server2))))"

section \<open>The service table\<close>

definition sizeof_ZISServicePath :: nat where "sizeof_ZISServicePath = 32"

text \<open>
  \<open>initServiceTable\<close>: when the table cannot be made, the pointer stays \<open>NULL\<close> and the function
  still answers \<open>RC_ZIS_OK\<close>, since its error branch asks whether the anchor is \<open>NULL\<close>.
\<close>

definition initServiceTable :: "'m ServerEnv \<Rightarrow> addr \<Rightarrow> 'm CommonStorage \<Rightarrow> (rc \<times> 'm CommonStorage) option" where
  "initServiceTable env anchor cs =
     (case cs_servers cs anchor of
        None \<Rightarrow> None
      | Some sv \<Rightarrow>
          (let table = (if sv_serviceTable sv \<noteq> None \<and> ZIS_DEV_MODE env then None else sv_serviceTable sv);
               table' = (if table = None then makeCrossMemoryMap env sizeof_ZISServicePath else table)
           in map_option (Pair RC_ZIS_OK) (modServer anchor (sv_serviceTable_update (\<lambda>_. table')) cs)))"

definition destroyServiceTable :: "addr option \<Rightarrow> 'm CommonStorage \<Rightarrow> 'm CommonStorage option" where
  "destroyServiceTable zisAnchor cs =
     (case zisAnchor of
        None \<Rightarrow> Some cs
      | Some anchor \<Rightarrow> modServer anchor (sv_serviceTable_update (\<lambda>_. None)) cs)"

section \<open>Finding, discarding and cleaning anchors\<close>

definition findPluginAnchor :: "addr \<Rightarrow> ZISPluginName \<Rightarrow> 'm CommonStorage \<Rightarrow> addr option option" where
  "findPluginAnchor serverAnchor name cs =
     (case cs_servers cs serverAnchor of
        None \<Rightarrow> None
      | Some sv \<Rightarrow>
          chain_find (cs_plugins cs) pa_next
            (\<lambda>pa. name = pa_name pa \<and> pa_version pa \<le> ZIS_PLUGIN_ANCHOR_VERSION) (sv_firstPlugin sv))"

definition service_matches :: "ZISServiceName \<Rightarrow> ZISServiceAnchor \<Rightarrow> bool" where
  "service_matches name sa \<longleftrightarrow>
     name = serviceName (sa_path sa) \<and> sa_version sa \<le> ZIS_SERVICE_ANCHOR_VERSION \<and>
     \<not> has_flag (sa_state sa) ZIS_SERVICE_ANCHOR_STATE_DISCARDED"

definition findServiceAnchor :: "addr \<Rightarrow> ZISServiceName \<Rightarrow> 'm CommonStorage \<Rightarrow> addr option option" where
  "findServiceAnchor pluginAnchor name cs =
     (case cs_plugins cs pluginAnchor of
        None \<Rightarrow> None
      | Some pa \<Rightarrow> chain_find (cs_services cs) sa_next (service_matches name) (pa_firstService pa))"

definition discardServiceAnchor :: "addr \<Rightarrow> 'm CommonStorage \<Rightarrow> 'm CommonStorage option" where
  "discardServiceAnchor anchor cs =
     modService anchor (sa_state_update (\<lambda>s. set_flag s ZIS_SERVICE_ANCHOR_STATE_DISCARDED)) cs"

definition deactivate :: "ZISServiceAnchor \<Rightarrow> ZISServiceAnchor" where
  "deactivate sa = sa\<lparr>sa_state := clear_flag (sa_state sa) ZIS_SERVICE_ANCHOR_STATE_ACTIVE, sa_serve := None\<rparr>"

definition cleanPluginAnchor :: "addr \<Rightarrow> 'm CommonStorage \<Rightarrow> (rc \<times> 'm CommonStorage) option" where
  "cleanPluginAnchor anchor cs =
     (case cs_plugins cs anchor of
        None \<Rightarrow> None
      | Some pa \<Rightarrow>
          map_option (Pair RC_ZIS_OK)
            (chain_each serviceNext (\<lambda>a. modService a deactivate) (pa_firstService pa) cs))"

definition zisIsLPADevModeOn :: "'m ServerEnv \<Rightarrow> flags \<Rightarrow> bool" where
  "zisIsLPADevModeOn env cmsFlags =
     (has_flag cmsFlags (CMS_SERVER_FLAG_DEV_MODE_LPA (cmsFlagValues env) OR
                         CMS_SERVER_FLAG_DEV_MODE (cmsFlagValues env)) \<or> ZIS_LPA_DEV_MODE env)"

text \<open>Forget the LPA module of a plug-in: the module information is zeroed and the flag cleared.\<close>

definition forgetLPA :: "ZISPluginAnchor \<Rightarrow> ZISPluginAnchor" where
  "forgetLPA pa = pa\<lparr>pa_moduleInfo := emptyLPMEA,
                     pa_flags := clear_flag (pa_flags pa) ZIS_PLUGIN_ANCHOR_FLAG_LPA\<rparr>"

definition removePluginFromLPAIfNeeded ::
    "'m ServerEnv \<Rightarrow> flags \<Rightarrow> addr \<Rightarrow> 'm CommonStorage \<Rightarrow> (rc \<times> 'm CommonStorage) option" where
  "removePluginFromLPAIfNeeded env cmsFlags anchor cs =
     (case cs_plugins cs anchor of
        None \<Rightarrow> None
      | Some pa \<Rightarrow>
          (if has_flag (pa_flags pa) ZIS_PLUGIN_ANCHOR_FLAG_LPA \<and> zisIsLPADevModeOn env cmsFlags
           then let (lpaRC, info) = lpaDelete env (pa_moduleInfo pa)
                in if lpaRC \<noteq> 0
                   then map_option (Pair RC_ZIS_ERROR)
                          (modPluginAnchor anchor (pa_moduleInfo_update (\<lambda>_. info)) cs)
                   else map_option (Pair RC_ZIS_OK) (modPluginAnchor anchor forgetLPA cs)
           else Some (RC_ZIS_OK, cs)))"

definition cleanPlugin :: "'m ServerEnv \<Rightarrow> flags \<Rightarrow> addr \<Rightarrow> 'm CommonStorage \<Rightarrow> 'm CommonStorage option" where
  "cleanPlugin env cmsFlags currPlugin cs =
     (case cleanPluginAnchor currPlugin cs of
        None \<Rightarrow> None
      | Some (_, cs') \<Rightarrow> map_option snd (removePluginFromLPAIfNeeded env cmsFlags currPlugin cs'))"

definition cleanPlugins :: "'m ServerEnv \<Rightarrow> flags \<Rightarrow> addr \<Rightarrow> 'm CommonStorage \<Rightarrow> 'm CommonStorage option" where
  "cleanPlugins env cmsFlags serverAnchor cs =
     (case cs_servers cs serverAnchor of
        None \<Rightarrow> None
      | Some sv \<Rightarrow> chain_each pluginNext (cleanPlugin env cmsFlags) (sv_firstPlugin sv) cs)"

section \<open>Calling a plug-in's functions under recovery\<close>

text \<open>
  The four functions \<open>callPluginInit\<close>, \<open>callPluginTerm\<close>, \<open>callServiceInit\<close> and \<open>callServiceTerm\<close> have
  one shape: set up recovery, call the function if there is one, and answer \<open>RC_ZIS_ERROR\<close> when
  recovery could not be set up, the function abended or it failed.
\<close>

definition guardedCall :: "'m ServerEnv \<Rightarrow> string \<Rightarrow> fnptr option \<Rightarrow> string option \<Rightarrow> rc \<times> string option" where
  "guardedCall env label fn dat =
     (if recoveryPush env label \<noteq> 0 then (RC_ZIS_ERROR, dat)
      else case fn of
             None \<Rightarrow> (RC_ZIS_OK, dat)
           | Some f \<Rightarrow>
               (case callback env f dat of
                  (None, d) \<Rightarrow> (RC_ZIS_ERROR, Some d)
                | (Some r, d) \<Rightarrow> (if r \<noteq> RC_ZIS_OK then (RC_ZIS_ERROR, Some d) else (RC_ZIS_OK, Some d))))"

text \<open>The plug-in's or service's data area behind a call; with a \<open>NULL\<close> anchor there is none.\<close>

definition pluginCall ::
    "'m ServerEnv \<Rightarrow> string \<Rightarrow> fnptr option \<Rightarrow> addr option \<Rightarrow> 'm CommonStorage \<Rightarrow> (rc \<times> 'm CommonStorage) option" where
  "pluginCall env label fn anchor cs =
     (case anchor of
        None \<Rightarrow> Some (fst (guardedCall env label fn None), cs)
      | Some a \<Rightarrow>
          (case cs_plugins cs a of
             None \<Rightarrow> None
           | Some pa \<Rightarrow>
               (let (r, d) = guardedCall env label fn (Some (pa_pluginData pa))
                in map_option (Pair r) (modPluginAnchor a (pa_pluginData_update (\<lambda>old. case d of None \<Rightarrow> old | Some x \<Rightarrow> x)) cs))))"

definition serviceCall ::
    "'m ServerEnv \<Rightarrow> string \<Rightarrow> fnptr option \<Rightarrow> addr option \<Rightarrow> 'm CommonStorage \<Rightarrow> (rc \<times> 'm CommonStorage) option" where
  "serviceCall env label fn anchor cs =
     (case anchor of
        None \<Rightarrow> Some (fst (guardedCall env label fn None), cs)
      | Some a \<Rightarrow>
          (case cs_services cs a of
             None \<Rightarrow> None
           | Some sa \<Rightarrow>
               (let (r, d) = guardedCall env label fn (Some (sa_serviceData sa))
                in map_option (Pair r) (modService a (sa_serviceData_update (\<lambda>old. case d of None \<Rightarrow> old | Some x \<Rightarrow> x)) cs))))"

definition callPluginInit ::
    "'m ServerEnv \<Rightarrow> ZISPlugin \<Rightarrow> addr option \<Rightarrow> 'm CommonStorage \<Rightarrow> (rc \<times> 'm CommonStorage) option" where
  "callPluginInit env plugin anchor cs = pluginCall env ''callPluginInit'' (p_init plugin) anchor cs"

definition callPluginTerm ::
    "'m ServerEnv \<Rightarrow> ZISPlugin \<Rightarrow> addr option \<Rightarrow> 'm CommonStorage \<Rightarrow> (rc \<times> 'm CommonStorage) option" where
  "callPluginTerm env plugin anchor cs = pluginCall env ''callPluginTerm'' (p_term plugin) anchor cs"

definition callServiceInit ::
    "'m ServerEnv \<Rightarrow> ZISService \<Rightarrow> addr option \<Rightarrow> 'm CommonStorage \<Rightarrow> (rc \<times> 'm CommonStorage) option" where
  "callServiceInit env service anchor cs = serviceCall env ''callServiceInit'' (s_init service) anchor cs"

definition callServiceTerm ::
    "'m ServerEnv \<Rightarrow> ZISService \<Rightarrow> addr option \<Rightarrow> 'm CommonStorage \<Rightarrow> (rc \<times> 'm CommonStorage) option" where
  "callServiceTerm env service anchor cs = serviceCall env ''callServiceTerm'' (s_term service) anchor cs"

section \<open>Installing services\<close>

definition isServiceAnchorCompatible :: "ZISService \<Rightarrow> ZISServiceAnchor \<Rightarrow> bool" where
  "isServiceAnchorCompatible service anchor =
     (let hasSAF = has_flag (s_flags service) ZIS_SERVICE_FLAG_SPECIFIC_AUTH
      in \<not> (hasSAF \<and> sa_version anchor < ZIS_SERVICE_ANCHOR_VERSION_SAF_SUPPORT))"

text \<open>
  The first half of the loop body of \<open>installServices\<close>: the service's anchor is found, discarded
  when it cannot hold the service, and then updated or made anew in front of the plug-in's chain.
  The result holds the anchor, or \<open>None\<close> when its allocation failed.
\<close>

definition discardIfIncompatible ::
    "ZISService \<Rightarrow> addr option \<Rightarrow> 'm CommonStorage \<Rightarrow> (addr option \<times> 'm CommonStorage) option" where
  "discardIfIncompatible service found cs =
     (case found of
        None \<Rightarrow> Some (None, cs)
      | Some a \<Rightarrow>
          (case cs_services cs a of
             None \<Rightarrow> None
           | Some sa \<Rightarrow>
               (if isServiceAnchorCompatible service sa then Some (Some a, cs)
                else map_option (Pair None) (discardServiceAnchor a cs))))"

definition linkServiceAnchor :: "addr \<Rightarrow> addr \<Rightarrow> 'm CommonStorage \<Rightarrow> 'm CommonStorage option" where
  "linkServiceAnchor pluginAnchor a cs =
     (case cs_plugins cs pluginAnchor of
        None \<Rightarrow> None
      | Some pa \<Rightarrow>
          (case modService a (sa_next_update (\<lambda>_. pa_firstService pa)) cs of
             None \<Rightarrow> None
           | Some cs' \<Rightarrow> modPluginAnchor pluginAnchor (pa_firstService_update (\<lambda>_. Some a)) cs'))"

definition obtainServiceAnchor ::
    "'m ServerEnv \<Rightarrow> ZISPlugin \<Rightarrow> ZISService \<Rightarrow> addr \<Rightarrow> 'm CommonStorage
     \<Rightarrow> (addr option \<times> 'm CommonStorage) option" where
  "obtainServiceAnchor env plugin service pluginAnchor cs =
     (case findServiceAnchor pluginAnchor (s_name service) cs of
        None \<Rightarrow> None
      | Some found \<Rightarrow>
          (case discardIfIncompatible service found cs of
             None \<Rightarrow> None
           | Some (Some a, cs1) \<Rightarrow>
               map_option (Pair (Some a)) (modService a (\<lambda>sa. zisUpdateServiceAnchor sa service) cs1)
           | Some (None, cs1) \<Rightarrow>
               (case zisCreateServiceAnchor (cmAlloc env cs1 sizeof_ZISServiceAnchor) plugin service cs1 of
                  (None, cs2) \<Rightarrow> Some (None, cs2)
                | (Some a, cs2) \<Rightarrow> map_option (Pair (Some a)) (linkServiceAnchor pluginAnchor a cs2))))"

text \<open>Entering an anchor into the service table; the flag tells whether the map had storage for it.\<close>

definition putService ::
    "'m ServerEnv \<Rightarrow> addr \<Rightarrow> addr \<Rightarrow> 'm CommonStorage \<Rightarrow> (bool \<times> 'm CommonStorage) option" where
  "putService env serverAnchor a cs =
     (case (cs_servers cs serverAnchor, cs_services cs a) of
        (Some sv, Some sa) \<Rightarrow>
          (case sv_serviceTable sv of
             None \<Rightarrow> None
           | Some table \<Rightarrow>
               (let (putRC, table1) = crossMemoryMapPut env table (sa_path sa) a
                in if putRC = 1
                   then (case crossMemoryMapSet env table1 (sa_path sa) a of
                           None \<Rightarrow> None
                         | Some table2 \<Rightarrow>
                             map_option (Pair True)
                               (modServer serverAnchor (sv_serviceTable_update (\<lambda>_. Some table2)) cs))
                   else map_option (Pair (putRC \<noteq> -1))
                          (modServer serverAnchor (sv_serviceTable_update (\<lambda>_. Some table1)) cs)))
      | _ \<Rightarrow> None)"

definition activateService :: "addr \<Rightarrow> 'm CommonStorage \<Rightarrow> 'm CommonStorage option" where
  "activateService a cs =
     modService a (sa_state_update (\<lambda>s. set_flag s ZIS_SERVICE_ANCHOR_STATE_ACTIVE)) cs"

text \<open>
  One round of the loop. The \<open>rc option\<close> of the result is \<open>Some\<close> where the C code returns from
  \<open>installServices\<close> and \<open>None\<close> where it goes on with the next service.
\<close>

definition installService ::
    "'m ServerEnv \<Rightarrow> addr \<Rightarrow> addr \<Rightarrow> addr \<Rightarrow> nat \<Rightarrow> 'm CommonStorage \<times> PluginStore
     \<Rightarrow> (rc option \<times> 'm CommonStorage \<times> PluginStore) option" where
  "installService env serverAnchor pl pluginAnchor i s =
     (let (cs, ps) = s in
      case ps pl of
        None \<Rightarrow> None
      | Some plugin \<Rightarrow>
          (if i < length (p_services plugin)
           then let service = p_services plugin ! i
                in case obtainServiceAnchor env plugin service pluginAnchor cs of
                     None \<Rightarrow> None
                   | Some (None, cs1) \<Rightarrow> Some (Some RC_ZIS_ERROR, cs1, ps)
                   | Some (Some a, cs1) \<Rightarrow>
                       (let ps1 = ps(pl \<mapsto> plugin\<lparr>p_services := (p_services plugin)
                                              [i := service\<lparr>s_anchor := Some a\<rparr>]\<rparr>)
                        in case callServiceInit env service (Some a) cs1 of
                             None \<Rightarrow> None
                           | Some (initRC, cs2) \<Rightarrow>
                               (if initRC \<noteq> RC_ZIS_OK then Some (None, cs2, ps1)
                                else case putService env serverAnchor a cs2 of
                                       None \<Rightarrow> None
                                     | Some (False, cs3) \<Rightarrow> Some (Some RC_ZIS_ERROR, cs3, ps1)
                                     | Some (True, cs3) \<Rightarrow>
                                         map_option (\<lambda>cs4. (None, cs4, ps1)) (activateService a cs3)))
           else None))"

fun installServices_loop ::
    "'m ServerEnv \<Rightarrow> addr \<Rightarrow> addr \<Rightarrow> addr \<Rightarrow> nat list \<Rightarrow> 'm CommonStorage \<times> PluginStore
     \<Rightarrow> (rc \<times> 'm CommonStorage \<times> PluginStore) option" where
  "installServices_loop env serverAnchor pl pluginAnchor [] s = Some (RC_ZIS_OK, s)"
| "installServices_loop env serverAnchor pl pluginAnchor (i # is) s =
     (case installService env serverAnchor pl pluginAnchor i s of
        None \<Rightarrow> None
      | Some (Some r, s') \<Rightarrow> Some (r, s')
      | Some (None, s') \<Rightarrow> installServices_loop env serverAnchor pl pluginAnchor is s')"

definition installServices ::
    "'m ServerEnv \<Rightarrow> addr \<Rightarrow> addr \<Rightarrow> addr \<Rightarrow> 'm CommonStorage \<times> PluginStore
     \<Rightarrow> (rc \<times> 'm CommonStorage \<times> PluginStore) option" where
  "installServices env serverAnchor pl pluginAnchor s =
     (case snd s pl of
        None \<Rightarrow> None
      | Some plugin \<Rightarrow>
          installServices_loop env serverAnchor pl pluginAnchor [0..<unat (p_serviceCount plugin)] s)"

section \<open>Relocation to the LPA\<close>

text \<open>
  \<open>relocatePluginToLPAIfNeeded\<close> in its two parts: an LPA module that is outdated, or any module in
  the LPA development mode, is forgotten; then a plug-in that wants the LPA is loaded there if it
  is not, and its descriptor is asked for again at the LPA entry point. The pointer in the result
  is the new value of \<open>*pluginAddr\<close>.
\<close>

definition discardLPA ::
    "'m ServerEnv \<Rightarrow> flags \<Rightarrow> ZISPlugin \<Rightarrow> addr \<Rightarrow> ZISPluginAnchor \<Rightarrow> 'm CommonStorage
     \<Rightarrow> (rc \<times> 'm CommonStorage) option" where
  "discardLPA env cmsFlags plugin anchor pa cs =
     (if \<not> has_flag (pa_flags pa) ZIS_PLUGIN_ANCHOR_FLAG_LPA then Some (RC_ZIS_OK, cs)
      else let outdated = (pa_pluginVersion pa \<noteq> p_pluginVersion plugin)
           in if zisIsLPADevModeOn env cmsFlags
              then let (lpaRC, info) = lpaDelete env (pa_moduleInfo pa)
                   in if lpaRC \<noteq> 0
                      then map_option (Pair RC_ZIS_ERROR)
                             (modPluginAnchor anchor (pa_moduleInfo_update (\<lambda>_. info)) cs)
                      else map_option (Pair RC_ZIS_OK) (modPluginAnchor anchor forgetLPA cs)
              else if outdated then map_option (Pair RC_ZIS_OK) (modPluginAnchor anchor forgetLPA cs)
              else Some (RC_ZIS_OK, cs))"

definition addToLPA ::
    "'m ServerEnv \<Rightarrow> addr \<Rightarrow> string \<Rightarrow> 'm CommonStorage \<Rightarrow> (rc \<times> 'm CommonStorage) option" where
  "addToLPA env anchor moduleName cs =
     (case cs_plugins cs anchor of
        None \<Rightarrow> None
      | Some pa \<Rightarrow>
          (if has_flag (pa_flags pa) ZIS_PLUGIN_ANCHOR_FLAG_LPA then Some (RC_ZIS_OK, cs)
           else let (lpaRC, info) = lpaAdd env (pa_moduleInfo pa) ''STEPLIB '' moduleName
                in if lpaRC \<noteq> 0
                   then map_option (Pair RC_ZIS_ERROR)
                          (modPluginAnchor anchor (pa_moduleInfo_update (\<lambda>_. info)) cs)
                   else map_option (Pair RC_ZIS_OK)
                          (modPluginAnchor anchor
                             (\<lambda>pa. pa\<lparr>pa_moduleInfo := info,
                                      pa_flags := set_flag (pa_flags pa) ZIS_PLUGIN_ANCHOR_FLAG_LPA\<rparr>) cs)))"

definition relocatePluginToLPAIfNeeded ::
    "'m ServerEnv \<Rightarrow> flags \<Rightarrow> addr \<Rightarrow> addr \<Rightarrow> string \<Rightarrow> 'm CommonStorage \<times> PluginStore
     \<Rightarrow> (rc \<times> addr option \<times> 'm CommonStorage \<times> PluginStore) option" where
  "relocatePluginToLPAIfNeeded env cmsFlags pl anchor moduleName s =
     (let (cs, ps) = s in
      case (ps pl, cs_plugins cs anchor) of
        (Some plugin, Some pa) \<Rightarrow>
          (case discardLPA env cmsFlags plugin anchor pa cs of
             None \<Rightarrow> None
           | Some (r1, cs1) \<Rightarrow>
               (if r1 \<noteq> RC_ZIS_OK then Some (r1, Some pl, cs1, ps)
                else if \<not> has_flag (p_flags plugin) ZIS_PLUGIN_FLAG_LPA
                then Some (RC_ZIS_OK, Some pl, cs1, ps)
                else case addToLPA env anchor moduleName cs1 of
                       None \<Rightarrow> None
                     | Some (r2, cs2) \<Rightarrow>
                         (if r2 \<noteq> RC_ZIS_OK then Some (r2, Some pl, cs2, ps)
                          else case cs_plugins cs2 anchor of
                                 None \<Rightarrow> None
                               | Some pa2 \<Rightarrow>
                                   (case pluginDescriptor env
                                           (lp_entryPointAddr (pa_moduleInfo pa2) AND 0xFFFFFFFE) ps of
                                      (None, _) \<Rightarrow> None
                                    | (Some newPl, ps') \<Rightarrow> Some (RC_ZIS_OK, newPl, cs2, ps')))))
      | _ \<Rightarrow> None)"

section \<open>Plug-ins of the server\<close>

definition getPluginByName :: "addr option \<Rightarrow> ZISPluginName \<Rightarrow> PluginStore \<Rightarrow> addr option option" where
  "getPluginByName firstPlugin name ps = chain_find ps p_next (\<lambda>p. p_name p = name) firstPlugin"

definition getPluginByNickname :: "addr option \<Rightarrow> ZISPluginNickname \<Rightarrow> PluginStore \<Rightarrow> addr option option" where
  "getPluginByNickname firstPlugin nickname ps =
     chain_find ps p_next (\<lambda>p. p_nickname p = nickname) firstPlugin"

definition addPlugin :: "addr option \<Rightarrow> ('m, 's) ServerState \<Rightarrow> ('m, 's) ServerState option" where
  "addPlugin plugin st =
     (case plugin of
        None \<Rightarrow> None
      | Some pl \<Rightarrow>
          (case modPlugin pl (p_next_update (\<lambda>_. cx_firstPlugin (ss_context st))) (ss_plugins st) of
             None \<Rightarrow> None
           | Some ps \<Rightarrow>
               Some (st\<lparr>ss_plugins := ps, ss_context := (ss_context st)\<lparr>cx_firstPlugin := Some pl\<rparr>\<rparr>)))"

text \<open>\<open>installPlugin\<close>: the plug-in's anchor is found in the chain or made in front of it.\<close>

definition obtainPluginAnchor ::
    "'m ServerEnv \<Rightarrow> addr \<Rightarrow> ZISPlugin \<Rightarrow> 'm CommonStorage \<Rightarrow> (addr option \<times> 'm CommonStorage) option" where
  "obtainPluginAnchor env serverAnchor plugin cs =
     (case findPluginAnchor serverAnchor (p_name plugin) cs of
        None \<Rightarrow> None
      | Some (Some a) \<Rightarrow> Some (Some a, cs)
      | Some None \<Rightarrow>
          (case zisCreatePluginAnchor (cmAlloc env cs (sizeof_ZISPluginAnchor (sizeof_LPMEA env)))
                  (sizeof_ZISPluginAnchor (sizeof_LPMEA env)) plugin cs of
             (None, cs1) \<Rightarrow> Some (None, cs1)
           | (Some a, cs1) \<Rightarrow>
               (case cs_servers cs1 serverAnchor of
                  None \<Rightarrow> None
                | Some sv \<Rightarrow>
                    (case modPluginAnchor a (pa_next_update (\<lambda>_. sv_firstPlugin sv)) cs1 of
                       None \<Rightarrow> None
                     | Some cs2 \<Rightarrow>
                         map_option (Pair (Some a))
                           (modServer serverAnchor (sv_firstPlugin_update (\<lambda>_. Some a)) cs2)))))"

text \<open>The rest of \<open>installPlugin\<close>, for a plug-in that is linked into the context.\<close>

definition startPlugin ::
    "'m ServerEnv \<Rightarrow> addr \<Rightarrow> addr \<Rightarrow> addr \<Rightarrow> ('m, 's) ServerState \<Rightarrow> (rc \<times> ('m, 's) ServerState) option" where
  "startPlugin env serverAnchor pl anchor st =
     (case modPlugin pl (p_anchor_update (\<lambda>_. Some anchor)) (ss_plugins st) of
        None \<Rightarrow> None
      | Some ps \<Rightarrow>
          (case ps pl of
             None \<Rightarrow> None
           | Some plugin \<Rightarrow>
               (case modPluginAnchor anchor (pa_pluginVersion_update (\<lambda>_. p_pluginVersion plugin)) (ss_common st) of
                  None \<Rightarrow> None
                | Some cs1 \<Rightarrow>
                    (case callPluginInit env plugin (Some anchor) cs1 of
                       None \<Rightarrow> None
                     | Some (initRC, cs2) \<Rightarrow>
                         (if initRC \<noteq> RC_ZIS_OK
                          then Some (initRC, st\<lparr>ss_plugins := ps, ss_common := cs2\<rparr>)
                          else case installServices env serverAnchor pl anchor (cs2, ps) of
                                 None \<Rightarrow> None
                               | Some (_, cs3, ps3) \<Rightarrow>
                                   Some (RC_ZIS_OK, st\<lparr>ss_plugins := ps3, ss_common := cs3\<rparr>))))))"

definition installPlugin ::
    "'m ServerEnv \<Rightarrow> addr \<Rightarrow> string \<Rightarrow> ('m, 's) ServerState \<Rightarrow> (rc \<times> ('m, 's) ServerState) option" where
  "installPlugin env pl moduleName st =
     (case (cx_zisAnchor (ss_context st), ss_plugins st pl) of
        (Some serverAnchor, Some plugin) \<Rightarrow>
          (case obtainPluginAnchor env serverAnchor plugin (ss_common st) of
             None \<Rightarrow> None
           | Some (None, cs) \<Rightarrow> Some (RC_ZIS_ERROR, st\<lparr>ss_common := cs\<rparr>)
           | Some (Some anchor, cs) \<Rightarrow>
               (case relocatePluginToLPAIfNeeded env (cx_cmsFlags (ss_context st)) pl anchor moduleName
                       (cs, ss_plugins st) of
                  None \<Rightarrow> None
                | Some (relocateRC, plugin', cs', ps') \<Rightarrow>
                    (let st1 = st\<lparr>ss_common := cs', ss_plugins := ps'\<rparr>
                     in if relocateRC \<noteq> RC_ZIS_OK then Some (relocateRC, st1)
                        else case addPlugin plugin' st1 of
                               None \<Rightarrow> None
                             | Some st2 \<Rightarrow> startPlugin env serverAnchor (the plugin') anchor st2)))
      | _ \<Rightarrow> None)"

section \<open>Loading and validating plug-ins\<close>

text \<open>
  \<open>tryLoadingPlugin\<close>: a load that abends leaves the entry point \<open>NULL\<close>; a status other than 0 is
  only logged. The descriptor function runs under recovery too.
\<close>

definition loadModule :: "'m ServerEnv \<Rightarrow> string \<Rightarrow> 32 word option" where
  "loadModule env moduleName =
     (if recoveryPush env ''tryLoadingPlugin():load'' \<noteq> 0 then None
      else case loadByNameLocally env moduleName of
             None \<Rightarrow> None
           | Some (ep, loadStatus) \<Rightarrow> ep)"

definition tryLoadingPlugin :: "'m ServerEnv \<Rightarrow> string \<Rightarrow> PluginStore \<Rightarrow> addr option \<times> PluginStore" where
  "tryLoadingPlugin env moduleName ps =
     (case loadModule env moduleName of
        None \<Rightarrow> (None, ps)
      | Some ep \<Rightarrow>
          (if recoveryPush env ''tryLoadingPlugin():exec'' \<noteq> 0 then (None, ps)
           else case pluginDescriptor env (ep AND 0xFFFFFFFE) ps of
                  (None, ps') \<Rightarrow> (None, ps')
                | (Some pl, ps') \<Rightarrow> (pl, ps')))"

definition isServiceValid :: "ZISService \<Rightarrow> bool" where
  "isServiceValid service =
     (if s_eyecatcher service \<noteq> ZIS_SERVICE_EYECATCHER then False
      else if s_version service > ZIS_SERVICE_VERSION then False
      else True)"

text \<open>
  The loop over the services in \<open>isPluginValid\<close>: at an invalid service the \<open>break\<close> leaves the loop,
  and nothing else. \<open>None\<close>: the loop reads behind the descriptor's storage.
\<close>

fun validateServices_loop :: "ZISService list \<Rightarrow> nat list \<Rightarrow> unit option" where
  "validateServices_loop services [] = Some ()"
| "validateServices_loop services (i # is) =
     (if i < length services
      then if isServiceValid (services ! i) then validateServices_loop services is else Some ()
      else None)"

definition isPluginValid :: "'m ServerEnv \<Rightarrow> ZISPlugin \<Rightarrow> bool option" where
  "isPluginValid env plugin =
     (if recoveryPush env ''isPluginValid()'' \<noteq> 0 then Some False
      else if p_eyecatcher plugin \<noteq> ZIS_PLUGIN_EYECATCHER then Some False
      else if p_version plugin > ZIS_PLUGIN_VERSION then Some False
      else if p_serviceCount plugin > p_maxServiceCount plugin then Some False
      else case validateServices_loop (p_services plugin) [0..<unat (p_serviceCount plugin)] of
             None \<Rightarrow> None
           | Some _ \<Rightarrow> Some True)"

definition isDuplicatePlugin :: "addr option \<Rightarrow> ZISPlugin \<Rightarrow> PluginStore \<Rightarrow> bool option" where
  "isDuplicatePlugin firstPlugin plugin ps =
     (case getPluginByName firstPlugin (p_name plugin) ps of
        None \<Rightarrow> None
      | Some (Some _) \<Rightarrow> Some True
      | Some None \<Rightarrow>
          (case getPluginByNickname firstPlugin (p_nickname plugin) ps of
             None \<Rightarrow> None
           | Some (Some _) \<Rightarrow> Some True
           | Some None \<Rightarrow> Some False))"

definition isPluginSuitable :: "string \<Rightarrow> string \<Rightarrow> bool \<Rightarrow> bool" where
  "isPluginSuitable dynlinkModuleName moduleName dynLinkPluginNeeded =
     (if dynLinkPluginNeeded then moduleName = dynlinkModuleName else moduleName \<noteq> dynlinkModuleName)"

section \<open>Deploying plug-ins\<close>

definition plugin_prefix :: string where
  "plugin_prefix = ''ZWES.PLUGIN.''"

text \<open>\<open>visitPluginParm\<close> behind its checks of the name and the value of the parameter.\<close>

definition deployModule ::
    "'m ServerEnv \<Rightarrow> string \<Rightarrow> ('m, 's) ServerState \<Rightarrow> ('m, 's) ServerState option" where
  "deployModule env moduleName st =
     (case tryLoadingPlugin env moduleName (ss_plugins st) of
        (None, ps) \<Rightarrow> Some (st\<lparr>ss_plugins := ps\<rparr>)
      | (Some pl, ps) \<Rightarrow>
          (let st1 = st\<lparr>ss_plugins := ps\<rparr>
           in case ps pl of
                None \<Rightarrow> None
              | Some plugin \<Rightarrow>
                  (case isPluginValid env plugin of
                     None \<Rightarrow> None
                   | Some False \<Rightarrow> Some st1
                   | Some True \<Rightarrow>
                       (case isDuplicatePlugin (cx_firstPlugin (ss_context st1)) plugin ps of
                          None \<Rightarrow> None
                        | Some True \<Rightarrow> Some st1
                        | Some False \<Rightarrow> map_option snd (installPlugin env pl moduleName st1)))))"

definition visitPluginParm ::
    "'m ServerEnv \<Rightarrow> bool \<Rightarrow> string option \<Rightarrow> string option \<Rightarrow> ('m, 's) ServerState
     \<Rightarrow> ('m, 's) ServerState option" where
  "visitPluginParm env lookingForDynamicPlugin name val st =
     (case name of
        None \<Rightarrow> None
      | Some n \<Rightarrow>
          (if take (length plugin_prefix) n \<noteq> plugin_prefix then Some st
           else case val of
                  None \<Rightarrow> Some st
                | Some moduleName \<Rightarrow>
                    (if \<not> isPluginSuitable (cx_dynlinkModuleName (ss_context st)) moduleName lookingForDynamicPlugin
                     then Some st
                     else if length moduleName > 8 then Some st
                     else deployModule env (space_pad 8 moduleName) st)))"

text \<open>\<open>deployPlugins\<close>: the dynamic linkage plug-in first, everything else in a second round.\<close>

definition pluginVisitor ::
    "'m ServerEnv \<Rightarrow> bool \<Rightarrow> string option \<Rightarrow> string option \<Rightarrow> ('m, 's) ServerState option
     \<Rightarrow> ('m, 's) ServerState option" where
  "pluginVisitor env dyn name val d =
     (case d of None \<Rightarrow> None | Some st \<Rightarrow> visitPluginParm env dyn name val st)"

definition deployRound ::
    "'m ServerEnv \<Rightarrow> bool \<Rightarrow> 's ZISParmSet \<Rightarrow> ('m, 's) ServerState \<Rightarrow> ('m, 's) ServerState option" where
  "deployRound env dyn parms st =
     (case zisIterateParms parms (pluginVisitor env dyn) (Some st) of None \<Rightarrow> None | Some d \<Rightarrow> d)"

definition deployPlugins :: "'m ServerEnv \<Rightarrow> ('m, 's) ServerState \<Rightarrow> ('m, 's) ServerState option" where
  "deployPlugins env st =
     (case cx_parms (ss_context st) of
        None \<Rightarrow> None
      | Some parms \<Rightarrow>
          (case deployRound env True parms st of
             None \<Rightarrow> None
           | Some st1 \<Rightarrow> deployRound env False parms st1))"

section \<open>Terminating plug-ins\<close>

definition terminateService :: "'m ServerEnv \<Rightarrow> ZISService list \<Rightarrow> nat \<Rightarrow> 'm CommonStorage \<Rightarrow> 'm CommonStorage option" where
  "terminateService env services i cs =
     (if i < length services
      then map_option snd (callServiceTerm env (services ! i) (s_anchor (services ! i)) cs)
      else None)"

definition terminatePlugin :: "'m ServerEnv \<Rightarrow> PluginStore \<Rightarrow> addr \<Rightarrow> 'm CommonStorage \<Rightarrow> 'm CommonStorage option" where
  "terminatePlugin env ps currPlugin cs =
     (case ps currPlugin of
        None \<Rightarrow> None
      | Some plugin \<Rightarrow>
          (case fold_opt (terminateService env (p_services plugin)) [0..<unat (p_serviceCount plugin)] cs of
             None \<Rightarrow> None
           | Some cs' \<Rightarrow> map_option snd (callPluginTerm env plugin (p_anchor plugin) cs')))"

definition terminatePlugins :: "'m ServerEnv \<Rightarrow> ('m, 's) ServerState \<Rightarrow> ('m, 's) ServerState option" where
  "terminatePlugins env st =
     map_option (\<lambda>cs. st\<lparr>ss_common := cs\<rparr>)
       (chain_each (\<lambda>_. descriptorNext (ss_plugins st)) (terminatePlugin env (ss_plugins st))
          (cx_firstPlugin (ss_context st)) (ss_common st))"

section \<open>Start and end of the server\<close>

definition createZISServerAnchor ::
    "addr option \<Rightarrow> 'm CommonStorage \<Rightarrow> addr option \<times> 'm CommonStorage" where
  "createZISServerAnchor allocated cs =
     (case allocated of
        None \<Rightarrow> (None, cs)
      | Some a \<Rightarrow>
          (Some a,
           cs\<lparr>cs_servers := (cs_servers cs)(a \<mapsto>
             \<lparr>sv_eyecatcher = ZIS_SERVER_ANCHOR_EYECATCHER, sv_version = ZIS_SERVER_ANCHOR_VERSION,
              sv_size = sizeof_ZISServerAnchor,
              sv_flags = set_flag (set_flag 0 ZIS_SERVER_ANCHOR_FLAG_DYNLINK) ZIS_SERVER_ANCHOR_VERSIONED_CONTEXT,
              sv_serviceTable = None, sv_firstPlugin = None\<rparr>)\<rparr>))"

definition enableDynLink :: "'m ZISServerAnchor \<Rightarrow> 'm ZISServerAnchor" where
  "enableDynLink sv = sv\<lparr>sv_flags := set_flag (sv_flags sv) ZIS_SERVER_ANCHOR_FLAG_DYNLINK\<rparr>"

definition enableVersionedContext :: "'m ZISServerAnchor \<Rightarrow> 'm ZISServerAnchor" where
  "enableVersionedContext sv = sv\<lparr>sv_flags := set_flag (sv_flags sv) ZIS_SERVER_ANCHOR_VERSIONED_CONTEXT\<rparr>"

definition initGlobalResources ::
    "'m ServerEnv \<Rightarrow> ('m, 's) ServerState \<Rightarrow> (rc \<times> ('m, 's) ServerState) option" where
  "initGlobalResources env st =
     (let obtained =
            (case ss_userServerAnchor st of
               None \<Rightarrow>
                 (case createZISServerAnchor (cmAlloc env (ss_common st) sizeof_ZISServerAnchor) (ss_common st) of
                    (None, cs) \<Rightarrow> Some (None, st\<lparr>ss_common := cs\<rparr>)
                  | (Some a, cs) \<Rightarrow> Some (Some a, st\<lparr>ss_common := cs, ss_userServerAnchor := Some a\<rparr>))
             | Some a \<Rightarrow>
                 map_option (\<lambda>cs. (Some a, st\<lparr>ss_common := cs\<rparr>))
                   (modServer a (\<lambda>sv. enableVersionedContext (enableDynLink sv)) (ss_common st)))
      in case obtained of
           None \<Rightarrow> None
         | Some (None, st1) \<Rightarrow> Some (RC_ZIS_ERROR, st1)
         | Some (Some a, st1) \<Rightarrow>
             (let st2 = st1\<lparr>ss_context := (ss_context st1)\<lparr>cx_zisAnchor := Some a\<rparr>\<rparr>
              in map_option (\<lambda>(r, cs). (r, st2\<lparr>ss_common := cs\<rparr>)) (initServiceTable env a (ss_common st2))))"

text \<open>
  \<open>initServer\<close> and \<open>cleanupServer\<close>, the callbacks the core server runs at its start and end.
  \<open>ga\<close> and \<open>localServer\<close> are the addresses of the global area and of the server in it.
\<close>

definition initServer ::
    "'m ServerEnv \<Rightarrow> addr \<Rightarrow> addr option \<Rightarrow> ('m, 's) ServerState \<Rightarrow> (rc \<times> ('m, 's) ServerState) option" where
  "initServer env ga localServer st =
     (let st0 = st\<lparr>ss_context := (ss_context st)\<lparr>cx_cmsGA := Some ga, cx_cmServer := localServer\<rparr>\<rparr>
      in case initGlobalResources env st0 of
           None \<Rightarrow> None
         | Some (initRC, st1) \<Rightarrow>
             (if initRC \<noteq> RC_ZIS_OK then Some (initRC, st1)
              else case cx_zisAnchor (ss_context st1) of
                     None \<Rightarrow> None
                   | Some anchor \<Rightarrow>
                       (case cleanPlugins env (cx_cmsFlags (ss_context st1)) anchor (ss_common st1) of
                          None \<Rightarrow> None
                        | Some cs \<Rightarrow> map_option (Pair 0) (deployPlugins env (st1\<lparr>ss_common := cs\<rparr>)))))"

definition cleanupServer ::
    "'m ServerEnv \<Rightarrow> ('m, 's) ServerState \<Rightarrow> (rc \<times> ('m, 's) ServerState) option" where
  "cleanupServer env st =
     (case terminatePlugins env st of
        None \<Rightarrow> None
      | Some st1 \<Rightarrow>
          (case cx_zisAnchor (ss_context st1) of
             None \<Rightarrow> None
           | Some anchor \<Rightarrow>
               (case cleanPlugins env (cx_cmsFlags (ss_context st1)) anchor (ss_common st1) of
                  None \<Rightarrow> None
                | Some cs \<Rightarrow>
                    (if ZIS_DEV_MODE env
                     then map_option (\<lambda>cs'. (0, st1\<lparr>ss_common := cs'\<rparr>)) (destroyServiceTable (Some anchor) cs)
                     else Some (0, st1\<lparr>ss_common := cs\<rparr>)))))"

section \<open>Modify commands\<close>

text \<open>
  \<open>handleModifyCommands\<close>: the guard asks for a length that is at most 0 and above 4 at the same
  time, so it never holds; copying more than the four bytes of the nickname has no result.
\<close>

definition handleModifyCommands ::
    "'m ServerEnv \<Rightarrow> string option \<Rightarrow> ('m, 's) ServerState \<Rightarrow> (rc \<times> ('m, 's) ServerState) option" where
  "handleModifyCommands env target st =
     (let targetLength = (case target of None \<Rightarrow> 0 | Some t \<Rightarrow> length t)
      in if targetLength \<le> 0 \<and> 4 < targetLength then Some (0, st)
         else if targetLength > 4 then None
         else case getPluginByNickname (cx_firstPlugin (ss_context st))
                     (space_pad 4 (case target of None \<Rightarrow> [] | Some t \<Rightarrow> t)) (ss_plugins st) of
                None \<Rightarrow> None
              | Some None \<Rightarrow> Some (0, st)
              | Some (Some pl) \<Rightarrow>
                  (case ss_plugins st pl of
                     None \<Rightarrow> None
                   | Some plugin \<Rightarrow>
                       (case (p_handleCommand plugin, p_anchor plugin) of
                          (Some fn, Some a) \<Rightarrow>
                            (case cs_plugins (ss_common st) a of
                               None \<Rightarrow> None
                             | Some pa \<Rightarrow>
                                 (let dat = commandCallback env fn (Some (pa_pluginData pa)) target
                                  in map_option (\<lambda>cs. (0, st\<lparr>ss_common := cs\<rparr>))
                                       (modPluginAnchor a (pa_pluginData_update (\<lambda>_. dat)) (ss_common st))))
                        | _ \<Rightarrow> Some (0, st))))"

end
