(* ===== verification/ZIS_Lifecycle.thy ===== *)
theory ZIS_Lifecycle
  imports ZIS_Server
begin

text \<open>
  The life cycle of the registry of \<open>ZIS_Server\<close>: the invariant that relates the chains of anchors
  and the service table, that cleaning, installation, deployment, start and end of the server keep
  it, and what the router does in each phase.
\<close>

section \<open>The shape of common storage\<close>

text \<open>
  The pointers, names and paths of the anchors: what the chains and the service table consist of.
  Most steps of the server change other fields only.
\<close>

definition server_shape :: "'m CommonStorage \<Rightarrow> addr \<Rightarrow> (addr option \<times> 'm option) option" where
  "server_shape cs a = map_option (\<lambda>sv. (sv_firstPlugin sv, sv_serviceTable sv)) (cs_servers cs a)"

definition plugin_shape :: "'m CommonStorage \<Rightarrow> addr \<Rightarrow> (addr option \<times> addr option \<times> ZISPluginName) option" where
  "plugin_shape cs a = map_option (\<lambda>pa. (pa_next pa, pa_firstService pa, pa_name pa)) (cs_plugins cs a)"

definition service_shape :: "'m CommonStorage \<Rightarrow> addr \<Rightarrow> (addr option \<times> ZISServicePath) option" where
  "service_shape cs a = map_option (\<lambda>sa. (sa_next sa, sa_path sa)) (cs_services cs a)"

definition same_shape :: "'m CommonStorage \<Rightarrow> 'm CommonStorage \<Rightarrow> bool" where
  "same_shape cs cs' \<longleftrightarrow>
     server_shape cs' = server_shape cs \<and> plugin_shape cs' = plugin_shape cs \<and>
     service_shape cs' = service_shape cs"

lemma same_shape_refl [simp, intro]: "same_shape cs cs"
  by (simp add: same_shape_def)

lemma same_shape_trans: "same_shape cs cs1 \<Longrightarrow> same_shape cs1 cs2 \<Longrightarrow> same_shape cs cs2"
  by (simp add: same_shape_def)

lemma pluginNext_shape: "pluginNext cs a = map_option fst (plugin_shape cs a)"
  by (simp add: pluginNext_def plugin_shape_def option.map_comp o_def)

lemma serviceNext_shape: "serviceNext cs a = map_option fst (service_shape cs a)"
  by (simp add: serviceNext_def service_shape_def option.map_comp o_def)

lemma modService_shape:
  assumes "modService a f cs = Some cs'"
    and "\<And>sa. sa_next (f sa) = sa_next sa" and "\<And>sa. sa_path (f sa) = sa_path sa"
  shows "same_shape cs cs'"
  using assms
  by (auto simp: modService_def same_shape_def server_shape_def plugin_shape_def service_shape_def
      fun_eq_iff split: option.splits)

lemma modPluginAnchor_shape:
  assumes "modPluginAnchor a f cs = Some cs'"
    and "\<And>pa. pa_next (f pa) = pa_next pa" and "\<And>pa. pa_firstService (f pa) = pa_firstService pa"
    and "\<And>pa. pa_name (f pa) = pa_name pa"
  shows "same_shape cs cs'"
  using assms
  by (auto simp: modPluginAnchor_def same_shape_def server_shape_def plugin_shape_def service_shape_def
      fun_eq_iff split: option.splits)

lemma modServer_shape:
  assumes "modServer a f cs = Some cs'"
    and "\<And>sv. sv_firstPlugin (f sv) = sv_firstPlugin sv"
    and "\<And>sv. sv_serviceTable (f sv) = sv_serviceTable sv"
  shows "same_shape cs cs'"
  using assms
  by (auto simp: modServer_def same_shape_def server_shape_def plugin_shape_def service_shape_def
      fun_eq_iff split: option.splits)

section \<open>The registry invariant\<close>

text \<open>
  What the router, the installation and the cleaning rely on. \<open>pas\<close> are the plug-in anchors on the
  server's chain, \<open>svcs p\<close> the service anchors on the chain of plug-in anchor \<open>p\<close>: all chains
  end, no service anchor is on two of them, and the service table leads to a chained anchor whose
  path is the key.
\<close>

definition table_ok ::
    "'m ServerEnv \<Rightarrow> 'm CommonStorage \<Rightarrow> addr list \<Rightarrow> (addr \<Rightarrow> addr list) \<Rightarrow> 'm option \<Rightarrow> bool" where
  "table_ok env cs pas svcs table \<longleftrightarrow>
     (\<forall>t path a. table = Some t \<longrightarrow> crossMemoryMapGet env t path = Some a \<longrightarrow>
        (\<exists>p \<in> set pas. a \<in> set (svcs p)) \<and> map_option snd (service_shape cs a) = Some path)"

definition chains_ok :: "'m CommonStorage \<Rightarrow> addr option \<Rightarrow> addr list \<Rightarrow> (addr \<Rightarrow> addr list) \<Rightarrow> bool" where
  "chains_ok cs first pas svcs \<longleftrightarrow>
     chain (pluginNext cs) first pas \<and>
     (\<forall>p \<in> set pas. \<exists>n fs nm. plugin_shape cs p = Some (n, fs, nm) \<and> chain (serviceNext cs) fs (svcs p)) \<and>
     (\<forall>p \<in> set pas. \<forall>q \<in> set pas. p \<noteq> q \<longrightarrow> set (svcs p) \<inter> set (svcs q) = {})"

definition registry ::
    "'m ServerEnv \<Rightarrow> 'm CommonStorage \<Rightarrow> addr \<Rightarrow> addr list \<Rightarrow> (addr \<Rightarrow> addr list) \<Rightarrow> bool" where
  "registry env cs v pas svcs \<longleftrightarrow>
     (\<exists>first table. server_shape cs v = Some (first, table) \<and> chains_ok cs first pas svcs \<and>
        table_ok env cs pas svcs table)"

lemma same_shape_chains:
  "same_shape cs cs' \<Longrightarrow> chains_ok cs' first pas svcs = chains_ok cs first pas svcs"
  unfolding chains_ok_def same_shape_def
  by (simp add: pluginNext_shape [abs_def] serviceNext_shape [abs_def])

lemma same_shape_registry:
  "same_shape cs cs' \<Longrightarrow> registry env cs' v pas svcs = registry env cs v pas svcs"
  unfolding registry_def table_ok_def
  by (simp add: same_shape_chains) (simp add: same_shape_def)

section \<open>Steps that keep the shape\<close>

text \<open>
  The contract of a step on common storage that touches no pointer, name or path: it keeps every
  registry, and so does any sequence of such steps.
\<close>

locale anchor_update =
  fixes step :: "addr \<Rightarrow> 'm CommonStorage \<Rightarrow> 'm CommonStorage option"
  assumes step_shape: "step i cs = Some cs' \<Longrightarrow> same_shape cs cs'"
begin

lemma steps_shape: "fold_opt step is cs = Some cs' \<Longrightarrow> same_shape cs cs'"
  by (rule fold_opt_invariant [where P = "same_shape cs"]) (auto intro: same_shape_trans step_shape)

lemma step_registry: "step i cs = Some cs' \<Longrightarrow> registry env cs' v pas svcs = registry env cs v pas svcs"
  by (rule same_shape_registry) (rule step_shape)

lemma steps_registry:
  "fold_opt step is cs = Some cs' \<Longrightarrow> registry env cs' v pas svcs = registry env cs v pas svcs"
  by (rule same_shape_registry) (rule steps_shape)

lemma steps_over_services:
  assumes "chain (serviceNext cs) p xs"
  shows "chain_each serviceNext step p cs = fold_opt step xs cs"
  using assms step_shape
  by (intro chain_each_list) (auto simp: serviceNext_shape same_shape_def)

lemma steps_over_plugins:
  assumes "chain (pluginNext cs) p xs"
  shows "chain_each pluginNext step p cs = fold_opt step xs cs"
  using assms step_shape
  by (intro chain_each_list) (auto simp: pluginNext_shape same_shape_def)

end

lemma deactivate_frame [simp]: "sa_next (deactivate sa) = sa_next sa" "sa_path (deactivate sa) = sa_path sa"
  by (simp_all add: deactivate_def)

lemma forgetLPA_frame [simp]:
  "pa_next (forgetLPA pa) = pa_next pa" "pa_firstService (forgetLPA pa) = pa_firstService pa"
  "pa_name (forgetLPA pa) = pa_name pa"
  by (simp_all add: forgetLPA_def)

interpretation deactivation: anchor_update "\<lambda>a. modService a deactivate"
  by unfold_locales (erule modService_shape, simp_all)

interpretation discarding: anchor_update discardServiceAnchor
  by unfold_locales (auto simp: discardServiceAnchor_def intro: modService_shape)

interpretation activation: anchor_update activateService
  by unfold_locales (auto simp: activateService_def intro: modService_shape)

lemma serviceCall_shape: "serviceCall env l fn a cs = Some (r, cs') \<Longrightarrow> same_shape cs cs'"
  by (auto simp: serviceCall_def split: option.splits prod.splits intro: modService_shape)

lemma pluginCall_shape: "pluginCall env l fn a cs = Some (r, cs') \<Longrightarrow> same_shape cs cs'"
  by (auto simp: pluginCall_def split: option.splits prod.splits intro: modPluginAnchor_shape)

lemma removePluginFromLPAIfNeeded_shape:
  "removePluginFromLPAIfNeeded env fl a cs = Some (r, cs') \<Longrightarrow> same_shape cs cs'"
  by (auto simp: removePluginFromLPAIfNeeded_def Let_def
      split: option.splits prod.splits if_splits intro: modPluginAnchor_shape)

section \<open>Cleaning\<close>

text \<open>What cleaning promises of one service anchor, and of a set of them.\<close>

definition inactive :: "'m CommonStorage \<Rightarrow> addr \<Rightarrow> bool" where
  "inactive cs a \<longleftrightarrow>
     (case cs_services cs a of
        None \<Rightarrow> False
      | Some sa \<Rightarrow> \<not> has_flag (sa_state sa) ZIS_SERVICE_ANCHOR_STATE_ACTIVE \<and> sa_serve sa = None)"

lemma modService_deactivate:
  assumes "cs_services cs a \<noteq> None"
  shows "\<exists>cs'. modService a deactivate cs = Some cs' \<and> inactive cs' a \<and>
     (\<forall>b. inactive cs b \<longrightarrow> inactive cs' b) \<and> cs_plugins cs' = cs_plugins cs"
  using assms by (auto simp: modService_def inactive_def deactivate_def split: option.splits)

lemma deactivate_all:
  assumes "\<forall>a \<in> set xs. cs_services cs a \<noteq> None"
  shows "\<exists>cs'. fold_opt (\<lambda>a. modService a deactivate) xs cs = Some cs' \<and>
     (\<forall>a \<in> set xs. inactive cs' a) \<and> (\<forall>b. inactive cs b \<longrightarrow> inactive cs' b) \<and>
     cs_plugins cs' = cs_plugins cs"
  using assms
proof (induction xs arbitrary: cs)
  case Nil
  then show ?case by simp
next
  case (Cons x xs)
  then obtain cs1 where c1: "modService x deactivate cs = Some cs1" "inactive cs1 x"
    "\<forall>b. inactive cs b \<longrightarrow> inactive cs1 b" "cs_plugins cs1 = cs_plugins cs"
    using modService_deactivate [of cs x] by auto
  have "same_shape cs cs1" using c1(1) by (rule deactivation.step_shape)
  then have "service_shape cs1 = service_shape cs" by (simp add: same_shape_def)
  then have "cs_services cs1 a \<noteq> None \<longleftrightarrow> cs_services cs a \<noteq> None" for a
    by (metis map_option_is_None service_shape_def)
  with Cons.prems Cons.IH [of cs1] c1 show ?case by fastforce
qed

lemma chain_services_stored: "chain (serviceNext cs) p xs \<Longrightarrow> a \<in> set xs \<Longrightarrow> cs_services cs a \<noteq> None"
  using chain_valid [of "serviceNext cs" p xs a] by (simp add: serviceNext_def)

lemma chain_plugins_stored: "chain (pluginNext cs) p xs \<Longrightarrow> a \<in> set xs \<Longrightarrow> cs_plugins cs a \<noteq> None"
  using chain_valid [of "pluginNext cs" p xs a] by (simp add: pluginNext_def)

lemma inactive_cong: "cs_services cs' = cs_services cs \<Longrightarrow> inactive cs' a = inactive cs a"
  by (simp add: inactive_def)

lemma removeLPA_total:
  assumes "cs_plugins cs a \<noteq> None"
  obtains r cs' where "removePluginFromLPAIfNeeded env fl a cs = Some (r, cs')"
    and "cs_services cs' = cs_services cs"
proof -
  obtain pa where pa: "cs_plugins cs a = Some pa" using assms by auto
  obtain r info where "lpaDelete env (pa_moduleInfo pa) = (r, info)" by fastforce
  with pa that show thesis
    by (cases "r = 0"; cases "has_flag (pa_flags pa) ZIS_PLUGIN_ANCHOR_FLAG_LPA \<and> zisIsLPADevModeOn env fl")
      (auto simp: removePluginFromLPAIfNeeded_def modPluginAnchor_def)
qed

lemma cleanPlugin_effect:
  assumes "plugin_shape cs p = Some (n, fs, nm)" and "chain (serviceNext cs) fs xs"
  shows "\<exists>cs'. cleanPlugin env fl p cs = Some cs' \<and> same_shape cs cs' \<and>
     (\<forall>a \<in> set xs. inactive cs' a) \<and> (\<forall>b. inactive cs b \<longrightarrow> inactive cs' b)"
proof -
  obtain pa where pa: "cs_plugins cs p = Some pa" "pa_firstService pa = fs"
    using assms(1) by (auto simp: plugin_shape_def)
  obtain cs1 where c1: "fold_opt (\<lambda>a. modService a deactivate) xs cs = Some cs1"
    "\<forall>a \<in> set xs. inactive cs1 a" "\<forall>b. inactive cs b \<longrightarrow> inactive cs1 b" "cs_plugins cs1 = cs_plugins cs"
    using deactivate_all [of xs cs] chain_services_stored [OF assms(2)] by auto
  have clean: "cleanPluginAnchor p cs = Some (RC_ZIS_OK, cs1)"
    using pa c1(1) deactivation.steps_over_services [OF assms(2)] by (simp add: cleanPluginAnchor_def)
  have "cs_plugins cs1 p \<noteq> None" using pa(1) c1(4) by simp
  then obtain r cs2 where c2: "removePluginFromLPAIfNeeded env fl p cs1 = Some (r, cs2)"
    "cs_services cs2 = cs_services cs1"
    by (rule removeLPA_total)
  have "same_shape cs cs2"
    using deactivation.steps_shape [OF c1(1)] removePluginFromLPAIfNeeded_shape [OF c2(1)]
    by (rule same_shape_trans)
  with clean c2 c1 inactive_cong [OF c2(2)] show ?thesis by (auto simp: cleanPlugin_def)
qed

lemma cleanPlugins_fold:
  assumes "\<forall>p \<in> set ps. \<exists>n fs nm. plugin_shape cs p = Some (n, fs, nm) \<and> chain (serviceNext cs) fs (svcs p)"
  shows "\<exists>cs'. fold_opt (cleanPlugin env fl) ps cs = Some cs' \<and> same_shape cs cs' \<and>
     (\<forall>p \<in> set ps. \<forall>a \<in> set (svcs p). inactive cs' a) \<and> (\<forall>b. inactive cs b \<longrightarrow> inactive cs' b)"
  using assms
proof (induction ps arbitrary: cs)
  case Nil
  then show ?case by simp
next
  case (Cons p ps)
  then obtain n fs nm where "plugin_shape cs p = Some (n, fs, nm)" "chain (serviceNext cs) fs (svcs p)"
    by auto
  then obtain cs1 where c1: "cleanPlugin env fl p cs = Some cs1" "same_shape cs cs1"
    "\<forall>a \<in> set (svcs p). inactive cs1 a" "\<forall>b. inactive cs b \<longrightarrow> inactive cs1 b"
    using cleanPlugin_effect by blast
  then have "serviceNext cs1 = serviceNext cs" "plugin_shape cs1 = plugin_shape cs"
    by (auto simp: same_shape_def serviceNext_shape fun_eq_iff)
  with Cons.prems Cons.IH [of cs1] obtain cs2 where
    "fold_opt (cleanPlugin env fl) ps cs1 = Some cs2" "same_shape cs1 cs2"
    "\<forall>p \<in> set ps. \<forall>a \<in> set (svcs p). inactive cs2 a" "\<forall>b. inactive cs1 b \<longrightarrow> inactive cs2 b"
    by auto
  with c1 same_shape_trans [of cs cs1 cs2] show ?case by auto
qed

lemma cleanPlugins_effect:
  assumes "registry env cs v pas svcs"
  shows "\<exists>cs'. cleanPlugins env fl v cs = Some cs' \<and> same_shape cs cs' \<and>
     (\<forall>p \<in> set pas. \<forall>a \<in> set (svcs p). inactive cs' a)"
proof -
  obtain first table where sv: "server_shape cs v = Some (first, table)" and ch: "chains_ok cs first pas svcs"
    using assms by (auto simp: registry_def)
  have all: "\<forall>p \<in> set pas. \<exists>n fs nm. plugin_shape cs p = Some (n, fs, nm) \<and> chain (serviceNext cs) fs (svcs p)"
    using ch by (simp add: chains_ok_def)
  then obtain cs' where c: "fold_opt (cleanPlugin env fl) pas cs = Some cs'" "same_shape cs cs'"
    "\<forall>p \<in> set pas. \<forall>a \<in> set (svcs p). inactive cs' a"
    using cleanPlugins_fold [of pas cs svcs env fl] by auto
  have "chain_each pluginNext (cleanPlugin env fl) first cs = Some cs'"
  proof (rule chain_each_fold [OF _ c(1)])
    show "chain (pluginNext cs) first pas" using ch by (simp add: chains_ok_def)
    fix ys zs u assume "pas = ys @ zs" "fold_opt (cleanPlugin env fl) ys cs = Some u"
    then have "same_shape cs u" using cleanPlugins_fold [of ys cs svcs env fl] all by auto
    then show "\<forall>b \<in> set pas. pluginNext u b = pluginNext cs b"
      by (simp add: pluginNext_shape same_shape_def)
  qed
  with sv c show ?thesis by (auto simp: cleanPlugins_def server_shape_def)
qed

section \<open>What the environment promises\<close>

text \<open>
  \<open>cmAlloc\<close> answers storage that is not in use. The cross-memory map: a new map is empty; a put of
  a new key answers 0 and binds it, a put of a known key answers 1 and changes nothing, a put that
  finds no storage answers -1 and changes nothing; the handle of a known key can be stored to.
\<close>

definition alloc_fresh :: "'m ServerEnv \<Rightarrow> bool" where
  "alloc_fresh env \<longleftrightarrow> (\<forall>cs n a. cmAlloc env cs n = Some a \<longrightarrow> \<not> used cs a)"

definition map_laws :: "'m ServerEnv \<Rightarrow> bool" where
  "map_laws env \<longleftrightarrow>
     (\<forall>n m k. makeCrossMemoryMap env n = Some m \<longrightarrow> crossMemoryMapGet env m k = None) \<and>
     (\<forall>m k a r m'. crossMemoryMapPut env m k a = (r, m') \<longrightarrow>
        (r = 0 \<and> crossMemoryMapGet env m k = None \<and>
           crossMemoryMapGet env m' = (crossMemoryMapGet env m)(k \<mapsto> a)) \<or>
        (r = 1 \<and> crossMemoryMapGet env m k \<noteq> None \<and> crossMemoryMapGet env m' = crossMemoryMapGet env m) \<or>
        (r = -1 \<and> crossMemoryMapGet env m' = crossMemoryMapGet env m)) \<and>
     (\<forall>m k a. crossMemoryMapGet env m k \<noteq> None \<longrightarrow>
        (\<exists>m'. crossMemoryMapSet env m k a = Some m' \<and>
              crossMemoryMapGet env m' = (crossMemoryMapGet env m)(k \<mapsto> a)))"

section \<open>Entering a service into the table\<close>

lemma put_or_set:
  assumes laws: "map_laws env" and sv: "cs_servers cs v = Some sv" "sv_serviceTable sv = Some t"
    and sa: "cs_services cs a = Some sa"
  shows "\<exists>ok t'. putService env v a cs =
            Some (ok, cs\<lparr>cs_servers := (cs_servers cs)(v \<mapsto> sv\<lparr>sv_serviceTable := Some t'\<rparr>)\<rparr>) \<and>
     crossMemoryMapGet env t' =
       (if ok then (crossMemoryMapGet env t)(sa_path sa \<mapsto> a) else crossMemoryMapGet env t)"
proof -
  obtain r t1 where p: "crossMemoryMapPut env t (sa_path sa) a = (r, t1)" by fastforce
  consider (new) "r = 0" "crossMemoryMapGet env t1 = (crossMemoryMapGet env t)(sa_path sa \<mapsto> a)"
    | (known) "r = 1" "crossMemoryMapGet env t (sa_path sa) \<noteq> None"
        "crossMemoryMapGet env t1 = crossMemoryMapGet env t"
    | (full) "r = -1" "crossMemoryMapGet env t1 = crossMemoryMapGet env t"
    using laws p unfolding map_laws_def by blast
  then show ?thesis
  proof cases
    case new
    then show ?thesis using sv sa p by (auto simp: putService_def modServer_def)
  next
    case known
    then obtain t2 where "crossMemoryMapSet env t1 (sa_path sa) a = Some t2"
      "crossMemoryMapGet env t2 = (crossMemoryMapGet env t1)(sa_path sa \<mapsto> a)"
      using laws unfolding map_laws_def by metis
    with known show ?thesis using sv sa p by (auto simp: putService_def modServer_def)
  next
    case full
    then show ?thesis using sv sa p by (auto simp: putService_def modServer_def)
  qed
qed

lemma chains_server_irrelevant:
  "cs_plugins cs' = cs_plugins cs \<Longrightarrow> cs_services cs' = cs_services cs \<Longrightarrow>
   chains_ok cs' first pas svcs = chains_ok cs first pas svcs"
  by (simp add: chains_ok_def pluginNext_def [abs_def] serviceNext_def [abs_def] plugin_shape_def)

lemma putService_registry:
  assumes laws: "map_laws env" and reg: "registry env cs v pas svcs"
    and a: "p \<in> set pas" "a \<in> set (svcs p)" and put: "putService env v a cs = Some (ok, cs')"
  shows "registry env cs' v pas svcs"
proof -
  obtain first table where sh: "server_shape cs v = Some (first, table)"
    and ch: "chains_ok cs first pas svcs" and tab: "table_ok env cs pas svcs table"
    using reg by (auto simp: registry_def)
  obtain sv where sv: "cs_servers cs v = Some sv" "sv_firstPlugin sv = first" "sv_serviceTable sv = table"
    using sh by (auto simp: server_shape_def)
  obtain sa where sa: "cs_services cs a = Some sa"
    using put sv by (auto simp: putService_def split: option.splits)
  obtain t where t: "table = Some t" using put sv sa by (cases table) (auto simp: putService_def)
  obtain ok' t' where p: "putService env v a cs =
            Some (ok', cs\<lparr>cs_servers := (cs_servers cs)(v \<mapsto> sv\<lparr>sv_serviceTable := Some t'\<rparr>)\<rparr>)"
    "crossMemoryMapGet env t' =
       (if ok' then (crossMemoryMapGet env t)(sa_path sa \<mapsto> a) else crossMemoryMapGet env t)"
    using put_or_set [OF laws sv(1) _ sa] sv t by auto
  with put have cs': "cs' = cs\<lparr>cs_servers := (cs_servers cs)(v \<mapsto> sv\<lparr>sv_serviceTable := Some t'\<rparr>)\<rparr>" by simp
  have "service_shape cs' = service_shape cs" by (simp add: cs' service_shape_def fun_eq_iff)
  moreover have "map_option snd (service_shape cs a) = Some (sa_path sa)"
    using sa by (simp add: service_shape_def)
  ultimately have "table_ok env cs' pas svcs (Some t')"
    using tab t a p(2) unfolding table_ok_def by (auto split: if_splits)
  moreover have "server_shape cs' v = Some (first, Some t')" using sv by (simp add: cs' server_shape_def)
  moreover have "chains_ok cs' first pas svcs" using ch chains_server_irrelevant [of cs' cs] by (simp add: cs')
  ultimately show ?thesis by (auto simp: registry_def)
qed

section \<open>New anchors\<close>

lemma chain_stored: "chain (serviceNext cs) p xs \<Longrightarrow> \<not> used cs a \<Longrightarrow> a \<notin> set xs"
  using chain_services_stored [of cs p xs a] by (auto simp: used_def)

text \<open>A fresh service anchor in front of a plug-in's chain.\<close>

lemma link_new_service:
  assumes reg: "registry env cs v pas svcs" and p: "p \<in> set pas" and fresh: "\<not> used cs a"
    and link: "linkServiceAnchor p a (cs\<lparr>cs_services := (cs_services cs)(a \<mapsto> sa)\<rparr>) = Some cs'"
  shows "registry env cs' v pas (svcs(p := a # svcs p))"
    and "\<exists>n. cs_services cs' = (cs_services cs)(a \<mapsto> sa\<lparr>sa_next := n\<rparr>)"
    and "cs_servers cs' = cs_servers cs"
    and "\<And>q. map_option (pa_name) (cs_plugins cs' q) = map_option pa_name (cs_plugins cs q)"
proof -
  obtain first table where sh: "server_shape cs v = Some (first, table)"
    and ch: "chains_ok cs first pas svcs" and tab: "table_ok env cs pas svcs table"
    using reg by (auto simp: registry_def)
  obtain pa where pa: "cs_plugins cs p = Some pa"
    using ch p unfolding chains_ok_def plugin_shape_def by auto
  have cs': "cs' = cs\<lparr>cs_services := (cs_services cs)(a \<mapsto> sa\<lparr>sa_next := pa_firstService pa\<rparr>),
      cs_plugins := (cs_plugins cs)(p \<mapsto> pa\<lparr>pa_firstService := Some a\<rparr>)\<rparr>"
    using link pa by (simp add: linkServiceAnchor_def modService_def modPluginAnchor_def)
  show "\<exists>n. cs_services cs' = (cs_services cs)(a \<mapsto> sa\<lparr>sa_next := n\<rparr>)" by (auto simp: cs')
  show "cs_servers cs' = cs_servers cs" by (simp add: cs')
  show "map_option (pa_name) (cs_plugins cs' q) = map_option pa_name (cs_plugins cs q)" for q
    using pa by (simp add: cs')
  have pn: "pluginNext cs' = pluginNext cs" using pa by (auto simp: cs' pluginNext_def fun_eq_iff)
  have sn: "serviceNext cs' b = serviceNext cs b" if "b \<noteq> a" for b
    using that by (simp add: cs' serviceNext_def)
  have old: "a \<notin> set (svcs q)" if "q \<in> set pas" for q
    using ch that fresh chain_stored unfolding chains_ok_def by blast
  have chains: "\<exists>n fs nm. plugin_shape cs' q = Some (n, fs, nm) \<and>
      chain (serviceNext cs') fs ((svcs(p := a # svcs p)) q)" if q: "q \<in> set pas" for q
  proof -
    obtain n fs nm where f: "plugin_shape cs q = Some (n, fs, nm)" "chain (serviceNext cs) fs (svcs q)"
      using ch q unfolding chains_ok_def by auto
    have "serviceNext cs' x = serviceNext cs x" if "x \<in> set (svcs q)" for x
      using sn [of x] old [OF q] that by auto
    then have c': "chain (serviceNext cs') fs (svcs q)"
      using f(2) chain_cong [of "svcs q" "serviceNext cs'" "serviceNext cs" fs] by auto
    show ?thesis
    proof (cases "q = p")
      case True
      then have "fs = pa_firstService pa" using f(1) pa by (simp add: plugin_shape_def)
      with c' True show ?thesis by (simp add: cs' plugin_shape_def serviceNext_def)
    next
      case False
      then have "plugin_shape cs' q = plugin_shape cs q" by (simp add: cs' plugin_shape_def)
      with f(1) c' False show ?thesis by auto
    qed
  qed
  have disj: "\<forall>q \<in> set pas. \<forall>r \<in> set pas. q \<noteq> r \<longrightarrow>
      set ((svcs(p := a # svcs p)) q) \<inter> set ((svcs(p := a # svcs p)) r) = {}"
    using ch old unfolding chains_ok_def by auto
  have ss: "service_shape cs' b = service_shape cs b" if "b \<noteq> a" for b
    using that by (simp add: cs' service_shape_def)
  have "table_ok env cs' pas (svcs(p := a # svcs p)) table"
    unfolding table_ok_def
  proof (intro allI impI)
    fix t path b assume "table = Some t" "crossMemoryMapGet env t path = Some b"
    with tab have b: "\<exists>q \<in> set pas. b \<in> set (svcs q)" "map_option snd (service_shape cs b) = Some path"
      unfolding table_ok_def by blast+
    then have "b \<noteq> a" using old by auto
    from b(1) obtain q where q: "q \<in> set pas" "b \<in> set (svcs q)" by auto
    then have "b \<in> set ((svcs(p := a # svcs p)) q)" by (cases "q = p") simp_all
    with q(1) b(2) ss [OF \<open>b \<noteq> a\<close>] show "(\<exists>q \<in> set pas. b \<in> set ((svcs(p := a # svcs p)) q)) \<and>
        map_option snd (service_shape cs' b) = Some path" by (intro conjI bexI [of _ q]) simp_all
  qed
  moreover have "chains_ok cs' first pas (svcs(p := a # svcs p))"
    using ch chains disj unfolding chains_ok_def pn by auto
  moreover have "server_shape cs' v = Some (first, table)" using sh by (simp add: cs' server_shape_def)
  ultimately show "registry env cs' v pas (svcs(p := a # svcs p))" by (auto simp: registry_def)
qed

text \<open>A fresh plug-in anchor in front of the server's chain.\<close>

lemma link_new_plugin:
  assumes reg: "registry env cs v pas svcs" and fresh: "\<not> used cs a"
    and new: "pa_firstService pa = None" and sv: "cs_servers cs v = Some sv"
    and cs': "cs' = cs\<lparr>cs_plugins := (cs_plugins cs)(a \<mapsto> pa\<lparr>pa_next := sv_firstPlugin sv\<rparr>),
                       cs_servers := (cs_servers cs)(v \<mapsto> sv\<lparr>sv_firstPlugin := Some a\<rparr>)\<rparr>"
  shows "registry env cs' v (a # pas) (svcs(a := []))"
proof -
  obtain first table where sh: "server_shape cs v = Some (first, table)"
    and ch: "chains_ok cs first pas svcs" and tab: "table_ok env cs pas svcs table"
    using reg by (auto simp: registry_def)
  have first: "first = sv_firstPlugin sv" using sh sv by (simp add: server_shape_def)
  have notin: "a \<notin> set pas"
    using ch fresh chain_plugins_stored [of cs first pas a] by (auto simp: chains_ok_def used_def)
  have pn: "pluginNext cs' b = pluginNext cs b" "plugin_shape cs' b = plugin_shape cs b" if "b \<noteq> a" for b
    using that by (simp_all add: cs' pluginNext_def plugin_shape_def)
  have "pluginNext cs' x = pluginNext cs x" if "x \<in> set pas" for x
    using notin that by (intro pn(1)) auto
  then have "chain (pluginNext cs') first pas"
    using ch chain_cong [of pas "pluginNext cs'" "pluginNext cs" first] by (auto simp: chains_ok_def)
  then have c1: "chain (pluginNext cs') (Some a) (a # pas)"
    by (intro chain_push) (simp_all add: cs' pluginNext_def first)
  have sn: "serviceNext cs' = serviceNext cs" by (simp add: cs' serviceNext_def fun_eq_iff)
  have c2: "\<forall>q \<in> set (a # pas). \<exists>n fs nm. plugin_shape cs' q = Some (n, fs, nm) \<and>
      chain (serviceNext cs') fs ((svcs(a := [])) q)"
  proof
    fix q assume q: "q \<in> set (a # pas)"
    show "\<exists>n fs nm. plugin_shape cs' q = Some (n, fs, nm) \<and> chain (serviceNext cs') fs ((svcs(a := [])) q)"
    proof (cases "q = a")
      case True
      then show ?thesis using new by (simp add: cs' plugin_shape_def)
    next
      case False
      with q ch obtain n fs nm where "plugin_shape cs q = Some (n, fs, nm)" "chain (serviceNext cs) fs (svcs q)"
        by (auto simp: chains_ok_def)
      with False pn(2) [OF False] sn show ?thesis by simp
    qed
  qed
  have c3: "\<forall>q \<in> set (a # pas). \<forall>r \<in> set (a # pas). q \<noteq> r \<longrightarrow>
      set ((svcs(a := [])) q) \<inter> set ((svcs(a := [])) r) = {}"
    using ch by (auto simp: chains_ok_def)
  have "chains_ok cs' (Some a) (a # pas) (svcs(a := []))" using c1 c2 c3 unfolding chains_ok_def by blast
  moreover have "server_shape cs' v = Some (Some a, table)"
    using sh sv by (simp add: cs' server_shape_def)
  moreover have "table_ok env cs' (a # pas) (svcs(a := [])) table"
    using tab notin unfolding table_ok_def by (fastforce simp: cs' service_shape_def)
  ultimately show ?thesis unfolding registry_def by blast
qed

lemma zisUpdateServiceAnchor_frame [simp]:
  "sa_next (zisUpdateServiceAnchor sa s) = sa_next sa" "sa_path (zisUpdateServiceAnchor sa s) = sa_path sa"
  "sa_state (zisUpdateServiceAnchor sa s) = sa_state sa" "sa_version (zisUpdateServiceAnchor sa s) = sa_version sa"
  by (simp_all add: zisUpdateServiceAnchor_def Let_def)

lemma findServiceAnchor_list:
  assumes "registry env cs v pas svcs" and "p \<in> set pas"
  shows "findServiceAnchor p name cs =
           Some (find (\<lambda>a. service_matches name (the (cs_services cs a))) (svcs p))"
proof -
  obtain n fs nm where f: "plugin_shape cs p = Some (n, fs, nm)" "chain (serviceNext cs) fs (svcs p)"
    using assms by (auto simp: registry_def chains_ok_def)
  then show ?thesis
    using chain_find_list [of sa_next "cs_services cs" fs "svcs p" "service_matches name"]
    by (auto simp: findServiceAnchor_def plugin_shape_def serviceNext_def [abs_def])
qed

lemma registry_plugin_stored: "registry env cs v pas svcs \<Longrightarrow> p \<in> set pas \<Longrightarrow> cs_plugins cs p \<noteq> None"
  unfolding registry_def chains_ok_def plugin_shape_def by force

lemma registry_service_stored:
  "registry env cs v pas svcs \<Longrightarrow> p \<in> set pas \<Longrightarrow> a \<in> set (svcs p) \<Longrightarrow> cs_services cs a \<noteq> None"
  unfolding registry_def chains_ok_def using chain_services_stored by blast

text \<open>
  \<open>obtainServiceAnchor\<close> always answers on a registry, and keeps it: the chains stay or grow by the
  new anchor.
\<close>

lemma obtainServiceAnchor_registry:
  assumes reg: "registry env cs v pas svcs" and p: "p \<in> set pas" and fresh: "alloc_fresh env"
  shows "\<exists>r cs' svcs'. obtainServiceAnchor env plugin service p cs = Some (r, cs') \<and>
     registry env cs' v pas svcs' \<and> (\<forall>a. r = Some a \<longrightarrow> a \<in> set (svcs' p)) \<and>
     (server_shape cs' = server_shape cs)"
proof -
  obtain found where fd: "findServiceAnchor p (s_name service) cs = Some found"
    "\<And>a. found = Some a \<Longrightarrow> a \<in> set (svcs p)"
    using findServiceAnchor_list [OF reg p] by (auto dest: find_Some_mem)
  obtain r1 cs1 where d: "discardIfIncompatible service found cs = Some (r1, cs1)"
    "same_shape cs cs1" "\<And>a. r1 = Some a \<Longrightarrow> a \<in> set (svcs p)"
  proof (cases found)
    case None
    then show thesis using that [of None cs] by (simp add: discardIfIncompatible_def)
  next
    case (Some a)
    then obtain sa where sa: "cs_services cs a = Some sa"
      using registry_service_stored [OF reg p] fd by blast
    show thesis
    proof (cases "isServiceAnchorCompatible service sa")
      case True
      then show thesis using that [of "Some a" cs] Some sa fd by (simp add: discardIfIncompatible_def)
    next
      case False
      obtain cs1 where c: "discardServiceAnchor a cs = Some cs1"
        using sa by (simp add: discardServiceAnchor_def modService_def)
      then show thesis
        using that [of None cs1] Some sa False discarding.step_shape [OF c]
        by (simp add: discardIfIncompatible_def)
    qed
  qed
  have reg1: "registry env cs1 v pas svcs" using reg same_shape_registry [OF d(2)] by simp
  show ?thesis
  proof (cases r1)
    case (Some a)
    then have a: "a \<in> set (svcs p)" using d(3) by simp
    then obtain sa where "cs_services cs1 a = Some sa" using registry_service_stored [OF reg1 p] by blast
    then obtain cs2 where m: "modService a (\<lambda>sa. zisUpdateServiceAnchor sa service) cs1 = Some cs2"
      by (simp add: modService_def)
    then have s2: "same_shape cs1 cs2" by (rule modService_shape) simp_all
    with reg1 have "registry env cs2 v pas svcs" by (simp add: same_shape_registry)
    with Some a fd d m s2 show ?thesis
      by (auto simp: obtainServiceAnchor_def same_shape_def intro!: exI [of _ svcs])
  next
    case None
    show ?thesis
    proof (cases "cmAlloc env cs1 sizeof_ZISServiceAnchor")
      case None
      with \<open>r1 = None\<close> fd d reg1 show ?thesis
        by (auto simp: obtainServiceAnchor_def zisCreateServiceAnchor_def same_shape_def)
    next
      case (Some a)
      then have fr: "\<not> used cs1 a" using fresh by (auto simp: alloc_fresh_def)
      let ?cs2 = "cs1\<lparr>cs_services := (cs_services cs1)(a \<mapsto> newServiceAnchor plugin service)\<rparr>"
      obtain cs3 where l: "linkServiceAnchor p a ?cs2 = Some cs3"
        using registry_plugin_stored [OF reg1 p]
        by (auto simp: linkServiceAnchor_def modService_def modPluginAnchor_def)
      note reg3 = link_new_service(1,3) [OF reg1 p fr l]
      have "obtainServiceAnchor env plugin service p cs = Some (Some a, cs3)"
        using \<open>r1 = None\<close> fd d Some l by (simp add: obtainServiceAnchor_def zisCreateServiceAnchor_def)
      moreover have "server_shape cs3 = server_shape cs"
        using reg3(2) d(2) by (simp add: same_shape_def server_shape_def fun_eq_iff)
      ultimately show ?thesis using reg3(1) by fastforce
    qed
  qed
qed

section \<open>Installing services keeps the registry\<close>

text \<open>Storage that is in use stays in use.\<close>

definition extends :: "'m CommonStorage \<Rightarrow> 'm CommonStorage \<Rightarrow> bool" where
  "extends cs cs' \<longleftrightarrow>
     (\<forall>a. cs_plugins cs a \<noteq> None \<longrightarrow> cs_plugins cs' a \<noteq> None) \<and>
     (\<forall>a. cs_services cs a \<noteq> None \<longrightarrow> cs_services cs' a \<noteq> None)"

lemma extends_refl [simp, intro]: "extends cs cs"
  by (simp add: extends_def)

lemma extends_trans: "extends cs cs1 \<Longrightarrow> extends cs1 cs2 \<Longrightarrow> extends cs cs2"
  by (auto simp: extends_def)

lemma shape_None:
  "plugin_shape cs a = None \<longleftrightarrow> cs_plugins cs a = None" "service_shape cs a = None \<longleftrightarrow> cs_services cs a = None"
  by (simp_all add: plugin_shape_def service_shape_def)

lemma same_shape_extends: "same_shape cs cs' \<Longrightarrow> extends cs cs'"
  unfolding extends_def shape_None [symmetric] same_shape_def by simp

definition has_table :: "'m CommonStorage \<Rightarrow> addr \<Rightarrow> bool" where
  "has_table cs v \<longleftrightarrow> (\<exists>first t. server_shape cs v = Some (first, Some t))"

lemma has_table_shape: "server_shape cs' = server_shape cs \<Longrightarrow> has_table cs' v = has_table cs v"
  by (simp add: has_table_def)

lemma same_shape_keeps:
  assumes "same_shape cs cs'"
  shows "registry env cs v pas svcs \<Longrightarrow> registry env cs' v pas svcs" and "has_table cs v \<Longrightarrow> has_table cs' v"
    and "extends cs cs'"
  using same_shape_registry [OF assms] same_shape_extends [OF assms] assms
  by (auto simp: has_table_def same_shape_def)

lemma linkServiceAnchor_extends: "linkServiceAnchor p a cs = Some cs' \<Longrightarrow> extends cs cs'"
  by (auto simp: linkServiceAnchor_def modService_def modPluginAnchor_def extends_def split: option.splits)

lemma discardIfIncompatible_shape: "discardIfIncompatible s found cs = Some (r, cs') \<Longrightarrow> same_shape cs cs'"
  by (auto simp: discardIfIncompatible_def split: option.splits if_splits dest: discarding.step_shape)

lemma obtainServiceAnchor_extends:
  assumes "obtainServiceAnchor env plugin service p cs = Some (r, cs')"
  shows "extends cs cs'"
proof -
  from assms obtain r1 cs1 found where d: "discardIfIncompatible service found cs = Some (r1, cs1)"
    by (auto simp: obtainServiceAnchor_def split: option.splits)
  have e1: "extends cs cs1" using d discardIfIncompatible_shape same_shape_extends by blast
  have new: "extends cs1 (cs1\<lparr>cs_services := (cs_services cs1)(a \<mapsto> x)\<rparr>)" for a x by (simp add: extends_def)
  have upd: "modService a f cs1 = Some cs' \<Longrightarrow> extends cs1 cs'" for a f
    by (auto simp: modService_def extends_def split: option.splits)
  obtain r2 cs2 where d2: "discardIfIncompatible service (the (findServiceAnchor p (s_name service) cs)) cs
      = Some (r2, cs2)"
    using assms by (auto simp: obtainServiceAnchor_def split: option.splits)
  have e2: "extends cs cs2" using d2 discardIfIncompatible_shape same_shape_extends by blast
  have "extends cs2 cs'"
  proof (cases r2)
    case (Some a)
    then show ?thesis
      using assms d2 by (auto simp: obtainServiceAnchor_def modService_def extends_def split: option.splits)
  next
    case None
    show ?thesis
    proof (cases "cmAlloc env cs2 sizeof_ZISServiceAnchor")
      case None
      then show ?thesis using assms d2 \<open>r2 = None\<close>
        by (auto simp: obtainServiceAnchor_def zisCreateServiceAnchor_def split: option.splits)
    next
      case (Some a)
      then have "linkServiceAnchor p a
          (cs2\<lparr>cs_services := (cs_services cs2)(a \<mapsto> newServiceAnchor plugin service)\<rparr>) = Some cs'"
        using assms d2 \<open>r2 = None\<close>
        by (auto simp: obtainServiceAnchor_def zisCreateServiceAnchor_def split: option.splits)
      from linkServiceAnchor_extends [OF this] show ?thesis by (auto simp: extends_def)
    qed
  qed
  with e2 show ?thesis by (rule extends_trans)
qed

lemma serviceCall_total:
  assumes "cs_services cs a \<noteq> None"
  shows "\<exists>r cs'. serviceCall env l fn (Some a) cs = Some (r, cs')"
  using assms by (auto simp: serviceCall_def modService_def split: prod.splits)

lemma pluginCall_total:
  assumes "cs_plugins cs a \<noteq> None"
  shows "\<exists>r cs'. pluginCall env l fn (Some a) cs = Some (r, cs')"
  using assms by (auto simp: pluginCall_def modPluginAnchor_def split: prod.splits)

lemma putService_total:
  assumes "map_laws env" and "has_table cs v" and "cs_services cs a \<noteq> None"
  shows "\<exists>ok cs'. putService env v a cs = Some (ok, cs') \<and> has_table cs' v \<and> extends cs cs' \<and>
     cs_services cs' = cs_services cs"
proof -
  obtain sv t sa where s: "cs_servers cs v = Some sv" "sv_serviceTable sv = Some t" "cs_services cs a = Some sa"
    using assms(2,3) by (auto simp: has_table_def server_shape_def)
  show ?thesis
    using put_or_set [OF assms(1) s] by (auto simp: has_table_def server_shape_def extends_def)
qed

text \<open>A descriptor whose pointers into common storage are \<open>NULL\<close> or lead to anchors.\<close>

definition descriptor_ok :: "'m CommonStorage \<Rightarrow> ZISPlugin \<Rightarrow> bool" where
  "descriptor_ok cs p \<longleftrightarrow>
     plugin_wf p \<and> (\<forall>a. p_anchor p = Some a \<longrightarrow> cs_plugins cs a \<noteq> None) \<and>
     (\<forall>s \<in> set (p_services p). \<forall>a. s_anchor s = Some a \<longrightarrow> cs_services cs a \<noteq> None)"

lemma descriptor_ok_extends: "descriptor_ok cs p \<Longrightarrow> extends cs cs' \<Longrightarrow> descriptor_ok cs' p"
  by (auto simp: descriptor_ok_def extends_def)

definition same_plugin :: "ZISPlugin \<Rightarrow> ZISPlugin \<Rightarrow> bool" where
  "same_plugin p q \<longleftrightarrow>
     p_name q = p_name p \<and> p_nickname q = p_nickname p \<and> p_next q = p_next p \<and>
     p_serviceCount q = p_serviceCount p \<and> p_anchor q = p_anchor p \<and>
     length (p_services q) = length (p_services p)"

lemma installService_registry:
  assumes env: "map_laws env" "alloc_fresh env"
    and reg: "registry env cs v pas svcs" and tab: "has_table cs v" and p: "p \<in> set pas"
    and pl: "ps pl = Some plugin" "descriptor_ok cs plugin" "i < length (p_services plugin)"
  shows "\<exists>r cs' ps' plugin' svcs'. installService env v pl p i (cs, ps) = Some (r, cs', ps') \<and>
     ps' pl = Some plugin' \<and> (\<forall>q. q \<noteq> pl \<longrightarrow> ps' q = ps q) \<and>
     registry env cs' v pas svcs' \<and> has_table cs' v \<and> extends cs cs' \<and>
     descriptor_ok cs' plugin' \<and> same_plugin plugin plugin'"
proof -
  let ?s = "p_services plugin ! i"
  obtain r0 cs1 svcs1 where ob: "obtainServiceAnchor env plugin ?s p cs = Some (r0, cs1)"
    and reg1: "registry env cs1 v pas svcs1" and mem: "\<And>a. r0 = Some a \<Longrightarrow> a \<in> set (svcs1 p)"
    and sh1: "server_shape cs1 = server_shape cs"
    using obtainServiceAnchor_registry [OF reg p env(2), of plugin ?s] by metis
  have e1: "extends cs cs1" using ob by (rule obtainServiceAnchor_extends)
  have tab1: "has_table cs1 v" using tab has_table_shape [OF sh1] by simp
  have d1: "descriptor_ok cs1 plugin" using pl(2) e1 by (rule descriptor_ok_extends)
  show ?thesis
  proof (cases r0)
    case None
    then have "installService env v pl p i (cs, ps) = Some (Some RC_ZIS_ERROR, cs1, ps)"
      using ob pl by (simp add: installService_def)
    with reg1 tab1 e1 d1 pl(1) show ?thesis by (auto simp: same_plugin_def)
  next
    case (Some a)
    let ?plugin' = "plugin\<lparr>p_services := (p_services plugin)[i := ?s\<lparr>s_anchor := Some a\<rparr>]\<rparr>"
    have a: "a \<in> set (svcs1 p)" and st1: "cs_services cs1 a \<noteq> None"
      using mem [OF Some] registry_service_stored [OF reg1 p] by auto
    have d': "descriptor_ok cs1 ?plugin'"
      using d1 st1 pl(3) unfolding descriptor_ok_def
      by (auto simp: plugin_wf_def dest!: set_update_subset_insert [THEN subsetD])
    have same: "same_plugin plugin ?plugin'" by (simp add: same_plugin_def)
    obtain initRC cs2 where ini: "callServiceInit env ?s (Some a) cs1 = Some (initRC, cs2)"
      using serviceCall_total [OF st1] unfolding callServiceInit_def by blast
    have s2: "same_shape cs1 cs2" using ini serviceCall_shape unfolding callServiceInit_def by blast
    have reg2: "registry env cs2 v pas svcs1" and tab2: "has_table cs2 v" and e2: "extends cs cs2"
      using same_shape_keeps [OF s2] reg1 tab1 e1 by (auto intro: extends_trans)
    have d2: "descriptor_ok cs2 ?plugin'" using d' same_shape_extends [OF s2] by (rule descriptor_ok_extends)
    have st2: "cs_services cs2 a \<noteq> None" using same_shape_extends [OF s2] st1 by (auto simp: extends_def)
    obtain ok cs3 where put: "putService env v a cs2 = Some (ok, cs3)" "has_table cs3 v" "extends cs2 cs3"
      "cs_services cs3 = cs_services cs2"
      using putService_total [OF env(1) tab2 st2] by blast
    have reg3: "registry env cs3 v pas svcs1" by (rule putService_registry [OF env(1) reg2 p a put(1)])
    obtain cs4 where act: "activateService a cs3 = Some cs4"
      using st2 put(4) by (auto simp: activateService_def modService_def)
    note s4 = activation.step_shape [OF act]
    have reg4: "registry env cs4 v pas svcs1" and tab4: "has_table cs4 v"
      using same_shape_keeps [OF s4] reg3 put(2) by auto
    have e3: "extends cs cs3" and e4: "extends cs cs4" "extends cs2 cs4"
      using e2 put(3) same_shape_extends [OF s4] by (auto intro: extends_trans)
    have step: "installService env v pl p i (cs, ps) =
        Some (if initRC \<noteq> RC_ZIS_OK then (None, cs2, ps(pl \<mapsto> ?plugin'))
              else if ok then (None, cs4, ps(pl \<mapsto> ?plugin'))
              else (Some RC_ZIS_ERROR, cs3, ps(pl \<mapsto> ?plugin')))"
      using ob pl ini put(1) act Some by (simp add: installService_def)
    consider "initRC \<noteq> RC_ZIS_OK" | "initRC = RC_ZIS_OK" "ok" | "initRC = RC_ZIS_OK" "\<not> ok" by blast
    then show ?thesis
    proof cases
      case 1
      with step reg2 tab2 e2 d2 same show ?thesis by auto
    next
      case 2
      with step reg4 tab4 e4 descriptor_ok_extends [OF d2 e4(2)] same show ?thesis by auto
    next
      case 3
      with step reg3 put(2) e3 descriptor_ok_extends [OF d2 put(3)] same show ?thesis by auto
    qed
  qed
qed

lemma installServices_loop_registry:
  assumes env: "map_laws env" "alloc_fresh env"
    and "registry env cs v pas svcs" and "has_table cs v" and p: "p \<in> set pas"
    and "ps pl = Some plugin" and "descriptor_ok cs plugin" and "\<forall>i \<in> set is. i < length (p_services plugin)"
  shows "\<exists>r cs' ps' plugin' svcs'. installServices_loop env v pl p is (cs, ps) = Some (r, cs', ps') \<and>
     ps' pl = Some plugin' \<and> (\<forall>q. q \<noteq> pl \<longrightarrow> ps' q = ps q) \<and>
     registry env cs' v pas svcs' \<and> has_table cs' v \<and> extends cs cs' \<and>
     descriptor_ok cs' plugin' \<and> same_plugin plugin plugin'"
  using assms(3-)
proof (induction "is" arbitrary: cs ps plugin svcs)
  case Nil
  then show ?case by (auto simp: same_plugin_def)
next
  case (Cons i "is")
  then obtain r cs1 ps1 plugin1 svcs1 where st: "installService env v pl p i (cs, ps) = Some (r, cs1, ps1)"
    "ps1 pl = Some plugin1" "\<forall>q. q \<noteq> pl \<longrightarrow> ps1 q = ps q"
    "registry env cs1 v pas svcs1" "has_table cs1 v" "extends cs cs1" "descriptor_ok cs1 plugin1"
    "same_plugin plugin plugin1"
    using installService_registry [OF env, of cs v pas svcs p ps pl plugin i] by auto
  have len: "length (p_services plugin1) = length (p_services plugin)"
    using st(8) by (simp add: same_plugin_def)
  show ?case
  proof (cases r)
    case (Some rc)
    with st show ?thesis by auto
  next
    case None
    obtain r2 cs2 ps2 plugin2 svcs2 where
      "installServices_loop env v pl p is (cs1, ps1) = Some (r2, cs2, ps2)"
      "ps2 pl = Some plugin2" "\<forall>q. q \<noteq> pl \<longrightarrow> ps2 q = ps1 q"
      "registry env cs2 v pas svcs2" "has_table cs2 v" "extends cs1 cs2" "descriptor_ok cs2 plugin2"
      "same_plugin plugin1 plugin2"
      using Cons.IH [of cs1 svcs1 ps1 plugin1] st p len Cons.prems by auto
    with None st show ?thesis by (auto simp: same_plugin_def intro: extends_trans)
  qed
qed

lemma installServices_registry:
  assumes "map_laws env" and "alloc_fresh env" and "registry env cs v pas svcs" and "has_table cs v"
    and "p \<in> set pas" and "ps pl = Some plugin" and "descriptor_ok cs plugin"
  shows "\<exists>r cs' ps' plugin' svcs'. installServices env v pl p (cs, ps) = Some (r, cs', ps') \<and>
     ps' pl = Some plugin' \<and> (\<forall>q. q \<noteq> pl \<longrightarrow> ps' q = ps q) \<and>
     registry env cs' v pas svcs' \<and> has_table cs' v \<and> extends cs cs' \<and>
     descriptor_ok cs' plugin' \<and> same_plugin plugin plugin'"
proof -
  have "\<forall>i \<in> set [0..<unat (p_serviceCount plugin)]. i < length (p_services plugin)"
    using assms(7) by (auto simp: descriptor_ok_def plugin_wf_def)
  from installServices_loop_registry [where ps = ps and pl = pl, OF assms this] assms(6) show ?thesis
    by (simp add: installServices_def)
qed

section \<open>The server's invariant\<close>

text \<open>
  What the modules promise: the descriptor function of a plug-in module leaves the other
  descriptors alone and answers a newly made descriptor, as \<open>zisCreatePlugin\<close> makes it.
\<close>

definition new_descriptor :: "ZISPlugin \<Rightarrow> bool" where
  "new_descriptor p \<longleftrightarrow> plugin_wf p \<and> p_anchor p = None \<and> (\<forall>s \<in> set (p_services p). s_anchor s = None)"

definition modules_ok :: "'m ServerEnv \<Rightarrow> bool" where
  "modules_ok env \<longleftrightarrow>
     (\<forall>ep ps r ps'. pluginDescriptor env ep ps = (r, ps') \<longrightarrow>
        (\<forall>a. ps a \<noteq> None \<longrightarrow> ps' a = ps a) \<and> (finite (dom ps) \<longrightarrow> finite (dom ps')) \<and>
        (\<forall>pl. r = Some (Some pl) \<longrightarrow> ps pl = None \<and> (\<exists>p. ps' pl = Some p \<and> new_descriptor p)))"

text \<open>
  Some plug-in asks to be moved to the LPA. The server then calls the descriptor function at its entry
  point there, without recovery, and uses the result without a check: with such plug-ins every
  descriptor function has to return a descriptor. Where no plug-in asks for the LPA, it may fail or
  answer \<open>NULL\<close>.
\<close>

definition wants_lpa :: "'m ServerEnv \<Rightarrow> bool" where
  "wants_lpa env \<longleftrightarrow>
     (\<exists>ep ps pl ps' p. pluginDescriptor env ep ps = (Some (Some pl), ps') \<and> ps' pl = Some p \<and>
        has_flag (p_flags p) ZIS_PLUGIN_FLAG_LPA)"

definition descriptors_total :: "'m ServerEnv \<Rightarrow> bool" where
  "descriptors_total env \<longleftrightarrow>
     (wants_lpa env \<longrightarrow> (\<forall>ep ps. finite (dom ps) \<longrightarrow> (\<exists>pl. fst (pluginDescriptor env ep ps) = Some (Some pl))))"

definition env_ok :: "'m ServerEnv \<Rightarrow> bool" where
  "env_ok env \<longleftrightarrow> map_laws env \<and> alloc_fresh env \<and> modules_ok env \<and> descriptors_total env"

text \<open>
  The state between two steps of the server: the registry under the server anchor \<open>v\<close> is intact
  and has a table, and the descriptors \<open>ds\<close> on the context's chain are well formed.
\<close>

definition server_inv ::
    "'m ServerEnv \<Rightarrow> addr \<Rightarrow> addr list \<Rightarrow> addr list \<Rightarrow> (addr \<Rightarrow> addr list) \<Rightarrow> ('m, 's) ServerState \<Rightarrow> bool" where
  "server_inv env v ds pas svcs st \<longleftrightarrow>
     cx_zisAnchor (ss_context st) = Some v \<and>
     registry env (ss_common st) v pas svcs \<and> has_table (ss_common st) v \<and>
     finite (dom (ss_plugins st)) \<and>
     chain (descriptorNext (ss_plugins st)) (cx_firstPlugin (ss_context st)) ds \<and>
     (\<forall>d \<in> set ds. \<exists>p. ss_plugins st d = Some p \<and> descriptor_ok (ss_common st) p)"

definition ident :: "PluginStore \<Rightarrow> addr \<Rightarrow> (ZISPluginName \<times> ZISPluginNickname) option" where
  "ident ps d = map_option (\<lambda>p. (p_name p, p_nickname p)) (ps d)"

lemma new_descriptor_ok: "new_descriptor p \<Longrightarrow> descriptor_ok cs p"
  by (auto simp: new_descriptor_def descriptor_ok_def)

lemma descriptorNext_cong: "(\<And>d. d \<in> set ds \<Longrightarrow> ps' d = ps d) \<Longrightarrow>
   chain (descriptorNext ps') p ds = chain (descriptorNext ps) p ds"
  by (rule chain_cong) (simp add: descriptorNext_def)

section \<open>Starting a linked plug-in\<close>

text \<open>The invariant after the descriptor of \<open>pl\<close> and common storage changed.\<close>

lemma server_inv_update:
  assumes inv: "server_inv env v ds pas svcs st" and pl: "pl \<in> set ds" "ss_plugins st pl = Some plugin"
    and reg: "registry env cs' v pas svcs'" "has_table cs' v" "extends (ss_common st) cs'"
    and new: "ps' pl = Some plugin'" "descriptor_ok cs' plugin'"
    and same: "p_next plugin' = p_next plugin" "p_name plugin' = p_name plugin"
      "p_nickname plugin' = p_nickname plugin"
    and frame: "\<forall>q. q \<noteq> pl \<longrightarrow> ps' q = ss_plugins st q"
  shows "server_inv env v ds pas svcs' (st\<lparr>ss_plugins := ps', ss_common := cs'\<rparr>)"
    and "ident ps' = ident (ss_plugins st)"
proof -
  have nx: "descriptorNext ps' = descriptorNext (ss_plugins st)"
  proof
    fix d show "descriptorNext ps' d = descriptorNext (ss_plugins st) d"
      using pl new same frame by (cases "d = pl") (auto simp: descriptorNext_def)
  qed
  have "\<exists>p. ps' d = Some p \<and> descriptor_ok cs' p" if "d \<in> set ds" for d
  proof (cases "d = pl")
    case True
    with new show ?thesis by simp
  next
    case False
    from inv that obtain p where "ss_plugins st d = Some p" "descriptor_ok (ss_common st) p"
      by (auto simp: server_inv_def)
    with frame False descriptor_ok_extends [OF _ reg(3)] show ?thesis by auto
  qed
  moreover have "dom ps' \<subseteq> insert pl (dom (ss_plugins st))"
    using frame by (auto simp: dom_def)
  then have "finite (dom ps')" using inv by (auto simp: server_inv_def intro: finite_subset)
  ultimately show "server_inv env v ds pas svcs' (st\<lparr>ss_plugins := ps', ss_common := cs'\<rparr>)"
    using inv nx reg by (simp add: server_inv_def)
  show "ident ps' = ident (ss_plugins st)"
  proof
    fix d show "ident ps' d = ident (ss_plugins st) d"
      using pl new same frame by (cases "d = pl") (auto simp: ident_def)
  qed
qed

lemma startPlugin_inv:
  assumes env: "map_laws env" "alloc_fresh env" and inv: "server_inv env v (pl # ds) pas svcs st"
    and anchor: "anchor \<in> set pas"
  shows "\<exists>r st' svcs'. startPlugin env v pl anchor st = Some (r, st') \<and> server_inv env v (pl # ds) pas svcs' st' \<and>
     ss_context st' = ss_context st \<and> ss_userServerAnchor st' = ss_userServerAnchor st \<and>
     ident (ss_plugins st') = ident (ss_plugins st)"
proof -
  let ?cs = "ss_common st" and ?ps = "ss_plugins st"
  obtain plugin where pl: "?ps pl = Some plugin" and dok: "descriptor_ok ?cs plugin"
    and reg: "registry env ?cs v pas svcs" and tab: "has_table ?cs v"
    using inv by (auto simp: server_inv_def)
  let ?plugin1 = "plugin\<lparr>p_anchor := Some anchor\<rparr>" and ?ps1 = "?ps(pl \<mapsto> plugin\<lparr>p_anchor := Some anchor\<rparr>)"
  have m1: "modPlugin pl (p_anchor_update (\<lambda>_. Some anchor)) ?ps = Some ?ps1" using pl by (simp add: modPlugin_def)
  have st0: "cs_plugins ?cs anchor \<noteq> None" using registry_plugin_stored [OF reg anchor] .
  then obtain cs1 where m2: "modPluginAnchor anchor (pa_pluginVersion_update (\<lambda>_. p_pluginVersion ?plugin1)) ?cs = Some cs1"
    by (auto simp: modPluginAnchor_def)
  have s1: "same_shape ?cs cs1" using m2 by (rule modPluginAnchor_shape) simp_all
  note k1 = same_shape_keeps [OF s1]
  have st1: "cs_plugins cs1 anchor \<noteq> None" using k1(3) st0 by (auto simp: extends_def)
  obtain initRC cs2 where ini: "callPluginInit env ?plugin1 (Some anchor) cs1 = Some (initRC, cs2)"
    using pluginCall_total [OF st1] unfolding callPluginInit_def by blast
  have s2: "same_shape cs1 cs2" using ini pluginCall_shape unfolding callPluginInit_def by blast
  note k2 = same_shape_keeps [OF s2]
  have reg2: "registry env cs2 v pas svcs" and tab2: "has_table cs2 v" and e2: "extends ?cs cs2"
    using k2(1) [OF k1(1) [OF reg]] k2(2) [OF k1(2) [OF tab]] extends_trans [OF k1(3) k2(3)] by auto
  have d2: "descriptor_ok cs2 ?plugin1"
    using descriptor_ok_extends [OF dok e2] registry_plugin_stored [OF reg2 anchor]
    by (simp add: descriptor_ok_def plugin_wf_def)
  have p1: "?ps1 pl = Some ?plugin1" by simp
  obtain r cs3 ps3 plugin3 svcs3 where
    ins: "installServices env v pl anchor (cs2, ?ps1) = Some (r, cs3, ps3)" "ps3 pl = Some plugin3"
      "\<forall>q. q \<noteq> pl \<longrightarrow> ps3 q = ?ps1 q" "registry env cs3 v pas svcs3" "has_table cs3 v" "extends cs2 cs3"
      "descriptor_ok cs3 plugin3" "same_plugin ?plugin1 plugin3"
    using installServices_registry [where ps = ?ps1 and pl = pl, OF env reg2 tab2 anchor p1 d2] by blast
  have mem: "pl \<in> set (pl # ds)" by simp
  show ?thesis
  proof (cases "initRC = RC_ZIS_OK")
    case False
    then have "startPlugin env v pl anchor st = Some (initRC, st\<lparr>ss_plugins := ?ps1, ss_common := cs2\<rparr>)"
      using m1 m2 ini by (simp add: startPlugin_def)
    with server_inv_update [where ps' = ?ps1 and pl = pl, OF inv mem pl reg2 tab2 e2 p1 d2] show ?thesis by auto
  next
    case True
    then have start: "startPlugin env v pl anchor st = Some (RC_ZIS_OK, st\<lparr>ss_plugins := ps3, ss_common := cs3\<rparr>)"
      using m1 m2 ini ins by (simp add: startPlugin_def)
    have e3: "extends ?cs cs3" using e2 ins(6) by (rule extends_trans)
    have "\<forall>q. q \<noteq> pl \<longrightarrow> ps3 q = ?ps q" using ins(3) by simp
    with server_inv_update [where ps' = ps3 and pl = pl, OF inv mem pl ins(4,5) e3 ins(2,7)] ins(8) start show ?thesis
      by (auto simp: same_plugin_def)
  qed
qed

section \<open>Relocation and installation of a plug-in\<close>

lemma discardLPA_effect:
  assumes "cs_plugins cs anchor = Some pa"
  shows "\<exists>r cs'. discardLPA env fl plugin anchor pa cs = Some (r, cs') \<and> same_shape cs cs'"
proof -
  obtain r info where del: "lpaDelete env (pa_moduleInfo pa) = (r, info)" by fastforce
  have m: "\<exists>cs'. modPluginAnchor anchor f cs = Some cs'" for f
    using assms by (simp add: modPluginAnchor_def)
  have sh: "modPluginAnchor anchor forgetLPA cs = Some cs' \<Longrightarrow> same_shape cs cs'"
    "modPluginAnchor anchor (pa_moduleInfo_update (\<lambda>_. info)) cs = Some cs' \<Longrightarrow> same_shape cs cs'" for cs'
    by (erule modPluginAnchor_shape, simp_all)+
  show ?thesis
    using m [of forgetLPA] m [of "pa_moduleInfo_update (\<lambda>_. info)"] sh del
    by (auto simp: discardLPA_def Let_def)
qed

lemma addToLPA_effect:
  assumes "cs_plugins cs anchor \<noteq> None"
  shows "\<exists>r cs'. addToLPA env anchor moduleName cs = Some (r, cs') \<and> same_shape cs cs'"
proof -
  obtain pa where pa: "cs_plugins cs anchor = Some pa" using assms by auto
  obtain r info where add: "lpaAdd env (pa_moduleInfo pa) ''STEPLIB '' moduleName = (r, info)" by fastforce
  let ?f = "\<lambda>pa. pa\<lparr>pa_moduleInfo := info, pa_flags := set_flag (pa_flags pa) ZIS_PLUGIN_ANCHOR_FLAG_LPA\<rparr>"
  have m: "\<exists>cs'. modPluginAnchor anchor f cs = Some cs'" for f using pa by (simp add: modPluginAnchor_def)
  have sh: "modPluginAnchor anchor ?f cs = Some cs' \<Longrightarrow> same_shape cs cs'"
    "modPluginAnchor anchor (pa_moduleInfo_update (\<lambda>_. info)) cs = Some cs' \<Longrightarrow> same_shape cs cs'" for cs'
    by (erule modPluginAnchor_shape, simp_all)+
  show ?thesis
    using m [of ?f] m [of "pa_moduleInfo_update (\<lambda>_. info)"] sh add pa
    by (auto simp: addToLPA_def)
qed

lemma relocate_effect:
  assumes env: "modules_ok env" "descriptors_total env"
    and pl: "ps pl = Some plugin" "new_descriptor plugin" "has_flag (p_flags plugin) ZIS_PLUGIN_FLAG_LPA \<Longrightarrow> wants_lpa env"
    and anchor: "cs_plugins cs anchor \<noteq> None" and fin: "finite (dom ps)"
  shows "\<exists>r pl' cs' ps'. relocatePluginToLPAIfNeeded env fl pl anchor moduleName (cs, ps)
      = Some (r, Some pl', cs', ps') \<and> same_shape cs cs' \<and> (\<forall>a. ps a \<noteq> None \<longrightarrow> ps' a = ps a) \<and> finite (dom ps') \<and>
     (\<exists>p'. ps' pl' = Some p' \<and> new_descriptor p') \<and> (pl' = pl \<or> ps pl' = None) \<and>
     (\<not> wants_lpa env \<longrightarrow> pl' = pl \<and> ps' = ps)"
proof -
  obtain pa where pa: "cs_plugins cs anchor = Some pa" using anchor by auto
  obtain r1 cs1 where d: "discardLPA env fl plugin anchor pa cs = Some (r1, cs1)" "same_shape cs cs1"
    using discardLPA_effect [OF pa] by blast
  have anchor1: "cs_plugins cs1 anchor \<noteq> None"
    using same_shape_extends [OF d(2)] anchor by (auto simp: extends_def)
  obtain r2 cs2 where a: "addToLPA env anchor moduleName cs1 = Some (r2, cs2)" "same_shape cs1 cs2"
    using addToLPA_effect [OF anchor1] by blast
  have "cs_plugins cs2 anchor \<noteq> None"
    using same_shape_extends [OF a(2)] anchor1 by (auto simp: extends_def)
  then obtain pa2 where pa2: "cs_plugins cs2 anchor = Some pa2" by auto
  let ?ep = "lp_entryPointAddr (pa_moduleInfo pa2) AND 0xFFFFFFFE"
  have s2: "same_shape cs cs2" using d(2) a(2) by (rule same_shape_trans)
  consider "r1 \<noteq> 0 \<or> \<not> has_flag (p_flags plugin) ZIS_PLUGIN_FLAG_LPA"
    | "r1 = 0" "has_flag (p_flags plugin) ZIS_PLUGIN_FLAG_LPA" "r2 \<noteq> 0"
    | "r1 = 0" "has_flag (p_flags plugin) ZIS_PLUGIN_FLAG_LPA" "r2 = 0" by blast
  then show ?thesis
  proof cases
    case 1
    then show ?thesis using pl(1,2) pa d fin by (auto simp: relocatePluginToLPAIfNeeded_def)
  next
    case 2
    then show ?thesis using pl(1,2) pa d a s2 fin by (auto simp: relocatePluginToLPAIfNeeded_def)
  next
    case 3
    then have lpa: "wants_lpa env" using pl(3) by blast
    then obtain pl' ps' where e: "pluginDescriptor env ?ep ps = (Some (Some pl'), ps')"
      using env(2) fin unfolding descriptors_total_def by (metis prod.collapse)
    note m = env(1) [unfolded modules_ok_def, rule_format, OF e]
    from 3 have "relocatePluginToLPAIfNeeded env fl pl anchor moduleName (cs, ps) = Some (0, Some pl', cs2, ps')"
      using pl(1) pa d a pa2 e by (simp add: relocatePluginToLPAIfNeeded_def)
    with m s2 fin lpa show ?thesis by blast
  qed
qed

lemma obtainPluginAnchor_effect:
  assumes reg: "registry env cs v pas svcs" and tab: "has_table cs v" and fresh: "alloc_fresh env"
  shows "\<exists>r cs' pas' svcs'. obtainPluginAnchor env v plugin cs = Some (r, cs') \<and>
     registry env cs' v pas' svcs' \<and> has_table cs' v \<and> extends cs cs' \<and> (\<forall>a. r = Some a \<longrightarrow> a \<in> set pas')"
proof -
  obtain sv where sv: "cs_servers cs v = Some sv" and ch: "chain (pluginNext cs) (sv_firstPlugin sv) pas"
    using reg by (auto simp: registry_def server_shape_def chains_ok_def)
  let ?P = "\<lambda>pa. p_name plugin = pa_name pa \<and> pa_version pa \<le> ZIS_PLUGIN_ANCHOR_VERSION"
  let ?sz = "sizeof_ZISPluginAnchor (sizeof_LPMEA env)"
  have fd: "findPluginAnchor v (p_name plugin) cs = Some (find (\<lambda>a. ?P (the (cs_plugins cs a))) pas)"
    using sv chain_find_list [of pa_next "cs_plugins cs" "sv_firstPlugin sv" pas ?P] ch
    by (simp add: findPluginAnchor_def pluginNext_def [abs_def])
  show ?thesis
  proof (cases "find (\<lambda>a. ?P (the (cs_plugins cs a))) pas")
    case (Some a)
    then have "obtainPluginAnchor env v plugin cs = Some (Some a, cs)" "a \<in> set pas"
      using fd by (auto simp: obtainPluginAnchor_def dest: find_Some_mem)
    with reg tab show ?thesis by blast
  next
    case None
    show ?thesis
    proof (cases "cmAlloc env cs ?sz")
      case None
      then have "obtainPluginAnchor env v plugin cs = Some (None, cs)"
        using fd \<open>find _ pas = None\<close> by (simp add: obtainPluginAnchor_def zisCreatePluginAnchor_def)
      with reg tab show ?thesis by blast
    next
      case (Some a)
      then have fr: "\<not> used cs a" using fresh by (auto simp: alloc_fresh_def)
      let ?pa = "newPluginAnchor ?sz plugin"
      define cs' where "cs' = cs\<lparr>cs_plugins := (cs_plugins cs)(a \<mapsto> ?pa\<lparr>pa_next := sv_firstPlugin sv\<rparr>),
                       cs_servers := (cs_servers cs)(v \<mapsto> sv\<lparr>sv_firstPlugin := Some a\<rparr>)\<rparr>"
      have ob: "obtainPluginAnchor env v plugin cs = Some (Some a, cs')"
        using fd \<open>find _ pas = None\<close> Some sv
        by (simp add: obtainPluginAnchor_def zisCreatePluginAnchor_def modPluginAnchor_def modServer_def cs'_def)
      have "pa_firstService ?pa = None" by (simp add: newPluginAnchor_def)
      note reg' = link_new_plugin [OF reg fr this sv cs'_def]
      have "has_table cs' v" using tab sv by (auto simp: has_table_def server_shape_def cs'_def)
      moreover have "extends cs cs'" by (auto simp: extends_def cs'_def)
      ultimately show ?thesis using ob reg' by fastforce
    qed
  qed
qed

lemma addPlugin_effect:
  assumes "ss_plugins st pl = Some p"
  shows "addPlugin (Some pl) st =
     Some (st\<lparr>ss_plugins := (ss_plugins st)(pl \<mapsto> p\<lparr>p_next := cx_firstPlugin (ss_context st)\<rparr>),
              ss_context := (ss_context st)\<lparr>cx_firstPlugin := Some pl\<rparr>\<rparr>)"
  using assms by (simp add: addPlugin_def modPlugin_def)

text \<open>What changes of the context and of the older descriptors when plug-ins are deployed.\<close>

definition deployed :: "('m, 's) ServerState \<Rightarrow> ('m, 's) ServerState \<Rightarrow> addr list \<Rightarrow> bool" where
  "deployed st st' ds \<longleftrightarrow>
     (\<exists>f. ss_context st' = (ss_context st)\<lparr>cx_firstPlugin := f\<rparr>) \<and>
     ss_userServerAnchor st' = ss_userServerAnchor st \<and>
     (\<forall>d \<in> set ds. ident (ss_plugins st') d = ident (ss_plugins st) d)"

lemma deployed_refl [intro]: "deployed st st ds"
  by (auto simp: deployed_def intro!: exI [of _ "cx_firstPlugin (ss_context st)"])

lemma chain_to_notin:
  "chain (descriptorNext ps) p ds \<Longrightarrow> ps a = None \<Longrightarrow> a \<notin> set ds"
  using chain_valid [of "descriptorNext ps" p ds a] by (auto simp: descriptorNext_def)

text \<open>Linking the descriptor \<open>pl\<close> in front of the chain.\<close>

lemma addPlugin_inv:
  assumes inv: "server_inv env v ds pas svcs st" and p: "ss_plugins st pl = Some p" "descriptor_ok (ss_common st) p"
    and notin: "pl \<notin> set ds"
  obtains st' where "addPlugin (Some pl) st = Some st'" and "server_inv env v (pl # ds) pas svcs st'"
    and "deployed st st' ds" and "ident (ss_plugins st') pl = ident (ss_plugins st) pl"
proof -
  let ?p' = "p\<lparr>p_next := cx_firstPlugin (ss_context st)\<rparr>"
  let ?ps' = "(ss_plugins st)(pl \<mapsto> p\<lparr>p_next := cx_firstPlugin (ss_context st)\<rparr>)"
  let ?st' = "st\<lparr>ss_plugins := ?ps', ss_context := (ss_context st)\<lparr>cx_firstPlugin := Some pl\<rparr>\<rparr>"
  have other: "?ps' d = ss_plugins st d" if "d \<in> set ds" for d using notin that by auto
  have "chain (descriptorNext ?ps') (cx_firstPlugin (ss_context st)) ds"
    using inv descriptorNext_cong [of ds ?ps' "ss_plugins st"] other by (simp add: server_inv_def)
  then have "chain (descriptorNext ?ps') (Some pl) (pl # ds)"
    by (intro chain_push) (simp_all add: descriptorNext_def)
  moreover have "descriptor_ok (ss_common st) ?p'" using p(2) by (simp add: descriptor_ok_def plugin_wf_def)
  ultimately have "server_inv env v (pl # ds) pas svcs ?st'" using inv other by (auto simp: server_inv_def)
  moreover have "deployed st ?st' ds" using other by (auto simp: deployed_def ident_def)
  ultimately show thesis using that addPlugin_effect [OF p(1)] p(1) by (auto simp: ident_def)
qed

lemma installPlugin_inv:
  assumes env: "env_ok env" and inv: "server_inv env v ds pas svcs st"
    and pl: "ss_plugins st pl = Some plugin" "new_descriptor plugin" "pl \<notin> set ds"
      "has_flag (p_flags plugin) ZIS_PLUGIN_FLAG_LPA \<Longrightarrow> wants_lpa env"
  shows "\<exists>r st' ds' pas' svcs'. installPlugin env pl moduleName st = Some (r, st') \<and>
     server_inv env v ds' pas' svcs' st' \<and> deployed st st' ds \<and>
     (ds' = ds \<or> (\<exists>pl'. ds' = pl' # ds \<and>
        (\<not> wants_lpa env \<longrightarrow> ident (ss_plugins st') pl' = ident (ss_plugins st) pl)))"
proof -
  have laws: "map_laws env" "alloc_fresh env" "modules_ok env" "descriptors_total env"
    using env by (auto simp: env_ok_def)
  let ?cs = "ss_common st" and ?ps = "ss_plugins st" and ?fl = "cx_cmsFlags (ss_context st)"
  have cx: "cx_zisAnchor (ss_context st) = Some v" and reg: "registry env ?cs v pas svcs" and tab: "has_table ?cs v"
    and ch: "chain (descriptorNext ?ps) (cx_firstPlugin (ss_context st)) ds"
    and oks: "\<forall>d \<in> set ds. \<exists>p. ?ps d = Some p \<and> descriptor_ok ?cs p" and fin: "finite (dom ?ps)"
    using inv by (auto simp: server_inv_def)
  obtain r1 cs1 pas1 svcs1 where ob: "obtainPluginAnchor env v plugin ?cs = Some (r1, cs1)"
    "registry env cs1 v pas1 svcs1" "has_table cs1 v" "extends ?cs cs1" "\<forall>a. r1 = Some a \<longrightarrow> a \<in> set pas1"
    using obtainPluginAnchor_effect [OF reg tab laws(2)] by blast
  have inv_cs: "server_inv env v ds pas' svcs' (st\<lparr>ss_common := cs', ss_plugins := ps'\<rparr>)"
    if "registry env cs' v pas' svcs'" "has_table cs' v" "extends ?cs cs'" "\<forall>a. ?ps a \<noteq> None \<longrightarrow> ps' a = ?ps a"
      "finite (dom ps')"
    for cs' ps' pas' svcs'
  proof -
    have same: "ps' d = ?ps d" if "d \<in> set ds" for d
      using oks that \<open>\<forall>a. ?ps a \<noteq> None \<longrightarrow> ps' a = ?ps a\<close> by force
    then have "chain (descriptorNext ps') (cx_firstPlugin (ss_context st)) ds"
      using ch descriptorNext_cong [of ds ps' ?ps] by simp
    moreover have "\<forall>d \<in> set ds. \<exists>p. ps' d = Some p \<and> descriptor_ok cs' p"
      using oks same descriptor_ok_extends [OF _ that(3)] by metis
    ultimately show ?thesis using that cx by (simp add: server_inv_def)
  qed
  show ?thesis
  proof (cases r1)
    case None
    let ?st = "st\<lparr>ss_common := cs1\<rparr>"
    have "installPlugin env pl moduleName st = Some (RC_ZIS_ERROR, ?st)"
      using cx pl ob None by (simp add: installPlugin_def)
    moreover have "server_inv env v ds pas1 svcs1 ?st" using inv_cs [OF ob(2-4), of ?ps] fin by simp
    moreover have "deployed st ?st ds" by (auto simp: deployed_def intro!: exI [of _ "cx_firstPlugin (ss_context st)"])
    ultimately show ?thesis by blast
  next
    case (Some anchor)
    then have anchor: "anchor \<in> set pas1" using ob(5) by simp
    obtain r2 pl' cs2 ps2 where re: "relocatePluginToLPAIfNeeded env ?fl pl anchor moduleName (cs1, ?ps)
        = Some (r2, Some pl', cs2, ps2)" and s2: "same_shape cs1 cs2"
      and frame: "\<forall>a. ?ps a \<noteq> None \<longrightarrow> ps2 a = ?ps a" and fin2: "finite (dom ps2)"
      and new: "\<exists>p'. ps2 pl' = Some p' \<and> new_descriptor p'" and which: "pl' = pl \<or> ?ps pl' = None"
      and stays: "\<not> wants_lpa env \<longrightarrow> pl' = pl \<and> ps2 = ?ps"
      using relocate_effect [where ps = ?ps and pl = pl and fl = ?fl and moduleName = moduleName, OF laws(3,4) pl(1,2,4) registry_plugin_stored [OF ob(2) anchor] fin] by blast
    have reg2: "registry env cs2 v pas1 svcs1" "has_table cs2 v" "extends ?cs cs2"
      using same_shape_keeps [OF s2] ob(2-4) by (auto intro: extends_trans)
    let ?st1 = "st\<lparr>ss_common := cs2, ss_plugins := ps2\<rparr>"
    have inv1: "server_inv env v ds pas1 svcs1 ?st1" by (rule inv_cs [OF reg2 frame fin2])
    have id1: "\<forall>d \<in> set ds. ident ps2 d = ident ?ps d" using oks frame by (force simp: ident_def)
    have dep1: "deployed st ?st1 ds" using id1
      by (auto simp: deployed_def intro!: exI [of _ "cx_firstPlugin (ss_context st)"])
    show ?thesis
    proof (cases "r2 = RC_ZIS_OK")
      case False
      then have "installPlugin env pl moduleName st = Some (r2, ?st1)"
        using cx pl ob(1) Some re by (simp add: installPlugin_def)
      with inv1 dep1 show ?thesis by blast
    next
      case True
      obtain p' where p': "ps2 pl' = Some p'" "new_descriptor p'" using new by blast
      have notin: "pl' \<notin> set ds" using which pl(3) chain_to_notin [OF ch] by auto
      have p1: "ss_plugins ?st1 pl' = Some p'" and ok1: "descriptor_ok (ss_common ?st1) p'"
        using p' new_descriptor_ok by auto
      obtain st2 where st2: "addPlugin (Some pl') ?st1 = Some st2" "server_inv env v (pl' # ds) pas1 svcs1 st2"
        "deployed ?st1 st2 ds" "ident (ss_plugins st2) pl' = ident (ss_plugins ?st1) pl'"
        using addPlugin_inv [OF inv1 p1 ok1 notin] by blast
      obtain r3 st3 svcs3 where st3: "startPlugin env v pl' anchor st2 = Some (r3, st3)"
        "server_inv env v (pl' # ds) pas1 svcs3 st3" "ss_context st3 = ss_context st2"
        "ss_userServerAnchor st3 = ss_userServerAnchor st2" "ident (ss_plugins st3) = ident (ss_plugins st2)"
        using startPlugin_inv [OF laws(1,2) st2(2) anchor] by blast
      have "installPlugin env pl moduleName st = Some (r3, st3)"
        using cx pl ob(1) Some re True st2(1) st3(1) by (simp add: installPlugin_def)
      moreover have "deployed st st3 ds"
        using st2(3) st3(3-5) id1 by (auto simp: deployed_def)
      moreover have "\<not> wants_lpa env \<Longrightarrow> ident (ss_plugins st3) pl' = ident ?ps pl"
        using stays st2(4) st3(5) by simp
      ultimately show ?thesis using st3(2) by blast
    qed
  qed
qed

section \<open>Deploying\<close>

definition unique_plugins :: "PluginStore \<Rightarrow> addr list \<Rightarrow> bool" where
  "unique_plugins ps ds \<longleftrightarrow>
     distinct (map (\<lambda>d. map_option fst (ident ps d)) ds) \<and> distinct (map (\<lambda>d. map_option snd (ident ps d)) ds)"

lemma unique_plugins_cong:
  "(\<And>d. d \<in> set ds \<Longrightarrow> ident ps' d = ident ps d) \<Longrightarrow> unique_plugins ps' ds = unique_plugins ps ds"
proof -
  assume same: "\<And>d. d \<in> set ds \<Longrightarrow> ident ps' d = ident ps d"
  have "map (\<lambda>d. map_option f (ident ps' d)) ds = map (\<lambda>d. map_option f (ident ps d)) ds" for f :: "_ \<Rightarrow> string"
    using same by (intro map_cong) auto
  then show ?thesis unfolding unique_plugins_def by presburger
qed

lemma tryLoadingPlugin_effect:
  assumes "modules_ok env" and "tryLoadingPlugin env moduleName ps = (r, ps')"
  shows "(\<forall>a. ps a \<noteq> None \<longrightarrow> ps' a = ps a) \<and> (finite (dom ps) \<longrightarrow> finite (dom ps')) \<and>
     (\<forall>pl. r = Some pl \<longrightarrow> ps pl = None \<and>
        (\<exists>p. ps' pl = Some p \<and> new_descriptor p \<and> (has_flag (p_flags p) ZIS_PLUGIN_FLAG_LPA \<longrightarrow> wants_lpa env)))"
proof (cases "loadModule env moduleName")
  case None
  with assms(2) show ?thesis by (simp add: tryLoadingPlugin_def)
next
  case (Some ep)
  obtain d ps1 where d: "pluginDescriptor env (ep AND 0xFFFFFFFE) ps = (d, ps1)" by fastforce
  note m = assms(1) [unfolded modules_ok_def, rule_format, OF d]
  moreover have "wants_lpa env" if "d = Some (Some pl)" "ps1 pl = Some p" "has_flag (p_flags p) ZIS_PLUGIN_FLAG_LPA" for pl p
    unfolding wants_lpa_def using d that by blast
  ultimately show ?thesis
    using assms(2) Some d by (auto simp: tryLoadingPlugin_def split: if_splits option.splits)
qed

lemma validateServices_loop_total:
  "\<forall>i \<in> set is. i < length ss \<Longrightarrow> \<exists>u. validateServices_loop ss is = Some u"
  by (induction "is") auto

lemma isPluginValid_total: "plugin_wf p \<Longrightarrow> \<exists>b. isPluginValid env p = Some b"
  using validateServices_loop_total [of "[0..<unat (p_serviceCount p)]" "p_services p"]
  by (auto simp: isPluginValid_def plugin_wf_def)

lemma isDuplicatePlugin_iff:
  assumes ch: "chain (descriptorNext ps) first ds"
  shows "isDuplicatePlugin first p ps =
     Some (\<exists>d \<in> set ds. map_option fst (ident ps d) = Some (p_name p) \<or>
                         map_option snd (ident ps d) = Some (p_nickname p))"
proof -
  have f: "chain_find ps p_next P first = Some (find (\<lambda>a. P (the (ps a))) ds)" for P
    using chain_find_list [of p_next ps first ds P] ch by (simp add: descriptorNext_def [abs_def])
  have stored: "ps d \<noteq> None" if "d \<in> set ds" for d
    using chain_valid [OF ch that] by (simp add: descriptorNext_def)
  have n: "p_name (the (ps d)) = p_name p \<longleftrightarrow> map_option fst (ident ps d) = Some (p_name p)"
    "p_nickname (the (ps d)) = p_nickname p \<longleftrightarrow> map_option snd (ident ps d) = Some (p_nickname p)"
    if "d \<in> set ds" for d
    using stored [OF that] by (auto simp: ident_def)
  have fi: "(find P ds = None) = (\<not> (\<exists>d \<in> set ds. P d))" for P by (auto simp: find_None_iff)
  have "isDuplicatePlugin first p ps =
      Some (\<not> (find (\<lambda>a. p_name (the (ps a)) = p_name p) ds = None \<and>
              find (\<lambda>a. p_nickname (the (ps a)) = p_nickname p) ds = None))"
    by (auto simp: isDuplicatePlugin_def getPluginByName_def getPluginByNickname_def f split: option.splits)
  then show ?thesis unfolding fi using n by auto
qed

lemma server_inv_plugins:
  assumes inv: "server_inv env v ds pas svcs st" and frame: "\<forall>a. ss_plugins st a \<noteq> None \<longrightarrow> ps' a = ss_plugins st a"
    and fin: "finite (dom (ss_plugins st)) \<longrightarrow> finite (dom ps')"
  shows "server_inv env v ds pas svcs (st\<lparr>ss_plugins := ps'\<rparr>)" and "deployed st (st\<lparr>ss_plugins := ps'\<rparr>) ds"
proof -
  have same: "ps' d = ss_plugins st d" if "d \<in> set ds" for d
    using inv frame that by (force simp: server_inv_def)
  then show "server_inv env v ds pas svcs (st\<lparr>ss_plugins := ps'\<rparr>)"
    using inv fin descriptorNext_cong [of ds ps' "ss_plugins st"] by (auto simp: server_inv_def)
  show "deployed st (st\<lparr>ss_plugins := ps'\<rparr>) ds" using same
    by (auto simp: deployed_def ident_def intro!: exI [of _ "cx_firstPlugin (ss_context st)"])
qed

lemma deployed_trans:
  "deployed st st1 ds \<Longrightarrow> deployed st1 st2 ds' \<Longrightarrow> set ds \<subseteq> set ds' \<Longrightarrow> deployed st st2 ds"
  by (auto simp: deployed_def)

lemma deployModule_inv:
  assumes env: "env_ok env" and inv: "server_inv env v ds pas svcs st"
  shows "\<exists>st' new pas' svcs'. deployModule env moduleName st = Some st' \<and>
     server_inv env v (new @ ds) pas' svcs' st' \<and> deployed st st' ds \<and>
     (\<not> wants_lpa env \<longrightarrow> unique_plugins (ss_plugins st) ds \<longrightarrow> unique_plugins (ss_plugins st') (new @ ds))"
proof -
  obtain r ps1 where t: "tryLoadingPlugin env moduleName (ss_plugins st) = (r, ps1)" by fastforce
  have "modules_ok env" using env by (simp add: env_ok_def)
  note tl = tryLoadingPlugin_effect [OF this t]
  let ?st1 = "st\<lparr>ss_plugins := ps1\<rparr>"
  note inv1 = server_inv_plugins [OF inv conjunct1 [OF tl] conjunct1 [OF conjunct2 [OF tl]]]
  have id1: "\<forall>d \<in> set ds. ident ps1 d = ident (ss_plugins st) d" using inv1(2) by (simp add: deployed_def)
  have u1: "unique_plugins ps1 ds = unique_plugins (ss_plugins st) ds"
    using id1 by (intro unique_plugins_cong) auto
  have skip: ?thesis if "deployModule env moduleName st = Some ?st1"
    using that inv1 u1
    by (rule_tac x = ?st1 in exI, rule_tac x = "[]" in exI, rule_tac x = pas in exI, rule_tac x = svcs in exI) simp
  show ?thesis
  proof (cases r)
    case None
    then show ?thesis using t by (intro skip) (simp add: deployModule_def)
  next
    case (Some pl)
    with tl obtain p where p: "ps1 pl = Some p" "new_descriptor p" "ss_plugins st pl = None"
      "has_flag (p_flags p) ZIS_PLUGIN_FLAG_LPA \<Longrightarrow> wants_lpa env" by auto
    obtain valid where valid: "isPluginValid env p = Some valid"
      using isPluginValid_total [of p env] p(2) by (auto simp: new_descriptor_def)
    have ch: "chain (descriptorNext (ss_plugins st)) (cx_firstPlugin (ss_context st)) ds"
      and ch1: "chain (descriptorNext ps1) (cx_firstPlugin (ss_context st)) ds"
      using inv inv1 by (simp_all add: server_inv_def)
    define dup where "dup = (\<exists>d \<in> set ds. map_option fst (ident ps1 d) = Some (p_name p) \<or>
                         map_option snd (ident ps1 d) = Some (p_nickname p))"
    have d: "isDuplicatePlugin (cx_firstPlugin (ss_context st)) p ps1 = Some dup"
      using isDuplicatePlugin_iff [OF ch1, of p] by (simp add: dup_def)
    show ?thesis
    proof (cases "valid \<and> \<not> dup")
      case False
      then show ?thesis using t Some p valid d by (intro skip) (auto simp: deployModule_def Let_def split: bool.splits)
    next
      case True
      have notin: "pl \<notin> set ds" using chain_to_notin [OF ch p(3)] .
      have p1: "ss_plugins ?st1 pl = Some p" using p(1) by simp
      obtain r2 st2 ds2 pas2 svcs2 where ins: "installPlugin env pl moduleName ?st1 = Some (r2, st2)"
        "server_inv env v ds2 pas2 svcs2 st2" "deployed ?st1 st2 ds"
        and cases: "ds2 = ds \<or> (\<exists>pl'. ds2 = pl' # ds \<and>
          (\<not> wants_lpa env \<longrightarrow> ident (ss_plugins st2) pl' = ident (ss_plugins ?st1) pl))"
        using installPlugin_inv [OF env inv1(1) p1 p(2) notin p(4)] by blast
      have dm: "deployModule env moduleName st = Some st2"
        using t Some p valid d True ins(1) by (simp add: deployModule_def)
      have dep: "deployed st st2 ds" by (rule deployed_trans [OF inv1(2) ins(3)]) simp
      have id2: "\<forall>d \<in> set ds. ident (ss_plugins st2) d = ident ps1 d" using ins(3) by (simp add: deployed_def)
      then have u2: "unique_plugins (ss_plugins st2) ds = unique_plugins ps1 ds"
        by (intro unique_plugins_cong) auto
      from cases show ?thesis
      proof
        assume "ds2 = ds"
        with dm ins(2) dep u1 u2 show ?thesis 
          by (rule_tac x = st2 in exI, rule_tac x = "[]" in exI, rule_tac x = pas2 in exI, rule_tac x = svcs2 in exI) auto
      next
        assume "\<exists>pl'. ds2 = pl' # ds \<and>
          (\<not> wants_lpa env \<longrightarrow> ident (ss_plugins st2) pl' = ident (ss_plugins ?st1) pl)"
        then obtain pl' where pl': "ds2 = pl' # ds"
          "\<not> wants_lpa env \<longrightarrow> ident (ss_plugins st2) pl' = ident ps1 pl" by auto
        have "unique_plugins (ss_plugins st2) (pl' # ds)"
          if "\<not> wants_lpa env" "unique_plugins (ss_plugins st) ds"
        proof -
          have "ident (ss_plugins st2) pl' = Some (p_name p, p_nickname p)"
            using pl'(2) that(1) p(1) by (simp add: ident_def)
          moreover have "Some (p_name p) \<notin> (\<lambda>d. map_option fst (ident (ss_plugins st2) d)) ` set ds"
            "Some (p_nickname p) \<notin> (\<lambda>d. map_option snd (ident (ss_plugins st2) d)) ` set ds"
            using True id2 unfolding dup_def by force+
          ultimately show ?thesis using that u1 u2 by (simp add: unique_plugins_def)
        qed
        with dm ins(2) dep pl'(1) show ?thesis 
          by (rule_tac x = st2 in exI, rule_tac x = "[pl']" in exI, rule_tac x = pas2 in exI, rule_tac x = svcs2 in exI) auto
      qed
    qed
  qed
qed

text \<open>The modules a round deploys, in the order of the parameters.\<close>

definition plugin_modules :: "string \<Rightarrow> bool \<Rightarrow> (string \<times> string) list \<Rightarrow> string list" where
  "plugin_modules dynlink dyn al =
     map (\<lambda>(k, v). space_pad 8 v)
       (filter (\<lambda>(k, v). take (length plugin_prefix) k = plugin_prefix \<and> isPluginSuitable dynlink v dyn \<and>
                       length v \<le> 8) al)"

lemma visitor_fold_None: "fold (\<lambda>(k, v). pluginVisitor env dyn (Some k) (Some v)) al None = None"
  by (induction al) (auto simp: pluginVisitor_def)

lemma deploy_modules_inv:
  assumes env: "env_ok env" and "server_inv env v ds pas svcs st"
  shows "\<exists>st' new pas' svcs'. fold_opt (deployModule env) ms st = Some st' \<and>
     server_inv env v (new @ ds) pas' svcs' st' \<and> deployed st st' ds \<and>
     (\<not> wants_lpa env \<longrightarrow> unique_plugins (ss_plugins st) ds \<longrightarrow> unique_plugins (ss_plugins st') (new @ ds))"
  using assms(2)
proof (induction ms arbitrary: st ds pas svcs)
  case Nil
  then show ?case
    by (rule_tac x = st in exI, rule_tac x = "[]" in exI, rule_tac x = pas in exI, rule_tac x = svcs in exI) auto
next
  case (Cons m ms)
  obtain st1 new1 pas1 svcs1 where d1: "deployModule env m st = Some st1" "server_inv env v (new1 @ ds) pas1 svcs1 st1"
    "deployed st st1 ds"
    "\<not> wants_lpa env \<longrightarrow> unique_plugins (ss_plugins st) ds \<longrightarrow> unique_plugins (ss_plugins st1) (new1 @ ds)"
    using deployModule_inv [OF env Cons.prems, of m] by blast
  obtain st2 new2 pas2 svcs2 where d2: "fold_opt (deployModule env) ms st1 = Some st2"
    "server_inv env v (new2 @ new1 @ ds) pas2 svcs2 st2" "deployed st1 st2 (new1 @ ds)"
    "\<not> wants_lpa env \<longrightarrow> unique_plugins (ss_plugins st1) (new1 @ ds) \<longrightarrow>
       unique_plugins (ss_plugins st2) (new2 @ new1 @ ds)"
    using Cons.IH [OF d1(2)] by blast
  have "deployed st st2 ds" by (rule deployed_trans [OF d1(3) d2(3)]) auto
  with d1 d2 show ?case 
    by (rule_tac x = st2 in exI, rule_tac x = "new2 @ new1" in exI, rule_tac x = pas2 in exI, rule_tac x = svcs2 in exI) auto
qed

lemma deployRound_modules:
  assumes env: "env_ok env" and "server_inv env v ds pas svcs st"
  shows "fold (\<lambda>(k, v). pluginVisitor env dyn (Some k) (Some v)) al (Some st) =
         fold_opt (deployModule env) (plugin_modules (cx_dynlinkModuleName (ss_context st)) dyn al) st"
  using assms(2)
proof (induction al arbitrary: st ds pas svcs)
  case Nil
  then show ?case by (simp add: plugin_modules_def)
next
  case (Cons kv al)
  obtain k m where kv: "kv = (k, m)" by fastforce
  let ?dl = "cx_dynlinkModuleName (ss_context st)"
  let ?take = "take (length plugin_prefix) k = plugin_prefix \<and> isPluginSuitable ?dl m dyn \<and> length m \<le> 8"
  show ?case
  proof (cases ?take)
    case False
    then have "pluginVisitor env dyn (Some k) (Some m) (Some st) = Some st"
      by (auto simp: pluginVisitor_def visitPluginParm_def)
    with False kv Cons.IH [OF Cons.prems] show ?thesis by (auto simp: plugin_modules_def)
  next
    case True
    obtain st1 new1 pas1 svcs1 where d1: "deployModule env (space_pad 8 m) st = Some st1"
      "server_inv env v (new1 @ ds) pas1 svcs1 st1" "deployed st st1 ds"
      using deployModule_inv [OF env Cons.prems, of "space_pad 8 m"] by blast
    have "cx_dynlinkModuleName (ss_context st1) = ?dl" using d1(3) by (auto simp: deployed_def)
    with True kv d1(1) Cons.IH [OF d1(2)] show ?thesis
      by (simp add: pluginVisitor_def visitPluginParm_def plugin_modules_def)
  qed
qed

text \<open>The whole deployment is one sequence of modules: the dynamic linkage plug-in comes first.\<close>

lemma deployPlugins_modules:
  assumes env: "env_ok env" and inv: "server_inv env v ds pas svcs st"
    and parms: "cx_parms (ss_context st) = Some parms" "parm_wf parms"
  shows "deployPlugins env st =
     fold_opt (deployModule env)
       (plugin_modules (cx_dynlinkModuleName (ss_context st)) True (parm_alist parms) @
        plugin_modules (cx_dynlinkModuleName (ss_context st)) False (parm_alist parms)) st"
proof -
  let ?dl = "cx_dynlinkModuleName (ss_context st)" and ?al = "parm_alist parms"
  have round: "deployRound env dyn parms st' =
      fold_opt (deployModule env) (plugin_modules (cx_dynlinkModuleName (ss_context st')) dyn ?al) st'"
    if "server_inv env v ds' pas' svcs' st'" for dyn st' ds' pas' svcs'
    using zisIterateParms_wf [OF parms(2), of "pluginVisitor env dyn" "Some st'"] deployRound_modules [OF env that]
    by (simp add: deployRound_def)
  obtain st1 new1 pas1 svcs1 where r1: "fold_opt (deployModule env) (plugin_modules ?dl True ?al) st = Some st1"
    "server_inv env v (new1 @ ds) pas1 svcs1 st1" "deployed st st1 ds"
    using deploy_modules_inv [OF env inv] by blast
  have "cx_dynlinkModuleName (ss_context st1) = ?dl" using r1(3) by (auto simp: deployed_def)
  with r1 round [OF inv] round [OF r1(2)] parms(1) show ?thesis
    by (simp add: deployPlugins_def fold_opt_append)
qed

section \<open>Start of the server\<close>

definition map_available :: "'m ServerEnv \<Rightarrow> bool" where
  "map_available env \<longleftrightarrow> (\<exists>m. makeCrossMemoryMap env sizeof_ZISServicePath = Some m)"

lemma table_ok_new: "map_laws env \<Longrightarrow> makeCrossMemoryMap env n = Some m \<Longrightarrow> table_ok env cs pas svcs (Some m)"
  unfolding map_laws_def table_ok_def by auto

lemma initServiceTable_registry:
  assumes laws: "map_laws env" "map_available env" and reg: "registry env cs v pas svcs"
  obtains cs' where "initServiceTable env v cs = Some (RC_ZIS_OK, cs')" and "registry env cs' v pas svcs"
    and "has_table cs' v" and "cs_services cs' = cs_services cs"
proof -
  obtain first table where sh: "server_shape cs v = Some (first, table)"
    and ch: "chains_ok cs first pas svcs" and tab: "table_ok env cs pas svcs table"
    using reg by (auto simp: registry_def)
  obtain sv where sv: "cs_servers cs v = Some sv" "sv_firstPlugin sv = first" "sv_serviceTable sv = table"
    using sh by (auto simp: server_shape_def)
  obtain m where m: "makeCrossMemoryMap env sizeof_ZISServicePath = Some m"
    using laws(2) by (auto simp: map_available_def)
  define t where "t = (if table = None \<or> ZIS_DEV_MODE env then m else the table)"
  define cs' where "cs' = cs\<lparr>cs_servers := (cs_servers cs)(v \<mapsto> sv\<lparr>sv_serviceTable := Some t\<rparr>)\<rparr>"
  have "initServiceTable env v cs = Some (RC_ZIS_OK, cs')"
    using sv m by (cases table) (auto simp: initServiceTable_def modServer_def t_def cs'_def Let_def)
  moreover have shape: "server_shape cs' v = Some (first, Some t)" using sv by (simp add: server_shape_def cs'_def)
  moreover have "table_ok env cs pas svcs (Some t)"
    using tab table_ok_new [OF laws(1) m] by (cases table) (auto simp: t_def)
  then have "table_ok env cs' pas svcs (Some t)"
    by (simp add: table_ok_def cs'_def service_shape_def)
  moreover have "chains_ok cs' first pas svcs" using ch chains_server_irrelevant [of cs' cs] by (simp add: cs'_def)
  ultimately show thesis using that [of cs'] by (auto simp: registry_def has_table_def cs'_def)
qed

text \<open>
  What the next server finds: nothing, or a server anchor with an intact registry in which no
  service is active.
\<close>

definition down_inv :: "'m ServerEnv \<Rightarrow> ('m, 's) ServerState \<Rightarrow> bool" where
  "down_inv env st \<longleftrightarrow>
     (case ss_userServerAnchor st of
        None \<Rightarrow> True
      | Some v \<Rightarrow>
          (\<exists>pas svcs. registry env (ss_common st) v pas svcs \<and>
             (\<forall>p \<in> set pas. \<forall>a \<in> set (svcs p). inactive (ss_common st) a)) \<and>
          (ZIS_DEV_MODE env \<or> has_table (ss_common st) v))"

definition up_inv :: "'m ServerEnv \<Rightarrow> ('m, 's) ServerState \<Rightarrow> bool" where
  "up_inv env st \<longleftrightarrow>
     (\<exists>v ds pas svcs. server_inv env v ds pas svcs st \<and> ss_userServerAnchor st = Some v \<and>
        (\<not> wants_lpa env \<longrightarrow> unique_plugins (ss_plugins st) ds))"

definition fresh_context :: "'s ZISContext \<Rightarrow> bool" where
  "fresh_context c \<longleftrightarrow> cx_firstPlugin c = None \<and> (\<exists>parms. cx_parms c = Some parms \<and> parm_wf parms)"

lemma createZISServerAnchor_registry:
  assumes "\<not> used cs a"
  shows "registry env (snd (createZISServerAnchor (Some a) cs)) a [] svcs"
  by (simp add: createZISServerAnchor_def registry_def server_shape_def chains_ok_def table_ok_def)

lemma initGlobalResources_effect:
  assumes laws: "map_laws env" "alloc_fresh env" "map_available env" and inv: "down_inv env st"
  shows "(\<exists>st'. initGlobalResources env st = Some (RC_ZIS_ERROR, st') \<and> st' = st \<and> ss_userServerAnchor st = None) \<or>
     (\<exists>st' v pas svcs. initGlobalResources env st = Some (RC_ZIS_OK, st') \<and>
        registry env (ss_common st') v pas svcs \<and> has_table (ss_common st') v \<and>
        ss_userServerAnchor st' = Some v \<and> ss_context st' = (ss_context st)\<lparr>cx_zisAnchor := Some v\<rparr> \<and>
        ss_plugins st' = ss_plugins st)"
proof (cases "ss_userServerAnchor st")
  case None
  show ?thesis
  proof (cases "cmAlloc env (ss_common st) sizeof_ZISServerAnchor")
    case None
    then show ?thesis using \<open>ss_userServerAnchor st = None\<close>
      by (simp add: initGlobalResources_def createZISServerAnchor_def)
  next
    case (Some a)
    let ?cs = "snd (createZISServerAnchor (Some a) (ss_common st))"
    have "registry env ?cs a [] (\<lambda>_. [])"
      by (rule createZISServerAnchor_registry) (use laws(2) Some in \<open>auto simp: alloc_fresh_def\<close>)
    then obtain cs' where "initServiceTable env a ?cs = Some (RC_ZIS_OK, cs')"
      "registry env cs' a [] (\<lambda>_. [])" "has_table cs' a"
      using initServiceTable_registry [OF laws(1,3)] by blast
    with Some \<open>ss_userServerAnchor st = None\<close> show ?thesis
      by (intro disjI2) (auto simp: initGlobalResources_def createZISServerAnchor_def)
  qed
next
  case (Some v)
  then obtain pas svcs where reg: "registry env (ss_common st) v pas svcs" using inv by (auto simp: down_inv_def)
  let ?f = "\<lambda>sv. enableVersionedContext (enableDynLink sv)"
  obtain sv where "cs_servers (ss_common st) v = Some sv" using reg by (auto simp: registry_def server_shape_def)
  then obtain cs1 where m: "modServer v ?f (ss_common st) = Some cs1" by (simp add: modServer_def)
  have "same_shape (ss_common st) cs1"
    using m by (rule modServer_shape) (simp_all add: enableVersionedContext_def enableDynLink_def)
  note reg1 = same_shape_keeps(1) [OF this reg]
  obtain cs2 where "initServiceTable env v cs1 = Some (RC_ZIS_OK, cs2)"
      "registry env cs2 v pas svcs" "has_table cs2 v"
    using initServiceTable_registry [OF laws(1,3) reg1] by blast
  with m Some show ?thesis by (intro disjI2) (auto simp: initGlobalResources_def)
qed

lemma initServer_inv:
  assumes env: "env_ok env" "map_available env" and inv: "down_inv env st"
    and cx: "fresh_context (ss_context st)" and fin: "finite (dom (ss_plugins st))"
  shows "\<exists>r st'. initServer env ga localServer st = Some (r, st') \<and>
     (if r = RC_ZIS_OK then up_inv env st' else down_inv env st')"
proof -
  let ?st0 = "st\<lparr>ss_context := (ss_context st)\<lparr>cx_cmsGA := Some ga, cx_cmServer := localServer\<rparr>\<rparr>"
  have laws: "map_laws env" "alloc_fresh env" using env(1) by (auto simp: env_ok_def)
  have inv0: "down_inv env ?st0" using inv by (simp add: down_inv_def split: option.splits)
  obtain parms where parms: "cx_parms (ss_context st) = Some parms" "parm_wf parms"
    and none: "cx_firstPlugin (ss_context st) = None" using cx by (auto simp: fresh_context_def)
  from initGlobalResources_effect [OF laws env(2) inv0] show ?thesis
  proof
    assume "\<exists>st'. initGlobalResources env ?st0 = Some (RC_ZIS_ERROR, st') \<and> st' = ?st0 \<and> ss_userServerAnchor ?st0 = None"
    then show ?thesis using inv0 by (auto simp: initServer_def)
  next
    assume "\<exists>st' v pas svcs. initGlobalResources env ?st0 = Some (RC_ZIS_OK, st') \<and>
        registry env (ss_common st') v pas svcs \<and> has_table (ss_common st') v \<and>
        ss_userServerAnchor st' = Some v \<and> ss_context st' = (ss_context ?st0)\<lparr>cx_zisAnchor := Some v\<rparr> \<and>
        ss_plugins st' = ss_plugins ?st0"
    then obtain st1 v pas svcs where g: "initGlobalResources env ?st0 = Some (RC_ZIS_OK, st1)"
      "registry env (ss_common st1) v pas svcs" "has_table (ss_common st1) v" "ss_userServerAnchor st1 = Some v"
      and c1: "ss_context st1 = (ss_context ?st0)\<lparr>cx_zisAnchor := Some v\<rparr>"
      and ps1: "ss_plugins st1 = ss_plugins st" by auto
    obtain cs where cl: "cleanPlugins env (cx_cmsFlags (ss_context st1)) v (ss_common st1) = Some cs"
      "same_shape (ss_common st1) cs"
      using cleanPlugins_effect [OF g(2)] by blast
    let ?st2 = "st1\<lparr>ss_common := cs\<rparr>"
    have inv2: "server_inv env v [] pas svcs ?st2"
      using same_shape_keeps [OF cl(2)] g c1 none fin ps1 by (simp add: server_inv_def)
    have u2: "unique_plugins (ss_plugins ?st2) []" by (simp add: unique_plugins_def)
    have p2: "cx_parms (ss_context ?st2) = Some parms" using c1 parms by simp
    obtain st3 new pas3 svcs3 where d: "deployPlugins env ?st2 = Some st3" "server_inv env v new pas3 svcs3 st3"
      "deployed ?st2 st3 []" "\<not> wants_lpa env \<longrightarrow> unique_plugins (ss_plugins st3) new"
      using deployPlugins_modules [OF env(1) inv2 p2 parms(2)] deploy_modules_inv [OF env(1) inv2] u2
      by (metis append_Nil2)
    have "initServer env ga localServer st = Some (RC_ZIS_OK, st3)"
      using g(1) c1 cl(1) d(1) by (simp add: initServer_def)
    moreover have "up_inv env st3" using d g(4) by (auto simp: up_inv_def deployed_def)
    ultimately show ?thesis by auto
  qed
qed

section \<open>End of the server\<close>

lemma terminateService_effect:
  assumes "i < length ss" and "\<forall>s \<in> set ss. \<forall>a. s_anchor s = Some a \<longrightarrow> cs_services cs a \<noteq> None"
  shows "\<exists>cs'. terminateService env ss i cs = Some cs' \<and> same_shape cs cs'"
proof (cases "s_anchor (ss ! i)")
  case None
  then show ?thesis using assms(1) by (simp add: terminateService_def callServiceTerm_def serviceCall_def)
next
  case (Some a)
  with assms have "cs_services cs a \<noteq> None" by (meson nth_mem)
  then obtain r cs' where "serviceCall env ''callServiceTerm'' (s_term (ss ! i)) (Some a) cs = Some (r, cs')"
    using serviceCall_total by blast
  with assms(1) Some serviceCall_shape show ?thesis by (auto simp: terminateService_def callServiceTerm_def)
qed

lemma terminateServices_effect:
  assumes "\<forall>i \<in> set is. i < length ss" and "\<forall>s \<in> set ss. \<forall>a. s_anchor s = Some a \<longrightarrow> cs_services cs a \<noteq> None"
  shows "\<exists>cs'. fold_opt (terminateService env ss) is cs = Some cs' \<and> same_shape cs cs'"
  using assms
proof (induction "is" arbitrary: cs)
  case Nil
  then show ?case by auto
next
  case (Cons i "is")
  obtain cs1 where c1: "terminateService env ss i cs = Some cs1" "same_shape cs cs1"
    using terminateService_effect [of i ss cs env] Cons.prems by auto
  have "\<forall>s \<in> set ss. \<forall>a. s_anchor s = Some a \<longrightarrow> cs_services cs1 a \<noteq> None"
    using Cons.prems(2) same_shape_extends [OF c1(2)] by (auto simp: extends_def)
  with Cons.IH [of cs1] Cons.prems(1) c1 show ?case by (auto intro: same_shape_trans)
qed

lemma terminatePlugin_effect:
  assumes "ps d = Some p" and "descriptor_ok cs p"
  shows "\<exists>cs'. terminatePlugin env ps d cs = Some cs' \<and> same_shape cs cs'"
proof -
  obtain cs1 where c1: "fold_opt (terminateService env (p_services p)) [0..<unat (p_serviceCount p)] cs = Some cs1"
    "same_shape cs cs1"
    using terminateServices_effect [of "[0..<unat (p_serviceCount p)]" "p_services p" cs env] assms(2)
    by (auto simp: descriptor_ok_def plugin_wf_def)
  have "\<exists>r cs2. callPluginTerm env p (p_anchor p) cs1 = Some (r, cs2) \<and> same_shape cs1 cs2"
  proof (cases "p_anchor p")
    case None
    then show ?thesis by (simp add: callPluginTerm_def pluginCall_def)
  next
    case (Some a)
    then have "cs_plugins cs1 a \<noteq> None"
      using assms(2) same_shape_extends [OF c1(2)] by (auto simp: descriptor_ok_def extends_def)
    then show ?thesis using Some pluginCall_total pluginCall_shape unfolding callPluginTerm_def by metis
  qed
  with c1 assms(1) show ?thesis by (auto simp: terminatePlugin_def intro: same_shape_trans)
qed

lemma terminatePlugins_effect:
  assumes inv: "server_inv env v ds pas svcs st"
  shows "\<exists>cs'. terminatePlugins env st = Some (st\<lparr>ss_common := cs'\<rparr>) \<and> same_shape (ss_common st) cs'"
proof -
  have ch: "chain (descriptorNext (ss_plugins st)) (cx_firstPlugin (ss_context st)) ds"
    and oks: "\<forall>d \<in> set ds. \<exists>p. ss_plugins st d = Some p \<and> descriptor_ok (ss_common st) p"
    using inv by (auto simp: server_inv_def)
  have "\<exists>cs'. fold_opt (terminatePlugin env (ss_plugins st)) xs cs = Some cs' \<and> same_shape cs cs'"
    if "\<forall>d \<in> set xs. \<exists>p. ss_plugins st d = Some p \<and> descriptor_ok cs p" for xs cs
    using that
  proof (induction xs arbitrary: cs)
    case Nil
    then show ?case by auto
  next
    case (Cons d xs)
    then obtain p where "ss_plugins st d = Some p" "descriptor_ok cs p" by auto
    then obtain cs1 where c1: "terminatePlugin env (ss_plugins st) d cs = Some cs1" "same_shape cs cs1"
      using terminatePlugin_effect [of "ss_plugins st" d p cs env] by blast
    have "\<forall>d \<in> set xs. \<exists>p. ss_plugins st d = Some p \<and> descriptor_ok cs1 p"
      using Cons.prems descriptor_ok_extends same_shape_extends [OF c1(2)] by (meson list.set_intros(2))
    with Cons.IH [of cs1] c1 show ?case by (auto intro: same_shape_trans)
  qed
  from this [OF oks] obtain cs' where f: "fold_opt (terminatePlugin env (ss_plugins st)) ds (ss_common st) = Some cs'"
    "same_shape (ss_common st) cs'" by blast
  have "chain_each (\<lambda>_. descriptorNext (ss_plugins st)) (terminatePlugin env (ss_plugins st))
      (cx_firstPlugin (ss_context st)) (ss_common st) = Some cs'"
    by (rule chain_each_fold [OF ch f(1)]) simp
  with f show ?thesis by (auto simp: terminatePlugins_def)
qed

lemma cleanupServer_inv:
  assumes "up_inv env st"
  shows "\<exists>st'. cleanupServer env st = Some (0, st') \<and> down_inv env st'"
proof -
  obtain v ds pas svcs where inv: "server_inv env v ds pas svcs st" and ga: "ss_userServerAnchor st = Some v"
    using assms by (auto simp: up_inv_def)
  obtain cs1 where t: "terminatePlugins env st = Some (st\<lparr>ss_common := cs1\<rparr>)" "same_shape (ss_common st) cs1"
    using terminatePlugins_effect [OF inv] by blast
  have reg1: "registry env cs1 v pas svcs" "has_table cs1 v"
    using same_shape_keeps [OF t(2)] inv by (auto simp: server_inv_def)
  obtain cs2 where c: "cleanPlugins env (cx_cmsFlags (ss_context st)) v cs1 = Some cs2" "same_shape cs1 cs2"
    "\<forall>p \<in> set pas. \<forall>a \<in> set (svcs p). inactive cs2 a"
    using cleanPlugins_effect [OF reg1(1)] by blast
  have reg2: "registry env cs2 v pas svcs" "has_table cs2 v" using same_shape_keeps [OF c(2)] reg1 by auto
  have cx: "cx_zisAnchor (ss_context st) = Some v" using inv by (simp add: server_inv_def)
  show ?thesis
  proof (cases "ZIS_DEV_MODE env")
    case False
    with t c(1) cx have "cleanupServer env st = Some (0, st\<lparr>ss_common := cs2\<rparr>)" by (simp add: cleanupServer_def)
    moreover have "down_inv env (st\<lparr>ss_common := cs2\<rparr>)" using ga reg2 c(3) by (auto simp: down_inv_def)
    ultimately show ?thesis by blast
  next
    case True
    obtain sv where sv: "cs_servers cs2 v = Some sv" using reg2 by (auto simp: has_table_def server_shape_def)
    let ?cs3 = "cs2\<lparr>cs_servers := (cs_servers cs2)(v \<mapsto> sv\<lparr>sv_serviceTable := None\<rparr>)\<rparr>"
    have "chains_ok ?cs3 (sv_firstPlugin sv) pas svcs"
      using reg2(1) sv chains_server_irrelevant [of ?cs3 cs2] by (auto simp: registry_def server_shape_def)
    then have "registry env ?cs3 v pas svcs" by (simp add: registry_def server_shape_def table_ok_def)
    moreover have "inactive ?cs3 a = inactive cs2 a" for a by (simp add: inactive_def)
    ultimately have "down_inv env (st\<lparr>ss_common := ?cs3\<rparr>)" using ga True c(3) by (auto simp: down_inv_def)
    moreover have "cleanupServer env st = Some (0, st\<lparr>ss_common := ?cs3\<rparr>)"
      using t c(1) cx True sv by (simp add: cleanupServer_def destroyServiceTable_def modServer_def)
    ultimately show ?thesis by blast
  qed
qed

section \<open>An installed service can be reached\<close>

definition service_path :: "ZISPlugin \<Rightarrow> ZISService \<Rightarrow> ZISServicePath" where
  "service_path plugin service = \<lparr>pluginName = p_name plugin, serviceName = s_name service\<rparr>"

text \<open>An anchor that stands for the service: its function, its version and its authorization.\<close>

definition anchor_for :: "ZISService \<Rightarrow> ZISServiceAnchor \<Rightarrow> bool" where
  "anchor_for service sa \<longleftrightarrow>
     sa_serve sa = s_serve service \<and> sa_serviceVersion sa = s_serviceVersion service \<and>
     (has_flag (sa_flags sa) ZIS_SERVICE_ANCHOR_FLAG_SPECIFIC_AUTH \<longleftrightarrow>
      has_flag (s_flags service) ZIS_SERVICE_FLAG_SPECIFIC_AUTH) \<and>
     (has_flag (s_flags service) ZIS_SERVICE_FLAG_SPECIFIC_AUTH \<longrightarrow>
      sa_safClassName sa = s_safClassName service \<and> sa_safEntityName sa = s_safEntityName service)"

definition routes_to :: "'m ServerEnv \<Rightarrow> 'm CommonStorage \<Rightarrow> addr \<Rightarrow> ZISServicePath \<Rightarrow> ZISService \<Rightarrow> bool" where
  "routes_to env cs v path service \<longleftrightarrow>
     (\<exists>first t a sa. server_shape cs v = Some (first, Some t) \<and> crossMemoryMapGet env t path = Some a \<and>
        cs_services cs a = Some sa \<and> has_flag (sa_state sa) ZIS_SERVICE_ANCHOR_STATE_ACTIVE \<and>
        anchor_for service sa)"

lemma anchor_for_new: "anchor_for service (newServiceAnchor plugin service)"
proof -
  have f: "has_flag (set_flag w 2) 2" "has_flag (set_flag w 1) 2 = has_flag w 2" for w
    by (rule set_flag_has, simp) (rule has_flag_set_other, simp)
  show ?thesis
    by (simp add: anchor_for_def newServiceAnchor_def serviceAnchorFlags_def flag_defs f Let_def)
qed

lemma anchor_for_update:
  "isServiceAnchorCompatible service sa \<Longrightarrow> anchor_for service (zisUpdateServiceAnchor sa service)"
  by (auto simp: anchor_for_def zisUpdateServiceAnchor_def isServiceAnchorCompatible_def flag_defs Let_def)

text \<open>
  The service anchors of the plug-in carry its name. Then \<open>obtainServiceAnchor\<close> touches only
  anchors with the path of the service, and the anchor it answers stands for the service.
\<close>

definition named_chain :: "'m CommonStorage \<Rightarrow> ZISPluginName \<Rightarrow> addr list \<Rightarrow> bool" where
  "named_chain cs name xs \<longleftrightarrow> (\<forall>a \<in> set xs. \<forall>sa. cs_services cs a = Some sa \<longrightarrow> pluginName (sa_path sa) = name)"

definition elsewhere :: "ZISServicePath \<Rightarrow> 'm CommonStorage \<Rightarrow> 'm CommonStorage \<Rightarrow> bool" where
  "elsewhere path cs cs' \<longleftrightarrow>
     (\<forall>b sa. cs_services cs b = Some sa \<longrightarrow> sa_path sa \<noteq> path \<longrightarrow> cs_services cs' b = Some sa)"

lemma elsewhere_trans: "elsewhere p cs cs1 \<Longrightarrow> elsewhere p cs1 cs2 \<Longrightarrow> elsewhere p cs cs2"
  by (auto simp: elsewhere_def)

lemma modService_elsewhere:
  "modService a f cs = Some cs' \<Longrightarrow> cs_services cs a = Some sa \<Longrightarrow> sa_path sa = path \<Longrightarrow> elsewhere path cs cs'"
  by (auto simp: modService_def elsewhere_def)

lemma obtainServiceAnchor_effect:
  assumes reg: "registry env cs v pas svcs" and p: "p \<in> set pas" and fresh: "alloc_fresh env"
    and names: "named_chain cs (p_name plugin) (svcs p)"
    and ob: "obtainServiceAnchor env plugin service p cs = Some (Some a, cs')"
  shows "\<exists>sa. cs_services cs' a = Some sa \<and> sa_path sa = service_path plugin service \<and> anchor_for service sa"
    and "elsewhere (service_path plugin service) cs cs'"
    and "\<exists>svcs'. registry env cs' v pas svcs' \<and> a \<in> set (svcs' p) \<and> named_chain cs' (p_name plugin) (svcs' p)"
proof -
  let ?path = "service_path plugin service"
  let ?found = "find (\<lambda>a. service_matches (s_name service) (the (cs_services cs a))) (svcs p)"
  have fd: "findServiceAnchor p (s_name service) cs = Some ?found" by (rule findServiceAnchor_list [OF reg p])
  have match: "\<exists>sa. cs_services cs b = Some sa \<and> sa_path sa = ?path \<and> b \<in> set (svcs p)" if "?found = Some b" for b
  proof -
    from find_Some_mem [OF that] have b: "b \<in> set (svcs p)" "service_matches (s_name service) (the (cs_services cs b))"
      by auto
    obtain sa where "cs_services cs b = Some sa" using registry_service_stored [OF reg p b(1)] by auto
    with b names show ?thesis
      by (auto simp: service_matches_def named_chain_def service_path_def)
  qed
  obtain r1 cs1 where d: "discardIfIncompatible service ?found cs = Some (r1, cs1)"
    using ob fd by (auto simp: obtainServiceAnchor_def split: option.splits)
  have s1: "same_shape cs cs1" using d by (rule discardIfIncompatible_shape)
  have reg1: "registry env cs1 v pas svcs" using same_shape_keeps(1) [OF s1 reg] .
  have e1: "elsewhere ?path cs cs1" and r1: "\<And>b. r1 = Some b \<Longrightarrow> ?found = Some b \<and> cs1 = cs"
    and compat: "\<And>b sa. r1 = Some b \<Longrightarrow> cs_services cs b = Some sa \<Longrightarrow> isServiceAnchorCompatible service sa"
    using d match
    by (auto simp: discardIfIncompatible_def discardServiceAnchor_def modService_def elsewhere_def
        split: option.splits if_splits)
  have paths1: "map_option sa_path (cs_services cs1 b) = map_option sa_path (cs_services cs b)" for b
  proof -
    have "service_shape cs1 b = service_shape cs b" using s1 by (simp add: same_shape_def)
    then have "map_option snd (service_shape cs1 b) = map_option snd (service_shape cs b)" by simp
    then show ?thesis by (simp add: service_shape_def option.map_comp o_def)
  qed
  have names1: "named_chain cs1 (p_name plugin) (svcs p)"
    unfolding named_chain_def
  proof (intro ballI allI impI)
    fix b sa assume "b \<in> set (svcs p)" "cs_services cs1 b = Some sa"
    moreover from this(2) paths1 [of b] obtain sa0 where "cs_services cs b = Some sa0" "sa_path sa0 = sa_path sa"
      by (cases "cs_services cs b") auto
    ultimately show "pluginName (sa_path sa) = p_name plugin" using names by (auto simp: named_chain_def)
  qed
  have goal: "(\<exists>sa. cs_services cs' a = Some sa \<and> sa_path sa = ?path \<and> anchor_for service sa) \<and>
     elsewhere ?path cs cs' \<and>
     (\<exists>svcs'. registry env cs' v pas svcs' \<and> a \<in> set (svcs' p) \<and> named_chain cs' (p_name plugin) (svcs' p))"
  proof (cases r1)
    case (Some b)
    note f = r1 [OF Some]
    obtain sa where sa: "cs_services cs b = Some sa" "sa_path sa = ?path" "b \<in> set (svcs p)"
      using match f by blast
    have ab: "b = a" and m: "modService b (\<lambda>sa. zisUpdateServiceAnchor sa service) cs = Some cs'"
      using ob fd d Some f by (auto simp: obtainServiceAnchor_def)
    have "same_shape cs cs'" using m by (rule modService_shape) simp_all
    then have "registry env cs' v pas svcs" using same_shape_keeps(1) reg by blast
    moreover have "named_chain cs' (p_name plugin) (svcs p)"
      using names m sa by (auto simp: named_chain_def modService_def service_path_def split: if_splits)
    moreover have "cs_services cs' a = Some (zisUpdateServiceAnchor sa service)"
      using m sa ab by (auto simp: modService_def)
    ultimately show ?thesis
      using anchor_for_update [OF compat [OF Some sa(1)]] sa ab modService_elsewhere [OF m sa(1,2)] by auto
  next
    case None
    obtain b where al: "cmAlloc env cs1 sizeof_ZISServiceAnchor = Some b"
      using ob fd d None
      by (cases "cmAlloc env cs1 sizeof_ZISServiceAnchor") (auto simp: obtainServiceAnchor_def zisCreateServiceAnchor_def)
    let ?cs2 = "cs1\<lparr>cs_services := (cs_services cs1)(b \<mapsto> newServiceAnchor plugin service)\<rparr>"
    have ab: "b = a" and l: "linkServiceAnchor p b ?cs2 = Some cs'"
      using ob fd d None al by (auto simp: obtainServiceAnchor_def zisCreateServiceAnchor_def)
    have fr: "\<not> used cs1 b" using fresh al by (auto simp: alloc_fresh_def)
    note link = link_new_service [OF reg1 p fr l]
    obtain n where cs': "cs_services cs' = (cs_services cs1)(b \<mapsto> (newServiceAnchor plugin service)\<lparr>sa_next := n\<rparr>)"
      using link(2) by blast
    have path: "sa_path (newServiceAnchor plugin service) = ?path"
      by (simp add: newServiceAnchor_def service_path_def)
    have "anchor_for service ((newServiceAnchor plugin service)\<lparr>sa_next := n\<rparr>)"
      using anchor_for_new [of service plugin] by (simp add: anchor_for_def)
    moreover have "elsewhere ?path cs1 cs'" using fr by (auto simp: elsewhere_def cs' used_def)
    with e1 have "elsewhere ?path cs cs'" by (rule elsewhere_trans)
    moreover have "named_chain cs' (p_name plugin) ((svcs(p := b # svcs p)) p)"
      using names1 path by (auto simp: named_chain_def cs' service_path_def)
    ultimately show ?thesis using cs' path ab link(1) by (auto intro!: exI [of _ "svcs(p := b # svcs p)"])
  qed
  then show "\<exists>sa. cs_services cs' a = Some sa \<and> sa_path sa = ?path \<and> anchor_for service sa"
    and "elsewhere ?path cs cs'"
    and "\<exists>svcs'. registry env cs' v pas svcs' \<and> a \<in> set (svcs' p) \<and> named_chain cs' (p_name plugin) (svcs' p)"
    by auto
qed

definition init_succeeds :: "'m ServerEnv \<Rightarrow> ZISService \<Rightarrow> bool" where
  "init_succeeds env service \<longleftrightarrow>
     recoveryPush env ''callServiceInit'' = 0 \<and>
     (\<forall>f d. s_init service = Some f \<longrightarrow> fst (callback env f d) = Some RC_ZIS_OK)"

lemma callServiceInit_effect:
  assumes call: "callServiceInit env service (Some a) cs = Some (r, cs')" and sa: "cs_services cs a = Some sa"
  shows "\<exists>d. cs_services cs' = (cs_services cs)(a \<mapsto> sa\<lparr>sa_serviceData := d\<rparr>)"
    and "cs_servers cs' = cs_servers cs" and "init_succeeds env service \<Longrightarrow> r = RC_ZIS_OK"
proof -
  let ?g = "guardedCall env ''callServiceInit'' (s_init service) (Some (sa_serviceData sa))"
  have r: "r = fst ?g" and cs': "cs' = cs\<lparr>cs_services := (cs_services cs)(a \<mapsto>
      sa\<lparr>sa_serviceData := (case snd ?g of None \<Rightarrow> sa_serviceData sa | Some x \<Rightarrow> x)\<rparr>)\<rparr>"
  proof -
    obtain r0 d0 where g: "?g = (r0, d0)" by fastforce
    have upd: "sa_serviceData_update (\<lambda>old. case d0 of None \<Rightarrow> old | Some x \<Rightarrow> x) sa =
        sa\<lparr>sa_serviceData := (case d0 of None \<Rightarrow> sa_serviceData sa | Some x \<Rightarrow> x)\<rparr>"
      by (cases sa; cases d0) simp_all
    from call sa g show "r = fst ?g" and "cs' = cs\<lparr>cs_services := (cs_services cs)(a \<mapsto>
        sa\<lparr>sa_serviceData := (case snd ?g of None \<Rightarrow> sa_serviceData sa | Some x \<Rightarrow> x)\<rparr>)\<rparr>"
      by (auto simp: callServiceInit_def serviceCall_def modService_def upd)
  qed
  show "\<exists>d. cs_services cs' = (cs_services cs)(a \<mapsto> sa\<lparr>sa_serviceData := d\<rparr>)"
    and "cs_servers cs' = cs_servers cs" by (auto simp: cs')
  assume ok: "init_succeeds env service"
  show "r = RC_ZIS_OK"
  proof (cases "s_init service")
    case None
    with ok show ?thesis by (simp add: r guardedCall_def init_succeeds_def)
  next
    case (Some f)
    obtain x y where xy: "callback env f (Some (sa_serviceData sa)) = (x, y)" by fastforce
    with ok Some have "x = Some RC_ZIS_OK" unfolding init_succeeds_def by (metis fst_conv)
    with ok Some xy show ?thesis by (simp add: r guardedCall_def init_succeeds_def)
  qed
qed

lemma anchor_for_frame [simp]:
  "anchor_for s (sa\<lparr>sa_serviceData := d\<rparr>) = anchor_for s sa" "anchor_for s (sa\<lparr>sa_state := w\<rparr>) = anchor_for s sa"
  by (simp_all add: anchor_for_def)

lemma routes_elsewhere:
  assumes reg: "registry env cs v pas svcs" and r: "routes_to env cs v path' s'" and ne: "path' \<noteq> path"
    and els: "elsewhere path cs cs'"
    and tab: "\<And>first t. server_shape cs v = Some (first, Some t) \<Longrightarrow>
       \<exists>first' t'. server_shape cs' v = Some (first', Some t') \<and> crossMemoryMapGet env t' path' = crossMemoryMapGet env t path'"
  shows "routes_to env cs' v path' s'"
proof -
  obtain first t a sa where t: "server_shape cs v = Some (first, Some t)" "crossMemoryMapGet env t path' = Some a"
    and sa: "cs_services cs a = Some sa" "has_flag (sa_state sa) ZIS_SERVICE_ANCHOR_STATE_ACTIVE" "anchor_for s' sa"
    using r by (auto simp: routes_to_def)
  have "map_option snd (service_shape cs a) = Some path'"
    using reg t by (auto simp: registry_def table_ok_def)
  then have "sa_path sa = path'" using sa by (simp add: service_shape_def)
  then have "cs_services cs' a = Some sa" using els ne sa(1) by (auto simp: elsewhere_def)
  moreover obtain first' t' where "server_shape cs' v = Some (first', Some t')"
    "crossMemoryMapGet env t' path' = Some a" using tab [OF t(1)] t(2) by auto
  ultimately show ?thesis using sa by (auto simp: routes_to_def)
qed

lemma installService_routes:
  assumes env: "map_laws env" "alloc_fresh env" and reg: "registry env cs v pas svcs" and p: "p \<in> set pas"
    and names: "named_chain cs (p_name plugin) (svcs p)"
    and pl: "ps pl = Some plugin" "i < length (p_services plugin)"
    and inst: "installService env v pl p i (cs, ps) = Some (None, cs', ps')"
  defines "service \<equiv> p_services plugin ! i"
  shows "init_succeeds env service \<Longrightarrow> routes_to env cs' v (service_path plugin service) service"
    and "\<And>path s. routes_to env cs v path s \<Longrightarrow> path \<noteq> service_path plugin service \<Longrightarrow> routes_to env cs' v path s"
    and "\<exists>svcs'. registry env cs' v pas svcs' \<and> named_chain cs' (p_name plugin) (svcs' p)"
    and "\<exists>a. ps' = ps(pl \<mapsto> plugin\<lparr>p_services := (p_services plugin)[i := service\<lparr>s_anchor := Some a\<rparr>]\<rparr>)"
proof -
  let ?path = "service_path plugin service"
  obtain a cs1 where ob: "obtainServiceAnchor env plugin service p cs = Some (Some a, cs1)"
    using inst pl unfolding service_def by (auto simp: installService_def Let_def split: option.splits)
  note eff = obtainServiceAnchor_effect [OF reg p env(2) names ob]
  obtain sa1 where sa1: "cs_services cs1 a = Some sa1" "sa_path sa1 = ?path" "anchor_for service sa1" using eff(1) by blast
  obtain svcs1 where reg1: "registry env cs1 v pas svcs1" "a \<in> set (svcs1 p)" "named_chain cs1 (p_name plugin) (svcs1 p)"
    using eff(3) by blast
  have sv1: "server_shape cs1 = server_shape cs"
    using obtainServiceAnchor_registry [OF reg p env(2), of plugin service] ob by auto
  obtain initRC cs2 where ini: "callServiceInit env service (Some a) cs1 = Some (initRC, cs2)"
    using inst pl ob unfolding service_def by (auto simp: installService_def Let_def split: option.splits)
  note ie = callServiceInit_effect [OF ini sa1(1)]
  obtain d where cs2: "cs_services cs2 = (cs_services cs1)(a \<mapsto> sa1\<lparr>sa_serviceData := d\<rparr>)" using ie(1) by blast
  have s2: "same_shape cs1 cs2" using ini serviceCall_shape unfolding callServiceInit_def by blast
  have reg2: "registry env cs2 v pas svcs1" using same_shape_keeps(1) [OF s2 reg1(1)] .
  have e2: "elsewhere ?path cs cs2"
    using eff(2) sa1 by (rule_tac elsewhere_trans) (auto simp: elsewhere_def cs2)
  have n2: "named_chain cs2 (p_name plugin) (svcs1 p)"
    using reg1(3) sa1 by (auto simp: named_chain_def cs2)
  have sv2: "server_shape cs2 = server_shape cs" using sv1 s2 by (simp add: same_shape_def)
  let ?ps' = "ps(pl \<mapsto> plugin\<lparr>p_services := (p_services plugin)[i := service\<lparr>s_anchor := Some a\<rparr>]\<rparr>)"
  have goal: "(init_succeeds env service \<longrightarrow> routes_to env cs' v ?path service) \<and>
     (\<forall>path s. routes_to env cs v path s \<longrightarrow> path \<noteq> ?path \<longrightarrow> routes_to env cs' v path s) \<and>
     (\<exists>svcs'. registry env cs' v pas svcs' \<and> named_chain cs' (p_name plugin) (svcs' p)) \<and> ps' = ?ps'"
  proof (cases "initRC = RC_ZIS_OK")
    case False
    then have "cs' = cs2" "ps' = ?ps'"
      using inst pl ob ini unfolding service_def by (auto simp: installService_def Let_def)
    moreover have "routes_to env cs2 v path s" if "routes_to env cs v path s" "path \<noteq> ?path" for path s
      by (rule routes_elsewhere [OF reg that(1,2) e2]) (simp add: sv2)
    ultimately show ?thesis using False ie(3) reg2 n2 by auto
  next
    case True
    then obtain cs3 where put: "putService env v a cs2 = Some (True, cs3)" and act: "activateService a cs3 = Some cs'"
      and ps': "ps' = ?ps'"
      using inst pl ob ini unfolding service_def
      by (auto simp: installService_def Let_def split: option.splits bool.splits)
    obtain sv t where sv: "cs_servers cs2 v = Some sv" "sv_serviceTable sv = Some t"
      using put by (auto simp: putService_def split: option.splits)
    have sa2: "cs_services cs2 a = Some (sa1\<lparr>sa_serviceData := d\<rparr>)" by (simp add: cs2)
    obtain t' where cs3: "cs3 = cs2\<lparr>cs_servers := (cs_servers cs2)(v \<mapsto> sv\<lparr>sv_serviceTable := Some t'\<rparr>)\<rparr>"
      and t': "crossMemoryMapGet env t' = (crossMemoryMapGet env t)(?path \<mapsto> a)"
      using put_or_set [OF env(1) sv sa2] put sa1 by auto
    have reg3: "registry env cs3 v pas svcs1" by (rule putService_registry [OF env(1) reg2 p reg1(2) put])
    have s4: "same_shape cs3 cs'" by (rule activation.step_shape [OF act])
    have reg4: "registry env cs' v pas svcs1" using same_shape_keeps(1) [OF s4 reg3] .
    have sv4: "server_shape cs' v = Some (sv_firstPlugin sv, Some t')"
      using s4 by (simp add: same_shape_def server_shape_def cs3)
    have cs4: "cs_services cs' = (cs_services cs2)(a \<mapsto> sa1\<lparr>sa_serviceData := d,
        sa_state := set_flag (sa_state sa1) ZIS_SERVICE_ANCHOR_STATE_ACTIVE\<rparr>)"
      using act sa2 by (auto simp: activateService_def modService_def cs3)
    have "has_flag (set_flag (sa_state sa1) ZIS_SERVICE_ANCHOR_STATE_ACTIVE) ZIS_SERVICE_ANCHOR_STATE_ACTIVE"
      by (rule set_flag_has) (simp add: flag_defs)
    then have "routes_to env cs' v ?path service"
      using sv4 t' cs4 sa1(3) by (auto simp: routes_to_def)
    moreover have "elsewhere ?path cs2 cs'" using sa1(2) by (auto simp: elsewhere_def cs4 cs2)
    with e2 have e4: "elsewhere ?path cs cs'" by (rule elsewhere_trans)
    have "routes_to env cs' v path s" if "routes_to env cs v path s" "path \<noteq> ?path" for path s
    proof (rule routes_elsewhere [OF reg that e4])
      fix first t0 assume "server_shape cs v = Some (first, Some t0)"
      then have "t0 = t" using sv2 sv by (auto simp: server_shape_def dest: fun_cong [of _ _ v])
      with sv4 t' that(2) show "\<exists>first' t'. server_shape cs' v = Some (first', Some t') \<and>
          crossMemoryMapGet env t' path = crossMemoryMapGet env t0 path" by auto
    qed
    moreover have "named_chain cs' (p_name plugin) (svcs1 p)"
      using n2 sa2 by (auto simp: named_chain_def cs4)
    ultimately show ?thesis using reg4 ps' by auto
  qed
  then show "init_succeeds env service \<Longrightarrow> routes_to env cs' v ?path service"
    and "\<And>path s. routes_to env cs v path s \<Longrightarrow> path \<noteq> ?path \<Longrightarrow> routes_to env cs' v path s"
    and "\<exists>svcs'. registry env cs' v pas svcs' \<and> named_chain cs' (p_name plugin) (svcs' p)"
    and "\<exists>a. ps' = ps(pl \<mapsto> plugin\<lparr>p_services := (p_services plugin)[i := service\<lparr>s_anchor := Some a\<rparr>]\<rparr>)"
    by blast+
qed

end
