(* ===== verification/ZIS_Router.thy ===== *)
theory ZIS_Router
  imports ZIS_Lifecycle
begin

text \<open>
  The service router over the life of the server: which requests reach a service's function, what
  an installation makes reachable, and the state machine of servers that start, serve, handle
  modify commands and stop over the same common storage. The properties of the registry are stated
  here.
\<close>

section \<open>All services of a plug-in\<close>

lemma installServices_loop_routes:
  assumes env: "map_laws env" "alloc_fresh env" and p: "p \<in> set pas"
    and "registry env cs v pas svcs" and "named_chain cs (p_name plugin) (svcs p)" and "ps pl = Some plugin"
    and "\<forall>i \<in> set is. i < length (p_services plugin)"
    and "distinct (map (\<lambda>i. s_name (p_services plugin ! i)) is)"
    and "installServices_loop env v pl p is (cs, ps) = Some (RC_ZIS_OK, cs', ps')"
  shows "(\<forall>i \<in> set is. init_succeeds env (p_services plugin ! i) \<longrightarrow>
           routes_to env cs' v (service_path plugin (p_services plugin ! i)) (p_services plugin ! i)) \<and>
     (\<forall>path s. routes_to env cs v path s \<longrightarrow>
        path \<notin> (\<lambda>i. service_path plugin (p_services plugin ! i)) ` set is \<longrightarrow> routes_to env cs' v path s)"
  using assms(4-)
proof (induction "is" arbitrary: cs ps plugin svcs)
  case Nil
  then show ?case by auto
next
  case (Cons i "is")
  let ?s = "p_services plugin ! i" and ?path = "\<lambda>j. service_path plugin (p_services plugin ! j)"
  have i: "i < length (p_services plugin)" using Cons.prems(4) by simp
  from Cons.prems(6) obtain cs1 ps1 where st: "installService env v pl p i (cs, ps) = Some (None, cs1, ps1)"
    and rest: "installServices_loop env v pl p is (cs1, ps1) = Some (RC_ZIS_OK, cs', ps')"
  proof -
    from Cons.prems(6) obtain r cs1 ps1 where s: "installService env v pl p i (cs, ps) = Some (r, cs1, ps1)"
      by (auto split: option.splits)
    have "r = None \<or> r = Some RC_ZIS_ERROR"
      using s by (auto simp: installService_def Let_def split: option.splits if_splits bool.splits)
    with s Cons.prems(6) show thesis using that by auto
  qed
  note step = installService_routes [where ps = ps and pl = pl,
      OF env Cons.prems(1) p Cons.prems(2,3) i st]
  obtain a where ps1: "ps1 = ps(pl \<mapsto> plugin\<lparr>p_services := (p_services plugin)[i := ?s\<lparr>s_anchor := Some a\<rparr>]\<rparr>)"
    using step(4) by blast
  let ?p1 = "plugin\<lparr>p_services := (p_services plugin)[i := ?s\<lparr>s_anchor := Some a\<rparr>]\<rparr>"
  have notin: "i \<notin> set is" using Cons.prems(5) by auto
  have same: "p_services ?p1 ! j = p_services plugin ! j" if "j \<in> set is" for j
    using notin that by (metis (no_types) ZISPlugin.select_convs(15) ZISPlugin.surjective ZISPlugin.update_convs(15) nth_list_update_neq)
  obtain svcs1 where reg1: "registry env cs1 v pas svcs1" "named_chain cs1 (p_name ?p1) (svcs1 p)"
    using step(3) by auto
  have path1: "service_path ?p1 s = service_path plugin s" for s by (simp add: service_path_def)
  have d1: "distinct (map (\<lambda>j. s_name (p_services ?p1 ! j)) is)"
    using Cons.prems(5) same by (metis (no_types, lifting) distinct.simps(2) list.simps(9) map_cong)
  have "ps1 pl = Some ?p1" by (simp add: ps1)
  note ih = Cons.IH [OF reg1(1) reg1(2) this _ d1 rest]
  have img: "(\<lambda>j. service_path ?p1 (p_services ?p1 ! j)) ` set is = ?path ` set is"
    using same path1 by (intro image_cong) auto
  have ih1: "\<forall>j \<in> set is. init_succeeds env (p_services plugin ! j) \<longrightarrow>
      routes_to env cs' v (?path j) (p_services plugin ! j)"
    and ih2: "\<forall>path s. routes_to env cs1 v path s \<longrightarrow> path \<notin> ?path ` set is \<longrightarrow> routes_to env cs' v path s"
    using ih Cons.prems(4) same path1 unfolding img by auto
  have own: "?path i \<notin> ?path ` set is"
    using Cons.prems(5) by (auto simp: service_path_def)
  show ?case
    using ih1 ih2 own step(1,2) by auto
qed

lemma installServices_routes:
  assumes "map_laws env" and "alloc_fresh env" and "registry env cs v pas svcs" and "p \<in> set pas"
    and "named_chain cs (p_name plugin) (svcs p)" and "ps pl = Some plugin" and "plugin_wf plugin"
    and "distinct (map s_name (plugin_table plugin))"
    and "installServices env v pl p (cs, ps) = Some (RC_ZIS_OK, cs', ps')"
    and "s \<in> set (plugin_table plugin)" and "init_succeeds env s"
  shows "routes_to env cs' v (service_path plugin s) s"
proof -
  let ?n = "unat (p_serviceCount plugin)"
  have le: "?n \<le> length (p_services plugin)" using assms(7) by (auto simp: plugin_wf_def)
  have tab: "plugin_table plugin = map (\<lambda>i. p_services plugin ! i) [0..<?n]"
    using le by (simp add: plugin_table_def map_nth take_map [symmetric] flip: map_nth take_upt)
      (metis add_0 map_nth take_map take_upt le)
  then obtain i where i: "i < ?n" "s = p_services plugin ! i" using assms(10) by auto
  have d: "distinct (map (\<lambda>i. s_name (p_services plugin ! i)) [0..<?n])"
    using assms(8) unfolding tab by (simp add: o_def)
  have l: "installServices_loop env v pl p [0..<?n] (cs, ps) = Some (RC_ZIS_OK, cs', ps')"
    using assms(6,9) by (simp add: installServices_def)
  have "\<forall>i \<in> set [0..<?n]. i < length (p_services plugin)" using le by auto
  from installServices_loop_routes [where ps = ps and pl = pl, OF assms(1,2,4,3,5,6) this d l] i assms(11)
  show ?thesis by auto
qed

section \<open>What the router lets through\<close>

text \<open>Everything that holds when the function \<open>fn\<close> of the anchor \<open>sa\<close> at \<open>a\<close> is entered.\<close>

definition admitted ::
    "'m ServerEnv \<Rightarrow> addr option \<Rightarrow> ZISServiceRouterParm \<Rightarrow> 'm CommonStorage \<Rightarrow> addr \<Rightarrow> ZISServiceAnchor \<Rightarrow> fnptr \<Rightarrow> bool" where
  "admitted env ga parm cs a sa fn \<longleftrightarrow>
     (\<exists>v sv t. ga = Some v \<and> cs_servers cs v = Some sv \<and> sv_serviceTable sv = Some t \<and>
        crossMemoryMapGet env t (rp_targetServicePath parm) = Some a) \<and>
     cs_services cs a = Some sa \<and>
     rp_eyecatcher parm = ZIS_SERVICE_ROUTER_EYECATCHER \<and> rp_version parm \<le> ZIS_SERVICE_ROUTER_VERSION \<and>
     (rp_serviceVersion parm \<le> sa_serviceVersion sa \<or> rp_serviceVersion parm = ZIS_SERVICE_ANY_VERSION) \<and>
     has_flag (sa_state sa) ZIS_SERVICE_ANCHOR_STATE_ACTIVE \<and>
     (has_flag (sa_flags sa) ZIS_SERVICE_ANCHOR_FLAG_SPECIFIC_AUTH \<longrightarrow>
        cmsTestAuth env (sa_safClassName sa) (sa_safEntityName sa)) \<and>
     sa_serve sa = Some fn"

lemma route_served:
  assumes "zisRouteService env ga parm cs = Some (r, Some fn, cs')"
  shows "\<exists>a sa dat. admitted env ga parm cs a sa fn \<and>
     (r, dat) = serveCallback env fn (rp_targetServiceParm parm) (sa_serviceData sa) \<and>
     cs' = cs\<lparr>cs_services := (cs_services cs)(a \<mapsto> sa\<lparr>sa_serviceData := dat\<rparr>)\<rparr>"
proof -
  from assms obtain v sv t a sa where p: "ga = Some v" "cs_servers cs v = Some sv" "sv_serviceTable sv = Some t"
    "crossMemoryMapGet env t (rp_targetServicePath parm) = Some a" "cs_services cs a = Some sa"
    by (auto simp: zisRouteService_def split: if_splits option.splits)
  have g: "admitted env ga parm cs a sa fn \<and> callServe env a sa (rp_targetServiceParm parm) cs = Some (r, Some fn, cs')"
    using assms p
    by (auto simp: zisRouteService_def admitted_def callServe_def linorder_not_less split: if_splits option.splits prod.splits)
  obtain x dat where "serveCallback env fn (rp_targetServiceParm parm) (sa_serviceData sa) = (x, dat)" by fastforce
  with g p show ?thesis by (auto simp: callServe_def modService_def admitted_def split: option.splits)
qed

lemma route_refused:
  "zisRouteService env ga parm cs = Some (r, None, cs') \<Longrightarrow>
   cs' = cs \<and> r \<in> {RC_ZIS_SRVC_BAD_EYECATCHER, RC_ZIS_SRVC_BAD_ROUTER_VERSION, RC_ZIS_SRVC_SERVICE_NOT_FOUND,
     RC_ZIS_SRVC_BAD_SERVICE_VERSION, RC_ZIS_SRVC_SERVICE_INACTIVE, RC_ZIS_SRVC_SPECIFIC_AUTH_FAILED}"
  by (auto simp: zisRouteService_def callServe_def split: if_splits option.splits prod.splits)

lemma route_shape:
  assumes "zisRouteService env ga parm cs = Some (r, fn, cs')"
  shows "same_shape cs cs'" and "inactive cs' a = inactive cs a"
proof -
  have "same_shape cs cs' \<and> inactive cs' a = inactive cs a"
  proof (cases fn)
    case None
    then show ?thesis using assms route_refused by fastforce
  next
    case (Some f)
    from route_served [OF assms [unfolded Some]] obtain b sa dat where sa: "cs_services cs b = Some sa"
      and cs': "cs' = cs\<lparr>cs_services := (cs_services cs)(b \<mapsto> sa\<lparr>sa_serviceData := dat\<rparr>)\<rparr>"
      by (auto simp: admitted_def)
    have "modService b (sa_serviceData_update (\<lambda>_. dat)) cs = Some cs'" using sa by (simp add: modService_def cs')
    then have "same_shape cs cs'" by (rule modService_shape) simp_all
    with sa show ?thesis by (auto simp: inactive_def cs')
  qed
  then show "same_shape cs cs'" and "inactive cs' a = inactive cs a" by auto
qed

text \<open>A request for a service that is installed reaches its function.\<close>

lemma route_installed:
  assumes "routes_to env cs v (rp_targetServicePath parm) s" and "s_serve s = Some fn"
    and "rp_eyecatcher parm = ZIS_SERVICE_ROUTER_EYECATCHER" and "rp_version parm \<le> ZIS_SERVICE_ROUTER_VERSION"
    and "rp_serviceVersion parm \<le> s_serviceVersion s \<or> rp_serviceVersion parm = ZIS_SERVICE_ANY_VERSION"
  shows "\<exists>r cs'. zisRouteService env (Some v) parm cs =
     (if has_flag (s_flags s) ZIS_SERVICE_FLAG_SPECIFIC_AUTH \<and> \<not> cmsTestAuth env (s_safClassName s) (s_safEntityName s)
      then Some (RC_ZIS_SRVC_SPECIFIC_AUTH_FAILED, None, cs) else Some (r, Some fn, cs'))"
proof -
  from assms(1) obtain sv t a sa where "cs_servers cs v = Some sv" "sv_serviceTable sv = Some t"
    "crossMemoryMapGet env t (rp_targetServicePath parm) = Some a" "cs_services cs a = Some sa"
    "has_flag (sa_state sa) ZIS_SERVICE_ANCHOR_STATE_ACTIVE" "anchor_for s sa"
    by (auto simp: routes_to_def server_shape_def)
  with assms(2-) show ?thesis
    by (auto simp: zisRouteService_def callServe_def modService_def anchor_for_def linorder_not_less
        split: prod.splits)
qed

section \<open>The life of the servers\<close>

text \<open>
  Servers follow each other over the same common storage. A start brings a fresh context and fresh
  private storage; requests come in at any time, also when no server is up, since the router's
  code and the storage it uses are common; a server stops through \<open>cleanupServer\<close>.
\<close>

datatype phase = Down | Up

inductive lifecycle ::
    "'m ServerEnv \<Rightarrow> phase \<times> ('m, 's) ServerState \<Rightarrow> phase \<times> ('m, 's) ServerState \<Rightarrow> bool"
  for env where
  start: "fresh_context c \<Longrightarrow> finite (dom ps) \<Longrightarrow>
     initServer env ga localServer (st\<lparr>ss_context := c, ss_plugins := ps\<rparr>) = Some (r, st') \<Longrightarrow>
     lifecycle env (Down, st) (if r = RC_ZIS_OK then Up else Down, st')"
| route: "zisRouteService env (ss_userServerAnchor st) parm (ss_common st) = Some (r, fn, cs) \<Longrightarrow>
     lifecycle env (ph, st) (ph, st\<lparr>ss_common := cs\<rparr>)"
| modify: "handleModifyCommands env target st = Some (r, st') \<Longrightarrow> lifecycle env (Up, st) (Up, st')"
| stop: "cleanupServer env st = Some (r, st') \<Longrightarrow> lifecycle env (Up, st) (Down, st')"

inductive reachable :: "'m ServerEnv \<Rightarrow> phase \<times> ('m, 's) ServerState \<Rightarrow> bool" for env where
  first: "ss_userServerAnchor st = None \<Longrightarrow> reachable env (Down, st)"
| more: "reachable env s \<Longrightarrow> lifecycle env s s' \<Longrightarrow> reachable env s'"

inductive_cases lifecycleE: "lifecycle env s s'"

definition phase_inv :: "'m ServerEnv \<Rightarrow> phase \<times> ('m, 's) ServerState \<Rightarrow> bool" where
  "phase_inv env s = (case s of (Down, st) \<Rightarrow> down_inv env st | (Up, st) \<Rightarrow> up_inv env st)"

lemma same_shape_server_inv:
  assumes "same_shape (ss_common st) cs"
  shows "server_inv env v ds pas svcs (st\<lparr>ss_common := cs\<rparr>) = server_inv env v ds pas svcs st"
proof -
  have sym: "same_shape cs (ss_common st)" using assms by (simp add: same_shape_def)
  have "descriptor_ok cs p = descriptor_ok (ss_common st) p" for p
    using descriptor_ok_extends same_shape_extends [OF assms] same_shape_extends [OF sym] by blast
  then show ?thesis
    using same_shape_registry [OF assms] assms by (simp add: server_inv_def has_table_def same_shape_def)
qed

lemma same_shape_up: "same_shape (ss_common st) cs \<Longrightarrow> up_inv env st \<Longrightarrow> up_inv env (st\<lparr>ss_common := cs\<rparr>)"
  by (auto simp: up_inv_def same_shape_server_inv)

lemma same_shape_down:
  assumes "same_shape (ss_common st) cs" and "\<And>a. inactive cs a = inactive (ss_common st) a" and "down_inv env st"
  shows "down_inv env (st\<lparr>ss_common := cs\<rparr>)"
proof (cases "ss_userServerAnchor st")
  case None
  then show ?thesis by (simp add: down_inv_def)
next
  case (Some v)
  with assms(3) obtain pas svcs where "registry env (ss_common st) v pas svcs"
    "\<forall>p \<in> set pas. \<forall>a \<in> set (svcs p). inactive (ss_common st) a" "ZIS_DEV_MODE env \<or> has_table (ss_common st) v"
    by (auto simp: down_inv_def)
  then have "registry env cs v pas svcs" "\<forall>p \<in> set pas. \<forall>a \<in> set (svcs p). inactive cs a"
    "ZIS_DEV_MODE env \<or> has_table cs v"
    using same_shape_keeps [OF assms(1)] assms(2) by auto
  with Some show ?thesis by (auto simp: down_inv_def)
qed

lemma modify_shape:
  assumes "handleModifyCommands env target st = Some (r, st')"
  obtains cs where "st' = st\<lparr>ss_common := cs\<rparr>" and "same_shape (ss_common st) cs"
proof -
  have "st' = st \<or> (\<exists>a dat cs. modPluginAnchor a (pa_pluginData_update (\<lambda>_. dat)) (ss_common st) = Some cs \<and>
      st' = st\<lparr>ss_common := cs\<rparr>)"
    using assms
    by (simp add: handleModifyCommands_def Let_def split: if_splits option.splits) blast+
  then show thesis
  proof
    assume "st' = st"
    then show thesis using that [of "ss_common st"] by simp
  next
    assume "\<exists>a dat cs. modPluginAnchor a (pa_pluginData_update (\<lambda>_. dat)) (ss_common st) = Some cs \<and>
      st' = st\<lparr>ss_common := cs\<rparr>"
    then obtain a dat cs where m: "modPluginAnchor a (pa_pluginData_update (\<lambda>_. dat)) (ss_common st) = Some cs"
      and st': "st' = st\<lparr>ss_common := cs\<rparr>" by blast
    from m have "same_shape (ss_common st) cs" by (rule modPluginAnchor_shape) simp_all
    with st' that show thesis by blast
  qed
qed

lemma lifecycle_inv:
  assumes "lifecycle env s s'" and "env_ok env" and "map_available env" and "phase_inv env s"
  shows "phase_inv env s'"
  using assms
proof (cases rule: lifecycle.cases)
  case (start c ps ga localServer st r st')
  have "down_inv env (st\<lparr>ss_context := c, ss_plugins := ps\<rparr>)"
    using assms(4) start by (auto simp: phase_inv_def down_inv_def split: option.splits)
  from initServer_inv [OF assms(2,3) this, of ga localServer] start show ?thesis
    by (auto simp: phase_inv_def)
next
  case (route st parm r fn cs ph)
  note sh = route_shape [OF route(3)]
  show ?thesis
    using assms(4) route same_shape_up [OF sh(1)] same_shape_down [OF sh(1) sh(2)]
    by (cases ph) (auto simp: phase_inv_def)
next
  case (modify target st r st')
  from modify(3) obtain cs where "st' = st\<lparr>ss_common := cs\<rparr>" "same_shape (ss_common st) cs"
    by (rule modify_shape)
  with assms(4) modify same_shape_up show ?thesis by (auto simp: phase_inv_def)
next
  case (stop st r st')
  with assms(4) cleanupServer_inv [of env st] show ?thesis by (auto simp: phase_inv_def)
qed

lemma reachable_inv:
  assumes "reachable env s" and "env_ok env" and "map_available env"
  shows "phase_inv env s"
  using assms
proof (induction rule: reachable.induct)
  case (first st)
  then show ?case by (simp add: phase_inv_def down_inv_def)
next
  case (more s s')
  then show ?case using lifecycle_inv by blast
qed

lemma down_route:
  assumes "down_inv env st" and "ss_userServerAnchor st = Some v"
    and "zisRouteService env (Some v) parm (ss_common st) = Some (r, fn, cs)"
  shows "fn = None"
proof (rule ccontr)
  assume "fn \<noteq> None"
  then obtain f where "fn = Some f" by auto
  with assms(3) have served: "zisRouteService env (Some v) parm (ss_common st) = Some (r, Some f, cs)" by simp
  obtain sv t a sa where sa: "cs_servers (ss_common st) v = Some sv" "sv_serviceTable sv = Some t"
    "crossMemoryMapGet env t (rp_targetServicePath parm) = Some a" "cs_services (ss_common st) a = Some sa"
    "sa_serve sa = Some f"
    using route_served [OF served] by (auto simp: admitted_def)
  moreover obtain pas svcs where "registry env (ss_common st) v pas svcs"
    "\<forall>p \<in> set pas. \<forall>a \<in> set (svcs p). inactive (ss_common st) a"
    using assms(1,2) by (auto simp: down_inv_def)
  ultimately have "inactive (ss_common st) a"
    by (fastforce simp: registry_def server_shape_def table_ok_def)
  with sa(4,5) show False
    by (simp add: inactive_def)
qed

section \<open>An environment to evaluate on\<close>

definition demo_service :: ZISService where
  "demo_service = zisCreateSpaceSwitchService ''SERVICE1        '' (Some 70) None (Some 77) 3"

definition demo_plugin :: ZISPlugin where
  "demo_plugin =
     \<lparr>p_eyecatcher = ZIS_PLUGIN_EYECATCHER, p_version = 1, p_size = 1532, p_flags = 0, p_maxServiceCount = 1,
      p_next = None, p_anchor = None, p_name = ''PLUGIN1         '', p_nickname = ''PLG1'',
      p_init = None, p_term = None, p_handleCommand = None, p_pluginVersion = 1, p_serviceCount = 1,
      p_services = [demo_service]\<rparr>"

definition demo_env :: "(ZISServicePath \<Rightarrow> addr option) ServerEnv" where
  "demo_env =
     \<lparr>cmAlloc = (\<lambda>cs n. find (\<lambda>a. \<not> used cs a) [1, 2, 3, 4]),
      makeCrossMemoryMap = (\<lambda>n. Some (\<lambda>_. None)),
      crossMemoryMapGet = (\<lambda>m k. m k),
      crossMemoryMapPut = (\<lambda>m k a. if m k = None then (0, m(k \<mapsto> a)) else (1, m)),
      crossMemoryMapSet = (\<lambda>m k a. Some (m(k \<mapsto> a))),
      cmsTestAuth = (\<lambda>c e. e = ''ZWES.SRV''),
      recoveryPush = (\<lambda>l. 0),
      callback = (\<lambda>f d. (Some 0, case d of None \<Rightarrow> [] | Some x \<Rightarrow> x)),
      commandCallback = (\<lambda>f d c. case d of None \<Rightarrow> [] | Some x \<Rightarrow> x),
      serveCallback = (\<lambda>f p d. (int f, d)),
      lpaAdd = (\<lambda>i dd m. (8, i)),
      lpaDelete = (\<lambda>i. (8, i)),
      loadByNameLocally = (\<lambda>m. Some (Some 0x1000, 0)),
      pluginDescriptor = (\<lambda>ep ps. if \<exists>a. ps a = None
         then (let a = (LEAST a. ps a = None) in (Some (Some a), ps(a \<mapsto> demo_plugin)))
         else (None, ps)),
      sizeof_LPMEA = 40,
      cmsFlagValues = \<lparr>CMS_SERVER_FLAG_COLD_START = 1, CMS_SERVER_FLAG_DEBUG = 2, CMS_SERVER_FLAG_CHECKAUTH = 4,
         CMS_SERVER_FLAG_DEV_MODE = 8, CMS_SERVER_FLAG_DEV_MODE_LPA = 16, CMS_SERVER_FLAG_RESET_LOOKUP = 32\<rparr>,
      ZIS_LPA_DEV_MODE = True, ZIS_DEV_MODE = False\<rparr>"

lemma demo_env_simps:
  "cmAlloc demo_env cs n = find (\<lambda>a. \<not> used cs a) [1, 2, 3, 4]"
  "makeCrossMemoryMap demo_env n = Some (\<lambda>_. None)"
  "crossMemoryMapGet demo_env m = m"
  "crossMemoryMapPut demo_env m k a = (if m k = None then (0, m(k \<mapsto> a)) else (1, m))"
  "crossMemoryMapSet demo_env m k a = Some (m(k \<mapsto> a))"
  "cmsTestAuth demo_env c e = (e = ''ZWES.SRV'')"
  "recoveryPush demo_env l = 0"
  "callback demo_env f d = (Some 0, case d of None \<Rightarrow> [] | Some x \<Rightarrow> x)"
  "serveCallback demo_env f q x = (int f, x)"
  "ZIS_DEV_MODE demo_env = False" "sizeof_LPMEA demo_env = 40"
  by (simp_all add: demo_env_def)

lemma demo_service_anchor [simp]: "s_anchor demo_service = None"
  by (simp add: demo_service_def zisCreateSpaceSwitchService_def zisCreateService_def emptyService_def)

lemma demo_alloc_fresh: "alloc_fresh demo_env"
  by (auto simp: alloc_fresh_def demo_env_def split: if_splits)

lemma demo_map_laws: "map_laws demo_env"
  by (auto simp: map_laws_def demo_env_simps split: if_splits)

lemma demo_descriptor:
  assumes "pluginDescriptor demo_env ep ps = (r, ps')"
  shows "(r = None \<and> ps' = ps \<and> (\<forall>a. ps a \<noteq> None)) \<or> (\<exists>a. r = Some (Some a) \<and> ps a = None \<and> ps' = ps(a \<mapsto> demo_plugin))"
proof (cases "\<exists>a. ps a = None")
  case True
  then have "ps (LEAST a. ps a = None) = None" by (rule LeastI_ex)
  with True assms show ?thesis by (auto simp: demo_env_def Let_def)
next
  case False
  with assms show ?thesis by (auto simp: demo_env_def)
qed

lemma demo_no_lpa: "\<not> wants_lpa demo_env"
  by (auto simp: wants_lpa_def demo_plugin_def dest!: demo_descriptor)

lemma demo_env_ok: "env_ok demo_env"
proof -
  have new: "new_descriptor demo_plugin"
    by (simp add: new_descriptor_def demo_plugin_def plugin_wf_def)
  have "modules_ok demo_env"
    unfolding modules_ok_def
  proof (intro allI impI)
    fix ep ps r ps' assume "pluginDescriptor demo_env ep ps = (r, ps')"
    from demo_descriptor [OF this] new
    show "(\<forall>a. ps a \<noteq> None \<longrightarrow> ps' a = ps a) \<and> (finite (dom ps) \<longrightarrow> finite (dom ps')) \<and>
        (\<forall>pl. r = Some (Some pl) \<longrightarrow> ps pl = None \<and> (\<exists>p. ps' pl = Some p \<and> new_descriptor p))"
      by auto
  qed
  moreover have "descriptors_total demo_env" using demo_no_lpa by (simp add: descriptors_total_def)
  ultimately show ?thesis using demo_alloc_fresh demo_map_laws by (simp add: env_ok_def)
qed

lemma demo_map_available: "map_available demo_env"
  by (simp add: map_available_def demo_env_def)

definition demo_context :: "unit ZISContext" where
  "demo_context = \<lparr>cx_parms = Some empty_set, cx_cmServer = None, cx_cmsGA = None, cx_zisAnchor = None,
     cx_firstPlugin = None, cx_cmsFlags = 0, cx_zisModuleName = ''ZWESIS01'', cx_dynlinkModuleName = ''ZWESISDL''\<rparr>"

definition demo_state :: "(ZISServicePath \<Rightarrow> addr option, unit) ServerState" where
  "demo_state = \<lparr>ss_context = demo_context,
     ss_common = \<lparr>cs_servers = (\<lambda>_. None), cs_plugins = (\<lambda>_. None), cs_services = (\<lambda>_. None)\<rparr>,
     ss_plugins = (\<lambda>_. None), ss_userServerAnchor = None\<rparr>"

lemma demo_fresh: "fresh_context demo_context"
  using empty_set_good [of 0]
  by (auto simp: fresh_context_def demo_context_def parm_good_def parm_inv_def)

lemma demo_down: "reachable demo_env (Down, demo_state)"
  by (rule reachable.first) (simp add: demo_state_def)

text \<open>The server starts on empty common storage.\<close>

lemma demo_start:
  obtains st where "initServer demo_env 900 (Some 901) demo_state = Some (RC_ZIS_OK, st)"
    and "ss_userServerAnchor st = Some 1"
proof -
  have parms: "parm_wf empty_set" using empty_set_good [of 0] by (simp add: parm_good_def parm_inv_def)
  have al: "parm_alist empty_set = []" by (simp add: parm_alist_def empty_set_def)
  have round: "deployRound demo_env dyn empty_set st = Some st" for dyn
      and st :: "(ZISServicePath \<Rightarrow> addr option, unit) ServerState"
    by (simp add: deployRound_def zisIterateParms_wf [OF parms] al)
  have "\<exists>st. initServer demo_env 900 (Some 901) demo_state = Some (RC_ZIS_OK, st) \<and> ss_userServerAnchor st = Some 1"
    by (simp add: initServer_def initGlobalResources_def demo_state_def demo_context_def used_def
        createZISServerAnchor_def initServiceTable_def modServer_def cleanPlugins_def deployPlugins_def
        round chain_each.simps demo_env_simps)
  then show thesis using that by blast
qed

definition demo_common :: "(ZISServicePath \<Rightarrow> addr option) CommonStorage" where
  "demo_common =
     \<lparr>cs_servers = (\<lambda>a. if a = 1 then Some \<lparr>sv_eyecatcher = ZIS_SERVER_ANCHOR_EYECATCHER, sv_version = 1, sv_size = 64,
        sv_flags = 3, sv_serviceTable = Some (\<lambda>_. None), sv_firstPlugin = Some 2\<rparr> else None),
      cs_plugins = (\<lambda>a. if a = 2 then Some (newPluginAnchor 256 demo_plugin) else None), cs_services = (\<lambda>_. None)\<rparr>"

lemma demo_common_registry: "registry demo_env demo_common 1 [2] (\<lambda>_. [])"
  by (simp add: registry_def server_shape_def demo_common_def chains_ok_def pluginNext_def plugin_shape_def
      newPluginAnchor_def table_ok_def demo_env_simps)

definition demo_parms :: "unit ZISParmSet" where
  "demo_parms = \<lparr>ps_slh = plain_heap, ps_firstEntry = Some 0, ps_lastEntry = Some 1,
     ps_entries = [\<lparr>pse_next = Some 1, pse_key = Some ''ZWES.PLUGIN.A'', pse_value = Some ''OTHER''\<rparr>,
                   \<lparr>pse_next = None, pse_key = Some ''ZWES.PLUGIN.D'', pse_value = Some ''ZWESISDL''\<rparr>]\<rparr>"

definition demo_running :: "(ZISServicePath \<Rightarrow> addr option, unit) ServerState" where
  "demo_running = \<lparr>ss_context = demo_context\<lparr>cx_parms := Some demo_parms, cx_zisAnchor := Some 1\<rparr>,
     ss_common = demo_common, ss_plugins = (\<lambda>_. None), ss_userServerAnchor = Some 1\<rparr>"

lemma demo_up:
  obtains st :: "(ZISServicePath \<Rightarrow> addr option, unit) ServerState" where "reachable demo_env (Up, st)" and "ss_userServerAnchor st = Some 1"
proof -
  obtain st where i: "initServer demo_env 900 (Some 901) demo_state = Some (RC_ZIS_OK, st)"
    and ga: "ss_userServerAnchor st = Some 1" by (rule demo_start)
  have same: "demo_state\<lparr>ss_context := demo_context, ss_plugins := (\<lambda>_. None)\<rparr> = demo_state"
    by (simp add: demo_state_def)
  have "lifecycle demo_env (Down, demo_state) (Up, st)"
    using lifecycle.start [of demo_context "\<lambda>_. None" demo_env 900 "Some 901" demo_state RC_ZIS_OK st]
      demo_fresh i same by simp
  then have up: "reachable demo_env (Up, st)" using demo_down by (rule_tac reachable.more)
  with ga that show thesis by blast
qed

text \<open>The server starts with one plug-in.\<close>

definition one_parm :: "unit ZISParmSet" where
  "one_parm = \<lparr>ps_slh = plain_heap, ps_firstEntry = Some 0, ps_lastEntry = Some 0,
     ps_entries = [\<lparr>pse_next = None, pse_key = Some ''ZWES.PLUGIN.A'', pse_value = Some ''OTHER''\<rparr>]\<rparr>"

definition one_plugin_state :: "(ZISServicePath \<Rightarrow> addr option, unit) ServerState" where
  "one_plugin_state = demo_state\<lparr>ss_context := demo_context\<lparr>cx_parms := Some one_parm\<rparr>\<rparr>"

lemma one_parm_wf: "parm_wf one_parm"
  by (auto simp: one_parm_def parm_wf_def parm_linked_def parm_ptr_def entry_full_def less_Suc_eq)

lemma demo_load:
  "tryLoadingPlugin demo_env moduleName (\<lambda>_. None) = (Some 0, (\<lambda>_. None)(0 \<mapsto> demo_plugin))"
proof -
  have "(LEAST a :: nat. True) = 0" by (rule Least_equality) simp_all
  then show ?thesis by (simp add: tryLoadingPlugin_def loadModule_def demo_env_def Let_def)
qed

lemma demo_valid: "isPluginValid demo_env demo_plugin = Some True"
  by (simp add: isPluginValid_def demo_env_simps demo_plugin_def ZIS_PLUGIN_VERSION_def demo_service_def isServiceValid_def
      zisCreateSpaceSwitchService_def zisCreateService_def emptyService_def ZIS_SERVICE_VERSION_def)

lemma demo_anchor:
  assumes "cs = \<lparr>cs_servers = (\<lambda>_. None)(1 \<mapsto> sv), cs_plugins = (\<lambda>_. None), cs_services = (\<lambda>_. None)\<rparr>" and "sv_firstPlugin sv = None"
  shows "\<exists>cs' pa. obtainPluginAnchor demo_env 1 demo_plugin cs = Some (Some 2, cs') \<and> cs_plugins cs' 2 = Some pa \<and>
    \<not> has_flag (pa_flags pa) ZIS_PLUGIN_ANCHOR_FLAG_LPA"
  using assms
  by (simp add: obtainPluginAnchor_def findPluginAnchor_def chain_find.simps zisCreatePluginAnchor_def demo_env_simps used_def
      modPluginAnchor_def modServer_def newPluginAnchor_def)

lemma demo_deploy:
  fixes st :: "(ZISServicePath \<Rightarrow> addr option, unit) ServerState"
  assumes pls: "ss_plugins st = (\<lambda>_. None)" and cx: "cx_firstPlugin (ss_context st) = None" "cx_zisAnchor (ss_context st) = Some 1"
    and cs: "ss_common st = \<lparr>cs_servers = (\<lambda>_. None)(1 \<mapsto> sv), cs_plugins = (\<lambda>_. None), cs_services = (\<lambda>_. None)\<rparr>"
    and sv: "sv_firstPlugin sv = None" "sv_serviceTable sv = Some (\<lambda>_. None)"
  shows "\<exists>st'. deployModule demo_env moduleName st = Some st' \<and> cx_firstPlugin (ss_context st') = Some 0"
proof -
  let ?ps = "(\<lambda>_. None)(0 \<mapsto> demo_plugin)"
  have reg: "registry demo_env (ss_common st) 1 [] (\<lambda>_. [])" and tab: "has_table (ss_common st) 1"
    using cs sv by (simp_all add: registry_def server_shape_def chains_ok_def table_ok_def has_table_def demo_env_simps)
  obtain cs' pa where ob: "obtainPluginAnchor demo_env 1 demo_plugin (ss_common st) = Some (Some 2, cs')"
    and pa: "cs_plugins cs' 2 = Some pa" "\<not> has_flag (pa_flags pa) ZIS_PLUGIN_ANCHOR_FLAG_LPA"
    using demo_anchor [OF cs sv(1)] by blast
  obtain pas svcs where reg': "registry demo_env cs' 1 pas svcs" "has_table cs' 1" "2 \<in> set pas"
    using obtainPluginAnchor_effect [OF reg tab demo_alloc_fresh, of demo_plugin] ob by auto
  let ?st1 = "st\<lparr>ss_common := cs', ss_plugins := ?ps\<rparr>"
  have inv: "server_inv demo_env 1 [] pas svcs ?st1"
    using reg' cx by (simp add: server_inv_def)
  have p: "ss_plugins ?st1 0 = Some demo_plugin" "descriptor_ok (ss_common ?st1) demo_plugin"
    by (simp_all add: new_descriptor_ok new_descriptor_def demo_plugin_def plugin_wf_def)
  obtain st2 where st2: "addPlugin (Some 0) ?st1 = Some st2" "server_inv demo_env 1 [0] pas svcs st2"
    using addPlugin_inv [OF inv p] by auto
  then have first: "cx_firstPlugin (ss_context st2) = Some 0" by (auto simp: server_inv_def)
  obtain r st3 where st3: "startPlugin demo_env 1 0 2 st2 = Some (r, st3)" "ss_context st3 = ss_context st2"
    using startPlugin_inv [OF demo_map_laws demo_alloc_fresh st2(2) reg'(3)] by blast
  have "\<not> has_flag (p_flags demo_plugin) ZIS_PLUGIN_FLAG_LPA" by (simp add: demo_plugin_def)
  then have "relocatePluginToLPAIfNeeded demo_env fl 0 2 moduleName (cs', ?ps) = Some (0, Some 0, cs', ?ps)" for fl
    using pa by (simp add: relocatePluginToLPAIfNeeded_def discardLPA_def)
  then have "installPlugin demo_env 0 moduleName (st\<lparr>ss_plugins := ?ps\<rparr>) = Some (r, st3)"
    using cx ob st2(1) st3(1) by (simp add: installPlugin_def)
  then have "deployModule demo_env moduleName st = Some st3"
    using pls cx demo_valid by (simp add: deployModule_def demo_load isDuplicatePlugin_def getPluginByName_def getPluginByNickname_def chain_find.simps)
  with st3(2) first show ?thesis by simp
qed

lemma demo_up_with_plugin:
  obtains st :: "(ZISServicePath \<Rightarrow> addr option, unit) ServerState"
  where "reachable demo_env (Up, st)" and "cx_firstPlugin (ss_context st) = Some 0"
proof -
  have al: "parm_alist one_parm = [(''ZWES.PLUGIN.A'', ''OTHER'')]" by (simp add: one_parm_def parm_alist_def entry_pair_def)
  have round: "deployRound demo_env dyn one_parm st =
      (if dyn then Some st else deployModule demo_env (space_pad 8 ''OTHER'') st)"
    if "cx_dynlinkModuleName (ss_context st) = ''ZWESISDL''" for dyn and st :: "(ZISServicePath \<Rightarrow> addr option, unit) ServerState"
    using that by (simp add: deployRound_def zisIterateParms_wf [OF one_parm_wf] al pluginVisitor_def visitPluginParm_def
        plugin_prefix_def isPluginSuitable_def)
  have "\<exists>st2. initServer demo_env 900 (Some 901) one_plugin_state = map_option (Pair 0) (deployPlugins demo_env st2) \<and>
      ss_plugins st2 = (\<lambda>_. None) \<and> cx_firstPlugin (ss_context st2) = None \<and> cx_zisAnchor (ss_context st2) = Some 1 \<and>
      cx_dynlinkModuleName (ss_context st2) = ''ZWESISDL'' \<and> cx_parms (ss_context st2) = Some one_parm \<and>
      (\<exists>sv. ss_common st2 = \<lparr>cs_servers = (\<lambda>_. None)(1 \<mapsto> sv), cs_plugins = (\<lambda>_. None), cs_services = (\<lambda>_. None)\<rparr> \<and>
         sv_firstPlugin sv = None \<and> sv_serviceTable sv = Some (\<lambda>_. None))"
    by (simp add: initServer_def initGlobalResources_def one_plugin_state_def demo_state_def demo_context_def used_def
        createZISServerAnchor_def initServiceTable_def modServer_def cleanPlugins_def chain_each.simps demo_env_simps)
      (rule exI, rule conjI, rule refl, simp, rule exI, rule conjI, rule refl, simp)
  then obtain st2 sv where st2: "initServer demo_env 900 (Some 901) one_plugin_state = map_option (Pair 0) (deployPlugins demo_env st2)"
    "ss_plugins st2 = (\<lambda>_. None)" "cx_firstPlugin (ss_context st2) = None" "cx_zisAnchor (ss_context st2) = Some 1"
    "cx_dynlinkModuleName (ss_context st2) = ''ZWESISDL''" "cx_parms (ss_context st2) = Some one_parm"
    "ss_common st2 = \<lparr>cs_servers = (\<lambda>_. None)(1 \<mapsto> sv), cs_plugins = (\<lambda>_. None), cs_services = (\<lambda>_. None)\<rparr>"
    "sv_firstPlugin sv = None" "sv_serviceTable sv = Some (\<lambda>_. None)" by blast
  from demo_deploy [OF st2(2-4) st2(7-9)] obtain st where st: "deployModule demo_env (space_pad 8 ''OTHER'') st2 = Some st"
    "cx_firstPlugin (ss_context st) = Some 0" by blast
  have i: "initServer demo_env 900 (Some 901) one_plugin_state = Some (0, st)"
    using st2(1,5,6) st(1) by (simp add: deployPlugins_def round)
  have fresh: "fresh_context (demo_context\<lparr>cx_parms := Some one_parm\<rparr>)"
    using one_parm_wf by (simp add: fresh_context_def demo_context_def)
  have same: "one_plugin_state = demo_state\<lparr>ss_context := demo_context\<lparr>cx_parms := Some one_parm\<rparr>, ss_plugins := (\<lambda>_. None)\<rparr>"
    by (simp add: one_plugin_state_def demo_state_def)
  have "lifecycle demo_env (Down, demo_state) (if (0 :: rc) = RC_ZIS_OK then Up else Down, st)"
    using i by (intro lifecycle.start [OF fresh]) (simp_all add: same)
  then have "reachable demo_env (Up, st)" using demo_down by (auto intro: reachable.more)
  with st(2) that show thesis by blast
qed

section \<open>Properties\<close>

text \<open>
  C1. The router enters a service's function exactly when the request is admitted: the parameter
  list has the router's eyecatcher and a version it knows, the path is in the service table, the
  service is active and recent enough for the version asked for (or any version will do), and where
  the service wants a specific authorization the caller has it.
\<close>

theorem router_admission:
  "(\<exists>r cs'. zisRouteService env ga parm cs = Some (r, Some fn, cs')) \<longleftrightarrow>
   (\<exists>a sa. admitted env ga parm cs a sa fn)"
proof
  assume "\<exists>r cs'. zisRouteService env ga parm cs = Some (r, Some fn, cs')"
  then show "\<exists>a sa. admitted env ga parm cs a sa fn" using route_served by blast
next
  assume "\<exists>a sa. admitted env ga parm cs a sa fn"
  then show "\<exists>r cs'. zisRouteService env ga parm cs = Some (r, Some fn, cs')"
    by (auto simp: admitted_def zisRouteService_def callServe_def modService_def linorder_not_less
        split: prod.splits)
qed

text \<open>
  C29. While no server is up, the router still answers every request and never enters a service's
  function. This holds in every state that servers can leave behind by starting, serving, handling
  commands and stopping in any order and any number of times, once a server anchor is there, for a server
  built without \<open>ZIS_DEV_MODE\<close> (with it the service table is gone after a stop). It relies on cleaning
  reaching every anchor the service table leads to, and on the environment: the cross-memory map can be
  made and keeps its laws, common storage is allocated where none is in use, descriptor functions of
  modules leave other descriptors alone and answer new ones, and where a plug-in asks for the LPA every
  descriptor function does return a descriptor.
\<close>

theorem router_idle_when_down:
  assumes "reachable env (Down, st)" and "env_ok env" and "map_available env" and "\<not> ZIS_DEV_MODE env"
    and "ss_userServerAnchor st = Some v"
  shows "\<exists>r. zisRouteService env (ss_userServerAnchor st) parm (ss_common st) = Some (r, None, ss_common st) \<and>
     r \<in> {RC_ZIS_SRVC_BAD_EYECATCHER, RC_ZIS_SRVC_BAD_ROUTER_VERSION, RC_ZIS_SRVC_SERVICE_NOT_FOUND,
           RC_ZIS_SRVC_BAD_SERVICE_VERSION, RC_ZIS_SRVC_SERVICE_INACTIVE}"
proof -
  have inv: "down_inv env st" using reachable_inv [OF assms(1-3)] by (simp add: phase_inv_def)
  then obtain pas svcs where reg: "registry env (ss_common st) v pas svcs" and tab: "has_table (ss_common st) v"
    and off: "\<forall>p \<in> set pas. \<forall>a \<in> set (svcs p). inactive (ss_common st) a"
    using assms(4,5) by (auto simp: down_inv_def)
  obtain sv t where sv: "cs_servers (ss_common st) v = Some sv" "sv_serviceTable sv = Some t"
    using tab by (auto simp: has_table_def server_shape_def)
  have entry: "inactive (ss_common st) a" if "crossMemoryMapGet env t path = Some a" for path a
    using reg sv off that by (fastforce simp: registry_def server_shape_def table_ok_def)
  show ?thesis
  proof (cases "crossMemoryMapGet env t (rp_targetServicePath parm)")
    case None
    then show ?thesis using sv assms(5) by (auto simp: zisRouteService_def)
  next
    case (Some a)
    with entry obtain sa where "cs_services (ss_common st) a = Some sa"
      "\<not> has_flag (sa_state sa) ZIS_SERVICE_ANCHOR_STATE_ACTIVE"
      by (fastforce simp: inactive_def split: option.splits)
    with Some sv assms(5) show ?thesis by (auto simp: zisRouteService_def)
  qed
qed

theorem router_idle_when_down_witness:
  "\<exists>st. ss_userServerAnchor st = Some 1 \<and> reachable demo_env (Down, st) \<and>
     (\<exists>r. zisRouteService demo_env (ss_userServerAnchor st)
        \<lparr>rp_eyecatcher = ''ZISSREYE'', rp_version = 1, rp_size = 0,
         rp_targetServicePath = \<lparr>pluginName = ''PLUGIN1         '', serviceName = ''SERVICE1        ''\<rparr>,
         rp_targetServiceParm = None, rp_serviceVersion = 1\<rparr> (ss_common st)
      = Some (r, None, ss_common (st :: (ZISServicePath \<Rightarrow> addr option, unit) ServerState)))"
proof -
  obtain st :: "(ZISServicePath \<Rightarrow> addr option, unit) ServerState"
    where up: "reachable demo_env (Up, st)" and ga: "ss_userServerAnchor st = Some 1" by (rule demo_up)
  have "up_inv demo_env st"
    using reachable_inv [OF up demo_env_ok demo_map_available] by (simp add: phase_inv_def)
  then obtain st' where c: "cleanupServer demo_env st = Some (0, st')" using cleanupServer_inv by blast
  then have down: "reachable demo_env (Down, st')" using up lifecycle.stop by (blast intro: reachable.more)
  have ga': "ss_userServerAnchor st' = Some 1"
    using c ga terminatePlugins_effect \<open>up_inv demo_env st\<close>
    by (fastforce simp: cleanupServer_def up_inv_def demo_env_simps split: option.splits)
  have nodev: "\<not> ZIS_DEV_MODE demo_env" by (simp add: demo_env_simps)
  show ?thesis
    using router_idle_when_down [OF down demo_env_ok demo_map_available nodev ga'] ga' down by metis
qed

text \<open>
  C25. No server gets stuck. The environment is relied on for this: the cross-memory map can be made and
  keeps its laws, common storage is allocated where none is in use, descriptor functions of modules leave
  other descriptors alone and answer new, well-formed ones, and where a plug-in asks for the LPA every
  descriptor function does return a descriptor (a \<open>NULL\<close> one would be used unchecked). Then in every
  reachable state with a server up, \<open>cleanupServer\<close> returns \<open>RC_CMS_OK\<close>, and in every reachable state with
  no server up, \<open>initServer\<close> on a fresh context returns, with \<open>RC_ZIS_OK\<close> and a server that is up again, or
  with an error that leaves the state ready for another start. All loops over the chains end.
\<close>

theorem servers_never_stuck:
  assumes "env_ok env" and "map_available env"
  shows "(reachable env (Up, st) \<longrightarrow> (\<exists>st'. cleanupServer env st = Some (0, st') \<and> reachable env (Down, st'))) \<and>
     (reachable env (Down, st) \<longrightarrow> fresh_context c \<longrightarrow> finite (dom ps) \<longrightarrow>
        (\<exists>r st'. initServer env ga localServer (st\<lparr>ss_context := c, ss_plugins := ps\<rparr>) = Some (r, st') \<and>
           reachable env (if r = RC_ZIS_OK then Up else Down, st')))"
proof (intro conjI impI)
  assume up: "reachable env (Up, st)"
  then have "up_inv env st" using reachable_inv [OF _ assms] by (fastforce simp: phase_inv_def)
  then obtain st' where c: "cleanupServer env st = Some (0, st')" using cleanupServer_inv by blast
  moreover have "reachable env (Down, st')" using up c lifecycle.stop by (blast intro: reachable.more)
  ultimately show "\<exists>st'. cleanupServer env st = Some (0, st') \<and> reachable env (Down, st')" by blast
next
  assume down: "reachable env (Down, st)" and c: "fresh_context c" and fin: "finite (dom ps)"
  let ?st = "st\<lparr>ss_context := c, ss_plugins := ps\<rparr>"
  have "down_inv env ?st"
    using reachable_inv [OF down assms] by (auto simp: phase_inv_def down_inv_def split: option.splits)
  moreover have "fresh_context (ss_context ?st)" "finite (dom (ss_plugins ?st))" using c fin by simp_all
  ultimately obtain r st' where i: "initServer env ga localServer ?st = Some (r, st')"
    using initServer_inv [OF assms, of ?st ga localServer] by blast
  have "reachable env (if r = RC_ZIS_OK then Up else Down, st')"
    using down lifecycle.start [OF c fin i] by (rule reachable.more)
  with i show "\<exists>r st'. initServer env ga localServer ?st = Some (r, st') \<and>
      reachable env (if r = RC_ZIS_OK then Up else Down, st')" by blast
qed

theorem servers_never_stuck_witness:
  "env_ok demo_env \<and> map_available demo_env \<and>
   (\<exists>r st'. initServer demo_env 900 (Some 901) (demo_state\<lparr>ss_context := demo_context, ss_plugins := (\<lambda>_. None)\<rparr>)
      = Some (r, st'))"
  using servers_never_stuck [OF demo_env_ok demo_map_available, of demo_state demo_context "\<lambda>_. None" 900 "Some 901"]
    demo_down demo_fresh demo_env_ok demo_map_available by auto

text \<open>
  C30. While a server is up whose plug-ins do not ask to be moved to the LPA, the descriptors on its chain
  have pairwise different names and pairwise different nicknames, so that a modify command has one
  target. (A descriptor received in the LPA replaces the one that was checked and is not checked again, so
  nothing can be said about it.) The environment is relied on: the cross-memory map can be made and keeps
  its laws, common storage is allocated where none is in use, and descriptor functions of modules leave
  other descriptors alone and answer new, well-formed ones, or none.
\<close>

theorem plugins_unique_when_up:
  assumes "reachable env (Up, st)" and "env_ok env" and "map_available env" and "\<not> wants_lpa env"
  shows "\<exists>ds. chain (descriptorNext (ss_plugins st)) (cx_firstPlugin (ss_context st)) ds \<and>
     distinct (map (\<lambda>d. map_option p_name (ss_plugins st d)) ds) \<and>
     distinct (map (\<lambda>d. map_option p_nickname (ss_plugins st d)) ds)"
proof -
  have "up_inv env st" using reachable_inv [OF assms(1-3)] by (simp add: phase_inv_def)
  then show ?thesis
    using assms(4)
    by (auto simp: up_inv_def server_inv_def unique_plugins_def ident_def option.map_comp o_def)
qed

theorem plugins_unique_when_up_witness:
  "\<exists>st. reachable demo_env (Up, st :: (ZISServicePath \<Rightarrow> addr option, unit) ServerState) \<and>
     (\<exists>ds. chain (descriptorNext (ss_plugins st)) (cx_firstPlugin (ss_context st)) ds \<and> ds \<noteq> [] \<and>
        distinct (map (\<lambda>d. map_option p_nickname (ss_plugins st d)) ds))"
proof -
  obtain st :: "(ZISServicePath \<Rightarrow> addr option, unit) ServerState"
    where up: "reachable demo_env (Up, st)" and one: "cx_firstPlugin (ss_context st) = Some 0" by (rule demo_up_with_plugin)
  obtain ds where ds: "chain (descriptorNext (ss_plugins st)) (cx_firstPlugin (ss_context st)) ds"
    "distinct (map (\<lambda>d. map_option p_nickname (ss_plugins st d)) ds)"
    using plugins_unique_when_up [OF up demo_env_ok demo_map_available demo_no_lpa] by blast
  moreover have "ds \<noteq> []" using ds(1) one by auto
  ultimately show ?thesis using up by blast
qed

text \<open>
  Plug-ins are deployed in a fixed order: one sequence of modules, first those whose parameter
  names the dynamic linkage module, then all others, each in the order of the parameters; parameters
  with another prefix or with a module name of more than 8 characters are left out.
\<close>

theorem dynlink_deployed_first:
  assumes "env_ok env" and "server_inv env v ds pas svcs st"
    and "cx_parms (ss_context st) = Some parms" and "parm_wf parms"
  shows "deployPlugins env st =
     fold_opt (deployModule env)
       (map (space_pad 8 \<circ> snd)
          (filter (\<lambda>(k, m). take 12 k = ''ZWES.PLUGIN.'' \<and> m = cx_dynlinkModuleName (ss_context st) \<and> length m \<le> 8)
             (parm_alist parms)) @
        map (space_pad 8 \<circ> snd)
          (filter (\<lambda>(k, m). take 12 k = ''ZWES.PLUGIN.'' \<and> m \<noteq> cx_dynlinkModuleName (ss_context st) \<and> length m \<le> 8)
             (parm_alist parms))) st"
proof -
  have len: "length plugin_prefix = 12" by (simp add: plugin_prefix_def)
  have "plugin_modules dl dyn al =
      map (space_pad 8 \<circ> snd) (filter (\<lambda>(k, m). take 12 k = ''ZWES.PLUGIN.'' \<and>
        (if dyn then m = dl else m \<noteq> dl) \<and> length m \<le> 8) al)" for dl dyn al
    unfolding plugin_modules_def len by (simp add: isPluginSuitable_def plugin_prefix_def case_prod_beta' o_def)
  then show ?thesis using deployPlugins_modules [OF assms] by simp
qed

theorem dynlink_deployed_first_witness:
  "deployPlugins demo_env demo_running = fold_opt (deployModule demo_env) [''ZWESISDL'', ''OTHER   ''] demo_running"
proof -
  have inv: "server_inv demo_env 1 [] [2] (\<lambda>_. []) demo_running"
    using demo_common_registry
    by (simp add: server_inv_def demo_running_def demo_context_def has_table_def server_shape_def demo_common_def)
  have wf: "parm_wf demo_parms"
    by (auto simp: demo_parms_def parm_wf_def parm_linked_def parm_ptr_def entry_full_def less_Suc_eq)
  have parms: "cx_parms (ss_context demo_running) = Some demo_parms"
    by (simp add: demo_running_def demo_context_def)
  show ?thesis
    by (subst dynlink_deployed_first [OF demo_env_ok inv parms wf])
      (simp add: demo_parms_def parm_alist_def entry_pair_def demo_running_def demo_context_def space_pad_def numeral_3_eq_3)
qed

text \<open>
  C20. After \<open>installServices\<close> has returned \<open>RC_ZIS_OK\<close> for a plug-in whose services have different
  names, every service whose init function succeeded can be reached: a request for its path, in a
  version the service has, enters the service's own function, or is refused with
  \<open>RC_ZIS_SRVC_SPECIFIC_AUTH_FAILED\<close> when the service asks for an authorization that the caller does
  not have.
\<close>

theorem installed_services_reachable:
  assumes "map_laws env" and "alloc_fresh env" and "registry env cs v pas svcs" and "p \<in> set pas"
    and "named_chain cs (p_name plugin) (svcs p)" and "ps pl = Some plugin" and "plugin_wf plugin"
    and "distinct (map s_name (plugin_table plugin))"
    and "installServices env v pl p (cs, ps) = Some (RC_ZIS_OK, cs', ps')"
    and "s \<in> set (plugin_table plugin)" and "init_succeeds env s" and "s_serve s = Some fn"
    and "rp_eyecatcher parm = ZIS_SERVICE_ROUTER_EYECATCHER" and "rp_version parm \<le> ZIS_SERVICE_ROUTER_VERSION"
    and "rp_serviceVersion parm \<le> s_serviceVersion s \<or> rp_serviceVersion parm = ZIS_SERVICE_ANY_VERSION"
    and "rp_targetServicePath parm = \<lparr>pluginName = p_name plugin, serviceName = s_name s\<rparr>"
  shows "\<exists>r cs''. zisRouteService env (Some v) parm cs' =
     (if has_flag (s_flags s) ZIS_SERVICE_FLAG_SPECIFIC_AUTH \<and> \<not> cmsTestAuth env (s_safClassName s) (s_safEntityName s)
      then Some (RC_ZIS_SRVC_SPECIFIC_AUTH_FAILED, None, cs') else Some (r, Some fn, cs''))"
proof -
  have "routes_to env cs' v (rp_targetServicePath parm) s"
    using installServices_routes [where ps = ps and pl = pl, OF assms(1-11)] assms(16) by (simp add: service_path_def)
  from route_installed [OF this assms(12-15)] show ?thesis .
qed

lemma demo_install:
  obtains cs' ps' where "installServices demo_env 1 5 2 (demo_common, \<lambda>a. if a = 5 then Some demo_plugin else None)
     = Some (RC_ZIS_OK, cs', ps')"
proof -
  have "\<exists>cs' ps'. installServices demo_env 1 5 2 (demo_common, \<lambda>a. if a = 5 then Some demo_plugin else None)
     = Some (RC_ZIS_OK, cs', ps')"
    by (simp add: installServices_def demo_plugin_def installService_def obtainServiceAnchor_def
        findServiceAnchor_def demo_common_def newPluginAnchor_def chain_find.simps discardIfIncompatible_def
        zisCreateServiceAnchor_def demo_env_simps used_def linkServiceAnchor_def modService_def modPluginAnchor_def
        callServiceInit_def serviceCall_def guardedCall_def demo_service_def zisCreateSpaceSwitchService_def
        zisCreateService_def emptyService_def putService_def newServiceAnchor_def modServer_def activateService_def)
  then show thesis using that by blast
qed

theorem installed_services_reachable_witness:
  "\<exists>cs' ps' r cs''. installServices demo_env 1 5 2 (demo_common, \<lambda>a. if a = 5 then Some demo_plugin else None)
     = Some (RC_ZIS_OK, cs', ps') \<and>
   zisRouteService demo_env (Some 1)
     \<lparr>rp_eyecatcher = ''ZISSREYE'', rp_version = 1, rp_size = 0,
      rp_targetServicePath = \<lparr>pluginName = ''PLUGIN1         '', serviceName = ''SERVICE1        ''\<rparr>,
      rp_targetServiceParm = None, rp_serviceVersion = 2\<rparr> cs' = Some (r, Some 77, cs'')"
proof -
  let ?ps = "\<lambda>a :: nat. if a = 5 then Some demo_plugin else None"
  let ?parm = "\<lparr>rp_eyecatcher = ''ZISSREYE'', rp_version = 1, rp_size = 0,
      rp_targetServicePath = \<lparr>pluginName = ''PLUGIN1         '', serviceName = ''SERVICE1        ''\<rparr>,
      rp_targetServiceParm = None, rp_serviceVersion = 2\<rparr>"
  obtain cs' ps' where i: "installServices demo_env 1 5 2 (demo_common, ?ps) = Some (RC_ZIS_OK, cs', ps')"
    by (rule demo_install)
  note ds = demo_service_def zisCreateSpaceSwitchService_def zisCreateService_def emptyService_def
  have s: "plugin_table demo_plugin = [demo_service]" by (simp add: plugin_table_def demo_plugin_def)
  have "\<exists>r cs''. zisRouteService demo_env (Some 1) ?parm cs' =
     (if has_flag (s_flags demo_service) ZIS_SERVICE_FLAG_SPECIFIC_AUTH \<and>
         \<not> cmsTestAuth demo_env (s_safClassName demo_service) (s_safEntityName demo_service)
      then Some (RC_ZIS_SRVC_SPECIFIC_AUTH_FAILED, None, cs') else Some (r, Some 77, cs''))"
    by (rule installed_services_reachable [where ps = ?ps and pl = 5 and plugin = demo_plugin,
          OF demo_map_laws demo_alloc_fresh demo_common_registry _ _ _ _ _ i])
      (simp_all add: s named_chain_def ds demo_plugin_def plugin_wf_def plugin_table_def init_succeeds_def
        demo_env_simps ZIS_SERVICE_ROUTER_EYECATCHER_def ZIS_SERVICE_ROUTER_VERSION_def)
  moreover have "\<not> has_flag (s_flags demo_service) ZIS_SERVICE_FLAG_SPECIFIC_AUTH"
    by (simp add: ds has_flag_def flag_defs)
  ultimately show ?thesis using i by auto
qed

text \<open>
  Moving a plug-in to the LPA: when \<open>relocatePluginToLPAIfNeeded\<close> succeeds for a plug-in that
  wants the LPA, its anchor is marked as having a module there, and that module is the one found
  only if it was present, has the plug-in's version and the LPA development mode is off; otherwise
  it is the module that \<open>lpaAdd\<close> just loaded. In both cases the descriptor comes from that
  module's entry point, with the addressing mode bit masked out.
\<close>

theorem relocation_uses_current_module:
  assumes "relocatePluginToLPAIfNeeded env fl pl anchor moduleName (cs, ps) = Some (RC_ZIS_OK, pl', cs', ps')"
    and "ps pl = Some plugin" and "cs_plugins cs anchor = Some pa"
    and "has_flag (p_flags plugin) ZIS_PLUGIN_FLAG_LPA"
  shows "\<exists>pa'. cs_plugins cs' anchor = Some pa' \<and> has_flag (pa_flags pa') ZIS_PLUGIN_ANCHOR_FLAG_LPA \<and>
     (if has_flag (pa_flags pa) ZIS_PLUGIN_ANCHOR_FLAG_LPA \<and> pa_pluginVersion pa = p_pluginVersion plugin \<and>
         \<not> zisIsLPADevModeOn env fl
      then pa' = pa
      else \<exists>old. lpaAdd env old ''STEPLIB '' moduleName = (0, pa_moduleInfo pa')) \<and>
     pluginDescriptor env (lp_entryPointAddr (pa_moduleInfo pa') AND 0xFFFFFFFE) ps = (Some pl', ps')"
proof -
  have set1: "has_flag (set_flag w ZIS_PLUGIN_ANCHOR_FLAG_LPA) ZIS_PLUGIN_ANCHOR_FLAG_LPA" for w
    by (rule set_flag_has) (simp add: flag_defs)
  have cleared: "\<not> has_flag (pa_flags (forgetLPA x)) ZIS_PLUGIN_ANCHOR_FLAG_LPA" for x
    by (simp add: forgetLPA_def)
  from assms obtain cs1 where d: "discardLPA env fl plugin anchor pa cs = Some (0, cs1)"
    by (auto simp: relocatePluginToLPAIfNeeded_def split: option.splits if_splits prod.splits)
  from assms d obtain cs2 where a: "addToLPA env anchor moduleName cs1 = Some (0, cs2)"
    by (auto simp: relocatePluginToLPAIfNeeded_def split: option.splits if_splits prod.splits)
  from assms d a obtain pa2 where p2: "cs_plugins cs2 anchor = Some pa2" and cs': "cs' = cs2"
    and ep: "pluginDescriptor env (lp_entryPointAddr (pa_moduleInfo pa2) AND 0xFFFFFFFE) ps = (Some pl', ps')"
    by (auto simp: relocatePluginToLPAIfNeeded_def split: option.splits prod.splits)
  let ?keep = "has_flag (pa_flags pa) ZIS_PLUGIN_ANCHOR_FLAG_LPA \<and> pa_pluginVersion pa = p_pluginVersion plugin \<and>
         \<not> zisIsLPADevModeOn env fl"
  obtain pa1 where p1: "cs_plugins cs1 anchor = Some pa1"
    and keep: "if ?keep then pa1 = pa else \<not> has_flag (pa_flags pa1) ZIS_PLUGIN_ANCHOR_FLAG_LPA"
    using d assms(3) cleared
    by (auto simp: discardLPA_def modPluginAnchor_def Let_def split: if_splits prod.splits)
  have "has_flag (pa_flags pa2) ZIS_PLUGIN_ANCHOR_FLAG_LPA \<and>
      (if has_flag (pa_flags pa1) ZIS_PLUGIN_ANCHOR_FLAG_LPA then pa2 = pa1
       else lpaAdd env (pa_moduleInfo pa1) ''STEPLIB '' moduleName = (0, pa_moduleInfo pa2))"
    using a p1 p2 set1 by (auto simp: addToLPA_def modPluginAnchor_def split: if_splits prod.splits)
  with keep p2 cs' ep show ?thesis by (auto split: if_splits)
qed

definition lpa_env :: "(ZISServicePath \<Rightarrow> addr option) ServerEnv" where
  "lpa_env = demo_env\<lparr>ZIS_LPA_DEV_MODE := False, lpaAdd := (\<lambda>i dd m. (0, \<lparr>lp_name = m, lp_entryPointAddr = 0x81000001\<rparr>)),
     pluginDescriptor := (\<lambda>ep ps. (Some (Some (unat ep)), ps(unat ep \<mapsto> demo_plugin)))\<rparr>"

theorem relocation_uses_current_module_witness:
  "\<exists>cs' ps'. relocatePluginToLPAIfNeeded lpa_env 0 5 2 ''PLUGMOD '' (demo_common, [5 \<mapsto> demo_plugin\<lparr>p_flags := 1\<rparr>])
     = Some (RC_ZIS_OK, Some 0x81000000, cs', ps') \<and>
   (\<exists>pa'. cs_plugins cs' 2 = Some pa' \<and> has_flag (pa_flags pa') ZIS_PLUGIN_ANCHOR_FLAG_LPA)"
proof -
  have lpa1: "has_flag 1 1" by (simp add: has_flag_def)
  have "\<exists>cs' ps'. relocatePluginToLPAIfNeeded lpa_env 0 5 2 ''PLUGMOD '' (demo_common, [5 \<mapsto> demo_plugin\<lparr>p_flags := 1\<rparr>])
     = Some (RC_ZIS_OK, Some 0x81000000, cs', ps')"
    by (simp add: relocatePluginToLPAIfNeeded_def demo_common_def discardLPA_def newPluginAnchor_def
        addToLPA_def lpa_env_def modPluginAnchor_def flag_defs lpa1)
  then obtain cs' ps' where r: "relocatePluginToLPAIfNeeded lpa_env 0 5 2 ''PLUGMOD ''
      (demo_common, [5 \<mapsto> demo_plugin\<lparr>p_flags := 1\<rparr>]) = Some (RC_ZIS_OK, Some 0x81000000, cs', ps')" by blast
  have "has_flag (p_flags (demo_plugin\<lparr>p_flags := 1\<rparr>)) ZIS_PLUGIN_FLAG_LPA" by (simp add: flag_defs lpa1)
  from relocation_uses_current_module [OF r _ _ this, of "newPluginAnchor 256 demo_plugin"] r show ?thesis
    by (auto simp: demo_common_def)
qed

text \<open>
  \<open>isPluginValid\<close> does not reject a plug-in for an invalid service: its answer on a descriptor
  whose counters fit its storage depends on the recovery facility, the eyecatcher and the version
  alone, since the \<open>break\<close> at an invalid service leaves only the loop over the services.
\<close>

theorem isPluginValid_ignores_services:
  assumes "plugin_wf plugin"
  shows "isPluginValid env plugin =
     Some (recoveryPush env ''isPluginValid()'' = 0 \<and> p_eyecatcher plugin = ZIS_PLUGIN_EYECATCHER \<and>
           p_version plugin \<le> ZIS_PLUGIN_VERSION)"
proof -
  have "\<not> p_serviceCount plugin > p_maxServiceCount plugin"
    using assms by (simp add: plugin_wf_def linorder_not_less word_le_nat_alt)
  moreover obtain u where
    "validateServices_loop (p_services plugin) [0..<unat (p_serviceCount plugin)] = Some u"
    using validateServices_loop_total [of "[0..<unat (p_serviceCount plugin)]" "p_services plugin"] assms
    by (auto simp: plugin_wf_def)
  ultimately show ?thesis by (auto simp: isPluginValid_def)
qed

theorem isPluginValid_ignores_services_witness:
  "\<not> isServiceValid emptyService \<and>
   isPluginValid demo_env (demo_plugin\<lparr>p_services := [emptyService]\<rparr>) = Some True"
proof -
  have "plugin_wf (demo_plugin\<lparr>p_services := [emptyService]\<rparr>)" by (simp add: plugin_wf_def demo_plugin_def)
  moreover have "replicate 8 CHR 0x00 \<noteq> ''ZISSRVCE''" by (simp add: numeral_eq_Suc)
  ultimately show ?thesis using isPluginValid_ignores_services [of "demo_plugin\<lparr>p_services := [emptyService]\<rparr>" demo_env]
    by (simp add: isServiceValid_def emptyService_def ZIS_SERVICE_EYECATCHER_def nul_def demo_plugin_def
        demo_env_simps ZIS_PLUGIN_VERSION_def)
qed

text \<open>
  \<open>handleModifyCommands\<close> has no effective check of the length of a command's target: a target of
  more than four characters is copied behind the end of the nickname.
\<close>

theorem modify_command_overflow:
  assumes "length target > 4"
  shows "handleModifyCommands env (Some target) st = None"
  using assms by (auto simp: handleModifyCommands_def)

theorem modify_command_overflow_witness:
  "handleModifyCommands demo_env (Some ''PLUGIN'') demo_state = None"
  using modify_command_overflow [of "''PLUGIN''" demo_env demo_state] by simp

text \<open>
  A target of at most four characters is safe: with a server up, \<open>handleModifyCommands\<close> returns
  \<open>RC_CMS_OK\<close>, and changes neither a service anchor nor the server anchor nor the links and names of
  the plug-in anchors.
\<close>

theorem modify_command_safe:
  assumes "reachable env (Up, st)" and "env_ok env" and "map_available env" and "length target \<le> 4"
  shows "\<exists>cs. handleModifyCommands env (Some target) st = Some (0, st\<lparr>ss_common := cs\<rparr>) \<and>
     cs_services cs = cs_services (ss_common st) \<and> cs_servers cs = cs_servers (ss_common st) \<and>
     same_shape (ss_common st) cs"
proof -
  obtain v ds pas svcs where inv: "server_inv env v ds pas svcs st"
    using reachable_inv [OF assms(1-3)] by (auto simp: phase_inv_def up_inv_def)
  let ?nick = "space_pad 4 target" and ?ps = "ss_plugins st"
  have ch: "chain (\<lambda>a. map_option p_next (?ps a)) (cx_firstPlugin (ss_context st)) ds"
    using inv by (simp add: server_inv_def descriptorNext_def [abs_def])
  have fd: "getPluginByNickname (cx_firstPlugin (ss_context st)) ?nick ?ps =
      Some (find (\<lambda>a. p_nickname (the (?ps a)) = ?nick) ds)"
    using chain_find_list [OF ch] by (simp add: getPluginByNickname_def)
  have none: ?thesis if "handleModifyCommands env (Some target) st = Some (0, st)"
    using that by (intro exI [of _ "ss_common st"]) simp
  show ?thesis
  proof (cases "find (\<lambda>a. p_nickname (the (?ps a)) = ?nick) ds")
    case None
    with fd assms(4) show ?thesis by (intro none) (simp add: handleModifyCommands_def)
  next
    case (Some pl)
    then obtain p where p: "?ps pl = Some p" "descriptor_ok (ss_common st) p"
      using inv find_Some_mem [OF Some] by (auto simp: server_inv_def)
    show ?thesis
    proof (cases "p_handleCommand p \<noteq> None \<and> p_anchor p \<noteq> None")
      case False
      with fd Some p assms(4) show ?thesis
        by (intro none) (auto simp: handleModifyCommands_def split: option.splits)
    next
      case True
      then obtain fn a pa where fa: "p_handleCommand p = Some fn" "p_anchor p = Some a"
        "cs_plugins (ss_common st) a = Some pa"
        using p(2) by (auto simp: descriptor_ok_def)
      let ?dat = "commandCallback env fn (Some (pa_pluginData pa)) (Some target)"
      obtain cs where m: "modPluginAnchor a (pa_pluginData_update (\<lambda>_. ?dat)) (ss_common st) = Some cs"
        using fa by (simp add: modPluginAnchor_def)
      have "same_shape (ss_common st) cs" using m by (rule modPluginAnchor_shape) simp_all
      moreover have "cs_services cs = cs_services (ss_common st)" "cs_servers cs = cs_servers (ss_common st)"
        using m fa(3) by (auto simp: modPluginAnchor_def)
      moreover have "handleModifyCommands env (Some target) st = Some (0, st\<lparr>ss_common := cs\<rparr>)"
        using fd Some p fa m assms(4) by (simp add: handleModifyCommands_def)
      ultimately show ?thesis by blast
    qed
  qed
qed

theorem modify_command_safe_witness:
  "\<exists>st cs. reachable demo_env (Up, st :: (ZISServicePath \<Rightarrow> addr option, unit) ServerState) \<and>
     handleModifyCommands demo_env (Some ''PLG1'') st = Some (0, st\<lparr>ss_common := cs\<rparr>)"
proof -
  obtain st :: "(ZISServicePath \<Rightarrow> addr option, unit) ServerState"
    where up: "reachable demo_env (Up, st)" by (rule demo_up)
  with modify_command_safe [OF up demo_env_ok demo_map_available, of "''PLG1''"] show ?thesis by auto
qed

text \<open>
  When the service table cannot be made, \<open>initServiceTable\<close> still returns \<open>RC_ZIS_OK\<close> and leaves
  the table pointer \<open>NULL\<close>, so that a later request with a valid parameter list has no defined result.
\<close>

theorem initServiceTable_failure_unreported:
  assumes "cs_servers cs v = Some sv" and "sv_serviceTable sv = None"
    and "makeCrossMemoryMap env sizeof_ZISServicePath = None"
    and "rp_eyecatcher parm = ZIS_SERVICE_ROUTER_EYECATCHER" and "rp_version parm = ZIS_SERVICE_ROUTER_VERSION"
  shows "\<exists>cs'. initServiceTable env v cs = Some (RC_ZIS_OK, cs') \<and> zisRouteService env (Some v) parm cs' = None"
  using assms by (auto simp: initServiceTable_def modServer_def zisRouteService_def)

theorem initServiceTable_failure_unreported_witness:
  "\<exists>cs'. initServiceTable (demo_env\<lparr>makeCrossMemoryMap := (\<lambda>n. None)\<rparr>) 1
     (snd (createZISServerAnchor (Some 1) (ss_common demo_state))) = Some (RC_ZIS_OK, cs')"
proof -
  let ?cs = "snd (createZISServerAnchor (Some 1) (ss_common demo_state))"
  obtain sv where sv: "cs_servers ?cs 1 = Some sv" "sv_serviceTable sv = None"
    by (simp add: createZISServerAnchor_def)
  let ?parm = "\<lparr>rp_eyecatcher = ZIS_SERVICE_ROUTER_EYECATCHER, rp_version = ZIS_SERVICE_ROUTER_VERSION, rp_size = 0,
      rp_targetServicePath = \<lparr>pluginName = [], serviceName = []\<rparr>, rp_targetServiceParm = None, rp_serviceVersion = 1\<rparr>"
  show ?thesis
    using initServiceTable_failure_unreported [of ?cs 1 sv "demo_env\<lparr>makeCrossMemoryMap := (\<lambda>n. None)\<rparr>" ?parm] sv by auto
qed

end
