(* ===== verification/ZIS_Main.thy ===== *)
theory ZIS_Main
  imports ZIS_Server
begin

text \<open>
  Configuration and main function of the cross-memory server (the second half of
  src/c/zis/server.c): the context, the PARMLIB member's name, the configuration flags, the
  server's name and pool sizes, the creation of the core server and the sequence \<open>run\<close>.

  The core server of zowe-common-c is a parameter: an object of a type \<open>'srv\<close> with the functions the
  code calls on it (\<open>CoreEnv\<close>), among them the product's prefix \<open>CMS_PROD_ID\<close> and the return
  code and name of the CSVQUERY service. Messages are left out.
\<close>

section \<open>The environment\<close>

record ('srv, 's) CoreEnv =
  CMS_PROD_ID :: string
  cmsFlagVals :: CMSFlags
  currentModuleName :: "rc \<times> string"
  madeShortLivedHeap :: "'s ShortLivedHeap option"
  parmlib :: iefprmlb
  workBufferOK :: bool
  cmsMakeServerName :: "string \<Rightarrow> string"
  CMS_DEFAULT_SERVER_NAME :: string
  makeCrossMemoryServer2 :: "string \<Rightarrow> flags \<Rightarrow> (addr \<times> 'srv) option"
  cmsSetPoolParameters :: "'srv \<Rightarrow> 32 word \<Rightarrow> 32 word \<Rightarrow> 'srv"
  cmsAddConfigParm :: "'srv \<Rightarrow> string option \<Rightarrow> string option \<Rightarrow> rc \<times> 'srv"
  cmsRegisterService :: "'srv cmsRegister"
  cmsStartMainLoop :: "'srv \<Rightarrow> 's ZISContext \<Rightarrow> rc \<times> 's ZISContext"

section \<open>The context\<close>

definition makeContext :: "'s ZISContext" where
  "makeContext =
     \<lparr>cx_parms = None, cx_cmServer = None, cx_cmsGA = None, cx_zisAnchor = None, cx_firstPlugin = None,
      cx_cmsFlags = 0, cx_zisModuleName = replicate 8 nul, cx_dynlinkModuleName = []\<rparr>"

definition cleanContext :: "'s ZISContext \<Rightarrow> 's ZISContext" where
  "cleanContext context =
     context\<lparr>cx_zisAnchor := None, cx_cmsGA := None, cx_cmServer := None, cx_parms := None\<rparr>"

text \<open>\<open>initContext\<close>: the dynamic linkage module has the first four characters of this module.\<close>

definition initContext :: "('srv, 's) CoreEnv \<Rightarrow> 's ZISContext \<Rightarrow> rc \<times> 's ZISContext" where
  "initContext env context =
     (let (modRC, name) = currentModuleName env
      in if modRC \<noteq> 0 then (RC_ZIS_ERROR, context)
         else (RC_ZIS_OK, context\<lparr>cx_zisModuleName := name,
                                  cx_dynlinkModuleName := cstr (take 4 name) @ ''ISDL''\<rparr>))"

section \<open>Configuration\<close>

definition extractPARMLIBMemberName :: "'s ZISContext \<Rightarrow> (rc \<times> string) option" where
  "extractPARMLIBMemberName context =
     (case cx_parms context of
        None \<Rightarrow> None
      | Some parms \<Rightarrow>
          (case zisGetParmValue parms ''MEM'' of
             None \<Rightarrow> None
           | Some suffix \<Rightarrow>
               (let memberSuffix = (case suffix of None \<Rightarrow> ''00'' | Some s \<Rightarrow> s)
                in if length memberSuffix = 2
                   then Some (RC_ZIS_OK, cstr (take 4 (cx_zisModuleName context)) @ ''IP'' @ memberSuffix)
                   else Some (RC_ZIS_ERROR, []))))"

text \<open>
  \<open>loadConfig\<close>: \<open>mainParms\<close> is the JCL parameter string, \<open>None\<close> when register 1 was zero. It is read
  whether or not there is one. The two codes of the PARMLIB status are only logged.
\<close>

definition loadConfig ::
    "('srv, 's) CoreEnv \<Rightarrow> string option \<Rightarrow> 's ZISContext \<Rightarrow> (rc \<times> 's ZISContext) option" where
  "loadConfig env mainParms context =
     (case zisMakeParmSet (madeShortLivedHeap env) of
        None \<Rightarrow> None
      | Some None \<Rightarrow> Some (RC_ZIS_ERROR, context\<lparr>cx_parms := None\<rparr>)
      | Some (Some parms0) \<Rightarrow>
          (case mainParms of
             None \<Rightarrow> None
           | Some text \<Rightarrow>
               (case zisReadMainParms (workBufferOK env) parms0 text of
                  None \<Rightarrow> None
                | Some (readMainParmsRC, parms1) \<Rightarrow>
                    (let context1 = context\<lparr>cx_parms := Some parms1\<rparr>
                     in if readMainParmsRC \<noteq> RC_ZISPARM_OK then Some (RC_ZIS_ERROR, context1)
                        else case extractPARMLIBMemberName context1 of
                               None \<Rightarrow> None
                             | Some (parmlibRC, memberName) \<Rightarrow>
                                 (if parmlibRC \<noteq> RC_ZIS_OK then Some (RC_ZIS_ERROR, context1)
                                  else case zisReadParmlib (parmlib env) parms1 ''PARMLIB'' memberName
                                              \<lparr>st_internalRC = 0, st_internalRSN = 0\<rparr> of
                                         None \<Rightarrow> None
                                       | Some (readParmRC, _, parms2) \<Rightarrow>
                                           Some (if readParmRC \<noteq> RC_ZISPARM_OK then RC_ZIS_ERROR else RC_ZIS_OK,
                                                 context1\<lparr>cx_parms := Some parms2\<rparr>))))))"

text \<open>\<open>getCMSConfigFlags\<close>; \<open>p && strlen(p) == 0\<close> and \<open>p && !strcmp(p, v)\<close> as functions.\<close>

definition is_empty_parm :: "string option \<Rightarrow> bool" where
  "is_empty_parm v = (v = Some [])"

definition is_value_parm :: "string option \<Rightarrow> string \<Rightarrow> bool" where
  "is_value_parm v x = (v = Some x)"

definition flag_if :: "bool \<Rightarrow> flags \<Rightarrow> flags \<Rightarrow> flags" where
  "flag_if b f fl = (if b then set_flag fl f else fl)"

definition getCMSConfigFlags :: "('srv, 's) CoreEnv \<Rightarrow> 's ZISParmSet \<Rightarrow> flags option" where
  "getCMSConfigFlags env zisParms =
     (let v = cmsFlagVals env; key = (\<lambda>s. CMS_PROD_ID env @ s) in
      case (zisGetParmValue zisParms ''COLD'', zisGetParmValue zisParms ''DEBUG'',
            zisGetParmValue zisParms (key ''.CHECKAUTH''), zisGetParmValue zisParms (key ''.DEV_MODE''),
            zisGetParmValue zisParms (key ''.DEV_MODE.LPA''), zisGetParmValue zisParms ''RESET(LOOKUP)'') of
        (Some coldStartValue, Some debugValue, Some checkAuthValue, Some devMode, Some lpaDevMode, Some resetLookup) \<Rightarrow>
          (let fl1 = flag_if (is_empty_parm coldStartValue) (CMS_SERVER_FLAG_COLD_START v) 0;
               fl2 = flag_if (is_empty_parm debugValue) (CMS_SERVER_FLAG_DEBUG v) fl1;
               fl3 = flag_if (is_value_parm checkAuthValue ''YES'') (CMS_SERVER_FLAG_CHECKAUTH v) fl2;
               fl4 = flag_if (is_value_parm devMode ''YES'') (CMS_SERVER_FLAG_DEV_MODE v) fl3;
               fl5 = flag_if (is_value_parm lpaDevMode ''YES'') (CMS_SERVER_FLAG_DEV_MODE_LPA v) fl4
           in case resetLookup of
                None \<Rightarrow> Some fl5
              | Some _ \<Rightarrow>
                  (case coldStartValue of
                     None \<Rightarrow> None
                   | Some cold \<Rightarrow> Some (flag_if (length cold = 0) (CMS_SERVER_FLAG_RESET_LOOKUP v) fl5)))
      | _ \<Rightarrow> None)"

text \<open>
  \<open>sscanf(s, "%u", ...)\<close>: white space, an optional sign and at least one digit; the value is taken
  modulo \<open>2 ^ 32\<close>.
\<close>

definition isdigit :: "char \<Rightarrow> bool" where
  "isdigit c \<longleftrightarrow> 48 \<le> (of_char c :: nat) \<and> (of_char c :: nat) \<le> 57"

definition digits_value :: "string \<Rightarrow> nat" where
  "digits_value ds = foldl (\<lambda>n c. 10 * n + (of_char c - 48)) 0 ds"

definition sscanf_u :: "string \<Rightarrow> 32 word option" where
  "sscanf_u s =
     (let t = dropWhile isspace s;
          neg = (t \<noteq> [] \<and> hd t = CHR ''-'');
          ds = takeWhile isdigit (if t \<noteq> [] \<and> (hd t = CHR ''-'' \<or> hd t = CHR ''+'') then tl t else t)
      in if ds = [] then None
         else Some (if neg then - of_nat (digits_value ds) else of_nat (digits_value ds)))"

definition poolSize :: "string option \<Rightarrow> 32 word \<Rightarrow> 32 word" where
  "poolSize val defaultSize =
     (case val of
        None \<Rightarrow> defaultSize
      | Some str \<Rightarrow> (case sscanf_u str of None \<Rightarrow> defaultSize | Some n \<Rightarrow> n))"

definition updateCMServerSettings :: "('srv, 's) CoreEnv \<Rightarrow> 's ZISParmSet \<Rightarrow> 'srv \<Rightarrow> 'srv option" where
  "updateCMServerSettings env parms server =
     (case (zisGetParmValue parms (CMS_PROD_ID env @ ''.PCSS_STACK_POOL_SIZE''),
            zisGetParmValue parms (CMS_PROD_ID env @ ''.PCSS_RECOVERY_POOL_SIZE'')) of
        (Some stackPoolSizeStr, Some recoveryPoolSizeStr) \<Rightarrow>
          Some (cmsSetPoolParameters env server (poolSize stackPoolSizeStr 1024) (poolSize recoveryPoolSizeStr 8192))
      | _ \<Rightarrow> None)"

definition getCMServerName :: "('srv, 's) CoreEnv \<Rightarrow> 's ZISParmSet \<Rightarrow> string option" where
  "getCMServerName env zisParms =
     (case zisGetParmValue zisParms ''NAME'' of
        None \<Rightarrow> None
      | Some (Some name) \<Rightarrow> Some (cmsMakeServerName env name)
      | Some None \<Rightarrow>
          (case zisGetParmValue zisParms (CMS_PROD_ID env @ ''.NAME'') of
             None \<Rightarrow> None
           | Some (Some name) \<Rightarrow> Some (cmsMakeServerName env name)
           | Some None \<Rightarrow> Some (CMS_DEFAULT_SERVER_NAME env)))"

section \<open>The core server and the main sequence\<close>

text \<open>The state is the context and the server object its \<open>cmServer\<close> points to.\<close>

definition initCoreServer ::
    "('srv, 's) CoreEnv \<Rightarrow> 's ZISContext \<Rightarrow> (rc \<times> 's ZISContext \<times> 'srv option) option" where
  "initCoreServer env context =
     (case cx_parms context of
        None \<Rightarrow> None
      | Some parms \<Rightarrow>
          (case (getCMServerName env parms, getCMSConfigFlags env parms) of
             (Some serverName, Some fl) \<Rightarrow>
               (let context1 = context\<lparr>cx_cmsFlags := fl\<rparr>
                in case makeCrossMemoryServer2 env serverName fl of
                     None \<Rightarrow> Some (RC_ZIS_ERROR, context1, None)
                   | Some (addr, server0) \<Rightarrow>
                       (case updateCMServerSettings env parms server0 of
                          None \<Rightarrow> None
                        | Some server1 \<Rightarrow>
                            (let context2 = context1\<lparr>cx_cmServer := Some addr\<rparr>
                             in case zisLoadParmsToCMServer (cmsAddConfigParm env) server1 parms 0 of
                                  None \<Rightarrow> None
                                | Some (loadParmRC, _, server2) \<Rightarrow>
                                    Some (if loadParmRC \<noteq> RC_ZISPARM_OK then RC_ZIS_ERROR else RC_ZIS_OK,
                                          context2, Some server2))))
           | _ \<Rightarrow> None))"

definition runCoreServer :: "('srv, 's) CoreEnv \<Rightarrow> 'srv \<Rightarrow> 's ZISContext \<Rightarrow> rc \<times> 's ZISContext" where
  "runCoreServer env server context =
     (let (startRC, context') = cmsStartMainLoop env server context
      in (if startRC \<noteq> 0 then RC_ZIS_ERROR else RC_ZIS_OK, context'))"

text \<open>\<open>run\<close>: each step is taken only when the one before succeeded; the context is always cleaned.\<close>

definition runSteps :: "('srv, 's) CoreEnv \<Rightarrow> string option \<Rightarrow> (rc \<times> 's ZISContext) option" where
  "runSteps env mainParms =
     (let (s1, c1) = initContext env makeContext
      in if s1 \<noteq> RC_ZIS_OK then Some (s1, c1)
         else case loadConfig env mainParms c1 of
                None \<Rightarrow> None
              | Some (s2, c2) \<Rightarrow>
                  (if s2 \<noteq> RC_ZIS_OK then Some (s2, c2)
                   else case initCoreServer env c2 of
                          None \<Rightarrow> None
                        | Some (s3, c3, srv) \<Rightarrow>
                            (if s3 \<noteq> RC_ZIS_OK then Some (s3, c3)
                             else case srv of
                                    None \<Rightarrow> None
                                  | Some server \<Rightarrow>
                                      (let (s4, server') = registerCoreServices (cmsRegisterService env) server
                                       in if s4 \<noteq> RC_ZIS_OK then Some (s4, c3)
                                          else Some (runCoreServer env server' c3)))))"

definition run :: "('srv, 's) CoreEnv \<Rightarrow> string option \<Rightarrow> (rc \<times> 's ZISContext) option" where
  "run env mainParms = map_option (\<lambda>(status, context). (status, cleanContext context)) (runSteps env mainParms)"

section \<open>Lemmas\<close>

lemma makeParmSet_good:
  assumes "slh_zeroed slh" and "slh_serves (set_cost + N) slh"
  obtains ps where "zisMakeParmSet (Some slh) = Some (Some ps)" and "parm_good N ps"
    and "parm_alist ps = [(ZIS_PARM_TEST_PARM_NAME, ZIS_PARM_TEST_PARM_VALUE)]"
proof -
  obtain r h where a: "SLHAlloc slh sizeof_ZISParmSet = (r, h)" by fastforce
  have t: "r \<noteq> None" "slh_serves (put_cost (ZIS_PARM_TEST_PARM_NAME, ZIS_PARM_TEST_PARM_VALUE) + N) h"
    using SLHAlloc_serves [OF a] assms(2) by (simp_all add: add.assoc sizeof_ZISParmSet_def)
  let ?ps0 = "\<lparr>ps_slh = h, ps_firstEntry = None, ps_lastEntry = None, ps_entries = []\<rparr>"
  have "parm_good (put_cost (ZIS_PARM_TEST_PARM_NAME, ZIS_PARM_TEST_PARM_VALUE) + N) ?ps0"
    using assms SLHAlloc_props [OF a] t
    by (simp add: parm_good_def parm_inv_def parm_wf_def parm_linked_def parm_ptr_def)
  then obtain ps where p: "zisPutParmValue ?ps0 ZIS_PARM_TEST_PARM_NAME ZIS_PARM_TEST_PARM_VALUE = Some (0, ps)"
    "parm_good N ps" "parm_alist ps = AList.update ZIS_PARM_TEST_PARM_NAME ZIS_PARM_TEST_PARM_VALUE (parm_alist ?ps0)"
    using put_good by blast
  with a t that show thesis by (auto simp: zisMakeParmSet_def parm_alist_def)
qed

lemma good_get: "parm_good N ps \<Longrightarrow> zisGetParmValue ps n = Some (map_of (parm_alist ps) n)"
  by (simp add: parm_good_def parm_inv_def zisGetParmValue_wf)

text \<open>The member's name always fits the eight bytes that \<open>zisReadParmlib\<close> has for it.\<close>

lemma member_name_fits:
  assumes "extractPARMLIBMemberName context = Some (RC_ZIS_OK, name)"
  shows "length name \<le> 8"
proof -
  from assms obtain suffix where "name = cstr (take 4 (cx_zisModuleName context)) @ ''IP'' @ suffix" "length suffix = 2"
    by (auto simp: extractPARMLIBMemberName_def Let_def split: option.splits if_splits)
  moreover have "length (cstr (take 4 (cx_zisModuleName context))) \<le> 4"
    unfolding cstr_def by (rule order_trans [OF length_takeWhile_le]) simp
  ultimately show ?thesis by simp
qed

lemma flag_if_same: "f \<noteq> 0 \<Longrightarrow> has_flag (flag_if b f fl) f = (b \<or> has_flag fl f)"
  by (simp add: flag_if_def set_flag_has)

lemma flag_if_other: "f AND g = 0 \<Longrightarrow> has_flag (flag_if b f fl) g = has_flag fl g"
  by (simp add: flag_if_def has_flag_set_other)

text \<open>The core server's flags are separate bits.\<close>

definition separate_flags :: "CMSFlags \<Rightarrow> bool" where
  "separate_flags v \<longleftrightarrow>
     (let fs = [CMS_SERVER_FLAG_COLD_START v, CMS_SERVER_FLAG_DEBUG v, CMS_SERVER_FLAG_CHECKAUTH v,
                CMS_SERVER_FLAG_DEV_MODE v, CMS_SERVER_FLAG_DEV_MODE_LPA v, CMS_SERVER_FLAG_RESET_LOOKUP v]
      in 0 \<notin> set fs \<and> sorted_wrt (\<lambda>f g. f AND g = 0 \<and> g AND f = 0) fs)"

section \<open>Properties\<close>

text \<open>
  The configuration flags: on a well-formed parameter set each of the flags for cold start,
  debugging, authorization check and the two development modes is set exactly when its parameter has
  the documented value (empty, or \<open>YES\<close>). \<open>RESET(LOOKUP)\<close> is different: the code looks at the value of
  \<open>COLD\<close> instead of its own, so that it takes effect only together with an empty \<open>COLD\<close>, and uses a
  \<open>NULL\<close> pointer when \<open>COLD\<close> is not given.
\<close>

theorem config_flags_exact:
  assumes "parm_wf ps" and "separate_flags (cmsFlagVals env)"
  defines "val \<equiv> map_of (parm_alist ps)" and "v \<equiv> cmsFlagVals env" and "pid \<equiv> CMS_PROD_ID env"
  shows "if val ''RESET(LOOKUP)'' \<noteq> None \<and> val ''COLD'' = None then getCMSConfigFlags env ps = None
     else \<exists>fl. getCMSConfigFlags env ps = Some fl \<and>
       has_flag fl (CMS_SERVER_FLAG_COLD_START v) = (val ''COLD'' = Some []) \<and>
       has_flag fl (CMS_SERVER_FLAG_DEBUG v) = (val ''DEBUG'' = Some []) \<and>
       has_flag fl (CMS_SERVER_FLAG_CHECKAUTH v) = (val (pid @ ''.CHECKAUTH'') = Some ''YES'') \<and>
       has_flag fl (CMS_SERVER_FLAG_DEV_MODE v) = (val (pid @ ''.DEV_MODE'') = Some ''YES'') \<and>
       has_flag fl (CMS_SERVER_FLAG_DEV_MODE_LPA v) = (val (pid @ ''.DEV_MODE.LPA'') = Some ''YES'') \<and>
       has_flag fl (CMS_SERVER_FLAG_RESET_LOOKUP v) = (val ''RESET(LOOKUP)'' \<noteq> None \<and> val ''COLD'' = Some [])"
proof -
  note get = zisGetParmValue_wf [OF assms(1)]
  have sep: "CMS_SERVER_FLAG_COLD_START v \<noteq> 0" "CMS_SERVER_FLAG_DEBUG v \<noteq> 0" "CMS_SERVER_FLAG_CHECKAUTH v \<noteq> 0"
    "CMS_SERVER_FLAG_DEV_MODE v \<noteq> 0" "CMS_SERVER_FLAG_DEV_MODE_LPA v \<noteq> 0" "CMS_SERVER_FLAG_RESET_LOOKUP v \<noteq> 0"
    and dis: "sorted_wrt (\<lambda>f g. f AND g = 0 \<and> g AND f = 0)
      [CMS_SERVER_FLAG_COLD_START v, CMS_SERVER_FLAG_DEBUG v, CMS_SERVER_FLAG_CHECKAUTH v,
       CMS_SERVER_FLAG_DEV_MODE v, CMS_SERVER_FLAG_DEV_MODE_LPA v, CMS_SERVER_FLAG_RESET_LOOKUP v]"
    using assms(2) unfolding separate_flags_def v_def Let_def by auto
  note ds = dis [simplified]
  show ?thesis
    unfolding getCMSConfigFlags_def get v_def [symmetric] pid_def [symmetric] val_def [symmetric]
    by (cases "val ''RESET(LOOKUP)''"; cases "val ''COLD''")
      (simp_all add: Let_def is_empty_parm_def is_value_parm_def flag_if_same flag_if_other sep ds)
qed

definition demo_core :: "(string list, unit) CoreEnv" where
  "demo_core =
     \<lparr>CMS_PROD_ID = ''ZWES'',
      cmsFlagVals = \<lparr>CMS_SERVER_FLAG_COLD_START = 1, CMS_SERVER_FLAG_DEBUG = 2, CMS_SERVER_FLAG_CHECKAUTH = 4,
         CMS_SERVER_FLAG_DEV_MODE = 8, CMS_SERVER_FLAG_DEV_MODE_LPA = 16, CMS_SERVER_FLAG_RESET_LOOKUP = 32\<rparr>,
      currentModuleName = (0, ''ZWESIS01''), madeShortLivedHeap = Some plain_heap,
      parmlib = \<lparr>pl_alloc = (\<lambda>dd. (0, 0)), pl_read = (\<lambda>dd mem n. (0, 0, 0, [''NAME=B'', ''ZWES.X=1''])),
         pl_free = (\<lambda>dd. (0, 0)), pl_malloc31 = (\<lambda>n. True)\<rparr>,
      workBufferOK = True, cmsMakeServerName = (\<lambda>n. n), CMS_DEFAULT_SERVER_NAME = ''ZWESIS_STD'',
      makeCrossMemoryServer2 = (\<lambda>n fl. Some (1, [])), cmsSetPoolParameters = (\<lambda>srv a b. srv),
      cmsAddConfigParm = (\<lambda>srv k v. (0, srv)), cmsRegisterService = (\<lambda>srv n fn fl. (0, srv @ [fn])),
      cmsStartMainLoop = (\<lambda>srv c. (0, c))\<rparr>"

theorem config_flags_exact_witness:
  "\<exists>fl. getCMSConfigFlags demo_core
     \<lparr>ps_slh = plain_heap, ps_firstEntry = Some 0, ps_lastEntry = Some 0,
      ps_entries = [\<lparr>pse_next = None, pse_key = Some ''ZWES.CHECKAUTH'', pse_value = Some ''YES''\<rparr>]\<rparr> = Some fl \<and>
     has_flag fl 4 \<and> \<not> has_flag fl 1"
proof -
  let ?ps = "\<lparr>ps_slh = plain_heap, ps_firstEntry = Some 0, ps_lastEntry = Some 0,
      ps_entries = [\<lparr>pse_next = None, pse_key = Some ''ZWES.CHECKAUTH'', pse_value = Some ''YES''\<rparr>]\<rparr>"
  have wf: "parm_wf ?ps" by (simp add: parm_wf_def parm_linked_def parm_ptr_def entry_full_def)
  have sep: "separate_flags (cmsFlagVals demo_core)" by (simp add: separate_flags_def demo_core_def)
  from config_flags_exact [OF wf sep] show ?thesis
    by (auto simp: parm_alist_def entry_pair_def demo_core_def)
qed

text \<open>
  The server's name: a \<open>NAME\<close> parameter comes before the product's own \<open>.NAME\<close> parameter, and
  that before the default name.
\<close>

theorem server_name_precedence:
  assumes "parm_wf ps"
  shows "getCMServerName env ps =
     Some (case (map_of (parm_alist ps) ''NAME'', map_of (parm_alist ps) (CMS_PROD_ID env @ ''.NAME'')) of
             (Some name, _) \<Rightarrow> cmsMakeServerName env name
           | (None, Some name) \<Rightarrow> cmsMakeServerName env name
           | (None, None) \<Rightarrow> CMS_DEFAULT_SERVER_NAME env)"
  unfolding getCMServerName_def zisGetParmValue_wf [OF assms] by (simp split: option.splits)

theorem server_name_precedence_witness:
  "getCMServerName demo_core empty_set = Some ''ZWESIS_STD''"
proof -
  have "parm_wf empty_set" using empty_set_good [of 0] by (simp add: parm_good_def parm_inv_def)
  from server_name_precedence [OF this, of demo_core] show ?thesis
    by (simp add: parm_alist_def empty_set_def demo_core_def)
qed

text \<open>
  C32. The whole configuration: \<open>loadConfig\<close> on a JCL parameter string without stray separators and a PARMLIB member. The
  member is the one named by the module and the \<open>MEM\<close> parameter (\<open>00\<close> without one); this suffix must have exactly two
  characters, and then the name always fits. The DD is allocated, now or before, the member can be read in the default
  buffer or in one of the size that IEFPRMLB then asks for, storage for these buffers and for the parser can be allocated,
  the joined lines fit the record buffer, and the heap that is made, zeroed and limited, is large enough for the
  parameters of both sources. Then \<open>loadConfig\<close> returns \<open>RC_ZIS_OK\<close>, and the parameter set answers for every name the last
  value in the member, else the last value in the JCL string, else the built-in test parameter.
\<close>

theorem loadConfig_values:
  assumes heap: "madeShortLivedHeap env = Some slh" "slh_zeroed slh" "workBufferOK env"
      "slh_serves (set_cost + parms_cost kvs + records_cost (member_records [] records)) slh"
    and kvs: "list_all clean_parm kvs" "length (case map_of (rev kvs) ''MEM'' of None \<Rightarrow> ''00'' | Some s \<Rightarrow> s) = 2"
    and member: "member = cstr (take 4 (cx_zisModuleName context)) @ ''IP'' @
                   (case map_of (rev kvs) ''MEM'' of None \<Rightarrow> ''00'' | Some s \<Rightarrow> s)"
    and alloc: "fst (pl_alloc (parmlib env) ''PARMLIB '') = RC_IEFPRMLB_OK \<or>
                pl_alloc (parmlib env) ''PARMLIB '' = (RC_IEFPRMLB_WARN, RSN_IEFPRMLB_ALREADY_ALLOCATED)"
    and storage: "pl_malloc31 (parmlib env) READ_BUFFER_DEFAULT_SIZE" "pl_malloc31 (parmlib env) n"
    and full: "n \<noteq> READ_BUFFER_DEFAULT_SIZE \<Longrightarrow> n > sizeof_IEFPRMLBHeader \<and>
         pl_read (parmlib env) ''PARMLIB '' (space_pad 8 member) READ_BUFFER_DEFAULT_SIZE
           = (RC_IEFPRMLB_FAILED, RSN_IEFPRMLB_BUFFER_FULL, n, part)"
    and read: "pl_read (parmlib env) ''PARMLIB '' (space_pad 8 member) n = (RC_IEFPRMLB_OK, rsn, sz, records)"
    and fits: "member_fits [] records"
  shows "\<exists>ps. loadConfig env (Some (parm_text kvs)) context = Some (RC_ZIS_OK, context\<lparr>cx_parms := Some ps\<rparr>) \<and>
     parm_inv ps \<and>
     (\<forall>n. zisGetParmValue ps n = Some
        (case map_of (rev (map parmKeyValue (member_records [] records))) n of
           Some v \<Rightarrow> Some v
         | None \<Rightarrow> (case map_of (rev kvs) n of
                      Some v \<Rightarrow> Some v
                    | None \<Rightarrow> if n = ZIS_PARM_TEST_PARM_NAME then Some ZIS_PARM_TEST_PARM_VALUE else None)))"
proof -
  let ?mem = "records_cost (member_records [] records)"
  obtain ps0 where p0: "zisMakeParmSet (Some slh) = Some (Some ps0)" "parm_good (parms_cost kvs + ?mem) ps0"
    "parm_alist ps0 = [(ZIS_PARM_TEST_PARM_NAME, ZIS_PARM_TEST_PARM_VALUE)]"
    using makeParmSet_good [OF heap(2) heap(4) [unfolded add.assoc [of set_cost]]] .
  obtain ps1 where p1: "zisReadMainParms True ps0 (parm_text kvs) = Some (RC_ZISPARM_OK, ps1)" "parm_good ?mem ps1"
    and g1: "\<And>n. zisGetParmValue ps1 n =
          (case map_of (rev kvs) n of Some v \<Rightarrow> Some (Some v) | None \<Rightarrow> zisGetParmValue ps0 n)"
    using readMainParms_text [OF p0(2) kvs(1)] by blast
  have g0: "zisGetParmValue ps0 n = Some (if n = ZIS_PARM_TEST_PARM_NAME then Some ZIS_PARM_TEST_PARM_VALUE else None)" for n
    using good_get [OF p0(2)] p0(3) by simp
  let ?c1 = "context\<lparr>cx_parms := Some ps1\<rparr>"
  have "ZIS_PARM_TEST_PARM_NAME \<noteq> ''MEM''" by (simp add: ZIS_PARM_TEST_PARM_NAME_def)
  then have mem: "zisGetParmValue ps1 ''MEM'' = Some (map_of (rev kvs) ''MEM'')"
    using g1 [of "''MEM''"] g0 [of "''MEM''"] by (auto split: option.splits)
  have ext: "extractPARMLIBMemberName ?c1 = Some (RC_ZIS_OK, member)"
    using mem kvs(2) by (simp add: extractPARMLIBMemberName_def member Let_def)
  have pad: "space_pad 8 ''PARMLIB'' = ''PARMLIB ''" by (simp add: space_pad_def)
  obtain ps2 where p2: "zisReadParmlib (parmlib env) ps1 ''PARMLIB'' member \<lparr>st_internalRC = 0, st_internalRSN = 0\<rparr>
      = Some (RC_ZISPARM_OK, \<lparr>st_internalRC = 0, st_internalRSN = 0\<rparr>, ps2)" "parm_good 0 ps2"
    and g2: "\<And>k. zisGetParmValue ps2 k =
        (case map_of (rev (map parmKeyValue (member_records [] records))) k of
           Some v \<Rightarrow> Some (Some v) | None \<Rightarrow> zisGetParmValue ps1 k)"
    using readParmlib_member [where dd = "''PARMLIB''" and mem = member and lib = "parmlib env" and N = 0,
        OF _ _ _ _ storage _ _ fits, of ps1 part rsn sz] p1(2) alloc full read member_name_fits [OF ext] pad by auto
  have "loadConfig env (Some (parm_text kvs)) context = Some (RC_ZIS_OK, context\<lparr>cx_parms := Some ps2\<rparr>)"
    using heap p0 p1(1) ext p2(1) by (simp add: loadConfig_def)
  moreover have "zisGetParmValue ps2 n = Some
        (case map_of (rev (map parmKeyValue (member_records [] records))) n of
           Some v \<Rightarrow> Some v
         | None \<Rightarrow> (case map_of (rev kvs) n of
                      Some v \<Rightarrow> Some v
                    | None \<Rightarrow> if n = ZIS_PARM_TEST_PARM_NAME then Some ZIS_PARM_TEST_PARM_VALUE else None))" for n
    by (cases "map_of (rev (map parmKeyValue (member_records [] records))) n"; cases "map_of (rev kvs) n")
      (simp_all only: g2 g1 g0 option.case)
  ultimately show ?thesis using p2(2) by (auto simp: parm_good_def)
qed

theorem loadConfig_values_witness:
  "\<exists>ps. loadConfig demo_core (Some ''NAME=A,DEBUG='') (makeContext\<lparr>cx_zisModuleName := ''ZWESIS01''\<rparr>)
      = Some (RC_ZIS_OK, makeContext\<lparr>cx_zisModuleName := ''ZWESIS01'', cx_parms := Some ps\<rparr>) \<and>
     zisGetParmValue ps ''NAME'' = Some (Some ''B'') \<and> zisGetParmValue ps ''DEBUG'' = Some (Some [])"
proof -
  let ?kvs = "[(''NAME'', ''A''), (''DEBUG'', [])]" and ?rs = "[''NAME=B'', ''ZWES.X=1'']"
  let ?c = "makeContext\<lparr>cx_zisModuleName := ''ZWESIS01''\<rparr> :: unit ZISContext"
  have kv: "map parmKeyValue (member_records [] ?rs) = [(''NAME'', ''B''), (''ZWES.X'', ''1'')]"
    by (simp add: trim_def isParmCommentedOut_def parmKeyValue_def cstr_def split_at_def nul_def)
  have "\<exists>ps. loadConfig demo_core (Some (parm_text ?kvs)) ?c = Some (RC_ZIS_OK, ?c\<lparr>cx_parms := Some ps\<rparr>) \<and>
     parm_inv ps \<and>
     (\<forall>n. zisGetParmValue ps n = Some
        (case map_of (rev (map parmKeyValue (member_records [] ?rs))) n of
           Some v \<Rightarrow> Some v
         | None \<Rightarrow> (case map_of (rev ?kvs) n of
                      Some v \<Rightarrow> Some v
                    | None \<Rightarrow> if n = ZIS_PARM_TEST_PARM_NAME then Some ZIS_PARM_TEST_PARM_VALUE else None)))"
    by (rule loadConfig_values [OF _ plain_heap_laws(1) _ slh_total_serves [OF plain_heap_laws(2)] _ _ refl,
          where n = READ_BUFFER_DEFAULT_SIZE])
      (simp_all add: demo_core_def clean_parm_def nul_def trim_def isParmCommentedOut_def sizeof_currRecord_def)
  then show ?thesis unfolding kv by (auto simp: makeContext_def)
qed

text \<open>
  \<open>run\<close>: its status is \<open>RC_ZIS_OK\<close> exactly when every step succeeded in turn, otherwise
  \<open>RC_ZIS_ERROR\<close>; and whatever happened, the context it leaves holds no server, no global area, no
  anchor and no parameter set.
\<close>

theorem run_status_and_cleanup:
  assumes "run env mainParms = Some (status, context)"
  shows "cx_cmServer context = None \<and> cx_cmsGA context = None \<and> cx_zisAnchor context = None \<and> cx_parms context = None \<and>
     status \<in> {RC_ZIS_OK, RC_ZIS_ERROR} \<and>
     (status = RC_ZIS_OK \<longleftrightarrow>
        (\<exists>c1 c2 c3 server server'. initContext env makeContext = (RC_ZIS_OK, c1) \<and>
           loadConfig env mainParms c1 = Some (RC_ZIS_OK, c2) \<and>
           initCoreServer env c2 = Some (RC_ZIS_OK, c3, Some server) \<and>
           registerCoreServices (cmsRegisterService env) server = (RC_ZIS_OK, server') \<and>
           fst (cmsStartMainLoop env server' c3) = 0))"
proof -
  from assms obtain c where steps: "runSteps env mainParms = Some (status, c)" and ctx: "context = cleanContext c"
    by (auto simp: run_def)
  have i1: "fst (initContext env makeContext) \<in> {0, 8}"
    by (simp add: initContext_def split: prod.splits)
  have i2: "loadConfig env mp c = Some (s, c') \<Longrightarrow> s \<in> {0, 8}" for mp c s c'
    by (auto simp: loadConfig_def Let_def split: option.splits if_splits)
  have i3: "initCoreServer env c = Some (s, c', srv) \<Longrightarrow> s \<in> {0, 8}" for c s c' srv
    by (auto simp: initCoreServer_def Let_def split: option.splits if_splits)
  have i4: "fst (registerCoreServices (cmsRegisterService env) srv) \<in> {0, 8}" for srv
    by (simp add: registerCoreServices_def split: prod.splits)
  obtain s1 c1 where e1: "initContext env makeContext = (s1, c1)" by fastforce
  show ?thesis
  proof (cases "s1 = 0")
    case False
    then have "status = s1" "s1 = 8" using steps e1 i1 by (auto simp: runSteps_def)
    then show ?thesis using e1 by (simp add: ctx cleanContext_def)
  next
    case True
    then obtain s2 c2 where e2: "loadConfig env mainParms c1 = Some (s2, c2)"
      using steps e1 by (auto simp: runSteps_def split: option.splits)
    show ?thesis
    proof (cases "s2 = 0")
      case False
      then have "status = s2" "s2 = 8" using steps e1 e2 True i2 [OF e2] by (auto simp: runSteps_def)
      then show ?thesis using e1 e2 by (simp add: ctx cleanContext_def)
    next
      case ok2: True
      then obtain s3 c3 srv where e3: "initCoreServer env c2 = Some (s3, c3, srv)"
        using steps e1 e2 True by (auto simp: runSteps_def split: option.splits)
      show ?thesis
      proof (cases "s3 = 0")
        case False
        then have "status = s3" "s3 = 8" using steps e1 e2 e3 True ok2 i3 [OF e3] by (auto simp: runSteps_def)
        then show ?thesis using e1 e2 e3 by (simp add: ctx cleanContext_def)
      next
        case ok3: True
        then obtain server where srv: "srv = Some server"
          using steps e1 e2 e3 True ok2 by (cases srv) (auto simp: runSteps_def)
        obtain s4 server' where e4: "registerCoreServices (cmsRegisterService env) server = (s4, server')" by fastforce
        obtain s5 c5 where e5: "cmsStartMainLoop env server' c3 = (s5, c5)" by fastforce
        have "status = (if s4 \<noteq> 0 then s4 else if s5 \<noteq> 0 then 8 else 0)"
          using steps e1 e2 e3 e4 e5 True ok2 ok3 srv
          by (auto simp: runSteps_def runCoreServer_def split: if_splits)
        then show ?thesis
          using e1 e2 e3 e4 e5 True ok2 ok3 srv i4 [of server]
          by (auto simp: ctx cleanContext_def)
      qed
    qed
  qed
qed

theorem run_status_and_cleanup_witness:
  "\<exists>c. run (demo_core\<lparr>currentModuleName := (4, [])\<rparr>) (Some []) = Some (RC_ZIS_ERROR, c) \<and> cx_parms c = None"
proof -
  have "run (demo_core\<lparr>currentModuleName := (4, [])\<rparr>) (Some []) = Some (RC_ZIS_ERROR, cleanContext makeContext)"
    by (simp add: run_def runSteps_def initContext_def demo_core_def)
  from run_status_and_cleanup [OF this] this show ?thesis by blast
qed

end
