(* ===== verification/ZIS_Auth.thy ===== *)
theory ZIS_Auth
  imports ZIS_Prelude "HOL-Library.Monad_Syntax" "HOL-Library.Multiset"
begin

text \<open>
  The authentication service of the cross-memory server (src/c/zis/services/auth.c and
  src/h/zis/services/auth.h): password and user checks, SAF identity tokens, entity checks and
  access levels, on the parameter list a client passes.

  SAF itself (\<open>safVerify\<close>, \<open>safAuth\<close> and \<open>safAuthStatus\<close> of zowe-common-c) is a parameter: a function
  from the requests made so far, most recent first, and a request to a reply. Its answers may
  depend on the whole history, and the history is what the theorems speak about. A reply may be an
  abend. The recovery facility and the configuration parameters of the core server are parameters
  as well. Debug messages are left out.
\<close>

section \<open>SAF\<close>

type_synonym acee = addr

datatype verify_option = VERIFY_CREATE | VERIFY_DELETE | VERIFY_WITHOUT_PASSWORD | VERIFY_WITHOUT_LOG

text \<open>
  The requests with their arguments: \<open>safVerify\<close> (options, user, password, ACEE), \<open>safVerify6\<close> and
  \<open>safVerify7\<close> (options, user, password, the application's name, the token's length and buffer),
  \<open>safAuth\<close> (class, entity, access, ACEE) and \<open>safAuthStatus\<close> (class, entity, ACEE).
\<close>

datatype SafRequest =
    SafVerify "verify_option list" "string option" "string option" "acee option"
  | SafVerify6 "verify_option list" string string int string
  | SafVerify7 "verify_option list" string string string int string
  | SafAuth string string int "acee option"
  | SafAuthStatus string string "acee option"

record SafReply =
  sr_safRC :: rc
  sr_racfRC :: rc
  sr_racfRsn :: rc
  sr_acee :: "acee option"
  sr_access :: int
  sr_idtLen :: int
  sr_idt :: string
  sr_abend :: "(rc \<times> rc) option"

type_synonym Saf = "SafRequest list \<Rightarrow> SafRequest \<Rightarrow> SafReply"

record AuthEnv =
  ae_saf :: Saf
  ae_recoveryPush :: rc
  ae_CMS_PROD_ID :: string
  ae_getConfigParm :: "string \<Rightarrow> rc \<times> string"

text \<open>A request outside of any recovery: an abend ends the service, which then has no result.\<close>

definition safCall :: "AuthEnv \<Rightarrow> SafRequest \<Rightarrow> SafRequest list \<Rightarrow> (SafReply \<times> SafRequest list) option" where
  "safCall env req log =
     (let r = ae_saf env log req in if sr_abend r = None then Some (r, req # log) else None)"

section \<open>The parameter list\<close>

abbreviation (input) RC_ZIS_AUTHSRV_OK :: rc where "RC_ZIS_AUTHSRV_OK \<equiv> 0"
abbreviation (input) RC_ZIS_AUTHSRV_PARMLIST_NULL :: rc where "RC_ZIS_AUTHSRV_PARMLIST_NULL \<equiv> 8"
abbreviation (input) RC_ZIS_AUTHSRV_BAD_EYECATCHER :: rc where "RC_ZIS_AUTHSRV_BAD_EYECATCHER \<equiv> 9"
abbreviation (input) RC_ZIS_AUTHSRV_DELETE_FAILED :: rc where "RC_ZIS_AUTHSRV_DELETE_FAILED \<equiv> 10"
abbreviation (input) RC_ZIS_AUTHSRV_CREATE_FAILED :: rc where "RC_ZIS_AUTHSRV_CREATE_FAILED \<equiv> 11"
abbreviation (input) RC_ZIS_AUTHSRV_UNKNOWN_FUNCTION_CODE :: rc where "RC_ZIS_AUTHSRV_UNKNOWN_FUNCTION_CODE \<equiv> 12"
abbreviation (input) RC_ZIS_AUTHSRV_INPUT_STRING_TOO_LONG :: rc where "RC_ZIS_AUTHSRV_INPUT_STRING_TOO_LONG \<equiv> 13"
abbreviation (input) RC_ZIS_AUTHSRV_INSTALL_RECOVERY_FAILED :: rc where "RC_ZIS_AUTHSRV_INSTALL_RECOVERY_FAILED \<equiv> 14"
abbreviation (input) RC_ZIS_AUTHSRV_SAF_ABENDED :: rc where "RC_ZIS_AUTHSRV_SAF_ABENDED \<equiv> 15"
abbreviation (input) RC_ZIS_AUTHSRV_SAF_ERROR :: rc where "RC_ZIS_AUTHSRV_SAF_ERROR \<equiv> 16"
abbreviation (input) RC_ZIS_AUTHSRV_USER_CLASS_NOT_READ :: rc where "RC_ZIS_AUTHSRV_USER_CLASS_NOT_READ \<equiv> 18"
abbreviation (input) RC_ZIS_AUTHSRV_USER_CLASS_TOO_LONG :: rc where "RC_ZIS_AUTHSRV_USER_CLASS_TOO_LONG \<equiv> 19"
abbreviation (input) RC_ZIS_AUTHSRV_CUSTOM_CLASS_NOT_ALLOWED :: rc where "RC_ZIS_AUTHSRV_CUSTOM_CLASS_NOT_ALLOWED \<equiv> 20"
abbreviation (input) RC_ZIS_AUTHSRV_INPUT_STRING_TOO_SHORT :: rc where "RC_ZIS_AUTHSRV_INPUT_STRING_TOO_SHORT \<equiv> 21"
abbreviation (input) RC_ZIS_AUTHSRV_BAD_SAF_SERVICE_VERSION :: rc where "RC_ZIS_AUTHSRV_BAD_SAF_SERVICE_VERSION \<equiv> 22"

definition ZIS_AUTH_SERVICE_USER_ID_MAX_LENGTH :: nat where "ZIS_AUTH_SERVICE_USER_ID_MAX_LENGTH = 8"
definition ZIS_AUTH_SERVICE_PASSWORD_MAX_LENGTH :: nat where "ZIS_AUTH_SERVICE_PASSWORD_MAX_LENGTH = 100"
definition ZIS_AUTH_SERVICE_CLASS_MAX_LENGTH :: nat where "ZIS_AUTH_SERVICE_CLASS_MAX_LENGTH = 8"
definition ZIS_AUTH_SERVICE_ENTITY_MAX_LENGTH :: nat where "ZIS_AUTH_SERVICE_ENTITY_MAX_LENGTH = 255"
definition ZIS_AUTH_SERVICE_APPL_MAX_LENGTH :: nat where "ZIS_AUTH_SERVICE_APPL_MAX_LENGTH = 8"
definition ZIS_SAF_IDT_SERVICE_CURRENT_VERSION :: int where "ZIS_SAF_IDT_SERVICE_CURRENT_VERSION = 1"
definition ZIS_AUTH_SERVICE_SAFIDT_OPTION_IDT_APPL :: "8 word" where "ZIS_AUTH_SERVICE_SAFIDT_OPTION_IDT_APPL = 0x40"
definition ZIS_AUTH_SERVICE_SAFIDT_OPTION_RESERVED :: "8 word" where "ZIS_AUTH_SERVICE_SAFIDT_OPTION_RESERVED = 0x80"
definition ZIS_AUTH_SERVICE_PARMLIST_EYECATCHER :: string where "ZIS_AUTH_SERVICE_PARMLIST_EYECATCHER = ''RSCMPASS''"

definition ZIS_AUTH_SERVICE_PARMLIST_FC_VERIFY_PASSWORD :: int where "ZIS_AUTH_SERVICE_PARMLIST_FC_VERIFY_PASSWORD = 0"
definition ZIS_AUTH_SERVICE_PARMLIST_FC_ENTITY_CHECK :: int where "ZIS_AUTH_SERVICE_PARMLIST_FC_ENTITY_CHECK = 1"
definition ZIS_AUTH_SERVICE_PARMLIST_FC_GET_ACCESS :: int where "ZIS_AUTH_SERVICE_PARMLIST_FC_GET_ACCESS = 2"
definition ZIS_AUTH_SERVICE_PARMLIST_FC_GENERATE_TOKEN :: int where "ZIS_AUTH_SERVICE_PARMLIST_FC_GENERATE_TOKEN = 3"
definition ZIS_AUTH_SERVICE_PARMLIST_FC_VERIFY_USER :: int where "ZIS_AUTH_SERVICE_PARMLIST_FC_VERIFY_USER = 4"

lemmas auth_fc_defs =
  ZIS_AUTH_SERVICE_PARMLIST_FC_VERIFY_PASSWORD_def ZIS_AUTH_SERVICE_PARMLIST_FC_ENTITY_CHECK_def
  ZIS_AUTH_SERVICE_PARMLIST_FC_GET_ACCESS_def ZIS_AUTH_SERVICE_PARMLIST_FC_GENERATE_TOKEN_def
  ZIS_AUTH_SERVICE_PARMLIST_FC_VERIFY_USER_def

lemmas auth_length_defs =
  ZIS_AUTH_SERVICE_USER_ID_MAX_LENGTH_def ZIS_AUTH_SERVICE_PASSWORD_MAX_LENGTH_def
  ZIS_AUTH_SERVICE_CLASS_MAX_LENGTH_def ZIS_AUTH_SERVICE_ENTITY_MAX_LENGTH_def
  ZIS_AUTH_SERVICE_APPL_MAX_LENGTH_def

text \<open>
  The SAF status shares its storage with the abend information: the completion code lies over the
  SAF return code and the reason code over the RACF return code.
\<close>

record SAFAuthStatus =
  ss_safRC :: rc
  ss_racfRC :: rc
  ss_racfRSN :: rc

definition saf_status :: "SafReply \<Rightarrow> SAFAuthStatus" where
  "saf_status r = \<lparr>ss_safRC = sr_safRC r, ss_racfRC = sr_racfRC r, ss_racfRSN = sr_racfRsn r\<rparr>"

definition fillAbendInfo :: "rc \<times> rc \<Rightarrow> SAFAuthStatus \<Rightarrow> SAFAuthStatus" where
  "fillAbendInfo codes s = s\<lparr>ss_safRC := fst codes, ss_racfRC := snd codes\<rparr>"

record SafIdtService =
  si_version :: int
  si_safIdtLen :: int
  si_options :: "8 word"
  si_safIdt :: string
  si_applNullTerm :: string

text \<open>The character arrays of the list are whole arrays; the C string in one ends at its first NUL.\<close>

record AuthServiceParmList =
  ap_eyecatcher :: string
  ap_fc :: int
  ap_userIDNullTerm :: string
  ap_passwordNullTerm :: string
  ap_classNullTerm :: string
  ap_padding0 :: "8 word"
  ap_access :: int
  ap_entityNullTerm :: string
  ap_safStatus :: SAFAuthStatus
  ap_traceLevel :: int
  ap_safIdtService :: SafIdtService

text \<open>
  The C string in an array, as SAF and the string functions read it. Without a NUL in the array
  they read on behind it, which has no result here.
\<close>

definition cstr_of :: "string \<Rightarrow> string option" where
  "cstr_of arr = (if nul \<in> set arr then Some (cstr arr) else None)"

section \<open>Users, passwords and tokens\<close>

text \<open>
  The common part of the three handlers that only make an ACEE: it is deleted again at once, the SAF
  status is the one of its creation.
\<close>

definition deleteACEE ::
    "AuthEnv \<Rightarrow> SafReply \<Rightarrow> AuthServiceParmList \<Rightarrow> SafRequest list
     \<Rightarrow> (rc \<times> AuthServiceParmList \<times> SafRequest list) option" where
  "deleteACEE env r parmList log =
     (if sr_safRC r \<noteq> 0
      then Some (RC_ZIS_AUTHSRV_SAF_ERROR, parmList\<lparr>ap_safStatus := saf_status r\<rparr>, log)
      else do {
        (d, log') \<leftarrow> safCall env (SafVerify [VERIFY_DELETE] None None (sr_acee r)) log;
        Some (if sr_safRC d \<noteq> 0 then RC_ZIS_AUTHSRV_DELETE_FAILED else RC_ZIS_AUTHSRV_OK,
              parmList\<lparr>ap_safStatus := saf_status r\<rparr>, log')
      })"

definition handleVerifyUser ::
    "AuthEnv \<Rightarrow> AuthServiceParmList \<Rightarrow> SafRequest list \<Rightarrow> (rc \<times> AuthServiceParmList \<times> SafRequest list) option" where
  "handleVerifyUser env parmList log =
     (if ap_padding0 parmList AND ZIS_AUTH_SERVICE_SAFIDT_OPTION_RESERVED \<noteq> 0
      then Some (RC_ZIS_AUTHSRV_BAD_SAF_SERVICE_VERSION, parmList, log)
      else do {
        user \<leftarrow> cstr_of (ap_userIDNullTerm parmList);
        (r, log1) \<leftarrow> safCall env (SafVerify [VERIFY_CREATE, VERIFY_WITHOUT_PASSWORD] (Some user) None None) log;
        deleteACEE env r parmList log1
      })"

definition handleVerifyPassword ::
    "AuthEnv \<Rightarrow> AuthServiceParmList \<Rightarrow> SafRequest list \<Rightarrow> (rc \<times> AuthServiceParmList \<times> SafRequest list) option" where
  "handleVerifyPassword env parmList log =
     (if ap_padding0 parmList AND ZIS_AUTH_SERVICE_SAFIDT_OPTION_RESERVED \<noteq> 0
      then Some (RC_ZIS_AUTHSRV_BAD_SAF_SERVICE_VERSION, parmList, log)
      else do {
        user \<leftarrow> cstr_of (ap_userIDNullTerm parmList);
        password \<leftarrow> cstr_of (ap_passwordNullTerm parmList);
        (r, log1) \<leftarrow> safCall env (SafVerify [VERIFY_CREATE] (Some user) (Some password) None) log;
        deleteACEE env r parmList log1
      })"

text \<open>
  \<open>handleGenerateToken\<close>: SAF reads and writes the token through the buffer of the list; its length is
  taken over only when SAF succeeded.
\<close>

definition tokenRequest :: "AuthServiceParmList \<Rightarrow> string \<Rightarrow> string \<Rightarrow> SafRequest option" where
  "tokenRequest parmList user password =
     (let idt = ap_safIdtService parmList
      in if si_options idt AND ZIS_AUTH_SERVICE_SAFIDT_OPTION_IDT_APPL \<noteq> 0
         then do {
           appl \<leftarrow> cstr_of (si_applNullTerm idt);
           Some (SafVerify7 [VERIFY_CREATE] user password appl (si_safIdtLen idt) (si_safIdt idt))
         }
         else Some (SafVerify6 [VERIFY_CREATE] user password (si_safIdtLen idt) (si_safIdt idt)))"

definition handleGenerateToken ::
    "AuthEnv \<Rightarrow> AuthServiceParmList \<Rightarrow> SafRequest list \<Rightarrow> (rc \<times> AuthServiceParmList \<times> SafRequest list) option" where
  "handleGenerateToken env parmList log =
     (if si_version (ap_safIdtService parmList) > ZIS_SAF_IDT_SERVICE_CURRENT_VERSION
      then Some (RC_ZIS_AUTHSRV_BAD_SAF_SERVICE_VERSION, parmList, log)
      else do {
        user \<leftarrow> cstr_of (ap_userIDNullTerm parmList);
        password \<leftarrow> cstr_of (ap_passwordNullTerm parmList);
        req \<leftarrow> tokenRequest parmList user password;
        (r, log1) \<leftarrow> safCall env req log;
        let idt = (ap_safIdtService parmList)\<lparr>si_safIdt := sr_idt r\<rparr>;
        let idt' = (if sr_safRC r \<noteq> 0 then idt else idt\<lparr>si_safIdtLen := sr_idtLen r\<rparr>);
        deleteACEE env r (parmList\<lparr>ap_safIdtService := idt'\<rparr>) log1
      })"

section \<open>Entities and access levels\<close>

text \<open>\<open>getDefaultClassValue\<close>: the class as the array \<open>valueNullTerm\<close> behind the call.\<close>

definition getDefaultClassValue :: "AuthEnv \<Rightarrow> rc \<times> string" where
  "getDefaultClassValue env =
     (let (getParmRC, val) = ae_getConfigParm env (ae_CMS_PROD_ID env @ ''.AUTH.CLASS'')
      in if getParmRC \<noteq> 0 then (RC_ZIS_AUTHSRV_USER_CLASS_NOT_READ, [])
         else if length val > ZIS_AUTH_SERVICE_CLASS_MAX_LENGTH then (RC_ZIS_AUTHSRV_USER_CLASS_TOO_LONG, [])
         else (RC_ZIS_AUTHSRV_OK, val @ [nul]))"

text \<open>The start of both handlers: the configured class, and no other one in the request.\<close>

definition checkClass :: "AuthEnv \<Rightarrow> AuthServiceParmList \<Rightarrow> (rc \<times> string) option" where
  "checkClass env parmList =
     (let (getClassRC, defaultClass) = getDefaultClassValue env
      in if getClassRC \<noteq> RC_ZIS_AUTHSRV_OK then Some (getClassRC, [])
         else do {
           cls \<leftarrow> cstr_of (ap_classNullTerm parmList);
           if length cls \<noteq> 0 \<and> cls \<noteq> cstr defaultClass
           then Some (RC_ZIS_AUTHSRV_CUSTOM_CLASS_NOT_ALLOWED, [])
           else Some (RC_ZIS_AUTHSRV_OK, cstr defaultClass)
         })"

text \<open>
  A request under recovery: without an own recovery routine it is not made; an abend leaves the
  abend codes in the status. The result holds the return code of the step, the reply if there is one,
  and the status.
\<close>

definition guardedSaf ::
    "AuthEnv \<Rightarrow> SafRequest \<Rightarrow> SAFAuthStatus \<Rightarrow> SafRequest list
     \<Rightarrow> rc \<times> SafReply option \<times> SAFAuthStatus \<times> SafRequest list" where
  "guardedSaf env req status log =
     (if ae_recoveryPush env \<noteq> 0 then (RC_ZIS_AUTHSRV_INSTALL_RECOVERY_FAILED, None, status, log)
      else let r = ae_saf env log req
           in case sr_abend r of
                Some codes \<Rightarrow> (RC_ZIS_AUTHSRV_SAF_ABENDED, None, fillAbendInfo codes status, req # log)
              | None \<Rightarrow>
                  (if sr_safRC r \<noteq> 0 then RC_ZIS_AUTHSRV_SAF_ERROR else RC_ZIS_AUTHSRV_OK,
                   Some r, saf_status r, req # log))"

definition handleEntityCheck ::
    "AuthEnv \<Rightarrow> AuthServiceParmList \<Rightarrow> SafRequest list \<Rightarrow> (rc \<times> AuthServiceParmList \<times> SafRequest list) option" where
  "handleEntityCheck env parmList log = do {
     (classRC, cls) \<leftarrow> checkClass env parmList;
     if classRC \<noteq> RC_ZIS_AUTHSRV_OK then Some (classRC, parmList, log)
     else do {
       user \<leftarrow> cstr_of (ap_userIDNullTerm parmList);
       (r, log1) \<leftarrow> safCall env (SafVerify [VERIFY_CREATE, VERIFY_WITHOUT_PASSWORD] (Some user) None None) log;
       if sr_safRC r \<noteq> 0
       then Some (RC_ZIS_AUTHSRV_CREATE_FAILED, parmList\<lparr>ap_safStatus := saf_status r\<rparr>, log1)
       else do {
         entity \<leftarrow> cstr_of (ap_entityNullTerm parmList);
         let (authRC, reply, status, log2) =
           guardedSaf env (SafAuth cls entity (ap_access parmList) (sr_acee r)) (ap_safStatus parmList) log1;
         (d, log3) \<leftarrow> safCall env (SafVerify [VERIFY_DELETE] None None (sr_acee r)) log2;
         Some (if sr_safRC d \<noteq> 0 then RC_ZIS_AUTHSRV_DELETE_FAILED else authRC,
               parmList\<lparr>ap_safStatus := status\<rparr>, log3)
       }
     }
   }"

text \<open>
  \<open>getAccessType\<close>: \<open>accessType\<close> is left alone when the ACEE cannot be made. Here a failed deletion does
  not replace an earlier error.
\<close>

definition getAccessType ::
    "AuthEnv \<Rightarrow> string \<Rightarrow> string \<Rightarrow> string \<Rightarrow> AuthServiceParmList \<Rightarrow> SafRequest list
     \<Rightarrow> (rc \<times> AuthServiceParmList \<times> SafRequest list) option" where
  "getAccessType env cls user entity parmList log = do {
     (r, log1) \<leftarrow> safCall env (SafVerify [VERIFY_CREATE, VERIFY_WITHOUT_PASSWORD, VERIFY_WITHOUT_LOG] (Some user) None None) log;
     if sr_safRC r \<noteq> 0
     then Some (RC_ZIS_AUTHSRV_CREATE_FAILED, parmList\<lparr>ap_safStatus := saf_status r\<rparr>, log1)
     else do {
       let (authRC, reply, status, log2) =
         guardedSaf env (SafAuthStatus cls entity (sr_acee r)) (saf_status r) log1;
       (d, log3) \<leftarrow> safCall env (SafVerify [VERIFY_DELETE, VERIFY_WITHOUT_LOG] None None (sr_acee r)) log2;
       let deleteFailed = (sr_safRC d \<noteq> 0 \<and> authRC = RC_ZIS_AUTHSRV_OK);
       Some (if deleteFailed then RC_ZIS_AUTHSRV_DELETE_FAILED else authRC,
             parmList\<lparr>ap_safStatus := if deleteFailed then saf_status d else status,
                      ap_access := case reply of None \<Rightarrow> 0 | Some a \<Rightarrow> sr_access a\<rparr>,
             log3)
     }
   }"

definition handleAccessRetrieval ::
    "AuthEnv \<Rightarrow> AuthServiceParmList \<Rightarrow> SafRequest list \<Rightarrow> (rc \<times> AuthServiceParmList \<times> SafRequest list) option" where
  "handleAccessRetrieval env parmList log = do {
     (classRC, cls) \<leftarrow> checkClass env parmList;
     if classRC \<noteq> RC_ZIS_AUTHSRV_OK then Some (classRC, parmList, log)
     else do {
       user \<leftarrow> cstr_of (ap_userIDNullTerm parmList);
       entity \<leftarrow> cstr_of (ap_entityNullTerm parmList);
       getAccessType env cls user entity parmList log
     }
   }"

section \<open>The service function\<close>

text \<open>
  \<open>zisAuthServiceFunction\<close> works on a copy of the client's list and copies it back behind the handler:
  the result holds the return code, the client's list behind the call, and the requests made.
\<close>

definition zisAuthServiceFunction ::
    "AuthEnv \<Rightarrow> AuthServiceParmList option \<Rightarrow> SafRequest list
     \<Rightarrow> (rc \<times> AuthServiceParmList option \<times> SafRequest list) option" where
  "zisAuthServiceFunction env parm log =
     (case parm of
        None \<Rightarrow> Some (RC_ZIS_AUTHSRV_PARMLIST_NULL, None, log)
      | Some localParmList \<Rightarrow>
          (if ap_eyecatcher localParmList \<noteq> ZIS_AUTH_SERVICE_PARMLIST_EYECATCHER
           then Some (RC_ZIS_AUTHSRV_BAD_EYECATCHER, Some localParmList, log)
           else do {
             (handlerRC, localParmList', log') \<leftarrow>
               (if ap_fc localParmList = ZIS_AUTH_SERVICE_PARMLIST_FC_VERIFY_PASSWORD
                then handleVerifyPassword env localParmList log
                else if ap_fc localParmList = ZIS_AUTH_SERVICE_PARMLIST_FC_ENTITY_CHECK
                then handleEntityCheck env localParmList log
                else if ap_fc localParmList = ZIS_AUTH_SERVICE_PARMLIST_FC_GET_ACCESS
                then handleAccessRetrieval env localParmList log
                else if ap_fc localParmList = ZIS_AUTH_SERVICE_PARMLIST_FC_GENERATE_TOKEN
                then handleGenerateToken env localParmList log
                else if ap_fc localParmList = ZIS_AUTH_SERVICE_PARMLIST_FC_VERIFY_USER
                then handleVerifyUser env localParmList log
                else Some (RC_ZIS_AUTHSRV_UNKNOWN_FUNCTION_CODE, localParmList, log));
             Some (handlerRC, Some localParmList', log')
           }))"

section \<open>Sessions with SAF\<close>

text \<open>
  A handler makes no request, or one that makes an ACEE; if that succeeds, the last request deletes
  this ACEE and none in between makes another one.
\<close>

definition granted :: "AuthEnv \<Rightarrow> SafRequest list \<Rightarrow> SafRequest \<Rightarrow> bool" where
  "granted env log req \<longleftrightarrow> sr_abend (ae_saf env log req) = None \<and> sr_safRC (ae_saf env log req) = 0"

fun creates_acee :: "SafRequest \<Rightarrow> bool" where
  "creates_acee (SafVerify opts _ _ _) = (VERIFY_CREATE \<in> set opts)"
| "creates_acee (SafVerify6 opts _ _ _ _) = (VERIFY_CREATE \<in> set opts)"
| "creates_acee (SafVerify7 opts _ _ _ _ _) = (VERIFY_CREATE \<in> set opts)"
| "creates_acee _ = False"

fun deletes_acee :: "SafRequest \<Rightarrow> bool" where
  "deletes_acee (SafVerify opts _ _ _) = (VERIFY_DELETE \<in> set opts)"
| "deletes_acee _ = False"

fun deleted_acee :: "SafRequest \<Rightarrow> acee option" where
  "deleted_acee (SafVerify _ _ _ a) = a"
| "deleted_acee _ = None"

text \<open>The ACEEs that were made and not handed to a deletion.\<close>

fun open_acees :: "AuthEnv \<Rightarrow> SafRequest list \<Rightarrow> acee option multiset" where
  "open_acees env [] = {#}"
| "open_acees env (r # log) =
     (if creates_acee r \<and> granted env log r then add_mset (sr_acee (ae_saf env log r)) (open_acees env log)
      else if deletes_acee r then open_acees env log - {#deleted_acee r#}
      else open_acees env log)"

definition acee_session :: "AuthEnv \<Rightarrow> SafRequest list \<Rightarrow> SafRequest list \<Rightarrow> bool" where
  "acee_session env log log' \<longleftrightarrow>
     log' = log \<or>
     (\<exists>c. creates_acee c \<and> \<not> deletes_acee c \<and>
        (\<not> granted env log c \<and> log' = c # log \<or>
         (\<exists>d mid. log' = d # mid @ c # log \<and> deletes_acee d \<and> \<not> creates_acee d \<and>
            deleted_acee d = sr_acee (ae_saf env log c) \<and> granted env log c \<and>
            (\<forall>r \<in> set mid. \<not> creates_acee r \<and> \<not> deletes_acee r))))"

lemma open_acees_quiet:
  "\<forall>r \<in> set mid. \<not> creates_acee r \<and> \<not> deletes_acee r \<Longrightarrow> open_acees env (mid @ log) = open_acees env log"
  by (induction mid) auto

lemma acee_session_balanced: "acee_session env log log' \<Longrightarrow> open_acees env log' = open_acees env log"
  unfolding acee_session_def by (auto simp: open_acees_quiet)

lemma safCall_SomeD:
  "safCall env req log = Some (r, log') \<Longrightarrow> r = ae_saf env log req \<and> sr_abend r = None \<and> log' = req # log"
  by (auto simp: safCall_def Let_def split: if_splits)

lemma session_refl [simp, intro]: "acee_session env log log"
  by (simp add: acee_session_def)

lemma session_refused:
  "creates_acee c \<Longrightarrow> \<not> deletes_acee c \<Longrightarrow> \<not> granted env log c \<Longrightarrow> acee_session env log (c # log)"
  unfolding acee_session_def by blast

lemma session_closed:
  assumes "creates_acee c" and "\<not> deletes_acee c" and "granted env log c"
    and "deletes_acee d" and "\<not> creates_acee d" and "deleted_acee d = sr_acee (ae_saf env log c)"
    and "\<forall>r \<in> set mid. \<not> creates_acee r \<and> \<not> deletes_acee r" and "log' = d # mid @ c # log"
  shows "acee_session env log log'"
  unfolding acee_session_def using assms by blast

lemma deleteACEE_session:
  assumes "deleteACEE env (ae_saf env log c) parmList (c # log) = Some (rc, parmList', log')"
    and "sr_abend (ae_saf env log c) = None" and "creates_acee c" and "\<not> deletes_acee c"
  shows "acee_session env log log'"
proof (cases "sr_safRC (ae_saf env log c) = 0")
  case False
  with assms have "log' = c # log" "\<not> granted env log c" by (auto simp: deleteACEE_def granted_def)
  with assms(3,4) show ?thesis by (simp add: session_refused)
next
  case True
  with assms(1) have "log' = SafVerify [VERIFY_DELETE] None None (sr_acee (ae_saf env log c)) # [] @ c # log"
    by (auto simp: deleteACEE_def bind_eq_Some_conv dest: safCall_SomeD)
  with True assms(2-4) show ?thesis by (auto intro!: session_closed simp: granted_def)
qed

lemma guardedSaf_log:
  assumes "guardedSaf env req status log = (r, reply, status', log')"
  shows "log' = log \<or> log' = req # log"
  using assms by (auto simp: guardedSaf_def Let_def split: if_splits option.splits)

text \<open>A session with a question about the user in between.\<close>

lemma question_session:
  assumes "guardedSaf env req status (c # log) = (r, reply, status', log2)"
    and "safCall env d log2 = Some (x, log3)" and "granted env log c"
    and "creates_acee c" and "\<not> deletes_acee c" and "\<not> creates_acee req" and "\<not> deletes_acee req"
    and "deletes_acee d" and "\<not> creates_acee d" and "deleted_acee d = sr_acee (ae_saf env log c)"
  shows "acee_session env log log3"
proof -
  have "log3 = d # log2" using assms(2) by (auto dest: safCall_SomeD)
  with guardedSaf_log [OF assms(1)] have "log3 = d # [] @ c # log \<or> log3 = d # [req] @ c # log" by auto
  with assms(3-10) show ?thesis by (elim disjE) (rule session_closed; simp)+
qed

text \<open>The contract the dispatcher relies on: each handler is one session.\<close>

locale auth_handler =
  fixes handler :: "AuthEnv \<Rightarrow> AuthServiceParmList \<Rightarrow> SafRequest list
                      \<Rightarrow> (rc \<times> AuthServiceParmList \<times> SafRequest list) option"
  assumes session: "handler env pl log = Some (r, pl', log') \<Longrightarrow> acee_session env log log'"
begin

lemma balanced: "handler env pl log = Some (r, pl', log') \<Longrightarrow> open_acees env log' = open_acees env log"
  by (rule acee_session_balanced [OF session])

lemma extends:
  assumes "handler env pl log = Some (r, pl', log')"
  shows "\<exists>new. log' = new @ log"
  using session [OF assms] unfolding acee_session_def
  by (metis append_Cons append_Nil append.assoc)

end

interpretation verify_user: auth_handler handleVerifyUser
  by unfold_locales
    (auto simp: handleVerifyUser_def bind_eq_Some_conv dest!: safCall_SomeD dest: deleteACEE_session split: if_splits)

interpretation verify_password: auth_handler handleVerifyPassword
  by unfold_locales
    (auto simp: handleVerifyPassword_def bind_eq_Some_conv dest!: safCall_SomeD dest: deleteACEE_session split: if_splits)

lemma tokenRequest_creates:
  "tokenRequest pl user password = Some req \<Longrightarrow> creates_acee req \<and> \<not> deletes_acee req"
  by (auto simp: tokenRequest_def Let_def bind_eq_Some_conv split: if_splits)

interpretation generate_token: auth_handler handleGenerateToken
  by unfold_locales
    (auto simp: handleGenerateToken_def bind_eq_Some_conv Let_def dest!: safCall_SomeD dest: tokenRequest_creates
      intro: deleteACEE_session split: if_splits)

text \<open>The three ways a handler with a question ends: refused at once, without an ACEE, or with one.\<close>

lemma handleEntityCheck_cases:
  assumes "handleEntityCheck env pl log = Some (r, pl', log')"
  obtains (early) "log' = log" "pl' = pl" "r \<noteq> 0" "checkClass env pl = Some (r, [])"
    | (no_acee) cls u where "checkClass env pl = Some (0, cls)" "cstr_of (ap_userIDNullTerm pl) = Some u"
        "sr_abend (ae_saf env log (SafVerify [VERIFY_CREATE, VERIFY_WITHOUT_PASSWORD] (Some u) None None)) = None"
        "sr_safRC (ae_saf env log (SafVerify [VERIFY_CREATE, VERIFY_WITHOUT_PASSWORD] (Some u) None None)) \<noteq> 0"
        "log' = SafVerify [VERIFY_CREATE, VERIFY_WITHOUT_PASSWORD] (Some u) None None # log" "r = RC_ZIS_AUTHSRV_CREATE_FAILED"
    | (asked) cls u e c authRC reply status log2 d where
        "checkClass env pl = Some (0, cls)" "cstr_of (ap_userIDNullTerm pl) = Some u" "cstr_of (ap_entityNullTerm pl) = Some e"
        "c = SafVerify [VERIFY_CREATE, VERIFY_WITHOUT_PASSWORD] (Some u) None None" "granted env log c"
        "guardedSaf env (SafAuth cls e (ap_access pl) (sr_acee (ae_saf env log c))) (ap_safStatus pl) (c # log)
           = (authRC, reply, status, log2)"
        "safCall env (SafVerify [VERIFY_DELETE] None None (sr_acee (ae_saf env log c))) log2 = Some (d, log')"
        "r = (if sr_safRC d \<noteq> 0 then RC_ZIS_AUTHSRV_DELETE_FAILED else authRC)" "pl' = pl\<lparr>ap_safStatus := status\<rparr>"
proof -
  obtain r0 cls where k: "checkClass env pl = Some (r0, cls)"
    using assms by (auto simp: handleEntityCheck_def bind_eq_Some_conv)
  note h = assms [unfolded handleEntityCheck_def, simplified k, simplified]
  show thesis
  proof (cases "r0 = 0")
    case False
    with h have "r = r0" "pl' = pl" "log' = log" by auto
    moreover have "cls = []" using k False
      by (auto simp: checkClass_def Let_def bind_eq_Some_conv split: prod.splits if_splits)
    ultimately show thesis using early k False by simp
  next
    case True
    then obtain u where u: "cstr_of (ap_userIDNullTerm pl) = Some u" using h by (auto simp: bind_eq_Some_conv)
    let ?c = "SafVerify [VERIFY_CREATE, VERIFY_WITHOUT_PASSWORD] (Some u) None None"
    have nab: "sr_abend (ae_saf env log ?c) = None"
      using h True u by (cases "sr_abend (ae_saf env log ?c)") (auto simp: safCall_def)
    show thesis
    proof (cases "sr_safRC (ae_saf env log ?c) = 0")
      case False
      with h True u nab show thesis by (intro no_acee [of cls u]) (auto simp: k safCall_def)
    next
      case ok: True
      then obtain e where e: "cstr_of (ap_entityNullTerm pl) = Some e"
        using h True u nab by (cases "cstr_of (ap_entityNullTerm pl)") (auto simp: safCall_def)
      obtain authRC reply status log2 where g:
        "guardedSaf env (SafAuth cls e (ap_access pl) (sr_acee (ae_saf env log ?c))) (ap_safStatus pl) (?c # log)
           = (authRC, reply, status, log2)" by (metis prod_cases4)
      show thesis
        using h True u nab ok e g
        by (intro asked [of cls u e ?c authRC reply status log2])
          (auto simp: k safCall_def granted_def Let_def split: if_splits)
    qed
  qed
qed

interpretation entity_check: auth_handler handleEntityCheck
proof
  fix env pl log r pl' log'
  assume "handleEntityCheck env pl log = Some (r, pl', log')"
  then show "acee_session env log log'"
  proof (cases rule: handleEntityCheck_cases)
    case (no_acee cls u)
    then show ?thesis by (simp add: session_refused granted_def)
  next
    case (asked cls u e c authRC reply status log2 d)
    from question_session [OF asked(6,7,5)] asked(4) show ?thesis by simp
  qed simp
qed

lemma getAccessType_session:
  assumes "getAccessType env cls user entity pl log = Some (r, pl', log')"
  shows "acee_session env log log'"
proof -
  let ?c = "SafVerify [VERIFY_CREATE, VERIFY_WITHOUT_PASSWORD, VERIFY_WITHOUT_LOG] (Some user) None None"
  have nab: "sr_abend (ae_saf env log ?c) = None"
    using assms by (cases "sr_abend (ae_saf env log ?c)") (auto simp: getAccessType_def safCall_def)
  show ?thesis
  proof (cases "sr_safRC (ae_saf env log ?c) = 0")
    case False
    with assms nab have "log' = ?c # log" by (simp add: getAccessType_def safCall_def)
    with False show ?thesis by (simp add: session_refused granted_def)
  next
    case True
    obtain authRC reply status log2 where g:
      "guardedSaf env (SafAuthStatus cls entity (sr_acee (ae_saf env log ?c))) (saf_status (ae_saf env log ?c)) (?c # log)
         = (authRC, reply, status, log2)" by (metis prod_cases4)
    then obtain d where "safCall env (SafVerify [VERIFY_DELETE, VERIFY_WITHOUT_LOG] None None (sr_acee (ae_saf env log ?c))) log2
        = Some (d, log')"
      using assms nab True
      by (auto simp: getAccessType_def safCall_def [of env ?c] Let_def bind_eq_Some_conv)
    from question_session [OF g this] True nab show ?thesis by (simp add: granted_def)
  qed
qed

interpretation access_retrieval: auth_handler handleAccessRetrieval
  by unfold_locales
    (auto simp: handleAccessRetrieval_def bind_eq_Some_conv dest: getAccessType_session split: if_splits)

lemmas handlers_balanced =
  verify_user.balanced verify_password.balanced generate_token.balanced entity_check.balanced access_retrieval.balanced

lemma authService_balanced:
  "zisAuthServiceFunction env parm log = Some (r, parm', log') \<Longrightarrow> open_acees env log' = open_acees env log"
  by (auto simp: zisAuthServiceFunction_def bind_eq_Some_conv dest: handlers_balanced split: option.splits if_splits)

text \<open>The histories of SAF requests that calls of the service can make, in any order and number.\<close>

inductive auth_history :: "AuthEnv \<Rightarrow> SafRequest list \<Rightarrow> bool" for env where
  start: "auth_history env []"
| call: "auth_history env log \<Longrightarrow> zisAuthServiceFunction env parm log = Some (r, parm', log') \<Longrightarrow> auth_history env log'"

section \<open>Properties\<close>

text \<open>
  C3. The service leaves no ACEE behind: whatever calls are made, with any parameter lists and any
  answers of SAF, abends of an entity check included, every ACEE that SAF made for the service has
  been handed to a deletion request by the time a call returns.
\<close>

theorem no_acee_left:
  assumes "auth_history env log"
  shows "open_acees env log = {#}"
  using assms by induction (auto dest: authService_balanced)

definition demo_auth :: AuthEnv where
  "demo_auth =
     \<lparr>ae_saf = (\<lambda>log req. \<lparr>sr_safRC = (case req of SafVerify _ (Some u) (Some p) _ \<Rightarrow> (if u = ''ADA'' \<and> p = ''SECRET'' then 0 else 8)
                                                 | SafAuth c e a _ \<Rightarrow> (if e = ''E.OPEN'' then 0 else 8) | _ \<Rightarrow> 0),
                             sr_racfRC = 0, sr_racfRsn = 0,
                             sr_acee = (case req of SafVerify (VERIFY_CREATE # _) _ _ _ \<Rightarrow> Some 7 | _ \<Rightarrow> None),
                             sr_access = 4, sr_idtLen = 3, sr_idt = ''IDT'', sr_abend = None\<rparr>),
      ae_recoveryPush = 0, ae_CMS_PROD_ID = ''ZWES'',
      ae_getConfigParm = (\<lambda>name. if name = ''ZWES.AUTH.CLASS'' then (0, ''FACILITY'') else (8, []))\<rparr>"

definition demo_list :: "int \<Rightarrow> AuthServiceParmList" where
  "demo_list fc =
     \<lparr>ap_eyecatcher = ''RSCMPASS'', ap_fc = fc, ap_userIDNullTerm = ''ADA'' @ replicate 6 nul,
      ap_passwordNullTerm = ''SECRET'' @ replicate 95 nul, ap_classNullTerm = replicate 9 nul, ap_padding0 = 0,
      ap_access = 2, ap_entityNullTerm = ''E.OPEN'' @ replicate 250 nul,
      ap_safStatus = \<lparr>ss_safRC = 0, ss_racfRC = 0, ss_racfRSN = 0\<rparr>, ap_traceLevel = 0,
      ap_safIdtService = \<lparr>si_version = 0, si_safIdtLen = 0, si_options = 0, si_safIdt = [], si_applNullTerm = [nul]\<rparr>\<rparr>"

lemmas auth_eval =
  zisAuthServiceFunction_def handleEntityCheck_def handleVerifyPassword_def deleteACEE_def checkClass_def
  getDefaultClassValue_def guardedSaf_def safCall_def cstr_of_def cstr_def nul_def auth_fc_defs auth_length_defs
  ZIS_AUTH_SERVICE_PARMLIST_EYECATCHER_def ZIS_AUTH_SERVICE_SAFIDT_OPTION_RESERVED_def saf_status_def

lemma demo_check:
  "\<exists>pl'. zisAuthServiceFunction demo_auth (Some (demo_list 1)) [] =
     Some (0, Some pl', [SafVerify [VERIFY_DELETE] None None (Some 7), SafAuth ''FACILITY'' ''E.OPEN'' 2 (Some 7),
                         SafVerify [VERIFY_CREATE, VERIFY_WITHOUT_PASSWORD] (Some ''ADA'') None None])"
  by (simp add: auth_eval demo_auth_def demo_list_def)

theorem no_acee_left_witness:
  "\<exists>log. length log = 3 \<and> auth_history demo_auth log \<and> open_acees demo_auth log = {#}"
proof -
  obtain pl' where c: "zisAuthServiceFunction demo_auth (Some (demo_list 1)) [] =
     Some (0, Some pl', [SafVerify [VERIFY_DELETE] None None (Some 7), SafAuth ''FACILITY'' ''E.OPEN'' 2 (Some 7),
                         SafVerify [VERIFY_CREATE, VERIFY_WITHOUT_PASSWORD] (Some ''ADA'') None None])"
    using demo_check by blast
  have h: "auth_history demo_auth [SafVerify [VERIFY_DELETE] None None (Some 7), SafAuth ''FACILITY'' ''E.OPEN'' 2 (Some 7),
                         SafVerify [VERIFY_CREATE, VERIFY_WITHOUT_PASSWORD] (Some ''ADA'') None None]"
    by (rule auth_history.call [OF auth_history.start c])
  from no_acee_left [OF h] h show ?thesis
    by (intro exI [of _ "[SafVerify [VERIFY_DELETE] None None (Some 7), SafAuth ''FACILITY'' ''E.OPEN'' 2 (Some 7),
                         SafVerify [VERIFY_CREATE, VERIFY_WITHOUT_PASSWORD] (Some ''ADA'') None None]"]) simp
qed

text \<open>What a handler that answers \<open>RC_ZIS_AUTHSRV_OK\<close> has been told by SAF.\<close>

lemma deleteACEE_ok:
  "deleteACEE env r pl log = Some (0, pl', log') \<Longrightarrow>
     sr_safRC r = 0 \<and> log' = SafVerify [VERIFY_DELETE] None None (sr_acee r) # log \<and> pl' = pl\<lparr>ap_safStatus := saf_status r\<rparr>"
  by (auto simp: deleteACEE_def bind_eq_Some_conv dest!: safCall_SomeD split: if_splits)

lemma handleVerifyUser_ok:
  assumes "handleVerifyUser env pl log = Some (0, pl', log')"
  shows "\<exists>user. cstr_of (ap_userIDNullTerm pl) = Some user \<and>
     granted env log (SafVerify [VERIFY_CREATE, VERIFY_WITHOUT_PASSWORD] (Some user) None None)"
  using assms
  by (auto simp: handleVerifyUser_def bind_eq_Some_conv granted_def dest!: safCall_SomeD deleteACEE_ok split: if_splits)

lemma handleVerifyPassword_ok:
  assumes "handleVerifyPassword env pl log = Some (0, pl', log')"
  shows "\<exists>user password. cstr_of (ap_userIDNullTerm pl) = Some user \<and> cstr_of (ap_passwordNullTerm pl) = Some password \<and>
     granted env log (SafVerify [VERIFY_CREATE] (Some user) (Some password) None)"
  using assms
  by (auto simp: handleVerifyPassword_def bind_eq_Some_conv granted_def dest!: safCall_SomeD deleteACEE_ok split: if_splits)

lemma handleGenerateToken_ok:
  assumes "handleGenerateToken env pl log = Some (0, pl', log')"
  shows "\<exists>user password req. cstr_of (ap_userIDNullTerm pl) = Some user \<and> cstr_of (ap_passwordNullTerm pl) = Some password \<and>
     tokenRequest pl user password = Some req \<and> granted env log req \<and>
     si_safIdt (ap_safIdtService pl') = sr_idt (ae_saf env log req) \<and>
     si_safIdtLen (ap_safIdtService pl') = sr_idtLen (ae_saf env log req)"
proof -
  from assms obtain user password req r where a: "cstr_of (ap_userIDNullTerm pl) = Some user"
    "cstr_of (ap_passwordNullTerm pl) = Some password" "tokenRequest pl user password = Some req"
    and s0: "\<exists>log1. safCall env req log = Some (r, log1)"
    unfolding handleGenerateToken_def
    by (cases "si_version (ap_safIdtService pl) > ZIS_SAF_IDT_SERVICE_CURRENT_VERSION")
      (auto simp: bind_eq_Some_conv)
  then have s: "safCall env req log = Some (r, req # log)" by (auto dest: safCall_SomeD)
  have d: "\<exists>idt. si_safIdt idt = sr_idt r \<and> (sr_safRC r = 0 \<longrightarrow> si_safIdtLen idt = sr_idtLen r) \<and>
      deleteACEE env r (pl\<lparr>ap_safIdtService := idt\<rparr>) (req # log) = Some (0, pl', log')"
    using assms unfolding handleGenerateToken_def
    by (cases "si_version (ap_safIdtService pl) > ZIS_SAF_IDT_SERVICE_CURRENT_VERSION") (auto simp: a s Let_def intro!: exI)
  then obtain idt where i: "si_safIdt idt = sr_idt r" "sr_safRC r = 0 \<longrightarrow> si_safIdtLen idt = sr_idtLen r"
    "deleteACEE env r (pl\<lparr>ap_safIdtService := idt\<rparr>) (req # log) = Some (0, pl', log')" by blast
  from deleteACEE_ok [OF i(3)] i(1,2) safCall_SomeD [OF s] a show ?thesis by (auto simp: granted_def)
qed

lemma checkClass_ok:
  assumes "checkClass env pl = Some (0, cls)"
  shows "\<exists>configured given. ae_getConfigParm env (ae_CMS_PROD_ID env @ ''.AUTH.CLASS'') = (0, configured) \<and>
     cls = cstr configured \<and> cstr_of (ap_classNullTerm pl) = Some given \<and> given \<in> {[], cls}"
proof -
  have "cstr (v @ [nul]) = cstr v" for v by (simp add: cstr_def takeWhile_tail)
  with assms show ?thesis
    by (auto simp: checkClass_def getDefaultClassValue_def Let_def bind_eq_Some_conv split: prod.splits if_splits)
qed

lemma guardedSaf_ok:
  "guardedSaf env req status log = (0, reply, status', log') \<Longrightarrow>
     granted env log req \<and> reply = Some (ae_saf env log req) \<and> log' = req # log"
  by (auto simp: guardedSaf_def granted_def Let_def split: if_splits option.splits)

lemma handleEntityCheck_ok:
  assumes "handleEntityCheck env pl log = Some (0, pl', log')"
  shows "\<exists>cls user entity c. checkClass env pl = Some (0, cls) \<and>
     cstr_of (ap_userIDNullTerm pl) = Some user \<and> cstr_of (ap_entityNullTerm pl) = Some entity \<and>
     c = SafVerify [VERIFY_CREATE, VERIFY_WITHOUT_PASSWORD] (Some user) None None \<and> granted env log c \<and>
     granted env (c # log) (SafAuth cls entity (ap_access pl) (sr_acee (ae_saf env log c)))"
  using assms
proof (cases rule: handleEntityCheck_cases)
  case (asked cls u e c authRC reply status log2 d)
  then have "authRC = 0" by (simp split: if_splits)
  from guardedSaf_ok [OF asked(6) [unfolded this]] asked(1-5) show ?thesis by auto
qed simp_all

lemma handleAccessRetrieval_ok:
  assumes "handleAccessRetrieval env pl log = Some (0, pl', log')"
  shows "\<exists>cls user entity c q. checkClass env pl = Some (0, cls) \<and>
     cstr_of (ap_userIDNullTerm pl) = Some user \<and> cstr_of (ap_entityNullTerm pl) = Some entity \<and>
     c = SafVerify [VERIFY_CREATE, VERIFY_WITHOUT_PASSWORD, VERIFY_WITHOUT_LOG] (Some user) None None \<and> granted env log c \<and>
     q = SafAuthStatus cls entity (sr_acee (ae_saf env log c)) \<and> granted env (c # log) q \<and>
     ap_access pl' = sr_access (ae_saf env (c # log) q)"
proof -
  from assms obtain cls user entity where k: "checkClass env pl = Some (0, cls)"
    "cstr_of (ap_userIDNullTerm pl) = Some user" "cstr_of (ap_entityNullTerm pl) = Some entity"
    and g: "getAccessType env cls user entity pl log = Some (0, pl', log')"
    by (auto simp: handleAccessRetrieval_def bind_eq_Some_conv split: if_splits)
  let ?c = "SafVerify [VERIFY_CREATE, VERIFY_WITHOUT_PASSWORD, VERIFY_WITHOUT_LOG] (Some user) None None"
  have c: "granted env log ?c" using g by (auto simp: getAccessType_def safCall_def granted_def Let_def split: if_splits)
  let ?q = "SafAuthStatus cls entity (sr_acee (ae_saf env log ?c))"
  obtain authRC reply status log2 where gs:
    "guardedSaf env ?q (saf_status (ae_saf env log ?c)) (?c # log) = (authRC, reply, status, log2)" by (metis prod_cases4)
  have s: "safCall env ?c log = Some (ae_saf env log ?c, ?c # log)" "sr_safRC (ae_saf env log ?c) = 0"
    using c by (simp_all add: safCall_def granted_def Let_def)
  have r: "authRC = 0" "ap_access pl' = (case reply of None \<Rightarrow> 0 | Some a \<Rightarrow> sr_access a)"
    using g by (auto simp: getAccessType_def s gs bind_eq_Some_conv Let_def split: if_splits)
  from guardedSaf_ok [OF gs [unfolded r(1)]] r(2) k c show ?thesis by auto
qed

text \<open>
  C2. The service answers \<open>RC_ZIS_AUTHSRV_OK\<close> only when SAF has granted the request for the user of the
  parameter list: with the password of the list, with the token request, or, for an entity, first an
  ACEE of the user and with it the access asked for to the entity of the list in the configured class;
  a class in the list is empty or this one. An access level and a token that are returned are the ones
  SAF answered.
\<close>

theorem auth_ok_means_authorized:
  assumes "zisAuthServiceFunction env (Some pl) log = Some (RC_ZIS_AUTHSRV_OK, Some pl', log')"
  defines "u \<equiv> cstr (ap_userIDNullTerm pl)" and "pw \<equiv> cstr (ap_passwordNullTerm pl)" and "e \<equiv> cstr (ap_entityNullTerm pl)"
  shows "ap_fc pl \<in> {0, 1, 2, 3, 4} \<and>
    (ap_fc pl = ZIS_AUTH_SERVICE_PARMLIST_FC_VERIFY_PASSWORD \<longrightarrow>
       granted env log (SafVerify [VERIFY_CREATE] (Some u) (Some pw) None)) \<and>
    (ap_fc pl = ZIS_AUTH_SERVICE_PARMLIST_FC_VERIFY_USER \<longrightarrow>
       granted env log (SafVerify [VERIFY_CREATE, VERIFY_WITHOUT_PASSWORD] (Some u) None None)) \<and>
    (ap_fc pl = ZIS_AUTH_SERVICE_PARMLIST_FC_GENERATE_TOKEN \<longrightarrow>
       (\<exists>req. tokenRequest pl u pw = Some req \<and> granted env log req \<and>
          si_safIdt (ap_safIdtService pl') = sr_idt (ae_saf env log req) \<and>
          si_safIdtLen (ap_safIdtService pl') = sr_idtLen (ae_saf env log req))) \<and>
    (ap_fc pl \<in> {ZIS_AUTH_SERVICE_PARMLIST_FC_ENTITY_CHECK, ZIS_AUTH_SERVICE_PARMLIST_FC_GET_ACCESS} \<longrightarrow>
       (\<exists>cls opts c. ae_getConfigParm env (ae_CMS_PROD_ID env @ ''.AUTH.CLASS'') = (0, cls) \<and>
          cstr (ap_classNullTerm pl) \<in> {[], cstr cls} \<and>
          c = SafVerify ([VERIFY_CREATE, VERIFY_WITHOUT_PASSWORD] @ opts) (Some u) None None \<and> granted env log c \<and>
          (if ap_fc pl = ZIS_AUTH_SERVICE_PARMLIST_FC_ENTITY_CHECK
           then granted env (c # log) (SafAuth (cstr cls) e (ap_access pl) (sr_acee (ae_saf env log c)))
           else granted env (c # log) (SafAuthStatus (cstr cls) e (sr_acee (ae_saf env log c))) \<and>
                ap_access pl' = sr_access (ae_saf env (c # log) (SafAuthStatus (cstr cls) e (sr_acee (ae_saf env log c)))))))"
proof -
  have v: "cstr_of a = Some s \<Longrightarrow> s = cstr a" for a s by (simp add: cstr_of_def split: if_splits)
  let ?d = "(if ap_fc pl = 0 then handleVerifyPassword env pl log
     else if ap_fc pl = 1 then handleEntityCheck env pl log
     else if ap_fc pl = 2 then handleAccessRetrieval env pl log
     else if ap_fc pl = 3 then handleGenerateToken env pl log
     else if ap_fc pl = 4 then handleVerifyUser env pl log
     else Some (RC_ZIS_AUTHSRV_UNKNOWN_FUNCTION_CODE, pl, log))"
  have h: "?d = Some (0, pl', log')"
    using assms(1) unfolding zisAuthServiceFunction_def auth_fc_defs
    by (auto simp: bind_eq_Some_conv simp del: split_paired_Ex split: if_split_asm)
  then consider "ap_fc pl = 0" "handleVerifyPassword env pl log = Some (0, pl', log')"
    | "ap_fc pl = 1" "handleEntityCheck env pl log = Some (0, pl', log')"
    | "ap_fc pl = 2" "handleAccessRetrieval env pl log = Some (0, pl', log')"
    | "ap_fc pl = 3" "handleGenerateToken env pl log = Some (0, pl', log')"
    | "ap_fc pl = 4" "handleVerifyUser env pl log = Some (0, pl', log')"
    by (auto split: if_split_asm)
  then show ?thesis
  proof cases
    case 1
    with handleVerifyPassword_ok [OF 1(2)] show ?thesis by (auto simp: auth_fc_defs u_def pw_def dest!: v)
  next
    case 2
    then show ?thesis
      using handleEntityCheck_ok [OF 2(2)] checkClass_ok [of env pl]
      by (auto simp: auth_fc_defs u_def e_def dest!: v intro!: exI [of _ "[] :: verify_option list"])
  next
    case 3
    then show ?thesis
      using handleAccessRetrieval_ok [OF 3(2)] checkClass_ok [of env pl]
      by (auto simp: auth_fc_defs u_def e_def dest!: v intro!: exI [of _ "[VERIFY_WITHOUT_LOG]"])
  next
    case 4
    with handleGenerateToken_ok [OF 4(2)] show ?thesis by (auto simp: auth_fc_defs u_def pw_def dest!: v)
  next
    case 5
    with handleVerifyUser_ok [OF 5(2)] show ?thesis by (auto simp: auth_fc_defs u_def dest!: v)
  qed
qed

theorem auth_ok_means_authorized_witness:
  "granted demo_auth [SafVerify [VERIFY_CREATE, VERIFY_WITHOUT_PASSWORD] (Some ''ADA'') None None]
     (SafAuth ''FACILITY'' ''E.OPEN'' 2 (Some 7))"
proof -
  obtain pl' log' where c: "zisAuthServiceFunction demo_auth (Some (demo_list 1)) [] = Some (0, Some pl', log')"
    using demo_check by blast
  from auth_ok_means_authorized [OF c] show ?thesis
    by (auto simp: auth_fc_defs demo_list_def demo_auth_def cstr_def nul_def granted_def)
qed

definition list_terminated :: "AuthServiceParmList \<Rightarrow> bool" where
  "list_terminated pl \<longleftrightarrow>
     nul \<in> set (ap_userIDNullTerm pl) \<and> nul \<in> set (ap_passwordNullTerm pl) \<and> nul \<in> set (ap_classNullTerm pl) \<and>
     nul \<in> set (ap_entityNullTerm pl) \<and> nul \<in> set (si_applNullTerm (ap_safIdtService pl))"

fun is_verify :: "SafRequest \<Rightarrow> bool" where
  "is_verify (SafAuth _ _ _ _) = False"
| "is_verify (SafAuthStatus _ _ _) = False"
| "is_verify _ = True"

definition verify_stable :: "AuthEnv \<Rightarrow> bool" where
  "verify_stable env \<longleftrightarrow> (\<forall>log req. is_verify req \<longrightarrow> sr_abend (ae_saf env log req) = None)"

definition same_input :: "AuthServiceParmList \<Rightarrow> AuthServiceParmList \<Rightarrow> bool" where
  "same_input pl pl' \<longleftrightarrow>
     (\<exists>access status idt. pl' = pl\<lparr>ap_access := access, ap_safStatus := status, ap_safIdtService := idt\<rparr>)"

lemma same_input_status [intro]: "same_input pl (pl\<lparr>ap_safStatus := s\<rparr>)" "same_input pl pl"
  "same_input pl (pl\<lparr>ap_safIdtService := i, ap_safStatus := s\<rparr>)" "same_input pl (pl\<lparr>ap_safStatus := s, ap_access := a\<rparr>)"
  unfolding same_input_def
  by (intro exI [of _ "ap_access pl"] exI [of _ s] exI [of _ "ap_safIdtService pl"], simp)
    (intro exI [of _ "ap_access pl"] exI [of _ "ap_safStatus pl"] exI [of _ "ap_safIdtService pl"], simp,
     intro exI [of _ "ap_access pl"] exI [of _ s] exI [of _ i], simp,
     intro exI [of _ a] exI [of _ s] exI [of _ "ap_safIdtService pl"], simp)

lemma stable_safCall: "verify_stable env \<Longrightarrow> is_verify req \<Longrightarrow> safCall env req log = Some (ae_saf env log req, req # log)"
  by (simp add: verify_stable_def safCall_def)

lemma stable_deleteACEE:
  "verify_stable env \<Longrightarrow> \<exists>r log' s. deleteACEE env x pl log = Some (r, pl\<lparr>ap_safStatus := s\<rparr>, log')"
  by (auto simp: deleteACEE_def stable_safCall)

lemma terminated_fields:
  assumes "list_terminated pl"
  shows "cstr_of (ap_userIDNullTerm pl) = Some (cstr (ap_userIDNullTerm pl))"
    "cstr_of (ap_passwordNullTerm pl) = Some (cstr (ap_passwordNullTerm pl))"
    "cstr_of (ap_classNullTerm pl) = Some (cstr (ap_classNullTerm pl))"
    "cstr_of (ap_entityNullTerm pl) = Some (cstr (ap_entityNullTerm pl))"
    "cstr_of (si_applNullTerm (ap_safIdtService pl)) = Some (cstr (si_applNullTerm (ap_safIdtService pl)))"
  using assms by (simp_all add: list_terminated_def cstr_of_def)

lemma terminated_checkClass: "list_terminated pl \<Longrightarrow> \<exists>r cls. checkClass env pl = Some (r, cls)"
  by (auto simp: checkClass_def Let_def terminated_fields split: prod.splits)

lemma terminated_tokenRequest: "list_terminated pl \<Longrightarrow> \<exists>req. tokenRequest pl u p = Some req \<and> is_verify req"
  by (auto simp: tokenRequest_def Let_def terminated_fields)

lemma handleGenerateToken_returns:
  assumes "list_terminated pl" and "verify_stable env"
  shows "\<exists>r pl' log'. handleGenerateToken env pl log = Some (r, pl', log') \<and> same_input pl pl'"
proof -
  obtain req where "tokenRequest pl (cstr (ap_userIDNullTerm pl)) (cstr (ap_passwordNullTerm pl)) = Some req" "is_verify req"
    using terminated_tokenRequest [OF assms(1)] by blast
  note s = this stable_safCall [OF assms(2) this(2)] terminated_fields [OF assms(1)]
  obtain r log' st where "deleteACEE env (ae_saf env log req)
     (pl\<lparr>ap_safIdtService := if sr_safRC (ae_saf env log req) \<noteq> 0 then (ap_safIdtService pl)\<lparr>si_safIdt := sr_idt (ae_saf env log req)\<rparr>
         else (ap_safIdtService pl)\<lparr>si_safIdt := sr_idt (ae_saf env log req), si_safIdtLen := sr_idtLen (ae_saf env log req)\<rparr>\<rparr>)
     (req # log) = Some (r, pl\<lparr>ap_safIdtService := if sr_safRC (ae_saf env log req) \<noteq> 0 then (ap_safIdtService pl)\<lparr>si_safIdt := sr_idt (ae_saf env log req)\<rparr>
         else (ap_safIdtService pl)\<lparr>si_safIdt := sr_idt (ae_saf env log req), si_safIdtLen := sr_idtLen (ae_saf env log req)\<rparr>,
         ap_safStatus := st\<rparr>, log')"
    using stable_deleteACEE [OF assms(2)] by metis
  with s show ?thesis by (auto simp: handleGenerateToken_def Let_def)
qed

lemma handleEntityCheck_returns:
  assumes "list_terminated pl" and "verify_stable env"
  shows "\<exists>r pl' log'. handleEntityCheck env pl log = Some (r, pl', log') \<and> same_input pl pl'"
proof -
  obtain r0 cls where "checkClass env pl = Some (r0, cls)" using terminated_checkClass [OF assms(1)] by blast
  with terminated_fields [OF assms(1)] stable_safCall [OF assms(2)] show ?thesis
    by (auto simp: handleEntityCheck_def Let_def split: prod.splits)
qed

lemma handleAccessRetrieval_returns:
  assumes "list_terminated pl" and "verify_stable env"
  shows "\<exists>r pl' log'. handleAccessRetrieval env pl log = Some (r, pl', log') \<and> same_input pl pl'"
proof -
  obtain r0 cls where "checkClass env pl = Some (r0, cls)" using terminated_checkClass [OF assms(1)] by blast
  with terminated_fields [OF assms(1)] stable_safCall [OF assms(2)] show ?thesis
    by (auto simp: handleAccessRetrieval_def getAccessType_def Let_def split: prod.splits)
qed

lemma handleVerify_returns:
  assumes "list_terminated pl" and "verify_stable env"
  shows "\<exists>r pl' log'. handleVerifyUser env pl log = Some (r, pl', log') \<and> same_input pl pl'"
    "\<exists>r pl' log'. handleVerifyPassword env pl log = Some (r, pl', log') \<and> same_input pl pl'"
  using stable_deleteACEE [OF assms(2)] terminated_fields [OF assms(1)] stable_safCall [OF assms(2)]
  by (auto simp: handleVerifyUser_def handleVerifyPassword_def) (metis same_input_status(1))+

lemma authService_total:
  assumes "list_terminated pl" and "verify_stable env"
  shows "\<exists>r pl' log'. zisAuthServiceFunction env (Some pl) log = Some (r, Some pl', log') \<and> same_input pl pl'"
proof -
  let ?d = "(if ap_fc pl = ZIS_AUTH_SERVICE_PARMLIST_FC_VERIFY_PASSWORD then handleVerifyPassword env pl log
     else if ap_fc pl = ZIS_AUTH_SERVICE_PARMLIST_FC_ENTITY_CHECK then handleEntityCheck env pl log
     else if ap_fc pl = ZIS_AUTH_SERVICE_PARMLIST_FC_GET_ACCESS then handleAccessRetrieval env pl log
     else if ap_fc pl = ZIS_AUTH_SERVICE_PARMLIST_FC_GENERATE_TOKEN then handleGenerateToken env pl log
     else if ap_fc pl = ZIS_AUTH_SERVICE_PARMLIST_FC_VERIFY_USER then handleVerifyUser env pl log
     else Some (RC_ZIS_AUTHSRV_UNKNOWN_FUNCTION_CODE, pl, log))"
  have "\<exists>r pl' log'. ?d = Some (r, pl', log') \<and> same_input pl pl'"
    using handleVerify_returns [OF assms] handleAccessRetrieval_returns [OF assms] handleEntityCheck_returns [OF assms]
      handleGenerateToken_returns [OF assms] by auto
  then obtain r pl' log' where d: "?d = Some (r, pl', log')" "same_input pl pl'" by blast
  show ?thesis unfolding zisAuthServiceFunction_def option.case d(1) using d(2) by auto
qed

text \<open>
  C28. The service returns: when the strings of the parameter list are terminated and SAF does not abend
  in the requests the service makes without recovery, \<open>zisAuthServiceFunction\<close> has a result for every
  function code and every answer of SAF, abends of \<open>safAuth\<close> and \<open>safAuthStatus\<close> included; of the client's
  list it changes at most the access level, the status and the token.
\<close>

theorem auth_service_returns:
  assumes "list_terminated pl" and "verify_stable env"
  shows "\<exists>r access status idt log'. zisAuthServiceFunction env (Some pl) log =
     Some (r, Some (pl\<lparr>ap_access := access, ap_safStatus := status, ap_safIdtService := idt\<rparr>), log')"
  using authService_total [OF assms] unfolding same_input_def by blast

theorem auth_service_returns_witness:
  "\<exists>r pl' log'. zisAuthServiceFunction demo_auth (Some (demo_list 3)) [] = Some (r, Some pl', log')"
proof -
  have "list_terminated (demo_list 3)" by (simp add: list_terminated_def demo_list_def)
  moreover have "verify_stable demo_auth" by (simp add: verify_stable_def demo_auth_def)
  ultimately show ?thesis using auth_service_returns by blast
qed

end
