(* ===== verification/ZIS_Secmgmt.thy ===== *)
theory ZIS_Secmgmt
  imports ZIS_Auth
begin

text \<open>
  The security management services of the cross-memory server (src/h/zis/services/secmgmt.h,
  src/c/zis/services/secmgmt.c and secmgmtUtils.c): the parameter lists, their validation, the
  services for RACF that extract users, general resource profiles, groups and access lists, and
  the administration of general resource profiles and of groups.

  The R_admin functions of zowe-common-c are a parameter, a function from the requests made so far
  and a request to a reply, as SAF is in the authentication service. The core server's configuration
  parameters, the caller's user ID and the allocation of the temporary buffer are parameters too, and
  so are the services for Top Secret (secmgmttss.c), which the dispatching functions choose when the
  security manager is Top Secret. Debug messages are left out.
\<close>

section \<open>Parameter lists\<close>

definition ZIS_SECURITY_CLASS_MAX_LENGTH :: nat where "ZIS_SECURITY_CLASS_MAX_LENGTH = 8"
definition ZIS_SECURITY_PROFILE_MAX_LENGTH :: nat where "ZIS_SECURITY_PROFILE_MAX_LENGTH = 255"
definition ZIS_SECURITY_GROUP_MAX_LENGTH :: nat where "ZIS_SECURITY_GROUP_MAX_LENGTH = 8"
definition ZIS_USER_ID_MAX_LENGTH :: nat where "ZIS_USER_ID_MAX_LENGTH = 8"

lemmas sec_length_defs =
  ZIS_SECURITY_CLASS_MAX_LENGTH_def ZIS_SECURITY_PROFILE_MAX_LENGTH_def ZIS_SECURITY_GROUP_MAX_LENGTH_def
  ZIS_USER_ID_MAX_LENGTH_def

text \<open>A class, profile, group or user ID: a length byte and a character array.\<close>

record SizedField =
  sf_length :: "8 word"
  sf_value :: string

definition sf_text :: "SizedField \<Rightarrow> string" where
  "sf_text f = take (unat (sf_length f)) (sf_value f)"

definition ZIS_USERPROF_SERVICE_PARMLIST_EYECATCHER :: string where "ZIS_USERPROF_SERVICE_PARMLIST_EYECATCHER = ''RSUPROFS''"
definition ZIS_GRESPROF_SERVICE_PARMLIST_EYECATCHER :: string where "ZIS_GRESPROF_SERVICE_PARMLIST_EYECATCHER = ''RSGPROFS''"
definition ZIS_ACSLIST_SERVICE_PARMLIST_EYECATCHER :: string where "ZIS_ACSLIST_SERVICE_PARMLIST_EYECATCHER = ''RSACSLST''"
definition ZIS_GENRES_ADMIN_SERVICE_PARMLIST_EYECATCHER :: string where "ZIS_GENRES_ADMIN_SERVICE_PARMLIST_EYECATCHER = ''RSGRADMN''"
definition ZIS_GRPPROF_SERVICE_PARMLIST_EYECATCHER :: string where "ZIS_GRPPROF_SERVICE_PARMLIST_EYECATCHER = ''RSGRPPRF''"
definition ZIS_GRPALST_SERVICE_PARMLIST_EYECATCHER :: string where "ZIS_GRPALST_SERVICE_PARMLIST_EYECATCHER = ''RSGRPALST''"
definition ZIS_GROUP_ADMIN_SERVICE_PARMLIST_EYECATCHER :: string where "ZIS_GROUP_ADMIN_SERVICE_PARMLIST_EYECATCHER = ''RSGPADMN''"

lemmas sec_eyecatcher_defs =
  ZIS_USERPROF_SERVICE_PARMLIST_EYECATCHER_def ZIS_GRESPROF_SERVICE_PARMLIST_EYECATCHER_def
  ZIS_ACSLIST_SERVICE_PARMLIST_EYECATCHER_def ZIS_GENRES_ADMIN_SERVICE_PARMLIST_EYECATCHER_def
  ZIS_GRPPROF_SERVICE_PARMLIST_EYECATCHER_def ZIS_GRPALST_SERVICE_PARMLIST_EYECATCHER_def
  ZIS_GROUP_ADMIN_SERVICE_PARMLIST_EYECATCHER_def

text \<open>The fields all lists have; the eyecatchers are compared and copied in eight bytes.\<close>

record SecParmList =
  pl_eyecatcher :: string
  pl_flags :: flags
  pl_traceLevel :: int
  pl_internalServiceRC :: rc
  pl_internalServiceRSN :: rc
  pl_safStatus :: SAFAuthStatus

record ZISUserProfileServiceParmList = SecParmList +
  up_startUserID :: SizedField
  up_profilesToExtract :: "32 word"
  up_resultBuffer :: "addr option"
  up_profilesExtracted :: "32 word"

record ZISGenresProfileServiceParmList = SecParmList +
  gp_class :: SizedField
  gp_startProfile :: SizedField
  gp_profilesToExtract :: "32 word"
  gp_resultBuffer :: "addr option"
  gp_profilesExtracted :: "32 word"

record ZISGenresAccessListServiceParmList = SecParmList +
  ga_class :: SizedField
  ga_profile :: SizedField
  ga_resultBufferCapacity :: "32 word"
  ga_resultBuffer :: "addr option"
  ga_entriesExtracted :: "32 word"
  ga_entriesFound :: "32 word"

record ZISGroupProfileServiceParmList = SecParmList +
  rp_startGroup :: SizedField
  rp_profilesToExtract :: "32 word"
  rp_resultBuffer :: "addr option"
  rp_profilesExtracted :: "32 word"

record ZISGroupAccessListServiceParmList = SecParmList +
  ra_group :: SizedField
  ra_resultBufferCapacity :: "32 word"
  ra_resultBuffer :: "addr option"
  ra_entriesExtracted :: "32 word"
  ra_entriesFound :: "32 word"

text \<open>
  The function codes and access types are 16-bit enumerations with the values of the header; a
  message is a length and a text of 510 bytes.
\<close>

record ZISServiceMessage =
  sm_length :: "16 word"
  sm_text :: string

definition ZIS_ADMIN_MESSAGE_SIZE :: nat where "ZIS_ADMIN_MESSAGE_SIZE = 510"

record ZISGenresAdminServiceParmList = SecParmList +
  gn_function :: int
  gn_profile :: SizedField
  gn_owner :: SizedField
  gn_user :: SizedField
  gn_accessType :: int
  gn_serviceMessage :: ZISServiceMessage
  gn_operatorCommand :: ZISServiceMessage

record ZISGroupAdminServiceParmList = SecParmList +
  gr_function :: int
  gr_group :: SizedField
  gr_superiorGroup :: SizedField
  gr_user :: SizedField
  gr_accessType :: int
  gr_serviceMessage :: ZISServiceMessage
  gr_operatorCommand :: ZISServiceMessage

definition ZIS_ADMIN_FLAG_DRYRUN :: flags where "ZIS_ADMIN_FLAG_DRYRUN = 1"

definition ZIS_GENRES_ADMIN_SRV_FC_DEFINE :: int where "ZIS_GENRES_ADMIN_SRV_FC_DEFINE = 0"
definition ZIS_GENRES_ADMIN_SRV_FC_DELETE :: int where "ZIS_GENRES_ADMIN_SRV_FC_DELETE = 1"
definition ZIS_GENRES_ADMIN_SRV_FC_GIVE_ACCESS :: int where "ZIS_GENRES_ADMIN_SRV_FC_GIVE_ACCESS = 2"
definition ZIS_GENRES_ADMIN_SRV_FC_REVOKE_ACCESS :: int where "ZIS_GENRES_ADMIN_SRV_FC_REVOKE_ACCESS = 3"
definition ZIS_GENRES_ADMIN_SRV_FC_MIN :: int where "ZIS_GENRES_ADMIN_SRV_FC_MIN = 0"
definition ZIS_GENRES_ADMIN_SRV_FC_MAX :: int where "ZIS_GENRES_ADMIN_SRV_FC_MAX = 3"
definition ZIS_GENRES_ADMIN_ACESS_TYPE_MIN :: int where "ZIS_GENRES_ADMIN_ACESS_TYPE_MIN = 0"
definition ZIS_GENRES_ADMIN_ACESS_TYPE_READ :: int where "ZIS_GENRES_ADMIN_ACESS_TYPE_READ = 0"
definition ZIS_GENRES_ADMIN_ACESS_TYPE_UPDATE :: int where "ZIS_GENRES_ADMIN_ACESS_TYPE_UPDATE = 1"
definition ZIS_GENRES_ADMIN_ACESS_TYPE_ALTER :: int where "ZIS_GENRES_ADMIN_ACESS_TYPE_ALTER = 2"
definition ZIS_GENRES_ADMIN_ACESS_TYPE_ALL :: int where "ZIS_GENRES_ADMIN_ACESS_TYPE_ALL = 3"
definition ZIS_GENRES_ADMIN_ACESS_TYPE_MAX :: int where "ZIS_GENRES_ADMIN_ACESS_TYPE_MAX = 3"
definition ZIS_GENRES_PRODUCTS :: "string list" where "ZIS_GENRES_PRODUCTS = [''ZOWE'']"

lemmas genres_admin_defs =
  ZIS_GENRES_ADMIN_SRV_FC_DEFINE_def ZIS_GENRES_ADMIN_SRV_FC_DELETE_def ZIS_GENRES_ADMIN_SRV_FC_GIVE_ACCESS_def
  ZIS_GENRES_ADMIN_SRV_FC_REVOKE_ACCESS_def ZIS_GENRES_ADMIN_SRV_FC_MIN_def ZIS_GENRES_ADMIN_SRV_FC_MAX_def
  ZIS_GENRES_ADMIN_ACESS_TYPE_MIN_def ZIS_GENRES_ADMIN_ACESS_TYPE_READ_def ZIS_GENRES_ADMIN_ACESS_TYPE_UPDATE_def
  ZIS_GENRES_ADMIN_ACESS_TYPE_ALTER_def ZIS_GENRES_ADMIN_ACESS_TYPE_ALL_def ZIS_GENRES_ADMIN_ACESS_TYPE_MAX_def

definition ZIS_GROUP_ADMIN_SRV_FC_ADD :: int where "ZIS_GROUP_ADMIN_SRV_FC_ADD = 0"
definition ZIS_GROUP_ADMIN_SRV_FC_DELETE :: int where "ZIS_GROUP_ADMIN_SRV_FC_DELETE = 1"
definition ZIS_GROUP_ADMIN_SRV_FC_CONNECT_USER :: int where "ZIS_GROUP_ADMIN_SRV_FC_CONNECT_USER = 2"
definition ZIS_GROUP_ADMIN_SRV_FC_REMOVE_USER :: int where "ZIS_GROUP_ADMIN_SRV_FC_REMOVE_USER = 3"
definition ZIS_GROUP_ADMIN_SRV_FC_MIN :: int where "ZIS_GROUP_ADMIN_SRV_FC_MIN = 0"
definition ZIS_GROUP_ADMIN_SRV_FC_MAX :: int where "ZIS_GROUP_ADMIN_SRV_FC_MAX = 3"
definition ZIS_GROUP_ADMIN_ACESS_TYPE_UNKNOWN :: int where "ZIS_GROUP_ADMIN_ACESS_TYPE_UNKNOWN = - 1"
definition ZIS_GROUP_ADMIN_ACESS_TYPE_MIN :: int where "ZIS_GROUP_ADMIN_ACESS_TYPE_MIN = 0"
definition ZIS_GROUP_ADMIN_ACESS_TYPE_USE :: int where "ZIS_GROUP_ADMIN_ACESS_TYPE_USE = 0"
definition ZIS_GROUP_ADMIN_ACESS_TYPE_CREATE :: int where "ZIS_GROUP_ADMIN_ACESS_TYPE_CREATE = 1"
definition ZIS_GROUP_ADMIN_ACESS_TYPE_CONNECT :: int where "ZIS_GROUP_ADMIN_ACESS_TYPE_CONNECT = 2"
definition ZIS_GROUP_ADMIN_ACESS_TYPE_JOIN :: int where "ZIS_GROUP_ADMIN_ACESS_TYPE_JOIN = 3"
definition ZIS_GROUP_ADMIN_ACESS_TYPE_MAX :: int where "ZIS_GROUP_ADMIN_ACESS_TYPE_MAX = 3"
definition ZIS_GROUP_PRODUCTS :: "string list" where "ZIS_GROUP_PRODUCTS = [''ZWE'', ''ZOWE'', ''MVD'', ''ZIS'']"

lemmas group_admin_defs =
  ZIS_GROUP_ADMIN_SRV_FC_ADD_def ZIS_GROUP_ADMIN_SRV_FC_DELETE_def ZIS_GROUP_ADMIN_SRV_FC_CONNECT_USER_def
  ZIS_GROUP_ADMIN_SRV_FC_REMOVE_USER_def ZIS_GROUP_ADMIN_SRV_FC_MIN_def ZIS_GROUP_ADMIN_SRV_FC_MAX_def
  ZIS_GROUP_ADMIN_ACESS_TYPE_UNKNOWN_def ZIS_GROUP_ADMIN_ACESS_TYPE_MIN_def ZIS_GROUP_ADMIN_ACESS_TYPE_USE_def
  ZIS_GROUP_ADMIN_ACESS_TYPE_CREATE_def ZIS_GROUP_ADMIN_ACESS_TYPE_CONNECT_def ZIS_GROUP_ADMIN_ACESS_TYPE_JOIN_def
  ZIS_GROUP_ADMIN_ACESS_TYPE_MAX_def

section \<open>Validation\<close>

definition bad_eyecatcher :: "'a SecParmList_scheme \<Rightarrow> string \<Rightarrow> bool" where
  "bad_eyecatcher parm eye \<longleftrightarrow> pl_eyecatcher parm \<noteq> take 8 eye"

definition too_long :: "SizedField \<Rightarrow> nat \<Rightarrow> bool" where
  "too_long f n \<longleftrightarrow> unat (sf_length f) > n"

definition validateUserProfileParmList :: "ZISUserProfileServiceParmList \<Rightarrow> rc" where
  "validateUserProfileParmList parm =
     (if bad_eyecatcher parm ZIS_USERPROF_SERVICE_PARMLIST_EYECATCHER then 9
      else if too_long (up_startUserID parm) ZIS_USER_ID_MAX_LENGTH then 10
      else if up_resultBuffer parm = None then 11
      else 0)"

definition validateGenresProfileParmList :: "ZISGenresProfileServiceParmList \<Rightarrow> rc" where
  "validateGenresProfileParmList parm =
     (if bad_eyecatcher parm ZIS_GRESPROF_SERVICE_PARMLIST_EYECATCHER then 9
      else if too_long (gp_class parm) ZIS_SECURITY_CLASS_MAX_LENGTH then 10
      else if too_long (gp_startProfile parm) ZIS_SECURITY_PROFILE_MAX_LENGTH then 11
      else if gp_resultBuffer parm = None then 12
      else 0)"

definition validateGenresAccessListParmList :: "ZISGenresAccessListServiceParmList \<Rightarrow> rc" where
  "validateGenresAccessListParmList parm =
     (if bad_eyecatcher parm ZIS_ACSLIST_SERVICE_PARMLIST_EYECATCHER then 9
      else if too_long (ga_class parm) ZIS_SECURITY_CLASS_MAX_LENGTH then 10
      else if too_long (ga_profile parm) ZIS_SECURITY_PROFILE_MAX_LENGTH then 11
      else if ga_resultBuffer parm = None then 12
      else 0)"

definition validateGroupProfileParmList :: "ZISGroupProfileServiceParmList \<Rightarrow> rc" where
  "validateGroupProfileParmList parm =
     (if bad_eyecatcher parm ZIS_GRPPROF_SERVICE_PARMLIST_EYECATCHER then 9
      else if too_long (rp_startGroup parm) ZIS_SECURITY_GROUP_MAX_LENGTH then 10
      else if rp_resultBuffer parm = None then 11
      else 0)"

definition validateGroupAccessListParmList :: "ZISGroupAccessListServiceParmList \<Rightarrow> rc" where
  "validateGroupAccessListParmList parm =
     (if bad_eyecatcher parm ZIS_GRPALST_SERVICE_PARMLIST_EYECATCHER then 9
      else if too_long (ra_group parm) ZIS_SECURITY_GROUP_MAX_LENGTH then 10
      else if ra_resultBuffer parm = None then 11
      else 0)"

text \<open>
  The administration services work on names of Zowe products only: the loops over the products. The
  character behind a product's name is read from the array whatever the length says.
\<close>

definition isGenresProductSupported :: "SizedField \<Rightarrow> bool" where
  "isGenresProductSupported profile =
     list_ex (\<lambda>p. \<not> length p > unat (sf_length profile) \<and> take (length p + 1) (sf_value profile) = p @ ''.'')
       ZIS_GENRES_PRODUCTS"

definition isGroupProductSupported :: "SizedField \<Rightarrow> bool" where
  "isGroupProductSupported grp =
     list_ex (\<lambda>p. \<not> length p > unat (sf_length grp) \<and> take (length p) (sf_value grp) = p) ZIS_GROUP_PRODUCTS"

definition validateGenresParmList :: "ZISGenresAdminServiceParmList \<Rightarrow> rc" where
  "validateGenresParmList parm =
     (if bad_eyecatcher parm ZIS_GENRES_ADMIN_SERVICE_PARMLIST_EYECATCHER then 9
      else if gn_function parm < ZIS_GENRES_ADMIN_SRV_FC_MIN \<or> ZIS_GENRES_ADMIN_SRV_FC_MAX < gn_function parm then 15
      else if too_long (gn_profile parm) ZIS_SECURITY_PROFILE_MAX_LENGTH then 10
      else if too_long (gn_owner parm) ZIS_USER_ID_MAX_LENGTH then 22
      else if \<not> isGenresProductSupported (gn_profile parm) then 11
      else if too_long (gn_user parm) ZIS_USER_ID_MAX_LENGTH then 13
      else if gn_function parm = ZIS_GENRES_ADMIN_SRV_FC_GIVE_ACCESS \<and>
              (gn_accessType parm < ZIS_GENRES_ADMIN_ACESS_TYPE_MIN \<or> ZIS_GENRES_ADMIN_ACESS_TYPE_MAX < gn_accessType parm)
      then 16
      else 0)"

definition validateGroupParmList :: "ZISGroupAdminServiceParmList \<Rightarrow> rc" where
  "validateGroupParmList parm =
     (if bad_eyecatcher parm ZIS_GROUP_ADMIN_SERVICE_PARMLIST_EYECATCHER then 9
      else if gr_function parm < ZIS_GROUP_ADMIN_SRV_FC_MIN \<or> ZIS_GROUP_ADMIN_SRV_FC_MAX < gr_function parm then 15
      else if too_long (gr_group parm) ZIS_SECURITY_GROUP_MAX_LENGTH then 10
      else if too_long (gr_superiorGroup parm) ZIS_SECURITY_GROUP_MAX_LENGTH then 11
      else if \<not> isGroupProductSupported (gr_group parm) then 12
      else if too_long (gr_user parm) ZIS_USER_ID_MAX_LENGTH then 13
      else if gr_function parm = ZIS_GROUP_ADMIN_SRV_FC_CONNECT_USER \<and>
              (gr_accessType parm < ZIS_GROUP_ADMIN_ACESS_TYPE_MIN \<or> ZIS_GROUP_ADMIN_ACESS_TYPE_MAX < gr_accessType parm)
      then 16
      else 0)"

section \<open>R_admin\<close>

datatype RadminResAction =
    RADMIN_RES_ACTION_ADD_GENRES | RADMIN_RES_ACTION_DELETE_GENRES | RADMIN_RES_ACTION_PERMIT
  | RADMIN_RES_ACTION_PROHIBIT | RADMIN_RES_ACTION_NA

datatype RadminGroupAction =
    RADMIN_GROUP_ACTION_ADD_GROUP | RADMIN_GROUP_ACTION_DELETE_GROUP | RADMIN_GROUP_ACTION_NA

datatype RadminConnectionAction =
    RADMIN_CONNECTION_ACTION_ADD_CONNECTION | RADMIN_CONNECTION_ACTION_REMOVE_CONNECTION | RADMIN_CONNECTION_ACTION_NA

text \<open>
  A parameter list of an action: the name in its head, the flag pair that asks R_admin not to run the
  command but to return it, and the fields of its only segment in their order; \<open>None\<close> when the
  segment's part of the blank buffer is not filled in.
\<close>

record RadminParmList =
  rl_name :: string
  rl_nameLength :: nat
  rl_noRun :: bool
  rl_fields :: "(string \<times> string) list option"

text \<open>The requests, each with the user ID of the caller, which R_admin checks the authority of.\<close>

datatype RadminRequest =
    ExtractUsers SizedField "string option" "32 word"
  | ExtractGenres SizedField string "string option" "32 word"
  | ExtractGenresAccess SizedField string string "32 word"
  | ExtractGroups SizedField "string option" "32 word"
  | ExtractGroupAccess SizedField string "32 word"
  | PerformResAction SizedField RadminResAction RadminParmList
  | PerformGroupAction SizedField RadminGroupAction RadminParmList
  | PerformConnectionAction SizedField RadminConnectionAction RadminParmList
  | RunRACFCommand SizedField string

text \<open>
  A reply: return and reason codes, the entries of an extraction (users with default group and name,
  profiles with owner, groups with owner and superior group, access list entries with access type),
  and the chain of command outputs, as the node found behind \<open>n\<close> links: a chain that runs into itself
  has a node behind any number of links. The kind of a node is what its eyecatcher says.
\<close>

datatype RadminOutputKind = OutputCommand | OutputMessage | OutputOther

record RadminNode =
  rn_kind :: RadminOutputKind
  rn_text :: string

record RadminReply =
  rd_rc :: rc
  rd_reasonCode :: rc
  rd_apiStatus :: SAFAuthStatus
  rd_users :: "(string \<times> string \<times> string) list"
  rd_genres :: "(string \<times> string) list"
  rd_groups :: "(string \<times> string \<times> string) list"
  rd_access :: "(string \<times> string) list"
  rd_output :: "nat \<Rightarrow> RadminNode option"

record SecEnv =
  se_radmin :: "RadminRequest list \<Rightarrow> RadminRequest \<Rightarrow> RadminReply"
  se_caller :: "SizedField option"
  se_getConfigParm :: "string \<Rightarrow> rc \<times> string"
  se_CMS_PROD_ID :: string
  se_safeMalloc64 :: "string \<Rightarrow> 32 word \<Rightarrow> bool"
  se_RC_RADMIN_INSUFF_SPACE :: rc
  se_RC_CMS_CONFIG_PARM_NOT_FOUND :: rc
  se_RADMIN_CMD_MAX_COMMAND_LENGTH :: nat

datatype ExternalSecurityManager = ZOS_ESM_RACF | ZOS_ESM_RTSS | ZOS_ESM_OTHER

text \<open>\<open>secmgmtGetCallerUserID\<close>: no user ID when the caller's task has no ACEE.\<close>

definition secmgmtGetCallerUserID :: "SecEnv \<Rightarrow> SizedField option" where
  "secmgmtGetCallerUserID env = se_caller env"

definition radmin_failed :: "RadminReply \<Rightarrow> 'a SecParmList_scheme \<Rightarrow> 'a SecParmList_scheme" where
  "radmin_failed r parm =
     parm\<lparr>pl_internalServiceRC := rd_rc r, pl_internalServiceRSN := rd_reasonCode r, pl_safStatus := rd_apiStatus r\<rparr>"

text \<open>A start name: a copy of the field that is terminated, or \<open>NULL\<close> for an empty field.\<close>

definition start_name :: "SizedField \<Rightarrow> string option" where
  "start_name f = (if sf_length f > 0 then Some (cstr (sf_text f)) else None)"

text \<open>The configured class: a return code for the two failures, and the class's text.\<close>

definition userClass :: "SecEnv \<Rightarrow> rc \<times> string" where
  "userClass env = se_getConfigParm env (se_CMS_PROD_ID env @ ''.SECMGMT.CLASS'')"

section \<open>Extracting users, profiles and groups\<close>

text \<open>
  The copies into the client's buffer: every entry is written field by field; the fields of the
  client's entry that are wider than the ones of R_admin are filled up with zeros. The count is an
  \<open>unsigned int\<close>.
\<close>

record ZISUserProfileEntry =
  ue_userID :: string
  ue_defaultGroup :: string
  ue_name :: string

record ZISGenresProfileEntry =
  ge_profile :: string
  ge_owner :: string

record ZISGroupProfileEntry =
  re_group :: string
  re_superiorGroup :: string
  re_owner :: string

record ZISAccessEntry =
  ce_id :: string
  ce_accessType :: string

definition zero_pad :: "nat \<Rightarrow> string \<Rightarrow> string" where
  "zero_pad n s = take n s @ replicate (n - length s) nul"

definition copy_count :: "'a list \<Rightarrow> 32 word" where
  "copy_count src = of_nat (length src)"

text \<open>
  The copies to the client, each as the list of the entries stored. The services return only after the whole copy; an
  abend in the middle of one, which leaves a beginning of this list with the client, ends the call in the core server and is not modelled.
\<close>

definition copyUserProfiles :: "(string \<times> string \<times> string) list \<Rightarrow> 32 word \<Rightarrow> ZISUserProfileEntry list" where
  "copyUserProfiles src n =
     map (\<lambda>(userID, defaultGroup, name).
            \<lparr>ue_userID = zero_pad 8 userID, ue_defaultGroup = zero_pad 8 defaultGroup, ue_name = zero_pad 32 name\<rparr>)
       (take (unat n) src)"

definition copyGenresProfiles :: "(string \<times> string) list \<Rightarrow> 32 word \<Rightarrow> ZISGenresProfileEntry list" where
  "copyGenresProfiles src n =
     map (\<lambda>(profile, owner). \<lparr>ge_profile = zero_pad ZIS_SECURITY_PROFILE_MAX_LENGTH profile, ge_owner = zero_pad 8 owner\<rparr>)
       (take (unat n) src)"

definition copyGroupProfiles :: "(string \<times> string \<times> string) list \<Rightarrow> 32 word \<Rightarrow> ZISGroupProfileEntry list" where
  "copyGroupProfiles src n =
     map (\<lambda>(grp, owner, superiorGroup).
            \<lparr>re_group = zero_pad 8 grp, re_superiorGroup = zero_pad 8 superiorGroup, re_owner = zero_pad 8 owner\<rparr>)
       (take (unat n) src)"

definition copyGenresAccessList :: "(string \<times> string) list \<Rightarrow> 32 word \<Rightarrow> ZISAccessEntry list" where
  "copyGenresAccessList src n =
     map (\<lambda>(ident, accessType). \<lparr>ce_id = zero_pad 8 ident, ce_accessType = zero_pad 8 accessType\<rparr>) (take (unat n) src)"

definition copyGroupAccessList :: "(string \<times> string) list \<Rightarrow> 32 word \<Rightarrow> ZISAccessEntry list" where
  "copyGroupAccessList src n =
     map (\<lambda>(ident, accessType). \<lparr>ce_id = zero_pad 8 ident, ce_accessType = zero_pad 8 accessType\<rparr>) (take (unat n) src)"

text \<open>
  The services' results: the return code, the client's parameter list behind the call, the entries
  written to the client's result buffer, and the requests made.
\<close>

type_synonym ('pl, 'e) sec_result = "rc \<times> 'pl option \<times> 'e list \<times> RadminRequest list"

definition zisUserProfilesServiceFunctionRACF ::
    "SecEnv \<Rightarrow> ZISUserProfileServiceParmList option \<Rightarrow> RadminRequest list \<Rightarrow> (ZISUserProfileServiceParmList, ZISUserProfileEntry) sec_result" where
  "zisUserProfilesServiceFunctionRACF env parm log =
     (case parm of
        None \<Rightarrow> (8, None, [], log)
      | Some local \<Rightarrow>
          (let parmValidateRC = validateUserProfileParmList local
           in if parmValidateRC \<noteq> 0 then (parmValidateRC, Some local, [], log)
              else case secmgmtGetCallerUserID env of
                None \<Rightarrow> (13, Some local, [], log)
              | Some caller \<Rightarrow>
                  (if \<not> se_safeMalloc64 env ''RadminBasicUserPofileInfo'' (up_profilesToExtract local)
                   then (15, Some local, [], log)
                   else let req = ExtractUsers caller (start_name (up_startUserID local)) (up_profilesToExtract local);
                            r = se_radmin env log req; n = copy_count (rd_users r)
                        in if rd_rc r = 0
                           then (0, Some (local\<lparr>up_profilesExtracted := n\<rparr>), copyUserProfiles (rd_users r) n, req # log)
                           else (14, Some (radmin_failed r local), [], req # log))))"

definition zisUserProfilesServiceFunction ::
    "ExternalSecurityManager \<Rightarrow> (ZISUserProfileServiceParmList option \<Rightarrow> RadminRequest list \<Rightarrow> (ZISUserProfileServiceParmList, ZISUserProfileEntry) sec_result)
     \<Rightarrow> SecEnv \<Rightarrow> ZISUserProfileServiceParmList option \<Rightarrow> RadminRequest list \<Rightarrow> (ZISUserProfileServiceParmList, ZISUserProfileEntry) sec_result" where
  "zisUserProfilesServiceFunction esm tss env parm log =
     (case esm of
        ZOS_ESM_RACF \<Rightarrow> zisUserProfilesServiceFunctionRACF env parm log
      | ZOS_ESM_RTSS \<Rightarrow> tss parm log
      | ZOS_ESM_OTHER \<Rightarrow> (16, parm, [], log))"

definition zisGenresProfilesServiceFunctionRACF ::
    "SecEnv \<Rightarrow> ZISGenresProfileServiceParmList option \<Rightarrow> RadminRequest list \<Rightarrow> (ZISGenresProfileServiceParmList, ZISGenresProfileEntry) sec_result" where
  "zisGenresProfilesServiceFunctionRACF env parm log =
     (case parm of
        None \<Rightarrow> (8, None, [], log)
      | Some local \<Rightarrow>
          (let parmValidateRC = validateGenresProfileParmList local
           in if parmValidateRC \<noteq> 0 then (parmValidateRC, Some local, [], log)
              else case secmgmtGetCallerUserID env of
                None \<Rightarrow> (15, Some local, [], log)
              | Some caller \<Rightarrow>
                  (let (getParmRC, cls) = userClass env
                   in if getParmRC \<noteq> 0 then (18, Some (local\<lparr>pl_internalServiceRC := getParmRC\<rparr>), [], log)
                      else if length cls > ZIS_SECURITY_CLASS_MAX_LENGTH then (10, Some local, [], log)
                      else if \<not> se_safeMalloc64 env ''RadminBasicGenresPofileInfo'' (gp_profilesToExtract local)
                      then (17, Some local, [], log)
                      else let req = ExtractGenres caller (cstr cls) (start_name (gp_startProfile local)) (gp_profilesToExtract local);
                               r = se_radmin env log req; n = copy_count (rd_genres r)
                           in if rd_rc r = 0
                              then (0, Some (local\<lparr>gp_profilesExtracted := n\<rparr>), copyGenresProfiles (rd_genres r) n, req # log)
                              else (16, Some (radmin_failed r local), [], req # log))))"

definition zisGenresProfilesServiceFunction ::
    "ExternalSecurityManager \<Rightarrow> (ZISGenresProfileServiceParmList option \<Rightarrow> RadminRequest list \<Rightarrow> (ZISGenresProfileServiceParmList, ZISGenresProfileEntry) sec_result)
     \<Rightarrow> SecEnv \<Rightarrow> ZISGenresProfileServiceParmList option \<Rightarrow> RadminRequest list \<Rightarrow> (ZISGenresProfileServiceParmList, ZISGenresProfileEntry) sec_result" where
  "zisGenresProfilesServiceFunction esm tss env parm log =
     (case esm of
        ZOS_ESM_RACF \<Rightarrow> zisGenresProfilesServiceFunctionRACF env parm log
      | ZOS_ESM_RTSS \<Rightarrow> tss parm log
      | ZOS_ESM_OTHER \<Rightarrow> (19, parm, [], log))"

definition zisGroupProfilesServiceFunctionRACF ::
    "SecEnv \<Rightarrow> ZISGroupProfileServiceParmList option \<Rightarrow> RadminRequest list \<Rightarrow> (ZISGroupProfileServiceParmList, ZISGroupProfileEntry) sec_result" where
  "zisGroupProfilesServiceFunctionRACF env parm log =
     (case parm of
        None \<Rightarrow> (8, None, [], log)
      | Some local \<Rightarrow>
          (let parmValidateRC = validateGroupProfileParmList local
           in if parmValidateRC \<noteq> 0 then (parmValidateRC, Some local, [], log)
              else case secmgmtGetCallerUserID env of
                None \<Rightarrow> (13, Some local, [], log)
              | Some caller \<Rightarrow>
                  (if \<not> se_safeMalloc64 env ''RadminBasicGroupPofileInfo'' (rp_profilesToExtract local)
                   then (15, Some local, [], log)
                   else let req = ExtractGroups caller (start_name (rp_startGroup local)) (rp_profilesToExtract local);
                            r = se_radmin env log req; n = copy_count (rd_groups r)
                        in if rd_rc r = 0
                           then (0, Some (local\<lparr>rp_profilesExtracted := n\<rparr>), copyGroupProfiles (rd_groups r) n, req # log)
                           else (14, Some (radmin_failed r local), [], req # log))))"

definition zisGroupProfilesServiceFunction ::
    "ExternalSecurityManager \<Rightarrow> (ZISGroupProfileServiceParmList option \<Rightarrow> RadminRequest list \<Rightarrow> (ZISGroupProfileServiceParmList, ZISGroupProfileEntry) sec_result)
     \<Rightarrow> SecEnv \<Rightarrow> ZISGroupProfileServiceParmList option \<Rightarrow> RadminRequest list \<Rightarrow> (ZISGroupProfileServiceParmList, ZISGroupProfileEntry) sec_result" where
  "zisGroupProfilesServiceFunction esm tss env parm log =
     (case esm of
        ZOS_ESM_RACF \<Rightarrow> zisGroupProfilesServiceFunctionRACF env parm log
      | ZOS_ESM_RTSS \<Rightarrow> tss parm log
      | ZOS_ESM_OTHER \<Rightarrow> (16, parm, [], log))"

section \<open>Access lists\<close>

text \<open>
  When the list does not fit, the number of its entries is the reason code of R_admin, and nothing is
  copied.
\<close>

definition zisGenresAccessListServiceFunctionRACF ::
    "SecEnv \<Rightarrow> ZISGenresAccessListServiceParmList option \<Rightarrow> RadminRequest list \<Rightarrow> (ZISGenresAccessListServiceParmList, ZISAccessEntry) sec_result" where
  "zisGenresAccessListServiceFunctionRACF env parm log =
     (case parm of
        None \<Rightarrow> (8, None, [], log)
      | Some local \<Rightarrow>
          (let parmValidateRC = validateGenresAccessListParmList local
           in if parmValidateRC \<noteq> 0 then (parmValidateRC, Some local, [], log)
              else case secmgmtGetCallerUserID env of
                None \<Rightarrow> (13, Some local, [], log)
              | Some caller \<Rightarrow>
                  (let (getParmRC, cls) = userClass env
                   in if getParmRC \<noteq> 0 then (17, Some (local\<lparr>pl_internalServiceRC := getParmRC\<rparr>), [], log)
                      else if length cls > ZIS_SECURITY_CLASS_MAX_LENGTH then (10, Some local, [], log)
                      else if \<not> se_safeMalloc64 env ''RadminAccessListEntry'' (ga_resultBufferCapacity local)
                      then (14, Some local, [], log)
                      else let req = ExtractGenresAccess caller (cstr cls) (cstr (sf_text (ga_profile local))) (ga_resultBufferCapacity local);
                               r = se_radmin env log req; n = copy_count (rd_access r)
                           in if rd_rc r = 0
                              then (0, Some (local\<lparr>ga_entriesExtracted := n, ga_entriesFound := n\<rparr>),
                                    copyGenresAccessList (rd_access r) n, req # log)
                              else if rd_rc r = se_RC_RADMIN_INSUFF_SPACE env
                              then (16, Some (local\<lparr>ga_entriesExtracted := 0, ga_entriesFound := word_of_int (rd_reasonCode r)\<rparr>),
                                    [], req # log)
                              else (15, Some (radmin_failed r local), [], req # log))))"

definition zisGenresAccessListServiceFunction ::
    "ExternalSecurityManager \<Rightarrow> (ZISGenresAccessListServiceParmList option \<Rightarrow> RadminRequest list \<Rightarrow> (ZISGenresAccessListServiceParmList, ZISAccessEntry) sec_result)
     \<Rightarrow> SecEnv \<Rightarrow> ZISGenresAccessListServiceParmList option \<Rightarrow> RadminRequest list \<Rightarrow> (ZISGenresAccessListServiceParmList, ZISAccessEntry) sec_result" where
  "zisGenresAccessListServiceFunction esm tss env parm log =
     (case esm of
        ZOS_ESM_RACF \<Rightarrow> zisGenresAccessListServiceFunctionRACF env parm log
      | ZOS_ESM_RTSS \<Rightarrow> tss parm log
      | ZOS_ESM_OTHER \<Rightarrow> (18, parm, [], log))"

definition zisGroupAccessListServiceFunctionRACF ::
    "SecEnv \<Rightarrow> ZISGroupAccessListServiceParmList option \<Rightarrow> RadminRequest list \<Rightarrow> (ZISGroupAccessListServiceParmList, ZISAccessEntry) sec_result" where
  "zisGroupAccessListServiceFunctionRACF env parm log =
     (case parm of
        None \<Rightarrow> (8, None, [], log)
      | Some local \<Rightarrow>
          (let parmValidateRC = validateGroupAccessListParmList local
           in if parmValidateRC \<noteq> 0 then (parmValidateRC, Some local, [], log)
              else case secmgmtGetCallerUserID env of
                None \<Rightarrow> (12, Some local, [], log)
              | Some caller \<Rightarrow>
                  (if \<not> se_safeMalloc64 env ''RadminGroupAccessListEntry'' (ra_resultBufferCapacity local)
                   then (13, Some local, [], log)
                   else let req = ExtractGroupAccess caller (cstr (sf_text (ra_group local))) (ra_resultBufferCapacity local);
                            r = se_radmin env log req; n = copy_count (rd_access r)
                        in if rd_rc r = 0
                           then (0, Some (local\<lparr>ra_entriesExtracted := n, ra_entriesFound := n\<rparr>),
                                 copyGroupAccessList (rd_access r) n, req # log)
                           else if rd_rc r = se_RC_RADMIN_INSUFF_SPACE env
                           then (15, Some (local\<lparr>ra_entriesExtracted := 0, ra_entriesFound := word_of_int (rd_reasonCode r)\<rparr>),
                                 [], req # log)
                           else (14, Some (radmin_failed r local), [], req # log))))"

definition zisGroupAccessListServiceFunction ::
    "ExternalSecurityManager \<Rightarrow> (ZISGroupAccessListServiceParmList option \<Rightarrow> RadminRequest list \<Rightarrow> (ZISGroupAccessListServiceParmList, ZISAccessEntry) sec_result)
     \<Rightarrow> SecEnv \<Rightarrow> ZISGroupAccessListServiceParmList option \<Rightarrow> RadminRequest list \<Rightarrow> (ZISGroupAccessListServiceParmList, ZISAccessEntry) sec_result" where
  "zisGroupAccessListServiceFunction esm tss env parm log =
     (case esm of
        ZOS_ESM_RACF \<Rightarrow> zisGroupAccessListServiceFunctionRACF env parm log
      | ZOS_ESM_RTSS \<Rightarrow> tss parm log
      | ZOS_ESM_OTHER \<Rightarrow> (16, parm, [], log))"

section \<open>Command output\<close>

text \<open>
  \<open>getMsgAndOperatorCommand\<close> and \<open>getGroupMsgAndOperatorCommand\<close>, the handlers R_admin calls with the chain
  of outputs: they look for the command and the message, stop when they have both, and give up at a
  chain of more than \<open>RADMIN_OUT_MAX_NODE_COUNT\<close> links. The two functions have the same body.
\<close>

definition RADMIN_OUT_MAX_NODE_COUNT :: nat where "RADMIN_OUT_MAX_NODE_COUNT = 16"
abbreviation (input) RC_GET_MSG_HADNLER_OK :: rc where "RC_GET_MSG_HADNLER_OK \<equiv> 0"
abbreviation (input) RC_GET_MSG_HADNLER_LOOP :: rc where "RC_GET_MSG_HADNLER_LOOP \<equiv> 8"

record OutputHandlerData =
  oh_fullMessageLenght :: nat
  oh_fullCommandLength :: nat
  oh_message :: ZISServiceMessage
  oh_command :: ZISServiceMessage

definition emptyMessage :: ZISServiceMessage where
  "emptyMessage = \<lparr>sm_length = 0, sm_text = replicate ZIS_ADMIN_MESSAGE_SIZE nul\<rparr>"

definition emptyHandlerData :: OutputHandlerData where
  "emptyHandlerData =
     \<lparr>oh_fullMessageLenght = 0, oh_fullCommandLength = 0, oh_message = emptyMessage, oh_command = emptyMessage\<rparr>"

text \<open>\<open>memcpy\<close> of the first bytes of the text into the message's text, the rest of which stays.\<close>

definition copyMessage :: "string \<Rightarrow> ZISServiceMessage \<Rightarrow> ZISServiceMessage" where
  "copyMessage txt msg =
     (let copySize = min (length txt) ZIS_ADMIN_MESSAGE_SIZE
      in \<lparr>sm_length = of_nat copySize, sm_text = take copySize txt @ drop copySize (sm_text msg)\<rparr>)"

definition takeCommand :: "RadminNode \<Rightarrow> OutputHandlerData \<times> bool \<Rightarrow> OutputHandlerData \<times> bool" where
  "takeCommand node x =
     (if rn_kind node = OutputCommand
      then ((fst x)\<lparr>oh_command := copyMessage (rn_text node) (oh_command (fst x)),
                     oh_fullCommandLength := length (rn_text node)\<rparr>, True)
      else x)"

definition takeMessage :: "RadminNode \<Rightarrow> OutputHandlerData \<times> bool \<Rightarrow> OutputHandlerData \<times> bool" where
  "takeMessage node x =
     (if rn_kind node = OutputMessage
      then ((fst x)\<lparr>oh_message := copyMessage (rn_text node) (oh_message (fst x)),
                     oh_fullMessageLenght := length (rn_text node)\<rparr>, True)
      else x)"

function getMsg_loop :: "(nat \<Rightarrow> RadminNode option) \<Rightarrow> nat \<Rightarrow> bool \<Rightarrow> bool \<Rightarrow> OutputHandlerData \<Rightarrow> rc \<times> OutputHandlerData" where
  "getMsg_loop out nodeCount commandCopied messageCopied hdata =
     (case out nodeCount of
        None \<Rightarrow> (RC_GET_MSG_HADNLER_OK, hdata)
      | Some node \<Rightarrow>
          (if commandCopied \<and> messageCopied then (RC_GET_MSG_HADNLER_OK, hdata)
           else if nodeCount > RADMIN_OUT_MAX_NODE_COUNT then (RC_GET_MSG_HADNLER_LOOP, hdata)
           else let (hd1, commandCopied') = takeCommand node (hdata, commandCopied);
                    (hd2, messageCopied') = takeMessage node (hd1, messageCopied)
                in getMsg_loop out (nodeCount + 1) commandCopied' messageCopied' hd2))"
  by pat_completeness auto
termination
  by (relation "measure (\<lambda>(out, n, _). RADMIN_OUT_MAX_NODE_COUNT + 1 - n)") auto

declare getMsg_loop.simps [simp del]

definition getMsgAndOperatorCommand :: "(nat \<Rightarrow> RadminNode option) \<Rightarrow> OutputHandlerData \<Rightarrow> rc \<times> OutputHandlerData" where
  "getMsgAndOperatorCommand out hdata = getMsg_loop out 0 False False hdata"

definition getGroupMsgAndOperatorCommand :: "(nat \<Rightarrow> RadminNode option) \<Rightarrow> OutputHandlerData \<Rightarrow> rc \<times> OutputHandlerData" where
  "getGroupMsgAndOperatorCommand out hdata = getMsg_loop out 0 False False hdata"

section \<open>Administration of general resource profiles\<close>

definition mapZISToRadminResAction :: "int \<Rightarrow> RadminResAction" where
  "mapZISToRadminResAction fc =
     (if fc = ZIS_GENRES_ADMIN_SRV_FC_DEFINE then RADMIN_RES_ACTION_ADD_GENRES
      else if fc = ZIS_GENRES_ADMIN_SRV_FC_DELETE then RADMIN_RES_ACTION_DELETE_GENRES
      else if fc = ZIS_GENRES_ADMIN_SRV_FC_GIVE_ACCESS then RADMIN_RES_ACTION_PERMIT
      else if fc = ZIS_GENRES_ADMIN_SRV_FC_REVOKE_ACCESS then RADMIN_RES_ACTION_PROHIBIT
      else RADMIN_RES_ACTION_NA)"

definition getAccessString :: "int \<Rightarrow> string option" where
  "getAccessString accessType =
     (if accessType = ZIS_GENRES_ADMIN_ACESS_TYPE_READ then Some ''READ''
      else if accessType = ZIS_GENRES_ADMIN_ACESS_TYPE_UPDATE then Some ''UPDATE''
      else if accessType = ZIS_GENRES_ADMIN_ACESS_TYPE_ALTER then Some ''ALTER''
      else None)"

text \<open>
  \<open>constructResAdminParmList\<close> for the buffer of 2048 bytes it gets. No result: the access string is
  \<open>NULL\<close>. The class is copied in eight bytes from its zeroed buffer.
\<close>

definition constructResAdminParmList ::
    "RadminResAction \<Rightarrow> bool \<Rightarrow> string \<Rightarrow> string \<Rightarrow> string \<Rightarrow> string \<Rightarrow> int \<Rightarrow> RadminParmList option" where
  "constructResAdminParmList action isDryRun cls profile owner userID accessType =
     (let add = (if action = RADMIN_RES_ACTION_ADD_GENRES then [(''UACC    '', ''NONE''), (''OWNER   '', owner)] else []);
          head = \<lparr>rl_name = zero_pad 8 cls, rl_nameLength = length cls, rl_noRun = isDryRun, rl_fields = None\<rparr>
      in if action = RADMIN_RES_ACTION_PERMIT
         then do {
           accessString \<leftarrow> getAccessString accessType;
           Some (head\<lparr>rl_fields := Some [(''PROFILE '', profile), (''ID      '', userID), (''ACCESS  '', accessString)]\<rparr>)
         }
         else if action = RADMIN_RES_ACTION_PROHIBIT
         then Some (head\<lparr>rl_fields := Some [(''PROFILE '', profile), (''ID      '', userID), (''DELETE  '', [])]\<rparr>)
         else Some (head\<lparr>rl_fields := Some ((''PROFILE '', profile) # add)\<rparr>))"

text \<open>
  \<open>performRefreshIfNeeded\<close>: the class is refreshed when the configuration says so; a missing parameter
  is no error.
\<close>

definition performRefreshIfNeeded ::
    "SecEnv \<Rightarrow> SizedField \<Rightarrow> string \<Rightarrow> ZISGenresAdminServiceParmList \<Rightarrow> RadminRequest list
     \<Rightarrow> rc \<times> ZISGenresAdminServiceParmList \<times> RadminRequest list" where
  "performRefreshIfNeeded env caller cls parmList log =
     (let (getParmRC, refresh) = se_getConfigParm env (se_CMS_PROD_ID env @ ''.SECMGMT.AUTOREFRESH'')
      in if getParmRC \<noteq> 0
         then if getParmRC \<noteq> se_RC_CMS_CONFIG_PARM_NOT_FOUND env
              then (21, parmList\<lparr>pl_internalServiceRC := getParmRC\<rparr>, log)
              else (0, parmList, log)
         else if cstr refresh \<noteq> ''YES'' then (0, parmList, log)
         else let req = RunRACFCommand caller
                    (take (se_RADMIN_CMD_MAX_COMMAND_LENGTH env) (''SETROPTS REFRESH RACLIST('' @ cls @ '')''));
                  r = se_radmin env log req;
                  (_, hdata) = getMsgAndOperatorCommand (rd_output r) emptyHandlerData;
                  parmList1 = parmList\<lparr>gn_serviceMessage := oh_message hdata\<rparr>
              in if rd_rc r \<noteq> 0 then (17, radmin_failed r parmList1, req # log)
                 else (0, parmList1, req # log))"

definition isDryRun :: "'a SecParmList_scheme \<Rightarrow> bool" where
  "isDryRun parm = has_flag (pl_flags parm) ZIS_ADMIN_FLAG_DRYRUN"

text \<open>The action itself, behind the checks; an owner that is not given is the caller.\<close>

definition performResAdmin ::
    "SecEnv \<Rightarrow> SizedField \<Rightarrow> string \<Rightarrow> ZISGenresAdminServiceParmList \<Rightarrow> RadminRequest list
     \<Rightarrow> (rc \<times> ZISGenresAdminServiceParmList \<times> RadminRequest list) option" where
  "performResAdmin env caller cls local log =
     (let action = mapZISToRadminResAction (gn_function local)
      in if action = RADMIN_RES_ACTION_NA then Some (15, local, log)
         else do {
           parmList \<leftarrow> constructResAdminParmList action (isDryRun local) cls (sf_text (gn_profile local))
             (sf_text (gn_owner local)) (sf_text (gn_user local)) (gn_accessType local);
           let req = PerformResAction caller action parmList;
           let r = se_radmin env log req;
           let (_, hdata) = getMsgAndOperatorCommand (rd_output r) emptyHandlerData;
           let local1 = local\<lparr>gn_serviceMessage := oh_message hdata, gn_operatorCommand := oh_command hdata\<rparr>;
           if rd_rc r \<noteq> 0 then Some (17, radmin_failed r local1, req # log)
           else if isDryRun local then Some (0, local1, req # log)
           else Some (performRefreshIfNeeded env caller (cstr cls) local1 (req # log))
         })"

definition zisGenresProfileAdminServiceFunctionRACF ::
    "SecEnv \<Rightarrow> ZISGenresAdminServiceParmList option \<Rightarrow> RadminRequest list
     \<Rightarrow> (rc \<times> ZISGenresAdminServiceParmList option \<times> RadminRequest list) option" where
  "zisGenresProfileAdminServiceFunctionRACF env parm log =
     (case parm of
        None \<Rightarrow> Some (8, None, log)
      | Some local \<Rightarrow>
          (let parmValidateRC = validateGenresParmList local
           in if parmValidateRC \<noteq> 0 then Some (parmValidateRC, Some local, log)
              else case secmgmtGetCallerUserID env of
                None \<Rightarrow> Some (14, Some local, log)
              | Some caller \<Rightarrow>
                  (let local1 = (if sf_length (gn_owner local) = 0 then local\<lparr>gn_owner := caller\<rparr> else local);
                       (getParmRC, cls) = userClass env
                   in if getParmRC \<noteq> 0 then Some (20, Some (local1\<lparr>pl_internalServiceRC := getParmRC\<rparr>), log)
                      else if length cls > ZIS_SECURITY_CLASS_MAX_LENGTH then Some (19, Some local1, log)
                      else map_option (\<lambda>(r, pl, l). (r, Some pl, l)) (performResAdmin env caller cls local1 log))))"

definition zisGenresProfileAdminServiceFunction ::
    "ExternalSecurityManager
     \<Rightarrow> (ZISGenresAdminServiceParmList option \<Rightarrow> RadminRequest list \<Rightarrow> (rc \<times> ZISGenresAdminServiceParmList option \<times> RadminRequest list) option)
     \<Rightarrow> SecEnv \<Rightarrow> ZISGenresAdminServiceParmList option \<Rightarrow> RadminRequest list
     \<Rightarrow> (rc \<times> ZISGenresAdminServiceParmList option \<times> RadminRequest list) option" where
  "zisGenresProfileAdminServiceFunction esm tss env parm log =
     (case esm of
        ZOS_ESM_RACF \<Rightarrow> zisGenresProfileAdminServiceFunctionRACF env parm log
      | ZOS_ESM_RTSS \<Rightarrow> tss parm log
      | ZOS_ESM_OTHER \<Rightarrow> Some (23, parm, log))"

section \<open>Administration of groups\<close>

definition mapZISToRadminGroupAction :: "int \<Rightarrow> RadminGroupAction" where
  "mapZISToRadminGroupAction fc =
     (if fc = ZIS_GROUP_ADMIN_SRV_FC_ADD then RADMIN_GROUP_ACTION_ADD_GROUP
      else if fc = ZIS_GROUP_ADMIN_SRV_FC_DELETE then RADMIN_GROUP_ACTION_DELETE_GROUP
      else RADMIN_GROUP_ACTION_NA)"

definition mapZISToRadminConnectionAction :: "int \<Rightarrow> RadminConnectionAction" where
  "mapZISToRadminConnectionAction fc =
     (if fc = ZIS_GROUP_ADMIN_SRV_FC_CONNECT_USER then RADMIN_CONNECTION_ACTION_ADD_CONNECTION
      else if fc = ZIS_GROUP_ADMIN_SRV_FC_REMOVE_USER then RADMIN_CONNECTION_ACTION_REMOVE_CONNECTION
      else RADMIN_CONNECTION_ACTION_NA)"

definition getGroupAccessString :: "int \<Rightarrow> string option" where
  "getGroupAccessString accessType =
     (if accessType = ZIS_GROUP_ADMIN_ACESS_TYPE_USE then Some ''USE''
      else if accessType = ZIS_GROUP_ADMIN_ACESS_TYPE_CREATE then Some ''CREATE''
      else if accessType = ZIS_GROUP_ADMIN_ACESS_TYPE_CONNECT then Some ''CONNECT''
      else if accessType = ZIS_GROUP_ADMIN_ACESS_TYPE_JOIN then Some ''JOIN''
      else None)"

definition blank_name :: "nat \<Rightarrow> string \<Rightarrow> string" where
  "blank_name n s = space_pad n s"

definition constructGroupAdminParmList ::
    "RadminGroupAction \<Rightarrow> bool \<Rightarrow> string \<Rightarrow> string \<Rightarrow> RadminParmList" where
  "constructGroupAdminParmList action dryRun grp superiorGroup =
     \<lparr>rl_name = blank_name 8 grp, rl_nameLength = length grp, rl_noRun = dryRun,
      rl_fields = (if action = RADMIN_GROUP_ACTION_ADD_GROUP
                   then Some [(''SUPGROUP'', superiorGroup), (''UNIVERSL'', [])] else None)\<rparr>"

definition constructConnectionAdminParmList ::
    "RadminConnectionAction \<Rightarrow> bool \<Rightarrow> string \<Rightarrow> string \<Rightarrow> int \<Rightarrow> RadminParmList option" where
  "constructConnectionAdminParmList action dryRun userID grp accessType =
     (let head = \<lparr>rl_name = blank_name 8 userID, rl_nameLength = length userID, rl_noRun = dryRun,
                  rl_fields = Some [(''GROUP   '', grp)]\<rparr>
      in if action = RADMIN_CONNECTION_ACTION_ADD_CONNECTION
         then do {
           accessString \<leftarrow> getGroupAccessString accessType;
           Some (head\<lparr>rl_fields := Some [(''GROUP   '', grp), (''AUTH    '', accessString)]\<rparr>)
         }
         else Some head)"

text \<open>The request for the function of the list; the inner \<open>None\<close> is a function without an action.\<close>

definition groupRequest :: "SizedField \<Rightarrow> ZISGroupAdminServiceParmList \<Rightarrow> RadminRequest option option" where
  "groupRequest caller local =
     (if gr_function local = ZIS_GROUP_ADMIN_SRV_FC_ADD \<or> gr_function local = ZIS_GROUP_ADMIN_SRV_FC_DELETE
      then let action = mapZISToRadminGroupAction (gr_function local)
           in if action = RADMIN_GROUP_ACTION_NA then Some None
              else Some (Some (PerformGroupAction caller action
                (constructGroupAdminParmList action (isDryRun local) (sf_text (gr_group local)) (sf_text (gr_superiorGroup local)))))
      else let action = mapZISToRadminConnectionAction (gr_function local)
           in if action = RADMIN_CONNECTION_ACTION_NA then Some None
              else do {
                parmList \<leftarrow> constructConnectionAdminParmList action (isDryRun local) (sf_text (gr_user local))
                  (sf_text (gr_group local)) (gr_accessType local);
                Some (Some (PerformConnectionAction caller action parmList))
              })"

definition zisGroupAdminServiceFunctionRACF ::
    "SecEnv \<Rightarrow> ZISGroupAdminServiceParmList option \<Rightarrow> RadminRequest list
     \<Rightarrow> (rc \<times> ZISGroupAdminServiceParmList option \<times> RadminRequest list) option" where
  "zisGroupAdminServiceFunctionRACF env parm log =
     (case parm of
        None \<Rightarrow> Some (8, None, log)
      | Some local \<Rightarrow>
          (let parmValidateRC = validateGroupParmList local
           in if parmValidateRC \<noteq> 0 then Some (parmValidateRC, Some local, log)
              else case secmgmtGetCallerUserID env of
                None \<Rightarrow> Some (14, Some local, log)
              | Some caller \<Rightarrow>
                  (case groupRequest caller local of
                     None \<Rightarrow> None
                   | Some None \<Rightarrow> Some (15, Some local, log)
                   | Some (Some req) \<Rightarrow>
                       (let r = se_radmin env log req;
                            (_, hdata) = getGroupMsgAndOperatorCommand (rd_output r) emptyHandlerData;
                            local1 = local\<lparr>gr_serviceMessage := oh_message hdata, gr_operatorCommand := oh_command hdata\<rparr>
                        in if rd_rc r \<noteq> 0 then Some (17, Some (radmin_failed r local1), req # log)
                           else Some (0, Some local1, req # log)))))"

definition zisGroupAdminServiceFunction ::
    "ExternalSecurityManager
     \<Rightarrow> (ZISGroupAdminServiceParmList option \<Rightarrow> RadminRequest list \<Rightarrow> (rc \<times> ZISGroupAdminServiceParmList option \<times> RadminRequest list) option)
     \<Rightarrow> SecEnv \<Rightarrow> ZISGroupAdminServiceParmList option \<Rightarrow> RadminRequest list
     \<Rightarrow> (rc \<times> ZISGroupAdminServiceParmList option \<times> RadminRequest list) option" where
  "zisGroupAdminServiceFunction esm tss env parm log =
     (case esm of
        ZOS_ESM_RACF \<Rightarrow> zisGroupAdminServiceFunctionRACF env parm log
      | ZOS_ESM_RTSS \<Rightarrow> tss parm log
      | ZOS_ESM_OTHER \<Rightarrow> Some (22, parm, log))"

section \<open>The contract of the extraction services\<close>

text \<open>R_admin returns at most as many entries as were asked for.\<close>

fun reply_fits :: "RadminRequest \<Rightarrow> RadminReply \<Rightarrow> bool" where
  "reply_fits (ExtractUsers _ _ n) r = (length (rd_users r) \<le> unat n)"
| "reply_fits (ExtractGenres _ _ _ n) r = (length (rd_genres r) \<le> unat n)"
| "reply_fits (ExtractGroups _ _ n) r = (length (rd_groups r) \<le> unat n)"
| "reply_fits (ExtractGenresAccess _ _ _ n) r = (length (rd_access r) \<le> unat n)"
| "reply_fits (ExtractGroupAccess _ _ n) r = (length (rd_access r) \<le> unat n)"
| "reply_fits _ _ = True"

definition radmin_bounded :: "SecEnv \<Rightarrow> bool" where
  "radmin_bounded env \<longleftrightarrow> (\<forall>log req. rd_rc (se_radmin env log req) = 0 \<longrightarrow> reply_fits req (se_radmin env log req))"

fun request_caller :: "RadminRequest \<Rightarrow> SizedField" where
  "request_caller (ExtractUsers c _ _) = c"
| "request_caller (ExtractGenres c _ _ _) = c"
| "request_caller (ExtractGenresAccess c _ _ _) = c"
| "request_caller (ExtractGroups c _ _) = c"
| "request_caller (ExtractGroupAccess c _ _) = c"
| "request_caller (PerformResAction c _ _) = c"
| "request_caller (PerformGroupAction c _ _) = c"
| "request_caller (PerformConnectionAction c _ _) = c"
| "request_caller (RunRACFCommand c _) = c"

text \<open>
  A service on a client's buffer of the given capacity: it never writes more entries than fit, none
  when it fails, and as many as it says when it succeeds.
\<close>

definition writes_within :: "('pl option \<Rightarrow> ('pl, 'e) sec_result) \<Rightarrow> ('pl \<Rightarrow> 32 word) \<Rightarrow> ('pl \<Rightarrow> 32 word) \<Rightarrow> bool" where
  "writes_within f capacity extracted \<longleftrightarrow>
     (\<forall>pl r p' es log'. f (Some pl) = (r, p', es, log') \<longrightarrow>
        length es \<le> unat (capacity pl) \<and> (r \<noteq> 0 \<longrightarrow> es = []) \<and>
        (r = 0 \<longrightarrow> (\<exists>pl'. p' = Some pl' \<and> length es = unat (extracted pl'))))"

text \<open>
  What a client can rely on: at most one request, made for the caller; entries are written only with
  return code 0, and then exactly as many as the list says.
\<close>

locale extraction_service =
  fixes svc :: "SecEnv \<Rightarrow> 'pl option \<Rightarrow> RadminRequest list \<Rightarrow> ('pl, 'e) sec_result"
    and capacity :: "'pl \<Rightarrow> 32 word" and extracted :: "'pl \<Rightarrow> 32 word"
  assumes failure: "svc env p log = (r, p', es, log') \<Longrightarrow> r \<noteq> 0 \<Longrightarrow> es = []"
    and requests: "svc env p log = (r, p', es, log') \<Longrightarrow>
      log' = log \<or> (\<exists>req. log' = req # log \<and> se_caller env = Some (request_caller req))"
    and success: "svc env p log = (0, p', es, log') \<Longrightarrow>
      \<exists>pl pl' req r n. p = Some pl \<and> p' = Some pl' \<and> log' = req # log \<and> r = se_radmin env log req \<and> rd_rc r = 0 \<and>
        length es = min (unat (extracted pl')) n \<and> extracted pl' = of_nat n \<and>
        (reply_fits req r \<longleftrightarrow> n \<le> unat (capacity pl))"
begin

lemma fits_buffer:
  assumes "radmin_bounded env" and "svc env (Some pl) log = (r, p', es, log')"
  shows "length es \<le> unat (capacity pl) \<and> (r = 0 \<longrightarrow> (\<exists>pl'. p' = Some pl' \<and> length es = unat (extracted pl')))"
proof (cases "r = 0")
  case False
  with failure [OF assms(2)] show ?thesis by simp
next
  case True
  with success assms(2) obtain pl' req rep n where s: "p' = Some pl'" "rep = se_radmin env log req" "rd_rc rep = 0"
    "length es = min (unat (extracted pl')) n" "extracted pl' = of_nat n" "reply_fits req rep \<longleftrightarrow> n \<le> unat (capacity pl)"
    by (metis option.inject)
  have "n \<le> unat (capacity pl)" using assms(1) s(2,3,6) by (auto simp: radmin_bounded_def)
  moreover have "unat (capacity pl) < 4294967296" by (rule order_less_le_trans [OF unsigned_less]) simp
  ultimately have "n \<le> unat (capacity pl)" "unat (of_nat n :: 32 word) = n"
    by (simp_all add: unsigned_of_nat take_bit_nat_eq_self)
  then show ?thesis using s by simp
qed

lemma within: "radmin_bounded env \<Longrightarrow> writes_within (\<lambda>p. svc env p log) capacity extracted"
  unfolding writes_within_def using fits_buffer failure by blast

end

lemmas extraction_defs = Let_def copy_count_def secmgmtGetCallerUserID_def userClass_def

interpretation user_profiles: extraction_service zisUserProfilesServiceFunctionRACF up_profilesToExtract up_profilesExtracted
  by unfold_locales
    (auto simp: zisUserProfilesServiceFunctionRACF_def extraction_defs copyUserProfiles_def min.commute split: option.splits if_splits prod.splits)

interpretation genres_profiles: extraction_service zisGenresProfilesServiceFunctionRACF gp_profilesToExtract gp_profilesExtracted
  by unfold_locales
    (auto simp: zisGenresProfilesServiceFunctionRACF_def extraction_defs copyGenresProfiles_def min.commute split: option.splits if_splits prod.splits)

interpretation group_profiles: extraction_service zisGroupProfilesServiceFunctionRACF rp_profilesToExtract rp_profilesExtracted
  by unfold_locales
    (auto simp: zisGroupProfilesServiceFunctionRACF_def extraction_defs copyGroupProfiles_def min.commute split: option.splits if_splits prod.splits)

interpretation genres_access: extraction_service zisGenresAccessListServiceFunctionRACF ga_resultBufferCapacity ga_entriesExtracted
  by unfold_locales
    (auto simp: zisGenresAccessListServiceFunctionRACF_def extraction_defs copyGenresAccessList_def min.commute split: option.splits if_splits prod.splits)

interpretation group_access: extraction_service zisGroupAccessListServiceFunctionRACF ra_resultBufferCapacity ra_entriesExtracted
  by unfold_locales
    (auto simp: zisGroupAccessListServiceFunctionRACF_def extraction_defs copyGroupAccessList_def min.commute split: option.splits if_splits prod.splits)

text \<open>
  C19. The extraction services for RACF never write more entries to the client's buffer than it has
  room for: users, general resource profiles, groups and the two kinds of access lists. Entries are
  written only when the service returns 0, and then the list the client gets back says how many. This
  relies on R_admin returning at most as many entries as it was asked for.
\<close>

theorem extractions_fit_buffer:
  assumes "radmin_bounded env"
  shows "writes_within (\<lambda>p. zisUserProfilesServiceFunctionRACF env p log) up_profilesToExtract up_profilesExtracted \<and>
     writes_within (\<lambda>p. zisGenresProfilesServiceFunctionRACF env p log) gp_profilesToExtract gp_profilesExtracted \<and>
     writes_within (\<lambda>p. zisGroupProfilesServiceFunctionRACF env p log) rp_profilesToExtract rp_profilesExtracted \<and>
     writes_within (\<lambda>p. zisGenresAccessListServiceFunctionRACF env p log) ga_resultBufferCapacity ga_entriesExtracted \<and>
     writes_within (\<lambda>p. zisGroupAccessListServiceFunctionRACF env p log) ra_resultBufferCapacity ra_entriesExtracted"
  by (intro conjI user_profiles.within genres_profiles.within group_profiles.within genres_access.within
      group_access.within assms)

definition demo_reply :: RadminReply where
  "demo_reply =
     \<lparr>rd_rc = 0, rd_reasonCode = 0, rd_apiStatus = \<lparr>ss_safRC = 0, ss_racfRC = 0, ss_racfRSN = 0\<rparr>,
      rd_users = [(''ADA     '', ''STAFF   '', ''ADA LOVELACE        '')], rd_genres = [], rd_groups = [], rd_access = [],
      rd_output = (\<lambda>n. if n = 0 then Some \<lparr>rn_kind = OutputMessage, rn_text = ''ICH10006I''\<rparr> else None)\<rparr>"

definition demo_sec :: SecEnv where
  "demo_sec =
     \<lparr>se_radmin = (\<lambda>log req. case req of ExtractUsers _ _ n \<Rightarrow> if n = 0 then demo_reply\<lparr>rd_users := []\<rparr> else demo_reply | _ \<Rightarrow> demo_reply),
      se_caller = Some \<lparr>sf_length = 5, sf_value = ''ADMIN   ''\<rparr>,
      se_getConfigParm = (\<lambda>name. if name = ''ZWES.SECMGMT.CLASS'' then (0, ''ZOWE'') else (12, [])), se_CMS_PROD_ID = ''ZWES'',
      se_safeMalloc64 = (\<lambda>_ _. True), se_RC_RADMIN_INSUFF_SPACE = 20, se_RC_CMS_CONFIG_PARM_NOT_FOUND = 12,
      se_RADMIN_CMD_MAX_COMMAND_LENGTH = 1024\<rparr>"

definition demo_users :: ZISUserProfileServiceParmList where
  "demo_users =
     \<lparr>pl_eyecatcher = ''RSUPROFS'', pl_flags = 0, pl_traceLevel = 0, pl_internalServiceRC = 0, pl_internalServiceRSN = 0,
      pl_safStatus = \<lparr>ss_safRC = 0, ss_racfRC = 0, ss_racfRSN = 0\<rparr>, up_startUserID = \<lparr>sf_length = 0, sf_value = replicate 8 nul\<rparr>,
      up_profilesToExtract = 4, up_resultBuffer = Some 4096, up_profilesExtracted = 0\<rparr>"

lemma demo_sec_bounded: "radmin_bounded demo_sec"
proof -
  have "unat n = 0 \<longleftrightarrow> n = 0" for n :: "32 word" by (rule unat_eq_zero)
  then have "reply_fits req (se_radmin demo_sec log req)" for req log
    by (cases req) (auto simp: demo_sec_def demo_reply_def Suc_le_eq)
  then show ?thesis by (simp add: radmin_bounded_def)
qed

theorem extractions_fit_buffer_witness:
  "\<exists>p' log'. zisUserProfilesServiceFunctionRACF demo_sec (Some demo_users) [] =
     (0, Some (p'\<lparr>up_profilesExtracted := 1\<rparr>), [\<lparr>ue_userID = ''ADA     '', ue_defaultGroup = ''STAFF   '',
        ue_name = ''ADA LOVELACE        '' @ replicate 12 nul\<rparr>], log') \<and> 1 \<le> unat (up_profilesToExtract demo_users)"
proof -
  obtain r p' es log' where e: "zisUserProfilesServiceFunctionRACF demo_sec (Some demo_users) [] = (r, p', es, log')"
    by (metis prod_cases4)
  have v: "r = 0 \<and> es = [\<lparr>ue_userID = ''ADA     '', ue_defaultGroup = ''STAFF   '',
        ue_name = ''ADA LOVELACE        '' @ replicate 12 nul\<rparr>] \<and> p' = Some (demo_users\<lparr>up_profilesExtracted := 1\<rparr>)"
    using e by (auto simp: zisUserProfilesServiceFunctionRACF_def validateUserProfileParmList_def bad_eyecatcher_def too_long_def
        extraction_defs demo_users_def demo_sec_def demo_reply_def sec_eyecatcher_defs sec_length_defs start_name_def
        copyUserProfiles_def zero_pad_def nul_def)
  have "writes_within (\<lambda>p. zisUserProfilesServiceFunctionRACF demo_sec p []) up_profilesToExtract up_profilesExtracted"
    using extractions_fit_buffer [OF demo_sec_bounded, of "[]"] by (rule conjunct1)
  with e have "length es \<le> unat (up_profilesToExtract demo_users)" unfolding writes_within_def by blast
  with e v show ?thesis by (intro exI [of _ demo_users] exI [of _ log']) simp
qed

section \<open>The contract of the administration services\<close>

text \<open>Names of Zowe's products: a profile, and a group.\<close>

definition zowe_profile :: "string \<Rightarrow> bool" where
  "zowe_profile p \<longleftrightarrow> p = ''ZOWE'' \<or> take 5 p = ''ZOWE.''"

definition zowe_group :: "string \<Rightarrow> bool" where
  "zowe_group g \<longleftrightarrow> list_ex (\<lambda>p. take (length p) g = p) ZIS_GROUP_PRODUCTS"

lemma supported_profile:
  assumes "isGenresProductSupported f"
  shows "zowe_profile (sf_text f)"
proof -
  from assms have n: "4 \<le> unat (sf_length f)" and v: "take 5 (sf_value f) = ''ZOWE.''"
    by (auto simp: isGenresProductSupported_def ZIS_GENRES_PRODUCTS_def eval_nat_numeral)
  show ?thesis
  proof (cases "unat (sf_length f) = 4")
    case True
    have "take 4 (take 5 (sf_value f)) = ''ZOWE''" unfolding v by simp
    with True show ?thesis by (simp add: zowe_profile_def sf_text_def)
  next
    case False
    with n have "min 5 (unat (sf_length f)) = 5" by simp
    with v show ?thesis by (simp add: zowe_profile_def sf_text_def)
  qed
qed

lemma supported_group: "isGroupProductSupported f \<Longrightarrow> zowe_group (sf_text f)"
  by (auto simp: isGroupProductSupported_def zowe_group_def list_ex_iff sf_text_def min_def not_less)

text \<open>
  What the administration services may ask R_admin for: only for the caller, in the configured class,
  on names of Zowe's products, with the dry run flag of the list; the refresh only of the configured
  class and never in a dry run.
\<close>

fun admin_request_ok :: "SecEnv \<Rightarrow> bool \<Rightarrow> RadminRequest \<Rightarrow> bool" where
  "admin_request_ok env dry (PerformResAction c _ pl) =
     (se_caller env = Some c \<and> fst (userClass env) = 0 \<and> rl_name pl = zero_pad 8 (snd (userClass env)) \<and> rl_noRun pl = dry \<and>
      (case rl_fields pl of Some ((k, p) # _) \<Rightarrow> k = ''PROFILE '' \<and> zowe_profile p | _ \<Rightarrow> False))"
| "admin_request_ok env dry (PerformGroupAction c _ pl) =
     (se_caller env = Some c \<and> rl_noRun pl = dry \<and> rl_nameLength pl \<le> 8 \<and> zowe_group (take (rl_nameLength pl) (rl_name pl)))"
| "admin_request_ok env dry (PerformConnectionAction c _ pl) =
     (se_caller env = Some c \<and> rl_noRun pl = dry \<and>
      (case rl_fields pl of Some ((k, g) # _) \<Rightarrow> k = ''GROUP   '' \<and> zowe_group g | _ \<Rightarrow> False))"
| "admin_request_ok env dry (RunRACFCommand c cmd) =
     (se_caller env = Some c \<and> \<not> dry \<and> fst (userClass env) = 0 \<and>
      cmd = take (se_RADMIN_CMD_MAX_COMMAND_LENGTH env) (''SETROPTS REFRESH RACLIST('' @ cstr (snd (userClass env)) @ '')''))"
| "admin_request_ok env dry _ = False"

definition confined_run :: "SecEnv \<Rightarrow> bool \<Rightarrow> rc \<Rightarrow> RadminRequest list \<Rightarrow> RadminRequest list \<Rightarrow> bool" where
  "confined_run env dry r log log' \<longleftrightarrow>
     (\<exists>new. log' = new @ log \<and> list_all (admin_request_ok env dry) new \<and>
        (r = 0 \<longrightarrow> new \<noteq> []) \<and> (dry \<longrightarrow> length new \<le> 1))"

lemma confined_none: "r \<noteq> 0 \<Longrightarrow> confined_run env dry r log log"
  by (simp add: confined_run_def)

lemma confined_one: "admin_request_ok env dry req \<Longrightarrow> confined_run env dry r log (req # log)"
  unfolding confined_run_def by (rule exI [of _ "[req]"]) simp

lemma confined_two:
  "admin_request_ok env False req1 \<Longrightarrow> admin_request_ok env False req2 \<Longrightarrow> confined_run env False r log (req2 # req1 # log)"
  unfolding confined_run_def by (rule exI [of _ "[req2, req1]"]) simp

lemma construct_fields:
  "constructResAdminParmList a d cls p ow u t = Some pl \<Longrightarrow>
     rl_name pl = zero_pad 8 cls \<and> rl_noRun pl = d \<and> (\<exists>fs. rl_fields pl = Some ((''PROFILE '', p) # fs))"
  by (auto simp: constructResAdminParmList_def Let_def split: if_splits option.splits bind_splits)

lemma refresh_confined:
  assumes "performRefreshIfNeeded env c cls pl (req # log) = (r, pl', log')"
    and "admin_request_ok env False req" and "se_caller env = Some c" and "userClass env = (0, cls0)" and "cls = cstr cls0"
  shows "confined_run env False r log log'"
  using assms by (auto simp: performRefreshIfNeeded_def Let_def intro!: confined_one confined_two
    split: prod.splits if_splits)

lemma res_admin_confined:
  assumes "performResAdmin env c cls pl log = Some (r, pl', log')"
    and "se_caller env = Some c" and "userClass env = (0, cls)" and "zowe_profile (sf_text (gn_profile pl))"
  shows "confined_run env (isDryRun pl) r log log'"
proof (cases "mapZISToRadminResAction (gn_function pl) = RADMIN_RES_ACTION_NA")
  case True
  with assms show ?thesis by (auto simp: performResAdmin_def intro: confined_none)
next
  case False
  with assms(1) obtain parm where p: "constructResAdminParmList (mapZISToRadminResAction (gn_function pl)) (isDryRun pl) cls
      (sf_text (gn_profile pl)) (sf_text (gn_owner pl)) (sf_text (gn_user pl)) (gn_accessType pl) = Some parm"
    by (auto simp: performResAdmin_def Let_def bind_eq_Some_conv)
  let ?req = "PerformResAction c (mapZISToRadminResAction (gn_function pl)) parm"
  have ok: "admin_request_ok env (isDryRun pl) ?req" using construct_fields [OF p] assms(2-4) by auto
  show ?thesis
  proof (cases "rd_rc (se_radmin env log ?req) \<noteq> 0 \<or> isDryRun pl")
    case True
    with assms(1) False p have "log' = ?req # log"
      by (auto simp: performResAdmin_def Let_def split: prod.splits if_splits)
    with ok show ?thesis by (simp add: confined_one)
  next
    case dry: False
    with assms(1) False p have "\<exists>pl1. performRefreshIfNeeded env c (cstr cls) pl1 (?req # log) = (r, pl', log')"
      by (auto simp: performResAdmin_def Let_def split: prod.splits if_splits)
    then obtain pl1 where "performRefreshIfNeeded env c (cstr cls) pl1 (?req # log) = (r, pl', log')" ..
    from refresh_confined [OF this _ assms(2,3) refl] dry ok show ?thesis by simp
  qed
qed

text \<open>The requests of the group service, with the name of the group as it is in the list.\<close>

lemma group_request_ok:
  assumes "groupRequest c pl = Some (Some req)" and "se_caller env = Some c"
    and "zowe_group (sf_text (gr_group pl))" and "\<not> too_long (gr_group pl) ZIS_SECURITY_GROUP_MAX_LENGTH"
  shows "admin_request_ok env (isDryRun pl) req"
proof -
  have "length (sf_text (gr_group pl)) \<le> 8"
    using assms(4) by (auto simp: sf_text_def too_long_def sec_length_defs)
  then have "take (length (sf_text (gr_group pl))) (blank_name 8 (sf_text (gr_group pl))) = sf_text (gr_group pl)"
    by (simp add: blank_name_def space_pad_def)
  with assms \<open>length (sf_text (gr_group pl)) \<le> 8\<close> show ?thesis
    by (auto simp: groupRequest_def Let_def constructGroupAdminParmList_def constructConnectionAdminParmList_def
      bind_eq_Some_conv split: if_splits)
qed

text \<open>
  The two administration services as one interface: what they ask for is confined, and without a
  list or a caller they ask for nothing.
\<close>

locale admin_service =
  fixes svc :: "SecEnv \<Rightarrow> 'a SecParmList_scheme option \<Rightarrow> RadminRequest list
      \<Rightarrow> (rc \<times> 'a SecParmList_scheme option \<times> RadminRequest list) option"
  assumes run_confined: "svc env (Some pl) log = Some (r, p', log') \<Longrightarrow> confined_run env (isDryRun pl) r log log'"
    and no_list: "svc env None log = Some (8, None, log)"
    and no_caller: "se_caller env = None \<Longrightarrow> svc env (Some pl) log = Some (r, p', log') \<Longrightarrow> log' = log \<and> r \<noteq> 0"
begin

lemma requests_ok:
  assumes "svc env (Some pl) log = Some (r, p', log')"
  shows "\<exists>new. log' = new @ log \<and> list_all (admin_request_ok env (isDryRun pl)) new"
  using run_confined [OF assms] by (auto simp: confined_run_def)

lemma dry_run_single: "svc env (Some pl) [] = Some (r, p', log') \<Longrightarrow> isDryRun pl \<Longrightarrow> length log' \<le> 1"
  using run_confined [of env pl "[]"] by (auto simp: confined_run_def)

lemma ok_needs_request: "svc env (Some pl) [] = Some (0, p', log') \<Longrightarrow> log' \<noteq> [] \<and> se_caller env \<noteq> None"
  using run_confined [of env pl "[]"] no_caller by (fastforce simp: confined_run_def)

end

lemma validated_genres:
  assumes "validateGenresParmList pl = 0"
  shows "zowe_profile (sf_text (gn_profile pl))"
  using assms by (intro supported_profile) (auto simp: validateGenresParmList_def split: if_splits)

lemma validated_group:
  assumes "validateGroupParmList pl = 0"
  shows "zowe_group (sf_text (gr_group pl))" and "\<not> too_long (gr_group pl) ZIS_SECURITY_GROUP_MAX_LENGTH"
  using assms by (auto simp: validateGroupParmList_def split: if_splits intro: supported_group)

lemma isDryRun_owner [simp]: "isDryRun (pl\<lparr>gn_owner := x\<rparr>) = isDryRun pl"
  by (simp add: isDryRun_def)

interpretation genres_admin: admin_service zisGenresProfileAdminServiceFunctionRACF
proof unfold_locales
  fix env pl log r p' log'
  assume e: "zisGenresProfileAdminServiceFunctionRACF env (Some pl) log = Some (r, p', log')"
  show "confined_run env (isDryRun pl) r log log'"
  proof (cases "validateGenresParmList pl = 0 \<and> se_caller env \<noteq> None \<and> fst (userClass env) = 0 \<and>
      \<not> length (snd (userClass env)) > ZIS_SECURITY_CLASS_MAX_LENGTH")
    case False
    with e have "log' = log \<and> r \<noteq> 0"
      by (auto simp: zisGenresProfileAdminServiceFunctionRACF_def Let_def secmgmtGetCallerUserID_def
        split: option.splits if_splits prod.splits)
    then show ?thesis by (simp add: confined_none)
  next
    case True
    then obtain c cls where c: "se_caller env = Some c" "userClass env = (0, cls)" by (cases "userClass env") auto
    define pl1 where "pl1 = (if sf_length (gn_owner pl) = 0 then pl\<lparr>gn_owner := c\<rparr> else pl)"
    from e True c obtain pl' where "performResAdmin env c cls pl1 log = Some (r, pl', log')"
      by (auto simp: zisGenresProfileAdminServiceFunctionRACF_def Let_def secmgmtGetCallerUserID_def pl1_def)
    then have "zowe_profile (sf_text (gn_profile pl1)) \<Longrightarrow> confined_run env (isDryRun pl1) r log log'"
      using c by (rule res_admin_confined)
    moreover have "gn_profile pl1 = gn_profile pl" "isDryRun pl1 = isDryRun pl" by (simp_all add: pl1_def)
    ultimately show ?thesis using validated_genres True by simp
  qed
next
  show "zisGenresProfileAdminServiceFunctionRACF env None log = Some (8, None, log)" for env log
    by (simp add: zisGenresProfileAdminServiceFunctionRACF_def)
  show "log' = log \<and> r \<noteq> 0"
    if "se_caller env = None" "zisGenresProfileAdminServiceFunctionRACF env (Some pl) log = Some (r, p', log')" for env pl log r p' log'
    using that by (auto simp: zisGenresProfileAdminServiceFunctionRACF_def Let_def secmgmtGetCallerUserID_def split: if_splits)
qed

interpretation group_admin: admin_service zisGroupAdminServiceFunctionRACF
proof unfold_locales
  show "confined_run env (isDryRun pl) r log log'"
    if "zisGroupAdminServiceFunctionRACF env (Some pl) log = Some (r, p', log')" for env pl log r p' log'
    using that group_request_ok [OF _ _ validated_group, of _ pl _ env]
    by (auto simp: zisGroupAdminServiceFunctionRACF_def Let_def secmgmtGetCallerUserID_def intro!: confined_none confined_one
      split: option.splits if_splits prod.splits)
  show "zisGroupAdminServiceFunctionRACF env None log = Some (8, None, log)" for env log
    by (simp add: zisGroupAdminServiceFunctionRACF_def)
  show "log' = log \<and> r \<noteq> 0"
    if "se_caller env = None" "zisGroupAdminServiceFunctionRACF env (Some pl) log = Some (r, p', log')" for env pl log r p' log'
    using that by (auto simp: zisGroupAdminServiceFunctionRACF_def Let_def secmgmtGetCallerUserID_def split: if_splits)
qed

text \<open>
  C4. The administration services for RACF are confined. Whatever list a client passes, every request
  they make to R_admin is for the user ID of the caller (so that RACF checks the caller's authority),
  changes only profiles named \<open>ZOWE\<close> or \<open>ZOWE.*\<close> in the configured class, or groups whose names start
  with a product prefix, and carries the list's dry run flag. A dry run makes at most one request and
  never refreshes the class, and return code 0 means that a request was made.
\<close>

theorem admin_confined:
  "(zisGenresProfileAdminServiceFunctionRACF env (Some gn) log = Some (r, p', log') \<longrightarrow>
      confined_run env (isDryRun gn) r log log') \<and>
   (zisGroupAdminServiceFunctionRACF env (Some gr) log = Some (s, q', log') \<longrightarrow>
      confined_run env (isDryRun gr) s log log')"
  by (intro conjI impI genres_admin.run_confined group_admin.run_confined)

definition demo_genres :: "string \<Rightarrow> int \<Rightarrow> int \<Rightarrow> flags \<Rightarrow> ZISGenresAdminServiceParmList" where
  "demo_genres profile fc accessType fl =
     \<lparr>pl_eyecatcher = ''RSGRADMN'', pl_flags = fl, pl_traceLevel = 0, pl_internalServiceRC = 0, pl_internalServiceRSN = 0,
      pl_safStatus = \<lparr>ss_safRC = 0, ss_racfRC = 0, ss_racfRSN = 0\<rparr>, gn_function = fc,
      gn_profile = \<lparr>sf_length = of_nat (length profile), sf_value = zero_pad 255 profile\<rparr>,
      gn_owner = \<lparr>sf_length = 0, sf_value = replicate 8 nul\<rparr>, gn_user = \<lparr>sf_length = 3, sf_value = zero_pad 8 ''ADA''\<rparr>,
      gn_accessType = accessType, gn_serviceMessage = emptyMessage, gn_operatorCommand = emptyMessage\<rparr>"

lemmas genres_admin_eval =
  zisGenresProfileAdminServiceFunctionRACF_def validateGenresParmList_def isGenresProductSupported_def ZIS_GENRES_PRODUCTS_def
  bad_eyecatcher_def too_long_def secmgmtGetCallerUserID_def userClass_def performResAdmin_def constructResAdminParmList_def
  mapZISToRadminResAction_def getAccessString_def sf_text_def zero_pad_def Let_def sec_length_defs
  ZIS_GENRES_ADMIN_SERVICE_PARMLIST_EYECATCHER_def genres_admin_defs isDryRun_def has_flag_def ZIS_ADMIN_FLAG_DRYRUN_def
  demo_genres_def demo_sec_def demo_reply_def nul_def

theorem admin_confined_witness:
  "\<exists>p' req. zisGenresProfileAdminServiceFunctionRACF demo_sec (Some (demo_genres ''ZOWE.APP'' 0 0 1)) [] = Some (0, p', [req]) \<and>
     admin_request_ok demo_sec True req"
proof -
  obtain p' req where "zisGenresProfileAdminServiceFunctionRACF demo_sec (Some (demo_genres ''ZOWE.APP'' 0 0 1)) [] = Some (0, p', [req])"
    by (auto simp: genres_admin_eval case_prod_unfold)
  moreover have "isDryRun (demo_genres ''ZOWE.APP'' 0 0 1)"
    by (simp add: isDryRun_def has_flag_def ZIS_ADMIN_FLAG_DRYRUN_def demo_genres_def)
  ultimately show ?thesis
    using admin_confined [of demo_sec "demo_genres ''ZOWE.APP'' 0 0 1" "[]" 0 p' "[req]"]
    by (auto simp: confined_run_def)
qed

lemma constructResAdmin_None:
  "constructResAdminParmList a d cls p ow u t = None \<longleftrightarrow> a = RADMIN_RES_ACTION_PERMIT \<and> getAccessString t = None"
  by (simp add: constructResAdminParmList_def Let_def bind_eq_None_conv)

lemma permit_action:
  "mapZISToRadminResAction fc = RADMIN_RES_ACTION_PERMIT \<longleftrightarrow> fc = ZIS_GENRES_ADMIN_SRV_FC_GIVE_ACCESS"
  by (auto simp: mapZISToRadminResAction_def genres_admin_defs)

lemma performResAdmin_None:
  "performResAdmin env c cls pl log = None \<longleftrightarrow>
     gn_function pl = ZIS_GENRES_ADMIN_SRV_FC_GIVE_ACCESS \<and> getAccessString (gn_accessType pl) = None"
proof (cases "constructResAdminParmList (mapZISToRadminResAction (gn_function pl)) (isDryRun pl) cls
    (sf_text (gn_profile pl)) (sf_text (gn_owner pl)) (sf_text (gn_user pl)) (gn_accessType pl)")
  case None
  then have act: "mapZISToRadminResAction (gn_function pl) = RADMIN_RES_ACTION_PERMIT \<and> getAccessString (gn_accessType pl) = None"
    by (simp add: constructResAdmin_None)
  with None have "performResAdmin env c cls pl log = None" by (simp add: performResAdmin_def Let_def)
  with act show ?thesis by (simp add: permit_action)
next
  case (Some parm)
  then have "performResAdmin env c cls pl log \<noteq> None"
    by (simp add: performResAdmin_def Let_def case_prod_unfold del: not_None_eq)
  moreover from Some have "\<not> (gn_function pl = ZIS_GENRES_ADMIN_SRV_FC_GIVE_ACCESS \<and> getAccessString (gn_accessType pl) = None)"
    using constructResAdmin_None permit_action by (metis option.distinct(1))
  ultimately show ?thesis by blast
qed

text \<open>
  A request to give access of the type ALL, which the header declares and the validation lets
  through, has no defined result for RACF: \<open>getAccessString\<close> knows no text for it and the \<open>NULL\<close> it
  returns is passed to \<open>strlen\<close>. Every other list that passes the validation has a result.
\<close>

theorem access_all_undefined:
  assumes "validateGenresParmList pl = 0" and "se_caller env = Some c" and "userClass env = (0, cls)"
    and "length cls \<le> ZIS_SECURITY_CLASS_MAX_LENGTH"
  shows "zisGenresProfileAdminServiceFunctionRACF env (Some pl) log = None \<longleftrightarrow>
     gn_function pl = ZIS_GENRES_ADMIN_SRV_FC_GIVE_ACCESS \<and> gn_accessType pl = ZIS_GENRES_ADMIN_ACESS_TYPE_ALL"
proof -
  from assms(1) have "gn_function pl = 2 \<Longrightarrow> gn_accessType pl \<in> {0..3}"
    by (auto simp: validateGenresParmList_def genres_admin_defs split: if_splits)
  then have "gn_function pl = 2 \<Longrightarrow> getAccessString (gn_accessType pl) = None \<longleftrightarrow> gn_accessType pl = 3"
    by (auto simp: getAccessString_def genres_admin_defs)
  moreover have "zisGenresProfileAdminServiceFunctionRACF env (Some pl) log = None \<longleftrightarrow>
      gn_function pl = 2 \<and> getAccessString (gn_accessType pl) = None"
    using assms by (simp add: zisGenresProfileAdminServiceFunctionRACF_def secmgmtGetCallerUserID_def Let_def
      performResAdmin_None ZIS_GENRES_ADMIN_SRV_FC_GIVE_ACCESS_def)
  ultimately show ?thesis by (auto simp: genres_admin_defs)
qed

theorem access_all_undefined_witness:
  "zisGenresProfileAdminServiceFunctionRACF demo_sec (Some (demo_genres ''ZOWE.APP'' 2 3 0)) [] = None"
proof -
  have "validateGenresParmList (demo_genres ''ZOWE.APP'' 2 3 0) = 0"
    by (simp add: genres_admin_eval)
  moreover have "userClass demo_sec = (0, ''ZOWE'')" by (simp add: userClass_def demo_sec_def)
  moreover have "se_caller demo_sec = Some \<lparr>sf_length = 5, sf_value = ''ADMIN   ''\<rparr>" by (simp add: demo_sec_def)
  ultimately show ?thesis
    using access_all_undefined [of "demo_genres ''ZOWE.APP'' 2 3 0" demo_sec _ "''ZOWE''" "[]"]
    by (simp add: sec_length_defs genres_admin_defs demo_genres_def)
qed

section \<open>Command output is bounded\<close>

definition message_fits :: "ZISServiceMessage \<Rightarrow> bool" where
  "message_fits msg \<longleftrightarrow> length (sm_text msg) = ZIS_ADMIN_MESSAGE_SIZE \<and> unat (sm_length msg) \<le> ZIS_ADMIN_MESSAGE_SIZE"

definition output_fits :: "OutputHandlerData \<Rightarrow> bool" where
  "output_fits d \<longleftrightarrow> message_fits (oh_message d) \<and> message_fits (oh_command d)"

lemma copyMessage_fits: "message_fits msg \<Longrightarrow> message_fits (copyMessage txt msg)"
  by (simp add: message_fits_def copyMessage_def Let_def ZIS_ADMIN_MESSAGE_SIZE_def unsigned_of_nat take_bit_nat_eq_self min_def)

lemma copyMessage_text: "take (unat (sm_length (copyMessage txt msg))) (sm_text (copyMessage txt msg)) = take ZIS_ADMIN_MESSAGE_SIZE txt"
  by (simp add: copyMessage_def Let_def ZIS_ADMIN_MESSAGE_SIZE_def unsigned_of_nat take_bit_nat_eq_self min_def)

lemma takeCommand_fits: "output_fits d \<Longrightarrow> output_fits (fst (takeCommand node (d, b)))"
  by (simp add: takeCommand_def output_fits_def copyMessage_fits)

lemma takeMessage_fits: "output_fits d \<Longrightarrow> output_fits (fst (takeMessage node (d, b)))"
  by (simp add: takeMessage_def output_fits_def copyMessage_fits)

lemma getMsg_loop_step:
  assumes "out n = Some node" and "\<not> (c \<and> m)" and "n \<le> RADMIN_OUT_MAX_NODE_COUNT"
  shows "getMsg_loop out n c m d =
     getMsg_loop out (n + 1) (c \<or> rn_kind node = OutputCommand) (m \<or> rn_kind node = OutputMessage)
       (fst (takeMessage node (fst (takeCommand node (d, c)), m)))"
  using assms by (subst getMsg_loop.simps) (auto simp: takeCommand_def takeMessage_def Let_def)

lemma getMsg_loop_done:
  "out n = None \<or> (c \<and> m) \<Longrightarrow> getMsg_loop out n c m d = (RC_GET_MSG_HADNLER_OK, d)"
  by (subst getMsg_loop.simps) (auto split: option.splits)

lemma getMsg_loop_limit:
  "out n = Some node \<Longrightarrow> \<not> (c \<and> m) \<Longrightarrow> n > RADMIN_OUT_MAX_NODE_COUNT \<Longrightarrow>
     getMsg_loop out n c m d = (RC_GET_MSG_HADNLER_LOOP, d)"
  by (subst getMsg_loop.simps) auto

lemma getMsg_loop_fits: "output_fits d \<Longrightarrow> output_fits (snd (getMsg_loop out n c m d))"
proof (induction "RADMIN_OUT_MAX_NODE_COUNT + 1 - n" arbitrary: n c m d rule: less_induct)
  case less
  consider "out n = None \<or> (c \<and> m)"
    | node where "out n = Some node" "\<not> (c \<and> m)" "n > RADMIN_OUT_MAX_NODE_COUNT"
    | node where "out n = Some node" "\<not> (c \<and> m)" "n \<le> RADMIN_OUT_MAX_NODE_COUNT"
    by fastforce
  then show ?case
  proof cases
    case 3
    then show ?thesis using less by (auto simp: getMsg_loop_step takeCommand_fits takeMessage_fits)
  qed (use less.prems in \<open>auto simp: getMsg_loop_done getMsg_loop_limit\<close>)
qed

text \<open>The kind of the node behind \<open>k\<close> links, and whether a chain has such a node from \<open>n\<close> on that the handler looks at.\<close>

definition looks_at :: "(nat \<Rightarrow> RadminNode option) \<Rightarrow> nat \<Rightarrow> RadminOutputKind \<Rightarrow> bool" where
  "looks_at out n kind \<longleftrightarrow> list_ex (\<lambda>k. map_option rn_kind (out k) = Some kind) [n..<Suc RADMIN_OUT_MAX_NODE_COUNT]"

definition longer :: "(nat \<Rightarrow> RadminNode option) \<Rightarrow> nat \<Rightarrow> bool" where
  "longer out n \<longleftrightarrow> list_all (\<lambda>k. out k \<noteq> None) [n..<Suc (Suc RADMIN_OUT_MAX_NODE_COUNT)]"

lemma looks_at_step: "out n = Some node \<Longrightarrow> n \<le> RADMIN_OUT_MAX_NODE_COUNT \<Longrightarrow>
    looks_at out n kind \<longleftrightarrow> rn_kind node = kind \<or> looks_at out (n + 1) kind"
  by (simp add: looks_at_def upt_conv_Cons del: upt_Suc)

lemma longer_step: "n \<le> Suc RADMIN_OUT_MAX_NODE_COUNT \<Longrightarrow> longer out n \<longleftrightarrow> out n \<noteq> None \<and> longer out (n + 1)"
  by (simp add: longer_def upt_conv_Cons del: upt_Suc)

lemma getMsg_loop_rc:
  assumes "n \<le> Suc RADMIN_OUT_MAX_NODE_COUNT"
  shows "fst (getMsg_loop out n c m d) = (if longer out n \<and> \<not> ((c \<or> looks_at out n OutputCommand) \<and> (m \<or> looks_at out n OutputMessage))
     then RC_GET_MSG_HADNLER_LOOP else RC_GET_MSG_HADNLER_OK)"
  using assms
proof (induction "RADMIN_OUT_MAX_NODE_COUNT + 1 - n" arbitrary: n c m d rule: less_induct)
  case less
  consider "out n = None \<or> (c \<and> m)"
    | node where "out n = Some node" "\<not> (c \<and> m)" "n = Suc RADMIN_OUT_MAX_NODE_COUNT"
    | node where "out n = Some node" "\<not> (c \<and> m)" "n \<le> RADMIN_OUT_MAX_NODE_COUNT"
    using less.prems by fastforce
  then show ?case
  proof cases
    case 1
    then show ?thesis using less.prems by (auto simp: getMsg_loop_done longer_step)
  next
    case 2
    then show ?thesis by (simp add: getMsg_loop_limit longer_def looks_at_def)
  next
    case 3
    then show ?thesis using less by (simp add: getMsg_loop_step looks_at_step longer_step)
  qed
qed

lemma getMsg_loop_skip:
  assumes "\<forall>k. n \<le> k \<and> k < n' \<longrightarrow> map_option rn_kind (out k) = Some OutputOther"
    and "n \<le> n'" and "n' \<le> Suc RADMIN_OUT_MAX_NODE_COUNT" and "\<not> (c \<and> m)"
  shows "getMsg_loop out n c m d = getMsg_loop out n' c m d"
  using assms
proof (induction "n' - n" arbitrary: n)
  case (Suc x)
  then have "map_option rn_kind (out n) = Some OutputOther" by simp
  then obtain node where "out n = Some node" "rn_kind node = OutputOther" by auto
  then have "getMsg_loop out n c m d = getMsg_loop out (n + 1) c m d"
    using Suc.prems Suc.hyps(2) by (simp add: getMsg_loop_step takeCommand_def takeMessage_def)
  then show ?case using Suc.hyps(1) [of "n + 1"] Suc.hyps(2) Suc.prems by simp
qed simp

text \<open>A chain with one command and one message among the nodes the handler looks at.\<close>

definition has_outputs :: "(nat \<Rightarrow> RadminNode option) \<Rightarrow> nat \<Rightarrow> string \<Rightarrow> nat \<Rightarrow> string \<Rightarrow> bool" where
  "has_outputs out i command j message \<longleftrightarrow>
     out i = Some \<lparr>rn_kind = OutputCommand, rn_text = command\<rparr> \<and>
     out j = Some \<lparr>rn_kind = OutputMessage, rn_text = message\<rparr> \<and>
     i \<le> RADMIN_OUT_MAX_NODE_COUNT \<and> j \<le> RADMIN_OUT_MAX_NODE_COUNT \<and>
     list_all (\<lambda>k. k \<noteq> i \<and> k \<noteq> j \<longrightarrow> map_option rn_kind (out k) = Some OutputOther) [0..<max i j]"

abbreviation text_of :: "ZISServiceMessage \<Rightarrow> string" where
  "text_of msg \<equiv> take (unat (sm_length msg)) (sm_text msg)"

lemma outputs_taken:
  assumes "has_outputs out i command j message"
  shows "\<exists>d. getMsg_loop out 0 False False emptyHandlerData = (RC_GET_MSG_HADNLER_OK, d) \<and>
     text_of (oh_command d) = take ZIS_ADMIN_MESSAGE_SIZE command \<and>
     text_of (oh_message d) = take ZIS_ADMIN_MESSAGE_SIZE message"
proof -
  let ?cmd = "\<lparr>rn_kind = OutputCommand, rn_text = command\<rparr>" and ?msg = "\<lparr>rn_kind = OutputMessage, rn_text = message\<rparr>"
  from assms have h: "out i = Some ?cmd" "out j = Some ?msg" "i \<le> RADMIN_OUT_MAX_NODE_COUNT" "j \<le> RADMIN_OUT_MAX_NODE_COUNT"
    and o: "\<And>k. k < max i j \<Longrightarrow> k \<noteq> i \<Longrightarrow> k \<noteq> j \<Longrightarrow> map_option rn_kind (out k) = Some OutputOther"
    by (auto simp: has_outputs_def list_all_iff)
  from h(1,2) have "i \<noteq> j" by auto
  then consider "i < j" | "j < i" by linarith
  then show ?thesis
  proof cases
    case 1
    have "getMsg_loop out 0 False False emptyHandlerData = getMsg_loop out i False False emptyHandlerData"
      using o h 1 by (intro getMsg_loop_skip) auto
    also have "\<dots> = getMsg_loop out (i + 1) True False (fst (takeCommand ?cmd (emptyHandlerData, False)))"
      using h(1,3) by (simp add: getMsg_loop_step takeMessage_def)
    also have "\<dots> = getMsg_loop out j True False (fst (takeCommand ?cmd (emptyHandlerData, False)))"
      using o h 1 by (intro getMsg_loop_skip) auto
    also have "\<dots> = (RC_GET_MSG_HADNLER_OK, fst (takeMessage ?msg (fst (takeCommand ?cmd (emptyHandlerData, False)), False)))"
      using h(2,4) by (simp add: getMsg_loop_step getMsg_loop_done takeCommand_def)
    finally show ?thesis by (simp add: takeCommand_def takeMessage_def copyMessage_text)
  next
    case 2
    have "getMsg_loop out 0 False False emptyHandlerData = getMsg_loop out j False False emptyHandlerData"
      using o h 2 by (intro getMsg_loop_skip) auto
    also have "\<dots> = getMsg_loop out (j + 1) False True (fst (takeMessage ?msg (emptyHandlerData, False)))"
      using h(2,4) by (simp add: getMsg_loop_step takeCommand_def)
    also have "\<dots> = getMsg_loop out i False True (fst (takeMessage ?msg (emptyHandlerData, False)))"
      using o h 2 by (intro getMsg_loop_skip) auto
    also have "\<dots> = (RC_GET_MSG_HADNLER_OK, fst (takeCommand ?cmd (fst (takeMessage ?msg (emptyHandlerData, False)), False)))"
      using h(1,3) by (simp add: getMsg_loop_step getMsg_loop_done takeMessage_def)
    finally show ?thesis by (simp add: takeCommand_def takeMessage_def copyMessage_text)
  qed
qed

lemma emptyHandlerData_fits: "output_fits emptyHandlerData"
  by (simp add: output_fits_def emptyHandlerData_def message_fits_def emptyMessage_def)

text \<open>
  C31. The handler of R_admin's command output ends on every chain, a cyclic one too. Command and
  message always fit their 510 bytes with a length that matches; it gives up with the loop code exactly
  at a chain of more than seventeen nodes that lacks a command or a message among the first seventeen;
  and it takes command and message, cut to 510 bytes, from a chain that has one of each there.
\<close>

theorem command_output_bounded:
  "output_fits (snd (getMsgAndOperatorCommand out emptyHandlerData)) \<and>
   fst (getMsgAndOperatorCommand out emptyHandlerData) =
     (if longer out 0 \<and> \<not> (looks_at out 0 OutputCommand \<and> looks_at out 0 OutputMessage)
      then RC_GET_MSG_HADNLER_LOOP else RC_GET_MSG_HADNLER_OK) \<and>
   (has_outputs out i command j message \<longrightarrow>
      (\<exists>d. getMsgAndOperatorCommand out emptyHandlerData = (RC_GET_MSG_HADNLER_OK, d) \<and>
         text_of (oh_command d) = take ZIS_ADMIN_MESSAGE_SIZE command \<and>
         text_of (oh_message d) = take ZIS_ADMIN_MESSAGE_SIZE message))"
  unfolding getMsgAndOperatorCommand_def
  by (intro conjI impI getMsg_loop_fits emptyHandlerData_fits outputs_taken) (simp_all add: getMsg_loop_rc)

theorem command_output_bounded_witness:
  "\<exists>d. getMsgAndOperatorCommand (\<lambda>k. if k = 1 then Some \<lparr>rn_kind = OutputCommand, rn_text = ''RDEFINE''\<rparr>
       else if k = 0 then Some \<lparr>rn_kind = OutputMessage, rn_text = ''ICH10006I''\<rparr> else None) emptyHandlerData = (0, d) \<and>
     text_of (oh_command d) = ''RDEFINE'' \<and> text_of (oh_message d) = ''ICH10006I''"
proof -
  let ?out = "\<lambda>k. if k = 1 then Some \<lparr>rn_kind = OutputCommand, rn_text = ''RDEFINE''\<rparr>
       else if k = 0 then Some \<lparr>rn_kind = OutputMessage, rn_text = ''ICH10006I''\<rparr> else None"
  have "has_outputs ?out 1 ''RDEFINE'' 0 ''ICH10006I''" by (simp add: has_outputs_def RADMIN_OUT_MAX_NODE_COUNT_def)
  then show ?thesis using command_output_bounded [of ?out 1 "''RDEFINE''" 0 "''ICH10006I''"]
    by (simp add: ZIS_ADMIN_MESSAGE_SIZE_def)
qed

end
