(* ===== verification/ZIS_Client.thy ===== *)
theory ZIS_Client
  imports ZIS_Secmgmt ZIS_Server
begin

text \<open>
  The client of the cross-memory server (src/c/zis/client.c and src/h/zis/client.h): the functions
  that fill a parameter list, pass it to a core service or, through the service router, to a
  plug-in's service, and turn the answer into a return code and a status.

  The call across address spaces (\<open>cmsCallService\<close> of zowe-common-c) is a parameter: from the server's
  name, the service's number, the list and a state of the world to the two return codes, the list as
  the service left it, and the world behind the call; \<open>None\<close> when the call does not return. C strings
  are strings without NUL, a NULL pointer is \<open>None\<close>.
\<close>

section \<open>Calls and statuses\<close>

type_synonym ('p, 'w) cmsCall = "string option \<Rightarrow> nat \<Rightarrow> 'p \<Rightarrow> 'w \<Rightarrow> ((rc \<times> rc \<times> 'p) \<times> 'w) option"

text \<open>The constants of zowe-common-c the client uses.\<close>

record ClientEnv =
  cl_CMS_DEFAULT_SERVER_NAME :: string
  cl_IDTA_IDT_BUFFER_LEN_MIN :: nat
  cl_RC_CMS_SERVER_NOT_READY :: rc
  cl_LP64 :: bool

definition ZIS_SERVICE_ID_AUTH_SRV :: nat where "ZIS_SERVICE_ID_AUTH_SRV = 11"
definition ZIS_SERVICE_ID_SNARFER_SRV :: nat where "ZIS_SERVICE_ID_SNARFER_SRV = 12"
definition ZIS_SERVICE_ID_NWM_SRV :: nat where "ZIS_SERVICE_ID_NWM_SRV = 13"
definition ZIS_SERVICE_ID_USERPROF_SRV :: nat where "ZIS_SERVICE_ID_USERPROF_SRV = 14"
definition ZIS_SERVICE_ID_GRESPROF_SRV :: nat where "ZIS_SERVICE_ID_GRESPROF_SRV = 15"
definition ZIS_SERVICE_ID_ACSLIST_SRV :: nat where "ZIS_SERVICE_ID_ACSLIST_SRV = 16"
definition ZIS_SERVICE_ID_GENRES_ADMIN_SRV :: nat where "ZIS_SERVICE_ID_GENRES_ADMIN_SRV = 17"
definition ZIS_SERVICE_ID_GRPPROF_SRV :: nat where "ZIS_SERVICE_ID_GRPPROF_SRV = 18"
definition ZIS_SERVICE_ID_GRPALIST_SRV :: nat where "ZIS_SERVICE_ID_GRPALIST_SRV = 19"
definition ZIS_SERVICE_ID_GROUP_ADMIN_SRV :: nat where "ZIS_SERVICE_ID_GROUP_ADMIN_SRV = 20"
definition ZIS_SERVICE_ID_SRVC_ROUTER_SS :: nat where "ZIS_SERVICE_ID_SRVC_ROUTER_SS = 64"
definition ZIS_SERVICE_ID_SRVC_ROUTER_CP :: nat where "ZIS_SERVICE_ID_SRVC_ROUTER_CP = 65"

lemmas service_id_defs =
  ZIS_SERVICE_ID_AUTH_SRV_def ZIS_SERVICE_ID_SNARFER_SRV_def ZIS_SERVICE_ID_NWM_SRV_def ZIS_SERVICE_ID_USERPROF_SRV_def
  ZIS_SERVICE_ID_GRESPROF_SRV_def ZIS_SERVICE_ID_ACSLIST_SRV_def ZIS_SERVICE_ID_GENRES_ADMIN_SRV_def
  ZIS_SERVICE_ID_GRPPROF_SRV_def ZIS_SERVICE_ID_GRPALIST_SRV_def ZIS_SERVICE_ID_GROUP_ADMIN_SRV_def
  ZIS_SERVICE_ID_SRVC_ROUTER_SS_def ZIS_SERVICE_ID_SRVC_ROUTER_CP_def

abbreviation (input) RC_ZIS_SRVC_OK :: rc where "RC_ZIS_SRVC_OK \<equiv> 0"
abbreviation (input) RC_ZIS_SRVC_STATUS_NULL :: rc where "RC_ZIS_SRVC_STATUS_NULL \<equiv> 2"
abbreviation (input) RC_ZIS_SRVC_SERVICE_FAILED :: rc where "RC_ZIS_SRVC_SERVICE_FAILED \<equiv> 4"
abbreviation (input) RC_ZIS_SRVC_CMS_FAILED :: rc where "RC_ZIS_SRVC_CMS_FAILED \<equiv> 8"
abbreviation (input) RC_ZIS_SRVC_GLOBAL_AREA_NULL :: rc where "RC_ZIS_SRVC_GLOBAL_AREA_NULL \<equiv> 9"
abbreviation (input) RC_ZIS_SRVC_SEVER_ANCHOR_NULL :: rc where "RC_ZIS_SRVC_SEVER_ANCHOR_NULL \<equiv> 10"
abbreviation (input) RC_ZIS_SRVC_SERVICE_TABLE_NULL :: rc where "RC_ZIS_SRVC_SERVICE_TABLE_NULL \<equiv> 11"

definition ZIS_MAX_GEN_SRVC_RC :: rc where "ZIS_MAX_GEN_SRVC_RC = 32"

record ZISServiceStatus =
  zs_serviceRC :: rc
  zs_serviceRSN :: rc
  zs_cmsRC :: rc
  zs_cmsRSN :: rc

text \<open>The abend information lies over the first two words of the SAF status, as in the list.\<close>

record ZISAuthServiceStatus =
  za_baseStatus :: ZISServiceStatus
  za_safStatus :: SAFAuthStatus

section \<open>Copying storage\<close>

definition ZIS_SNARFER_SERVICE_PARMLIST_EYECATCHER :: string where "ZIS_SNARFER_SERVICE_PARMLIST_EYECATCHER = ''RSSNRFSR''"

record SnarferServiceParmList =
  sn_eyecatcher :: string
  sn_destinationAddress :: "64 word"
  sn_sourceAddress :: "64 word"
  sn_sourceASCB :: "addr option"
  sn_sourceKey :: "32 word"
  sn_size :: "32 word"

definition zisGetDefaultServerName :: "ClientEnv \<Rightarrow> string" where
  "zisGetDefaultServerName env = cl_CMS_DEFAULT_SERVER_NAME env"

definition localServerName :: "ClientEnv \<Rightarrow> string option \<Rightarrow> string option" where
  "localServerName env serverName = (case serverName of Some n \<Rightarrow> Some n | None \<Rightarrow> Some (cl_CMS_DEFAULT_SERVER_NAME env))"

text \<open>A caller in AMODE 31 may pass addresses with the high bit on, which is cleared.\<close>

definition clientAddress :: "ClientEnv \<Rightarrow> 64 word \<Rightarrow> 64 word" where
  "clientAddress env a = (if cl_LP64 env then a else a AND 0x7FFFFFFF)"

definition zisCopyDataFromAddressSpace ::
    "ClientEnv \<Rightarrow> (SnarferServiceParmList, 'w) cmsCall \<Rightarrow> string option \<Rightarrow> 64 word \<Rightarrow> 64 word \<Rightarrow> 32 word \<Rightarrow> 32 word \<Rightarrow> addr option
     \<Rightarrow> ZISServiceStatus \<Rightarrow> 'w \<Rightarrow> ((rc \<times> ZISServiceStatus) \<times> 'w) option" where
  "zisCopyDataFromAddressSpace env cmsCallService serverName dest src n srcKey ascb status w = do {
     ((cmsRC, serviceRC, _), w') \<leftarrow> cmsCallService (localServerName env serverName) ZIS_SERVICE_ID_SNARFER_SRV
       \<lparr>sn_eyecatcher = ZIS_SNARFER_SERVICE_PARMLIST_EYECATCHER, sn_destinationAddress = clientAddress env dest,
        sn_sourceAddress = clientAddress env src, sn_sourceASCB = ascb, sn_sourceKey = srcKey, sn_size = n\<rparr> w;
     Some (if cmsRC \<noteq> 0 then (RC_ZIS_SRVC_CMS_FAILED, status\<lparr>zs_cmsRC := cmsRC\<rparr>)
           else if serviceRC \<noteq> 0 then (RC_ZIS_SRVC_SERVICE_FAILED, status\<lparr>zs_serviceRC := serviceRC\<rparr>)
           else (RC_ZIS_SRVC_OK, status), w')
   }"

section \<open>Users, passwords, tokens and entities\<close>

definition ZIS_AUTH_SERVICE_SAFIDT_LENGTH :: "ClientEnv \<Rightarrow> nat" where
  "ZIS_AUTH_SERVICE_SAFIDT_LENGTH env = 2 * cl_IDTA_IDT_BUFFER_LEN_MIN env"

text \<open>A zeroed list with its eyecatcher and function code.\<close>

definition newAuthParmList :: "ClientEnv \<Rightarrow> int \<Rightarrow> AuthServiceParmList" where
  "newAuthParmList env fc =
     \<lparr>ap_eyecatcher = ZIS_AUTH_SERVICE_PARMLIST_EYECATCHER, ap_fc = fc,
      ap_userIDNullTerm = replicate (ZIS_AUTH_SERVICE_USER_ID_MAX_LENGTH + 1) nul,
      ap_passwordNullTerm = replicate (ZIS_AUTH_SERVICE_PASSWORD_MAX_LENGTH + 1) nul,
      ap_classNullTerm = replicate (ZIS_AUTH_SERVICE_CLASS_MAX_LENGTH + 1) nul, ap_padding0 = 0, ap_access = 0,
      ap_entityNullTerm = replicate (ZIS_AUTH_SERVICE_ENTITY_MAX_LENGTH + 1) nul,
      ap_safStatus = \<lparr>ss_safRC = 0, ss_racfRC = 0, ss_racfRSN = 0\<rparr>, ap_traceLevel = 0,
      ap_safIdtService =
        \<lparr>si_version = 0, si_safIdtLen = 0, si_options = 0, si_safIdt = replicate (ZIS_AUTH_SERVICE_SAFIDT_LENGTH env) nul,
         si_applNullTerm = replicate (ZIS_AUTH_SERVICE_APPL_MAX_LENGTH + 1) nul\<rparr>\<rparr>"

definition authRequest ::
    "ClientEnv \<Rightarrow> (AuthServiceParmList, 'w) cmsCall \<Rightarrow> string option \<Rightarrow> AuthServiceParmList \<Rightarrow> ZISAuthServiceStatus \<Rightarrow> 'w
     \<Rightarrow> ((rc \<times> AuthServiceParmList \<times> ZISAuthServiceStatus) \<times> 'w) option" where
  "authRequest env cmsCallService serverName parmList status w = do {
     ((cmsRC, authServiceRC, parmList'), w') \<leftarrow> cmsCallService (localServerName env serverName) ZIS_SERVICE_ID_AUTH_SRV parmList w;
     let base = za_baseStatus status;
     let status1 = status\<lparr>za_baseStatus := base\<lparr>zs_serviceRC := authServiceRC\<rparr>\<rparr>;
     let saf = ap_safStatus parmList';
     Some (if cmsRC \<noteq> 0
           then (RC_ZIS_SRVC_CMS_FAILED, parmList', status\<lparr>za_baseStatus := base\<lparr>zs_cmsRC := cmsRC\<rparr>\<rparr>)
           else if authServiceRC \<noteq> RC_ZIS_AUTHSRV_OK
           then (RC_ZIS_SRVC_SERVICE_FAILED, parmList',
                 if authServiceRC = RC_ZIS_AUTHSRV_SAF_ABENDED
                 then status1\<lparr>za_safStatus := fillAbendInfo (ss_safRC saf, ss_racfRC saf) (za_safStatus status)\<rparr>
                 else if authServiceRC \<in> {RC_ZIS_AUTHSRV_DELETE_FAILED, RC_ZIS_AUTHSRV_CREATE_FAILED, RC_ZIS_AUTHSRV_SAF_ERROR}
                 then status1\<lparr>za_safStatus := saf\<rparr>
                 else status1)
           else (RC_ZIS_SRVC_OK, parmList', status), w')
   }"

text \<open>The early returns: the service's return code is set as if the service had failed.\<close>

definition refuse :: "rc \<Rightarrow> ZISAuthServiceStatus \<Rightarrow> 'w \<Rightarrow> ((rc \<times> ZISAuthServiceStatus) \<times> 'w) option" where
  "refuse r status w =
     Some ((RC_ZIS_SRVC_SERVICE_FAILED, status\<lparr>za_baseStatus := (za_baseStatus status)\<lparr>zs_serviceRC := r\<rparr>\<rparr>), w)"

definition forgetList :: "((rc \<times> 'p \<times> 's) \<times> 'w) option \<Rightarrow> ((rc \<times> 's) \<times> 'w) option" where
  "forgetList = map_option (\<lambda>((r, _, status), w). ((r, status), w))"

definition zisCheckUsernameAndPassword ::
    "ClientEnv \<Rightarrow> (AuthServiceParmList, 'w) cmsCall \<Rightarrow> string option \<Rightarrow> string \<Rightarrow> string \<Rightarrow> ZISAuthServiceStatus \<Rightarrow> 'w
     \<Rightarrow> ((rc \<times> ZISAuthServiceStatus) \<times> 'w) option" where
  "zisCheckUsernameAndPassword env cmsCallService serverName userName password status w =
     (if length userName \<ge> ZIS_AUTH_SERVICE_USER_ID_MAX_LENGTH + 1
      then refuse RC_ZIS_AUTHSRV_INPUT_STRING_TOO_LONG status w
      else if length password \<ge> ZIS_AUTH_SERVICE_PASSWORD_MAX_LENGTH + 1
      then refuse RC_ZIS_AUTHSRV_INPUT_STRING_TOO_LONG status w
      else forgetList (authRequest env cmsCallService serverName
             ((newAuthParmList env ZIS_AUTH_SERVICE_PARMLIST_FC_VERIFY_PASSWORD)
                \<lparr>ap_userIDNullTerm := zero_pad (ZIS_AUTH_SERVICE_USER_ID_MAX_LENGTH + 1) userName,
                 ap_passwordNullTerm := zero_pad (ZIS_AUTH_SERVICE_PASSWORD_MAX_LENGTH + 1) password\<rparr>) status w))"

definition zisCheckUsername ::
    "ClientEnv \<Rightarrow> (AuthServiceParmList, 'w) cmsCall \<Rightarrow> string option \<Rightarrow> string \<Rightarrow> ZISAuthServiceStatus \<Rightarrow> 'w
     \<Rightarrow> ((rc \<times> ZISAuthServiceStatus) \<times> 'w) option" where
  "zisCheckUsername env cmsCallService serverName userName status w =
     (if length userName \<ge> ZIS_AUTH_SERVICE_USER_ID_MAX_LENGTH + 1
      then refuse RC_ZIS_AUTHSRV_INPUT_STRING_TOO_LONG status w
      else forgetList (authRequest env cmsCallService serverName
             ((newAuthParmList env ZIS_AUTH_SERVICE_PARMLIST_FC_VERIFY_USER)
                \<lparr>ap_userIDNullTerm := zero_pad (ZIS_AUTH_SERVICE_USER_ID_MAX_LENGTH + 1) userName\<rparr>) status w))"

definition zisCheckEntity ::
    "ClientEnv \<Rightarrow> (AuthServiceParmList, 'w) cmsCall \<Rightarrow> string option \<Rightarrow> string \<Rightarrow> string \<Rightarrow> string \<Rightarrow> int \<Rightarrow> ZISAuthServiceStatus \<Rightarrow> 'w
     \<Rightarrow> ((rc \<times> ZISAuthServiceStatus) \<times> 'w) option" where
  "zisCheckEntity env cmsCallService serverName userName cls entity access status w =
     (if length userName \<ge> ZIS_AUTH_SERVICE_USER_ID_MAX_LENGTH + 1
      then refuse RC_ZIS_AUTHSRV_INPUT_STRING_TOO_LONG status w
      else if length cls \<ge> ZIS_AUTH_SERVICE_CLASS_MAX_LENGTH + 1
      then refuse RC_ZIS_AUTHSRV_INPUT_STRING_TOO_LONG status w
      else if length entity = 0
      then refuse RC_ZIS_AUTHSRV_INPUT_STRING_TOO_SHORT status w
      else if length entity \<ge> ZIS_AUTH_SERVICE_ENTITY_MAX_LENGTH + 1
      then refuse RC_ZIS_AUTHSRV_INPUT_STRING_TOO_LONG status w
      else forgetList (authRequest env cmsCallService serverName
             ((newAuthParmList env ZIS_AUTH_SERVICE_PARMLIST_FC_ENTITY_CHECK)
                \<lparr>ap_access := access,
                 ap_userIDNullTerm := zero_pad (ZIS_AUTH_SERVICE_USER_ID_MAX_LENGTH + 1) userName,
                 ap_classNullTerm := zero_pad (ZIS_AUTH_SERVICE_CLASS_MAX_LENGTH + 1) cls,
                 ap_entityNullTerm := zero_pad (ZIS_AUTH_SERVICE_ENTITY_MAX_LENGTH + 1) entity\<rparr>) status w))"

text \<open>\<open>zisGetSAFAccessLevel\<close>: the access level is written only behind a request.\<close>

definition ZIS_SAF_ACCESS_NONE :: int where "ZIS_SAF_ACCESS_NONE = 0"

definition zisGetSAFAccessLevel ::
    "ClientEnv \<Rightarrow> (AuthServiceParmList, 'w) cmsCall \<Rightarrow> string option \<Rightarrow> string \<Rightarrow> string option \<Rightarrow> string \<Rightarrow> int \<Rightarrow> ZISAuthServiceStatus \<Rightarrow> int \<Rightarrow> 'w
     \<Rightarrow> ((rc \<times> int \<times> ZISAuthServiceStatus) \<times> 'w) option" where
  "zisGetSAFAccessLevel env cmsCallService serverName ident cls entity accessLevel status traceLevel w =
     (let tooLong = map_option (\<lambda>((r, st), w'). ((r, accessLevel, st), w')) (refuse RC_ZIS_AUTHSRV_INPUT_STRING_TOO_LONG status w)
      in if length ident \<ge> ZIS_AUTH_SERVICE_USER_ID_MAX_LENGTH + 1 then tooLong
         else if (case cls of None \<Rightarrow> False | Some c \<Rightarrow> length c \<ge> ZIS_AUTH_SERVICE_CLASS_MAX_LENGTH + 1) then tooLong
         else if length entity \<ge> ZIS_AUTH_SERVICE_ENTITY_MAX_LENGTH + 1 then tooLong
         else do {
           ((authRC, parmList', status'), w') \<leftarrow> authRequest env cmsCallService serverName
             ((newAuthParmList env ZIS_AUTH_SERVICE_PARMLIST_FC_GET_ACCESS)
                \<lparr>ap_access := ZIS_SAF_ACCESS_NONE, ap_traceLevel := traceLevel,
                 ap_userIDNullTerm := zero_pad (ZIS_AUTH_SERVICE_USER_ID_MAX_LENGTH + 1) ident,
                 ap_classNullTerm := zero_pad (ZIS_AUTH_SERVICE_CLASS_MAX_LENGTH + 1) (case cls of None \<Rightarrow> [] | Some c \<Rightarrow> c),
                 ap_entityNullTerm := zero_pad (ZIS_AUTH_SERVICE_ENTITY_MAX_LENGTH + 1) entity\<rparr>) status w;
           Some ((authRC, ap_access parmList', status'), w')
         })"

text \<open>
  \<open>zisGenerateOrValidateSafIdtWithAppl\<close>: \<open>safIdt\<close> is the caller's buffer, the token in it ends at its first
  NUL. A token of the service's list goes back to the buffer; a length beyond the list's array has no
  result.
\<close>

definition returnToken :: "ClientEnv \<Rightarrow> AuthServiceParmList \<Rightarrow> string \<Rightarrow> string option" where
  "returnToken env parmList safIdt =
     (let len = si_safIdtLen (ap_safIdtService parmList); arr = si_safIdt (ap_safIdtService parmList);
          n = ZIS_AUTH_SERVICE_SAFIDT_LENGTH env + 1
      in if len > 0
         then if nat len > length arr then None
              else Some (take (nat len) arr @ replicate (n - nat len) nul @ drop n safIdt)
         else Some safIdt)"

definition zisGenerateOrValidateSafIdtWithAppl ::
    "ClientEnv \<Rightarrow> (AuthServiceParmList, 'w) cmsCall \<Rightarrow> string option \<Rightarrow> string \<Rightarrow> string \<Rightarrow> string option \<Rightarrow> string \<Rightarrow> ZISAuthServiceStatus \<Rightarrow> 'w
     \<Rightarrow> ((rc \<times> string \<times> ZISAuthServiceStatus) \<times> 'w) option" where
  "zisGenerateOrValidateSafIdtWithAppl env cmsCallService serverName userName password appl safIdt status w =
     (let tooLong = map_option (\<lambda>((r, st), w'). ((r, safIdt, st), w')) (refuse RC_ZIS_AUTHSRV_INPUT_STRING_TOO_LONG status w);
          applName = (case appl of None \<Rightarrow> [] | Some a \<Rightarrow> a)
      in if length userName \<ge> ZIS_AUTH_SERVICE_USER_ID_MAX_LENGTH + 1 then tooLong
         else if length password \<ge> ZIS_AUTH_SERVICE_PASSWORD_MAX_LENGTH + 1 then tooLong
         else if length applName \<ge> ZIS_AUTH_SERVICE_APPL_MAX_LENGTH + 1 then tooLong
         else do {
           token \<leftarrow> cstr_of safIdt;
           if length token \<ge> ZIS_AUTH_SERVICE_SAFIDT_LENGTH env then tooLong
           else do {
             ((r, parmList', status'), w') \<leftarrow> authRequest env cmsCallService serverName
               ((newAuthParmList env ZIS_AUTH_SERVICE_PARMLIST_FC_GENERATE_TOKEN)
                  \<lparr>ap_userIDNullTerm := zero_pad (ZIS_AUTH_SERVICE_USER_ID_MAX_LENGTH + 1) userName,
                   ap_passwordNullTerm := zero_pad (ZIS_AUTH_SERVICE_PASSWORD_MAX_LENGTH + 1) password,
                   ap_safIdtService :=
                     \<lparr>si_version = 1, si_safIdtLen = int (length token),
                      si_options = (if applName \<noteq> [] then ZIS_AUTH_SERVICE_SAFIDT_OPTION_IDT_APPL else 0),
                      si_safIdt = zero_pad (ZIS_AUTH_SERVICE_SAFIDT_LENGTH env) token,
                      si_applNullTerm = zero_pad (ZIS_AUTH_SERVICE_APPL_MAX_LENGTH + 1) applName\<rparr>\<rparr>) status w;
             safIdt' \<leftarrow> returnToken env parmList' safIdt;
             Some ((r, safIdt', status'), w')
           }
         })"

definition zisGenerateOrValidateSafIdt ::
    "ClientEnv \<Rightarrow> (AuthServiceParmList, 'w) cmsCall \<Rightarrow> string option \<Rightarrow> string \<Rightarrow> string \<Rightarrow> string \<Rightarrow> ZISAuthServiceStatus \<Rightarrow> 'w
     \<Rightarrow> ((rc \<times> string \<times> ZISAuthServiceStatus) \<times> 'w) option" where
  "zisGenerateOrValidateSafIdt env cmsCallService serverName userName password safIdt status w =
     zisGenerateOrValidateSafIdtWithAppl env cmsCallService serverName userName password None safIdt status w"

section \<open>Extracting users, profiles, groups and access lists\<close>









abbreviation zero_saf :: SAFAuthStatus where
  "zero_saf \<equiv> \<lparr>ss_safRC = 0, ss_racfRC = 0, ss_racfRSN = 0\<rparr>"








section \<open>Administration of profiles and groups\<close>













section \<open>Network management data\<close>

definition ZIS_NWM_SERVICE_PARMLIST_EYECATCHER :: string where "ZIS_NWM_SERVICE_PARMLIST_EYECATCHER = ''RSZISNWM''"

record ZISNWMServiceParmList =
  nw_eyecatcher :: string
  nw_version :: int
  nw_flags :: int
  nw_traceLevel :: int
  nw_nmiJobName :: string
  nw_nmiBuffer :: "addr option"
  nw_nmiBufferSize :: "32 word"
  nw_nmiReturnValue :: rc
  nw_nmiReturnCode :: rc
  nw_nmiReasonCode :: rc

record ZISNWMServiceStatus =
  zn_baseStatus :: ZISServiceStatus
  zn_nmiReturnValue :: rc
  zn_nmiReturnCode :: rc
  zn_nmiReasonCode :: rc

definition zisCallNWMService ::
    "(ZISNWMServiceParmList, 'w) cmsCall \<Rightarrow> string option \<Rightarrow> string \<Rightarrow> addr option \<Rightarrow> 32 word \<Rightarrow> ZISNWMServiceStatus option \<Rightarrow> int \<Rightarrow> 'w
     \<Rightarrow> ((rc \<times> ZISNWMServiceStatus option) \<times> 'w) option" where
  "zisCallNWMService cmsCallService serverName jobName nmiBuffer nmiBufferSize status traceLevel w =
     (case status of
        None \<Rightarrow> Some ((RC_ZIS_SRVC_STATUS_NULL, None), w)
      | Some st \<Rightarrow>
          (if nmiBuffer = None then Some ((ZIS_MAX_GEN_SRVC_RC + 1, status), w)
           else do {
             ((cmsRC, serviceRC, parmList), w') \<leftarrow> cmsCallService serverName ZIS_SERVICE_ID_NWM_SRV
               \<lparr>nw_eyecatcher = ZIS_NWM_SERVICE_PARMLIST_EYECATCHER, nw_version = 0, nw_flags = 0, nw_traceLevel = traceLevel,
                nw_nmiJobName = take 8 jobName, nw_nmiBuffer = nmiBuffer, nw_nmiBufferSize = nmiBufferSize,
                nw_nmiReturnValue = 0, nw_nmiReturnCode = 0, nw_nmiReasonCode = 0\<rparr> w;
             let base = zn_baseStatus st;
             let st1 = st\<lparr>zn_nmiReturnValue := nw_nmiReturnValue parmList, zn_nmiReturnCode := nw_nmiReturnCode parmList,
                          zn_nmiReasonCode := nw_nmiReasonCode parmList\<rparr>;
             Some (if cmsRC \<noteq> 0 then (RC_ZIS_SRVC_CMS_FAILED, Some (st\<lparr>zn_baseStatus := base\<lparr>zs_cmsRC := cmsRC\<rparr>\<rparr>))
                   else if serviceRC \<noteq> 0
                   then (RC_ZIS_SRVC_SERVICE_FAILED, Some (st1\<lparr>zn_baseStatus := base\<lparr>zs_serviceRC := serviceRC\<rparr>\<rparr>))
                   else (RC_ZIS_SRVC_OK, Some st1), w')
           }))"

section \<open>Calling the services of plug-ins\<close>

text \<open>
  The global area of a server as the client sees it: whether its ready flag is on, and the server
  anchor. Common storage is readable by the client; \<open>cmsCallService3\<close> gets the number of the router, the
  router's list and whether the caller asks for no SAF check.
\<close>

record CrossMemoryServerGlobalArea =
  cg_ready :: bool
  cg_userServerAnchor :: "addr option"

record 'm ClientCMS =
  cmsGetGlobalArea :: "string option \<Rightarrow> rc \<times> CrossMemoryServerGlobalArea"
  cmsCallService3 :: "CrossMemoryServerGlobalArea \<Rightarrow> nat \<Rightarrow> ZISServiceRouterParm \<Rightarrow> bool \<Rightarrow> 'm CommonStorage
     \<Rightarrow> ((rc \<times> rc) \<times> 'm CommonStorage) option"

definition sizeof_ZISServiceRouterParm :: nat where
  "sizeof_ZISServiceRouterParm = 8 + 4 + 4 + 16 + sizeof_ZISServicePath + 8 + 4 + 52"

definition routerParm :: "ZISServicePath \<Rightarrow> addr option \<Rightarrow> 32 word \<Rightarrow> ZISServiceRouterParm" where
  "routerParm path parm version =
     \<lparr>rp_eyecatcher = ZIS_SERVICE_ROUTER_EYECATCHER, rp_version = ZIS_SERVICE_ROUTER_VERSION,
      rp_size = of_nat sizeof_ZISServiceRouterParm, rp_targetServicePath = path, rp_targetServiceParm = parm,
      rp_serviceVersion = version\<rparr>"

definition routerServiceID :: "ZISServiceAnchor \<Rightarrow> nat" where
  "routerServiceID sa =
     (if has_flag (sa_flags sa) ZIS_SERVICE_ANCHOR_FLAG_SPACE_SWITCH
      then ZIS_SERVICE_ID_SRVC_ROUTER_SS else ZIS_SERVICE_ID_SRVC_ROUTER_CP)"

definition zisCallServiceInternal ::
    "ClientEnv \<Rightarrow> 'm ServerEnv \<Rightarrow> 'm ClientCMS \<Rightarrow> string option \<Rightarrow> ZISServicePath \<Rightarrow> addr option \<Rightarrow> 32 word \<Rightarrow> bool
     \<Rightarrow> ZISServiceStatus option \<Rightarrow> 'm CommonStorage \<Rightarrow> ((rc \<times> ZISServiceStatus option) \<times> 'm CommonStorage) option" where
  "zisCallServiceInternal cenv env cms serverName path parm version noSAFCheck status cs =
     (case status of
        None \<Rightarrow> Some ((RC_ZIS_SRVC_STATUS_NULL, None), cs)
      | Some st \<Rightarrow>
          (let (getGlobalAreaRC, cmsGA) = cmsGetGlobalArea cms serverName
           in if getGlobalAreaRC \<noteq> 0 then Some ((RC_ZIS_SRVC_GLOBAL_AREA_NULL, status), cs)
              else if \<not> cg_ready cmsGA
              then Some ((RC_ZIS_SRVC_CMS_FAILED, Some (st\<lparr>zs_cmsRC := cl_RC_CMS_SERVER_NOT_READY cenv\<rparr>)), cs)
              else case cg_userServerAnchor cmsGA of
                None \<Rightarrow> Some ((RC_ZIS_SRVC_SEVER_ANCHOR_NULL, status), cs)
              | Some v \<Rightarrow> do {
                  serverAnchor \<leftarrow> cs_servers cs v;
                  case sv_serviceTable serverAnchor of
                    None \<Rightarrow> Some ((RC_ZIS_SRVC_SERVICE_TABLE_NULL, status), cs)
                  | Some serviceTable \<Rightarrow>
                      (case crossMemoryMapGet env serviceTable path of
                         None \<Rightarrow> Some ((RC_ZIS_SRVC_SERVICE_NOT_FOUND, status), cs)
                       | Some a \<Rightarrow> do {
                           serviceAnchor \<leftarrow> cs_services cs a;
                           ((cmsRC, routerRC), cs') \<leftarrow> cmsCallService3 cms cmsGA (routerServiceID serviceAnchor)
                             (routerParm path parm version) noSAFCheck cs;
                           Some (if cmsRC \<noteq> 0 then (RC_ZIS_SRVC_CMS_FAILED, Some (st\<lparr>zs_cmsRC := cmsRC\<rparr>))
                                 else if routerRC = RC_ZIS_SRVC_SPECIFIC_AUTH_FAILED
                                 then (RC_ZIS_SRVC_SPECIFIC_AUTH_FAILED, Some (st\<lparr>zs_serviceRC := routerRC\<rparr>))
                                 else if routerRC \<noteq> RC_ZIS_SRVC_OK
                                 then (RC_ZIS_SRVC_SERVICE_FAILED, Some (st\<lparr>zs_serviceRC := routerRC\<rparr>))
                                 else (RC_ZIS_SRVC_OK, status), cs')
                         })
                }))"

definition zisCallService ::
    "ClientEnv \<Rightarrow> 'm ServerEnv \<Rightarrow> 'm ClientCMS \<Rightarrow> string option \<Rightarrow> ZISServicePath \<Rightarrow> addr option
     \<Rightarrow> ZISServiceStatus option \<Rightarrow> 'm CommonStorage \<Rightarrow> ((rc \<times> ZISServiceStatus option) \<times> 'm CommonStorage) option" where
  "zisCallService cenv env cms serverName path parm status =
     zisCallServiceInternal cenv env cms serverName path parm ZIS_SERVICE_ANY_VERSION False status"

definition zisCallServiceUnchecked ::
    "ClientEnv \<Rightarrow> 'm ServerEnv \<Rightarrow> 'm ClientCMS \<Rightarrow> string option \<Rightarrow> ZISServicePath \<Rightarrow> addr option
     \<Rightarrow> ZISServiceStatus option \<Rightarrow> 'm CommonStorage \<Rightarrow> ((rc \<times> ZISServiceStatus option) \<times> 'm CommonStorage) option" where
  "zisCallServiceUnchecked cenv env cms serverName path parm status =
     zisCallServiceInternal cenv env cms serverName path parm ZIS_SERVICE_ANY_VERSION True status"

definition zisCallVersionedService ::
    "ClientEnv \<Rightarrow> 'm ServerEnv \<Rightarrow> 'm ClientCMS \<Rightarrow> string option \<Rightarrow> ZISServicePath \<Rightarrow> addr option \<Rightarrow> 32 word
     \<Rightarrow> ZISServiceStatus option \<Rightarrow> 'm CommonStorage \<Rightarrow> ((rc \<times> ZISServiceStatus option) \<times> 'm CommonStorage) option" where
  "zisCallVersionedService cenv env cms serverName path parm version status =
     zisCallServiceInternal cenv env cms serverName path parm version False status"

section \<open>The client and the authentication service\<close>

lemma cstr_of_zero_pad: "nul \<notin> set s \<Longrightarrow> length s < n \<Longrightarrow> cstr_of (zero_pad n s) = Some s"
  by (cases "n - length s") (auto simp: cstr_of_def zero_pad_def cstr_def takeWhile_tail takeWhile_ne_id)

lemma cstr_of_zeros: "0 < n \<Longrightarrow> cstr_of (replicate n nul) = Some []"
  by (simp add: cstr_of_def cstr_def takeWhile_eq_Nil_iff)

text \<open>
  A transport that takes a list to the authentication service: the call itself succeeds, and the
  service's return code and list come back.
\<close>

locale auth_transport =
  fixes call :: "(AuthServiceParmList, SafRequest list) cmsCall" and aenv :: AuthEnv
  assumes runs: "call name ZIS_SERVICE_ID_AUTH_SRV pl log =
     (case zisAuthServiceFunction aenv (Some pl) log of Some (r, Some pl', log') \<Rightarrow> Some ((0, r, pl'), log') | _ \<Rightarrow> None)"
begin

lemma request:
  assumes "zisAuthServiceFunction aenv (Some pl) log = Some (r, Some pl', log')"
  shows "\<exists>st'. authRequest env call name pl st log = Some ((if r = 0 then 0 else RC_ZIS_SRVC_SERVICE_FAILED, pl', st'), log') \<and>
     (r = 0 \<longrightarrow> st' = st) \<and> (r \<noteq> 0 \<longrightarrow> zs_serviceRC (za_baseStatus st') = r)"
  using assms by (simp add: authRequest_def runs Let_def)

lemma request_balanced:
  assumes "authRequest env call name pl st log = Some (x, log')"
  shows "open_acees aenv log' = open_acees aenv log"
proof -
  from assms obtain r pl' where "zisAuthServiceFunction aenv (Some pl) log = Some (r, Some pl', log')"
    by (auto simp: authRequest_def runs bind_eq_Some_conv Let_def split: option.splits prod.splits)
  then show ?thesis by (rule authService_balanced)
qed

end

definition auth_server :: "AuthEnv \<Rightarrow> (AuthServiceParmList, SafRequest list) cmsCall" where
  "auth_server aenv name serviceID pl log =
     (if serviceID = ZIS_SERVICE_ID_AUTH_SRV
      then case zisAuthServiceFunction aenv (Some pl) log of Some (r, Some pl', log') \<Rightarrow> Some ((0, r, pl'), log') | _ \<Rightarrow> None
      else None)"

interpretation auth_srv: auth_transport "auth_server aenv" aenv for aenv
  by unfold_locales (simp add: auth_server_def)

text \<open>
  What SAF has to grant. For a password it is the creation of an ACEE for the user with the password, for
  an entity the creation without a password and the access with this ACEE; behind either the service
  deletes the ACEE, and SAF has to grant that as well.
\<close>

definition saf_accepts_password :: "AuthEnv \<Rightarrow> SafRequest list \<Rightarrow> string \<Rightarrow> string \<Rightarrow> bool" where
  "saf_accepts_password aenv log user password \<longleftrightarrow> granted aenv log (SafVerify [VERIFY_CREATE] (Some user) (Some password) None)"

definition saf_deletes_password_acee :: "AuthEnv \<Rightarrow> SafRequest list \<Rightarrow> string \<Rightarrow> string \<Rightarrow> bool" where
  "saf_deletes_password_acee aenv log user password \<longleftrightarrow>
     (let c = SafVerify [VERIFY_CREATE] (Some user) (Some password) None
      in granted aenv (c # log) (SafVerify [VERIFY_DELETE] None None (sr_acee (ae_saf aenv log c))))"

definition saf_accepts_entity :: "AuthEnv \<Rightarrow> SafRequest list \<Rightarrow> string \<Rightarrow> string \<Rightarrow> string \<Rightarrow> int \<Rightarrow> bool" where
  "saf_accepts_entity aenv log user cls entity access \<longleftrightarrow>
     (let c = SafVerify [VERIFY_CREATE, VERIFY_WITHOUT_PASSWORD] (Some user) None None;
          q = SafAuth cls entity access (sr_acee (ae_saf aenv log c))
      in granted aenv log c \<and> granted aenv (c # log) q)"

definition saf_deletes_entity_acee :: "AuthEnv \<Rightarrow> SafRequest list \<Rightarrow> string \<Rightarrow> string \<Rightarrow> string \<Rightarrow> int \<Rightarrow> bool" where
  "saf_deletes_entity_acee aenv log user cls entity access \<longleftrightarrow>
     (let c = SafVerify [VERIFY_CREATE, VERIFY_WITHOUT_PASSWORD] (Some user) None None;
          a = sr_acee (ae_saf aenv log c); q = SafAuth cls entity access a
      in granted aenv (q # c # log) (SafVerify [VERIFY_DELETE] None None a))"

definition password_granted :: "AuthEnv \<Rightarrow> SafRequest list \<Rightarrow> string \<Rightarrow> string \<Rightarrow> bool" where
  "password_granted aenv log user password \<longleftrightarrow>
     saf_accepts_password aenv log user password \<and> saf_deletes_password_acee aenv log user password"

definition entity_granted :: "AuthEnv \<Rightarrow> SafRequest list \<Rightarrow> string \<Rightarrow> string \<Rightarrow> string \<Rightarrow> int \<Rightarrow> bool" where
  "entity_granted aenv log user cls entity access \<longleftrightarrow>
     saf_accepts_entity aenv log user cls entity access \<and> saf_deletes_entity_acee aenv log user cls entity access"

lemmas password_granted_defs = password_granted_def saf_accepts_password_def saf_deletes_password_acee_def
lemmas entity_granted_defs = entity_granted_def saf_accepts_entity_def saf_deletes_entity_acee_def

text \<open>The class the configuration sets, when it can be used.\<close>

definition configured_class :: "AuthEnv \<Rightarrow> string option" where
  "configured_class aenv =
     (let (r, val) = ae_getConfigParm aenv (ae_CMS_PROD_ID aenv @ ''.AUTH.CLASS'')
      in if r = 0 \<and> length val \<le> ZIS_AUTH_SERVICE_CLASS_MAX_LENGTH then Some (cstr val) else None)"

lemma password_service:
  assumes "verify_stable aenv" and "ap_eyecatcher pl = ZIS_AUTH_SERVICE_PARMLIST_EYECATCHER"
    and "ap_fc pl = ZIS_AUTH_SERVICE_PARMLIST_FC_VERIFY_PASSWORD" and "ap_padding0 pl = 0"
    and "cstr_of (ap_userIDNullTerm pl) = Some user" and "cstr_of (ap_passwordNullTerm pl) = Some password"
  shows "\<exists>r pl' log'. zisAuthServiceFunction aenv (Some pl) log = Some (r, Some pl', log') \<and>
     (r = 0 \<longleftrightarrow> password_granted aenv log user password)"
proof -
  let ?c = "SafVerify [VERIFY_CREATE] (Some user) (Some password) None"
  have "handleVerifyPassword aenv pl log = deleteACEE aenv (ae_saf aenv log ?c) pl (?c # log)"
    using assms by (simp add: handleVerifyPassword_def stable_safCall)
  then show ?thesis
    using assms(1-4) by (auto simp: zisAuthServiceFunction_def password_granted_defs Let_def deleteACEE_def stable_safCall
      granted_def verify_stable_def)
qed

lemma checkClass_result:
  assumes "cstr_of (ap_classNullTerm pl) = Some given"
  shows "\<exists>r cls. checkClass aenv pl = Some (r, cls) \<and>
     (r = 0 \<longleftrightarrow> (\<exists>c. configured_class aenv = Some c \<and> given \<in> {[], c})) \<and> (r = 0 \<longrightarrow> configured_class aenv = Some cls)"
proof -
  have "cstr (v @ [nul]) = cstr v" for v by (simp add: cstr_def takeWhile_tail)
  with assms show ?thesis
    by (auto simp: checkClass_def getDefaultClassValue_def configured_class_def Let_def split: prod.splits if_splits)
qed

lemma entity_service:
  assumes "verify_stable aenv" and "ap_eyecatcher pl = ZIS_AUTH_SERVICE_PARMLIST_EYECATCHER"
    and "ap_fc pl = ZIS_AUTH_SERVICE_PARMLIST_FC_ENTITY_CHECK"
    and "cstr_of (ap_userIDNullTerm pl) = Some user" and "cstr_of (ap_classNullTerm pl) = Some given"
    and "cstr_of (ap_entityNullTerm pl) = Some entity"
  shows "\<exists>r pl' log'. zisAuthServiceFunction aenv (Some pl) log = Some (r, Some pl', log') \<and>
     (r = 0 \<longleftrightarrow> ae_recoveryPush aenv = 0 \<and> (\<exists>cls. configured_class aenv = Some cls \<and> given \<in> {[], cls} \<and>
        entity_granted aenv log user cls entity (ap_access pl)))"
proof -
  obtain k cls where k: "checkClass aenv pl = Some (k, cls)"
    "k = 0 \<longleftrightarrow> (\<exists>c. configured_class aenv = Some c \<and> given \<in> {[], c})" "k = 0 \<longrightarrow> configured_class aenv = Some cls"
    using checkClass_result [OF assms(5)] by blast
  have z: "zisAuthServiceFunction aenv (Some pl) log = map_option (\<lambda>(r, p, l). (r, Some p, l)) (handleEntityCheck aenv pl log)"
  proof -
    have "ap_fc pl \<noteq> ZIS_AUTH_SERVICE_PARMLIST_FC_VERIFY_PASSWORD" using assms(3) by (simp add: auth_fc_defs)
    with assms(2,3) have "zisAuthServiceFunction aenv (Some pl) log =
        handleEntityCheck aenv pl log \<bind> (\<lambda>(r, p, l). Some (r, Some p, l))"
      by (simp add: zisAuthServiceFunction_def)
    then show ?thesis by (cases "handleEntityCheck aenv pl log") auto
  qed
  show ?thesis
  proof (cases "k = 0")
    case False
    then have "handleEntityCheck aenv pl log = Some (k, pl, log)" by (simp add: handleEntityCheck_def k(1))
    then have e: "zisAuthServiceFunction aenv (Some pl) log = Some (k, Some pl, log)" by (simp add: z)
    have "\<not> (\<exists>c. configured_class aenv = Some c \<and> given \<in> {[], c})" using False k(2) by blast
    with False e show ?thesis by blast
  next
    case True
    let ?c = "SafVerify [VERIFY_CREATE, VERIFY_WITHOUT_PASSWORD] (Some user) None None"
    let ?a = "sr_acee (ae_saf aenv log ?c)"
    have c: "safCall aenv ?c log = Some (ae_saf aenv log ?c, ?c # log)" using assms(1) by (simp add: stable_safCall)
    obtain r reply st log2 where g: "guardedSaf aenv (SafAuth cls entity (ap_access pl) ?a) (ap_safStatus pl) (?c # log) = (r, reply, st, log2)"
      by (metis prod_cases4)
    have d: "safCall aenv (SafVerify [VERIFY_DELETE] None None ?a) log2 =
        Some (ae_saf aenv log2 (SafVerify [VERIFY_DELETE] None None ?a), SafVerify [VERIFY_DELETE] None None ?a # log2)"
      using assms(1) by (simp add: stable_safCall)
    have cls: "configured_class aenv = Some cls" "given \<in> {[], cls}" using True k by auto
    have stable: "sr_abend (ae_saf aenv l (SafVerify opts u p a)) = None" for l opts u p a
      using assms(1) by (simp add: verify_stable_def)
    show ?thesis
    proof (cases "sr_safRC (ae_saf aenv log ?c) = 0")
      case False
      then have "\<exists>pl' log'. handleEntityCheck aenv pl log = Some (RC_ZIS_AUTHSRV_CREATE_FAILED, pl', log')"
        using True assms(4) c by (simp add: handleEntityCheck_def k(1))
      with False z show ?thesis by (auto simp: entity_granted_defs granted_def Let_def)
    next
      case created: True
      let ?r = "if sr_safRC (ae_saf aenv log2 (SafVerify [VERIFY_DELETE] None None ?a)) \<noteq> 0 then RC_ZIS_AUTHSRV_DELETE_FAILED else r"
      have "\<exists>pl' log'. handleEntityCheck aenv pl log = Some (?r, pl', log')"
        using True created assms(4,6) c g d by (simp add: handleEntityCheck_def k(1))
      then have e: "\<exists>pl' log'. zisAuthServiceFunction aenv (Some pl) log = Some (?r, Some pl', log')" using z by auto
      have r: "r = 0 \<longleftrightarrow> ae_recoveryPush aenv = 0 \<and> granted aenv (?c # log) (SafAuth cls entity (ap_access pl) ?a)"
        "r = 0 \<Longrightarrow> log2 = SafAuth cls entity (ap_access pl) ?a # ?c # log"
        using g by (auto simp: guardedSaf_def granted_def Let_def split: if_splits option.splits)
      have "?r = 0 \<longleftrightarrow> ae_recoveryPush aenv = 0 \<and> entity_granted aenv log user cls entity (ap_access pl)"
      proof (cases "r = 0")
        case True
        with r created stable show ?thesis by (simp add: entity_granted_defs granted_def Let_def)
      next
        case False
        with r(1) show ?thesis by (auto simp: entity_granted_defs Let_def)
      qed
      moreover have "(\<exists>x. configured_class aenv = Some x \<and> given \<in> {[], x} \<and> entity_granted aenv log user x entity (ap_access pl))
          \<longleftrightarrow> entity_granted aenv log user cls entity (ap_access pl)" using cls by simp
      ultimately show ?thesis using e by blast
    qed
  qed
qed

lemma refuse_result:
  "refuse r st w = Some ((RC_ZIS_SRVC_SERVICE_FAILED, st\<lparr>za_baseStatus := (za_baseStatus st)\<lparr>zs_serviceRC := r\<rparr>\<rparr>), w)"
  by (simp add: refuse_def)

text \<open>
  C6. A password check from end to end: \<open>zisCheckUsernameAndPassword\<close> over the authentication service
  always returns, as long as SAF's verification never abends. It answers \<open>RC_ZIS_SRVC_OK\<close> exactly when
  user ID and password fit their fields, SAF accepts this user ID with this password by creating an
  ACEE, and SAF grants the deletion of this ACEE as well, which the service asks for before it answers;
  strings that are too long are refused and never reach SAF, and no ACEE is left behind.
\<close>

theorem password_check_end_to_end:
  assumes "verify_stable aenv" and "nul \<notin> set user" and "nul \<notin> set password"
  shows "\<exists>r st' log'. zisCheckUsernameAndPassword cenv (auth_server aenv) serverName user password st log = Some ((r, st'), log') \<and>
     (r = RC_ZIS_SRVC_OK \<longleftrightarrow> length user \<le> ZIS_AUTH_SERVICE_USER_ID_MAX_LENGTH \<and>
        length password \<le> ZIS_AUTH_SERVICE_PASSWORD_MAX_LENGTH \<and>
        saf_accepts_password aenv log user password \<and> saf_deletes_password_acee aenv log user password) \<and>
     (length user > ZIS_AUTH_SERVICE_USER_ID_MAX_LENGTH \<or> length password > ZIS_AUTH_SERVICE_PASSWORD_MAX_LENGTH \<longrightarrow>
        log' = log \<and> zs_serviceRC (za_baseStatus st') = RC_ZIS_AUTHSRV_INPUT_STRING_TOO_LONG) \<and>
     open_acees aenv log' = open_acees aenv log"
proof (cases "length user \<le> ZIS_AUTH_SERVICE_USER_ID_MAX_LENGTH \<and> length password \<le> ZIS_AUTH_SERVICE_PASSWORD_MAX_LENGTH")
  case False
  then show ?thesis by (auto simp: zisCheckUsernameAndPassword_def refuse_result)
next
  case True
  define pl where "pl = (newAuthParmList cenv ZIS_AUTH_SERVICE_PARMLIST_FC_VERIFY_PASSWORD)
                \<lparr>ap_userIDNullTerm := zero_pad (ZIS_AUTH_SERVICE_USER_ID_MAX_LENGTH + 1) user,
                 ap_passwordNullTerm := zero_pad (ZIS_AUTH_SERVICE_PASSWORD_MAX_LENGTH + 1) password\<rparr>"
  have "\<exists>r pl' log'. zisAuthServiceFunction aenv (Some pl) log = Some (r, Some pl', log') \<and>
      (r = 0 \<longleftrightarrow> password_granted aenv log user password)"
    using True assms by (intro password_service) (simp_all add: pl_def newAuthParmList_def cstr_of_zero_pad)
  then obtain r pl' log' where z: "zisAuthServiceFunction aenv (Some pl) log = Some (r, Some pl', log')"
    "r = 0 \<longleftrightarrow> password_granted aenv log user password" by blast
  obtain st' where q: "authRequest cenv (auth_server aenv) serverName pl st log =
      Some ((if r = 0 then 0 else RC_ZIS_SRVC_SERVICE_FAILED, pl', st'), log')"
    using auth_srv.request [OF z(1)] by blast
  have "zisCheckUsernameAndPassword cenv (auth_server aenv) serverName user password st log =
      Some ((if r = 0 then 0 else RC_ZIS_SRVC_SERVICE_FAILED, st'), log')"
    using True q by (simp add: zisCheckUsernameAndPassword_def pl_def forgetList_def)
  with True z(2) auth_srv.request_balanced [OF q] show ?thesis by (intro exI [of _ "if r = 0 then 0 else 4"] exI [of _ st'] exI [of _ log']) (simp add: password_granted_def)
qed

lemma demo_auth_stable: "verify_stable demo_auth"
  by (simp add: verify_stable_def demo_auth_def)

definition demo_client :: ClientEnv where
  "demo_client = \<lparr>cl_CMS_DEFAULT_SERVER_NAME = ''ZWESIS_STD'', cl_IDTA_IDT_BUFFER_LEN_MIN = 1024, cl_RC_CMS_SERVER_NOT_READY = 47, cl_LP64 = True\<rparr>"

definition demo_auth_status :: ZISAuthServiceStatus where
  "demo_auth_status = \<lparr>za_baseStatus = \<lparr>zs_serviceRC = 0, zs_serviceRSN = 0, zs_cmsRC = 0, zs_cmsRSN = 0\<rparr>, za_safStatus = zero_saf\<rparr>"

theorem password_check_end_to_end_witness:
  "\<exists>st' log'. zisCheckUsernameAndPassword demo_client (auth_server demo_auth) None ''ADA'' ''SECRET'' demo_auth_status [] = Some ((0, st'), log')"
proof -
  have "password_granted demo_auth [] ''ADA'' ''SECRET''"
    by (simp add: password_granted_defs granted_def demo_auth_def)
  with password_check_end_to_end [OF demo_auth_stable, of "''ADA''" "''SECRET''" demo_client None demo_auth_status "[]"]
  show ?thesis by (auto simp: auth_length_defs nul_def password_granted_def)
qed

text \<open>
  C26. An entity check from end to end: \<open>zisCheckEntity\<close> over the authentication service always returns,
  as long as SAF's verification never abends (the check itself may). It answers \<open>RC_ZIS_SRVC_OK\<close>
  exactly when the strings fit their fields and the entity is not empty, a class is configured and the
  client's class is empty or this one, recovery is available, SAF makes an ACEE for the user and
  grants the access to the entity with it, and SAF grants the deletion of this ACEE as well, which the
  service asks for before it answers. No ACEE is left behind.
\<close>

theorem entity_check_end_to_end:
  assumes "verify_stable aenv" and "nul \<notin> set user" and "nul \<notin> set cls" and "nul \<notin> set entity"
  shows "\<exists>r st' log'. zisCheckEntity cenv (auth_server aenv) serverName user cls entity access st log = Some ((r, st'), log') \<and>
     (r = RC_ZIS_SRVC_OK \<longleftrightarrow> length user \<le> ZIS_AUTH_SERVICE_USER_ID_MAX_LENGTH \<and>
        length cls \<le> ZIS_AUTH_SERVICE_CLASS_MAX_LENGTH \<and> entity \<noteq> [] \<and> length entity \<le> ZIS_AUTH_SERVICE_ENTITY_MAX_LENGTH \<and>
        ae_recoveryPush aenv = 0 \<and>
        (\<exists>c. configured_class aenv = Some c \<and> cls \<in> {[], c} \<and>
           saf_accepts_entity aenv log user c entity access \<and> saf_deletes_entity_acee aenv log user c entity access)) \<and>
     open_acees aenv log' = open_acees aenv log"
proof (cases "length user \<le> ZIS_AUTH_SERVICE_USER_ID_MAX_LENGTH \<and> length cls \<le> ZIS_AUTH_SERVICE_CLASS_MAX_LENGTH \<and>
    entity \<noteq> [] \<and> length entity \<le> ZIS_AUTH_SERVICE_ENTITY_MAX_LENGTH")
  case False
  then have "\<exists>e. zisCheckEntity cenv (auth_server aenv) serverName user cls entity access st log = refuse e st log"
    by (auto simp: zisCheckEntity_def)
  with False show ?thesis by (auto simp: refuse_result)
next
  case True
  define pl where "pl = (newAuthParmList cenv ZIS_AUTH_SERVICE_PARMLIST_FC_ENTITY_CHECK)
                \<lparr>ap_access := access,
                 ap_userIDNullTerm := zero_pad (ZIS_AUTH_SERVICE_USER_ID_MAX_LENGTH + 1) user,
                 ap_classNullTerm := zero_pad (ZIS_AUTH_SERVICE_CLASS_MAX_LENGTH + 1) cls,
                 ap_entityNullTerm := zero_pad (ZIS_AUTH_SERVICE_ENTITY_MAX_LENGTH + 1) entity\<rparr>"
  let ?ok = "ae_recoveryPush aenv = 0 \<and>
      (\<exists>c. configured_class aenv = Some c \<and> cls \<in> {[], c} \<and> entity_granted aenv log user c entity access)"
  have "access = ap_access pl" by (simp add: pl_def)
  have "cstr_of (ap_userIDNullTerm pl) = Some user" "cstr_of (ap_classNullTerm pl) = Some cls" "cstr_of (ap_entityNullTerm pl) = Some entity"
    using True assms(2-4) by (simp_all add: pl_def cstr_of_zero_pad)
  moreover have "ap_eyecatcher pl = ZIS_AUTH_SERVICE_PARMLIST_EYECATCHER" "ap_fc pl = ZIS_AUTH_SERVICE_PARMLIST_FC_ENTITY_CHECK"
    by (simp_all add: pl_def newAuthParmList_def)
  ultimately have "\<exists>r pl' log'. zisAuthServiceFunction aenv (Some pl) log = Some (r, Some pl', log') \<and> (r = 0 \<longleftrightarrow> ?ok)"
    using entity_service [OF assms(1)] \<open>access = ap_access pl\<close> by simp
  then obtain r pl' log' where z: "zisAuthServiceFunction aenv (Some pl) log = Some (r, Some pl', log')" "r = 0 \<longleftrightarrow> ?ok"
    by blast
  obtain st' where q: "authRequest cenv (auth_server aenv) serverName pl st log =
      Some ((if r = 0 then 0 else RC_ZIS_SRVC_SERVICE_FAILED, pl', st'), log')"
    using auth_srv.request [OF z(1)] by blast
  have e: "zisCheckEntity cenv (auth_server aenv) serverName user cls entity access st log =
      Some ((if r = 0 then 0 else RC_ZIS_SRVC_SERVICE_FAILED, st'), log')"
    using True q by (simp add: zisCheckEntity_def pl_def forgetList_def)
  have "((if r = 0 then 0 else RC_ZIS_SRVC_SERVICE_FAILED) = (0 :: int)) \<longleftrightarrow> ?ok" using z(2) by simp
  with e True auth_srv.request_balanced [OF q] show ?thesis unfolding entity_granted_def by blast
qed

theorem entity_check_end_to_end_witness:
  "\<exists>st' log'. zisCheckEntity demo_client (auth_server demo_auth) None ''ADA'' [] ''E.OPEN'' 2 demo_auth_status [] = Some ((0, st'), log')"
proof -
  have "configured_class demo_auth = Some ''FACILITY''"
    by (simp add: configured_class_def demo_auth_def auth_length_defs cstr_def nul_def)
  moreover have "entity_granted demo_auth [] ''ADA'' ''FACILITY'' ''E.OPEN'' 2" "ae_recoveryPush demo_auth = 0"
    by (simp_all add: entity_granted_defs granted_def demo_auth_def)
  ultimately show ?thesis
    using entity_check_end_to_end [OF demo_auth_stable, of "''ADA''" "[]" "''E.OPEN''" demo_client None 2 demo_auth_status "[]"]
    by (auto simp: auth_length_defs nul_def entity_granted_def)
qed

section \<open>The lists the client sends\<close>





















end
