(* ===== verification/ZIS_Snarfer.thy ===== *)
theory ZIS_Snarfer
  imports ZIS_Client
begin

text \<open>
  The storage copy service (src/c/zis/services/snarfer.c) and the network management service
  (src/c/zis/services/nwm.c).

  The storage of an address space is a function from 64-bit addresses to bytes. The snarfer schedules a
  routine in the source space that copies into a transfer buffer in common storage, from which the
  service copies to its caller. z/OS and the recovery facility are parameters: where they can abend, the
  abend code is an outcome. An abend that no recovery of the service retries percolates; only the
  cleanup routine runs. Debug messages are left out, and so is the DSECT.
\<close>

section \<open>Storage\<close>

type_synonym mem = "64 word \<Rightarrow> char"

text \<open>A copy of \<open>n\<close> bytes from one space to another; addresses wrap around at the end of the space.\<close>

definition copy_bytes :: "nat \<Rightarrow> 64 word \<Rightarrow> mem \<Rightarrow> 64 word \<Rightarrow> mem \<Rightarrow> mem" where
  "copy_bytes n dest source src target =
     (\<lambda>a. if unat (a - dest) < n then source (src + (a - dest)) else target a)"

record SnarferState =
  sf_ecsa :: "64 word \<Rightarrow> 32 word option"
  sf_common :: mem
  sf_client :: mem
  sf_recovery :: int

text \<open>
  What z/OS and zowe-common-c do: whether the recovery entry of a name can be made and whether an abend
  with a code is retried by an entry made for that; the ASSB behind an ASCB; common storage and the
  pointer that its release leaves behind; the scheduling of a routine, the storage of a space, and what
  a routine that failed has written; the abend of a store to the caller, and which of its bytes, by their
  offsets, were stored before that abend.
\<close>

record SnarferEnv =
  sv_recoveryPush :: "string \<Rightarrow> bool"
  sv_retry :: "int \<Rightarrow> bool"
  sv_getASSB :: "addr \<Rightarrow> int + string"
  sv_allocECSA :: "(64 word \<Rightarrow> 32 word option) \<Rightarrow> 32 word \<Rightarrow> 64 word option"
  sv_freeECSA :: "64 word \<Rightarrow> 64 word option"
  sv_ieamschd :: "string \<Rightarrow> int + rc"
  sv_space :: "string \<Rightarrow> mem"
  sv_srbFailed :: "string \<Rightarrow> mem \<Rightarrow> mem"
  sv_storeAbend :: "64 word \<Rightarrow> 32 word \<Rightarrow> int option"
  sv_storedBefore :: "64 word \<Rightarrow> 32 word \<Rightarrow> nat \<Rightarrow> bool"
  sv_CMS_MAX_ECSA_BLOCK_SIZE :: "32 word"

text \<open>A call returns a value, or an abend goes on to the recovery of the core server.\<close>

datatype 'a pc_result = Returned 'a | Percolated int

section \<open>The routine in the source space\<close>

record TransferBuffer =
  tb_eyecatcher :: string
  tb_copySize :: "32 word"
  tb_sourceKey :: "32 word"
  tb_sourceAddress :: "64 word"
  tb_destinationAddress :: "64 word"

definition TRANSFER_BUFFER_EYECATCHER :: string where "TRANSFER_BUFFER_EYECATCHER = ''RSTRNBUF''"
definition sizeof_TransferBuffer :: "32 word" where "sizeof_TransferBuffer = 8 + 4 + 4 + 8 + 8"

text \<open>
  \<open>getSRBSnarfer\<close>, the routine's loop: moves of up to 256 bytes. The size register holds the bytes left,
  the addresses are bumped by 256 in every round.
\<close>

function snarf_loop :: "mem \<Rightarrow> 64 word \<Rightarrow> 64 word \<Rightarrow> nat \<Rightarrow> mem \<Rightarrow> mem" where
  "snarf_loop space dest src left common =
     (if \<not> left > 0 then common
      else let n = (if left > 256 then 256 else left)
           in snarf_loop space (dest + 256) (src + 256) (left - n) (copy_bytes n dest space src common))"
  by pat_completeness auto
termination by (relation "measure (\<lambda>(_, _, _, left, _). left)") auto

declare snarf_loop.simps [simp del]

definition getSRBSnarfer :: "mem \<Rightarrow> TransferBuffer \<Rightarrow> mem \<Rightarrow> mem" where
  "getSRBSnarfer space tb common =
     (if tb_eyecatcher tb \<noteq> TRANSFER_BUFFER_EYECATCHER then common
      else snarf_loop space (tb_destinationAddress tb) (tb_sourceAddress tb) (unat (tb_copySize tb AND 0x7FFFFFFF)) common)"

section \<open>The service\<close>

abbreviation (input) RC_ZIS_SNRFSRV_OK :: rc where "RC_ZIS_SNRFSRV_OK \<equiv> 0"
abbreviation (input) RC_ZIS_SNRFSRV_PARMLIST_NULL :: rc where "RC_ZIS_SNRFSRV_PARMLIST_NULL \<equiv> 8"
abbreviation (input) RC_ZIS_SNRFSRV_BAD_EYECATCHER :: rc where "RC_ZIS_SNRFSRV_BAD_EYECATCHER \<equiv> 9"
abbreviation (input) RC_ZIS_SNRFSRV_BAD_DEST :: rc where "RC_ZIS_SNRFSRV_BAD_DEST \<equiv> 10"
abbreviation (input) RC_ZIS_SNRFSRV_BAD_ASCB :: rc where "RC_ZIS_SNRFSRV_BAD_ASCB \<equiv> 11"
abbreviation (input) RC_ZIS_SNRFSRV_BAD_SIZE :: rc where "RC_ZIS_SNRFSRV_BAD_SIZE \<equiv> 12"
abbreviation (input) RC_ZIS_SNRFSRV_ECSA_ALLOC_FAILED :: rc where "RC_ZIS_SNRFSRV_ECSA_ALLOC_FAILED \<equiv> 13"
abbreviation (input) RC_ZIS_SNRFSRV_RECOVERY_ERROR :: rc where "RC_ZIS_SNRFSRV_RECOVERY_ERROR \<equiv> 14"
abbreviation (input) RC_ZIS_SNRFSRV_SRC_ASSB_ABEND :: rc where "RC_ZIS_SNRFSRV_SRC_ASSB_ABEND \<equiv> 15"
abbreviation (input) RC_ZIS_SNRFSRV_SRC_IEAMSCHD_ABEND :: rc where "RC_ZIS_SNRFSRV_SRC_IEAMSCHD_ABEND \<equiv> 16"
abbreviation (input) RC_ZIS_SNRFSRV_SRC_IEAMSCHD_FAILED :: rc where "RC_ZIS_SNRFSRV_SRC_IEAMSCHD_FAILED \<equiv> 17"

text \<open>
  The transfer buffer: its address in common storage and its fields; the data follow the fields.
\<close>

definition allocateTransferBuffer ::
    "SnarferEnv \<Rightarrow> 32 word \<Rightarrow> SnarferState \<Rightarrow> rc \<times> (64 word \<times> TransferBuffer) option \<times> SnarferState" where
  "allocateTransferBuffer env copySize st =
     (let commonStorageSize = sizeof_TransferBuffer + copySize
      in case sv_allocECSA env (sf_ecsa st) commonStorageSize of
           None \<Rightarrow> (RC_ZIS_SNRFSRV_ECSA_ALLOC_FAILED, None, st)
         | Some a \<Rightarrow>
             (RC_ZIS_SNRFSRV_OK,
              Some (a, \<lparr>tb_eyecatcher = TRANSFER_BUFFER_EYECATCHER, tb_copySize = copySize, tb_sourceKey = 0,
                        tb_sourceAddress = 0, tb_destinationAddress = a + ucast sizeof_TransferBuffer\<rparr>),
              st\<lparr>sf_ecsa := (sf_ecsa st)(a \<mapsto> commonStorageSize)\<rparr>))"

text \<open>
  Storage is released by address and length; the length is computed from the buffer again. The context
  keeps the pointer that the release leaves.
\<close>

definition freeTransferBuffer ::
    "SnarferEnv \<Rightarrow> 64 word \<times> TransferBuffer \<Rightarrow> SnarferState \<Rightarrow> rc \<times> (64 word \<times> TransferBuffer) option \<times> SnarferState" where
  "freeTransferBuffer env buffer st =
     (let (a, t) = buffer; commonStorageSize = sizeof_TransferBuffer + tb_copySize t
      in (RC_ZIS_SNRFSRV_OK, map_option (\<lambda>p. (p, t)) (sv_freeECSA env a),
          if sf_ecsa st a = Some commonStorageSize then st\<lparr>sf_ecsa := (sf_ecsa st)(a := None)\<rparr> else st))"

text \<open>\<open>cleanupSnarfer\<close>, run at an abend: the buffer is freed only when the caller was cancelled.\<close>

definition cleanupSnarfer ::
    "SnarferEnv \<Rightarrow> int \<Rightarrow> (64 word \<times> TransferBuffer) option \<Rightarrow> SnarferState \<Rightarrow> (64 word \<times> TransferBuffer) option \<times> SnarferState" where
  "cleanupSnarfer env cc tb st =
     (if cc \<noteq> 0x222 \<and> cc \<noteq> 0x522 then (tb, st)
      else case tb of None \<Rightarrow> (tb, st) | Some b \<Rightarrow> snd (freeTransferBuffer env b st))"

definition recoveryPush :: "SnarferEnv \<Rightarrow> string \<Rightarrow> SnarferState \<Rightarrow> bool \<times> SnarferState" where
  "recoveryPush env name st =
     (if sv_recoveryPush env name then (True, st\<lparr>sf_recovery := sf_recovery st + 1\<rparr>) else (False, st))"

definition recoveryPop :: "SnarferState \<Rightarrow> SnarferState" where
  "recoveryPop st = st\<lparr>sf_recovery := sf_recovery st - 1\<rparr>"

text \<open>An abend that reaches the first entry of the service, which always percolates.\<close>

definition percolate :: "SnarferEnv \<Rightarrow> int \<Rightarrow> (64 word \<times> TransferBuffer) option \<Rightarrow> SnarferState \<Rightarrow> 'a pc_result \<times> SnarferState" where
  "percolate env cc tb st = (Percolated cc, recoveryPop (snd (cleanupSnarfer env cc tb st)))"

text \<open>An abend under a second entry: it is retried there, with a status, or goes on to the first one.\<close>

definition abendInner ::
    "SnarferEnv \<Rightarrow> int \<Rightarrow> (64 word \<times> TransferBuffer) option \<Rightarrow> ((64 word \<times> TransferBuffer) option \<Rightarrow> 'a) \<Rightarrow> SnarferState
     \<Rightarrow> 'a pc_result \<times> SnarferState" where
  "abendInner env cc tb f st =
     (let (tb1, st1) = cleanupSnarfer env cc tb st; st2 = recoveryPop st1
      in if sv_retry env cc then (Returned (f tb1), st2) else percolate env cc tb1 st2)"

text \<open>The first guarded step: the ASSB of the source space, of which the service uses the STOKEN.\<close>

definition getSourceASSB :: "SnarferEnv \<Rightarrow> addr \<Rightarrow> SnarferState \<Rightarrow> (rc \<times> string) pc_result \<times> SnarferState" where
  "getSourceASSB env srcASCB st =
     (let (pushed, st1) = recoveryPush env ''snarferServiceFunction->getASSB'' st
      in if \<not> pushed then (Returned (RC_ZIS_SNRFSRV_RECOVERY_ERROR, []), recoveryPop st1)
         else case sv_getASSB env srcASCB of
                Inl cc \<Rightarrow> abendInner env cc None (\<lambda>_. (RC_ZIS_SNRFSRV_SRC_ASSB_ABEND, [])) st1
              | Inr stoken \<Rightarrow> (Returned (RC_ZIS_SNRFSRV_OK, stoken), recoveryPop st1))"

text \<open>
  \<open>scheduleSynchSRB\<close> waits for the routine: a zero return code means that it has run in the space of the
  STOKEN. A nonzero one may have left anything in common storage.
\<close>

definition scheduleSynchSRB :: "SnarferEnv \<Rightarrow> TransferBuffer \<Rightarrow> string \<Rightarrow> mem \<Rightarrow> int + rc \<times> mem" where
  "scheduleSynchSRB env parm token common =
     (case sv_ieamschd env token of
        Inl cc \<Rightarrow> Inl cc
      | Inr returnCode \<Rightarrow>
          Inr (returnCode, if returnCode = 0 then getSRBSnarfer (sv_space env token) parm common
                           else sv_srbFailed env token common))"

text \<open>The second guarded step.\<close>

definition runSRB ::
    "SnarferEnv \<Rightarrow> string \<Rightarrow> 64 word \<times> TransferBuffer \<Rightarrow> SnarferState
     \<Rightarrow> (rc \<times> (64 word \<times> TransferBuffer) option) pc_result \<times> SnarferState" where
  "runSRB env stoken tb st =
     (let (pushed, st1) = recoveryPush env ''snarferServiceFunction->SRB'' st
      in if \<not> pushed then (Returned (RC_ZIS_SNRFSRV_RECOVERY_ERROR, Some tb), recoveryPop st1)
         else case scheduleSynchSRB env (snd tb) stoken (sf_common st1) of
                Inl cc \<Rightarrow> abendInner env cc (Some tb) (\<lambda>tb'. (RC_ZIS_SNRFSRV_SRC_IEAMSCHD_ABEND, tb')) st1
              | Inr (ieamschdRC, common) \<Rightarrow>
                  (Returned (if ieamschdRC \<noteq> 0 then RC_ZIS_SNRFSRV_SRC_IEAMSCHD_FAILED else RC_ZIS_SNRFSRV_OK, Some tb),
                   recoveryPop (st1\<lparr>sf_common := common\<rparr>)))"

text \<open>The end of the service: the buffer is released when there is one.\<close>

definition finishSnarfer ::
    "SnarferEnv \<Rightarrow> rc \<Rightarrow> (64 word \<times> TransferBuffer) option \<Rightarrow> SnarferState \<Rightarrow> rc pc_result \<times> SnarferState" where
  "finishSnarfer env status tb st =
     (case tb of
        None \<Rightarrow> (Returned status, recoveryPop st)
      | Some b \<Rightarrow>
          (let (freeTransferBufRC, tb', st') = freeTransferBuffer env b st;
               status' = (if freeTransferBufRC \<noteq> RC_ZIS_SNRFSRV_OK
                          then if status \<noteq> RC_ZIS_SNRFSRV_OK then status else freeTransferBufRC
                          else status)
           in (Returned status', recoveryPop st')))"

text \<open>
  The copy to the caller before it, which may abend under the first entry, half way: then some of the
  bytes are in the caller's storage already.
\<close>

definition store_until_abend :: "(nat \<Rightarrow> bool) \<Rightarrow> nat \<Rightarrow> 64 word \<Rightarrow> mem \<Rightarrow> 64 word \<Rightarrow> mem \<Rightarrow> mem" where
  "store_until_abend stored n dest source src target =
     (\<lambda>a. if stored (unat (a - dest)) then copy_bytes n dest source src target a else target a)"

definition copyToCaller ::
    "SnarferEnv \<Rightarrow> SnarferServiceParmList \<Rightarrow> 64 word \<times> TransferBuffer \<Rightarrow> SnarferState \<Rightarrow> rc pc_result \<times> SnarferState" where
  "copyToCaller env parm b st =
     (case sv_storeAbend env (sn_destinationAddress parm) (sn_size parm) of
        Some cc \<Rightarrow>
          percolate env cc (Some b)
            (st\<lparr>sf_client := store_until_abend (sv_storedBefore env (sn_destinationAddress parm) (sn_size parm)) (unat (sn_size parm))
                              (sn_destinationAddress parm) (sf_common st) (tb_destinationAddress (snd b)) (sf_client st)\<rparr>)
      | None \<Rightarrow>
          finishSnarfer env RC_ZIS_SNRFSRV_OK (Some b)
            (st\<lparr>sf_client := copy_bytes (unat (sn_size parm)) (sn_destinationAddress parm) (sf_common st)
                              (tb_destinationAddress (snd b)) (sf_client st)\<rparr>))"

text \<open>
  The steps behind the checks. After an allocation that failed and after a guarded step with a status
  the remaining steps are skipped; a buffer that the cleanup has released before a retry is not there
  any more.
\<close>

definition snarf :: "SnarferEnv \<Rightarrow> SnarferServiceParmList \<Rightarrow> addr \<Rightarrow> SnarferState \<Rightarrow> rc pc_result \<times> SnarferState" where
  "snarf env parm srcASCB st =
     (case getSourceASSB env srcASCB st of
        (Percolated cc, st1) \<Rightarrow> (Percolated cc, st1)
      | (Returned (status1, stoken), st1) \<Rightarrow>
          (if status1 \<noteq> RC_ZIS_SNRFSRV_OK then finishSnarfer env status1 None st1
           else case allocateTransferBuffer env (sn_size parm) st1 of
             (status2, None, st2) \<Rightarrow> finishSnarfer env status2 None st2
           | (_, Some (a, t), st2) \<Rightarrow>
               (let t' = t\<lparr>tb_sourceAddress := sn_sourceAddress parm, tb_sourceKey := sn_sourceKey parm\<rparr>
                in case runSRB env stoken (a, t') st2 of
                     (Percolated cc, st3) \<Rightarrow> (Percolated cc, st3)
                   | (Returned (status3, tb), st3) \<Rightarrow>
                       (if status3 \<noteq> RC_ZIS_SNRFSRV_OK then finishSnarfer env status3 tb st3
                        else copyToCaller env parm (a, t') st3))))"

text \<open>The parameter list: \<open>None\<close> for a NULL pointer, \<open>Inl\<close> with the abend when it cannot be fetched.\<close>

definition zisSnarferServiceFunction ::
    "SnarferEnv \<Rightarrow> (int + SnarferServiceParmList) option \<Rightarrow> SnarferState \<Rightarrow> rc pc_result \<times> SnarferState" where
  "zisSnarferServiceFunction env parm st =
     (case parm of
        None \<Rightarrow> (Returned RC_ZIS_SNRFSRV_PARMLIST_NULL, st)
      | Some (Inl cc) \<Rightarrow> (Percolated cc, st)
      | Some (Inr localParmList) \<Rightarrow>
          (if sn_eyecatcher localParmList \<noteq> ZIS_SNARFER_SERVICE_PARMLIST_EYECATCHER
           then (Returned RC_ZIS_SNRFSRV_BAD_EYECATCHER, st)
           else if sn_destinationAddress localParmList < 0x6000 then (Returned RC_ZIS_SNRFSRV_BAD_DEST, st)
           else case sn_sourceASCB localParmList of
             None \<Rightarrow> (Returned RC_ZIS_SNRFSRV_BAD_ASCB, st)
           | Some srcASCB \<Rightarrow>
               (if sn_size localParmList > sv_CMS_MAX_ECSA_BLOCK_SIZE env then (Returned RC_ZIS_SNRFSRV_BAD_SIZE, st)
                else let (pushed, st1) = recoveryPush env ''snarferServiceFunction'' st
                     in if \<not> pushed then (Returned RC_ZIS_SNRFSRV_RECOVERY_ERROR, st1)
                        else snarf env localParmList srcASCB st1)))"

section \<open>The copy\<close>

lemma copy_bytes_chunk:
  assumes "256 \<le> n"
  shows "copy_bytes (n - 256) (dest + 256) source (src + 256) (copy_bytes 256 dest source src target) = copy_bytes n dest source src target"
proof
  fix a :: "64 word"
  have step: "src + 256 + (a - (dest + 256)) = src + (a - dest)" by simp
  show "copy_bytes (n - 256) (dest + 256) source (src + 256) (copy_bytes 256 dest source src target) a = copy_bytes n dest source src target a"
  proof (cases "unat (a - dest) < 256")
    case True
    then show ?thesis using assms step by (simp add: copy_bytes_def)
  next
    case False
    have two: "unat (256 :: 64 word) = 256" by code_simp
    have "a - (dest + 256) = a - dest - 256" by simp
    moreover have "unat (a - dest - 256) = unat (a - dest) - 256"
      using unat_sub [of 256 "a - dest"] False by (simp only: word_le_nat_alt two not_less simp_thms)
    ultimately have "unat (a - (dest + 256)) = unat (a - dest) - 256" by presburger
    then show ?thesis using False step by (auto simp: copy_bytes_def)
  qed
qed

text \<open>The loop over chunks is one copy.\<close>

lemma snarf_loop_copies: "snarf_loop space dest src left common = copy_bytes left dest space src common"
proof (induction left arbitrary: dest src common rule: less_induct)
  case (less left)
  consider "left = 0" | "0 < left" "left \<le> 256" | "256 < left" by linarith
  then show ?case
  proof cases
    case 1 then show ?thesis by (simp add: snarf_loop.simps copy_bytes_def fun_eq_iff)
  next
    case 2 then show ?thesis by (simp add: snarf_loop.simps [of _ _ _ left] snarf_loop.simps [of _ _ _ 0])
  next
    case 3
    then show ?thesis using copy_bytes_chunk [of left] by (simp add: snarf_loop.simps [of _ _ _ left] less.IH)
  qed
qed

lemma copy_bytes_twice:
  "copy_bytes n dest (copy_bytes n mid source src common) mid target = copy_bytes n dest source src target"
  by (auto simp: copy_bytes_def fun_eq_iff)

lemma size_register: "unat (n AND 0x7FFFFFFF) = unat n" if "n < 0x80000000" for n :: "32 word"
proof -
  have "n AND 0x7FFFFFFF = take_bit 31 n" by (simp add: take_bit_eq_mask mask_eq_exp_minus_1)
  moreover have "unat n < 2 ^ 31" using that by (simp add: word_less_nat_alt)
  ultimately show ?thesis by (simp add: unsigned_take_bit_eq take_bit_nat_eq_self)
qed

section \<open>What a call of the snarfer does\<close>

text \<open>
  What is relied on: an entry can be made for every name; storage is allocated where there is none, and
  the pointer is NULL behind its release; the largest block is below two gigabytes.
\<close>

definition system_laws :: "SnarferEnv \<Rightarrow> bool" where
  "system_laws env \<longleftrightarrow>
     (\<forall>name. sv_recoveryPush env name) \<and> (\<forall>ecsa n a. sv_allocECSA env ecsa n = Some a \<longrightarrow> ecsa a = None) \<and>
     (\<forall>a. sv_freeECSA env a = None) \<and> sv_CMS_MAX_ECSA_BLOCK_SIZE env < 0x80000000"

lemma push_ok: "recoveryPush env name st = (True, st\<lparr>sf_recovery := sf_recovery st + 1\<rparr>)" if "system_laws env"
  using that by (simp add: system_laws_def recoveryPush_def)

lemma alloc_fresh: "ecsa a = None" if "system_laws env" "sv_allocECSA env ecsa n = Some a"
  using that by (auto simp: system_laws_def)

lemma free_clears: "sv_freeECSA env a = None" if "system_laws env"
  using that by (simp add: system_laws_def)

lemma finish_keeps_client: "finishSnarfer env r tb st = (x, st') \<Longrightarrow> sf_client st' = sf_client st \<and> x = Returned r"
  by (auto simp: finishSnarfer_def freeTransferBuffer_def recoveryPop_def Let_def split: option.splits prod.splits if_splits)

lemma finish_state:
  "snd (finishSnarfer env r (Some (a, t)) st) =
     recoveryPop (if sf_ecsa st a = Some (sizeof_TransferBuffer + tb_copySize t) then st\<lparr>sf_ecsa := (sf_ecsa st)(a := None)\<rparr> else st)"
  by (simp add: finishSnarfer_def freeTransferBuffer_def Let_def)

lemma SRB_copies:
  assumes "tb_eyecatcher t = TRANSFER_BUFFER_EYECATCHER" "tb_copySize t < 0x80000000"
  shows "getSRBSnarfer space t common =
     copy_bytes (unat (tb_copySize t)) (tb_destinationAddress t) space (tb_sourceAddress t) common"
  using assms by (simp add: getSRBSnarfer_def snarf_loop_copies size_register)

lemmas snarf_defs = getSourceASSB_def abendInner_def percolate_def cleanupSnarfer_def freeTransferBuffer_def
  allocateTransferBuffer_def runSRB_def scheduleSynchSRB_def copyToCaller_def finishSnarfer_def recoveryPop_def Let_def

text \<open>One invariant for both ways out of the steps behind the checks.\<close>

definition copied :: "SnarferEnv \<Rightarrow> SnarferServiceParmList \<Rightarrow> mem \<Rightarrow> mem \<Rightarrow> bool" where
  "copied env p client client' \<longleftrightarrow>
     (\<exists>srcASCB stoken. sn_sourceASCB p = Some srcASCB \<and> sv_getASSB env srcASCB = Inr stoken \<and> sv_ieamschd env stoken = Inr 0 \<and>
        client' = copy_bytes (unat (sn_size p)) (sn_destinationAddress p) (sv_space env stoken) (sn_sourceAddress p) client)"

text \<open>
  A store to the caller that abends: every byte is as it was, or as the whole copy would have left it. So
  nothing outside the destination has changed.
\<close>

definition partly_copied :: "SnarferEnv \<Rightarrow> SnarferServiceParmList \<Rightarrow> mem \<Rightarrow> mem \<Rightarrow> bool" where
  "partly_copied env p client client' \<longleftrightarrow>
     sv_storeAbend env (sn_destinationAddress p) (sn_size p) \<noteq> None \<and>
     (\<exists>whole. copied env p client whole \<and> (\<forall>a. client' a = client a \<or> client' a = whole a))"

lemma partly_copied_outside:
  "partly_copied env p client client' \<Longrightarrow> \<not> unat (a - sn_destinationAddress p) < unat (sn_size p) \<Longrightarrow> client' a = client a"
  by (auto simp: partly_copied_def copied_def copy_bytes_def)

lemma store_until_abend_twice:
  "store_until_abend stored n dest (copy_bytes n mid source src common) mid target = store_until_abend stored n dest source src target"
  by (auto simp: store_until_abend_def copy_bytes_def fun_eq_iff)

lemma partly_copiedI:
  assumes "sn_sourceASCB p = Some ascb" "sv_getASSB env ascb = Inr stoken" "sv_ieamschd env stoken = Inr 0"
    and "sv_storeAbend env (sn_destinationAddress p) (sn_size p) = Some cc"
  shows "partly_copied env p client (store_until_abend stored (unat (sn_size p)) (sn_destinationAddress p)
     (sv_space env stoken) (sn_sourceAddress p) client)"
  unfolding partly_copied_def
proof (intro conjI exI)
  show "copied env p client (copy_bytes (unat (sn_size p)) (sn_destinationAddress p) (sv_space env stoken) (sn_sourceAddress p) client)"
    using assms by (auto simp: copied_def)
qed (use assms in \<open>auto simp: store_until_abend_def\<close>)

definition leaked :: "SnarferServiceParmList \<Rightarrow> (64 word \<Rightarrow> 32 word option) \<Rightarrow> (64 word \<Rightarrow> 32 word option) \<Rightarrow> bool" where
  "leaked p ecsa ecsa' \<longleftrightarrow> (\<exists>a. ecsa a = None \<and> ecsa' = ecsa(a \<mapsto> sizeof_TransferBuffer + sn_size p))"

lemma leakedI: "ecsa a = None \<Longrightarrow> leaked p ecsa (ecsa(a \<mapsto> sizeof_TransferBuffer + sn_size p))"
  by (auto simp: leaked_def)

lemma snarf_returned:
  assumes env: "system_laws env" and n: "sn_size p \<le> sv_CMS_MAX_ECSA_BLOCK_SIZE env" and asc: "sn_sourceASCB p = Some ascb"
    and run: "snarf env p ascb st = (Returned r, st')"
  shows "sf_ecsa st' = sf_ecsa st \<and> sf_recovery st' = sf_recovery st - 1 \<and>
     (if r = 0 then copied env p (sf_client st) (sf_client st') else sf_client st' = sf_client st)"
proof -
  have small: "sn_size p < 0x80000000" using env n by (auto simp: system_laws_def)
  have fresh: "sf_ecsa st a = None" if "sv_allocECSA env (sf_ecsa st) (sizeof_TransferBuffer + sn_size p) = Some a" for a
    using env that by (rule alloc_fresh)
  show ?thesis
    using run asc
    by (auto simp: snarf_def snarf_defs push_ok [OF env] free_clears [OF env] copied_def fun_upd_idem_iff
        SRB_copies small copy_bytes_twice fresh
        split: sum.splits option.splits if_splits prod.splits)
qed

text \<open>
  The steps whose abend percolates: the client's storage is as before, unless the abend is the one of the
  store to it; the buffer is gone at a cancel.
\<close>

lemma snarf_percolated:
  assumes env: "system_laws env" and n: "sn_size p \<le> sv_CMS_MAX_ECSA_BLOCK_SIZE env" and asc: "sn_sourceASCB p = Some ascb"
    and run: "snarf env p ascb st = (Percolated cc, st')"
  shows "sf_recovery st' = sf_recovery st - 1 \<and>
     (sf_client st' = sf_client st \<or> partly_copied env p (sf_client st) (sf_client st')) \<and>
     (sf_ecsa st' = sf_ecsa st \<or> cc \<noteq> 0x222 \<and> cc \<noteq> 0x522 \<and> leaked p (sf_ecsa st) (sf_ecsa st'))"
proof -
  have small: "sn_size p < 0x80000000" using env n by (auto simp: system_laws_def)
  have fresh: "sf_ecsa st a = None" if "sv_allocECSA env (sf_ecsa st) (sizeof_TransferBuffer + sn_size p) = Some a" for a
    using env that by (rule alloc_fresh)
  show ?thesis
    using run asc
    by (auto simp: snarf_def snarf_defs push_ok [OF env] free_clears [OF env] leakedI fun_upd_idem_iff fresh
        SRB_copies small store_until_abend_twice intro!: partly_copiedI
        split: sum.splits option.splits if_splits prod.splits)
qed

text \<open>The checks in front of them.\<close>

definition snarfable :: "SnarferEnv \<Rightarrow> SnarferServiceParmList \<Rightarrow> bool" where
  "snarfable env p \<longleftrightarrow>
     sn_eyecatcher p = ZIS_SNARFER_SERVICE_PARMLIST_EYECATCHER \<and> 0x6000 \<le> sn_destinationAddress p \<and>
     sn_sourceASCB p \<noteq> None \<and> sn_size p \<le> sv_CMS_MAX_ECSA_BLOCK_SIZE env"

lemma snarfer_checked:
  assumes "system_laws env" "snarfable env p"
  shows "zisSnarferServiceFunction env (Some (Inr p)) st =
     snarf env p (the (sn_sourceASCB p)) (st\<lparr>sf_recovery := sf_recovery st + 1\<rparr>)"
  using assms by (auto simp: zisSnarferServiceFunction_def snarfable_def push_ok Let_def)

lemma snarfer_refused:
  assumes "\<not> snarfable env p"
  shows "\<exists>r. r \<noteq> 0 \<and> zisSnarferServiceFunction env (Some (Inr p)) st = (Returned r, st)"
  using assms by (auto simp: zisSnarferServiceFunction_def snarfable_def not_le split: option.splits)

lemma snarfer_cases:
  assumes "system_laws env" and "zisSnarferServiceFunction env parm st = (out, st')"
  obtains "st' = st" "out \<noteq> Returned 0"
    | p ascb where "parm = Some (Inr p)" "sn_sourceASCB p = Some ascb" "sn_size p \<le> sv_CMS_MAX_ECSA_BLOCK_SIZE env"
        "snarf env p ascb (st\<lparr>sf_recovery := sf_recovery st + 1\<rparr>) = (out, st')"
proof -
  consider "parm = None" | (abend) cc where "parm = Some (Inl cc)" | (bad) p where "parm = Some (Inr p)" "\<not> snarfable env p"
    | (good) p where "parm = Some (Inr p)" "snarfable env p"
    by (cases parm) (auto, metis sum.exhaust)
  then show thesis
  proof cases
    case bad then show ?thesis using snarfer_refused [OF bad(2), of st] assms(2) that(1) by auto
  next
    case good
    then obtain ascb where p: "sn_sourceASCB p = Some ascb" "sn_size p \<le> sv_CMS_MAX_ECSA_BLOCK_SIZE env"
      by (auto simp: snarfable_def)
    then show ?thesis using that(2) [OF good(1) p] assms good snarfer_checked [OF assms(1) good(2), of st] by simp
  qed (use assms(2) that(1) in \<open>auto simp: zisSnarferServiceFunction_def\<close>)
qed

lemma snarfer_returned:
  assumes "system_laws env" and "zisSnarferServiceFunction env parm st = (Returned r, st')"
  shows "sf_recovery st' = sf_recovery st" and "sf_ecsa st' = sf_ecsa st"
    and "if r = 0 then \<exists>p. parm = Some (Inr p) \<and> copied env p (sf_client st) (sf_client st') else sf_client st' = sf_client st"
proof -
  have "sf_recovery st' = sf_recovery st \<and> sf_ecsa st' = sf_ecsa st \<and>
     (if r = 0 then \<exists>p. parm = Some (Inr p) \<and> copied env p (sf_client st) (sf_client st') else sf_client st' = sf_client st)"
    using assms
  proof (cases rule: snarfer_cases)
    case (2 p ascb)
    then show ?thesis using snarf_returned [OF assms(1) 2(3) 2(2) 2(4)] by auto
  qed auto
  then show "sf_recovery st' = sf_recovery st" and "sf_ecsa st' = sf_ecsa st"
    and "if r = 0 then \<exists>p. parm = Some (Inr p) \<and> copied env p (sf_client st) (sf_client st') else sf_client st' = sf_client st"
    by blast+
qed

lemma snarfer_percolated:
  assumes "system_laws env" and "zisSnarferServiceFunction env parm st = (Percolated cc, st')"
  shows "sf_recovery st' = sf_recovery st \<and>
     (sf_client st' = sf_client st \<or> (\<exists>p. parm = Some (Inr p) \<and> partly_copied env p (sf_client st) (sf_client st'))) \<and>
     (cc = 0x222 \<or> cc = 0x522 \<longrightarrow> sf_ecsa st' = sf_ecsa st)"
  using assms
proof (cases rule: snarfer_cases)
  case (2 p ascb)
  then show ?thesis using snarf_percolated [OF assms(1) 2(3) 2(2) 2(4)] by auto
qed auto

text \<open>
  C8. The snarfer copies exactly, and cleans up. It is assumed that z/OS and the recovery facility keep
  \<open>system_laws\<close>: every recovery entry of the service can be made, common storage is allocated where none is
  in use, its release leaves a NULL pointer, and the largest block is below two gigabytes. Then a call that
  returns has released the transfer buffer and its recovery entries; when it returns \<open>RC_ZIS_SNRFSRV_OK\<close>
  the caller's storage has changed in the bytes asked for and in no other, and these are the bytes of the
  source space; with any other code the caller's storage is as it was. When an abend percolates, the
  entries are gone too and at a cancel the buffer is released; the caller's storage is as it was, unless
  the abend is the one of the store to it, which may stop half way: then every byte is as it was or as
  the whole copy would have left it, so that nothing outside the destination has changed.
\<close>

theorem snarfer_exact_copy:
  assumes "system_laws env" and "zisSnarferServiceFunction env parm st = (out, st')"
  shows "sf_recovery st' = sf_recovery st \<and>
     (case out of
        Returned r \<Rightarrow>
          sf_ecsa st' = sf_ecsa st \<and>
          (if r = 0 then \<exists>p. parm = Some (Inr p) \<and> copied env p (sf_client st) (sf_client st') else sf_client st' = sf_client st)
      | Percolated cc \<Rightarrow>
          (sf_client st' = sf_client st \<or> (\<exists>p. parm = Some (Inr p) \<and> partly_copied env p (sf_client st) (sf_client st'))) \<and>
          (cc = 0x222 \<or> cc = 0x522 \<longrightarrow> sf_ecsa st' = sf_ecsa st))"
proof (cases out)
  case (Returned r)
  then show ?thesis using snarfer_returned [OF assms(1), of parm st r st'] assms(2) by simp
next
  case (Percolated cc)
  then show ?thesis using snarfer_percolated [OF assms(1), of parm st cc st'] assms(2) by simp
qed

text \<open>A system whose spaces hold one character each, and whose common storage starts at one address.\<close>

definition demo_system :: "int option \<Rightarrow> SnarferEnv" where
  "demo_system abend =
     \<lparr>sv_recoveryPush = (\<lambda>_. True), sv_retry = (\<lambda>cc. cc \<noteq> 0x222), sv_getASSB = (\<lambda>ascb. if ascb = 0 then Inl 0x0C4 else Inr ''STOKEN01''),
      sv_allocECSA = (\<lambda>ecsa n. if ecsa 0x1000 = None then Some 0x1000 else None), sv_freeECSA = (\<lambda>_. None),
      sv_ieamschd = (\<lambda>_. Inr 0), sv_space = (\<lambda>_ _. CHR ''x''), sv_srbFailed = (\<lambda>_ m. m),
      sv_storeAbend = (\<lambda>_ _. abend), sv_storedBefore = (\<lambda>_ _ i. i < 256), sv_CMS_MAX_ECSA_BLOCK_SIZE = 0x10000\<rparr>"

definition demo_copy_list :: SnarferServiceParmList where
  "demo_copy_list = \<lparr>sn_eyecatcher = ''RSSNRFSR'', sn_destinationAddress = 0x7000, sn_sourceAddress = 0x8000, sn_sourceASCB = Some 1,
     sn_sourceKey = 0, sn_size = 300\<rparr>"

definition demo_storage :: SnarferState where
  "demo_storage = \<lparr>sf_ecsa = (\<lambda>_. None), sf_common = (\<lambda>_. nul), sf_client = (\<lambda>_. nul), sf_recovery = 1\<rparr>"

lemma demo_laws: "system_laws (demo_system abend)"
  by (auto simp: system_laws_def demo_system_def)

text \<open>When a copy can be made.\<close>

definition obtainable :: "SnarferEnv \<Rightarrow> (64 word \<Rightarrow> 32 word option) \<Rightarrow> SnarferServiceParmList \<Rightarrow> bool" where
  "obtainable env ecsa p \<longleftrightarrow>
     (case sv_getASSB env (the (sn_sourceASCB p)) of Inl _ \<Rightarrow> False | Inr stoken \<Rightarrow> sv_ieamschd env stoken = Inr 0) \<and>
     sv_allocECSA env ecsa (sizeof_TransferBuffer + sn_size p) \<noteq> None \<and>
     sv_storeAbend env (sn_destinationAddress p) (sn_size p) = None"

lemma snarf_ok_iff:
  assumes "system_laws env"
  shows "fst (snarf env p (the (sn_sourceASCB p)) st) = Returned 0 \<longleftrightarrow> obtainable env (sf_ecsa st) p"
  using assms
  by (auto simp: snarf_def snarf_defs push_ok obtainable_def split: sum.splits option.splits if_splits prod.splits)

lemma snarfer_ok_iff:
  assumes "system_laws env"
  shows "fst (zisSnarferServiceFunction env (Some (Inr p)) st) = Returned 0 \<longleftrightarrow> snarfable env p \<and> obtainable env (sf_ecsa st) p"
proof (cases "snarfable env p")
  case True
  then show ?thesis using assms by (simp add: snarfer_checked snarf_ok_iff)
next
  case False
  then show ?thesis using snarfer_refused [OF False, of st] by auto
qed

lemma demo_ok: "snarfable (demo_system abend) demo_copy_list" "obtainable (demo_system None) (sf_ecsa demo_storage) demo_copy_list"
  by (simp_all add: snarfable_def obtainable_def demo_system_def demo_copy_list_def demo_storage_def ZIS_SNARFER_SERVICE_PARMLIST_EYECATCHER_def)

lemma demo_half_way:
  "fst (zisSnarferServiceFunction (demo_system (Some 0x0C4)) (Some (Inr demo_copy_list)) demo_storage) = Percolated 0x0C4"
  "sf_client (snd (zisSnarferServiceFunction (demo_system (Some 0x0C4)) (Some (Inr demo_copy_list)) demo_storage)) 0x70FF = CHR ''x''"
proof -
  have twice: "store_until_abend stored 300 dest (copy_bytes 300 mid source src common) mid target = store_until_abend stored 300 dest source src target"
    for stored dest mid source src common target by (rule store_until_abend_twice)
  have size: "unat ((300 :: 32 word) AND 0x7FFFFFFF) = 300" by code_simp
  let ?r = "zisSnarferServiceFunction (demo_system (Some 0x0C4)) (Some (Inr demo_copy_list)) demo_storage"
  have "fst ?r = Percolated 0x0C4 \<and> sf_client (snd ?r) 0x70FF = CHR ''x''"
    unfolding snarfer_checked [OF demo_laws demo_ok(1)]
    by (simp add: snarf_def snarf_defs recoveryPush_def demo_system_def demo_copy_list_def demo_storage_def
        getSRBSnarfer_def snarf_loop_copies size twice store_until_abend_def copy_bytes_def)
  then show "fst ?r = Percolated 0x0C4" "sf_client (snd ?r) 0x70FF = CHR ''x''" by blast+
qed

theorem snarfer_exact_copy_witness:
  "fst (zisSnarferServiceFunction (demo_system None) (Some (Inr demo_copy_list)) demo_storage) = Returned 0 \<and>
   sf_client (snd (zisSnarferServiceFunction (demo_system None) (Some (Inr demo_copy_list)) demo_storage)) 0x712B = CHR ''x'' \<and>
   sf_client (snd (zisSnarferServiceFunction (demo_system None) (Some (Inr demo_copy_list)) demo_storage)) 0x712C = nul \<and>
   sf_client (snd (zisSnarferServiceFunction (demo_system (Some 0x0C4)) (Some (Inr demo_copy_list)) demo_storage)) 0x70FF = CHR ''x'' \<and>
   partly_copied (demo_system (Some 0x0C4)) demo_copy_list (sf_client demo_storage)
     (sf_client (snd (zisSnarferServiceFunction (demo_system (Some 0x0C4)) (Some (Inr demo_copy_list)) demo_storage)))"
proof -
  let ?r = "zisSnarferServiceFunction (demo_system None) (Some (Inr demo_copy_list)) demo_storage"
  have ok: "fst ?r = Returned 0" using demo_ok by (simp add: snarfer_ok_iff demo_laws)
  then have "copied (demo_system None) demo_copy_list (sf_client demo_storage) (sf_client (snd ?r))"
    using snarfer_exact_copy [OF demo_laws, of None "Some (Inr demo_copy_list)" demo_storage "Returned 0" "snd ?r"] by (cases ?r) auto
  then have whole: "sf_client (snd ?r) 0x712B = CHR ''x''" "sf_client (snd ?r) 0x712C = nul"
    by (auto simp: copied_def copy_bytes_def demo_copy_list_def demo_system_def demo_storage_def)
  have half_way_differs: "nul \<noteq> CHR ''x''" by code_simp
  let ?q = "zisSnarferServiceFunction (demo_system (Some 0x0C4)) (Some (Inr demo_copy_list)) demo_storage"
  have half: "fst ?q = Percolated 0x0C4" "sf_client (snd ?q) 0x70FF = CHR ''x''" by (rule demo_half_way)+
  then have "sf_client (snd ?q) \<noteq> sf_client demo_storage" using half_way_differs by (auto simp: demo_storage_def)
  then have "partly_copied (demo_system (Some 0x0C4)) demo_copy_list (sf_client demo_storage) (sf_client (snd ?q))"
    using snarfer_exact_copy [OF demo_laws, of "Some 0x0C4" "Some (Inr demo_copy_list)" demo_storage "Percolated 0x0C4" "snd ?q"] half(1)
    by (cases ?q) auto
  then show ?thesis using ok whole half(2) by blast
qed

text \<open>
  The client over the service. A call across address spaces runs the service on the client's list; when
  the service abends, the core server reports a nonzero return code of its own.
\<close>

locale snarfer_transport =
  fixes call :: "(SnarferServiceParmList, SnarferState) cmsCall" and senv :: SnarferEnv and abendRC :: "int \<Rightarrow> rc"
  assumes runs: "call name ZIS_SERVICE_ID_SNARFER_SRV pl st =
     (case zisSnarferServiceFunction senv (Some (Inr pl)) st of
        (Returned r, st') \<Rightarrow> Some ((0, r, pl), st') | (Percolated cc, st') \<Rightarrow> Some ((abendRC cc, 0, pl), st'))"
begin

lemma returns:
  assumes "\<And>cc. abendRC cc \<noteq> 0"
  shows "\<exists>r status' st'. zisCopyDataFromAddressSpace cenv call name dest src n srcKey ascb status st = Some ((r, status'), st') \<and>
     (r = 0 \<longleftrightarrow> fst (zisSnarferServiceFunction senv (Some (Inr \<lparr>sn_eyecatcher = ZIS_SNARFER_SERVICE_PARMLIST_EYECATCHER,
        sn_destinationAddress = clientAddress cenv dest, sn_sourceAddress = clientAddress cenv src, sn_sourceASCB = ascb,
        sn_sourceKey = srcKey, sn_size = n\<rparr>)) st) = Returned 0) \<and>
     st' = snd (zisSnarferServiceFunction senv (Some (Inr \<lparr>sn_eyecatcher = ZIS_SNARFER_SERVICE_PARMLIST_EYECATCHER,
        sn_destinationAddress = clientAddress cenv dest, sn_sourceAddress = clientAddress cenv src, sn_sourceASCB = ascb,
        sn_sourceKey = srcKey, sn_size = n\<rparr>)) st)"
  using assms by (simp add: zisCopyDataFromAddressSpace_def runs Let_def split: pc_result.split prod.split)

end

definition snarfer_server :: "SnarferEnv \<Rightarrow> (int \<Rightarrow> rc) \<Rightarrow> (SnarferServiceParmList, SnarferState) cmsCall" where
  "snarfer_server senv abendRC name serviceID pl st =
     (if serviceID = ZIS_SERVICE_ID_SNARFER_SRV
      then case zisSnarferServiceFunction senv (Some (Inr pl)) st of
             (Returned r, st') \<Rightarrow> Some ((0, r, pl), st') | (Percolated cc, st') \<Rightarrow> Some ((abendRC cc, 0, pl), st')
      else None)"

interpretation snarfer_srv: snarfer_transport "snarfer_server senv abendRC" senv abendRC for senv abendRC
  by unfold_locales (simp add: snarfer_server_def)

text \<open>The list that the client sends.\<close>

definition copyRequest :: "ClientEnv \<Rightarrow> 64 word \<Rightarrow> 64 word \<Rightarrow> 32 word \<Rightarrow> 32 word \<Rightarrow> addr option \<Rightarrow> SnarferServiceParmList" where
  "copyRequest cenv dest src n srcKey ascb =
     \<lparr>sn_eyecatcher = ZIS_SNARFER_SERVICE_PARMLIST_EYECATCHER, sn_destinationAddress = clientAddress cenv dest,
      sn_sourceAddress = clientAddress cenv src, sn_sourceASCB = ascb, sn_sourceKey = srcKey, sn_size = n\<rparr>"

text \<open>
  C7. A copy from another address space from end to end. It is assumed that z/OS and the recovery facility
  keep \<open>system_laws\<close> (every recovery entry of the service can be made, common storage is allocated where
  none is in use, its release leaves a NULL pointer, the largest block is below two gigabytes), and that
  the core server reports an abend of the service with a nonzero return code. Then
  \<open>zisCopyDataFromAddressSpace\<close> over the snarfer always returns. It returns \<open>RC_ZIS_SRVC_OK\<close> exactly when the
  destination is not in low storage, there is an ASCB, the size is at most the largest block of common
  storage, the source space could be found and the routine run there, there was common storage for the
  buffer, and the destination could be stored to. Then the client has exactly the bytes asked for.
  Otherwise its storage is untouched, unless the store to the destination was the step that abended:
  then every byte is as it was or as the whole copy would have left it.
\<close>

theorem copy_from_space_end_to_end:
  assumes "system_laws senv" and "\<And>cc. abendRC cc \<noteq> 0"
  shows "\<exists>r status' st'.
     zisCopyDataFromAddressSpace cenv (snarfer_server senv abendRC) name dest src n srcKey ascb status st = Some ((r, status'), st') \<and>
     (r = RC_ZIS_SRVC_OK \<longleftrightarrow> snarfable senv (copyRequest cenv dest src n srcKey ascb) \<and>
        obtainable senv (sf_ecsa st) (copyRequest cenv dest src n srcKey ascb)) \<and>
     (if r = RC_ZIS_SRVC_OK then copied senv (copyRequest cenv dest src n srcKey ascb) (sf_client st) (sf_client st')
      else sf_client st' = sf_client st \<or> partly_copied senv (copyRequest cenv dest src n srcKey ascb) (sf_client st) (sf_client st'))"
proof -
  let ?p = "copyRequest cenv dest src n srcKey ascb"
  obtain out st' where run: "zisSnarferServiceFunction senv (Some (Inr ?p)) st = (out, st')" by fastforce
  obtain r status' where call:
      "zisCopyDataFromAddressSpace cenv (snarfer_server senv abendRC) name dest src n srcKey ascb status st = Some ((r, status'), st')"
      "r = 0 \<longleftrightarrow> out = Returned 0"
    using snarfer_srv.returns [where senv = senv and cenv = cenv and dest = dest and src = src and n = n and srcKey = srcKey
          and ascb = ascb and st = st and abendRC = abendRC and name = name and status = status, OF assms(2)] run by (auto simp: copyRequest_def)
  have iff: "out = Returned 0 \<longleftrightarrow> snarfable senv ?p \<and> obtainable senv (sf_ecsa st) ?p"
    using snarfer_ok_iff [OF assms(1), of ?p st] run by simp
  have "if r = 0 then copied senv ?p (sf_client st) (sf_client st')
        else sf_client st' = sf_client st \<or> partly_copied senv ?p (sf_client st) (sf_client st')"
  proof (cases out)
    case (Returned k)
    then show ?thesis using snarfer_returned(3) [OF assms(1), of "Some (Inr ?p)" st k st'] run call(2) by (auto split: if_splits)
  next
    case (Percolated cc)
    then show ?thesis using snarfer_percolated [OF assms(1), of "Some (Inr ?p)" st cc st'] run call(2) by auto
  qed
  then show ?thesis using call iff by blast
qed

theorem copy_from_space_end_to_end_witness:
  "\<exists>status' st'. zisCopyDataFromAddressSpace \<lparr>cl_CMS_DEFAULT_SERVER_NAME = ''ZWESIS_STD'', cl_IDTA_IDT_BUFFER_LEN_MIN = 0, cl_RC_CMS_SERVER_NOT_READY = 1, cl_LP64 = True\<rparr>
     (snarfer_server (demo_system None) (\<lambda>_. 8)) None 0x7000 0x8000 300 0 (Some 1) \<lparr>zs_serviceRC = 0, zs_serviceRSN = 0, zs_cmsRC = 0, zs_cmsRSN = 0\<rparr>
     demo_storage = Some ((RC_ZIS_SRVC_OK, status'), st') \<and> sf_client st' 0x712B = CHR ''x'' \<and> sf_client st' 0x712C = nul"
proof -
  let ?cenv = "\<lparr>cl_CMS_DEFAULT_SERVER_NAME = ''ZWESIS_STD'', cl_IDTA_IDT_BUFFER_LEN_MIN = 0, cl_RC_CMS_SERVER_NOT_READY = 1, cl_LP64 = True\<rparr>"
  have "copyRequest ?cenv 0x7000 0x8000 300 0 (Some 1) = demo_copy_list"
    by (simp add: copyRequest_def demo_copy_list_def clientAddress_def ZIS_SNARFER_SERVICE_PARMLIST_EYECATCHER_def)
  then show ?thesis
    using copy_from_space_end_to_end [where senv = "demo_system None" and abendRC = "\<lambda>_. 8" and cenv = ?cenv and name = None
        and dest = "0x7000" and src = "0x8000" and n = 300 and srcKey = 0 and ascb = "Some 1" and st = demo_storage
        and status = "\<lparr>zs_serviceRC = 0, zs_serviceRSN = 0, zs_cmsRC = 0, zs_cmsRSN = 0\<rparr>"] demo_laws demo_ok
    by (auto simp: copied_def copy_bytes_def demo_copy_list_def demo_system_def demo_storage_def)
qed

section \<open>Faults of the snarfer\<close>

text \<open>
  C36. An abend in the copy to the caller, for instance because the destination is not allocated, leaves the
  transfer buffer in common storage: the cleanup routine releases it only for a cancel, although the
  abend percolates out of the service, which is the last to know the buffer. Every such call takes
  another block of common storage away.
\<close>

theorem snarfer_abend_leaks_buffer:
  assumes "system_laws env" and "snarfable env p" and "sv_getASSB env (the (sn_sourceASCB p)) = Inr stoken"
    and "sv_ieamschd env stoken = Inr 0" and "sv_allocECSA env (sf_ecsa st) (sizeof_TransferBuffer + sn_size p) = Some a"
    and "sv_storeAbend env (sn_destinationAddress p) (sn_size p) = Some cc" and "cc \<noteq> 0x222" and "cc \<noteq> 0x522"
  shows "fst (zisSnarferServiceFunction env (Some (Inr p)) st) = Percolated cc \<and>
     sf_ecsa st a = None \<and>
     sf_ecsa (snd (zisSnarferServiceFunction env (Some (Inr p)) st)) = (sf_ecsa st)(a \<mapsto> sizeof_TransferBuffer + sn_size p)"
  using assms alloc_fresh [OF assms(1,5)] by (simp add: snarfer_checked snarf_def snarf_defs push_ok)

theorem snarfer_abend_leaks_buffer_witness:
  "fst (zisSnarferServiceFunction (demo_system (Some 0x0C4)) (Some (Inr demo_copy_list)) demo_storage) = Percolated 0x0C4 \<and>
   sf_ecsa (snd (zisSnarferServiceFunction (demo_system (Some 0x0C4)) (Some (Inr demo_copy_list)) demo_storage)) 0x1000 = Some 332"
  using snarfer_abend_leaks_buffer [where env = "demo_system (Some 0x0C4)" and p = demo_copy_list and stoken = "''STOKEN01''" and st = demo_storage
      and a = "0x1000" and cc = "0x0C4", OF demo_laws demo_ok(1)]
  by (simp add: demo_system_def demo_copy_list_def demo_storage_def sizeof_TransferBuffer_def)

text \<open>
  When the entry of a guarded step cannot be made, the service removes an entry all the same: behind
  the call the stack has one entry less than before, the one of the core server.
\<close>

lemma snarfer_pops_callers_entry:
  assumes "sv_recoveryPush env ''snarferServiceFunction''" and "\<not> sv_recoveryPush env ''snarferServiceFunction->getASSB''"
    and "snarfable env p"
  shows "fst (zisSnarferServiceFunction env (Some (Inr p)) st) = Returned RC_ZIS_SNRFSRV_RECOVERY_ERROR \<and>
     sf_recovery (snd (zisSnarferServiceFunction env (Some (Inr p)) st)) = sf_recovery st - 1"
  using assms by (auto simp: zisSnarferServiceFunction_def snarfable_def recoveryPush_def snarf_def snarf_defs)

section \<open>The network management service\<close>

abbreviation (input) RC_ZIS_NWMSRV_OK :: rc where "RC_ZIS_NWMSRV_OK \<equiv> 0"
abbreviation (input) RC_ZIS_NWMSRV_PARMLIST_NULL :: rc where "RC_ZIS_NWMSRV_PARMLIST_NULL \<equiv> 8"
abbreviation (input) RC_ZIS_NWMSRV_BAD_EYECATCHER :: rc where "RC_ZIS_NWMSRV_BAD_EYECATCHER \<equiv> 9"
abbreviation (input) RC_ZIS_NWMSRV_BUFFER_NULL :: rc where "RC_ZIS_NWMSRV_BUFFER_NULL \<equiv> 10"
abbreviation (input) RC_ZIS_NWMSRV_BUFFER_NOT_ALLOCATED :: rc where "RC_ZIS_NWMSRV_BUFFER_NOT_ALLOCATED \<equiv> 11"
abbreviation (input) RC_ZIS_NWMSRV_RECOVERY_ERROR :: rc where "RC_ZIS_NWMSRV_RECOVERY_ERROR \<equiv> 12"
abbreviation (input) RC_ZIS_NWMSRV_NWM_ABENDED :: rc where "RC_ZIS_NWMSRV_NWM_ABENDED \<equiv> 13"
abbreviation (input) RC_ZIS_NWMSRV_NWM_FAILED :: rc where "RC_ZIS_NWMSRV_NWM_FAILED \<equiv> 14"

text \<open>
  The state: the client's list (\<open>None\<close> for a NULL pointer) and storage, the 64-bit storage of the server
  that is in use. The flags of a recovery entry are a list; the entry is removed on every path, so that
  the stack of entries is not part of the state.
\<close>

datatype rcvr_flag = RCVR_FLAG_RETRY | RCVR_FLAG_DELETE_ON_RETRY

record NWMState =
  nm_parm :: "ZISNWMServiceParmList option"
  nm_client :: "addr \<Rightarrow> char"
  nm_storage :: "addr \<rightharpoonup> 32 word"

text \<open>
  z/OS and zowe-common-c: EZBNMIFR from the job, the buffer and its size to the buffer, the return value,
  the return code and the reason code; abends of it and of the copies from and to the client, and which
  bytes were stored to the client before the abend of a store. The store of the list is not expected to abend.
\<close>

record NWMEnv =
  nv_safeMalloc64 :: "(addr \<rightharpoonup> 32 word) \<Rightarrow> 32 word \<Rightarrow> addr option"
  nv_recoveryPush :: "string \<Rightarrow> bool"
  nv_retries :: "rcvr_flag list \<Rightarrow> int \<Rightarrow> bool"
  nv_EZBNMIFR :: "string \<Rightarrow> string \<Rightarrow> 32 word \<Rightarrow> int + string \<times> rc \<times> rc \<times> rc"
  nv_fetchAbend :: "addr \<Rightarrow> 32 word \<Rightarrow> int option"
  nv_storeAbend :: "addr \<Rightarrow> 32 word \<Rightarrow> int option"
  nv_storedBefore :: "addr \<Rightarrow> 32 word \<Rightarrow> nat \<Rightarrow> bool"

definition read_bytes :: "(addr \<Rightarrow> char) \<Rightarrow> addr \<Rightarrow> nat \<Rightarrow> string" where
  "read_bytes m a n = map (\<lambda>i. m (a + i)) [0..<n]"

definition write_bytes :: "addr \<Rightarrow> string \<Rightarrow> (addr \<Rightarrow> char) \<Rightarrow> addr \<Rightarrow> char" where
  "write_bytes a bs m = (\<lambda>b. if a \<le> b \<and> b < a + length bs then bs ! (b - a) else m b)"

text \<open>The guarded part: the client's buffer is fetched and handed to EZBNMIFR.\<close>

definition callNWMService ::
    "NWMEnv \<Rightarrow> ZISNWMServiceParmList \<Rightarrow> addr \<Rightarrow> NWMState \<Rightarrow> int + string \<times> ZISNWMServiceParmList" where
  "callNWMService env parm buffer st =
     (case nv_fetchAbend env buffer (nw_nmiBufferSize parm) of
        Some cc \<Rightarrow> Inl cc
      | None \<Rightarrow>
          (case nv_EZBNMIFR env (nw_nmiJobName parm) (read_bytes (nm_client st) buffer (unat (nw_nmiBufferSize parm))) (nw_nmiBufferSize parm) of
             Inl cc \<Rightarrow> Inl cc
           | Inr (bs, rv, rcode, rsn) \<Rightarrow>
               Inr (bs, parm\<lparr>nw_nmiReturnValue := rv, nw_nmiReturnCode := rcode, nw_nmiReasonCode := rsn\<rparr>)))"

definition NWM_RECOVERY_FLAGS :: "rcvr_flag list" where "NWM_RECOVERY_FLAGS = [RCVR_FLAG_DELETE_ON_RETRY]"

text \<open>The release of the local buffer at the end.\<close>

definition finishNWM :: "rc \<Rightarrow> addr \<Rightarrow> NWMState \<Rightarrow> rc pc_result \<times> NWMState" where
  "finishNWM status a st = (Returned status, st\<lparr>nm_storage := (nm_storage st)(a := None)\<rparr>)"

text \<open>The results go back to the client: the buffer, then the list. Nothing guards these copies any more.\<close>

definition returnNWM ::
    "NWMEnv \<Rightarrow> addr \<Rightarrow> string \<Rightarrow> ZISNWMServiceParmList \<Rightarrow> addr \<Rightarrow> NWMState \<Rightarrow> rc pc_result \<times> NWMState" where
  "returnNWM env buffer bs parm a st =
     (case nv_storeAbend env buffer (nw_nmiBufferSize parm) of
        Some cc \<Rightarrow>
          (Percolated cc,
           st\<lparr>nm_client := (\<lambda>b. if nv_storedBefore env buffer (nw_nmiBufferSize parm) (b - buffer)
                                 then write_bytes buffer (take (unat (nw_nmiBufferSize parm)) bs) (nm_client st) b
                                 else nm_client st b)\<rparr>)
      | None \<Rightarrow>
          (let st' = st\<lparr>nm_client := write_bytes buffer (take (unat (nw_nmiBufferSize parm)) bs) (nm_client st), nm_parm := Some parm\<rparr>;
               status = (if nw_nmiReturnValue parm < 0 then RC_ZIS_NWMSRV_NWM_FAILED else RC_ZIS_NWMSRV_OK)
           in finishNWM status a st'))"

definition zisNWMServiceFunction :: "NWMEnv \<Rightarrow> NWMState \<Rightarrow> rc pc_result \<times> NWMState" where
  "zisNWMServiceFunction env st =
     (case nm_parm st of
        None \<Rightarrow> (Returned RC_ZIS_NWMSRV_PARMLIST_NULL, st)
      | Some localParmList \<Rightarrow>
          (if nw_eyecatcher localParmList \<noteq> ZIS_NWM_SERVICE_PARMLIST_EYECATCHER then (Returned RC_ZIS_NWMSRV_BAD_EYECATCHER, st)
           else case nw_nmiBuffer localParmList of
             None \<Rightarrow> (Returned RC_ZIS_NWMSRV_BUFFER_NULL, st)
           | Some nmiBuffer \<Rightarrow>
               (case nv_safeMalloc64 env (nm_storage st) (nw_nmiBufferSize localParmList) of
                  None \<Rightarrow> (Returned RC_ZIS_NWMSRV_BUFFER_NOT_ALLOCATED, st)
                | Some a \<Rightarrow>
                    (let st1 = st\<lparr>nm_storage := (nm_storage st)(a \<mapsto> nw_nmiBufferSize localParmList)\<rparr>
                     in if \<not> nv_recoveryPush env ''NWM recovery'' then finishNWM RC_ZIS_NWMSRV_RECOVERY_ERROR a st1
                        else case callNWMService env localParmList nmiBuffer st1 of
                               Inl cc \<Rightarrow>
                                 (if nv_retries env NWM_RECOVERY_FLAGS cc then finishNWM RC_ZIS_NWMSRV_NWM_ABENDED a st1
                                  else (Percolated cc, st1))
                             | Inr (bs, parm) \<Rightarrow> returnNWM env nmiBuffer bs parm a st1))))"

text \<open>
  What is relied on: storage is allocated where there is none, and an entry without the retry flag never
  retries.
\<close>

definition nwm_laws :: "NWMEnv \<Rightarrow> bool" where
  "nwm_laws env \<longleftrightarrow>
     (\<forall>storage n a. nv_safeMalloc64 env storage n = Some a \<longrightarrow> storage a = None) \<and>
     (\<forall>flags cc. RCVR_FLAG_RETRY \<notin> set flags \<longrightarrow> \<not> nv_retries env flags cc)"

definition delivered :: "NWMEnv \<Rightarrow> rc \<Rightarrow> NWMState \<Rightarrow> NWMState \<Rightarrow> bool" where
  "delivered env r st st' \<longleftrightarrow>
     (\<exists>parm buffer bs rv rcode rsn. nm_parm st = Some parm \<and> nw_nmiBuffer parm = Some buffer \<and>
        nv_EZBNMIFR env (nw_nmiJobName parm) (read_bytes (nm_client st) buffer (unat (nw_nmiBufferSize parm))) (nw_nmiBufferSize parm)
          = Inr (bs, rv, rcode, rsn) \<and>
        nm_parm st' = Some (parm\<lparr>nw_nmiReturnValue := rv, nw_nmiReturnCode := rcode, nw_nmiReasonCode := rsn\<rparr>) \<and>
        nm_client st' = write_bytes buffer (take (unat (nw_nmiBufferSize parm)) bs) (nm_client st) \<and>
        (r = RC_ZIS_NWMSRV_NWM_FAILED \<longleftrightarrow> rv < 0))"

lemma nwm_returned:
  assumes env: "nwm_laws env" and run: "zisNWMServiceFunction env st = (Returned r, st')"
  shows "r \<noteq> RC_ZIS_NWMSRV_NWM_ABENDED \<and> nm_storage st' = nm_storage st \<and>
     (if r = RC_ZIS_NWMSRV_OK \<or> r = RC_ZIS_NWMSRV_NWM_FAILED then delivered env r st st' else st' = st)"
proof -
  have noretry: "\<not> nv_retries env NWM_RECOVERY_FLAGS cc" for cc
    using env by (simp add: nwm_laws_def NWM_RECOVERY_FLAGS_def)
  have fresh: "nm_storage st a = None" if "nv_safeMalloc64 env (nm_storage st) n = Some a" for a n
    using env that by (auto simp: nwm_laws_def)
  show ?thesis
    using run noretry
    by (auto simp: zisNWMServiceFunction_def callNWMService_def returnNWM_def finishNWM_def delivered_def Let_def fun_upd_idem_iff
        dest!: fresh split: option.splits sum.splits if_splits)
qed

lemma nwm_percolated:
  assumes env: "nwm_laws env" and run: "zisNWMServiceFunction env st = (Percolated cc, st')"
  shows "\<exists>a parm. nm_parm st = Some parm \<and> nm_storage st a = None \<and> nm_parm st' = nm_parm st \<and>
     nm_storage st' = (nm_storage st)(a \<mapsto> nw_nmiBufferSize parm)"
proof -
  have fresh: "nm_storage st a = None" if "nv_safeMalloc64 env (nm_storage st) n = Some a" for a n
    using env that by (auto simp: nwm_laws_def)
  have leak: "\<exists>b. nm_storage st b = None \<and> (nm_storage st)(a \<mapsto> n) = (nm_storage st)(b \<mapsto> n)" if "nm_storage st a = None" for a n
    using that by blast
  show ?thesis
    using run
    by (auto simp: zisNWMServiceFunction_def callNWMService_def returnNWM_def finishNWM_def Let_def
        dest!: fresh intro!: leak split: option.splits sum.splits if_splits)
qed

text \<open>
  The network management service: a call that returns has released its buffer. With
  \<open>RC_ZIS_NWMSRV_OK\<close> and, when the return value is negative, \<open>RC_ZIS_NWMSRV_NWM_FAILED\<close> the client has the
  buffer and the three codes of EZBNMIFR; with any other code nothing has changed. But the code
  \<open>RC_ZIS_NWMSRV_NWM_ABENDED\<close>, which the service has for an abend of EZBNMIFR, is never returned, because
  the recovery entry is made without the retry flag: every abend percolates and leaves the buffer
  allocated.
\<close>

theorem nwm_outcomes:
  assumes "nwm_laws env" and "zisNWMServiceFunction env st = (out, st')"
  shows "case out of
       Returned r \<Rightarrow>
         r \<noteq> RC_ZIS_NWMSRV_NWM_ABENDED \<and> nm_storage st' = nm_storage st \<and>
         (if r = RC_ZIS_NWMSRV_OK \<or> r = RC_ZIS_NWMSRV_NWM_FAILED then delivered env r st st' else st' = st)
     | Percolated cc \<Rightarrow>
         \<exists>a parm. nm_parm st = Some parm \<and> nm_storage st a = None \<and> nm_parm st' = nm_parm st \<and>
           nm_storage st' = (nm_storage st)(a \<mapsto> nw_nmiBufferSize parm)"
  using assms by (cases out) (auto dest: nwm_returned nwm_percolated)

definition demo_nwm :: "int option \<Rightarrow> NWMEnv" where
  "demo_nwm abend =
     \<lparr>nv_safeMalloc64 = (\<lambda>storage n. if storage 5 = None then Some 5 else None), nv_recoveryPush = (\<lambda>_. True),
      nv_retries = (\<lambda>flags cc. RCVR_FLAG_RETRY \<in> set flags),
      nv_EZBNMIFR = (\<lambda>job bs n. case abend of Some cc \<Rightarrow> Inl cc | None \<Rightarrow> Inr (rev bs, 0, 0, 0)),
      nv_fetchAbend = (\<lambda>_ _. None), nv_storeAbend = (\<lambda>_ _. None), nv_storedBefore = (\<lambda>_ _ _. False)\<rparr>"

definition demo_nwm_state :: NWMState where
  "demo_nwm_state =
     \<lparr>nm_parm = Some \<lparr>nw_eyecatcher = ''RSZISNWM'', nw_version = 0, nw_flags = 0, nw_traceLevel = 0, nw_nmiJobName = ''TCPIP   '',
        nw_nmiBuffer = Some 100, nw_nmiBufferSize = 2, nw_nmiReturnValue = 9, nw_nmiReturnCode = 9, nw_nmiReasonCode = 9\<rparr>,
      nm_client = (\<lambda>a. if a = 100 then CHR ''a'' else CHR ''b''), nm_storage = Map.empty\<rparr>"

theorem nwm_outcomes_witness:
  "fst (zisNWMServiceFunction (demo_nwm None) demo_nwm_state) = Returned RC_ZIS_NWMSRV_OK \<and>
   delivered (demo_nwm None) 0 demo_nwm_state (snd (zisNWMServiceFunction (demo_nwm None) demo_nwm_state)) \<and>
   nm_storage (snd (zisNWMServiceFunction (demo_nwm (Some 0x0C4)) demo_nwm_state)) \<noteq> Map.empty"
proof -
  have laws: "nwm_laws (demo_nwm abend)" for abend by (auto simp: nwm_laws_def demo_nwm_def)
  let ?r = "zisNWMServiceFunction (demo_nwm None) demo_nwm_state"
  let ?a = "zisNWMServiceFunction (demo_nwm (Some 0x0C4)) demo_nwm_state"
  have runs: "fst ?r = Returned 0" "fst ?a = Percolated 0x0C4"
    by (simp_all add: zisNWMServiceFunction_def callNWMService_def returnNWM_def finishNWM_def demo_nwm_def demo_nwm_state_def
        ZIS_NWM_SERVICE_PARMLIST_EYECATCHER_def NWM_RECOVERY_FLAGS_def Let_def)
  have pairs: "?r = (fst ?r, snd ?r)" "?a = (fst ?a, snd ?a)" by simp_all
  have "delivered (demo_nwm None) 0 demo_nwm_state (snd ?r)"
    using nwm_outcomes [OF laws pairs(1)] unfolding runs by simp
  moreover have "\<exists>a n. nm_storage (snd ?a) = (nm_storage demo_nwm_state)(a \<mapsto> n)"
    using nwm_outcomes [OF laws pairs(2)] unfolding runs pc_result.case by blast
  then have "nm_storage (snd ?a) \<noteq> Map.empty" by (elim exE) simp
  ultimately show ?thesis using runs by blast
qed

end
