(* ===== verification/TSS_Parsing.thy ===== *)
theory TSS_Parsing
  imports ZIS_Prelude "HOL-Library.Monad_Syntax"
begin

text \<open>
  Parsing the output of Top Secret commands (src/c/zis/services/tssparsing.c and
  src/h/zis/services/tssparsing.h): lines with one or two pairs \<open>KEY = VALUE\<close>, the offsets and names of
  their keys and the values behind them.

  A line is the list of its \<open>len\<close> characters. Offsets that the code keeps in \<open>unsigned int\<close> are 32-bit
  words, so that the comparisons between signed and unsigned numbers are the ones of C. A copy from
  outside of the line or to outside of its target has no result. The string functions of
  zowe-common-c are parameters.
\<close>

section \<open>Keys and lines\<close>

definition TSS_KEY_DELIMITER :: string where "TSS_KEY_DELIMITER = '' = ''"
definition TSS_KEY_DELIMITER_LEN :: "32 word" where "TSS_KEY_DELIMITER_LEN = 3"
definition TSS_MAX_KEY_LENGTH :: nat where "TSS_MAX_KEY_LENGTH = 10"
definition TSS_FUNCTION_END :: string where "TSS_FUNCTION_END = ''TSS''"
definition TSS_MESSAGE_ID_MAX_LEN :: nat where "TSS_MESSAGE_ID_MAX_LEN = 8"
definition TSS_COMMAND_SUCCESS :: string where "TSS_COMMAND_SUCCESS = ''TSS0300I''"

record TSSKeyData =
  tk_startPos :: "32 word"
  tk_endPos :: "32 word"
  tk_delimPos :: "32 word"
  tk_keyName :: string
  tk_keyLength :: int

text \<open>
  \<open>indexOfString\<close> from a position on, \<open>lastIndexOfString\<close>, both -1 when the string is not found, and
  \<open>padWithSpaces\<close> on a buffer.
\<close>

record TSSUtils =
  tu_indexOfString :: "string \<Rightarrow> string \<Rightarrow> nat \<Rightarrow> int"
  tu_lastIndexOfString :: "string \<Rightarrow> string \<Rightarrow> int"
  tu_padWithSpaces :: "string \<Rightarrow> string"

definition tssIsErrorDetected :: "string \<Rightarrow> bool" where
  "tssIsErrorDetected str =
     (if length str < TSS_MESSAGE_ID_MAX_LEN then False
      else take (length TSS_FUNCTION_END) str = TSS_FUNCTION_END \<and>
           take (length TSS_COMMAND_SUCCESS) str \<noteq> TSS_COMMAND_SUCCESS)"

definition tssIsOutputDone :: "string \<Rightarrow> bool" where
  "tssIsOutputDone str =
     (if length str < length TSS_FUNCTION_END then False else take (length TSS_FUNCTION_END) str = TSS_FUNCTION_END)"

definition key_matches :: "string \<Rightarrow> TSSKeyData \<Rightarrow> bool" where
  "key_matches searchStr k \<longleftrightarrow> tk_keyLength k = int (length searchStr) \<and> take (length searchStr) (tk_keyName k) = searchStr"

definition tssFindDesiredKey :: "string \<Rightarrow> TSSKeyData list \<Rightarrow> int" where
  "tssFindDesiredKey searchStr keys =
     (if key_matches searchStr (keys ! 0) then 0 else if key_matches searchStr (keys ! 1) then 1 else - 1)"

text \<open>The loop of \<open>tssGetActualValueLength\<close>, down from the end.\<close>

fun actualLength_loop :: "string \<Rightarrow> nat \<Rightarrow> int" where
  "actualLength_loop str 0 = - 1"
| "actualLength_loop str (Suc i) = (if str ! i \<noteq> CHR '' '' \<and> str ! i \<noteq> nul then int (Suc i) else actualLength_loop str i)"

definition tssGetActualValueLength :: "string \<Rightarrow> int" where
  "tssGetActualValueLength str = actualLength_loop str (length str)"

definition tssIsLineBlank :: "string \<Rightarrow> bool" where
  "tssIsLineBlank str = list_all (\<lambda>c. c = CHR '' '') str"

definition delimiter_at :: "string \<Rightarrow> nat \<Rightarrow> bool" where
  "delimiter_at str pos \<longleftrightarrow> take (length TSS_KEY_DELIMITER) (drop pos str) = TSS_KEY_DELIMITER"

function findNumberOfKeys_loop :: "string \<Rightarrow> nat \<Rightarrow> int \<Rightarrow> int" where
  "findNumberOfKeys_loop str pos keyCount =
     (if int pos \<le> int (length str) - int (length TSS_KEY_DELIMITER)
      then findNumberOfKeys_loop str (pos + 1) (if delimiter_at str pos then keyCount + 1 else keyCount)
      else keyCount)"
  by pat_completeness auto
termination by (relation "measure (\<lambda>(str, pos, _). length str + 1 - pos)") auto

declare findNumberOfKeys_loop.simps [simp del]

definition tssFindNumberOfKeys :: "string \<Rightarrow> nat \<Rightarrow> int" where
  "tssFindNumberOfKeys str startPos =
     (if int startPos > int (length str) - int (length TSS_KEY_DELIMITER) then 0 else findNumberOfKeys_loop str startPos 0)"

fun tssFindStartOfKeyReverse :: "string \<Rightarrow> nat \<Rightarrow> int" where
  "tssFindStartOfKeyReverse str (Suc (Suc n)) =
     (if str ! Suc n = CHR '' '' \<and> str ! n = CHR '' '' then int (Suc (Suc n)) else tssFindStartOfKeyReverse str (Suc n))"
| "tssFindStartOfKeyReverse str _ = - 1"

fun tssFindEndOfKeyReverse :: "string \<Rightarrow> nat \<Rightarrow> int" where
  "tssFindEndOfKeyReverse str 0 = (if str ! 0 \<noteq> CHR '' '' then 0 else - 1)"
| "tssFindEndOfKeyReverse str (Suc n) = (if str ! Suc n \<noteq> CHR '' '' then int (Suc n) else tssFindEndOfKeyReverse str n)"

section \<open>Finding the keys\<close>

text \<open>The first character other than a blank, in all but the last position.\<close>

definition keyStart :: "string \<Rightarrow> 32 word \<Rightarrow> 32 word" where
  "keyStart str old =
     (if str ! 0 \<noteq> CHR '' '' then 0
      else case find (\<lambda>i. str ! i \<noteq> CHR '' '') [0..<length str - 1] of None \<Rightarrow> old | Some i \<Rightarrow> of_nat i)"

text \<open>The length of a key, unsigned differences read as an \<open>int\<close>.\<close>

definition keyLen :: "TSSKeyData \<Rightarrow> int" where
  "keyLen k = sint (tk_endPos k - tk_startPos k + 1)"

definition tssFindSingleKey :: "TSSUtils \<Rightarrow> string \<Rightarrow> TSSKeyData list \<Rightarrow> int \<times> TSSKeyData list" where
  "tssFindSingleKey u str keys =
     (let k1 = (keys ! 0)\<lparr>tk_startPos := keyStart str (tk_startPos (keys ! 0))\<rparr>;
          firstKeyDelimPos = tu_indexOfString u str TSS_KEY_DELIMITER 0
      in if str ! 0 = CHR '' '' \<and> tk_startPos k1 = - 1 then (- 1, keys[0 := k1])
         else if firstKeyDelimPos = - 1 then (- 1, keys[0 := k1])
         else let k2 = k1\<lparr>tk_delimPos := word_of_int firstKeyDelimPos\<rparr>;
                  firstKeyEndPos = tssFindEndOfKeyReverse str (nat firstKeyDelimPos)
              in if firstKeyEndPos = - 1 then (- 1, keys[0 := k2])
                 else let k3 = k2\<lparr>tk_endPos := word_of_int firstKeyEndPos\<rparr>
                      in if keyLen k3 > int TSS_MAX_KEY_LENGTH then (- 1, keys[0 := k3])
                         else (0, keys[0 := k3\<lparr>tk_keyLength := keyLen k3\<rparr>]))"

definition tssFindDoubleKey :: "TSSUtils \<Rightarrow> string \<Rightarrow> TSSKeyData list \<Rightarrow> int \<times> TSSKeyData list" where
  "tssFindDoubleKey u str keys =
     (let (status, keys1) = tssFindSingleKey u str keys
      in if status = - 1 then (- 1, keys1)
         else let secondKeyDelimPos = tu_lastIndexOfString u str TSS_KEY_DELIMITER
              in if secondKeyDelimPos = - 1 then (- 1, keys1)
                 else let k1 = (keys1 ! 1)\<lparr>tk_delimPos := word_of_int secondKeyDelimPos\<rparr>;
                          secondKeyEndPos = tssFindEndOfKeyReverse str (nat secondKeyDelimPos)
                      in if secondKeyEndPos = - 1 then (- 1, keys1[1 := k1])
                         else let k2 = k1\<lparr>tk_endPos := word_of_int secondKeyEndPos\<rparr>;
                                  secondKeyStartPos = tssFindStartOfKeyReverse str (nat secondKeyEndPos)
                              in if secondKeyStartPos = - 1 then (- 1, keys1[1 := k2])
                                 else let k3 = k2\<lparr>tk_startPos := word_of_int secondKeyStartPos\<rparr>
                                      in if keyLen k3 > int TSS_MAX_KEY_LENGTH then (- 1, keys1[1 := k3])
                                         else (0, keys1[1 := k3\<lparr>tk_keyLength := keyLen k3\<rparr>]))"

definition tssFindAllPossibleKeys :: "TSSUtils \<Rightarrow> string \<Rightarrow> TSSKeyData list \<Rightarrow> int \<Rightarrow> int \<times> TSSKeyData list" where
  "tssFindAllPossibleKeys u str keys numberOfKeys =
     (if numberOfKeys = 1 then tssFindSingleKey u str keys
      else if numberOfKeys = 2 then tssFindDoubleKey u str keys
      else (- 1, keys))"

text \<open>\<open>tssFindNameForKeys\<close>: the copy of a key's name.\<close>

definition copyKeyName :: "string \<Rightarrow> TSSKeyData \<Rightarrow> TSSKeyData option" where
  "copyKeyName str k =
     (if tk_keyLength k < 0 \<or> nat (tk_keyLength k) > TSS_MAX_KEY_LENGTH \<or>
         unat (tk_startPos k) + nat (tk_keyLength k) > length str then None
      else let n = nat (tk_keyLength k)
           in Some (k\<lparr>tk_keyName := take n (drop (unat (tk_startPos k)) str) @ drop n (tk_keyName k)\<rparr>))"

definition tssFindNameForKeys :: "string \<Rightarrow> TSSKeyData list \<Rightarrow> TSSKeyData list option" where
  "tssFindNameForKeys str keys = do {
     k0 \<leftarrow> copyKeyName str (keys ! 0);
     k1 \<leftarrow> copyKeyName str (keys ! 1);
     Some [k0, k1]
   }"

definition tssParseLineForKeys :: "TSSUtils \<Rightarrow> string \<Rightarrow> TSSKeyData list \<Rightarrow> (int \<times> TSSKeyData list) option" where
  "tssParseLineForKeys u str keys =
     (if tssIsLineBlank str then Some (0, keys)
      else let numberOfKeys = tssFindNumberOfKeys str 0
           in if numberOfKeys > 2 \<or> numberOfKeys = 0 then Some (- 1, keys)
              else let (status, keys1) = tssFindAllPossibleKeys u str keys numberOfKeys
                   in if status = - 1 then Some (- 1, keys1)
                      else map_option (\<lambda>keys2. (numberOfKeys, keys2)) (tssFindNameForKeys str keys1))"

section \<open>Finding the values\<close>

definition tssGetOtherKeyIndex :: "nat \<Rightarrow> nat" where
  "tssGetOtherKeyIndex keyIndex = (if keyIndex = 0 then 1 else 0)"

text \<open>
  The common start and end of the two value functions: the end of the line or of what fits the
  buffer; the sums and comparisons are unsigned.
\<close>

definition valueEnd :: "string \<Rightarrow> 32 word \<Rightarrow> 32 word \<Rightarrow> 32 word" where
  "valueEnd str valStartPos valueBufferSize =
     (let len = of_nat (length str)
      in if valStartPos + valueBufferSize \<ge> len - 1 then len - 1 else valStartPos + valueBufferSize - 1)"

definition copyValue :: "TSSUtils \<Rightarrow> string \<Rightarrow> 32 word \<Rightarrow> 32 word \<Rightarrow> string \<Rightarrow> (int \<times> string) option" where
  "copyValue u str valStartPos valEndPos valueBuffer =
     (let valLen = valEndPos - valStartPos + 1
      in if valLen > of_nat (length valueBuffer) then Some (- 1, valueBuffer)
         else if unat valStartPos + unat valLen > length str then None
         else Some (0, tu_padWithSpaces u (take (unat valLen) (drop (unat valStartPos) str) @ drop (unat valLen) valueBuffer)))"

definition tssFindValueSingleKey :: "TSSUtils \<Rightarrow> string \<Rightarrow> TSSKeyData list \<Rightarrow> nat \<Rightarrow> string \<Rightarrow> (int \<times> string) option" where
  "tssFindValueSingleKey u str keys keyIndex valueBuffer =
     (let valStartPos = tk_delimPos (keys ! keyIndex) + TSS_KEY_DELIMITER_LEN
      in copyValue u str valStartPos (valueEnd str valStartPos (of_nat (length valueBuffer))) valueBuffer)"

definition tssFindValueDoubleKey :: "TSSUtils \<Rightarrow> string \<Rightarrow> TSSKeyData list \<Rightarrow> nat \<Rightarrow> string \<Rightarrow> (int \<times> string) option" where
  "tssFindValueDoubleKey u str keys keyIndex valueBuffer =
     (let other = keys ! tssGetOtherKeyIndex keyIndex;
          valStartPos = tk_delimPos (keys ! keyIndex) + TSS_KEY_DELIMITER_LEN;
          valEndPos = valueEnd str valStartPos (of_nat (length valueBuffer));
          valEndPos' = (if valEndPos \<ge> tk_startPos other \<and> valEndPos \<le> tk_endPos other then tk_startPos other - 3 else valEndPos)
      in copyValue u str valStartPos valEndPos' valueBuffer)"

definition tssFindValueForKey :: "TSSUtils \<Rightarrow> string \<Rightarrow> TSSKeyData list \<Rightarrow> nat \<Rightarrow> int \<Rightarrow> string \<Rightarrow> (int \<times> string) option" where
  "tssFindValueForKey u str keys keyIndex numberOfKeys valueBuffer =
     (if numberOfKeys = 1 then tssFindValueSingleKey u str keys keyIndex valueBuffer
      else if numberOfKeys = 2 then tssFindValueDoubleKey u str keys keyIndex valueBuffer
      else Some (- 1, valueBuffer))"

section \<open>The string functions the parser relies on\<close>

definition occurs_at :: "string \<Rightarrow> string \<Rightarrow> nat \<Rightarrow> bool" where
  "occurs_at str s i \<longleftrightarrow> take (length s) (drop i str) = s"

text \<open>
  \<open>indexOfString\<close> finds the first occurrence, \<open>lastIndexOfString\<close> the last one, and \<open>padWithSpaces\<close> replaces
  the NUL characters behind a text.
\<close>

definition utils_ok :: "TSSUtils \<Rightarrow> bool" where
  "utils_ok u \<longleftrightarrow>
     (\<forall>str s n i. s \<noteq> [] \<longrightarrow> (tu_indexOfString u str s n = int i \<longleftrightarrow>
        n \<le> i \<and> occurs_at str s i \<and> (\<forall>j. n \<le> j \<and> j < i \<longrightarrow> \<not> occurs_at str s j))) \<and>
     (\<forall>str s i. s \<noteq> [] \<longrightarrow> (tu_lastIndexOfString u str s = int i \<longleftrightarrow>
        occurs_at str s i \<and> (\<forall>j. i < j \<longrightarrow> \<not> occurs_at str s j))) \<and>
     (\<forall>v n. nul \<notin> set v \<longrightarrow> tu_padWithSpaces u (v @ replicate n nul) = v @ replicate n (CHR '' ''))"

lemma index_iff:
  "utils_ok u \<Longrightarrow> s \<noteq> [] \<Longrightarrow> tu_indexOfString u str s n = int i \<longleftrightarrow>
     n \<le> i \<and> occurs_at str s i \<and> (\<forall>j. n \<le> j \<and> j < i \<longrightarrow> \<not> occurs_at str s j)"
  by (simp add: utils_ok_def)

lemma pad_iff: "utils_ok u \<Longrightarrow> nul \<notin> set v \<Longrightarrow> tu_padWithSpaces u (v @ replicate n nul) = v @ replicate n (CHR '' '')"
  by (simp add: utils_ok_def)

lemma delimiter_occurs: "delimiter_at str i = occurs_at str TSS_KEY_DELIMITER i"
  by (simp add: delimiter_at_def occurs_at_def)

lemma occurs_bound: "occurs_at str s i \<Longrightarrow> s \<noteq> [] \<Longrightarrow> i + length s \<le> length str"
  unfolding occurs_at_def
  by (drule arg_cong [of _ _ length], cases "i \<le> length str") (auto simp: min_def split: if_splits)

lemma delimiter_bound: "delimiter_at str i \<Longrightarrow> i + 3 \<le> length str"
  using occurs_bound [of str TSS_KEY_DELIMITER i] by (simp add: delimiter_occurs TSS_KEY_DELIMITER_def)

lemma findNumberOfKeys_loop_count:
  "findNumberOfKeys_loop str pos c = c + int (length (filter (delimiter_at str) [pos..<length str]))"
proof (induction str pos c rule: findNumberOfKeys_loop.induct)
  case (1 str pos c)
  show ?case
  proof (cases "int pos \<le> int (length str) - int (length TSS_KEY_DELIMITER)")
    case True
    then have "pos < length str" by (simp add: TSS_KEY_DELIMITER_def)
    with True 1 show ?thesis
      by (subst findNumberOfKeys_loop.simps) (simp add: upt_conv_Cons)
  next
    case False
    then have "\<not> delimiter_at str i" if "pos \<le> i" for i
      using delimiter_bound [of str i] that by (auto simp: TSS_KEY_DELIMITER_def)
    then have "filter (delimiter_at str) [pos..<length str] = []" by (simp add: filter_empty_conv)
    with False show ?thesis by (subst findNumberOfKeys_loop.simps) simp
  qed
qed

lemma filter_single: "d < n \<Longrightarrow> filter (\<lambda>i. i = d) [0..<n] = [d]"
  by (induction n) (auto simp: less_Suc_eq filter_empty_conv)

lemma one_key:
  assumes "\<And>i. delimiter_at str i \<longleftrightarrow> i = d"
  shows "tssFindNumberOfKeys str 0 = 1"
proof -
  have "d + 3 \<le> length str" using assms delimiter_bound by blast
  moreover have "filter (delimiter_at str) [0..<length str] = [d]"
    using filter_single [of d "length str"] \<open>d + 3 \<le> length str\<close> by (simp add: assms cong: filter_cong)
  ultimately show ?thesis
    by (simp add: tssFindNumberOfKeys_def findNumberOfKeys_loop_count TSS_KEY_DELIMITER_def)
qed

text \<open>Words and numbers below the sign bit.\<close>

lemma unat_of_nat32: "n < 2 ^ 32 \<Longrightarrow> unat (of_nat n :: 32 word) = n"
  by (simp add: unsigned_of_nat take_bit_nat_eq_self)

lemma sint_of_nat32: "n < 2 ^ 31 \<Longrightarrow> sint (of_nat n :: 32 word) = int n"
  by (simp add: signed_of_nat signed_take_bit_int_eq_self)

lemma le_of_nat32: "m < 2 ^ 32 \<Longrightarrow> n < 2 ^ 32 \<Longrightarrow> (of_nat m :: 32 word) \<le> of_nat n \<longleftrightarrow> m \<le> n"
  by (simp add: word_le_nat_alt unat_of_nat32)

lemma minus_of_nat32: "k \<le> n \<Longrightarrow> (of_nat n :: 32 word) - of_nat k = of_nat (n - k)"
  by (simp add: of_nat_diff)

section \<open>Values\<close>

lemma value_length:
  fixes str :: string and buf :: string
  assumes "s \<le> length str" and "0 < s" and "length str < 2 ^ 31" and "length buf < 2 ^ 31"
  shows "valueEnd str (of_nat s) (of_nat (length buf)) - of_nat s + 1 =
     of_nat (if length str \<le> s + length buf + 1 then length str - s else length buf)"
proof -
  have one: "(of_nat (length str) :: 32 word) - 1 = of_nat (length str - 1)"
    using assms minus_of_nat32 [of 1 "length str"] by simp
  have two: "(of_nat s :: 32 word) + of_nat (length buf) = of_nat (s + length buf)" by simp
  have c: "(of_nat (length str) :: 32 word) - 1 \<le> of_nat s + of_nat (length buf) \<longleftrightarrow> length str - 1 \<le> s + length buf"
    unfolding one two using assms by (intro le_of_nat32) simp_all
  obtain n where n: "length str = Suc n" using assms(1,2) by (cases "length str") auto
  have "(of_nat n :: 32 word) - of_nat s + 1 = of_nat (Suc n) - of_nat s" by simp
  then have t: "(of_nat (length str - 1) :: 32 word) - of_nat s + 1 = of_nat (length str - s)"
    using minus_of_nat32 [OF assms(1)] n by (simp add: algebra_simps)
  show ?thesis
  proof (cases "length str - 1 \<le> s + length buf")
    case True
    then have "valueEnd str (of_nat s) (of_nat (length buf)) = of_nat (length str - 1)"
      using c unfolding valueEnd_def Let_def one by simp
    moreover have "length str \<le> s + length buf + 1" using True by linarith
    ultimately show ?thesis using t by simp
  next
    case False
    then have "valueEnd str (of_nat s) (of_nat (length buf)) = of_nat s + of_nat (length buf) - 1"
      using c unfolding valueEnd_def Let_def one by simp
    moreover have "\<not> length str \<le> s + length buf + 1" using False by linarith
    ultimately show ?thesis by simp
  qed
qed

lemma copyValue_single:
  fixes str :: string and buf :: string
  assumes "s \<le> length str" and "0 < s" and "length str < 2 ^ 31" and "length buf < 2 ^ 31"
  shows "copyValue u str (of_nat s) (valueEnd str (of_nat s) (of_nat (length buf))) buf =
     (let rest = length str - s
      in if rest = length buf + 1 then Some (- 1, buf)
         else let n = min rest (length buf) in Some (0, tu_padWithSpaces u (take n (drop s str) @ drop n buf)))"
proof -
  let ?n = "if length str \<le> s + length buf + 1 then length str - s else length buf"
  have n: "?n < 2 ^ 31" using assms by auto
  have le: "\<not> (of_nat ?n :: 32 word) > of_nat (length buf) \<longleftrightarrow> ?n \<le> length buf"
    unfolding not_less using n assms(4) by (intro le_of_nat32) simp_all
  have u: "unat (of_nat ?n :: 32 word) = ?n" "unat (of_nat s :: 32 word) = s"
    using n assms by (auto simp: unat_of_nat32)
  have b: "\<not> s + ?n > length str" using assms(1) by auto
  have "length str - s = length buf + 1 \<longleftrightarrow> \<not> ?n \<le> length buf" using assms(1) by auto
  moreover have "length str - s \<noteq> length buf + 1 \<Longrightarrow> ?n = min (length str - s) (length buf)" using assms(1) by auto
  ultimately show ?thesis
    unfolding copyValue_def value_length [OF assms] Let_def u using le b by (cases "?n \<le> length buf") (simp_all only: if_True if_False simp_thms)
qed

text \<open>
  The value of a key that is alone on its line, whose delimiter lies within the line: a value that
  fits the buffer is taken whole and one that is at least two characters too long is cut to the
  buffer's size, but a value that is exactly one character too long is refused. The copy stays within
  the line and the buffer in all cases.
\<close>

theorem single_value_off_by_one:
  assumes "tk_delimPos (keys ! k) = of_nat d" and "d + 3 \<le> length str" and "length str < 2 ^ 31" and "length buf < 2 ^ 31"
  shows "tssFindValueForKey u str keys k 1 buf =
     (let rest = length str - (d + 3)
      in if rest = length buf + 1 then Some (- 1, buf)
         else let n = min rest (length buf) in Some (0, tu_padWithSpaces u (take n (drop (d + 3) str) @ drop n buf)))"
proof -
  have "tk_delimPos (keys ! k) + TSS_KEY_DELIMITER_LEN = of_nat (d + 3)"
    using assms(1) by (simp add: TSS_KEY_DELIMITER_LEN_def)
  then show ?thesis
    using copyValue_single [of "d + 3" str buf u] assms(2-4) by (simp add: tssFindValueForKey_def tssFindValueSingleKey_def)
qed

text \<open>
  On a line with two keys the value of the first one is cut before the second key only when its end,
  by the size of the buffer, falls into the name of the second key. A larger buffer takes the second
  key and its value too, as if there were no second key.
\<close>

lemma double_key_overrun:
  assumes "valueEnd str (tk_delimPos (keys ! 0) + 3) (of_nat (length buf)) > tk_endPos (keys ! 1)"
  shows "tssFindValueForKey u str keys 0 2 buf = tssFindValueForKey u str keys 0 1 buf"
  using assms
  by (auto simp: tssFindValueForKey_def tssFindValueDoubleKey_def tssFindValueSingleKey_def tssGetOtherKeyIndex_def
      TSS_KEY_DELIMITER_LEN_def Let_def)

section \<open>Reading a line back\<close>

text \<open>A line with one key: blanks, the key, the delimiter and the value.\<close>

definition key_line :: "nat \<Rightarrow> string \<Rightarrow> string \<Rightarrow> string" where
  "key_line n key val = replicate n (CHR '' '') @ key @ TSS_KEY_DELIMITER @ val"

definition plain_key :: "string \<Rightarrow> bool" where
  "plain_key key \<longleftrightarrow> key \<noteq> [] \<and> length key \<le> TSS_MAX_KEY_LENGTH \<and> hd key \<noteq> CHR '' '' \<and> last key \<noteq> CHR '' ''"

definition plain_value :: "string \<Rightarrow> bool" where
  "plain_value val \<longleftrightarrow> val \<noteq> [] \<and> last val \<noteq> CHR '' '' \<and> nul \<notin> set val"

definition emptyKey :: TSSKeyData where
  "emptyKey = \<lparr>tk_startPos = 0, tk_endPos = 0, tk_delimPos = 0, tk_keyName = replicate TSS_MAX_KEY_LENGTH nul, tk_keyLength = 0\<rparr>"

lemma key_line_nth:
  fixes key val :: string and n :: nat
  assumes "plain_key key"
  defines "line \<equiv> key_line n key val"
  shows "\<And>i. i < n \<Longrightarrow> line ! i = CHR '' ''" and "line ! n = hd key" and "line ! (n + length key) = CHR '' ''"
    and "line ! (n + length key - 1) = last key" and "n + length key + 3 \<le> length line"
    and "drop (n + length key + 3) line = val" and "take (length key) (drop n line) = key"
    and "length line = n + length key + 3 + length val"
proof -
  obtain c cs where key: "key = c # cs" using assms(1) by (cases key) (auto simp: plain_key_def)
  note d = line_def key_line_def TSS_KEY_DELIMITER_def
  show "\<And>i. i < n \<Longrightarrow> line ! i = CHR '' ''" and "line ! n = hd key" and "line ! (n + length key) = CHR '' ''"
    and "n + length key + 3 \<le> length line" and "take (length key) (drop n line) = key"
    and "length line = n + length key + 3 + length val"
    by (auto simp: d key nth_append)
  have "line = (replicate n (CHR '' '') @ key @ TSS_KEY_DELIMITER) @ val"
    "length (replicate n (CHR '' '') @ key @ TSS_KEY_DELIMITER) = n + length key + 3" by (simp_all add: d)
  then show "drop (n + length key + 3) line = val" by (metis append_eq_conv_conj)
  have "line ! (n + length cs) = (key @ TSS_KEY_DELIMITER @ val) ! length cs" by (simp add: line_def key_line_def nth_append)
  then show "line ! (n + length key - 1) = last key" by (simp add: key nth_append last_conv_nth)
qed

lemma find_upt: "P n \<Longrightarrow> (\<And>j. j < n \<Longrightarrow> \<not> P j) \<Longrightarrow> n < m \<Longrightarrow> find P [0..<m] = Some n"
  by (auto simp: find_Some_iff intro!: exI [of _ n])

lemma key_line_start:
  assumes "plain_key key"
  shows "keyStart (key_line n key val) old = of_nat n"
proof (cases n)
  case 0
  then show ?thesis using key_line_nth(2) [OF assms, where n = 0 and val = val] assms by (simp add: keyStart_def plain_key_def)
next
  case (Suc m)
  have "find (\<lambda>i. key_line n key val ! i \<noteq> CHR '' '') [0..<length (key_line n key val) - 1] = Some n"
    using key_line_nth(1,2,8) [OF assms, where n = n and val = val] assms
    by (intro find_upt) (auto simp: plain_key_def)
  moreover have "key_line n key val ! 0 = CHR '' ''" using key_line_nth(1) [OF assms, where n = n and val = val] Suc by simp
  ultimately show ?thesis by (simp add: keyStart_def)
qed

lemma key_line_end:
  assumes "plain_key key"
  shows "tssFindEndOfKeyReverse (key_line n key val) (n + length key) = int (n + length key - 1)"
proof -
  obtain k where k: "length key = Suc k" using assms by (cases key) (auto simp: plain_key_def)
  have "key_line n key val ! (n + length key - 1) \<noteq> CHR '' ''" "key_line n key val ! (n + length key) = CHR '' ''"
    using key_line_nth(3,4) [OF assms, where n = n and val = val] assms by (auto simp: plain_key_def)
  with k show ?thesis by (cases "n + k") auto
qed

lemma of_nat_not_minus1: "n < 2 ^ 31 \<Longrightarrow> (of_nat n :: 32 word) \<noteq> - 1"
proof
  assume "n < 2 ^ 31" and e: "(of_nat n :: 32 word) = - 1"
  then have "unat (of_nat (Suc n) :: 32 word) = Suc n" by (intro unat_of_nat32) simp
  moreover from e have "(of_nat (Suc n) :: 32 word) = 0" by simp
  ultimately show False by simp
qed

lemma key_line_delimiter: "delimiter_at (key_line n key val) (n + length key)"
  by (simp add: delimiter_at_def key_line_def TSS_KEY_DELIMITER_def)

lemma key_line_single:
  assumes "utils_ok u" and "plain_key key" and "length (key_line n key val) < 2 ^ 31"
    and "\<And>i. delimiter_at (key_line n key val) i \<Longrightarrow> i = n + length key"
  shows "tssFindSingleKey u (key_line n key val) [emptyKey, emptyKey] =
     (0, [emptyKey\<lparr>tk_startPos := of_nat n, tk_endPos := of_nat (n + length key - 1),
            tk_delimPos := of_nat (n + length key), tk_keyLength := int (length key)\<rparr>, emptyKey])"
proof -
  let ?line = "key_line n key val"
  have small: "n + length key < 2 ^ 31" using assms(3) key_line_nth(8) [OF assms(2), where n = n and val = val] by simp
  have index: "tu_indexOfString u ?line TSS_KEY_DELIMITER 0 = int (n + length key)"
  proof (subst index_iff [OF assms(1)])
    show "TSS_KEY_DELIMITER \<noteq> []" by (simp add: TSS_KEY_DELIMITER_def)
    show "0 \<le> n + length key \<and> occurs_at ?line TSS_KEY_DELIMITER (n + length key) \<and>
        (\<forall>j. 0 \<le> j \<and> j < n + length key \<longrightarrow> \<not> occurs_at ?line TSS_KEY_DELIMITER j)"
      using key_line_delimiter assms(4) by (fastforce simp: delimiter_occurs)
  qed
  obtain m where m: "length key = Suc m" using assms(2) by (cases key) (auto simp: plain_key_def)
  obtain d where d: "n + length key = d" by simp
  have len: "keyLen (emptyKey\<lparr>tk_startPos := of_nat n, tk_delimPos := w, tk_endPos := of_nat (d - 1)\<rparr>) = int (length key)" for w
    using small sint_of_nat32 [of "Suc m"] m by (simp add: keyLen_def add.commute flip: d)
  have "\<not> int (length key) > int TSS_MAX_KEY_LENGTH" using assms(2) by (simp add: plain_key_def)
  moreover have "(of_nat n :: 32 word) \<noteq> - 1" using small by (intro of_nat_not_minus1) simp
  moreover have "tssFindEndOfKeyReverse ?line d = int (d - 1)" using key_line_end [OF assms(2), of n val] unfolding d .
  ultimately show ?thesis
    using len unfolding tssFindSingleKey_def index d
    by (simp add: key_line_start [OF assms(2)] Let_def)
qed

lemma actualLength_blanks:
  "v \<noteq> [] \<Longrightarrow> last v \<noteq> CHR '' '' \<Longrightarrow> last v \<noteq> nul \<Longrightarrow>
     actualLength_loop (v @ replicate n (CHR '' '')) (length v + m) = int (length v)" if "m \<le> n" for m
  using that
proof (induction m)
  case 0
  obtain k where "length v = Suc k" using 0 by (cases v) auto
  with 0 show ?case by (simp add: nth_append last_conv_nth)
next
  case (Suc m)
  then show ?case by (simp add: nth_append)
qed

text \<open>
  C21. A line that Top Secret prints for one key is read back: from blanks, a key of at most ten
  characters, the delimiter and a value, the parser finds one key with this name, which a search for
  the name finds at index 0, and its value, padded with blanks to the size of the buffer, in which the
  length of the value without the padding is the one printed. This holds for values up to the size of
  the buffer.
\<close>

theorem key_line_roundtrip:
  assumes "utils_ok u" and "plain_key key" and "plain_value val" and "length val \<le> size_of_buffer"
    and "length (key_line n key val) < 2 ^ 31" and "size_of_buffer < 2 ^ 31"
    and "\<forall>i. delimiter_at (key_line n key val) i \<longrightarrow> i = n + length key"
  shows "\<exists>keys. tssParseLineForKeys u (key_line n key val) [emptyKey, emptyKey] = Some (1, keys) \<and>
     tssFindDesiredKey key keys = 0 \<and>
     tssFindValueForKey u (key_line n key val) keys 0 1 (replicate size_of_buffer nul) =
       Some (0, val @ replicate (size_of_buffer - length val) (CHR '' '')) \<and>
     tssGetActualValueLength (val @ replicate (size_of_buffer - length val) (CHR '' '')) = int (length val)"
proof -
  let ?line = "key_line n key val" and ?d = "n + length key"
  note line = key_line_nth [OF assms(2), where n = n and val = val]
  let ?k = "emptyKey\<lparr>tk_startPos := of_nat n, tk_endPos := of_nat (?d - 1), tk_delimPos := of_nat ?d, tk_keyLength := int (length key)\<rparr>"
  let ?k' = "?k\<lparr>tk_keyName := key @ drop (length key) (replicate TSS_MAX_KEY_LENGTH nul)\<rparr>"
  have number: "tssFindNumberOfKeys ?line 0 = 1"
    using assms(7) key_line_delimiter by (intro one_key [of _ ?d]) blast
  have "?line ! n \<noteq> CHR '' ''" "n < length ?line" using line(2,8) assms(2) by (auto simp: plain_key_def)
  then have blank: "\<not> tssIsLineBlank ?line" by (auto simp: tssIsLineBlank_def list_all_length)
  have single: "tssFindSingleKey u ?line [emptyKey, emptyKey] = (0, [?k, emptyKey])"
    using key_line_single [OF assms(1,2,5)] assms(7) by blast
  have "unat (of_nat n :: 32 word) = n" using line(8) assms(5) by (intro unat_of_nat32) simp
  then have "copyKeyName ?line ?k = Some ?k'"
    using line(7,8) assms(2) by (simp add: copyKeyName_def plain_key_def emptyKey_def Let_def)
  moreover have "copyKeyName ?line emptyKey = Some emptyKey" by (simp add: copyKeyName_def emptyKey_def)
  ultimately have parse: "tssParseLineForKeys u ?line [emptyKey, emptyKey] = Some (1, [?k', emptyKey])"
    using number blank single by (simp add: tssParseLineForKeys_def tssFindAllPossibleKeys_def tssFindNameForKeys_def)
  have found: "tssFindDesiredKey key [?k', emptyKey] = 0" by (simp add: tssFindDesiredKey_def key_matches_def)
  have "tk_delimPos ([?k', emptyKey] ! 0) + TSS_KEY_DELIMITER_LEN = of_nat (?d + 3)" by (simp add: TSS_KEY_DELIMITER_LEN_def)
  then have "tssFindValueForKey u ?line [?k', emptyKey] 0 1 (replicate size_of_buffer nul) =
      Some (0, tu_padWithSpaces u (val @ replicate (size_of_buffer - length val) nul))"
    using copyValue_single [of "?d + 3" ?line "replicate size_of_buffer nul" u] line(6,8) assms(4-6)
    by (simp add: tssFindValueForKey_def tssFindValueSingleKey_def min_absorb1)
  moreover have "tu_padWithSpaces u (val @ replicate (size_of_buffer - length val) nul) = val @ replicate (size_of_buffer - length val) (CHR '' '')"
    using assms(1,3) by (intro pad_iff) (simp_all add: plain_value_def)
  moreover have "last val \<noteq> nul" using assms(3) by (metis last_in_set plain_value_def)
  then have "tssGetActualValueLength (val @ replicate (size_of_buffer - length val) (CHR '' '')) = int (length val)"
    using actualLength_blanks [OF order_refl, of val "size_of_buffer - length val"] assms(3)
    by (simp add: tssGetActualValueLength_def plain_value_def)
  ultimately show ?thesis using parse found by auto
qed

text \<open>String functions as the parser relies on.\<close>

definition demo_utils :: TSSUtils where
  "demo_utils =
     \<lparr>tu_indexOfString = (\<lambda>str s n. case find (occurs_at str s) [n..<length str] of None \<Rightarrow> - 1 | Some i \<Rightarrow> int i),
      tu_lastIndexOfString = (\<lambda>str s. case find (occurs_at str s) (rev [0..<length str]) of None \<Rightarrow> - 1 | Some i \<Rightarrow> int i),
      tu_padWithSpaces = map (\<lambda>c. if c = nul then CHR '' '' else c)\<rparr>"

lemma occurs_less: "occurs_at str s i \<Longrightarrow> s \<noteq> [] \<Longrightarrow> i < length str"
  using occurs_bound [of str s i] by (cases s) auto

lemma find_sorted_iff:
  assumes "\<And>i. P i \<Longrightarrow> i < m"
  shows "find P [n..<m] = Some i \<longleftrightarrow> n \<le> i \<and> P i \<and> (\<forall>j. n \<le> j \<and> j < i \<longrightarrow> \<not> P j)"
proof
  assume "find P [n..<m] = Some i"
  then obtain k where k: "k < m - n" "P (n + k)" "i = n + k" "\<forall>j<k. \<not> P (n + j)" by (auto simp: find_Some_iff)
  have "\<not> P j" if "n \<le> j" "j < i" for j using k(3,4) that by (metis add_less_cancel_left le_Suc_ex)
  with k show "n \<le> i \<and> P i \<and> (\<forall>j. n \<le> j \<and> j < i \<longrightarrow> \<not> P j)" by auto
next
  assume a: "n \<le> i \<and> P i \<and> (\<forall>j. n \<le> j \<and> j < i \<longrightarrow> \<not> P j)"
  then show "find P [n..<m] = Some i" using assms [of i] by (auto simp: find_Some_iff intro!: exI [of _ "i - n"])
qed

lemma find_rev_iff:
  assumes "\<And>i. P i \<Longrightarrow> i < m"
  shows "find P (rev [0..<m]) = Some i \<longleftrightarrow> P i \<and> (\<forall>j. i < j \<longrightarrow> \<not> P j)"
  using assms
proof (induction m)
  case (Suc m)
  then show ?case
  proof (cases "P m")
    case True
    have "i = m" if "P i" "\<forall>j. i < j \<longrightarrow> \<not> P j" using that True Suc.prems [of i] by (metis less_Suc_eq linorder_neqE_nat not_less_eq)
    moreover have "\<not> P j" if "m < j" for j using that Suc.prems [of j] by auto
    ultimately show ?thesis using True by auto
  next
    case False
    then have "P j \<Longrightarrow> j < m" for j using Suc.prems [of j] by (auto simp: less_Suc_eq)
    with Suc.IH False show ?thesis by simp
  qed
qed auto

lemma demo_utils_ok: "utils_ok demo_utils"
proof -
  have "tu_indexOfString demo_utils str s n = int i \<longleftrightarrow> find (occurs_at str s) [n..<length str] = Some i" for str s n i
    by (auto simp: demo_utils_def split: option.splits)
  moreover have "tu_lastIndexOfString demo_utils str s = int i \<longleftrightarrow> find (occurs_at str s) (rev [0..<length str]) = Some i" for str s i
    by (auto simp: demo_utils_def split: option.splits)
  moreover have "tu_padWithSpaces demo_utils (v @ replicate n nul) = v @ replicate n (CHR '' '')" if "nul \<notin> set v" for v n
    using that by (auto simp: demo_utils_def intro!: map_idI)
  ultimately show ?thesis by (simp add: utils_ok_def find_sorted_iff find_rev_iff occurs_less)
qed

theorem single_value_off_by_one_witness:
  "tssFindValueForKey demo_utils ''NAME = ABCDE'' [emptyKey\<lparr>tk_delimPos := 4\<rparr>, emptyKey] 0 1 (replicate 4 nul) = Some (- 1, replicate 4 nul) \<and>
   tssFindValueForKey demo_utils ''NAME = ABCDE'' [emptyKey\<lparr>tk_delimPos := 4\<rparr>, emptyKey] 0 1 (replicate 3 nul) = Some (0, ''ABC'')"
  using single_value_off_by_one [of "[emptyKey\<lparr>tk_delimPos := 4\<rparr>, emptyKey]" 0 4 "''NAME = ABCDE''" "replicate 4 nul" demo_utils]
    single_value_off_by_one [of "[emptyKey\<lparr>tk_delimPos := 4\<rparr>, emptyKey]" 0 4 "''NAME = ABCDE''" "replicate 3 nul" demo_utils]
  by (simp add: demo_utils_def nul_def Let_def)

theorem key_line_roundtrip_witness:
  "\<exists>keys. tssParseLineForKeys demo_utils ''  DEPT ACID = SALES'' [emptyKey, emptyKey] = Some (1, keys) \<and>
     tssFindDesiredKey ''DEPT ACID'' keys = 0 \<and>
     tssFindValueForKey demo_utils ''  DEPT ACID = SALES'' keys 0 1 (replicate 8 nul) = Some (0, ''SALES   '')"
proof -
  have line: "key_line 2 ''DEPT ACID'' ''SALES'' = ''  DEPT ACID = SALES''"
    by (simp add: key_line_def TSS_KEY_DELIMITER_def numeral_2_eq_2)
  have "list_all (\<lambda>i. delimiter_at ''  DEPT ACID = SALES'' i \<longrightarrow> i = 11) [0..<19]"
    by (simp add: upt_rec delimiter_at_def TSS_KEY_DELIMITER_def)
  then have "\<forall>i. delimiter_at ''  DEPT ACID = SALES'' i \<longrightarrow> i = 11"
    using delimiter_bound [of "''  DEPT ACID = SALES''"] unfolding list_all_iff by fastforce
  then have d: "\<forall>i. delimiter_at (key_line 2 ''DEPT ACID'' ''SALES'') i \<longrightarrow> i = 2 + length ''DEPT ACID''" by (simp add: line)
  have kv: "plain_key ''DEPT ACID''" "plain_value ''SALES''"
    by (simp_all add: plain_key_def plain_value_def TSS_MAX_KEY_LENGTH_def nul_def)
  have r: "''SALES'' @ replicate (8 - length ''SALES'') (CHR '' '') = ''SALES   ''" by (simp add: eval_nat_numeral)
  have "length ''SALES'' \<le> 8" "length (key_line 2 ''DEPT ACID'' ''SALES'') < 2 ^ 31" "(8 :: nat) < 2 ^ 31" by (simp_all add: line)
  from key_line_roundtrip [OF demo_utils_ok kv this d] show ?thesis unfolding line r by blast
qed

end
