(* ===== verification/TSS_Secmgmt.thy ===== *)
theory TSS_Secmgmt
  imports ZIS_Secmgmt TSS_Parsing
begin

text \<open>
  Security management for Top Secret (src/c/zis/services/secmgmttss.c): the services of secmgmt.c for a
  system whose security manager is Top Secret. They run TSS commands through R_admin and parse their
  output with the functions of tssparsing.c.

  R_admin is a parameter: for a command it either fails without running it, or calls the handler with a
  status and the output, a chain of blocks of lines, and turns the handler's code into a return code
  and a reason code. A read behind the end of a line or of the output, a write behind the end of a
  buffer and the use of a NULL pointer are faults, which are results of their own. Messages for the
  debugging log and the release of the temporary buffers are left out.
\<close>

section \<open>Output of a command\<close>

datatype tss_fault = OverRead | BufferOverflow | NullPointer

record RadminCommandOutput =
  ro_lastByteOffset :: nat
  ro_lines :: "string list"

text \<open>
  Where a handler is: the offset in the block and its last one, the lines from the current one on, and
  the blocks behind it. The loops of the handlers have one shape, over the lines of a block while the
  offset is below the last one and over the blocks; the offset is advanced by the line's length and
  the two bytes in front of it. A line is handled by going on, by returning a code, or not at all.
\<close>

record Cursor =
  cu_offset :: nat
  cu_last :: nat
  cu_lines :: "string list"
  cu_next :: "RadminCommandOutput list"

definition firstLine :: "RadminCommandOutput \<Rightarrow> RadminCommandOutput list \<Rightarrow> Cursor" where
  "firstLine b bs = \<lparr>cu_offset = 16, cu_last = ro_lastByteOffset b, cu_lines = ro_lines b, cu_next = bs\<rparr>"

datatype 's step = Go 's | Done rc 's | Fault tss_fault

definition remaining :: "Cursor \<Rightarrow> nat" where
  "remaining c = length (cu_lines c) + sum_list (map (\<lambda>b. Suc (length (ro_lines b))) (cu_next c))"

function walk :: "(Cursor \<Rightarrow> string \<Rightarrow> 's \<Rightarrow> 's step) \<Rightarrow> ('s \<Rightarrow> 's) \<Rightarrow> Cursor \<Rightarrow> 's \<Rightarrow> 's step" where
  "walk f enter c s =
     (if cu_offset c < cu_last c
      then case cu_lines c of
             [] \<Rightarrow> Fault OverRead
           | l # ls \<Rightarrow>
               (case f c l s of
                  Go s' \<Rightarrow> walk f enter (c\<lparr>cu_offset := cu_offset c + length l + 2, cu_lines := ls\<rparr>) s'
                | r \<Rightarrow> r)
      else case cu_next c of [] \<Rightarrow> Go s | b # bs \<Rightarrow> walk f enter (firstLine b bs) (enter s))"
  by pat_completeness auto
termination by (relation "measure (\<lambda>(f, enter, c, s). remaining c)") (auto simp: remaining_def firstLine_def)

declare walk.simps [simp del]

type_synonym 'p handler = "SAFAuthStatus \<Rightarrow> RadminCommandOutput list \<Rightarrow> 'p \<Rightarrow> tss_fault + rc \<times> 'p"

text \<open>The end of a handler: it returns 0 when the output ends without a code.\<close>

definition returned :: "('s \<Rightarrow> 'p) \<Rightarrow> 's step \<Rightarrow> tss_fault + rc \<times> 'p" where
  "returned f r = (case r of Go s \<Rightarrow> Inr (0, f s) | Done rcode s \<Rightarrow> Inr (rcode, f s) | Fault e \<Rightarrow> Inl e)"

text \<open>The start of a handler: the status, no output, an error message in the first line.\<close>

definition openOutput :: "(Cursor \<Rightarrow> tss_fault + rc \<times> 'p) \<Rightarrow> 'p handler" where
  "openOutput k status result parms =
     (if ss_racfRC status \<noteq> 0 then Inr (ss_racfRC status, parms)
      else case result of
        [] \<Rightarrow> Inr (0, parms)
      | b # bs \<Rightarrow>
          (case ro_lines b of
             [] \<Rightarrow> Inl OverRead
           | l # _ \<Rightarrow> if tssIsErrorDetected l then Inr (- 1, parms) else k (firstLine b bs)))"

section \<open>Keys and values in a line\<close>

definition TSS_MAX_VALUE_LEN :: nat where "TSS_MAX_VALUE_LEN = 255"
definition TSS_SERVICE_MSG_MAX_LEN :: nat where "TSS_SERVICE_MSG_MAX_LEN = 17"
definition TSS_COMMAND_FAILURE :: string where "TSS_COMMAND_FAILURE = ''TSS0301I''"
definition TSS_ADMIN_INDICATORS :: "string list" where
  "TSS_ADMIN_INDICATORS = [''-MS'', ''-SC'', ''-LC'', ''-ZC'', ''-VC'', ''-DC'']"

abbreviation (input) TSS_ACCESSOR_ID_KEY :: string where "TSS_ACCESSOR_ID_KEY \<equiv> ''ACCESSORID''"
abbreviation (input) TSS_DEFAULT_GROUP_KEY :: string where "TSS_DEFAULT_GROUP_KEY \<equiv> ''DFLTGRP''"
abbreviation (input) TSS_NAME_KEY :: string where "TSS_NAME_KEY \<equiv> ''NAME''"
abbreviation (input) TSS_DEPARTMENT_KEY :: string where "TSS_DEPARTMENT_KEY \<equiv> ''DEPT ACID''"
abbreviation (input) TSS_OWNER_KEY :: string where "TSS_OWNER_KEY \<equiv> ''OWNER(''"
abbreviation (input) TSS_XAUTH_KEY :: string where "TSS_XAUTH_KEY \<equiv> ''XAUTH''"
abbreviation (input) TSS_ACID_KEY :: string where "TSS_ACID_KEY \<equiv> ''ACID(''"
abbreviation (input) TSS_ACCESS_KEY :: string where "TSS_ACCESS_KEY \<equiv> ''ACCESS''"
abbreviation (input) TSS_ACIDS_KEY :: string where "TSS_ACIDS_KEY \<equiv> ''ACIDS''"
abbreviation (input) TSS_PROFILE_KEY :: string where "TSS_PROFILE_KEY \<equiv> ''PROFILES''"

definition zeros :: "nat \<Rightarrow> string" where "zeros n = replicate n nul"

text \<open>The keys of a line, for which \<open>k\<close> goes on; a line without valid keys ends the handler with -1.\<close>

definition parseLine :: "TSSUtils \<Rightarrow> string \<Rightarrow> (int \<Rightarrow> TSSKeyData list \<Rightarrow> 's step) \<Rightarrow> 's \<Rightarrow> 's step" where
  "parseLine u l k s =
     (case tssParseLineForKeys u l [emptyKey, emptyKey] of
        None \<Rightarrow> Fault OverRead
      | Some (numberOfKeys, keys) \<Rightarrow> if numberOfKeys = - 1 then Done (- 1) s else k numberOfKeys keys)"

text \<open>The value of a key in the first \<open>len\<close> characters of the line; \<open>len\<close> is unsigned in the parser.\<close>

definition valueOf :: "TSSUtils \<Rightarrow> string \<Rightarrow> int \<Rightarrow> TSSKeyData list \<Rightarrow> int \<Rightarrow> int \<Rightarrow> string \<Rightarrow> (int \<times> string) option" where
  "valueOf u l len keys keyIndex numberOfKeys buf =
     (if len < 0 then None else tssFindValueForKey u (take (nat len) l) keys (nat keyIndex) numberOfKeys buf)"

text \<open>A key that may be on the line: its value replaces the buffer; -1 when it cannot be read.\<close>

definition readField ::
    "TSSUtils \<Rightarrow> string \<Rightarrow> TSSKeyData list \<Rightarrow> int \<Rightarrow> string \<Rightarrow> string \<Rightarrow> (string \<Rightarrow> 's step) \<Rightarrow> 's \<Rightarrow> 's step" where
  "readField u l keys numberOfKeys key buf k s =
     (let keyIndex = tssFindDesiredKey key keys
      in if keyIndex = - 1 then k buf
         else case valueOf u l (int (length l)) keys keyIndex numberOfKeys buf of
                None \<Rightarrow> Fault OverRead
              | Some (status, v) \<Rightarrow> if status = - 1 then Done (- 1) s else k v)"

text \<open>\<open>memcpy\<close> of \<open>n\<close> characters of a line.\<close>

definition copyFromLine :: "string \<Rightarrow> nat \<Rightarrow> nat \<Rightarrow> string option" where
  "copyFromLine l i n = (if i + n \<le> length l then Some (take n (drop i l)) else None)"

text \<open>The store of an entry into the temporary buffer.\<close>

definition storeEntry :: "nat \<Rightarrow> 'e \<Rightarrow> 'e list \<Rightarrow> ('e list \<Rightarrow> 's step) \<Rightarrow> 's step" where
  "storeEntry i e buf k = (if i < length buf then k (buf[i := e]) else Fault BufferOverflow)"

text \<open>
  \<open>findLineOfStart\<close> on the lines of a block: the lines from the one on whose value is the start value,
  or none, and the offset it has got to.
\<close>

fun findLineOfStart ::
    "TSSUtils \<Rightarrow> string \<Rightarrow> string \<Rightarrow> nat \<Rightarrow> nat \<Rightarrow> nat \<Rightarrow> string list \<Rightarrow> tss_fault + string list option \<times> nat" where
  "findLineOfStart u key val maxLength offset lastByte [] =
     (if maxLength > TSS_MAX_VALUE_LEN \<or> \<not> offset < lastByte then Inr (None, offset) else Inl OverRead)"
| "findLineOfStart u key val maxLength offset lastByte (l # ls) =
     (if maxLength > TSS_MAX_VALUE_LEN \<or> \<not> offset < lastByte then Inr (None, offset)
      else if tssIsOutputDone l then Inr (None, offset)
      else case tssParseLineForKeys u l [emptyKey, emptyKey] of
        None \<Rightarrow> Inl OverRead
      | Some (numberOfKeys, keys) \<Rightarrow>
          (let keyIndex = tssFindDesiredKey key keys
           in if numberOfKeys = - 1 then Inr (None, offset)
              else if numberOfKeys = 0 \<or> keyIndex = - 1
              then findLineOfStart u key val maxLength (offset + length l + 2) lastByte ls
              else case valueOf u l (int (length l)) keys keyIndex numberOfKeys (zeros maxLength) of
                     None \<Rightarrow> Inl OverRead
                   | Some (status, v) \<Rightarrow>
                       (let tmpBuffer = v @ zeros (TSS_MAX_VALUE_LEN - maxLength);
                            valueLen = tssGetActualValueLength tmpBuffer
                        in if status = - 1 then Inr (None, offset)
                           else if valueLen = - 1 then Inr (None, offset)
                           else if valueLen = int (length val) \<and> take (length val) tmpBuffer = val
                           then Inr (Some (l # ls), offset)
                           else findLineOfStart u key val maxLength (offset + length l + 2) lastByte ls)))"

text \<open>
  The search for a start name over the blocks, as the handlers for users and groups make it: the offset
  is not set back at a new block.
\<close>

fun findStart ::
    "TSSUtils \<Rightarrow> string \<Rightarrow> string \<Rightarrow> nat \<Rightarrow> nat \<Rightarrow> RadminCommandOutput list \<Rightarrow> tss_fault + Cursor option" where
  "findStart u key val maxLength offset [] = Inr None"
| "findStart u key val maxLength offset (b # bs) =
     (case findLineOfStart u key val maxLength offset (ro_lastByteOffset b) (ro_lines b) of
        Inl e \<Rightarrow> Inl e
      | Inr (Some ls, offset') \<Rightarrow> Inr (Some \<lparr>cu_offset = offset', cu_last = ro_lastByteOffset b, cu_lines = ls, cu_next = bs\<rparr>)
      | Inr (None, offset') \<Rightarrow> findStart u key val maxLength offset' bs)"

definition startAt ::
    "TSSUtils \<Rightarrow> string \<Rightarrow> string option \<Rightarrow> nat \<Rightarrow> RadminCommandOutput list \<Rightarrow> Cursor \<Rightarrow> tss_fault + Cursor option" where
  "startAt u key startName maxLength result c =
     (case startName of None \<Rightarrow> Inr (Some c) | Some n \<Rightarrow> findStart u key n maxLength (cu_offset c) result)"

section \<open>R_admin\<close>

record RadminStatus =
  rm_rc :: rc
  rm_reasonCode :: rc
  rm_apiStatus :: SAFAuthStatus

datatype TssAnswer = NotRun RadminStatus | Ran SAFAuthStatus "RadminCommandOutput list"

text \<open>
  The environment: the caller, the configuration and the allocation as for RACF; the string functions;
  the answers of R_admin and the codes it returns behind a handler; what lies behind a string literal
  in storage and in a local variable that is not initialised.
\<close>

record TssEnv =
  te_sec :: SecEnv
  te_utils :: TSSUtils
  te_run :: "RadminRequest list \<Rightarrow> RadminRequest \<Rightarrow> TssAnswer"
  te_userRC :: "rc \<Rightarrow> rc \<times> rc"
  te_RC_RADMIN_NONZERO_USER_RC :: rc
  te_afterLiteral :: "string \<Rightarrow> string"
  te_uninitialized :: string
  te_nullTerminate :: "string \<Rightarrow> string"
  te_stale :: "RadminRequest list \<Rightarrow> Cursor \<Rightarrow> Cursor option"

definition radminRunRACFCommand ::
    "TssEnv \<Rightarrow> SizedField \<Rightarrow> string \<Rightarrow> 'p handler \<Rightarrow> 'p \<Rightarrow> RadminRequest list
     \<Rightarrow> tss_fault + RadminStatus \<times> 'p \<times> RadminRequest list" where
  "radminRunRACFCommand env caller command handler parms log =
     (let req = RunRACFCommand caller command
      in case te_run env log req of
           NotRun st \<Rightarrow> Inr (st, parms, req # log)
         | Ran apiStatus result \<Rightarrow>
             (case handler apiStatus result parms of
                Inl e \<Rightarrow> Inl e
              | Inr (userRC, parms') \<Rightarrow>
                  (let (r, rsn) = te_userRC env userRC
                   in Inr (\<lparr>rm_rc = r, rm_reasonCode = rsn, rm_apiStatus = apiStatus\<rparr>, parms', req # log))))"

definition tss_failed :: "RadminStatus \<Rightarrow> 'a SecParmList_scheme \<Rightarrow> 'a SecParmList_scheme" where
  "tss_failed r parm =
     parm\<lparr>pl_internalServiceRC := rm_rc r, pl_internalServiceRSN := rm_reasonCode r, pl_safStatus := rm_apiStatus r\<rparr>"

type_synonym ('pl, 'e) tss_result = "tss_fault + ('pl, 'e) sec_result"

text \<open>The copies to the client: the first entries of the temporary buffer, field by field.\<close>

definition copyEntries :: "'e list \<Rightarrow> nat \<Rightarrow> 'e list" where
  "copyEntries src n = take n src"

section \<open>Users\<close>

definition emptyUser :: ZISUserProfileEntry where
  "emptyUser = \<lparr>ue_userID = zeros 8, ue_defaultGroup = zeros 8, ue_name = zeros 32\<rparr>"

record TSSUserProfileParms =
  tup_tmpResultBuffer :: "ZISUserProfileEntry list"
  tup_profilesExtracted :: nat
  tup_profilesToExtract :: nat
  tup_startUserID :: "string option"
  tup_startIndex :: nat

text \<open>One line; the state has the entry that is being filled and the number of entries stored.\<close>

definition userLine ::
    "TSSUtils \<Rightarrow> Cursor \<Rightarrow> string \<Rightarrow> TSSUserProfileParms \<times> ZISUserProfileEntry \<times> nat
     \<Rightarrow> (TSSUserProfileParms \<times> ZISUserProfileEntry \<times> nat) step" where
  "userLine u c l s =
     (let (parms, entry, numExtracted) = s
      in if numExtracted = tup_profilesToExtract parms \<or> tssIsOutputDone l
         then Done 0 (parms\<lparr>tup_profilesExtracted := numExtracted\<rparr>, entry, numExtracted)
         else parseLine u l (\<lambda>numberOfKeys keys.
           if numberOfKeys = 0
           then storeEntry numExtracted entry (tup_tmpResultBuffer parms)
                  (\<lambda>buf. Go (parms\<lparr>tup_tmpResultBuffer := buf\<rparr>, emptyUser, numExtracted + 1))
           else readField u l keys numberOfKeys TSS_ACCESSOR_ID_KEY (ue_userID entry) (\<lambda>userID.
                readField u l keys numberOfKeys TSS_NAME_KEY (ue_name entry) (\<lambda>name.
                readField u l keys numberOfKeys TSS_DEFAULT_GROUP_KEY (ue_defaultGroup entry) (\<lambda>grp.
                  Go (parms, \<lparr>ue_userID = userID, ue_defaultGroup = grp, ue_name = name\<rparr>, numExtracted)) s) s) s) s)"

definition userProfilesHandler :: "TSSUtils \<Rightarrow> TSSUserProfileParms handler" where
  "userProfilesHandler u status result parms =
     openOutput (\<lambda>c.
       case startAt u TSS_ACCESSOR_ID_KEY (tup_startUserID parms) ZIS_USER_ID_MAX_LENGTH result c of
         Inl e \<Rightarrow> Inl e
       | Inr None \<Rightarrow> Inr (0, parms)
       | Inr (Some c') \<Rightarrow> returned fst (walk (userLine u) id c' (parms, emptyUser, tup_startIndex parms)))
     status result parms"

text \<open>
  \<open>getAllUsers\<close>: one command for each type of user; the next one goes on behind the entries stored, unless
  the buffer is full.
\<close>

fun getUsers ::
    "TssEnv \<Rightarrow> SizedField \<Rightarrow> string list \<Rightarrow> TSSUserProfileParms \<Rightarrow> RadminStatus \<Rightarrow> RadminRequest list
     \<Rightarrow> tss_fault + RadminStatus \<times> TSSUserProfileParms \<times> RadminRequest list" where
  "getUsers env caller [] parms st log = Inr (st, parms, log)"
| "getUsers env caller (t # ts) parms st log =
     (case radminRunRACFCommand env caller (''TSS LIST(ACIDS) TYPE('' @ t @ '')'') (userProfilesHandler (te_utils env)) parms log of
        Inl e \<Rightarrow> Inl e
      | Inr (st', parms', log') \<Rightarrow>
          (let parms1 = parms'\<lparr>tup_startIndex := tup_profilesExtracted parms'\<rparr>
           in if rm_rc st' \<noteq> 0 then Inr (st', parms', log')
              else if ts = [] then Inr (st', parms', log')
              else if tup_startIndex parms1 \<ge> tup_profilesToExtract parms1 then Inr (st', parms1, log')
              else getUsers env caller ts parms1 st' log'))"

definition TSS_USER_TYPES :: "string list" where
  "TSS_USER_TYPES = [''USER'', ''DCA'', ''VCA'', ''ZCA'', ''LSCA'', ''SCA'']"

definition emptyStatus :: RadminStatus where
  "emptyStatus = \<lparr>rm_rc = 0, rm_reasonCode = 0, rm_apiStatus = \<lparr>ss_safRC = 0, ss_racfRC = 0, ss_racfRSN = 0\<rparr>\<rparr>"

definition getAllUsers ::
    "TssEnv \<Rightarrow> SizedField \<Rightarrow> TSSUserProfileParms \<Rightarrow> RadminRequest list
     \<Rightarrow> tss_fault + RadminStatus \<times> TSSUserProfileParms \<times> RadminRequest list" where
  "getAllUsers env caller parms log = getUsers env caller TSS_USER_TYPES parms emptyStatus log"

definition zisUserProfilesServiceFunctionTSS ::
    "TssEnv \<Rightarrow> ZISUserProfileServiceParmList option \<Rightarrow> RadminRequest list
     \<Rightarrow> (ZISUserProfileServiceParmList, ZISUserProfileEntry) tss_result" where
  "zisUserProfilesServiceFunctionTSS env parm log =
     (case parm of
        None \<Rightarrow> Inr (8, None, [], log)
      | Some local \<Rightarrow>
          (let parmValidateRC = validateUserProfileParmList local; n = unat (up_profilesToExtract local)
           in if parmValidateRC \<noteq> 0 then Inr (parmValidateRC, Some local, [], log)
              else case secmgmtGetCallerUserID (te_sec env) of
                None \<Rightarrow> Inr (13, Some local, [], log)
              | Some caller \<Rightarrow>
                  (if \<not> se_safeMalloc64 (te_sec env) ''ZISUserProfileEntry'' (up_profilesToExtract local)
                   then Inr (15, Some local, [], log)
                   else case getAllUsers env caller
                          \<lparr>tup_tmpResultBuffer = replicate n emptyUser, tup_profilesExtracted = 0, tup_profilesToExtract = n,
                           tup_startUserID = start_name (up_startUserID local), tup_startIndex = 0\<rparr> log of
                     Inl e \<Rightarrow> Inl e
                   | Inr (st, parms, log') \<Rightarrow>
                       (let radminExtractRC = (if tup_profilesExtracted parms = 0 \<and> rm_rc st = 0
                                               then te_RC_RADMIN_NONZERO_USER_RC env else rm_rc st)
                        in if radminExtractRC = 0
                           then Inr (0, Some (local\<lparr>up_profilesExtracted := of_nat (tup_profilesExtracted parms)\<rparr>),
                                     copyEntries (tup_tmpResultBuffer parms) (tup_profilesExtracted parms), log')
                           else Inr (14, Some (tss_failed (st\<lparr>rm_rc := radminExtractRC\<rparr>) local), [], log')))))"

section \<open>Groups\<close>

definition emptyGroup :: ZISGroupProfileEntry where
  "emptyGroup = \<lparr>re_group = zeros 8, re_superiorGroup = zeros 8, re_owner = zeros 8\<rparr>"

record TSSGroupProfileParms =
  tgp_tmpResultBuffer :: "ZISGroupProfileEntry list"
  tgp_profilesExtracted :: nat
  tgp_profilesToExtract :: nat
  tgp_startGroupProfile :: "string option"

text \<open>Top Secret has no superior groups; the department, when there is one, is taken for both.\<close>

definition groupLine ::
    "TSSUtils \<Rightarrow> Cursor \<Rightarrow> string \<Rightarrow> TSSGroupProfileParms \<times> ZISGroupProfileEntry \<times> nat
     \<Rightarrow> (TSSGroupProfileParms \<times> ZISGroupProfileEntry \<times> nat) step" where
  "groupLine u c l s =
     (let (parms, entry, numExtracted) = s
      in if numExtracted = tgp_profilesToExtract parms \<or> tssIsOutputDone l
         then Done 0 (parms\<lparr>tgp_profilesExtracted := numExtracted\<rparr>, entry, numExtracted)
         else parseLine u l (\<lambda>numberOfKeys keys.
           if numberOfKeys = 0
           then storeEntry numExtracted entry (tgp_tmpResultBuffer parms)
                  (\<lambda>buf. Go (parms\<lparr>tgp_tmpResultBuffer := buf\<rparr>, emptyGroup, numExtracted + 1))
           else readField u l keys numberOfKeys TSS_ACCESSOR_ID_KEY (re_group entry) (\<lambda>grp.
                readField u l keys numberOfKeys TSS_DEPARTMENT_KEY (re_owner entry) (\<lambda>owner.
                  Go (parms, \<lparr>re_group = grp,
                              re_superiorGroup = (if tssFindDesiredKey TSS_DEPARTMENT_KEY keys = - 1 then re_superiorGroup entry else owner),
                              re_owner = owner\<rparr>, numExtracted)) s) s) s)"

definition groupProfilesHandler :: "TSSUtils \<Rightarrow> TSSGroupProfileParms handler" where
  "groupProfilesHandler u status result parms =
     openOutput (\<lambda>c.
       case startAt u TSS_ACCESSOR_ID_KEY (tgp_startGroupProfile parms) ZIS_SECURITY_GROUP_MAX_LENGTH result c of
         Inl e \<Rightarrow> Inl e
       | Inr None \<Rightarrow> Inr (0, parms)
       | Inr (Some c') \<Rightarrow> returned fst (walk (groupLine u) id c' (parms, emptyGroup, 0)))
     status result parms"

definition zisGroupProfilesServiceFunctionTSS ::
    "TssEnv \<Rightarrow> ZISGroupProfileServiceParmList option \<Rightarrow> RadminRequest list
     \<Rightarrow> (ZISGroupProfileServiceParmList, ZISGroupProfileEntry) tss_result" where
  "zisGroupProfilesServiceFunctionTSS env parm log =
     (case parm of
        None \<Rightarrow> Inr (8, None, [], log)
      | Some local \<Rightarrow>
          (let parmValidateRC = validateGroupProfileParmList local; n = unat (rp_profilesToExtract local)
           in if parmValidateRC \<noteq> 0 then Inr (parmValidateRC, Some local, [], log)
              else case secmgmtGetCallerUserID (te_sec env) of
                None \<Rightarrow> Inr (13, Some local, [], log)
              | Some caller \<Rightarrow>
                  (if \<not> se_safeMalloc64 (te_sec env) ''ZISGroupProfileEntry'' (rp_profilesToExtract local)
                   then Inr (15, Some local, [], log)
                   else case radminRunRACFCommand env caller ''TSS LIST(ACIDS) TYPE(PROFILE)'' (groupProfilesHandler (te_utils env))
                          \<lparr>tgp_tmpResultBuffer = replicate n emptyGroup, tgp_profilesExtracted = 0, tgp_profilesToExtract = n,
                           tgp_startGroupProfile = start_name (rp_startGroup local)\<rparr> log of
                     Inl e \<Rightarrow> Inl e
                   | Inr (st, parms, log') \<Rightarrow>
                       (let radminExtractRC = (if tgp_profilesExtracted parms = 0 \<and> rm_rc st = 0
                                               then te_RC_RADMIN_NONZERO_USER_RC env else rm_rc st)
                        in if radminExtractRC = 0
                           then Inr (0, Some (local\<lparr>rp_profilesExtracted := of_nat (tgp_profilesExtracted parms)\<rparr>),
                                     copyEntries (tgp_tmpResultBuffer parms) (tgp_profilesExtracted parms), log')
                           else Inr (14, Some (tss_failed (st\<lparr>rm_rc := radminExtractRC\<rparr>) local), [], log')))))"

section \<open>Access lists of general resource profiles\<close>

definition emptyAccess :: ZISAccessEntry where
  "emptyAccess = \<lparr>ce_id = zeros 8, ce_accessType = zeros 8\<rparr>"

record TSSGenresProfileAccessListParms =
  tga_tmpResultBuffer :: "ZISAccessEntry list"
  tga_entriesExtracted :: nat
  tga_entriesFound :: nat
  tga_entriesToExtract :: nat
  tga_searchProfile :: string

text \<open>The value of XAUTH in front of the ACID; -1 when there is no ACID or the value cannot be read.\<close>

definition xauthProfile ::
    "TSSUtils \<Rightarrow> string \<Rightarrow> TSSKeyData list \<Rightarrow> int \<Rightarrow> int \<Rightarrow> string \<Rightarrow> (nat \<Rightarrow> string \<Rightarrow> 's step) \<Rightarrow> 's \<Rightarrow> 's step" where
  "xauthProfile u l keys keyIndex numberOfKeys buf k s =
     (let acidIndex = tu_lastIndexOfString u l TSS_ACID_KEY
      in if acidIndex = - 1 then Done (- 1) s
         else case valueOf u l (acidIndex - 1) keys keyIndex numberOfKeys buf of
                None \<Rightarrow> Fault OverRead
              | Some (status, v) \<Rightarrow> if status = - 1 then Done (- 1) s else k (nat acidIndex) v)"

definition sameProfile :: "string \<Rightarrow> string \<Rightarrow> bool" where
  "sameProfile tmpBuffer searchProfile \<longleftrightarrow>
     tssGetActualValueLength tmpBuffer = int (length searchProfile) \<and> take (length searchProfile) tmpBuffer = searchProfile"

text \<open>\<open>findNumberOfValidGenreEntries\<close> on a block, which it leaves at the end of the output with 0.\<close>

definition genreEntryLine :: "TSSUtils \<Rightarrow> string \<Rightarrow> Cursor \<Rightarrow> string \<Rightarrow> nat \<Rightarrow> nat step" where
  "genreEntryLine u searchProfile c l numberOfEntries =
     (if tssIsOutputDone l then Done 0 numberOfEntries
      else parseLine u l (\<lambda>numberOfKeys keys.
        let keyIndex = tssFindDesiredKey TSS_XAUTH_KEY keys
        in if keyIndex = - 1 then Go numberOfEntries
           else xauthProfile u l keys keyIndex numberOfKeys (zeros ZIS_SECURITY_PROFILE_MAX_LENGTH)
                  (\<lambda>_ v. Go (if sameProfile v searchProfile then numberOfEntries + 1 else numberOfEntries)) numberOfEntries)
        numberOfEntries)"

fun findNumberOfValidGenreEntries ::
    "TSSUtils \<Rightarrow> string \<Rightarrow> RadminCommandOutput list \<Rightarrow> nat \<Rightarrow> tss_fault + rc \<times> nat" where
  "findNumberOfValidGenreEntries u searchProfile [] n = Inr (0, n)"
| "findNumberOfValidGenreEntries u searchProfile (b # bs) n =
     (case walk (genreEntryLine u searchProfile) id (firstLine b []) n of
        Go n' \<Rightarrow> findNumberOfValidGenreEntries u searchProfile bs n'
      | Done r n' \<Rightarrow> if r = - 1 then Inr (- 1, n') else findNumberOfValidGenreEntries u searchProfile bs n'
      | Fault e \<Rightarrow> Inl e)"

text \<open>
  One line of the access list: a line with the profile gives the ACID, the next one with an access
  level completes the entry. ALL, which the client does not know, is ALTER.
\<close>

definition clientAccessType :: "TSSUtils \<Rightarrow> string \<Rightarrow> string" where
  "clientAccessType u a = (if take 3 a = ''ALL'' then tu_padWithSpaces u (''ALTER'' @ zeros 3) else a)"

definition genresAccessLine ::
    "TSSUtils \<Rightarrow> Cursor \<Rightarrow> string \<Rightarrow> TSSGenresProfileAccessListParms \<times> ZISAccessEntry \<times> bool \<times> nat
     \<Rightarrow> (TSSGenresProfileAccessListParms \<times> ZISAccessEntry \<times> bool \<times> nat) step" where
  "genresAccessLine u c l s =
     (let (parms, entry, foundProfile, numExtracted) = s
      in if numExtracted = tga_entriesToExtract parms \<or> tssIsOutputDone l
         then Done 0 (parms\<lparr>tga_entriesExtracted := numExtracted\<rparr>, entry, foundProfile, numExtracted)
         else parseLine u l (\<lambda>numberOfKeys keys.
           let xauth = tssFindDesiredKey TSS_XAUTH_KEY keys; access = tssFindDesiredKey TSS_ACCESS_KEY keys
           in if numberOfKeys = 0 then Done (- 1) s
              else if xauth \<noteq> - 1
              then xauthProfile u l keys xauth numberOfKeys (zeros ZIS_SECURITY_PROFILE_MAX_LENGTH) (\<lambda>acidIndex v.
                     if sameProfile v (tga_searchProfile parms)
                     then case copyFromLine l (acidIndex + 5) 8 of
                            None \<Rightarrow> Fault OverRead
                          | Some acid \<Rightarrow> Go (parms, entry\<lparr>ce_id := acid\<rparr>, True, numExtracted)
                     else Go s) s
              else if foundProfile \<and> access \<noteq> - 1
              then readField u l keys numberOfKeys TSS_ACCESS_KEY (ce_accessType entry) (\<lambda>a.
                     storeEntry numExtracted (entry\<lparr>ce_accessType := clientAccessType u a\<rparr>) (tga_tmpResultBuffer parms)
                       (\<lambda>buf. Go (parms\<lparr>tga_tmpResultBuffer := buf\<rparr>, emptyAccess, False, numExtracted + 1))) s
              else Go s) s)"

definition genresProfileAccessListHandler :: "TSSUtils \<Rightarrow> TSSGenresProfileAccessListParms handler" where
  "genresProfileAccessListHandler u status result parms =
     openOutput (\<lambda>c.
       case findNumberOfValidGenreEntries u (tga_searchProfile parms) result 0 of
         Inl e \<Rightarrow> Inl e
       | Inr (r, numberOfEntries) \<Rightarrow>
           (if r = - 1 then Inr (- 1, parms)
            else if numberOfEntries = 0 then Inr (- 1, parms)
            else returned fst (walk (genresAccessLine u) id c (parms\<lparr>tga_entriesFound := numberOfEntries\<rparr>, emptyAccess, False, 0))))
     status result parms"

text \<open>
  The service. The class comes from the configuration. A return code other than 0 in front of the
  command leaves the client's list as it is.
\<close>

definition zisGenresAccessListServiceFunctionTSS ::
    "TssEnv \<Rightarrow> ZISGenresAccessListServiceParmList option \<Rightarrow> RadminRequest list
     \<Rightarrow> (ZISGenresAccessListServiceParmList, ZISAccessEntry) tss_result" where
  "zisGenresAccessListServiceFunctionTSS env parm log =
     (case parm of
        None \<Rightarrow> Inr (8, None, [], log)
      | Some local \<Rightarrow>
          (let parmValidateRC = validateGenresAccessListParmList local; n = unat (ga_resultBufferCapacity local)
           in if parmValidateRC \<noteq> 0 then Inr (parmValidateRC, Some local, [], log)
              else case secmgmtGetCallerUserID (te_sec env) of
                None \<Rightarrow> Inr (13, Some local, [], log)
              | Some caller \<Rightarrow>
                  (let (getParmRC, cls) = userClass (te_sec env); profile = cstr (sf_text (ga_profile local))
                   in if getParmRC \<noteq> 0 then Inr (17, Some local, [], log)
                      else if length cls > ZIS_SECURITY_CLASS_MAX_LENGTH then Inr (10, Some local, [], log)
                      else if \<not> se_safeMalloc64 (te_sec env) ''ZISGenresAccessEntry'' (ga_resultBufferCapacity local)
                      then Inr (14, Some local, [], log)
                      else case radminRunRACFCommand env caller (snprintf 275 (''TSS WHOH '' @ cstr cls @ ''('' @ profile @ '')''))
                             (genresProfileAccessListHandler (te_utils env))
                             \<lparr>tga_tmpResultBuffer = replicate n emptyAccess, tga_entriesExtracted = 0, tga_entriesFound = 0,
                              tga_entriesToExtract = n, tga_searchProfile = profile\<rparr> log of
                        Inl e \<Rightarrow> Inl e
                      | Inr (st, parms, log') \<Rightarrow>
                          (if rm_rc st = 0
                           then Inr (0, Some (local\<lparr>ga_entriesExtracted := of_nat (tga_entriesExtracted parms),
                                                    ga_entriesFound := of_nat (tga_entriesExtracted parms)\<rparr>),
                                     copyEntries (tga_tmpResultBuffer parms) (tga_entriesExtracted parms), log')
                           else if rm_rc st = 0 \<and> tga_entriesExtracted parms < tga_entriesFound parms
                           then Inr (16, Some (local\<lparr>ga_entriesExtracted := 0, ga_entriesFound := of_nat (tga_entriesFound parms)\<rparr>),
                                     [], log')
                           else Inr (15, Some (tss_failed st local), [], log')))))"

section \<open>The caller's own data\<close>

definition emptyProfile :: ZISGenresProfileEntry where
  "emptyProfile = \<lparr>ge_profile = zeros ZIS_SECURITY_PROFILE_MAX_LENGTH, ge_owner = zeros 8\<rparr>"

text \<open>The parameters of \<open>callerProfileHandler\<close>, for a caller who may not run the other commands.\<close>

record TSSCallerProfileParms =
  tcp_extractGroups :: bool
  tcp_searchGroup :: string
  tcp_isInGroup :: bool
  tcp_extractProfiles :: bool
  tcp_searchClass :: string
  tcp_profiles :: "ZISGenresProfileEntry list"
  tcp_profilesExtracted :: nat
  tcp_profilesToExtract :: nat
  tcp_filterByPrefix :: "string option"
  tcp_filterByProfile :: "string option"

type_synonym callerState = "TSSCallerProfileParms \<times> ZISGenresProfileEntry \<times> bool \<times> nat"

text \<open>
  A profile that was read: whether it is taken and whether the start profile has been found then; the
  entry is cleared only when it is taken.
\<close>

definition callerTakes :: "TSSCallerProfileParms \<Rightarrow> string \<Rightarrow> bool \<Rightarrow> bool \<times> bool" where
  "callerTakes parms profile foundStartProfile =
     (case tcp_filterByPrefix parms of
        Some p \<Rightarrow> (take (length p) profile = p, foundStartProfile)
      | None \<Rightarrow>
          (case tcp_filterByProfile parms of
             Some p \<Rightarrow> if foundStartProfile then (True, True) else (take (length p) profile = p, take (length p) profile = p)
           | None \<Rightarrow> (True, foundStartProfile)))"

definition callerProfile ::
    "TSSUtils \<Rightarrow> string \<Rightarrow> TSSKeyData list \<Rightarrow> int \<Rightarrow> int \<Rightarrow> callerState \<Rightarrow> callerState step" where
  "callerProfile u l keys keyIndex numberOfKeys s =
     (let (parms, entry, foundStartProfile, numExtracted) = s; ownerIndex = tu_lastIndexOfString u l TSS_OWNER_KEY
      in if ownerIndex = - 1 then Go s
         else case copyFromLine l (nat ownerIndex + 6) 8 of
           None \<Rightarrow> Fault OverRead
         | Some owner \<Rightarrow>
             (case valueOf u l (ownerIndex - 1) keys keyIndex numberOfKeys (ge_profile entry) of
                None \<Rightarrow> Fault OverRead
              | Some (status, profile) \<Rightarrow>
                  (let entry' = entry\<lparr>ge_profile := profile\<rparr>;
                       (taken, foundStart) = callerTakes parms profile foundStartProfile
                   in if status = - 1 then Go (parms, entry', foundStartProfile, numExtracted)
                      else if taken
                      then storeEntry numExtracted \<lparr>ge_profile = profile, ge_owner = tu_padWithSpaces u owner\<rparr> (tcp_profiles parms)
                             (\<lambda>buf. Go (parms\<lparr>tcp_profiles := buf\<rparr>, emptyProfile, foundStart, numExtracted + 1))
                      else Go (parms, entry', foundStart, numExtracted))))"

definition callerLine :: "TSSUtils \<Rightarrow> Cursor \<Rightarrow> string \<Rightarrow> callerState \<Rightarrow> callerState step" where
  "callerLine u c l s =
     (let (parms, entry, foundStartProfile, numExtracted) = s
      in if numExtracted = tcp_profilesToExtract parms \<or> tssIsOutputDone l
         then Done 0 (parms\<lparr>tcp_profilesExtracted := numExtracted\<rparr>, entry, foundStartProfile, numExtracted)
         else parseLine u l (\<lambda>numberOfKeys keys.
           let inGroup = tcp_extractGroups parms \<and> \<not> tcp_isInGroup parms \<and> tssFindDesiredKey TSS_PROFILE_KEY keys \<noteq> - 1 \<and>
                         tu_lastIndexOfString u l (tcp_searchGroup parms) \<noteq> - 1;
               parms1 = (if inGroup then parms\<lparr>tcp_isInGroup := True\<rparr> else parms);
               s1 = (parms1, entry, foundStartProfile, numExtracted);
               keyIndex = tssFindDesiredKey (snprintf 12 (''XA '' @ tcp_searchClass parms)) keys
           in if tcp_extractProfiles parms \<and> keyIndex \<noteq> - 1 then callerProfile u l keys keyIndex numberOfKeys s1 else Go s1) s)"

definition callerProfileHandler :: "TSSUtils \<Rightarrow> TSSCallerProfileParms handler" where
  "callerProfileHandler u status result parms =
     (if ss_racfRC status \<noteq> 0 then Inr (- 1, parms)
      else openOutput (\<lambda>c. returned fst (walk (callerLine u) id c (parms, emptyProfile, False, 0))) status result parms)"

section \<open>Access lists of groups\<close>

text \<open>
  \<open>getAcidsInLine\<close>: up to four ACIDs of eight characters, each with the mark of an administrator behind it.
  The loop over the marks has an index of its own, which is the one used for the entry that is marked.
\<close>

definition skipBlanks :: "string \<Rightarrow> nat \<Rightarrow> nat" where
  "skipBlanks l startPos = (case find (\<lambda>j. l ! j \<noteq> CHR '' '') [startPos..<length l] of None \<Rightarrow> startPos | Some j \<Rightarrow> j)"

definition adminIndicator :: "TSSUtils \<Rightarrow> string \<Rightarrow> nat option" where
  "adminIndicator u tmpBuffer =
     find (\<lambda>k. tu_lastIndexOfString u tmpBuffer (TSS_ADMIN_INDICATORS ! k) \<noteq> - 1) [0..<length TSS_ADMIN_INDICATORS]"

type_synonym acid_data = "(string \<times> bool) list"

primrec acids_loop :: "TSSUtils \<Rightarrow> string \<Rightarrow> nat \<Rightarrow> nat \<Rightarrow> acid_data \<Rightarrow> tss_fault + nat \<times> acid_data" where
  "acids_loop u l 0 startPos acids = Inr (4, acids)"
| "acids_loop u l (Suc k) startPos acids =
     (let i = 3 - k; start = skipBlanks l startPos;
          copySize = (if start + 11 > length l then length l - start else 11);
          tmpBuffer = take copySize (drop start l) @ zeros (11 - copySize);
          acids1 = acids[i := (tu_padWithSpaces u (take 8 tmpBuffer), False)]
      in if copySize = 0 then Inr (i, acids)
         else case adminIndicator u tmpBuffer of
                None \<Rightarrow> acids_loop u l k (start + 12) acids1
              | Some m \<Rightarrow>
                  (if m < length acids1 then acids_loop u l k (start + 12) (acids1[m := (fst (acids1 ! m), True)])
                   else Inl BufferOverflow))"

definition emptyAcids :: acid_data where
  "emptyAcids = replicate 4 (zeros 8, False)"

definition getAcidsInLine :: "TSSUtils \<Rightarrow> string \<Rightarrow> nat \<Rightarrow> tss_fault + nat \<times> acid_data" where
  "getAcidsInLine u l startPos = acids_loop u l 4 startPos emptyAcids"

record TSSGroupAccessListParms =
  tgl_tmpResultBuffer :: "ZISAccessEntry list"
  tgl_entriesExtracted :: int
  tgl_entriesFound :: int
  tgl_entriesToExtract :: nat

text \<open>The access type is copied with eight bytes from a literal that is shorter.\<close>

definition accessLiteral :: "TssEnv \<Rightarrow> string \<Rightarrow> string" where
  "accessLiteral env s = take 8 (s @ [nul] @ te_afterLiteral env s)"

text \<open>The loop over the ACIDs of a line; there is no check of the buffer in it.\<close>

fun storeAcids ::
    "TssEnv \<Rightarrow> acid_data \<Rightarrow> nat \<Rightarrow> ZISAccessEntry list \<Rightarrow> tss_fault + nat \<times> ZISAccessEntry list" where
  "storeAcids env [] numExtracted buf = Inr (numExtracted, buf)"
| "storeAcids env ((acid, isAdmin) # acids) numExtracted buf =
     (if numExtracted < length buf
      then storeAcids env acids (numExtracted + 1)
             (buf[numExtracted := \<lparr>ce_id = acid, ce_accessType = accessLiteral env (if isAdmin then ''JOIN'' else ''USE'')\<rparr>])
      else Inl BufferOverflow)"

definition countLine :: "Cursor \<Rightarrow> string \<Rightarrow> nat \<Rightarrow> nat step" where
  "countLine c l n = (if tssIsOutputDone l then Done 0 n else Go (if tssIsLineBlank l then n else n + 1))"

text \<open>\<open>getNumberOfLinesOfData\<close> on all blocks.\<close>

definition getNumberOfLinesOfData :: "Cursor \<Rightarrow> tss_fault + nat" where
  "getNumberOfLinesOfData c = (case walk countLine id c 0 of Go n \<Rightarrow> Inr n | Done _ n \<Rightarrow> Inr n | Fault e \<Rightarrow> Inl e)"

type_synonym groupAccessState = "TSSGroupAccessListParms \<times> bool \<times> nat"

definition groupAccessLine :: "TssEnv \<Rightarrow> nat \<Rightarrow> Cursor \<Rightarrow> string \<Rightarrow> groupAccessState \<Rightarrow> groupAccessState step" where
  "groupAccessLine env firstStart c l s =
     (let (parms, firstLoop, numExtracted) = s
      in if numExtracted = tgl_entriesToExtract parms \<or> tssIsOutputDone l
         then Done 0 (parms\<lparr>tgl_entriesExtracted := int numExtracted\<rparr>, firstLoop, numExtracted)
         else if tssIsLineBlank l then Go s
         else case getAcidsInLine (te_utils env) l (if firstLoop then firstStart else 0) of
           Inl e \<Rightarrow> Fault e
         | Inr (acidsFound, acids) \<Rightarrow>
             (if acidsFound = 0 \<or> acidsFound > 4 then Done (- 1) s
              else case storeAcids env (take acidsFound acids) numExtracted (tgl_tmpResultBuffer parms) of
                     Inl e \<Rightarrow> Fault e
                   | Inr (n, buf) \<Rightarrow> Go (parms\<lparr>tgl_tmpResultBuffer := buf\<rparr>, False, n)))"

text \<open>
  The handler counts the lines of data, for an estimate of the number of entries, and goes through them
  again. Both times it starts with the second line and the offset of the first one.
\<close>

definition groupAccessListHandler :: "TssEnv \<Rightarrow> TSSGroupAccessListParms handler" where
  "groupAccessListHandler env status result parms =
     openOutput (\<lambda>c0.
       let c = c0\<lparr>cu_lines := drop 1 (cu_lines c0)\<rparr>
       in case getNumberOfLinesOfData c of
            Inl e \<Rightarrow> Inl e
          | Inr numberOfLines \<Rightarrow>
              (let parms1 = parms\<lparr>tgl_entriesFound := int numberOfLines * 4\<rparr>
               in case cu_lines c of
                    [] \<Rightarrow> Inl OverRead
                  | l # _ \<Rightarrow>
                      (let delimIndex = tu_indexOfString (te_utils env) l TSS_KEY_DELIMITER 0
                       in if tu_indexOfString (te_utils env) l TSS_ACIDS_KEY 0 = - 1 then Inr (- 1, parms1)
                          else if delimIndex = - 1 then Inr (- 1, parms1)
                          else returned fst (walk (groupAccessLine env (nat delimIndex + unat TSS_KEY_DELIMITER_LEN)) id c (parms1, True, 0)))))
     status result parms"

text \<open>
  A caller who may not list the group gets an entry of their own when they are in the group. The list
  goes back to the client with the length of the list for group profiles, which is four bytes shorter:
  the last field keeps its value.
\<close>

definition returnedGroupAccessList ::
    "ZISGroupAccessListServiceParmList \<Rightarrow> ZISGroupAccessListServiceParmList \<Rightarrow> ZISGroupAccessListServiceParmList" where
  "returnedGroupAccessList client local =
     local\<lparr>pl_safStatus := (pl_safStatus local)\<lparr>ss_racfRSN := ss_racfRSN (pl_safStatus client)\<rparr>\<rparr>"

definition groupAccessOfCaller ::
    "TssEnv \<Rightarrow> SizedField \<Rightarrow> string \<Rightarrow> TSSGroupAccessListParms \<Rightarrow> RadminRequest list
     \<Rightarrow> tss_fault + RadminStatus \<times> TSSGroupAccessListParms \<times> RadminRequest list" where
  "groupAccessOfCaller env caller groupName parms log =
     (case radminRunRACFCommand env caller (snprintf 29 (''TSS LIST('' @ cstr (take 8 (sf_value caller)) @ '')''))
             (callerProfileHandler (te_utils env))
             \<lparr>tcp_extractGroups = True, tcp_searchGroup = groupName, tcp_isInGroup = False, tcp_extractProfiles = False,
              tcp_searchClass = [], tcp_profiles = [], tcp_profilesExtracted = 0,
              tcp_profilesToExtract = tgl_entriesToExtract parms, tcp_filterByPrefix = None, tcp_filterByProfile = None\<rparr> log of
        Inl e \<Rightarrow> Inl e
      | Inr (st, callerParms, log') \<Rightarrow>
          (if rm_rc st = 0 \<and> tcp_isInGroup callerParms
           then if 0 < length (tgl_tmpResultBuffer parms)
                then Inr (st, parms\<lparr>tgl_entriesFound := 1, tgl_entriesExtracted := 1,
                           tgl_tmpResultBuffer := (tgl_tmpResultBuffer parms)[0 :=
                             \<lparr>ce_id = take 8 (sf_value caller), ce_accessType = accessLiteral env ''USE''\<rparr>]\<rparr>, log')
                else Inl BufferOverflow
           else Inr (st, parms, log')))"

definition zisGroupAccessListServiceFunctionTSS ::
    "TssEnv \<Rightarrow> ZISGroupAccessListServiceParmList option \<Rightarrow> RadminRequest list
     \<Rightarrow> (ZISGroupAccessListServiceParmList, ZISAccessEntry) tss_result" where
  "zisGroupAccessListServiceFunctionTSS env parm log =
     (case parm of
        None \<Rightarrow> Inr (8, None, [], log)
      | Some local \<Rightarrow>
          (let parmValidateRC = validateGroupAccessListParmList local; n = unat (ra_resultBufferCapacity local);
               groupName = cstr (sf_text (ra_group local))
           in if parmValidateRC \<noteq> 0 then Inr (parmValidateRC, Some local, [], log)
              else case secmgmtGetCallerUserID (te_sec env) of
                None \<Rightarrow> Inr (12, Some local, [], log)
              | Some caller \<Rightarrow>
                  (if \<not> se_safeMalloc64 (te_sec env) ''RadminGroupAccessListEntry'' (ra_resultBufferCapacity local)
                   then Inr (13, Some local, [], log)
                   else case radminRunRACFCommand env caller (snprintf 31 (''TSS LIST('' @ groupName @ '') DATA(ACIDS)''))
                          (groupAccessListHandler env)
                          \<lparr>tgl_tmpResultBuffer = replicate n emptyAccess, tgl_entriesExtracted = 0, tgl_entriesFound = 0,
                           tgl_entriesToExtract = n\<rparr> log of
                     Inl e \<Rightarrow> Inl e
                   | Inr (st, parms, log') \<Rightarrow>
                       (case (if rm_rc st \<noteq> 0 then groupAccessOfCaller env caller groupName parms log' else Inr (st, parms, log')) of
                          Inl e \<Rightarrow> Inl e
                        | Inr (st', parms', log'') \<Rightarrow>
                            (let entryDifference = tgl_entriesFound parms' - tgl_entriesExtracted parms'
                             in if rm_rc st' = 0 \<and> entryDifference > 4
                                then Inr (15, Some (returnedGroupAccessList local
                                            (local\<lparr>ra_entriesExtracted := 0, ra_entriesFound := word_of_int (tgl_entriesFound parms')\<rparr>)), [], log'')
                                else if rm_rc st' = 0 \<and> entryDifference \<le> 4
                                then Inr (0, Some (returnedGroupAccessList local
                                            (local\<lparr>ra_entriesExtracted := word_of_int (tgl_entriesExtracted parms'),
                                                   ra_entriesFound := word_of_int (tgl_entriesExtracted parms')\<rparr>)),
                                          copyEntries (tgl_tmpResultBuffer parms') (nat (tgl_entriesExtracted parms')), log'')
                                else Inr (14, Some (returnedGroupAccessList local (tss_failed st' local)), [], log''))))))"

section \<open>Running administration commands\<close>

record TSSCommandOutput =
  tco_returnCode :: int
  tco_reasonMessageID :: string

definition tss_isdigit :: "char \<Rightarrow> bool" where
  "tss_isdigit ch \<longleftrightarrow> ch \<in> set ''0123456789''"

definition digitValue :: "char \<Rightarrow> int" where
  "digitValue ch = int (length (takeWhile (\<lambda>d. d \<noteq> ch) ''0123456789''))"

text \<open>The return code of a failed command: one or two digits, the first ones from the equal sign on.\<close>

definition failureCode :: "string \<Rightarrow> int \<Rightarrow> int \<Rightarrow> int" where
  "failureCode l equalSignIndex old =
     (if equalSignIndex < 0 then old
      else case dropWhile (\<lambda>ch. \<not> tss_isdigit ch) (drop (nat equalSignIndex) l) of
             [] \<Rightarrow> old
           | c1 # rest \<Rightarrow> (case rest of c2 # _ \<Rightarrow> if tss_isdigit c2 then 10 * digitValue c1 + digitValue c2 else digitValue c1
                                      | [] \<Rightarrow> digitValue c1))"

definition commandLine ::
    "TSSUtils \<Rightarrow> Cursor \<Rightarrow> string \<Rightarrow> TSSCommandOutput \<times> bool \<Rightarrow> (TSSCommandOutput \<times> bool) step" where
  "commandLine u c l s =
     (let (output, commandFailure) = s
      in if length l < TSS_MESSAGE_ID_MAX_LEN then Go s
         else if take 8 l = TSS_COMMAND_SUCCESS
         then Done (if commandFailure then 1 else 0) (output\<lparr>tco_returnCode := 0\<rparr>, commandFailure)
         else if take 8 l = TSS_COMMAND_FAILURE
         then let retCodeIndex = tu_lastIndexOfString u l ''RETURN CODE''
              in if retCodeIndex < 0 then Fault OverRead
                 else let equalSignIndex = tu_indexOfString u l ''='' (nat retCodeIndex)
                      in Go (output\<lparr>tco_returnCode := failureCode l equalSignIndex (tco_returnCode output)\<rparr>, True)
         else Go s)"

text \<open>\<open>didCommandFail\<close>, the handler for administration commands; it has no check for a missing output.\<close>

definition didCommandFail :: "TSSUtils \<Rightarrow> TSSCommandOutput handler" where
  "didCommandFail u status result output =
     (if ss_racfRC status \<noteq> 0 then Inr (1, output)
      else case result of
        [] \<Rightarrow> Inl NullPointer
      | b # bs \<Rightarrow>
          (case walk (commandLine u) id (firstLine b bs) (output, False) of
             Fault e \<Rightarrow> Inl e
           | Done r (output', _) \<Rightarrow> Inr (r, output')
           | Go (output', commandFailure) \<Rightarrow>
               (case ro_lines b of
                  [] \<Rightarrow> Inl OverRead
                | l # _ \<Rightarrow>
                    (let output'' = (if length l \<ge> TSS_MESSAGE_ID_MAX_LEN \<and> take 3 l = TSS_FUNCTION_END
                                     then output'\<lparr>tco_reasonMessageID := take TSS_MESSAGE_ID_MAX_LEN l\<rparr> else output')
                     in Inr (if commandFailure then 1 else 0, output'')))))"

text \<open>The message is written into a buffer, of which only the text up to its NUL counts.\<close>

definition executeAdminCommand ::
    "TssEnv \<Rightarrow> SizedField \<Rightarrow> string \<Rightarrow> string \<Rightarrow> RadminRequest list \<Rightarrow> tss_fault + RadminStatus \<times> string \<times> RadminRequest list" where
  "executeAdminCommand env caller operatorCommand serviceMessage log =
     (case radminRunRACFCommand env caller operatorCommand (didCommandFail (te_utils env))
             \<lparr>tco_returnCode = 0, tco_reasonMessageID = zeros TSS_MESSAGE_ID_MAX_LEN\<rparr> log of
        Inl e \<Rightarrow> Inl e
      | Inr (st, output, log') \<Rightarrow>
          (let txt = snprintf (length serviceMessage)
                       (cstr (tco_reasonMessageID output) @ '', RC = '' @ decimal (nat (tco_returnCode output)))
           in Inr (st, if rm_rc st \<noteq> 0 \<and> length serviceMessage \<ge> TSS_MESSAGE_ID_MAX_LEN
                       then txt @ [nul] @ drop (length txt + 1) serviceMessage else serviceMessage, log')))"

text \<open>
  A command in a buffer of a given size: in a dry run it goes to the client's list, with all bytes of
  the buffer, and is not run.
\<close>

definition adminCommand ::
    "TssEnv \<Rightarrow> SizedField \<Rightarrow> bool \<Rightarrow> nat \<Rightarrow> string \<Rightarrow> ZISServiceMessage \<Rightarrow> string \<Rightarrow> RadminRequest list
     \<Rightarrow> tss_fault + RadminStatus \<times> ZISServiceMessage \<times> string \<times> RadminRequest list" where
  "adminCommand env caller dryRun bufferSize command operatorCommand serviceMessage log =
     (let buf = snprintf bufferSize command
      in if dryRun
         then Inr (emptyStatus, \<lparr>sm_length = of_nat bufferSize,
                                 sm_text = buf @ zeros (bufferSize - length buf) @ drop bufferSize (sm_text operatorCommand)\<rparr>,
                   serviceMessage, log)
         else case executeAdminCommand env caller buf serviceMessage log of
                Inl e \<Rightarrow> Inl e
              | Inr (st, msg, log') \<Rightarrow> Inr (st, operatorCommand, msg, log'))"

text \<open>\<open>%.*s\<close> of a field.\<close>

definition field :: "SizedField \<Rightarrow> string" where
  "field f = cstr (sf_text f)"

section \<open>Administration of groups\<close>

text \<open>The commands with the sizes of their buffers.\<close>

definition groupCommand :: "ZISGroupAdminServiceParmList \<Rightarrow> (nat \<times> string) option" where
  "groupCommand local =
     (let g = field (gr_group local); usr = field (gr_user local)
      in if gr_function local = ZIS_GROUP_ADMIN_SRV_FC_ADD
         then Some (95, ''TSS CREATE('' @ g @ '') NAME('' @ [CHR 0x27] @ g @ [CHR 0x27] @ '') TYPE(PROFILE) DEPARTMENT('' @
                        field (gr_superiorGroup local) @ '')'')
         else if gr_function local = ZIS_GROUP_ADMIN_SRV_FC_DELETE
         then Some (21, ''TSS DELETE('' @ g @ '')'')
         else if gr_function local = ZIS_GROUP_ADMIN_SRV_FC_CONNECT_USER
         then Some (38, ''TSS ADDTO('' @ usr @ '') GROUP('' @ g @ '')'')
         else if gr_function local = ZIS_GROUP_ADMIN_SRV_FC_REMOVE_USER
         then Some (39, ''TSS REMOVE('' @ usr @ '') GROUP('' @ g @ '')'')
         else None)"

text \<open>\<open>strlen\<close> of a buffer.\<close>

definition stringIn :: "string \<Rightarrow> tss_fault + string" where
  "stringIn buf = (if nul \<in> set buf then Inr (cstr buf) else Inl OverRead)"

definition zisGroupAdminServiceFunctionTSS ::
    "TssEnv \<Rightarrow> ZISGroupAdminServiceParmList option \<Rightarrow> RadminRequest list
     \<Rightarrow> tss_fault + rc \<times> ZISGroupAdminServiceParmList option \<times> RadminRequest list" where
  "zisGroupAdminServiceFunctionTSS env parm log =
     (case parm of
        None \<Rightarrow> Inr (8, None, log)
      | Some local \<Rightarrow>
          (let parmValidateRC = validateGroupParmList local
           in if parmValidateRC \<noteq> 0 then Inr (parmValidateRC, Some local, log)
              else case secmgmtGetCallerUserID (te_sec env) of
                None \<Rightarrow> Inr (14, Some local, log)
              | Some caller \<Rightarrow>
                  (case groupCommand local of
                     None \<Rightarrow> Inr (15, Some local, log)
                   | Some (bufferSize, command) \<Rightarrow>
                       (case adminCommand env caller (isDryRun local) bufferSize command (gr_operatorCommand local)
                               (zeros (TSS_SERVICE_MSG_MAX_LEN + 1)) log of
                          Inl e \<Rightarrow> Inl e
                        | Inr (st, operatorCommand, serviceMessage, log') \<Rightarrow>
                            (let local1 = local\<lparr>gr_operatorCommand := operatorCommand\<rparr>
                             in if rm_rc st = 0 then Inr (0, Some local1, log')
                                else case stringIn serviceMessage of
                                       Inl e \<Rightarrow> Inl e
                                     | Inr msg \<Rightarrow>
                                         Inr (17, Some ((tss_failed st local1)\<lparr>gr_serviceMessage := copyMessage msg (gr_serviceMessage local1)\<rparr>),
                                              log'))))))"

section \<open>Administration of general resource profiles\<close>

text \<open>
  The owner of a profile: the first eight characters of the output. The structure that the callers pass
  has no log data, which the handler uses when there is no output or an error.
\<close>

definition getGenresProfileOwnerHandler :: "TSSUtils \<Rightarrow> string handler" where
  "getGenresProfileOwnerHandler u status result owner =
     (if ss_racfRC status \<noteq> 0 then Inr (ss_racfRC status, owner)
      else case result of
        [] \<Rightarrow> Inl NullPointer
      | b # bs \<Rightarrow>
          (case ro_lines b of
             [] \<Rightarrow> Inl OverRead
           | l # _ \<Rightarrow>
               (if tssIsErrorDetected l then Inl NullPointer
                else if length l \<ge> 8 then Inr (0, tu_padWithSpaces u (take 8 l))
                else Inr (0, owner))))"

record PermittedData =
  tpd_isPermitted :: bool
  tpd_className :: string
  tpd_profileName :: string

definition permittedLine :: "TSSUtils \<Rightarrow> string \<Rightarrow> Cursor \<Rightarrow> string \<Rightarrow> PermittedData \<Rightarrow> PermittedData step" where
  "permittedLine u searchKey c l parms =
     (if tssIsOutputDone l then Done 0 parms
      else parseLine u l (\<lambda>numberOfKeys keys.
        let keyIndex = tssFindDesiredKey searchKey keys; ownerIndex = tu_lastIndexOfString u l TSS_OWNER_KEY
        in if keyIndex = - 1 then Go parms
           else if ownerIndex = - 1 then Done (- 1) parms
           else case valueOf u l (ownerIndex - 1) keys keyIndex numberOfKeys (zeros ZIS_SECURITY_PROFILE_MAX_LENGTH) of
                  None \<Rightarrow> Fault OverRead
                | Some (status, v) \<Rightarrow>
                    (if status = - 1 then Done (- 1) parms
                     else if sameProfile v (tpd_profileName parms) then Done 0 (parms\<lparr>tpd_isPermitted := True\<rparr>)
                     else Go parms)) parms)"

definition isUserAlreadyPermitted :: "TssEnv \<Rightarrow> PermittedData handler" where
  "isUserAlreadyPermitted env status result parms =
     openOutput (\<lambda>c.
       returned id (walk (permittedLine (te_utils env) (te_nullTerminate env (snprintf 12 (''XA '' @ tpd_className parms)))) id c parms))
     status result parms"

definition tssGetAccessString :: "int \<Rightarrow> string option" where
  "tssGetAccessString t =
     (if t = ZIS_GENRES_ADMIN_ACESS_TYPE_READ then Some ''READ''
      else if t = ZIS_GENRES_ADMIN_ACESS_TYPE_UPDATE then Some ''UPDATE''
      else if t = ZIS_GENRES_ADMIN_ACESS_TYPE_ALTER then Some ''ALTER''
      else if t = ZIS_GENRES_ADMIN_ACESS_TYPE_ALL then Some ''ALL''
      else None)"

type_synonym genres_step = "tss_fault + RadminStatus \<times> ZISGenresAdminServiceParmList \<times> string \<times> RadminRequest list"

definition genresCommand ::
    "TssEnv \<Rightarrow> SizedField \<Rightarrow> nat \<Rightarrow> string \<Rightarrow> ZISGenresAdminServiceParmList \<Rightarrow> string \<Rightarrow> RadminRequest list \<Rightarrow> genres_step" where
  "genresCommand env caller bufferSize command local serviceMessage log =
     (case adminCommand env caller (isDryRun local) bufferSize command (gn_operatorCommand local) serviceMessage log of
        Inl e \<Rightarrow> Inl e
      | Inr (st, operatorCommand, msg, log') \<Rightarrow> Inr (st, local\<lparr>gn_operatorCommand := operatorCommand\<rparr>, msg, log'))"

definition handleRevokeAccess ::
    "TssEnv \<Rightarrow> SizedField \<Rightarrow> string \<Rightarrow> ZISGenresAdminServiceParmList \<Rightarrow> string \<Rightarrow> RadminRequest list \<Rightarrow> genres_step" where
  "handleRevokeAccess env caller className local serviceMessage log =
     genresCommand env caller 302
       (''TSS REVOKE('' @ field (gn_user local) @ '') '' @ className @ ''('' @ field (gn_profile local) @ '')'') local serviceMessage log"

text \<open>Top Secret has no ALTER; the access type is changed in the list.\<close>

definition handlePermitAccess ::
    "TssEnv \<Rightarrow> SizedField \<Rightarrow> string \<Rightarrow> ZISGenresAdminServiceParmList \<Rightarrow> string \<Rightarrow> RadminRequest list \<Rightarrow> genres_step" where
  "handlePermitAccess env caller className local serviceMessage log =
     (let local1 = (if gn_accessType local = ZIS_GENRES_ADMIN_ACESS_TYPE_ALTER
                    then local\<lparr>gn_accessType := ZIS_GENRES_ADMIN_ACESS_TYPE_ALL\<rparr> else local)
      in case tssGetAccessString (gn_accessType local1) of
           None \<Rightarrow> Inl NullPointer
         | Some accessString \<Rightarrow>
             genresCommand env caller 302
               (''TSS PERMIT('' @ field (gn_user local1) @ '') '' @ className @ ''('' @ field (gn_profile local1) @ '') ACCESS('' @
                accessString @ '')'') local1 serviceMessage log)"

definition handleDeleteProfile ::
    "TssEnv \<Rightarrow> SizedField \<Rightarrow> string \<Rightarrow> string \<Rightarrow> ZISGenresAdminServiceParmList \<Rightarrow> string \<Rightarrow> RadminRequest list \<Rightarrow> genres_step" where
  "handleDeleteProfile env caller className ownerName local serviceMessage log =
     genresCommand env caller 286
       (''TSS REMOVE('' @ ownerName @ '') '' @ className @ ''('' @ field (gn_profile local) @ '')'') local serviceMessage log"

definition handleDefineProfile ::
    "TssEnv \<Rightarrow> SizedField \<Rightarrow> string \<Rightarrow> ZISGenresAdminServiceParmList \<Rightarrow> string \<Rightarrow> RadminRequest list \<Rightarrow> genres_step" where
  "handleDefineProfile env caller className local serviceMessage log =
     genresCommand env caller 285
       (''TSS ADDTO('' @ field (gn_owner local) @ '') '' @ className @ ''('' @ field (gn_profile local) @ '')'') local serviceMessage log"

text \<open>Giving access: an access that the user has already is revoked first.\<close>

definition giveAccess ::
    "TssEnv \<Rightarrow> SizedField \<Rightarrow> string \<Rightarrow> ZISGenresAdminServiceParmList \<Rightarrow> string \<Rightarrow> RadminRequest list \<Rightarrow> genres_step" where
  "giveAccess env caller className local serviceMessage log =
     (case radminRunRACFCommand env caller (snprintf 31 (''TSS LIST('' @ field (gn_user local) @ '') DATA(XAUTH)''))
             (isUserAlreadyPermitted env)
             \<lparr>tpd_isPermitted = False, tpd_className = className, tpd_profileName = field (gn_profile local)\<rparr> log of
        Inl e \<Rightarrow> Inl e
      | Inr (st, parms, log1) \<Rightarrow>
          (if rm_rc st \<noteq> 0 then Inr (st, local, serviceMessage, log1)
           else if \<not> tpd_isPermitted parms \<or> isDryRun local then handlePermitAccess env caller className local serviceMessage log1
           else case handleRevokeAccess env caller className local serviceMessage log1 of
                  Inl e \<Rightarrow> Inl e
                | Inr (st2, local2, msg2, log2) \<Rightarrow>
                    (if rm_rc st2 \<noteq> 0 then Inr (st2, local2, msg2, log2)
                     else handlePermitAccess env caller className local2 msg2 log2)))"

definition deleteProfile ::
    "TssEnv \<Rightarrow> SizedField \<Rightarrow> string \<Rightarrow> ZISGenresAdminServiceParmList \<Rightarrow> string \<Rightarrow> RadminRequest list \<Rightarrow> genres_step" where
  "deleteProfile env caller className local serviceMessage log =
     (case radminRunRACFCommand env caller (snprintf 275 (''TSS WHOO '' @ className @ ''('' @ field (gn_profile local) @ '')''))
             (getGenresProfileOwnerHandler (te_utils env)) (zeros ZIS_USER_ID_MAX_LENGTH) log of
        Inl e \<Rightarrow> Inl e
      | Inr (st, owner, log1) \<Rightarrow>
          (if rm_rc st \<noteq> 0 then Inr (st, local, serviceMessage, log1)
           else handleDeleteProfile env caller className (te_nullTerminate env (cstr owner)) local serviceMessage log1))"

text \<open>The buffer for the message is not initialised.\<close>

definition zisGenresProfileAdminServiceFunctionTSS ::
    "TssEnv \<Rightarrow> ZISGenresAdminServiceParmList option \<Rightarrow> RadminRequest list
     \<Rightarrow> tss_fault + rc \<times> ZISGenresAdminServiceParmList option \<times> RadminRequest list" where
  "zisGenresProfileAdminServiceFunctionTSS env parm log =
     (case parm of
        None \<Rightarrow> Inr (8, None, log)
      | Some client \<Rightarrow>
          (let parmValidateRC = validateGenresParmList client
           in if parmValidateRC \<noteq> 0 then Inr (parmValidateRC, Some client, log)
              else case secmgmtGetCallerUserID (te_sec env) of
                None \<Rightarrow> Inr (14, Some client, log)
              | Some caller \<Rightarrow>
                  (let local = (if sf_length (gn_owner client) = 0 then client\<lparr>gn_owner := caller\<rparr> else client);
                       (getParmRC, cls) = userClass (te_sec env); className = cstr cls;
                       serviceMessage = take (TSS_SERVICE_MSG_MAX_LEN + 1) (te_uninitialized env);
                       action = (if gn_function local = ZIS_GENRES_ADMIN_SRV_FC_GIVE_ACCESS then Some giveAccess
                                 else if gn_function local = ZIS_GENRES_ADMIN_SRV_FC_REVOKE_ACCESS then Some handleRevokeAccess
                                 else if gn_function local = ZIS_GENRES_ADMIN_SRV_FC_DEFINE then Some handleDefineProfile
                                 else if gn_function local = ZIS_GENRES_ADMIN_SRV_FC_DELETE then Some deleteProfile
                                 else None)
                   in if getParmRC \<noteq> 0 then Inr (20, Some client, log)
                      else if length cls > ZIS_SECURITY_CLASS_MAX_LENGTH then Inr (19, Some client, log)
                      else case action of
                        None \<Rightarrow> Inr (15, Some client, log)
                      | Some act \<Rightarrow>
                          (case act env caller className local serviceMessage log of
                             Inl e \<Rightarrow> Inl e
                           | Inr (st, local1, msgBuffer, log') \<Rightarrow>
                               (if rm_rc st = 0 then Inr (0, Some local1, log')
                                else case stringIn msgBuffer of
                                       Inl e \<Rightarrow> Inl e
                                     | Inr msg \<Rightarrow>
                                         Inr (17, Some ((tss_failed st local1)\<lparr>gn_serviceMessage := copyMessage msg (gn_serviceMessage local1)\<rparr>),
                                              log'))))))"

section \<open>General resource profiles\<close>

text \<open>
  The parameters of \<open>genresProfileHandler\<close>. \<open>TSSLineData\<close> keeps the place where a call has stopped because
  the buffer was full: two pointers into the output of that command and the offset. The model keeps what
  the pointers led to. The next call reads through them although R_admin has got another command in the
  meantime: \<open>stale\<close> is what they lead to then, \<open>None\<close> when the storage cannot be read any more.
\<close>

record TSSGenresProfileParms =
  tgr_tmpResultBuffer :: "ZISGenresProfileEntry list"
  tgr_profilesExtracted :: nat
  tgr_profilesToExtract :: nat
  tgr_className :: string
  tgr_lineData :: "Cursor option"
  tgr_startIndex :: nat
  tgr_reachedEndOfOutput :: bool
  tgr_extractGeneric :: bool

text \<open>
  The entries before \<open>stopSearch\<close> are compared; for two blank names \<open>memcmp\<close> is called with a length of -1,
  for which there is no result.
\<close>

fun isDuplicateProfile :: "ZISGenresProfileEntry list \<Rightarrow> string \<Rightarrow> bool option" where
  "isDuplicateProfile [] searchString = Some False"
| "isDuplicateProfile (e # es) searchString =
     (let n = tssGetActualValueLength searchString
      in if n = tssGetActualValueLength (ge_profile e)
         then if n < 0 then None
              else if take (nat n) searchString = take (nat n) (ge_profile e) then Some True
              else isDuplicateProfile es searchString
         else isDuplicateProfile es searchString)"

type_synonym genresState = "TSSGenresProfileParms \<times> ZISGenresProfileEntry \<times> string \<times> nat"

text \<open>A profile is stored when it is not there yet; only then the entry is cleared.\<close>

definition storeProfile :: "string \<Rightarrow> string \<Rightarrow> genresState \<Rightarrow> genresState step" where
  "storeProfile profile owner s =
     (let (parms, entry, currOwner, numExtracted) = s
      in case isDuplicateProfile (take numExtracted (tgr_tmpResultBuffer parms)) profile of
           None \<Rightarrow> Fault OverRead
         | Some True \<Rightarrow> Go (parms, entry\<lparr>ge_profile := profile\<rparr>, owner, numExtracted)
         | Some False \<Rightarrow>
             storeEntry numExtracted \<lparr>ge_profile = profile, ge_owner = owner\<rparr> (tgr_tmpResultBuffer parms)
               (\<lambda>buf. Go (parms\<lparr>tgr_tmpResultBuffer := buf\<rparr>, emptyProfile, owner, numExtracted + 1)))"

text \<open>A line with the class as its key names an owner; one with XAUTH has the owner of the line before.\<close>

definition genresLine :: "TSSUtils \<Rightarrow> Cursor \<Rightarrow> string \<Rightarrow> genresState \<Rightarrow> genresState step" where
  "genresLine u c l s =
     (let (parms, entry, currOwner, numExtracted) = s
      in if tssIsOutputDone l
         then Done 0 (parms\<lparr>tgr_profilesExtracted := numExtracted, tgr_reachedEndOfOutput := True\<rparr>, entry, currOwner, numExtracted)
         else if numExtracted = tgr_profilesToExtract parms
         then Done 0 (parms\<lparr>tgr_profilesExtracted := numExtracted, tgr_lineData := Some c\<rparr>, entry, currOwner, numExtracted)
         else parseLine u l (\<lambda>numberOfKeys keys.
           let keyIndex = tssFindDesiredKey (tgr_className parms) keys; xauth = tssFindDesiredKey TSS_XAUTH_KEY keys;
               ownerIndex = tu_lastIndexOfString u l TSS_OWNER_KEY
           in if numberOfKeys = 0 then Done (- 1) s
              else if keyIndex \<noteq> - 1
              then if ownerIndex = - 1 then Done (- 1) s
                   else case valueOf u l (ownerIndex - 1) keys keyIndex numberOfKeys (ge_profile entry) of
                     None \<Rightarrow> Fault OverRead
                   | Some (status, profile) \<Rightarrow>
                       (if status = - 1 then Done (- 1) s
                        else case copyFromLine l (nat ownerIndex + 6) 8 of
                          None \<Rightarrow> Fault OverRead
                        | Some owner \<Rightarrow>
                            (if tgr_extractGeneric parms then storeProfile profile (tu_padWithSpaces u owner) s
                             else Go (parms, entry\<lparr>ge_profile := profile\<rparr>, tu_padWithSpaces u owner, numExtracted)))
              else if xauth \<noteq> - 1
              then xauthProfile u l keys xauth numberOfKeys (ge_profile entry) (\<lambda>_ profile. storeProfile profile currOwner s) s
              else Go s) s)"

text \<open>The owner is forgotten at the start of a block.\<close>

definition newBlock :: "genresState \<Rightarrow> genresState" where
  "newBlock s = (case s of (parms, entry, currOwner, numExtracted) \<Rightarrow> (parms, entry, zeros 8, numExtracted))"

definition resumeAt :: "(Cursor \<Rightarrow> Cursor option) \<Rightarrow> Cursor option \<Rightarrow> Cursor \<Rightarrow> Cursor option" where
  "resumeAt stale lineData c =
     (case lineData of
        None \<Rightarrow> Some c
      | Some c' \<Rightarrow> map_option (\<lambda>c''. c''\<lparr>cu_offset := cu_offset c'\<rparr>) (stale c'))"

definition genresProfileHandler :: "TSSUtils \<Rightarrow> (Cursor \<Rightarrow> Cursor option) \<Rightarrow> TSSGenresProfileParms handler" where
  "genresProfileHandler u stale status result parms =
     openOutput (\<lambda>c.
       case resumeAt stale (tgr_lineData parms) c of
         None \<Rightarrow> Inl OverRead
       | Some c' \<Rightarrow> returned fst (walk (genresLine u) newBlock c' (parms, emptyProfile, zeros 8, tgr_startIndex parms)))
     status result parms"

fun assignCorrectProfileOwners ::
    "TssEnv \<Rightarrow> SizedField \<Rightarrow> string \<Rightarrow> ZISGenresProfileEntry list \<Rightarrow> RadminStatus \<Rightarrow> RadminRequest list
     \<Rightarrow> tss_fault + RadminStatus \<times> ZISGenresProfileEntry list \<times> RadminRequest list" where
  "assignCorrectProfileOwners env caller className [] st log = Inr (st\<lparr>rm_rc := 0\<rparr>, [], log)"
| "assignCorrectProfileOwners env caller className (p # ps) st log =
     (if take 1 (ge_owner p) = [nul]
      then case radminRunRACFCommand env caller (snprintf 275 (''TSS WHOO '' @ className @ ''('' @ cstr (ge_profile p) @ '')''))
                  (getGenresProfileOwnerHandler (te_utils env)) (zeros ZIS_USER_ID_MAX_LENGTH) log of
             Inl e \<Rightarrow> Inl e
           | Inr (st', owner, log') \<Rightarrow>
               (if rm_rc st' \<noteq> 0 then Inr (st', p # ps, log')
                else case assignCorrectProfileOwners env caller className ps st' log' of
                       Inl e \<Rightarrow> Inl e
                     | Inr (st'', ps', log'') \<Rightarrow> Inr (st'', p\<lparr>ge_owner := owner\<rparr> # ps', log''))
      else case assignCorrectProfileOwners env caller className ps st log of
             Inl e \<Rightarrow> Inl e
           | Inr (st'', ps', log'') \<Rightarrow> Inr (st'', p # ps', log''))"

text \<open>The entries are moved one by one, and the place an entry came from is cleared.\<close>

definition shiftProfileBufferLeft :: "ZISGenresProfileEntry list \<Rightarrow> nat \<Rightarrow> nat \<Rightarrow> ZISGenresProfileEntry list" where
  "shiftProfileBufferLeft buf numberOfProfiles foundAt =
     fold (\<lambda>i b. b[i := b ! (i + foundAt), i + foundAt := emptyProfile]) [0..<numberOfProfiles] buf"

definition findStartProfile :: "ZISGenresProfileEntry list \<Rightarrow> nat \<Rightarrow> string \<Rightarrow> nat option" where
  "findStartProfile buf numberOfProfiles searchProfile =
     find (\<lambda>i. sameProfile (ge_profile (buf ! i)) searchProfile) [0..<numberOfProfiles]"

text \<open>
  One round of the loop that looks for the start profile: it ends with the status of the command, or
  there is another round. The profile is looked for until it has been found; what was found before it
  is dropped.
\<close>

record GenresSearch =
  gs_parms :: TSSGenresProfileParms
  gs_isProfileFound :: bool
  gs_log :: "RadminRequest list"

definition searchCommand :: "string \<Rightarrow> string" where
  "searchCommand className = snprintf 34 (''TSS WHOH '' @ className @ ''(*) DATA(MASK)'')"

definition foundRound :: "TSSGenresProfileParms \<Rightarrow> nat \<Rightarrow> bool \<times> TSSGenresProfileParms" where
  "foundRound p foundAt =
     (let validExtractedProfiles = tgr_profilesExtracted p - foundAt;
          p1 = (if foundAt \<noteq> 0
                then p\<lparr>tgr_tmpResultBuffer := shiftProfileBufferLeft (tgr_tmpResultBuffer p) validExtractedProfiles foundAt\<rparr> else p)
      in if tgr_reachedEndOfOutput p1 \<or> validExtractedProfiles \<ge> tgr_profilesToExtract p1
         then (True, p1\<lparr>tgr_profilesExtracted := validExtractedProfiles\<rparr>)
         else (False, p1\<lparr>tgr_startIndex := validExtractedProfiles\<rparr>))"

definition searchRound :: "string \<Rightarrow> TSSGenresProfileParms \<Rightarrow> bool \<Rightarrow> bool \<times> bool \<times> TSSGenresProfileParms" where
  "searchRound startProfile p isProfileFound =
     (if isProfileFound then (let (stop, p') = foundRound p 0 in (stop, True, p'))
      else case findStartProfile (tgr_tmpResultBuffer p) (tgr_profilesExtracted p) startProfile of
             Some 0 \<Rightarrow> (True, True, p)
           | Some (Suc k) \<Rightarrow> (let (stop, p') = foundRound p (Suc k) in (stop, True, p'))
           | None \<Rightarrow>
               (let p1 = p\<lparr>tgr_tmpResultBuffer := replicate (length (tgr_tmpResultBuffer p)) emptyProfile\<rparr>
                in if tgr_reachedEndOfOutput p1 then (True, False, p1\<lparr>tgr_profilesExtracted := 0\<rparr>) else (False, False, p1)))"

definition genresRound ::
    "TssEnv \<Rightarrow> SizedField \<Rightarrow> string \<Rightarrow> string option \<Rightarrow> GenresSearch \<Rightarrow> tss_fault + bool \<times> RadminStatus \<times> GenresSearch" where
  "genresRound env caller className startProfile s =
     (case radminRunRACFCommand env caller (searchCommand className) (genresProfileHandler (te_utils env) (te_stale env (gs_log s))) (gs_parms s) (gs_log s) of
        Inl e \<Rightarrow> Inl e
      | Inr (st, p, log) \<Rightarrow>
          (if rm_rc st \<noteq> 0 then Inr (True, st, s\<lparr>gs_parms := p, gs_log := log\<rparr>)
           else case startProfile of
             None \<Rightarrow> Inr (True, st, s\<lparr>gs_parms := p, gs_log := log\<rparr>)
           | Some name \<Rightarrow>
               (let (stop, found, p') = searchRound name p (gs_isProfileFound s)
                in Inr (stop, st, \<lparr>gs_parms = p', gs_isProfileFound = found, gs_log = log\<rparr>))))"

text \<open>The loop has no other end than the ones in the rounds.\<close>

partial_function (option) genresLoop ::
    "TssEnv \<Rightarrow> SizedField \<Rightarrow> string \<Rightarrow> string option \<Rightarrow> GenresSearch \<Rightarrow> (tss_fault + RadminStatus \<times> GenresSearch) option" where
  "genresLoop env caller className startProfile s =
     (case genresRound env caller className startProfile s of
        Inl e \<Rightarrow> Some (Inl e)
      | Inr (stop, st, s') \<Rightarrow> if stop then Some (Inr (st, s')) else genresLoop env caller className startProfile s')"

text \<open>The first part of the service: profiles with a prefix, or all from the start profile on.\<close>

definition extractProfiles ::
    "TssEnv \<Rightarrow> SizedField \<Rightarrow> string \<Rightarrow> string option \<Rightarrow> bool \<Rightarrow> nat \<Rightarrow> RadminRequest list
     \<Rightarrow> (tss_fault + RadminStatus \<times> TSSGenresProfileParms \<times> RadminRequest list) option" where
  "extractProfiles env caller className startProfile searchByPrefix n log =
     (let parms = \<lparr>tgr_tmpResultBuffer = replicate n emptyProfile, tgr_profilesExtracted = 0, tgr_profilesToExtract = n,
                   tgr_className = className, tgr_lineData = None, tgr_startIndex = 0, tgr_reachedEndOfOutput = False,
                   tgr_extractGeneric = \<not> searchByPrefix\<rparr>
      in if searchByPrefix
         then Some (radminRunRACFCommand env caller
                      (snprintf 290 (''TSS WHOH '' @ className @ ''('' @ (case startProfile of Some p \<Rightarrow> p | None \<Rightarrow> []) @ '') DATA(NOPREFIX)''))
                      (genresProfileHandler (te_utils env) (te_stale env log)) parms log)
         else map_option (\<lambda>r. case r of Inl e \<Rightarrow> Inl e | Inr (st, s) \<Rightarrow> Inr (st, gs_parms s, gs_log s))
                (genresLoop env caller className startProfile \<lparr>gs_parms = parms, gs_isProfileFound = False, gs_log = log\<rparr>))"

text \<open>The second part: the owners that are not known yet, when there is a start profile.\<close>

definition completeOwners ::
    "TssEnv \<Rightarrow> SizedField \<Rightarrow> string \<Rightarrow> string option \<Rightarrow> RadminStatus \<Rightarrow> TSSGenresProfileParms \<Rightarrow> RadminRequest list
     \<Rightarrow> tss_fault + RadminStatus \<times> TSSGenresProfileParms \<times> RadminRequest list" where
  "completeOwners env caller className startProfile st p log =
     (if rm_rc st \<noteq> 0 \<or> startProfile = None then Inr (st, p, log)
      else let k = tgr_profilesExtracted p
           in case assignCorrectProfileOwners env caller className (take k (tgr_tmpResultBuffer p)) st log of
                Inl e \<Rightarrow> Inl e
              | Inr (st', es, log') \<Rightarrow> Inr (st', p\<lparr>tgr_tmpResultBuffer := es @ drop k (tgr_tmpResultBuffer p)\<rparr>, log'))"

text \<open>The third part: what the caller's own user has, when a command has failed.\<close>

definition profilesOfCaller ::
    "TssEnv \<Rightarrow> SizedField \<Rightarrow> string \<Rightarrow> string option \<Rightarrow> bool \<Rightarrow> RadminStatus \<Rightarrow> TSSGenresProfileParms \<Rightarrow> RadminRequest list
     \<Rightarrow> tss_fault + RadminStatus \<times> ZISGenresProfileEntry list \<times> nat \<times> RadminRequest list" where
  "profilesOfCaller env caller className startProfile searchByPrefix st p log =
     (if rm_rc st = 0 then Inr (st, tgr_tmpResultBuffer p, tgr_profilesExtracted p, log)
      else case radminRunRACFCommand env caller
                  (snprintf 31 (''TSS LIST('' @ cstr (take 8 (sf_value caller)) @ '') DATA(XAUTH)''))
                  (callerProfileHandler (te_utils env))
                  \<lparr>tcp_extractGroups = False, tcp_searchGroup = [], tcp_isInGroup = False, tcp_extractProfiles = True,
                   tcp_searchClass = className, tcp_profiles = tgr_tmpResultBuffer p, tcp_profilesExtracted = 0,
                   tcp_profilesToExtract = tgr_profilesToExtract p,
                   tcp_filterByPrefix = (if searchByPrefix then startProfile else None),
                   tcp_filterByProfile = (if searchByPrefix then None else startProfile)\<rparr> log of
             Inl e \<Rightarrow> Inl e
           | Inr (st', callerParms, log') \<Rightarrow> Inr (st', tcp_profiles callerParms, tcp_profilesExtracted callerParms, log'))"

definition profilesService ::
    "TssEnv \<Rightarrow> SizedField \<Rightarrow> string \<Rightarrow> string option \<Rightarrow> bool \<Rightarrow> ZISGenresProfileServiceParmList \<Rightarrow> RadminRequest list
     \<Rightarrow> (ZISGenresProfileServiceParmList, ZISGenresProfileEntry) tss_result option" where
  "profilesService env caller className startProfile searchByPrefix local log =
     (case extractProfiles env caller className startProfile searchByPrefix (unat (gp_profilesToExtract local)) log of
        None \<Rightarrow> None
      | Some (Inl e) \<Rightarrow> Some (Inl e)
      | Some (Inr (st, p, log1)) \<Rightarrow>
          (case completeOwners env caller className startProfile st p log1 of
             Inl e \<Rightarrow> Some (Inl e)
           | Inr (st2, p2, log2) \<Rightarrow>
               (case profilesOfCaller env caller className startProfile searchByPrefix st2 p2 log2 of
                  Inl e \<Rightarrow> Some (Inl e)
                | Inr (st3, buf, k, log3) \<Rightarrow>
                    (if rm_rc st3 = 0
                     then Some (Inr (0, Some (local\<lparr>gp_profilesExtracted := of_nat k\<rparr>), copyEntries buf k, log3))
                     else Some (Inr (16, Some (tss_failed st3 local), [], log3))))))"

definition zisGenresProfilesServiceFunctionTSS ::
    "TssEnv \<Rightarrow> ZISGenresProfileServiceParmList option \<Rightarrow> RadminRequest list
     \<Rightarrow> (ZISGenresProfileServiceParmList, ZISGenresProfileEntry) tss_result option" where
  "zisGenresProfilesServiceFunctionTSS env parm log =
     (case parm of
        None \<Rightarrow> Some (Inr (8, None, [], log))
      | Some local \<Rightarrow>
          (let parmValidateRC = validateGenresProfileParmList local;
               startProfile = start_name (gp_startProfile local);
               searchByPrefix = (case startProfile of None \<Rightarrow> False | Some p \<Rightarrow> List.last p = CHR ''.'')
           in if parmValidateRC \<noteq> 0 then Some (Inr (parmValidateRC, Some local, [], log))
              else case secmgmtGetCallerUserID (te_sec env) of
                None \<Rightarrow> Some (Inr (15, Some local, [], log))
              | Some caller \<Rightarrow>
                  (let (getParmRC, cls) = userClass (te_sec env); className = cstr cls
                   in if getParmRC \<noteq> 0 then Some (Inr (18, Some local, [], log))
                      else if length cls > ZIS_SECURITY_CLASS_MAX_LENGTH then Some (Inr (10, Some local, [], log))
                      else if \<not> se_safeMalloc64 (te_sec env) ''ZISGenresProfileEntry'' (gp_profilesToExtract local)
                      then Some (Inr (17, Some local, [], log))
                      else if startProfile = Some [] then Some (Inl OverRead)
                      else profilesService env caller className startProfile searchByPrefix local log)))"

end
