(* ===== verification/TSS_Contracts.thy ===== *)
theory TSS_Contracts
  imports TSS_Secmgmt "HOL-Library.Sublist"
begin

text \<open>
  What the services for Top Secret do with the buffers, the commands and the output: bounds, the
  confinement of the administration, and where the handlers leave their buffers.
\<close>

section \<open>Handlers that stay in their buffer\<close>

text \<open>A step that keeps an invariant and does not write behind the buffer.\<close>

definition step_ok :: "('s \<Rightarrow> bool) \<Rightarrow> 's step \<Rightarrow> bool" where
  "step_ok I r = (case r of Go s \<Rightarrow> I s | Done _ s \<Rightarrow> I s | Fault e \<Rightarrow> e \<noteq> BufferOverflow)"

lemma step_ok_simps [simp]:
  "step_ok I (Go s) = I s" "step_ok I (Done r s) = I s" "step_ok I (Fault e) = (e \<noteq> BufferOverflow)"
  by (simp_all add: step_ok_def)

lemma parseLine_ok:
  assumes "\<And>n keys. step_ok I (k n keys)" and "I s"
  shows "step_ok I (parseLine u l k s)"
  using assms by (auto simp: parseLine_def split: option.split)

lemma readField_ok:
  assumes "\<And>v. step_ok I (k v)" and "I s"
  shows "step_ok I (readField u l keys n key buf k s)"
  using assms by (auto simp: readField_def Let_def split: option.split)

lemma xauthProfile_ok:
  assumes "\<And>i v. step_ok I (k i v)" and "I s"
  shows "step_ok I (xauthProfile u l keys i n buf k s)"
  using assms by (auto simp: xauthProfile_def Let_def split: option.split)

lemma storeEntry_ok:
  assumes "i < length buf" and "step_ok I (k (buf[i := e]))"
  shows "step_ok I (storeEntry i e buf k)"
  using assms by (simp add: storeEntry_def)

definition result_ok :: "('p \<Rightarrow> bool) \<Rightarrow> tss_fault + rc \<times> 'p \<Rightarrow> bool" where
  "result_ok J r = (case r of Inl e \<Rightarrow> e \<noteq> BufferOverflow | Inr (_, p) \<Rightarrow> J p)"

lemma result_ok_simps [simp]: "result_ok J (Inl e) = (e \<noteq> BufferOverflow)" "result_ok J (Inr (r, p)) = J p"
  by (simp_all add: result_ok_def)

definition run_ok :: "('p \<Rightarrow> bool) \<Rightarrow> tss_fault + 'st \<times> 'p \<times> 'log \<Rightarrow> bool" where
  "run_ok J r = (case r of Inl e \<Rightarrow> e \<noteq> BufferOverflow | Inr (_, p, _) \<Rightarrow> J p)"

lemma run_ok_simps [simp]: "run_ok J (Inl e) = (e \<noteq> BufferOverflow)" "run_ok J (Inr (st, p, log)) = J p"
  by (simp_all add: run_ok_def)

text \<open>The interface of the loops: what the handling of a line and a new block keep.\<close>

locale line_handler =
  fixes f :: "Cursor \<Rightarrow> string \<Rightarrow> 's \<Rightarrow> 's step" and enter :: "'s \<Rightarrow> 's" and I :: "'s \<Rightarrow> bool"
  assumes line: "I s \<Longrightarrow> step_ok I (f c l s)"
    and block: "I s \<Longrightarrow> I (enter s)"
begin

lemma walk_ok: "I s \<Longrightarrow> step_ok I (walk f enter c s)"
proof (induction c arbitrary: s rule: measure_induct_rule [of remaining])
  case (less c)
  have "step_ok I (walk f enter (c\<lparr>cu_offset := cu_offset c + length l + 2, cu_lines := ls\<rparr>) s')"
    if "cu_lines c = l # ls" "f c l s = Go s'" for l ls s'
    using less.IH that line [OF less.prems, of c l] by (simp add: remaining_def)
  moreover have "step_ok I (walk f enter (firstLine b bs) (enter s))" if "cu_next c = b # bs" for b bs
    using less.IH that block [OF less.prems] by (simp add: remaining_def firstLine_def)
  ultimately show ?case
    using line [OF less.prems, of c "hd (cu_lines c)"] less.prems
    by (cases "cu_lines c"; cases "cu_next c") (auto simp: walk.simps [of f enter c s] split: step.split)
qed

lemma returned_ok:
  assumes "I s" and "\<And>s'. I s' \<Longrightarrow> J (g s')"
  shows "result_ok J (returned g (walk f enter c s))"
  using walk_ok [OF assms(1), of c] assms(2) by (auto simp: returned_def result_ok_def split: step.split)

end

lemma openOutput_ok:
  assumes "\<And>c. result_ok J (k c)" and "J parms"
  shows "result_ok J (openOutput k status result parms)"
  using assms by (simp add: openOutput_def split: list.split)

lemma resumed_ok: "(\<And>c. result_ok J (k c)) \<Longrightarrow> result_ok J (case place of None \<Rightarrow> Inl OverRead | Some c \<Rightarrow> k c)"
  by (cases place) simp_all

lemma findLineOfStart_ok: "findLineOfStart u key v m off lastByte ls \<noteq> Inl BufferOverflow"
  by (induction u key v m off lastByte ls rule: findLineOfStart.induct) (auto simp: Let_def split: option.split)

lemma findStart_ok: "findStart u key v m off bs \<noteq> Inl BufferOverflow"
proof (induction u key v m off bs rule: findStart.induct)
  case (2 u key v m off b bs)
  then show ?case
    using findLineOfStart_ok [of u key v m off "ro_lastByteOffset b" "ro_lines b"]
    by (auto split: sum.split option.split)
qed simp

lemma startAt_ok: "startAt u key n m bs c \<noteq> Inl BufferOverflow"
  by (simp add: startAt_def findStart_ok split: option.split)

lemma radminRun_ok:
  assumes "\<And>st result. result_ok J (h st result parms)" and "J parms"
  shows "run_ok J (radminRunRACFCommand env caller cmd h parms log)"
proof (cases "te_run env log (RunRACFCommand caller cmd)")
  case (Ran st result)
  then show ?thesis
    using assms(1) [of st result] by (auto simp: radminRunRACFCommand_def Let_def split: sum.split prod.split)
qed (simp add: radminRunRACFCommand_def assms(2))

lemma start_ok:
  assumes "\<And>c'. result_ok J (k c')" and "J parms"
  shows "result_ok J (case startAt u key n m bs c of Inl e \<Rightarrow> Inl e | Inr None \<Rightarrow> Inr (0, parms) | Inr (Some c') \<Rightarrow> k c')"
  using assms startAt_ok [of u key n m bs c] by (auto split: sum.split option.split)

subsection \<open>Users\<close>

definition users_fit :: "nat \<Rightarrow> TSSUserProfileParms \<Rightarrow> bool" where
  "users_fit n p \<longleftrightarrow>
     length (tup_tmpResultBuffer p) = n \<and> tup_profilesToExtract p = n \<and> tup_profilesExtracted p \<le> n \<and> tup_startIndex p \<le> n"

interpretation user_lines: line_handler "userLine u" id "\<lambda>(p, e, k). users_fit n p \<and> k \<le> n" for u n
proof unfold_locales
  fix c l and s :: "TSSUserProfileParms \<times> ZISUserProfileEntry \<times> nat"
  obtain p e k where s: "s = (p, e, k)" by (cases s)
  assume "case s of (p, e, k) \<Rightarrow> users_fit n p \<and> k \<le> n"
  then show "step_ok (\<lambda>(p, e, k). users_fit n p \<and> k \<le> n) (userLine u c l s)"
    unfolding s userLine_def
    by (auto simp: users_fit_def intro!: parseLine_ok readField_ok storeEntry_ok)
qed auto

lemma userProfilesHandler_fits:
  assumes "users_fit n parms"
  shows "result_ok (users_fit n) (userProfilesHandler u st result parms)"
  unfolding userProfilesHandler_def using assms
  by (intro openOutput_ok start_ok user_lines.returned_ok [of n]) (auto simp: users_fit_def)

lemma getUsers_fits:
  assumes "users_fit n parms"
  shows "run_ok (users_fit n) (getUsers env caller ts parms st log)"
  using assms
proof (induction ts arbitrary: parms st log)
  case (Cons t ts)
  have "run_ok (users_fit n) (radminRunRACFCommand env caller (''TSS LIST(ACIDS) TYPE('' @ t @ '')'')
      (userProfilesHandler (te_utils env)) parms log)"
    using Cons.prems by (intro radminRun_ok userProfilesHandler_fits)
  then show ?case
    using Cons.IH by (auto simp: Let_def users_fit_def split: sum.split)
qed simp

subsection \<open>Groups and access lists of profiles\<close>

definition groups_fit :: "nat \<Rightarrow> TSSGroupProfileParms \<Rightarrow> bool" where
  "groups_fit n p \<longleftrightarrow> length (tgp_tmpResultBuffer p) = n \<and> tgp_profilesToExtract p = n \<and> tgp_profilesExtracted p \<le> n"

interpretation group_lines: line_handler "groupLine u" id "\<lambda>(p, e, k). groups_fit n p \<and> k \<le> n" for u n
proof unfold_locales
  fix c l and s :: "TSSGroupProfileParms \<times> ZISGroupProfileEntry \<times> nat"
  obtain p e k where s: "s = (p, e, k)" by (cases s)
  assume "case s of (p, e, k) \<Rightarrow> groups_fit n p \<and> k \<le> n"
  then show "step_ok (\<lambda>(p, e, k). groups_fit n p \<and> k \<le> n) (groupLine u c l s)"
    unfolding s groupLine_def
    by (auto simp: groups_fit_def intro!: parseLine_ok readField_ok storeEntry_ok)
qed auto

lemma groupProfilesHandler_fits:
  assumes "groups_fit n parms"
  shows "result_ok (groups_fit n) (groupProfilesHandler u st result parms)"
  unfolding groupProfilesHandler_def using assms
  by (intro openOutput_ok start_ok group_lines.returned_ok [of n]) (auto simp: groups_fit_def)

definition access_fit :: "nat \<Rightarrow> TSSGenresProfileAccessListParms \<Rightarrow> bool" where
  "access_fit n p \<longleftrightarrow> length (tga_tmpResultBuffer p) = n \<and> tga_entriesToExtract p = n \<and> tga_entriesExtracted p \<le> n"

interpretation access_lines: line_handler "genresAccessLine u" id "\<lambda>(p, e, b, k). access_fit n p \<and> k \<le> n" for u n
proof unfold_locales
  fix c l and s :: "TSSGenresProfileAccessListParms \<times> ZISAccessEntry \<times> bool \<times> nat"
  obtain p e b k where s: "s = (p, e, b, k)" by (cases s)
  assume "case s of (p, e, b, k) \<Rightarrow> access_fit n p \<and> k \<le> n"
  then show "step_ok (\<lambda>(p, e, b, k). access_fit n p \<and> k \<le> n) (genresAccessLine u c l s)"
    unfolding s genresAccessLine_def
    by (auto simp: access_fit_def Let_def intro!: parseLine_ok readField_ok storeEntry_ok xauthProfile_ok split: option.split)
qed auto

interpretation entry_lines: line_handler "genreEntryLine u prof" id "\<lambda>_. True" for u prof
  by unfold_locales (auto simp: genreEntryLine_def Let_def intro!: parseLine_ok xauthProfile_ok)

lemma findNumberOfValidGenreEntries_ok: "findNumberOfValidGenreEntries u prof bs n \<noteq> Inl BufferOverflow"
proof (induction u prof bs n rule: findNumberOfValidGenreEntries.induct)
  case (2 u prof b bs n)
  then show ?case
    using entry_lines.walk_ok [where s = n and u = u and prof = prof and c = "firstLine b []"] by (auto split: step.split)
qed simp

lemma genresAccessHandler_fits:
  assumes "access_fit n parms"
  shows "result_ok (access_fit n) (genresProfileAccessListHandler u st result parms)"
  unfolding genresProfileAccessListHandler_def
proof (rule openOutput_ok)
  fix c
  have "result_ok (access_fit n) (returned fst (walk (genresAccessLine u) id c (parms\<lparr>tga_entriesFound := m\<rparr>, emptyAccess, False, 0)))" for m
    by (rule access_lines.returned_ok [of n]) (use assms in \<open>auto simp: access_fit_def\<close>)
  then show "result_ok (access_fit n) (case findNumberOfValidGenreEntries u (tga_searchProfile parms) result 0 of
      Inl e \<Rightarrow> Inl e
    | Inr (r, numberOfEntries) \<Rightarrow>
        (if r = - 1 then Inr (- 1, parms) else if numberOfEntries = 0 then Inr (- 1, parms)
         else returned fst (walk (genresAccessLine u) id c (parms\<lparr>tga_entriesFound := numberOfEntries\<rparr>, emptyAccess, False, 0))))"
    using assms findNumberOfValidGenreEntries_ok [of u "tga_searchProfile parms" result 0]
    by (auto split: sum.split)
qed (rule assms)

subsection \<open>Profiles\<close>

definition profiles_fit :: "nat \<Rightarrow> TSSGenresProfileParms \<Rightarrow> bool" where
  "profiles_fit n p \<longleftrightarrow>
     length (tgr_tmpResultBuffer p) = n \<and> tgr_profilesToExtract p = n \<and> tgr_profilesExtracted p \<le> n \<and> tgr_startIndex p \<le> n"

lemma storeProfile_ok:
  assumes "profiles_fit n p" and "k < n"
  shows "step_ok (\<lambda>(p, e, ow, k). profiles_fit n p \<and> k \<le> n) (storeProfile profile owner (p, e, ow, k))"
  using assms unfolding storeProfile_def
  by (auto simp: profiles_fit_def intro!: storeEntry_ok split: option.split bool.split)

interpretation genres_lines: line_handler "genresLine u" newBlock "\<lambda>(p, e, ow, k). profiles_fit n p \<and> k \<le> n" for u n
proof unfold_locales
  fix c l and s :: genresState
  obtain p e ow k where s: "s = (p, e, ow, k)" by (cases s)
  assume I: "case s of (p, e, ow, k) \<Rightarrow> profiles_fit n p \<and> k \<le> n"
  show "step_ok (\<lambda>(p, e, ow, k). profiles_fit n p \<and> k \<le> n) (genresLine u c l s)"
  proof (cases "tssIsOutputDone l \<or> k = n")
    case True
    then show ?thesis using I by (auto simp: s genresLine_def profiles_fit_def)
  next
    case False
    then have "k < n" "tgr_profilesToExtract p \<noteq> k" using I by (auto simp: s profiles_fit_def)
    then show ?thesis
      using I False storeProfile_ok [of n p k] unfolding s genresLine_def
      by (auto simp: Let_def intro!: parseLine_ok xauthProfile_ok split: option.split)
  qed
qed (auto simp: newBlock_def)

lemma genresProfileHandler_fits:
  assumes "profiles_fit n parms"
  shows "result_ok (profiles_fit n) (genresProfileHandler u stale st result parms)"
  unfolding genresProfileHandler_def using assms
  by (intro openOutput_ok resumed_ok genres_lines.returned_ok [of n]) (auto simp: profiles_fit_def)

lemma shift_length [simp]: "length (shiftProfileBufferLeft buf k d) = length buf"
proof -
  have "length (fold (\<lambda>i b. b[i := b ! (i + d), i + d := emptyProfile]) xs buf) = length buf" for xs
    by (induction xs arbitrary: buf) simp_all
  then show ?thesis by (simp add: shiftProfileBufferLeft_def)
qed

lemma findStartProfile_bound: "findStartProfile buf k name = Some i \<Longrightarrow> i < k \<and> sameProfile (ge_profile (buf ! i)) name"
  by (auto simp: findStartProfile_def find_Some_iff)

lemma foundRound_fits:
  assumes "profiles_fit n p" and "foundRound p d = (stop, p')"
  shows "profiles_fit n p'"
  using assms by (auto simp: foundRound_def profiles_fit_def Let_def split: if_splits)

lemma searchRound_fits:
  assumes "profiles_fit n p" and "searchRound name p b = (stop, b', p')"
  shows "profiles_fit n p'"
  using assms foundRound_fits [OF assms(1)]
  by (auto simp: searchRound_def Let_def profiles_fit_def split: if_splits option.splits nat.splits prod.splits)

lemma genresRound_fits:
  assumes "profiles_fit n (gs_parms s)"
  shows "case genresRound env caller cls start s of
      Inl e \<Rightarrow> e \<noteq> BufferOverflow | Inr (stop, st, s') \<Rightarrow> profiles_fit n (gs_parms s')"
proof -
  have "run_ok (profiles_fit n) (radminRunRACFCommand env caller (searchCommand cls) (genresProfileHandler (te_utils env) (te_stale env (gs_log s))) (gs_parms s) (gs_log s))"
    using assms by (intro radminRun_ok genresProfileHandler_fits)
  then show ?thesis
    by (auto simp: genresRound_def searchRound_fits split: sum.split option.split prod.split)
qed

text \<open>Reasoning about the loop: an invariant of the rounds that go on, and what the last one gives.\<close>

lemma genresLoop_inv:
  assumes loop: "genresLoop env caller cls start s = Some r" and init: "I s"
    and round: "\<And>s stop st s'. I s \<Longrightarrow> genresRound env caller cls start s = Inr (stop, st, s') \<Longrightarrow> if stop then Q st s' else I s'"
    and fault: "\<And>s e. I s \<Longrightarrow> genresRound env caller cls start s = Inl e \<Longrightarrow> E e"
  shows "case r of Inl e \<Rightarrow> E e | Inr (st, s') \<Rightarrow> Q st s'"
proof -
  let ?P = "\<lambda>env' caller' cls' start' s r. env' = env \<and> caller' = caller \<and> cls' = cls \<and> start' = start \<and> I s \<longrightarrow>
    (case r of Inl e \<Rightarrow> E e | Inr (st, s') \<Rightarrow> Q st s')"
  have "?P env caller cls start s r"
  proof (rule genresLoop.raw_induct [where P = ?P, OF _ loop])
    fix w env' caller' cls' start' s r
    assume IH: "\<And>env' caller' cls' start' s r. w env' caller' cls' start' s = Some r \<Longrightarrow> ?P env' caller' cls' start' s r"
      and body: "(case genresRound env' caller' cls' start' s of Inl e \<Rightarrow> Some (Inl e)
          | Inr (stop, st, s') \<Rightarrow> if stop then Some (Inr (st, s')) else w env' caller' cls' start' s') = Some r"
    show "?P env' caller' cls' start' s r"
    proof (intro impI, elim conjE)
      assume eqs: "env' = env" "caller' = caller" "cls' = cls" "start' = start" and I: "I s"
      show "case r of Inl e \<Rightarrow> E e | Inr (st, s') \<Rightarrow> Q st s'"
      proof (cases "genresRound env caller cls start s")
        case (Inl e)
        then show ?thesis using fault [OF I Inl] body eqs by auto
      next
        case (Inr x)
        obtain stop st s' where x: "x = (stop, st, s')" by (cases x)
        have step: "if stop then Q st s' else I s'" using round [OF I] Inr x by blast
        show ?thesis
        proof (cases stop)
          case True
          then show ?thesis using body eqs Inr x step by auto
        next
          case False
          then have "w env caller cls start s' = Some r" using body eqs Inr x by simp
          then show ?thesis using IH [of env caller cls start s' r] step False by simp
        qed
      qed
    qed
  qed
  then show ?thesis using init by blast
qed

lemma genresLoop_fits:
  assumes "genresLoop env caller cls start s = Some r" and "profiles_fit n (gs_parms s)"
  shows "case r of Inl e \<Rightarrow> e \<noteq> BufferOverflow | Inr (st, s') \<Rightarrow> profiles_fit n (gs_parms s')"
  using assms(1)
proof (rule genresLoop_inv [where I = "\<lambda>s. profiles_fit n (gs_parms s)" and Q = "\<lambda>st s. profiles_fit n (gs_parms s)"])
  show "if stop then profiles_fit n (gs_parms s') else profiles_fit n (gs_parms s')"
    if "profiles_fit n (gs_parms s)" "genresRound env caller cls start s = Inr (stop, st, s')" for s stop st s'
    using genresRound_fits [OF that(1), of env caller cls start] that(2) by simp
  show "e \<noteq> BufferOverflow"
    if "profiles_fit n (gs_parms s)" "genresRound env caller cls start s = Inl e" for s e
    using genresRound_fits [OF that(1), of env caller cls start] that(2) by simp
qed (rule assms(2))

subsection \<open>The services\<close>

definition caller_fit :: "bool \<Rightarrow> nat \<Rightarrow> TSSCallerProfileParms \<Rightarrow> bool" where
  "caller_fit x n p \<longleftrightarrow>
     tcp_extractProfiles p = x \<and> (x \<longrightarrow> length (tcp_profiles p) = n) \<and> tcp_profilesToExtract p = n \<and> tcp_profilesExtracted p \<le> n"

lemma callerProfile_ok:
  assumes "caller_fit x n p" "tcp_extractProfiles p" "k < n"
  shows "step_ok (\<lambda>(p, e, b, k). caller_fit x n p \<and> k \<le> n) (callerProfile u l keys i m (p, e, b, k))"
  using assms unfolding callerProfile_def
  by (auto simp: caller_fit_def Let_def intro!: storeEntry_ok split: option.split prod.split)

interpretation caller_lines: line_handler "callerLine u" id "\<lambda>(p, e, b, k). caller_fit x n p \<and> k \<le> n" for u x n
proof unfold_locales
  fix c l and s :: callerState
  obtain p e b k where s: "s = (p, e, b, k)" by (cases s)
  assume I: "case s of (p, e, b, k) \<Rightarrow> caller_fit x n p \<and> k \<le> n"
  show "step_ok (\<lambda>(p, e, b, k). caller_fit x n p \<and> k \<le> n) (callerLine u c l s)"
  proof (cases "tssIsOutputDone l \<or> k = n")
    case True
    then show ?thesis using I by (auto simp: s callerLine_def caller_fit_def)
  next
    case False
    then have k: "k < n" "tcp_profilesToExtract p \<noteq> k" using I by (auto simp: s caller_fit_def)
    have "caller_fit x n (p\<lparr>tcp_isInGroup := True\<rparr>)" using I by (simp add: s caller_fit_def)
    then show ?thesis
      using I False k callerProfile_ok [of x n p k] callerProfile_ok [of x n "p\<lparr>tcp_isInGroup := True\<rparr>" k] unfolding s callerLine_def
      by (auto simp: Let_def intro!: parseLine_ok)
  qed
qed auto

lemma callerProfileHandler_fits:
  assumes "caller_fit x n parms"
  shows "result_ok (caller_fit x n) (callerProfileHandler u st result parms)"
  unfolding callerProfileHandler_def using assms
  by (auto intro!: openOutput_ok caller_lines.returned_ok [of x n])

lemma ownerHandler_ok: "result_ok (\<lambda>_. True) (getGenresProfileOwnerHandler u st result owner)"
  by (simp add: getGenresProfileOwnerHandler_def split: list.split)

lemma assignOwners_ok: "run_ok (\<lambda>es'. length es' = length es) (assignCorrectProfileOwners env caller cls es st log)"
proof (induction es arbitrary: st log)
  case (Cons p ps)
  let ?run = "radminRunRACFCommand env caller (snprintf 275 (''TSS WHOO '' @ cls @ ''('' @ cstr (ge_profile p) @ '')''))
      (getGenresProfileOwnerHandler (te_utils env)) (zeros ZIS_USER_ID_MAX_LENGTH) log"
  have run: "run_ok (\<lambda>_. True) ?run" by (rule radminRun_ok [OF ownerHandler_ok]) simp
  show ?case
  proof (cases "take 1 (ge_owner p) = [nul]")
    case False
    then show ?thesis using Cons.IH [of st log] by (auto split: sum.split)
  next
    case True
    show ?thesis
    proof (cases ?run)
      case (Inl e)
      then show ?thesis using True run by simp
    next
      case (Inr x)
      obtain st' owner log' where "x = (st', owner, log')" by (cases x)
      then show ?thesis using Inr True Cons.IH [of st' log'] by (auto split: sum.split)
    qed
  qed
qed simp

lemma completeOwners_fits:
  assumes "profiles_fit n p"
  shows "run_ok (profiles_fit n) (completeOwners env caller cls start st p log)"
  using assignOwners_ok [where es = "take (tgr_profilesExtracted p) (tgr_tmpResultBuffer p)" and env = env and caller = caller
      and cls = cls and st = st and log = log] assms
  by (auto simp: completeOwners_def Let_def profiles_fit_def run_ok_def split: sum.splits)

lemma profilesOfCaller_fits:
  assumes "profiles_fit n p"
  shows "case profilesOfCaller env caller cls start b st p log of
      Inl e \<Rightarrow> e \<noteq> BufferOverflow | Inr (st', buf, k, log') \<Rightarrow> length buf = n \<and> k \<le> n"
proof (cases "rm_rc st = 0")
  case False
  let ?parms = "\<lparr>tcp_extractGroups = False, tcp_searchGroup = [], tcp_isInGroup = False, tcp_extractProfiles = True,
    tcp_searchClass = cls, tcp_profiles = tgr_tmpResultBuffer p, tcp_profilesExtracted = 0,
    tcp_profilesToExtract = tgr_profilesToExtract p, tcp_filterByPrefix = (if b then start else None),
    tcp_filterByProfile = (if b then None else start)\<rparr>"
  have "run_ok (caller_fit True n) (radminRunRACFCommand env caller
      (snprintf 31 (''TSS LIST('' @ cstr (take 8 (sf_value caller)) @ '') DATA(XAUTH)'')) (callerProfileHandler (te_utils env)) ?parms log)"
    using assms by (intro radminRun_ok callerProfileHandler_fits) (auto simp: caller_fit_def profiles_fit_def)
  then show ?thesis
    using False by (auto simp: profilesOfCaller_def caller_fit_def split: sum.split)
qed (use assms in \<open>auto simp: profilesOfCaller_def profiles_fit_def\<close>)

text \<open>What a client can rely on, as for RACF; and the temporary buffer has been large enough.\<close>

definition writes_ok :: "32 word \<Rightarrow> ('pl \<Rightarrow> 32 word) \<Rightarrow> ('pl, 'e) tss_result \<Rightarrow> bool" where
  "writes_ok capacity extracted r =
     (case r of
        Inl e \<Rightarrow> e \<noteq> BufferOverflow
      | Inr (rcode, p', es, log') \<Rightarrow>
          length es \<le> unat capacity \<and> (rcode \<noteq> 0 \<longrightarrow> es = []) \<and>
          (rcode = 0 \<longrightarrow> (\<exists>pl'. p' = Some pl' \<and> length es = unat (extracted pl'))))"

lemma writes_ok_refused: "rcode \<noteq> 0 \<Longrightarrow> writes_ok n f (Inr (rcode, p', [], log'))"
  by (simp add: writes_ok_def)

lemma writes_ok_fault: "writes_ok n f (Inl e) \<longleftrightarrow> e \<noteq> BufferOverflow"
  by (simp add: writes_ok_def)

lemma writes_ok_entries:
  assumes "length buf = unat n" and "k \<le> unat n" and "f pl' = of_nat k"
  shows "writes_ok n f (Inr (0, Some pl', copyEntries buf k, log'))"
proof -
  have "unat n < 2 ^ LENGTH(32)" by (rule unsigned_less)
  then have "unat (of_nat k :: 32 word) = k" using assms(2) by (intro unat_of_nat32) simp
  then show ?thesis using assms by (simp add: writes_ok_def copyEntries_def)
qed

lemma run_okD: "run_ok J r \<Longrightarrow> r \<noteq> Inl BufferOverflow" "run_ok J r \<Longrightarrow> r = Inr (st, p, log') \<Longrightarrow> J p"
  by (auto simp: run_ok_def)

lemma users_within: "writes_ok (up_profilesToExtract pl) up_profilesExtracted (zisUserProfilesServiceFunctionTSS env (Some pl) log)"
proof -
  let ?n = "unat (up_profilesToExtract pl)"
  let ?run = "\<lambda>caller. getAllUsers env caller \<lparr>tup_tmpResultBuffer = replicate ?n emptyUser, tup_profilesExtracted = 0,
    tup_profilesToExtract = ?n, tup_startUserID = start_name (up_startUserID pl), tup_startIndex = 0\<rparr> log"
  have run: "run_ok (users_fit ?n) (?run caller)" for caller
    unfolding getAllUsers_def by (rule getUsers_fits) (simp add: users_fit_def)
  note fits = run_okD [OF run]
  show ?thesis
    unfolding zisUserProfilesServiceFunctionTSS_def
    by (auto simp: Let_def writes_ok_fault validateUserProfileParmList_def fits users_fit_def
        intro!: writes_ok_refused writes_ok_entries dest!: fits(2) split: option.split sum.split)
qed

lemma groups_within: "writes_ok (rp_profilesToExtract pl) rp_profilesExtracted (zisGroupProfilesServiceFunctionTSS env (Some pl) log)"
proof -
  let ?n = "unat (rp_profilesToExtract pl)"
  let ?run = "\<lambda>caller. radminRunRACFCommand env caller ''TSS LIST(ACIDS) TYPE(PROFILE)'' (groupProfilesHandler (te_utils env))
    \<lparr>tgp_tmpResultBuffer = replicate ?n emptyGroup, tgp_profilesExtracted = 0, tgp_profilesToExtract = ?n,
     tgp_startGroupProfile = start_name (rp_startGroup pl)\<rparr> log"
  have run: "run_ok (groups_fit ?n) (?run caller)" for caller
    by (intro radminRun_ok groupProfilesHandler_fits) (simp_all add: groups_fit_def)
  note fits = run_okD [OF run]
  show ?thesis
    unfolding zisGroupProfilesServiceFunctionTSS_def
    by (auto simp: Let_def writes_ok_fault validateGroupProfileParmList_def fits groups_fit_def
        intro!: writes_ok_refused writes_ok_entries dest!: fits(2) split: option.split sum.split)
qed

lemma access_within: "writes_ok (ga_resultBufferCapacity pl) ga_entriesExtracted (zisGenresAccessListServiceFunctionTSS env (Some pl) log)"
proof -
  let ?n = "unat (ga_resultBufferCapacity pl)"
  let ?run = "\<lambda>caller cls. radminRunRACFCommand env caller (snprintf 275 (''TSS WHOH '' @ cls @ ''('' @ cstr (sf_text (ga_profile pl)) @ '')''))
    (genresProfileAccessListHandler (te_utils env))
    \<lparr>tga_tmpResultBuffer = replicate ?n emptyAccess, tga_entriesExtracted = 0, tga_entriesFound = 0,
     tga_entriesToExtract = ?n, tga_searchProfile = cstr (sf_text (ga_profile pl))\<rparr> log"
  have run: "run_ok (access_fit ?n) (?run caller cls)" for caller cls
    by (intro radminRun_ok genresAccessHandler_fits) (simp_all add: access_fit_def)
  note fits = run_okD [OF run, simplified]
  show ?thesis
    unfolding zisGenresAccessListServiceFunctionTSS_def
    by (auto simp: Let_def writes_ok_fault validateGenresAccessListParmList_def fits access_fit_def
        intro!: writes_ok_refused writes_ok_entries dest!: fits(2) split: option.split sum.split prod.split)
qed

lemma extractProfiles_fits:
  assumes "extractProfiles env caller cls start b n log = Some r"
  shows "run_ok (profiles_fit n) r"
proof -
  let ?parms = "\<lparr>tgr_tmpResultBuffer = replicate n emptyProfile, tgr_profilesExtracted = 0, tgr_profilesToExtract = n,
    tgr_className = cls, tgr_lineData = None, tgr_startIndex = 0, tgr_reachedEndOfOutput = False, tgr_extractGeneric = \<not> b\<rparr>"
  have fit: "profiles_fit n ?parms" by (simp add: profiles_fit_def)
  show ?thesis
  proof (cases b)
    case True
    then show ?thesis
      using assms fit by (auto simp: extractProfiles_def intro!: radminRun_ok genresProfileHandler_fits)
  next
    case False
    then obtain x where x: "genresLoop env caller cls start \<lparr>gs_parms = ?parms, gs_isProfileFound = False, gs_log = log\<rparr> = Some x"
      "r = (case x of Inl e \<Rightarrow> Inl e | Inr (st, s) \<Rightarrow> Inr (st, gs_parms s, gs_log s))"
      using assms by (auto simp: extractProfiles_def)
    show ?thesis using genresLoop_fits [OF x(1)] fit x(2) by (auto split: sum.splits)
  qed
qed

text \<open>The three parts of the service on profiles, behind each other.\<close>

lemma profile_parts_fit:
  assumes "extractProfiles env caller cls start b n log = Some r"
  shows "r \<noteq> Inl BufferOverflow"
    and "r = Inr (st, p, log1) \<Longrightarrow> completeOwners env caller cls start st p log1 \<noteq> Inl BufferOverflow"
    and "r = Inr (st, p, log1) \<Longrightarrow> completeOwners env caller cls start st p log1 = Inr (st2, p2, log2) \<Longrightarrow>
      profilesOfCaller env caller cls start b st2 p2 log2 \<noteq> Inl BufferOverflow"
    and "r = Inr (st, p, log1) \<Longrightarrow> completeOwners env caller cls start st p log1 = Inr (st2, p2, log2) \<Longrightarrow>
      profilesOfCaller env caller cls start b st2 p2 log2 = Inr (st3, buf, k, log3) \<Longrightarrow> length buf = n \<and> k \<le> n"
proof -
  note fit = extractProfiles_fits [OF assms]
  show "r \<noteq> Inl BufferOverflow" using fit by (rule run_okD)
  have owners: "run_ok (profiles_fit n) (completeOwners env caller cls start st p log1)" if "r = Inr (st, p, log1)" for st p log1
    using run_okD(2) [OF fit that] by (rule completeOwners_fits)
  show "completeOwners env caller cls start st p log1 \<noteq> Inl BufferOverflow" if "r = Inr (st, p, log1)"
    using owners [OF that] by (rule run_okD)
  have own: "profiles_fit n p2" if "r = Inr (st, p, log1)" "completeOwners env caller cls start st p log1 = Inr (st2, p2, log2)"
    using run_okD(2) [OF owners [OF that(1)] that(2)] .
  show "profilesOfCaller env caller cls start b st2 p2 log2 \<noteq> Inl BufferOverflow"
    if "r = Inr (st, p, log1)" "completeOwners env caller cls start st p log1 = Inr (st2, p2, log2)"
    using profilesOfCaller_fits [OF own [OF that], of env caller cls start b st2 log2] by auto
  show "length buf = n \<and> k \<le> n"
    if "r = Inr (st, p, log1)" "completeOwners env caller cls start st p log1 = Inr (st2, p2, log2)"
      "profilesOfCaller env caller cls start b st2 p2 log2 = Inr (st3, buf, k, log3)"
    using profilesOfCaller_fits [OF own [OF that(1,2)], of env caller cls start b st2 log2] that(3) by simp
qed

lemma profilesService_within:
  assumes "profilesService env caller cls start b pl log = Some r"
  shows "writes_ok (gp_profilesToExtract pl) gp_profilesExtracted r"
proof -
  obtain x where x: "extractProfiles env caller cls start b (unat (gp_profilesToExtract pl)) log = Some x"
    using assms by (auto simp: profilesService_def split: option.splits)
  show ?thesis
  proof (cases x)
    case (Inl e)
    then show ?thesis using assms x profile_parts_fit(1) [OF x] by (auto simp: profilesService_def writes_ok_fault)
  next
    case (Inr y)
    obtain st p log1 where y: "y = (st, p, log1)" by (cases y)
    note fit = profile_parts_fit(2-4) [OF x Inr [unfolded y]]
    show ?thesis
    proof (cases "completeOwners env caller cls start st p log1")
      case (Inl e)
      then show ?thesis using assms x Inr y fit(1) by (auto simp: profilesService_def writes_ok_fault)
    next
      case owners: (Inr z)
      obtain st2 p2 log2 where z: "z = (st2, p2, log2)" by (cases z)
      show ?thesis
        using assms x Inr y z owners fit(2,3) [OF owners [unfolded z]]
        by (auto simp: profilesService_def writes_ok_fault intro!: writes_ok_refused writes_ok_entries split: sum.splits if_splits)
    qed
  qed
qed

lemma profiles_within:
  assumes "zisGenresProfilesServiceFunctionTSS env (Some pl) log = Some r"
  shows "writes_ok (gp_profilesToExtract pl) gp_profilesExtracted r"
  using assms unfolding zisGenresProfilesServiceFunctionTSS_def
  by (auto simp: Let_def writes_ok_fault validateGenresProfileParmList_def profilesService_within
      intro!: writes_ok_refused split: option.splits prod.splits if_splits)

text \<open>
  C15. Four of the extraction services for Top Secret stay within their buffers, whatever the commands print:
  users, groups, profiles and access lists of profiles. No entry is written behind the temporary
  buffer, which has as many entries as the client asks for; the client gets at most that many, none
  when the service fails, and as many as the returned list says when it succeeds.
\<close>

theorem tss_extractions_fit_buffer:
  "writes_ok (up_profilesToExtract users) up_profilesExtracted (zisUserProfilesServiceFunctionTSS env (Some users) log) \<and>
   writes_ok (rp_profilesToExtract groups) rp_profilesExtracted (zisGroupProfilesServiceFunctionTSS env (Some groups) log) \<and>
   writes_ok (ga_resultBufferCapacity access) ga_entriesExtracted (zisGenresAccessListServiceFunctionTSS env (Some access) log) \<and>
   (case zisGenresProfilesServiceFunctionTSS env (Some profiles) log of
      None \<Rightarrow> True | Some r \<Rightarrow> writes_ok (gp_profilesToExtract profiles) gp_profilesExtracted r)"
  using profiles_within by (auto intro: users_within groups_within access_within split: option.split)

section \<open>The access list of a group\<close>

lemma acids_loop_length: "acids_loop u l k start acids = Inr (m, acids') \<Longrightarrow> length acids' = length acids \<and> m \<le> 4"
  by (induction k arbitrary: start acids) (auto simp: Let_def split: if_splits option.splits)

lemma storeAcids_overflow:
  assumes "length buf < n + length acids" and "n \<le> length buf"
  shows "storeAcids env acids n buf = Inl BufferOverflow"
  using assms
proof (induction acids arbitrary: n buf)
  case (Cons a acids)
  obtain acid isAdmin where a: "a = (acid, isAdmin)" by (cases a)
  show ?case
  proof (cases "n < length buf")
    case True
    then show ?thesis using Cons.prems Cons.IH [of _ "n + 1"] by (simp add: a)
  qed (simp add: a)
qed simp

text \<open>
  C37. The handler of a group's access list does write behind its buffer: it looks for room once per line, and
  a line has up to four ACIDs. When the first line of ACIDs has more of them than the client's buffer
  has room for, which is not checked anywhere, the service writes behind the temporary buffer.
\<close>

theorem group_access_list_overflow:
  assumes "validateGroupAccessListParmList pl = 0" and "se_caller (te_sec env) = Some caller"
    and "se_safeMalloc64 (te_sec env) ''RadminGroupAccessListEntry'' (ra_resultBufferCapacity pl)"
    and "te_run env log (RunRACFCommand caller (snprintf 31 (''TSS LIST('' @ cstr (sf_text (ra_group pl)) @ '') DATA(ACIDS)''))) = Ran st (b # bs)"
    and "ss_racfRC st = 0" and "ro_lines b = first # l # ls" and "\<not> tssIsErrorDetected first" and "16 < ro_lastByteOffset b"
    and "getNumberOfLinesOfData ((firstLine b bs)\<lparr>cu_lines := l # ls\<rparr>) = Inr lines"
    and "tu_indexOfString (te_utils env) l TSS_ACIDS_KEY 0 \<noteq> - 1" and "tu_indexOfString (te_utils env) l TSS_KEY_DELIMITER 0 = int d"
    and "\<not> tssIsOutputDone l" and "\<not> tssIsLineBlank l" and "getAcidsInLine (te_utils env) l (d + 3) = Inr (k, acids)"
    and "0 < unat (ra_resultBufferCapacity pl)" and "unat (ra_resultBufferCapacity pl) < k"
  shows "zisGroupAccessListServiceFunctionTSS env (Some pl) log = Inl BufferOverflow"
proof -
  have acids: "length acids = 4" "k \<le> 4"
    using acids_loop_length [of "te_utils env" l 4 "d + 3" emptyAcids k acids] assms(14) by (auto simp: getAcidsInLine_def emptyAcids_def)
  have delim: "unat TSS_KEY_DELIMITER_LEN = 3" by (simp add: TSS_KEY_DELIMITER_LEN_def)
  let ?n = "unat (ra_resultBufferCapacity pl)"
  have store: "storeAcids env (take k acids) 0 (replicate ?n emptyAccess) = Inl BufferOverflow"
    using acids assms(16) by (intro storeAcids_overflow) auto
  have line: "groupAccessLine env (d + 3) c l (\<lparr>tgl_tmpResultBuffer = replicate ?n emptyAccess, tgl_entriesExtracted = 0,
      tgl_entriesFound = m, tgl_entriesToExtract = ?n\<rparr>, True, 0) = Fault BufferOverflow" for c m
    using assms(12-16) acids store by (simp add: groupAccessLine_def)
  have walk: "walk (groupAccessLine env (d + 3)) id ((firstLine b bs)\<lparr>cu_lines := l # ls\<rparr>)
      (\<lparr>tgl_tmpResultBuffer = replicate ?n emptyAccess, tgl_entriesExtracted = 0, tgl_entriesFound = m, tgl_entriesToExtract = ?n\<rparr>, True, 0)
      = Fault BufferOverflow" for m
    using line assms(8) by (simp add: walk.simps firstLine_def)
  have "cu_lines (firstLine b bs) = first # l # ls" using assms(6) by (simp add: firstLine_def)
  then have "groupAccessListHandler env st (b # bs) \<lparr>tgl_tmpResultBuffer = replicate ?n emptyAccess, tgl_entriesExtracted = 0,
      tgl_entriesFound = 0, tgl_entriesToExtract = ?n\<rparr> = Inl BufferOverflow"
    using assms(5-11) walk delim by (simp add: groupAccessListHandler_def openOutput_def Let_def returned_def nat_add_distrib)
  then show ?thesis
    using assms(1-4) by (simp add: zisGroupAccessListServiceFunctionTSS_def secmgmtGetCallerUserID_def radminRunRACFCommand_def Let_def)
qed

section \<open>Access lists of profiles\<close>

text \<open>
  A list of a profile's users that does not fit the client's buffer is not reported: the service never returns
  \<open>RC_ZIS_ACSLSRV_INSUFFICIENT_SPACE\<close>, because the branch behind which it stands is only taken for other
  return codes of R_admin; the client gets \<open>RC_ZIS_ACSLSRV_OK\<close> and a number of entries found that is the
  number of entries extracted.
\<close>

theorem access_list_never_short:
  "case zisGenresAccessListServiceFunctionTSS env parm log of
     Inl e \<Rightarrow> True
   | Inr (r, p', es, log') \<Rightarrow> r \<noteq> 16 \<and> (if r = 0 then \<exists>pl'. p' = Some pl' \<and> ga_entriesFound pl' = ga_entriesExtracted pl' else es = [])"
  by (auto simp: zisGenresAccessListServiceFunctionTSS_def validateGenresAccessListParmList_def Let_def
      split: option.split sum.split prod.split)

section \<open>The contract of the administration services\<close>

text \<open>The commands that change nothing, and what the services may add to the log of commands.\<close>

definition tss_query :: "string \<Rightarrow> bool" where
  "tss_query cmd \<longleftrightarrow> take 9 cmd = ''TSS LIST('' \<or> take 9 cmd = ''TSS WHOO ''"

definition command_ok :: "SizedField \<Rightarrow> bool \<Rightarrow> string \<Rightarrow> RadminRequest \<Rightarrow> bool" where
  "command_ok caller dry target req \<longleftrightarrow>
     (\<exists>cmd. req = RunRACFCommand caller cmd \<and> (tss_query cmd \<or> \<not> dry \<and> sublist target cmd))"

definition confined_to :: "SizedField \<Rightarrow> bool \<Rightarrow> string \<Rightarrow> RadminRequest list \<Rightarrow> RadminRequest list \<Rightarrow> bool" where
  "confined_to caller dry target log log' \<longleftrightarrow> (\<exists>reqs. log' = reqs @ log \<and> list_all (command_ok caller dry target) reqs)"

lemma confined_refl: "confined_to caller dry target log log"
  by (simp add: confined_to_def)

lemma confined_step:
  "confined_to caller dry target log log' \<Longrightarrow> command_ok caller dry target req \<Longrightarrow> confined_to caller dry target log (req # log')"
  by (auto simp: confined_to_def intro: exI [of _ "req # _"])

lemma confined_trans:
  "confined_to caller dry target log log' \<Longrightarrow> confined_to caller dry target log' log'' \<Longrightarrow> confined_to caller dry target log log''"
  by (auto simp: confined_to_def)

lemma radminRun_log: "radminRunRACFCommand env caller cmd h parms log = Inr (st, p, log') \<Longrightarrow> log' = RunRACFCommand caller cmd # log"
  by (auto simp: radminRunRACFCommand_def Let_def split: TssAnswer.splits sum.splits prod.splits)

lemma snprintf_contains:
  assumes "length pre + length mid < n"
  shows "sublist mid (snprintf n (pre @ mid @ post))"
proof -
  have "snprintf n (pre @ mid @ post) = pre @ mid @ take (n - Suc (length pre + length mid)) post"
    using assms by (simp add: snprintf_def)
  then show ?thesis by (auto simp: sublist_def)
qed

lemma adminCommand_confined:
  assumes "adminCommand env caller dry n (pre @ target @ post) oc msg log = Inr (st, oc', msg', log')"
    and "length pre + length target < n"
  shows "confined_to caller dry target log log'"
proof (cases dry)
  case True
  then show ?thesis using assms(1) by (simp add: adminCommand_def Let_def confined_refl)
next
  case False
  then have "log' = RunRACFCommand caller (snprintf n (pre @ target @ post)) # log"
    using assms(1)
    by (auto simp: adminCommand_def executeAdminCommand_def Let_def split: sum.splits dest!: radminRun_log)
  moreover have "command_ok caller dry target (RunRACFCommand caller (snprintf n (pre @ target @ post)))"
    using False snprintf_contains [OF assms(2)] by (simp add: command_ok_def)
  ultimately show ?thesis by (simp add: confined_step confined_refl)
qed

lemma field_length: "length (field f) \<le> unat (sf_length f)"
  using length_takeWhile_le [of _ "sf_text f"] by (simp add: field_def cstr_def sf_text_def)

lemma field_bound: "\<not> too_long f n \<Longrightarrow> length (field f) \<le> n"
  using field_length [of f] by (simp add: too_long_def)

text \<open>The commands on general resource profiles, each with the class and the profile it is about.\<close>

lemma genresCommand_confined:
  assumes "genresCommand env caller n (pre @ target @ post) pl msg log = Inr (st, pl', msg', log')"
    and "length pre + length target < n"
  shows "confined_to caller (isDryRun pl) target log log' \<and> gn_profile pl' = gn_profile pl \<and> gn_user pl' = gn_user pl \<and> isDryRun pl' = isDryRun pl"
  using assms adminCommand_confined [OF _ assms(2), of env caller "isDryRun pl"]
  by (auto simp: genresCommand_def isDryRun_def split: sum.splits)

definition target_of :: "string \<Rightarrow> ZISGenresAdminServiceParmList \<Rightarrow> string" where
  "target_of cls pl = cls @ ''('' @ field (gn_profile pl)"

lemma target_of_length: "length (field (gn_profile pl)) \<le> 255 \<Longrightarrow> length cls \<le> 8 \<Longrightarrow> length (target_of cls pl) \<le> 264"
  by (simp add: target_of_def)

lemma revoke_confined:
  assumes run: "handleRevokeAccess env caller cls pl msg log = Inr (st, pl', msg', log')"
    and len: "length (field (gn_user pl)) \<le> 8" "length (target_of cls pl) \<le> 264"
  shows "confined_to caller (isDryRun pl) (target_of cls pl) log log' \<and> gn_profile pl' = gn_profile pl \<and> gn_user pl' = gn_user pl \<and>
    isDryRun pl' = isDryRun pl"
proof -
  have "genresCommand env caller 302 ((''TSS REVOKE('' @ field (gn_user pl) @ '') '') @ target_of cls pl @ '')'') pl msg log =
      Inr (st, pl', msg', log')"
    using run by (simp add: handleRevokeAccess_def target_of_def)
  from genresCommand_confined [OF this] show ?thesis using len by simp
qed

lemma permit_confined:
  assumes run: "handlePermitAccess env caller cls pl msg log = Inr (st, pl', msg', log')"
    and len: "length (field (gn_user pl)) \<le> 8" "length (target_of cls pl) \<le> 264"
  shows "confined_to caller (isDryRun pl) (target_of cls pl) log log'"
proof -
  define pl1 where "pl1 = (if gn_accessType pl = ZIS_GENRES_ADMIN_ACESS_TYPE_ALTER
    then pl\<lparr>gn_accessType := ZIS_GENRES_ADMIN_ACESS_TYPE_ALL\<rparr> else pl)"
  have same: "gn_user pl1 = gn_user pl" "isDryRun pl1 = isDryRun pl" "target_of cls pl1 = target_of cls pl"
    by (simp_all add: pl1_def isDryRun_def target_of_def)
  obtain a where "tssGetAccessString (gn_accessType pl1) = Some a"
    using run unfolding handlePermitAccess_def Let_def pl1_def [symmetric] by (cases "tssGetAccessString (gn_accessType pl1)") simp_all
  then have "genresCommand env caller 302 ((''TSS PERMIT('' @ field (gn_user pl1) @ '') '') @ target_of cls pl1 @ '') ACCESS('' @ a @ '')'')
      pl1 msg log = Inr (st, pl', msg', log')"
    using run unfolding handlePermitAccess_def Let_def pl1_def [symmetric] by (simp add: target_of_def)
  from genresCommand_confined [OF this] show ?thesis using len by (simp add: same)
qed

lemma query_step:
  assumes "radminRunRACFCommand env caller cmd h parms log = Inr (st, p, log')" and "tss_query cmd"
  shows "confined_to caller dry target log log'"
  using radminRun_log [OF assms(1)] assms(2) by (auto intro!: confined_step confined_refl simp: command_ok_def)

lemma giveAccess_confined:
  assumes run: "giveAccess env caller cls pl msg log = Inr (st, pl', msg', log')"
    and len: "length (field (gn_user pl)) \<le> 8" "length (target_of cls pl) \<le> 264"
  shows "confined_to caller (isDryRun pl) (target_of cls pl) log log'"
proof -
  let ?cmd = "snprintf 31 (''TSS LIST('' @ field (gn_user pl) @ '') DATA(XAUTH)'')"
  obtain st1 parms log1 where q: "radminRunRACFCommand env caller ?cmd (isUserAlreadyPermitted env)
      \<lparr>tpd_isPermitted = False, tpd_className = cls, tpd_profileName = field (gn_profile pl)\<rparr> log = Inr (st1, parms, log1)"
    using run by (auto simp: giveAccess_def split: sum.splits)
  have first: "confined_to caller (isDryRun pl) (target_of cls pl) log log1"
    by (rule query_step [OF q]) (simp add: tss_query_def snprintf_def)
  consider "rm_rc st1 \<noteq> 0" | "rm_rc st1 = 0" "\<not> tpd_isPermitted parms \<or> isDryRun pl" | "rm_rc st1 = 0" "tpd_isPermitted parms" "\<not> isDryRun pl"
    by blast
  then show ?thesis
  proof cases
    case 1
    then show ?thesis using run q first by (simp add: giveAccess_def)
  next
    case 2
    then have "handlePermitAccess env caller cls pl msg log1 = Inr (st, pl', msg', log')"
      using run q by (simp add: giveAccess_def)
    from permit_confined [OF this len] show ?thesis by (rule confined_trans [OF first])
  next
    case 3
    then obtain st2 pl2 msg2 log2 where r: "handleRevokeAccess env caller cls pl msg log1 = Inr (st2, pl2, msg2, log2)"
      and rest: "(if rm_rc st2 \<noteq> 0 then Inr (st2, pl2, msg2, log2) else handlePermitAccess env caller cls pl2 msg2 log2) =
        Inr (st, pl', msg', log')"
      using run q by (auto simp: giveAccess_def split: sum.splits)
    note r' = revoke_confined [OF r len]
    then have same: "target_of cls pl2 = target_of cls pl" by (simp add: target_of_def)
    have "confined_to caller (isDryRun pl) (target_of cls pl) log2 log'"
    proof (cases "rm_rc st2 = 0")
      case True
      then show ?thesis using rest len r' permit_confined [of env caller cls pl2 msg2 log2] by (simp add: same)
    next
      case False
      then show ?thesis using rest by (simp add: confined_refl)
    qed
    then show ?thesis using first r' by (blast intro: confined_trans)
  qed
qed

text \<open>What is relied on of the string functions: no result is longer than the buffer.\<close>

definition string_functions_ok :: "TssEnv \<Rightarrow> bool" where
  "string_functions_ok env \<longleftrightarrow>
     (\<forall>s. length (te_nullTerminate env s) \<le> length s) \<and> (\<forall>s. length (tu_padWithSpaces (te_utils env) s) = length s)"

lemma owner_length:
  assumes "radminRunRACFCommand env caller cmd (getGenresProfileOwnerHandler (te_utils env)) (zeros ZIS_USER_ID_MAX_LENGTH) log = Inr (st, owner, log')"
    and "string_functions_ok env"
  shows "length owner \<le> 8"
  using assms
  by (auto simp: radminRunRACFCommand_def getGenresProfileOwnerHandler_def zeros_def sec_length_defs string_functions_ok_def Let_def
    split: TssAnswer.splits sum.splits prod.splits if_splits list.splits)

lemma deleteProfile_confined:
  assumes run: "deleteProfile env caller cls pl msg log = Inr (st, pl', msg', log')"
    and law: "string_functions_ok env" and len: "length (target_of cls pl) \<le> 264"
  shows "confined_to caller (isDryRun pl) (target_of cls pl) log log'"
proof -
  let ?cmd = "snprintf 275 (''TSS WHOO '' @ cls @ ''('' @ field (gn_profile pl) @ '')'')"
  obtain st1 owner log1 where q: "radminRunRACFCommand env caller ?cmd (getGenresProfileOwnerHandler (te_utils env))
      (zeros ZIS_USER_ID_MAX_LENGTH) log = Inr (st1, owner, log1)"
    using run by (auto simp: deleteProfile_def split: sum.splits)
  have first: "confined_to caller (isDryRun pl) (target_of cls pl) log log1"
    by (rule query_step [OF q]) (simp add: tss_query_def snprintf_def)
  show ?thesis
  proof (cases "rm_rc st1 = 0")
    case False
    then show ?thesis using run q first by (simp add: deleteProfile_def)
  next
    case True
    let ?owner = "te_nullTerminate env (cstr owner)"
    have "genresCommand env caller 286 ((''TSS REMOVE('' @ ?owner @ '') '') @ target_of cls pl @ '')'') pl msg log1 = Inr (st, pl', msg', log')"
      using run q True by (simp add: deleteProfile_def handleDeleteProfile_def target_of_def)
    moreover have "length ?owner \<le> 8"
      using law owner_length [OF q law] length_takeWhile_le [of _ owner] unfolding string_functions_ok_def cstr_def
      by (meson order_trans)
    ultimately show ?thesis using genresCommand_confined [of env caller 286 "''TSS REMOVE('' @ ?owner @ '') ''"] len first
      by (auto intro: confined_trans)
  qed
qed

lemma define_confined:
  assumes run: "handleDefineProfile env caller cls pl msg log = Inr (st, pl', msg', log')"
    and len: "length (field (gn_owner pl)) \<le> 8" "length (target_of cls pl) \<le> 264"
  shows "confined_to caller (isDryRun pl) (target_of cls pl) log log'"
proof -
  have "genresCommand env caller 285 ((''TSS ADDTO('' @ field (gn_owner pl) @ '') '') @ target_of cls pl @ '')'') pl msg log =
      Inr (st, pl', msg', log')"
    using run by (simp add: handleDefineProfile_def target_of_def)
  from genresCommand_confined [OF this] show ?thesis using len by simp
qed

lemma cstr_length: "length (cstr s) \<le> length s"
  by (simp add: cstr_def length_takeWhile_le)

lemma genres_admin_dispatch:
  assumes run: "zisGenresProfileAdminServiceFunctionTSS env (Some pl) log = Inr (r, p', log')"
    and "validateGenresParmList pl = 0" "se_caller (te_sec env) = Some c" "userClass (te_sec env) = (0, cls)" "length cls \<le> 8"
  shows "\<exists>act\<in>{giveAccess, handleRevokeAccess, handleDefineProfile, deleteProfile}.
    log' = log \<or> (\<exists>st pl2 m2 m. act env c (cstr cls) (if sf_length (gn_owner pl) = 0 then pl\<lparr>gn_owner := c\<rparr> else pl) m log = Inr (st, pl2, m2, log'))"
proof -
  define pl1 where "pl1 = (if sf_length (gn_owner pl) = 0 then pl\<lparr>gn_owner := c\<rparr> else pl)"
  define m where "m = take (Suc TSS_SERVICE_MSG_MAX_LEN) (te_uninitialized env)"
  define action where "action = (if gn_function pl1 = ZIS_GENRES_ADMIN_SRV_FC_GIVE_ACCESS then Some giveAccess
      else if gn_function pl1 = ZIS_GENRES_ADMIN_SRV_FC_REVOKE_ACCESS then Some handleRevokeAccess
      else if gn_function pl1 = ZIS_GENRES_ADMIN_SRV_FC_DEFINE then Some handleDefineProfile
      else if gn_function pl1 = ZIS_GENRES_ADMIN_SRV_FC_DELETE then Some deleteProfile else None)"
  have run': "(case action of None \<Rightarrow> Inr (15, Some pl, log)
    | Some act \<Rightarrow>
        (case act env c (cstr cls) pl1 m log of
           Inl e \<Rightarrow> Inl e
         | Inr (st, pl2, m2, log2) \<Rightarrow>
             (if rm_rc st = 0 then Inr (0, Some pl2, log2)
              else case stringIn m2 of
                     Inl e \<Rightarrow> Inl e
                   | Inr msg \<Rightarrow> Inr (17, Some ((tss_failed st pl2)\<lparr>gn_serviceMessage := copyMessage msg (gn_serviceMessage pl2)\<rparr>), log2)))) =
      Inr (r, p', log')"
    using run assms(2-5) unfolding action_def pl1_def m_def
    by (simp add: zisGenresProfileAdminServiceFunctionTSS_def Let_def secmgmtGetCallerUserID_def sec_length_defs split del: if_split)
  show ?thesis
  proof (cases action)
    case None
    then have "log' = log" using run' by simp
    then show ?thesis by blast
  next
    case (Some act)
    then have mem: "act \<in> {giveAccess, handleRevokeAccess, handleDefineProfile, deleteProfile}"
      by (simp add: action_def split: if_splits)
    from Some run' have "\<exists>st pl2 m2. act env c (cstr cls) pl1 m log = Inr (st, pl2, m2, log')"
      by (auto split: sum.splits if_splits)
    then show ?thesis using mem unfolding pl1_def by blast
  qed
qed

text \<open>
  C14. The administration of profiles for Top Secret is confined: whatever the client's list is, every
  command that is run is run for the caller; in a dry run it only asks for data; and a command that
  changes something has the configured class and the profile of the list, which starts with
  \<open>ZOWE\<close>, in it.
\<close>

theorem tss_admin_confined:
  assumes run: "zisGenresProfileAdminServiceFunctionTSS env (Some pl) log = Inr (r, p', log')"
    and law: "string_functions_ok env" and caller: "\<forall>c. se_caller (te_sec env) = Some c \<longrightarrow> unat (sf_length c) \<le> 8"
  shows "log' = log \<or>
    (\<exists>caller cls. se_caller (te_sec env) = Some caller \<and> userClass (te_sec env) = (0, cls) \<and> zowe_profile (sf_text (gn_profile pl)) \<and>
       confined_to caller (isDryRun pl) (cstr cls @ ''('' @ field (gn_profile pl)) log log')"
proof (cases "validateGenresParmList pl = 0 \<and> se_caller (te_sec env) \<noteq> None \<and> fst (userClass (te_sec env)) = 0 \<and>
    length (snd (userClass (te_sec env))) \<le> 8")
  case False
  then have "log' = log"
    using run by (auto simp: zisGenresProfileAdminServiceFunctionTSS_def Let_def secmgmtGetCallerUserID_def sec_length_defs
        split: option.splits if_splits prod.splits)
  then show ?thesis ..
next
  case True
  then obtain c cls where c: "se_caller (te_sec env) = Some c" "userClass (te_sec env) = (0, cls)" "length cls \<le> 8"
    and ok: "validateGenresParmList pl = 0"
    by (cases "userClass (te_sec env)") auto
  define pl1 where "pl1 = (if sf_length (gn_owner pl) = 0 then pl\<lparr>gn_owner := c\<rparr> else pl)"
  have same: "gn_user pl1 = gn_user pl" "isDryRun pl1 = isDryRun pl" "target_of (cstr cls) pl1 = target_of (cstr cls) pl"
    by (simp_all add: pl1_def isDryRun_def target_of_def)
  from ok have len: "length (field (gn_user pl1)) \<le> 8" "length (field (gn_profile pl)) \<le> 255" "length (field (gn_owner pl1)) \<le> 8"
    using caller c(1) field_length [of c] order_trans [OF field_length, of "gn_owner pl" 8]
    by (auto simp: validateGenresParmList_def same sec_length_defs pl1_def intro!: field_bound split: if_splits)
  have "length (cstr cls) \<le> 8" using cstr_length [of cls] c(3) by (rule order_trans)
  then have tlen: "length (target_of (cstr cls) pl1) \<le> 264" unfolding same(3) by (rule target_of_length [OF len(2)])
  obtain act where act: "act \<in> {giveAccess, handleRevokeAccess, handleDefineProfile, deleteProfile}"
    and "log' = log \<or> (\<exists>st pl2 m2 m. act env c (cstr cls) pl1 m log = Inr (st, pl2, m2, log'))"
    using genres_admin_dispatch [OF run ok c(1,2)] c(3) unfolding pl1_def by blast
  then show ?thesis
  proof (elim disjE exE)
    fix st pl2 m2 m assume a: "act env c (cstr cls) pl1 m log = Inr (st, pl2, m2, log')"
    have "confined_to c (isDryRun pl1) (target_of (cstr cls) pl1) log log'"
    proof (rule insertE [OF act])
      assume "act = giveAccess"
      then show ?thesis using a giveAccess_confined [OF _ len(1) tlen] by simp
    next
      assume "act \<in> {handleRevokeAccess, handleDefineProfile, deleteProfile}"
      then consider "act = handleRevokeAccess" | "act = handleDefineProfile" | "act = deleteProfile" by blast
      then show ?thesis
      proof cases
        case 1
        then show ?thesis using a revoke_confined [OF _ len(1) tlen] by simp
      next
        case 2
        then show ?thesis using a define_confined [OF _ len(3) tlen] by simp
      next
        case 3
        then show ?thesis using a deleteProfile_confined [OF _ law tlen] by simp
      qed
    qed
    then have "confined_to c (isDryRun pl) (target_of (cstr cls) pl) log log'" unfolding same .
    then show ?thesis using c validated_genres [OF ok] unfolding target_of_def by auto
  qed simp
qed

lemma snprintf_snoc: "length body < n \<Longrightarrow> snprintf n (body @ [c]) = body @ (if Suc (length body) = n then [] else [c])"
  by (auto simp: snprintf_def)

text \<open>
  The command that adds a profile to its owner is complete unless all three names have their largest
  lengths: the buffer has room for the characters of the longest command but not for the byte that ends it,
  and the command is run without its closing parenthesis then.
\<close>

theorem define_command_truncated:
  assumes "handleDefineProfile env caller cls pl msg log = Inr (st, pl', msg', log')" and "\<not> isDryRun pl"
    and "length (field (gn_owner pl)) \<le> 8" "length cls \<le> 8" "length (field (gn_profile pl)) \<le> 255"
  shows "log' = RunRACFCommand caller (''TSS ADDTO('' @ field (gn_owner pl) @ '') '' @ cls @ ''('' @ field (gn_profile pl) @
     (if length (field (gn_owner pl)) = 8 \<and> length cls = 8 \<and> length (field (gn_profile pl)) = 255 then [] else '')'')) # log"
proof -
  define body where "body = ''TSS ADDTO('' @ field (gn_owner pl) @ '') '' @ cls @ ''('' @ field (gn_profile pl)"
  have "log' = RunRACFCommand caller (snprintf 285 (body @ '')'')) # log"
    unfolding body_def using assms(1,2)
    by (auto simp: handleDefineProfile_def genresCommand_def adminCommand_def executeAdminCommand_def Let_def
        split: sum.splits dest!: radminRun_log)
  moreover have len: "length body = 13 + length (field (gn_owner pl)) + length cls + length (field (gn_profile pl))"
    by (simp add: body_def)
  then have "snprintf 285 (body @ '')'') = body @ (if Suc (length body) = 285 then [] else '')'')"
    using assms(3-5) by (intro snprintf_snoc) simp
  ultimately show ?thesis using assms(3-5) by (auto simp: body_def)
qed

section \<open>An example\<close>

text \<open>Top Secret answers every command with the same lines.\<close>

definition demo_block :: "string list \<Rightarrow> RadminCommandOutput" where
  "demo_block ls = \<lparr>ro_lastByteOffset = 16 + sum_list (map (\<lambda>l. length l + 2) ls), ro_lines = ls\<rparr>"

definition demo_tss :: "string list \<Rightarrow> TssEnv" where
  "demo_tss ls =
     \<lparr>te_sec = demo_sec, te_utils = demo_utils, te_run = (\<lambda>_ _. Ran \<lparr>ss_safRC = 0, ss_racfRC = 0, ss_racfRSN = 0\<rparr> [demo_block ls]),
      te_userRC = (\<lambda>r. if r = 0 then (0, 0) else (8, r)), te_RC_RADMIN_NONZERO_USER_RC = 8,
      te_afterLiteral = (\<lambda>_. replicate 8 nul), te_uninitialized = replicate 18 nul, te_nullTerminate = id,
      te_stale = (\<lambda>_. Some)\<rparr>"

definition demo_caller :: SizedField where "demo_caller = \<lparr>sf_length = 5, sf_value = ''ADMIN   ''\<rparr>"

lemma demo_command:
  "didCommandFail demo_utils \<lparr>ss_safRC = 0, ss_racfRC = 0, ss_racfRSN = 0\<rparr> [demo_block [''TSS0300I'']] x = Inr (0, x\<lparr>tco_returnCode := 0\<rparr>)"
  by (simp add: didCommandFail_def demo_block_def firstLine_def walk.simps commandLine_def TSS_MESSAGE_ID_MAX_LEN_def TSS_COMMAND_SUCCESS_def)

definition demo_long :: ZISGenresAdminServiceParmList where
  "demo_long = (demo_genres [] 0 0 0)\<lparr>gn_owner := \<lparr>sf_length = 8, sf_value = replicate 8 (CHR ''A'')\<rparr>,
     gn_profile := \<lparr>sf_length = 255, sf_value = ''ZOWE.'' @ replicate 250 (CHR ''P'')\<rparr>\<rparr>"

theorem define_command_truncated_witness:
  "\<exists>st pl' msg'. handleDefineProfile (demo_tss [''TSS0300I'']) demo_caller ''$ZOWECLS'' demo_long [] [] =
     Inr (st, pl', msg', [RunRACFCommand demo_caller (''TSS ADDTO(AAAAAAAA) $ZOWECLS(ZOWE.'' @ replicate 250 (CHR ''P''))])"
proof -
  have owner: "field (gn_owner demo_long) = replicate 8 (CHR ''A'')"
    by (simp add: demo_long_def field_def sf_text_def cstr_def nul_def)
  have profile: "field (gn_profile demo_long) = ''ZOWE.'' @ replicate 250 (CHR ''P'')"
    by (simp add: demo_long_def field_def sf_text_def cstr_def nul_def)
  have run: "\<not> isDryRun demo_long"
    by (simp add: demo_long_def demo_genres_def isDryRun_def has_flag_def ZIS_ADMIN_FLAG_DRYRUN_def)
  obtain st pl' msg' log' where h: "handleDefineProfile (demo_tss [''TSS0300I'']) demo_caller ''$ZOWECLS'' demo_long [] [] = Inr (st, pl', msg', log')"
    using run by (auto simp: handleDefineProfile_def genresCommand_def adminCommand_def executeAdminCommand_def radminRunRACFCommand_def
        demo_tss_def demo_command Let_def)
  from define_command_truncated [OF h run] have "log' = [RunRACFCommand demo_caller (''TSS ADDTO(AAAAAAAA) $ZOWECLS(ZOWE.'' @ replicate 250 (CHR ''P''))]"
    by (simp add: owner profile eval_nat_numeral)
  then show ?thesis using h by blast
qed

definition demo_group :: ZISGroupAccessListServiceParmList where
  "demo_group =
     \<lparr>pl_eyecatcher = ''RSGRPALS'', pl_flags = 0, pl_traceLevel = 0, pl_internalServiceRC = 0, pl_internalServiceRSN = 0,
      pl_safStatus = \<lparr>ss_safRC = 0, ss_racfRC = 0, ss_racfRSN = 0\<rparr>, ra_group = \<lparr>sf_length = 5, sf_value = ''STAFF   ''\<rparr>,
      ra_resultBufferCapacity = 1, ra_resultBuffer = Some 4096, ra_entriesExtracted = 0, ra_entriesFound = 0\<rparr>"

definition acid_line :: string where "acid_line = ''ACIDS      = ADA         BOB''"

lemma acid_line_facts:
  "tssIsOutputDone ''TSS0300I''"
  "tu_indexOfString demo_utils acid_line ''ACIDS'' 0 = 0" "tu_indexOfString demo_utils acid_line TSS_KEY_DELIMITER 0 = int 10"
  "tssIsOutputDone acid_line = False" "tssIsLineBlank acid_line = False" "length acid_line = 28"
  "getAcidsInLine demo_utils acid_line (10 + 3) =
     Inr (2, [(''ADA     '', False), (''BOB     '', False), (replicate 8 nul, False), (replicate 8 nul, False)])"
  by code_simp+

theorem group_access_list_overflow_witness:
  "zisGroupAccessListServiceFunctionTSS (demo_tss [''STAFF'', acid_line, ''TSS0300I'']) (Some demo_group) [] = Inl BufferOverflow"
proof (rule group_access_list_overflow [where b = "demo_block [''STAFF'', acid_line, ''TSS0300I'']" and bs = "[]" and l = acid_line])
  show "getNumberOfLinesOfData ((firstLine (demo_block [''STAFF'', acid_line, ''TSS0300I'']) [])\<lparr>cu_lines := [acid_line, ''TSS0300I'']\<rparr>) = Inr 1"
    by (simp add: getNumberOfLinesOfData_def walk.simps countLine_def firstLine_def demo_block_def acid_line_facts)
  show "getAcidsInLine (te_utils (demo_tss [''STAFF'', acid_line, ''TSS0300I''])) acid_line (10 + 3) =
     Inr (2, [(''ADA     '', False), (''BOB     '', False), (replicate 8 nul, False), (replicate 8 nul, False)])"
    using acid_line_facts(7) by (simp only: demo_tss_def TssEnv.simps)
qed (simp_all add: demo_group_def demo_tss_def demo_sec_def demo_block_def acid_line_facts validateGroupAccessListParmList_def bad_eyecatcher_def
    too_long_def sec_length_defs sec_eyecatcher_defs tssIsErrorDetected_def TSS_MESSAGE_ID_MAX_LEN_def, simp_all)

theorem tss_admin_confined_witness:
  "\<exists>p' req. zisGenresProfileAdminServiceFunctionTSS (demo_tss [''TSS0300I'']) (Some (demo_genres ''ZOWE.APP'' 0 0 0)) [] = Inr (0, p', [req]) \<and>
     command_ok demo_caller False ''ZOWE(ZOWE.APP'' req"
proof -
  let ?env = "demo_tss [''TSS0300I'']" and ?pl = "demo_genres ''ZOWE.APP'' 0 0 0"
  have v: "validateGenresParmList ?pl = 0" by (simp add: genres_admin_eval)
  have d: "\<not> isDryRun ?pl" by (simp add: genres_admin_eval)
  obtain p' req where run: "zisGenresProfileAdminServiceFunctionTSS ?env (Some ?pl) [] = Inr (0, p', [req])"
    using v d by (auto simp: zisGenresProfileAdminServiceFunctionTSS_def Let_def secmgmtGetCallerUserID_def userClass_def demo_tss_def demo_sec_def
        sec_length_defs demo_genres_def genres_admin_defs handleDefineProfile_def genresCommand_def adminCommand_def executeAdminCommand_def
        radminRunRACFCommand_def demo_command isDryRun_def)
  moreover have "string_functions_ok ?env" by (simp add: string_functions_ok_def demo_tss_def demo_utils_def)
  moreover have "field (gn_profile ?pl) = ''ZOWE.APP''" by (simp add: field_def demo_genres_def sf_text_def zero_pad_def cstr_def nul_def)
  ultimately have "confined_to demo_caller False ''ZOWE(ZOWE.APP'' [] [req]"
    using tss_admin_confined [OF run] d
    by (auto simp: demo_tss_def demo_sec_def userClass_def demo_caller_def cstr_def nul_def)
  then show ?thesis using run by (auto simp: confined_to_def)
qed


end
