(* ===== verification/TSS_Search.thy ===== *)
theory TSS_Search
  imports TSS_Contracts
begin

text \<open>
  The list of general resource profiles of Top Secret from a start profile on, which the service gets by
  running one command again and again until the profile is there: when it ends, when it does not, and what the
  list begins with.
\<close>

section \<open>The end of the search for a start profile\<close>

text \<open>
  An output is complete from a place on when the lines from there on have one that ends the output. The
  search relies on R_admin: a command that is not run gives a return code other than 0, so does a code
  of the handler other than 0, and the output of a command that is run is complete.
\<close>

definition endLine :: "Cursor \<Rightarrow> string \<Rightarrow> unit \<Rightarrow> unit step" where
  "endLine c l s = (if tssIsOutputDone l then Done 0 s else Go s)"

definition complete_from :: "Cursor \<Rightarrow> bool" where
  "complete_from c \<longleftrightarrow> walk endLine id c () = Done 0 ()"

definition answers_ok :: "TssEnv \<Rightarrow> bool" where
  "answers_ok env \<longleftrightarrow>
     (\<forall>r. r \<noteq> 0 \<longrightarrow> fst (te_userRC env r) \<noteq> 0) \<and>
     (\<forall>log req. case te_run env log req of
        NotRun st \<Rightarrow> rm_rc st \<noteq> 0
      | Ran st result \<Rightarrow> (case result of [] \<Rightarrow> False | b # bs \<Rightarrow> complete_from (firstLine b bs)))"

text \<open>
  A round reads on through pointers into the output of the round before. The output stays when they lead
  to what they led to then.
\<close>

definition output_stays :: "TssEnv \<Rightarrow> bool" where
  "output_stays env \<longleftrightarrow> (\<forall>log c. te_stale env log c = Some c)"

lemma resume_stays:
  "output_stays env \<Longrightarrow> resumeAt (te_stale env log) lineData c = Some (case lineData of None \<Rightarrow> c | Some c' \<Rightarrow> c')"
  by (simp add: output_stays_def resumeAt_def split: option.split)

text \<open>What a step or a walk gives: a state to go on with, a code other than 0, or 0 with a state.\<close>

definition answered :: "('s \<Rightarrow> bool) \<Rightarrow> ('s \<Rightarrow> bool) \<Rightarrow> 's step \<Rightarrow> bool" where
  "answered P Q r \<longleftrightarrow> (case r of Go s \<Rightarrow> P s | Done rcode s \<Rightarrow> rcode \<noteq> 0 \<or> Q s | Fault _ \<Rightarrow> True)"

lemma answered_simps [simp]:
  "answered P Q (Go s) = P s" "answered P Q (Done rcode s) = (rcode \<noteq> 0 \<or> Q s)" "answered P Q (Fault e)"
  by (simp_all add: answered_def)

lemma answered_parseLine: "(\<And>n keys. answered P Q (k n keys)) \<Longrightarrow> answered P Q (parseLine u l k s)"
  by (auto simp: parseLine_def split: option.split)

lemma answered_xauthProfile: "(\<And>x profile. answered P Q (k x profile)) \<Longrightarrow> answered P Q (xauthProfile u l keys i n buf k s)"
  by (auto simp: xauthProfile_def Let_def split: option.split)

lemma complete_from_rec:
  "complete_from c \<longleftrightarrow>
     (if cu_offset c < cu_last c
      then case cu_lines c of [] \<Rightarrow> False
           | l # ls \<Rightarrow> tssIsOutputDone l \<or> complete_from (c\<lparr>cu_offset := cu_offset c + length l + 2, cu_lines := ls\<rparr>)
      else case cu_next c of [] \<Rightarrow> False | b # bs \<Rightarrow> complete_from (firstLine b bs))"
  unfolding complete_from_def by (subst walk.simps) (auto simp: endLine_def split: list.split)

text \<open>A line that goes on has not ended the output; one that returns 0 has, or has found the buffer full.\<close>

definition same_search :: "nat \<Rightarrow> nat \<Rightarrow> TSSGenresProfileParms \<Rightarrow> bool" where
  "same_search n i p \<longleftrightarrow> tgr_profilesToExtract p = n \<and> tgr_startIndex p = i"

lemma answered_storeProfile:
  "same_search n i p \<Longrightarrow> answered (\<lambda>(p', _). same_search n i p') Q (storeProfile profile owner (p, e, ow, k))"
  by (auto simp: storeProfile_def storeEntry_def same_search_def split: option.split bool.split)

lemma answered_genresLine:
  assumes "same_search n i p" "\<not> tssIsOutputDone l" "k \<noteq> n"
  shows "answered (\<lambda>(p', _). same_search n i p') Q (genresLine u c l (p, e, ow, k))"
  using assms answered_storeProfile [of n i p] unfolding genresLine_def
  by (auto simp: Let_def same_search_def intro!: answered_parseLine answered_xauthProfile split: option.split)

definition advanced :: "nat \<Rightarrow> nat \<Rightarrow> nat \<Rightarrow> TSSGenresProfileParms \<Rightarrow> bool" where
  "advanced m n i p \<longleftrightarrow> same_search n i p \<and>
     (tgr_reachedEndOfOutput p \<or> (\<exists>c. tgr_lineData p = Some c \<and> complete_from c \<and> remaining c < m))"

lemma remaining_simps:
  "remaining (c\<lparr>cu_offset := off, cu_lines := ls\<rparr>) = length ls + sum_list (map (\<lambda>b. Suc (length (ro_lines b))) (cu_next c))"
  "remaining (firstLine b bs) = length (ro_lines b) + sum_list (map (\<lambda>b. Suc (length (ro_lines b))) bs)"
  by (simp_all add: remaining_def firstLine_def)

lemma walk_advances:
  assumes "complete_from c" "same_search n i p" "remaining c \<le> m" "k = n \<Longrightarrow> remaining c < m"
  shows "answered (\<lambda>_. False) (\<lambda>(p', _). advanced m n i p') (walk (genresLine u) newBlock c (p, e, ow, k))"
  using assms
proof (induction "remaining c" arbitrary: c p e ow k rule: less_induct)
  case less
  note rec = walk.simps [of "genresLine u" newBlock c] and complete = less.prems(1) [unfolded complete_from_rec [of c]]
  show ?case
  proof (cases "cu_offset c < cu_last c")
    case inside: True
    then obtain l ls where ls: "cu_lines c = l # ls" using complete by (auto split: list.splits)
    define c' where "c' = c\<lparr>cu_offset := cu_offset c + length l + 2, cu_lines := ls\<rparr>"
    have smaller: "remaining c' < remaining c" using ls by (simp add: c'_def remaining_simps) (simp add: remaining_def)
    show ?thesis
    proof (cases "tssIsOutputDone l \<or> k = n")
      case True
      then show ?thesis using less.prems inside ls
        by (auto simp: rec genresLine_def advanced_def same_search_def)
    next
      case False
      then have "complete_from c'" using complete inside ls by (simp add: c'_def)
      then have IH: "same_search n i p' \<Longrightarrow> answered (\<lambda>_. False) (\<lambda>(p', _). advanced m n i p') (walk (genresLine u) newBlock c' (p', e', ow', k'))"
        for p' e' ow' k'
        using less.hyps [OF smaller] smaller less.prems(3) by simp
      have "answered (\<lambda>(p', _). same_search n i p') (\<lambda>(p', _). advanced m n i p') (genresLine u c l (p, e, ow, k))"
        using answered_genresLine less.prems(2) False by blast
      then show ?thesis using IH inside ls
        by (cases "genresLine u c l (p, e, ow, k)") (auto simp: rec c'_def)
    qed
  next
    case False
    then obtain b bs where bs: "cu_next c = b # bs" "complete_from (firstLine b bs)" using complete by (auto split: list.splits)
    then have "remaining (firstLine b bs) < remaining c" by (simp add: remaining_simps) (simp add: remaining_def)
    then show ?thesis using less.hyps [of "firstLine b bs"] less.prems bs False by (simp add: rec newBlock_def)
  qed
qed

lemma handler_advances:
  assumes "genresProfileHandler u stale st (b # bs) p = Inr (0, p')" and "\<And>lineData c. resumeAt stale lineData c = Some (case lineData of None \<Rightarrow> c | Some c' \<Rightarrow> c')"
    and "complete_from (firstLine b bs)" and "same_search n i p" and "i < n"
    and "tgr_lineData p = None \<Longrightarrow> remaining (firstLine b bs) \<le> m" and "\<And>c. tgr_lineData p = Some c \<Longrightarrow> complete_from c \<and> remaining c \<le> m"
  shows "advanced m n i p'"
proof -
  let ?c = "case tgr_lineData p of Some c' \<Rightarrow> c' | None \<Rightarrow> firstLine b bs"
  have "complete_from ?c" "remaining ?c \<le> m" using assms by (simp_all split: option.split)
  moreover have "tgr_startIndex p = i" using assms(4) by (simp add: same_search_def)
  ultimately have "answered (\<lambda>_. False) (\<lambda>(p', _). advanced m n i p')
      (walk (genresLine u) newBlock ?c (p, emptyProfile, zeros 8, tgr_startIndex p))"
    using assms(4,5) by (intro walk_advances) simp_all
  moreover have "resumeAt stale (tgr_lineData p) (firstLine b bs) = Some ?c" using assms(2) by (simp split: option.split)
  ultimately show ?thesis using assms(1)
    by (auto simp: genresProfileHandler_def openOutput_def returned_def answered_def split: if_splits list.splits step.splits)
qed

text \<open>A round that is followed by another one has advanced.\<close>

lemma searchRound_advances:
  assumes "searchRound name p found = (False, found', p')" and "advanced m n i p" and "i < n"
  shows "\<exists>i'<n. advanced m n i' p' \<and> \<not> tgr_reachedEndOfOutput p'"
  using assms
  by (auto simp: searchRound_def foundRound_def advanced_def same_search_def Let_def split: if_splits option.splits nat.splits prod.splits)

lemma genresRound_advances:
  assumes ok: "answers_ok env" "output_stays env" and round: "genresRound env caller cls start s = Inr (False, st, s')"
    and search: "same_search n i (gs_parms s)" "i < n"
    and place: "\<And>c. tgr_lineData (gs_parms s) = Some c \<Longrightarrow> complete_from c \<and> remaining c \<le> m"
    and first: "\<And>st b bs. tgr_lineData (gs_parms s) = None \<Longrightarrow>
      te_run env (gs_log s) (RunRACFCommand caller (searchCommand cls)) = Ran st (b # bs) \<Longrightarrow> remaining (firstLine b bs) \<le> m"
  shows "\<exists>i' c. same_search n i' (gs_parms s') \<and> i' < n \<and> tgr_lineData (gs_parms s') = Some c \<and> complete_from c \<and> remaining c < m"
proof -
  let ?run = "te_run env (gs_log s) (RunRACFCommand caller (searchCommand cls))"
  have a: "case ?run of NotRun st \<Rightarrow> rm_rc st \<noteq> 0
      | Ran st result \<Rightarrow> (case result of [] \<Rightarrow> False | b # bs \<Rightarrow> complete_from (firstLine b bs))"
    using ok(1) unfolding answers_ok_def by blast
  obtain p log name where run: "radminRunRACFCommand env caller (searchCommand cls) (genresProfileHandler (te_utils env) (te_stale env (gs_log s))) (gs_parms s) (gs_log s) =
        Inr (st, p, log)" and rc0: "rm_rc st = 0" and "start = Some name"
      and r: "searchRound name p (gs_isProfileFound s) = (False, gs_isProfileFound s', gs_parms s')"
    using round by (auto simp: genresRound_def split: sum.splits if_splits option.splits prod.splits)
  from run rc0 a obtain st' b bs rcode where ran: "?run = Ran st' (b # bs)" and c: "complete_from (firstLine b bs)"
    and h: "genresProfileHandler (te_utils env) (te_stale env (gs_log s)) st' (b # bs) (gs_parms s) = Inr (rcode, p)" and "fst (te_userRC env rcode) = 0"
    by (auto simp: radminRunRACFCommand_def Let_def split: TssAnswer.splits list.splits sum.splits prod.splits)
  then have "rcode = 0" using ok(1) unfolding answers_ok_def by blast
  with h have "advanced m n i p" using handler_advances [OF _ resume_stays [OF ok(2)] c search] place first ran by blast
  from searchRound_advances [OF r this search(2)] show ?thesis unfolding advanced_def by blast
qed

lemma genresLoop_ends_from:
  assumes "answers_ok env" "output_stays env" and "same_search n i (gs_parms s)" "i < n"
    and "tgr_lineData (gs_parms s) = Some c" "complete_from c"
  shows "genresLoop env caller cls start s \<noteq> None"
  using assms(3-)
proof (induction "remaining c" arbitrary: c s i rule: less_induct)
  case less
  show ?case
  proof (cases "\<exists>st s'. genresRound env caller cls start s = Inr (False, st, s')")
    case False
    then show ?thesis by (subst genresLoop.simps) (auto split: sum.split prod.split)
  next
    case True
    then obtain st s' where r: "genresRound env caller cls start s = Inr (False, st, s')" by blast
    with genresRound_advances [OF assms(1,2) r less.prems(1,2), of "remaining c"] less.prems(3,4) obtain i' c' where
      "same_search n i' (gs_parms s')" "i' < n" "tgr_lineData (gs_parms s') = Some c'" "complete_from c'" "remaining c' < remaining c"
      by auto
    then have "genresLoop env caller cls start s' \<noteq> None" using less.hyps by blast
    then show ?thesis using r by (subst genresLoop.simps) simp
  qed
qed

lemma genresLoop_ends:
  assumes "answers_ok env" "output_stays env" and "same_search n i (gs_parms s)" "i < n" and "tgr_lineData (gs_parms s) = None"
  shows "genresLoop env caller cls start s \<noteq> None"
proof (cases "\<exists>st s'. genresRound env caller cls start s = Inr (False, st, s')")
  case False
  then show ?thesis by (subst genresLoop.simps) (auto split: sum.split prod.split)
next
  case True
  then obtain st s' where r: "genresRound env caller cls start s = Inr (False, st, s')" by blast
  let ?m = "case te_run env (gs_log s) (RunRACFCommand caller (searchCommand cls)) of Ran st (b # bs) \<Rightarrow> remaining (firstLine b bs) | _ \<Rightarrow> 0"
  from genresRound_advances [OF assms(1,2) r assms(3,4), of ?m] assms(5) obtain i' c where
    "same_search n i' (gs_parms s')" "i' < n" "tgr_lineData (gs_parms s') = Some c" "complete_from c"
    by auto
  from genresLoop_ends_from [OF assms(1,2) this] show ?thesis using r by (subst genresLoop.simps) simp
qed

text \<open>
  C16. The search for general resource profiles does not run forever. It is assumed that R_admin's answers are
  complete (a command that is not run gives a return code other than 0, so does a code of the handler other than
  0, and the output of a command that is run has a line that ends it), and that the output of a command is still
  in place when the next round reads on through the pointers that were kept into it. Then, when the client asks
  for at least one profile, the service comes to an end, however many rounds it takes to get to the start
  profile: it returns, or stops at a fault such as a line that is read beyond its end.
\<close>

theorem genres_search_ends:
  assumes "answers_ok env" and "output_stays env" and "gp_profilesToExtract pl \<noteq> 0"
  shows "zisGenresProfilesServiceFunctionTSS env (Some pl) log \<noteq> None"
proof -
  have n: "0 < unat (gp_profilesToExtract pl)" using assms(3) by (simp add: unat_gt_0)
  have "extractProfiles env caller cls start prefix (unat (gp_profilesToExtract pl)) log \<noteq> None" for caller cls start prefix
    using genresLoop_ends [OF assms(1,2) _ n] by (simp add: extractProfiles_def Let_def same_search_def)
  then have "profilesService env caller cls start prefix pl log \<noteq> None" for caller cls start prefix
    by (auto simp: profilesService_def split: option.split sum.split prod.split)
  then show ?thesis
    by (auto simp: zisGenresProfilesServiceFunctionTSS_def Let_def split: option.split prod.split)
qed

text \<open>
  C38. A client that asks for no profile but gives a start profile that does not end in a period never gets an
  answer, although the validation lets the list through: the buffer of the handler is full at once, the start
  profile is not among the profiles found, and the service runs the command again and again. This is under the
  conditions that the caller and the class can be found, that the allocation of a buffer of 0 bytes succeeds, that
  every answer of R_admin has return code 0, is not empty and begins with a line that is neither an error nor the
  end of the output, and that the output of a command is still in place when the next round reads on in it.
\<close>

theorem genres_search_for_none_diverges:
  assumes "validateGenresProfileParmList pl = 0" and "gp_profilesToExtract pl = 0"
    and "start_name (gp_startProfile pl) = Some name" "name \<noteq> []" "List.last name \<noteq> CHR ''.''"
    and "se_caller (te_sec env) = Some caller" and "userClass (te_sec env) = (0, cls)" "length cls \<le> ZIS_SECURITY_CLASS_MAX_LENGTH"
    and "se_safeMalloc64 (te_sec env) ''ZISGenresProfileEntry'' 0"
    and "te_userRC env 0 = (0, rsn)" and stays: "output_stays env"
    and outputs: "\<forall>log req. \<exists>st b bs l ls. te_run env log req = Ran st (b # bs) \<and> ss_racfRC st = 0 \<and> ro_lines b = l # ls \<and>
      16 < ro_lastByteOffset b \<and> \<not> tssIsErrorDetected l \<and> \<not> tssIsOutputDone l"
  shows "zisGenresProfilesServiceFunctionTSS env (Some pl) log = None"
proof -
  define I :: "GenresSearch \<Rightarrow> bool" where "I = (\<lambda>s. let p = gs_parms s in tgr_profilesToExtract p = 0 \<and> tgr_startIndex p = 0 \<and> \<not> tgr_reachedEndOfOutput p \<and>
    \<not> gs_isProfileFound s \<and>
    (\<forall>c. tgr_lineData p = Some c \<longrightarrow> cu_offset c < cu_last c \<and> cu_lines c \<noteq> [] \<and> \<not> tssIsOutputDone (List.hd (cu_lines c))))"
  have round: "\<exists>st s'. genresRound env caller (cstr cls) (Some name) s = Inr (False, st, s') \<and> I s'" if "I s" for s
  proof -
    from outputs obtain st b bs l ls where run: "te_run env (gs_log s) (RunRACFCommand caller (searchCommand (cstr cls))) = Ran st (b # bs)"
      and o: "ss_racfRC st = 0" "ro_lines b = l # ls" "16 < ro_lastByteOffset b" "\<not> tssIsErrorDetected l" "\<not> tssIsOutputDone l"
      by blast
    define c where "c = (case tgr_lineData (gs_parms s) of Some c' \<Rightarrow> c' | None \<Rightarrow> firstLine b bs)"
    have c: "cu_offset c < cu_last c" "cu_lines c \<noteq> []" "\<not> tssIsOutputDone (List.hd (cu_lines c))"
      using that o by (auto simp: I_def Let_def c_def firstLine_def split: option.split)
    let ?p = "(gs_parms s)\<lparr>tgr_profilesExtracted := 0, tgr_lineData := Some c\<rparr>"
    have "walk (genresLine (te_utils env)) newBlock c (gs_parms s, emptyProfile, zeros 8, tgr_startIndex (gs_parms s)) =
        Done 0 (?p, emptyProfile, zeros 8, 0)"
      using c that by (cases "cu_lines c") (auto simp: walk.simps [of _ _ c] genresLine_def I_def Let_def)
    moreover have "resumeAt (te_stale env (gs_log s)) (tgr_lineData (gs_parms s)) (firstLine b bs) = Some c"
      using resume_stays [OF stays] by (simp add: c_def split: option.split)
    ultimately have "genresProfileHandler (te_utils env) (te_stale env (gs_log s)) st (b # bs) (gs_parms s) = Inr (0, ?p)"
      using o by (simp add: genresProfileHandler_def openOutput_def returned_def)
    then show ?thesis
      using that run assms(10) c
      by (simp add: genresRound_def radminRunRACFCommand_def searchRound_def findStartProfile_def I_def Let_def)
  qed
  have "genresLoop env caller (cstr cls) (Some name) s = None" if "I s" for s
  proof (rule ccontr)
    assume "genresLoop env caller (cstr cls) (Some name) s \<noteq> None"
    then obtain r where r: "genresLoop env caller (cstr cls) (Some name) s = Some r" by blast
    have "case r of Inl e \<Rightarrow> False | Inr (st, s') \<Rightarrow> False"
    proof (rule genresLoop_inv [where I = I and Q = "\<lambda>_ _. False" and E = "\<lambda>_. False", OF r that])
      show "if stop then False else I s'" if "I s" "genresRound env caller (cstr cls) (Some name) s = Inr (stop, st, s')" for s stop st s'
        using round [OF that(1)] that(2) by auto
      show False if "I s" "genresRound env caller (cstr cls) (Some name) s = Inl e" for s e
        using round [OF that(1)] that(2) by auto
    qed
    then show False by (simp split: sum.splits prod.splits)
  qed
  then have "extractProfiles env caller (cstr cls) (Some name) False 0 log = None"
    by (simp add: extractProfiles_def Let_def I_def)
  then show ?thesis
    using assms by (simp add: zisGenresProfilesServiceFunctionTSS_def secmgmtGetCallerUserID_def Let_def profilesService_def)
qed

section \<open>What the search returns\<close>

lemma shift_prefix:
  assumes "0 < d" "k + d \<le> length buf"
  shows "\<forall>j<k. shiftProfileBufferLeft buf k d ! j = buf ! (j + d)"
proof -
  have "(\<forall>j<k. shiftProfileBufferLeft buf k d ! j = buf ! (j + d)) \<and>
      (\<forall>j. k + d \<le> j \<longrightarrow> j < length buf \<longrightarrow> shiftProfileBufferLeft buf k d ! j = buf ! j)"
    using assms(2)
  proof (induction k)
    case (Suc k)
    have "shiftProfileBufferLeft buf (Suc k) d =
        (shiftProfileBufferLeft buf k d)[k := shiftProfileBufferLeft buf k d ! (k + d), k + d := emptyProfile]"
      by (simp add: shiftProfileBufferLeft_def)
    then show ?case using Suc assms(1) by (auto simp: nth_list_update less_Suc_eq)
  qed (simp add: shiftProfileBufferLeft_def)
  then show ?thesis by blast
qed

definition first_kept :: "nat \<Rightarrow> ZISGenresProfileEntry \<Rightarrow> TSSGenresProfileParms \<Rightarrow> bool" where
  "first_kept n x p \<longleftrightarrow> profiles_fit n p \<and> 0 < tgr_profilesExtracted p \<and> tgr_tmpResultBuffer p ! 0 = x"

lemma storeProfile_first:
  assumes "first_kept n x p" and "k < n" and "0 < k"
  shows "step_ok (\<lambda>(p, e, ow, k). first_kept n x p \<and> 0 < k \<and> k \<le> n) (storeProfile profile owner (p, e, ow, k))"
  using assms unfolding storeProfile_def
  by (auto simp: first_kept_def profiles_fit_def intro!: storeEntry_ok split: option.split bool.split)

interpretation first_lines: line_handler "genresLine u" newBlock "\<lambda>(p, e, ow, k). first_kept n x p \<and> 0 < k \<and> k \<le> n" for u n x
proof unfold_locales
  fix c l and s :: genresState
  obtain p e ow k where s: "s = (p, e, ow, k)" by (cases s)
  assume I: "case s of (p, e, ow, k) \<Rightarrow> first_kept n x p \<and> 0 < k \<and> k \<le> n"
  show "step_ok (\<lambda>(p, e, ow, k). first_kept n x p \<and> 0 < k \<and> k \<le> n) (genresLine u c l s)"
  proof (cases "tssIsOutputDone l \<or> k = n")
    case True
    then show ?thesis using I by (auto simp: s genresLine_def first_kept_def profiles_fit_def)
  next
    case False
    then have "k < n" "tgr_profilesToExtract p \<noteq> k" using I by (auto simp: s first_kept_def profiles_fit_def)
    then show ?thesis
      using I False storeProfile_first [of n x p k] unfolding s genresLine_def
      by (auto simp: Let_def intro!: parseLine_ok xauthProfile_ok split: option.split)
  qed
qed (auto simp: newBlock_def)

lemma handler_keeps_first:
  assumes "first_kept n x p" "0 < tgr_startIndex p"
  shows "result_ok (first_kept n x) (genresProfileHandler u stale st result p)"
  unfolding genresProfileHandler_def using assms
  by (intro openOutput_ok resumed_ok first_lines.returned_ok [of n x]) (auto simp: first_kept_def profiles_fit_def)

text \<open>The start profile is the first entry as soon as it has been found.\<close>

definition starts_with :: "nat \<Rightarrow> string \<Rightarrow> TSSGenresProfileParms \<Rightarrow> bool" where
  "starts_with n name p \<longleftrightarrow> profiles_fit n p \<and> 0 < tgr_profilesExtracted p \<and> sameProfile (ge_profile (tgr_tmpResultBuffer p ! 0)) name"

lemma starts_with_iff: "starts_with n name p \<longleftrightarrow> (\<exists>x. first_kept n x p \<and> sameProfile (ge_profile x) name)"
  by (auto simp: starts_with_def first_kept_def)

definition search_inv :: "nat \<Rightarrow> string \<Rightarrow> GenresSearch \<Rightarrow> bool" where
  "search_inv n name s \<longleftrightarrow> profiles_fit n (gs_parms s) \<and>
     (gs_isProfileFound s \<longrightarrow> starts_with n name (gs_parms s) \<and> 0 < tgr_startIndex (gs_parms s))"

definition search_result :: "nat \<Rightarrow> string \<Rightarrow> TSSGenresProfileParms \<Rightarrow> bool" where
  "search_result n name p \<longleftrightarrow> profiles_fit n p \<and> (tgr_profilesExtracted p = 0 \<or> starts_with n name p)"

lemma foundRound_starts:
  assumes "profiles_fit n p" "d < tgr_profilesExtracted p" "sameProfile (ge_profile (tgr_tmpResultBuffer p ! d)) name"
    and "foundRound p d = (stop, p')"
  shows "starts_with n name p' \<and> (\<not> stop \<longrightarrow> 0 < tgr_startIndex p')"
proof (cases "d = 0")
  case True
  then show ?thesis using assms foundRound_fits [OF assms(1,4)]
    by (auto simp: foundRound_def starts_with_def Let_def split: if_splits)
next
  case False
  let ?k = "tgr_profilesExtracted p - d"
  have "shiftProfileBufferLeft (tgr_tmpResultBuffer p) ?k d ! 0 = tgr_tmpResultBuffer p ! d"
    using shift_prefix [of d ?k "tgr_tmpResultBuffer p"] False assms(1,2) by (auto simp: profiles_fit_def)
  then show ?thesis using False assms foundRound_fits [OF assms(1,4)]
    by (auto simp: foundRound_def starts_with_def Let_def split: if_splits)
qed

lemma searchRound_starts:
  assumes "profiles_fit n p" and "found \<longrightarrow> starts_with n name p" and "searchRound name p found = (stop, found', p')"
  shows "if stop then search_result n name p' else profiles_fit n p' \<and> (found' \<longrightarrow> starts_with n name p' \<and> 0 < tgr_startIndex p')"
proof (cases found)
  case True
  then have "foundRound p 0 = (stop, p') \<and> found'" using assms(3) by (auto simp: searchRound_def split: prod.splits)
  then show ?thesis using foundRound_starts [of n p 0 name stop p'] True assms(1,2)
    by (auto simp: starts_with_def search_result_def)
next
  case False
  show ?thesis
  proof (cases "findStartProfile (tgr_tmpResultBuffer p) (tgr_profilesExtracted p) name")
    case None
    then show ?thesis using assms False
      by (auto simp: searchRound_def search_result_def profiles_fit_def Let_def split: if_splits)
  next
    case (Some d)
    note d = findStartProfile_bound [OF Some]
    show ?thesis
    proof (cases d)
      case 0
      then show ?thesis using assms False Some d by (auto simp: searchRound_def search_result_def starts_with_def)
    next
      case (Suc k)
      then have "foundRound p d = (stop, p') \<and> found'" using assms(3) False Some by (auto simp: searchRound_def split: prod.splits)
      then show ?thesis using foundRound_starts [of n p d name stop p'] assms(1) d by (auto simp: search_result_def starts_with_def)
    qed
  qed
qed

lemma genresRound_starts:
  assumes inv: "search_inv n name s" and round: "genresRound env caller cls (Some name) s = Inr (stop, st, s')"
  shows "if stop then rm_rc st = 0 \<longrightarrow> search_result n name (gs_parms s') else search_inv n name s'"
proof -
  let ?J = "\<lambda>p. profiles_fit n p \<and> (gs_isProfileFound s \<longrightarrow> starts_with n name p)"
  have "result_ok ?J (genresProfileHandler (te_utils env) (te_stale env (gs_log s)) st result (gs_parms s))" for st result
    using inv genresProfileHandler_fits [of n "gs_parms s" "te_utils env" "te_stale env (gs_log s)" st result]
      handler_keeps_first [of n _ "gs_parms s" "te_utils env" "te_stale env (gs_log s)" st result]
    unfolding search_inv_def starts_with_iff result_ok_def by (auto split: sum.splits prod.splits)
  then have ok: "run_ok ?J (radminRunRACFCommand env caller (searchCommand cls) (genresProfileHandler (te_utils env) (te_stale env (gs_log s))) (gs_parms s) (gs_log s))"
    using inv by (intro radminRun_ok) (auto simp: search_inv_def)
  from round obtain p log where run: "radminRunRACFCommand env caller (searchCommand cls) (genresProfileHandler (te_utils env) (te_stale env (gs_log s))) (gs_parms s) (gs_log s) =
      Inr (st, p, log)"
    and "rm_rc st \<noteq> 0 \<and> stop \<or> searchRound name p (gs_isProfileFound s) = (stop, gs_isProfileFound s', gs_parms s')"
    by (auto simp: genresRound_def split: sum.splits if_splits prod.splits)
  then show ?thesis
    using searchRound_starts [of n p "gs_isProfileFound s" name stop "gs_isProfileFound s'" "gs_parms s'"] ok
    by (auto simp: search_inv_def)
qed

lemma genresLoop_starts:
  assumes "genresLoop env caller cls (Some name) s = Some r" and "search_inv n name s"
  shows "case r of Inl e \<Rightarrow> True | Inr (st, s') \<Rightarrow> rm_rc st = 0 \<longrightarrow> search_result n name (gs_parms s')"
  using assms(1)
  by (rule genresLoop_inv [where I = "search_inv n name" and E = "\<lambda>_. True", OF _ assms(2)])
    (use genresRound_starts in blast, simp)

lemma owners_keep_profiles:
  "assignCorrectProfileOwners env caller cls es st log = Inr (st', es', log') \<Longrightarrow> map ge_profile es' = map ge_profile es"
proof (induction env caller cls es st log arbitrary: st' es' log' rule: assignCorrectProfileOwners.induct)
  case (2 env caller cls p ps st log)
  then show ?case by (auto split: if_splits sum.splits prod.splits)
qed simp

text \<open>
  C17. A list of profiles from a start profile on begins with that profile: whatever place it had in the output
  and however many rounds it took to get there, when the commands have been run the list is empty or its first
  entry is the start profile.
\<close>

theorem start_profile_first:
  assumes run: "extractProfiles env caller cls (Some name) False (unat (gp_profilesToExtract pl)) log = Some (Inr (st, p, log1))"
    and owners: "completeOwners env caller cls (Some name) st p log1 = Inr (st2, p2, log2)" and ok: "rm_rc st2 = 0"
  shows "\<exists>es. profilesService env caller cls (Some name) False pl log =
      Some (Inr (0, Some (pl\<lparr>gp_profilesExtracted := of_nat (tgr_profilesExtracted p2)\<rparr>), es, log2)) \<and>
    length es = tgr_profilesExtracted p2 \<and> (es = [] \<or> sameProfile (ge_profile (List.hd es)) name)"
proof -
  let ?n = "unat (gp_profilesToExtract pl)"
  from owners ok have rc: "rm_rc st = 0" by (auto simp: completeOwners_def split: if_splits)
  define s0 where "s0 = \<lparr>gs_parms = \<lparr>tgr_tmpResultBuffer = replicate ?n emptyProfile, tgr_profilesExtracted = 0, tgr_profilesToExtract = ?n,
         tgr_className = cls, tgr_lineData = None, tgr_startIndex = 0, tgr_reachedEndOfOutput = False, tgr_extractGeneric = True\<rparr>,
       gs_isProfileFound = False, gs_log = log\<rparr>"
  obtain z where z: "genresLoop env caller cls (Some name) s0 = Some z"
      "(case z of Inl e \<Rightarrow> Inl e | Inr (st, s) \<Rightarrow> Inr (st, gs_parms s, gs_log s)) = Inr (st, p, log1)"
    using run by (auto simp: extractProfiles_def Let_def s0_def)
  then obtain s where loop: "genresLoop env caller cls (Some name) s0 = Some (Inr (st, s))" and p: "p = gs_parms s"
    by (cases z) auto
  have "search_result ?n name p"
    using genresLoop_starts [OF loop, of ?n] rc by (simp add: search_inv_def profiles_fit_def p s0_def)
  then have r: "tgr_profilesExtracted p \<le> length (tgr_tmpResultBuffer p)"
      "tgr_profilesExtracted p = 0 \<or> sameProfile (ge_profile (tgr_tmpResultBuffer p ! 0)) name"
    by (auto simp: search_result_def starts_with_def profiles_fit_def)
  let ?k = "tgr_profilesExtracted p"
  from owners rc obtain es where a: "assignCorrectProfileOwners env caller cls (take ?k (tgr_tmpResultBuffer p)) st log1 = Inr (st2, es, log2)"
    and p2: "p2 = p\<lparr>tgr_tmpResultBuffer := es @ drop ?k (tgr_tmpResultBuffer p)\<rparr>"
    by (auto simp: completeOwners_def Let_def split: sum.splits)
  note keep = owners_keep_profiles [OF a]
  have len: "length es = ?k" using arg_cong [OF keep, of length] r(1) by simp
  have "es = [] \<or> sameProfile (ge_profile (List.hd es)) name"
  proof (cases es)
    case (Cons e es')
    then have "ge_profile e = ge_profile (tgr_tmpResultBuffer p ! 0)"
      using arg_cong [OF keep, of List.hd] len r(1) by (cases "tgr_tmpResultBuffer p") (auto simp: take_Cons split: nat.splits)
    then show ?thesis using r(2) len Cons by auto
  qed simp
  moreover have "profilesService env caller cls (Some name) False pl log =
      Some (Inr (0, Some (pl\<lparr>gp_profilesExtracted := of_nat (tgr_profilesExtracted p2)\<rparr>), es, log2))"
    using run owners ok len by (simp add: profilesService_def profilesOfCaller_def copyEntries_def p2)
  ultimately show ?thesis using len by (simp add: p2)
qed

section \<open>An example\<close>

definition demo_line :: string where "demo_line = ''ZOWE = ZOWE.B  OWNER(ADMIN   )''"

definition demo_key :: TSSKeyData where
  "demo_key = emptyKey\<lparr>tk_endPos := 3, tk_startPos := 0, tk_delimPos := 4, tk_keyName := ''ZOWE'' @ replicate 6 nul, tk_keyLength := 4\<rparr>"

definition demo_profile :: string where "demo_profile = ''ZOWE.B '' @ replicate 248 (CHR '' '')"

lemma demo_line_facts:
  "tssParseLineForKeys demo_utils demo_line [emptyKey, emptyKey] = Some (1, [demo_key, emptyKey])"
  "valueOf demo_utils demo_line 14 [demo_key, emptyKey] 0 1 (zeros 255) = Some (0, demo_profile)"
  "tu_lastIndexOfString demo_utils demo_line ''OWNER('' = 15" "tssFindDesiredKey ''ZOWE'' [demo_key, emptyKey] = 0"
  "copyFromLine demo_line 21 8 = Some ''ADMIN   ''" "tu_padWithSpaces demo_utils ''ADMIN   '' = ''ADMIN   ''"
  "tssIsOutputDone demo_line = False" "tssIsErrorDetected demo_line = False"
  "tssIsOutputDone ''TSS0300I''" "length demo_line = 30"
  by code_simp+

lemma demo_profile_same: "sameProfile demo_profile ''ZOWE.B''"
  by code_simp

definition demo_found :: TSSGenresProfileParms where
  "demo_found = \<lparr>tgr_tmpResultBuffer = [\<lparr>ge_profile = demo_profile, ge_owner = ''ADMIN   ''\<rparr>], tgr_profilesExtracted = 1, tgr_profilesToExtract = 1,
     tgr_className = ''ZOWE'', tgr_lineData = None, tgr_startIndex = 0, tgr_reachedEndOfOutput = True, tgr_extractGeneric = True\<rparr>"

definition demo_search :: TSSGenresProfileParms where
  "demo_search = \<lparr>tgr_tmpResultBuffer = [emptyProfile], tgr_profilesExtracted = 0, tgr_profilesToExtract = 1, tgr_className = ''ZOWE'',
     tgr_lineData = None, tgr_startIndex = 0, tgr_reachedEndOfOutput = False, tgr_extractGeneric = True\<rparr>"

definition demo_tss_env :: TssEnv where "demo_tss_env = demo_tss [demo_line, ''TSS0300I'']"

definition demo_cursor :: Cursor where "demo_cursor = firstLine (demo_block [demo_line, ''TSS0300I'']) []"

lemma demo_walk:
  "walk (genresLine demo_utils) newBlock demo_cursor (demo_search, emptyProfile, zeros 8, 0) =
     Done 0 (demo_found, emptyProfile, ''ADMIN   '', 1)"
proof -
  let ?p = "demo_found\<lparr>tgr_profilesExtracted := 0, tgr_reachedEndOfOutput := False\<rparr>"
  have "genresLine demo_utils c demo_line (demo_search, emptyProfile, zeros 8, 0) = Go (?p, emptyProfile, ''ADMIN   '', 1)" for c
    by (simp add: genresLine_def demo_search_def demo_found_def demo_line_facts parseLine_def storeProfile_def storeEntry_def Let_def
        emptyProfile_def sec_length_defs)
  then show ?thesis
    by (simp add: walk.simps demo_cursor_def firstLine_def demo_block_def demo_line_facts genresLine_def demo_found_def)
qed

lemma demo_round:
  "genresRound demo_tss_env demo_caller ''ZOWE'' (Some ''ZOWE.B'') \<lparr>gs_parms = demo_search, gs_isProfileFound = False, gs_log = []\<rparr> =
     Inr (True, \<lparr>rm_rc = 0, rm_reasonCode = 0, rm_apiStatus = \<lparr>ss_safRC = 0, ss_racfRC = 0, ss_racfRSN = 0\<rparr>\<rparr>,
       \<lparr>gs_parms = demo_found, gs_isProfileFound = True, gs_log = [RunRACFCommand demo_caller (searchCommand ''ZOWE'')]\<rparr>)"
proof -
  have "genresProfileHandler demo_utils stale \<lparr>ss_safRC = 0, ss_racfRC = 0, ss_racfRSN = 0\<rparr> [demo_block [demo_line, ''TSS0300I'']] demo_search =
      Inr (0, demo_found)" for stale
    using demo_walk
    by (simp add: genresProfileHandler_def openOutput_def demo_block_def demo_line_facts demo_cursor_def demo_search_def returned_def resumeAt_def)
  moreover have "searchRound ''ZOWE.B'' demo_found False = (True, True, demo_found)"
    by (simp add: searchRound_def findStartProfile_def demo_found_def demo_profile_same)
  ultimately show ?thesis
    by (simp add: genresRound_def radminRunRACFCommand_def demo_tss_env_def demo_tss_def)
qed

lemma demo_extract:
  "extractProfiles demo_tss_env demo_caller ''ZOWE'' (Some ''ZOWE.B'') False 1 [] =
     Some (Inr (\<lparr>rm_rc = 0, rm_reasonCode = 0, rm_apiStatus = \<lparr>ss_safRC = 0, ss_racfRC = 0, ss_racfRSN = 0\<rparr>\<rparr>, demo_found,
       [RunRACFCommand demo_caller (searchCommand ''ZOWE'')]))"
proof -
  have "genresLoop demo_tss_env demo_caller ''ZOWE'' (Some ''ZOWE.B'') \<lparr>gs_parms = demo_search, gs_isProfileFound = False, gs_log = []\<rparr> =
    Some (Inr (\<lparr>rm_rc = 0, rm_reasonCode = 0, rm_apiStatus = \<lparr>ss_safRC = 0, ss_racfRC = 0, ss_racfRSN = 0\<rparr>\<rparr>,
       \<lparr>gs_parms = demo_found, gs_isProfileFound = True, gs_log = [RunRACFCommand demo_caller (searchCommand ''ZOWE'')]\<rparr>))"
    by (subst genresLoop.simps) (simp add: demo_round)
  then show ?thesis by (simp add: extractProfiles_def Let_def demo_search_def)
qed

definition demo_request :: "string \<Rightarrow> 32 word \<Rightarrow> ZISGenresProfileServiceParmList" where
  "demo_request start n =
     \<lparr>pl_eyecatcher = ''RSGPROFS'', pl_flags = 0, pl_traceLevel = 0, pl_internalServiceRC = 0, pl_internalServiceRSN = 0,
      pl_safStatus = \<lparr>ss_safRC = 0, ss_racfRC = 0, ss_racfRSN = 0\<rparr>, gp_class = \<lparr>sf_length = 0, sf_value = replicate 8 nul\<rparr>,
      gp_startProfile = \<lparr>sf_length = of_nat (length start), sf_value = zero_pad 255 start\<rparr>,
      gp_profilesToExtract = n, gp_resultBuffer = Some 4096, gp_profilesExtracted = 0\<rparr>"

theorem start_profile_first_witness:
  "\<exists>es log'. profilesService demo_tss_env demo_caller ''ZOWE'' (Some ''ZOWE.B'') False (demo_request ''ZOWE.B'' 1) [] =
      Some (Inr (0, Some ((demo_request ''ZOWE.B'' 1)\<lparr>gp_profilesExtracted := 1\<rparr>), es, log')) \<and>
    length es = 1 \<and> sameProfile (ge_profile (List.hd es)) ''ZOWE.B''"
proof -
  have n: "unat (gp_profilesToExtract (demo_request ''ZOWE.B'' 1)) = 1" by (simp add: demo_request_def)
  have owners: "completeOwners demo_tss_env demo_caller ''ZOWE'' (Some ''ZOWE.B'')
      \<lparr>rm_rc = 0, rm_reasonCode = 0, rm_apiStatus = \<lparr>ss_safRC = 0, ss_racfRC = 0, ss_racfRSN = 0\<rparr>\<rparr> demo_found log =
      Inr (\<lparr>rm_rc = 0, rm_reasonCode = 0, rm_apiStatus = \<lparr>ss_safRC = 0, ss_racfRC = 0, ss_racfRSN = 0\<rparr>\<rparr>, demo_found, log)" for log
    by (simp add: completeOwners_def demo_found_def nul_def)
  from start_profile_first [OF demo_extract [folded n] owners] show ?thesis
    by (auto simp: demo_found_def)
qed

lemma demo_answers_ok: "answers_ok demo_tss_env"
proof -
  have "complete_from (firstLine (demo_block [demo_line, ''TSS0300I'']) [])"
    by (simp add: complete_from_rec firstLine_def demo_block_def demo_line_facts)
  then show ?thesis by (simp add: answers_ok_def demo_tss_env_def demo_tss_def)
qed

lemma demo_output_stays: "output_stays demo_tss_env"
  by (simp add: output_stays_def demo_tss_env_def demo_tss_def)

theorem genres_search_ends_witness:
  "zisGenresProfilesServiceFunctionTSS demo_tss_env (Some (demo_request ''ZOWE.B'' 1)) [] \<noteq> None"
  by (rule genres_search_ends [OF demo_answers_ok demo_output_stays]) (simp add: demo_request_def)

lemma demo_request_start: "start_name (gp_startProfile (demo_request ''ZOWE.B'' n)) = Some ''ZOWE.B''"
  by (simp add: demo_request_def start_name_def sf_text_def zero_pad_def cstr_def nul_def)

lemma demo_request_valid: "validateGenresProfileParmList (demo_request ''ZOWE.B'' n) = 0"
  by (simp add: demo_request_def validateGenresProfileParmList_def bad_eyecatcher_def too_long_def sec_length_defs sec_eyecatcher_defs)

theorem genres_search_for_none_diverges_witness:
  "zisGenresProfilesServiceFunctionTSS demo_tss_env (Some (demo_request ''ZOWE.B'' 0)) [] = None"
proof (rule genres_search_for_none_diverges [OF demo_request_valid _ demo_request_start])
  show "\<forall>log req. \<exists>st b bs l ls. te_run demo_tss_env log req = Ran st (b # bs) \<and> ss_racfRC st = 0 \<and> ro_lines b = l # ls \<and>
      16 < ro_lastByteOffset b \<and> \<not> tssIsErrorDetected l \<and> \<not> tssIsOutputDone l"
    by (simp add: demo_tss_env_def demo_tss_def demo_block_def demo_line_facts)
qed (rule demo_output_stays | simp add: demo_request_def demo_tss_env_def demo_tss_def demo_sec_def userClass_def sec_length_defs)+


end
