(* ===== verification/AUX_Utils.thy ===== *)
theory AUX_Utils
  imports ZIS_Parm
begin

text \<open>
  Utilities of the auxiliary address spaces (src/zis-aux/src/aux-utils.c): the tokens of a command, the lines
  of a log message and the characters of its time stamp. Storage for tokens comes from the short-lived heap
  of \<open>ZIS_Parm\<close>. Indices are natural numbers: a command has at most 126 characters, a log message 4095.
\<close>

section \<open>Tokens of a string\<close>

text \<open>The two inner loops: to the first character that is no delimiter, and from there behind the token.\<close>

function skipDelims :: "string \<Rightarrow> nat \<Rightarrow> char \<Rightarrow> nat \<Rightarrow> nat" where
  "skipDelims str n delim charIdx =
     (if charIdx < n \<and> str ! charIdx = delim then skipDelims str n delim (Suc charIdx) else charIdx)"
  by pat_completeness auto
termination
  by (relation "measure (\<lambda>(str, n, delim, charIdx). n - charIdx)") auto

function endOfToken :: "string \<Rightarrow> nat \<Rightarrow> char \<Rightarrow> nat \<Rightarrow> nat" where
  "endOfToken str n delim charIdx =
     (if charIdx < n \<and> str ! charIdx \<noteq> delim then endOfToken str n delim (Suc charIdx) else charIdx)"
  by pat_completeness auto
termination
  by (relation "measure (\<lambda>(str, n, delim, charIdx). n - charIdx)") auto

declare skipDelims.simps [simp del] endOfToken.simps [simp del]

lemma skipDelims_ge: "i \<le> skipDelims str n d i"
proof (induction str n d i rule: skipDelims.induct)
  case (1 str n d i)
  then show ?case by (subst skipDelims.simps) (auto intro: Suc_leD)
qed

lemma endOfToken_ge: "i \<le> endOfToken str n d i"
proof (induction str n d i rule: endOfToken.induct)
  case (1 str n d i)
  then show ?case by (subst endOfToken.simps) (auto intro: Suc_leD)
qed

lemma token_decreases: "i < n \<Longrightarrow> n - Suc (endOfToken str n d (skipDelims str n d i)) < n - i"
  using endOfToken_ge [of "skipDelims str n d i" str n d] skipDelims_ge [of i str n d] by simp

definition sizeof_ptr :: nat where "sizeof_ptr = 8"

text \<open>
  The array of tokens: the tokens stored so far and the number of slots. The array doubles when it is full.
  A store behind the slots has no defined result.
\<close>

record TokenArray =
  ta_tokens :: "string list"
  ta_capacity :: nat

definition growTokens :: "'s ShortLivedHeap \<Rightarrow> TokenArray \<Rightarrow> TokenArray option \<times> 's ShortLivedHeap" where
  "growTokens slh a =
     (if length (ta_tokens a) \<ge> ta_capacity a
      then case SLHAlloc slh (sizeof_ptr * (ta_capacity a * 2)) of
             (None, slh1) \<Rightarrow> (None, slh1)
           | (Some _, slh1) \<Rightarrow> (Some \<lparr>ta_tokens = take (ta_capacity a) (ta_tokens a), ta_capacity = ta_capacity a * 2\<rparr>, slh1)
      else (Some a, slh))"

definition storeToken :: "string \<Rightarrow> TokenArray \<Rightarrow> TokenArray option" where
  "storeToken token a = (if length (ta_tokens a) < ta_capacity a then Some (a\<lparr>ta_tokens := ta_tokens a @ [token]\<rparr>) else None)"

definition addToken ::
    "'s ShortLivedHeap \<Rightarrow> string \<Rightarrow> TokenArray \<Rightarrow> (TokenArray option \<times> 's ShortLivedHeap) option" where
  "addToken slh token a =
     (case growTokens slh a of
        (None, slh1) \<Rightarrow> Some (None, slh1)
      | (Some a1, slh1) \<Rightarrow>
          (case SLHAlloc slh1 (length token + 1) of
             (None, slh2) \<Rightarrow> Some (None, slh2)
           | (Some _, slh2) \<Rightarrow> (case storeToken token a1 of None \<Rightarrow> None | Some a2 \<Rightarrow> Some (Some a2, slh2))))"

function tokenize_loop ::
    "'s ShortLivedHeap \<Rightarrow> string \<Rightarrow> nat \<Rightarrow> char \<Rightarrow> nat \<Rightarrow> TokenArray \<Rightarrow> (TokenArray option \<times> 's ShortLivedHeap) option" where
  "tokenize_loop slh str n delim charIdx a =
     (if charIdx < n
      then let tokenStartIdx = skipDelims str n delim charIdx;
               endIdx = endOfToken str n delim tokenStartIdx;
               tokenLength = endIdx - tokenStartIdx
           in if tokenLength > 0
              then case addToken slh (take tokenLength (drop tokenStartIdx str)) a of
                     None \<Rightarrow> None
                   | Some (None, slh1) \<Rightarrow> Some (None, slh1)
                   | Some (Some a1, slh1) \<Rightarrow> tokenize_loop slh1 str n delim (Suc endIdx) a1
              else tokenize_loop slh str n delim (Suc endIdx) a
      else Some (Some a, slh))"
  by pat_completeness auto
termination
  by (relation "measure (\<lambda>(slh, str, n, delim, charIdx, a). n - charIdx)") (auto simp: token_decreases)

declare tokenize_loop.simps [simp del]

text \<open>
  \<open>None\<close> for the return code \<open>-1\<close>. The index is a natural number here; the unsigned one of the code counts in the same way
  for every text of fewer than \<open>2 ^ 32 - 1\<close> characters.
\<close>

definition auxutilTokenizeString ::
    "'s ShortLivedHeap \<Rightarrow> string \<Rightarrow> nat \<Rightarrow> char \<Rightarrow> (string list option \<times> 's ShortLivedHeap) option" where
  "auxutilTokenizeString slh str n delim =
     (case SLHAlloc slh (sizeof_ptr * 4) of
        (None, slh1) \<Rightarrow> Some (None, slh1)
      | (Some _, slh1) \<Rightarrow>
          (case tokenize_loop slh1 str n delim 0 \<lparr>ta_tokens = [], ta_capacity = 4\<rparr> of
             None \<Rightarrow> None
           | Some (None, slh2) \<Rightarrow> Some (None, slh2)
           | Some (Some a, slh2) \<Rightarrow> Some (Some (ta_tokens a), slh2)))"

section \<open>Log messages\<close>

text \<open>\<open>%08X\<close> and \<open>%04X\<close> of numbers of 32 and 16 bits.\<close>

definition hex8 :: "nat \<Rightarrow> string" where
  "hex8 a = map (\<lambda>i. hexDigit (a div 16 ^ i mod 16)) [7, 6, 5, 4, 3, 2, 1, 0]"

definition hex4 :: "nat \<Rightarrow> string" where
  "hex4 a = map (\<lambda>i. hexDigit (a div 16 ^ i mod 16)) [3, 2, 1, 0]"

text \<open>The answer of \<open>STCKCONV\<close>, in packed decimal digits, and the time stamp in EBCDIC made of it.\<close>

record STCKCONVOutput =
  so_hour :: "8 word"
  so_minute :: "8 word"
  so_second :: "8 word"
  so_x10 :: "8 word"
  so_x100 :: "8 word"
  so_year :: "8 word \<times> 8 word"
  so_month :: "8 word"
  so_day :: "8 word"

definition zonedHigh :: "8 word \<Rightarrow> 8 word" where "zonedHigh b = drop_bit 4 b OR 0xF0"
definition zonedLow :: "8 word \<Rightarrow> 8 word" where "zonedLow b = b OR 0xF0"

definition stckToLogTimestamp :: "STCKCONVOutput option \<Rightarrow> 8 word list" where
  "stckToLogTimestamp stckconv =
     (case stckconv of
        None \<Rightarrow> replicate 22 0x40
      | Some t \<Rightarrow>
          (let zoned = (\<lambda>b. [zonedHigh b, zonedLow b])
           in zoned (fst (so_year t)) @ zoned (snd (so_year t)) @ [0x61] @ zoned (so_month t) @ [0x61] @ zoned (so_day t) @ [0x60] @
              zoned (so_hour t) @ [0x7A] @ zoned (so_minute t) @ [0x7A] @ zoned (so_second t) @ [0x4B] @
              [zonedLow (so_x10 t), zonedLow (so_x100 t)]))"

text \<open>Clock units: the offsets of the time zone and of leap seconds, in wrapping arithmetic.\<close>

definition currentLogClock :: "64 word \<Rightarrow> 64 word \<Rightarrow> 64 word \<Rightarrow> 64 word" where
  "currentLogClock stck localTimeOffset leapSecondsOffset = stck + localTimeOffset - leapSecondsOffset"

definition LOG_MSG_PREFIX_SIZE :: nat where "LOG_MSG_PREFIX_SIZE = 57"

text \<open>The format fills the prefix; the NUL in its last byte becomes a blank.\<close>

definition initLogMessagePrefix :: "string \<Rightarrow> string \<Rightarrow> addr \<Rightarrow> nat \<Rightarrow> addr \<Rightarrow> string" where
  "initLogMessagePrefix currentTime jobName ascb asid tcb =
     (let text = take (LOG_MSG_PREFIX_SIZE - 1)
                   (space_pad 22 (take 22 currentTime) @ '' '' @ space_pad 8 (take 8 jobName) @ '' '' @ hex8 ascb @ ''('' @ hex4 asid @ '') '' @
                    hex8 tcb @ ''  '')
      in text @ '' '')"

definition PREFIXED_LINE_MAX_COUNT :: nat where "PREFIXED_LINE_MAX_COUNT = 1000"
definition PREFIXED_LINE_MAX_MSG_LENGTH :: nat where "PREFIXED_LINE_MAX_MSG_LENGTH = 4096"

definition newline :: char where "newline = CHR 0x0A"

text \<open>The loop over the lines: the number of lines still allowed, whether this is the first, and the rest of the text.\<close>

primrec prefixedLines :: "nat \<Rightarrow> string \<Rightarrow> bool \<Rightarrow> string \<Rightarrow> string list" where
  "prefixedLines 0 prefix isFirst nextLine = []"
| "prefixedLines (Suc k) prefix isFirst nextLine =
     (if nextLine = [] then []
      else case split_at newline nextLine of
        (line, rest) \<Rightarrow>
          ((if isFirst then prefix else replicate LOG_MSG_PREFIX_SIZE CHR '' '') @ line) #
          (case rest of None \<Rightarrow> [] | Some r \<Rightarrow> prefixedLines k prefix False r))"

definition auxutilPrintWithPrefix :: "string \<Rightarrow> string \<Rightarrow> string list" where
  "auxutilPrintWithPrefix prefix message =
     prefixedLines PREFIXED_LINE_MAX_COUNT prefix True (take (PREFIXED_LINE_MAX_MSG_LENGTH - 1) message)"

section \<open>Facts\<close>

text \<open>The pieces between delimiters, one after another, as a reference.\<close>

primrec splitOn :: "char \<Rightarrow> string \<Rightarrow> string list" where
  "splitOn d [] = [[]]"
| "splitOn d (c # s) = (if c = d then [] # splitOn d s else case splitOn d s of [] \<Rightarrow> [] | w # ws \<Rightarrow> (c # w) # ws)"

definition tokensOf :: "char \<Rightarrow> string \<Rightarrow> string list" where
  "tokensOf d s = filter (\<lambda>w. w \<noteq> []) (splitOn d s)"

lemma splitOn_nonempty: "splitOn d s \<noteq> []"
  by (induction s) (auto split: list.splits)

lemma splitOn_free: "d \<notin> set s \<Longrightarrow> splitOn d s = [s]"
  by (induction s) auto

lemma splitOn_sep: "d \<notin> set s \<Longrightarrow> splitOn d (s @ d # r) = s # splitOn d r"
  by (induction s) auto

lemma tokensOf_delim: "tokensOf d (d # s) = tokensOf d s"
  by (simp add: tokensOf_def)

lemma tokensOf_Nil [simp]: "tokensOf d [] = []"
  by (simp add: tokensOf_def)

lemma drop_take_step: "i < n \<Longrightarrow> n \<le> length s \<Longrightarrow> drop i (take n s) = s ! i # drop (Suc i) (take n s)"
  using Cons_nth_drop_Suc [of i "take n s"] by simp

lemma skipDelims_tokens:
  assumes "n \<le> length str" and "i \<le> n"
  shows "tokensOf d (drop i (take n str)) = tokensOf d (drop (skipDelims str n d i) (take n str)) \<and> skipDelims str n d i \<le> n \<and>
         (skipDelims str n d i < n \<longrightarrow> str ! skipDelims str n d i \<noteq> d)"
  using assms
proof (induction str n d i rule: skipDelims.induct)
  case (1 str n d i)
  then show ?case
    by (cases "i < n \<and> str ! i = d")
      (auto simp: skipDelims.simps [of str n d i] drop_take_step [of i n str] tokensOf_delim)
qed

lemma endOfToken_take:
  assumes "n \<le> length str" and "i \<le> n"
  shows "endOfToken str n d i \<le> n \<and> d \<notin> set (take (endOfToken str n d i - i) (drop i str)) \<and>
         (endOfToken str n d i < n \<longrightarrow> str ! endOfToken str n d i = d) \<and> (i < n \<and> str ! i \<noteq> d \<longrightarrow> i < endOfToken str n d i)"
  using assms
proof (induction str n d i rule: endOfToken.induct)
  case (1 str n d i)
  show ?case
  proof (cases "i < n \<and> str ! i \<noteq> d")
    case True
    let ?e = "endOfToken str n d (Suc i)"
    have "Suc i \<le> ?e" by (rule endOfToken_ge)
    then have "?e - i = Suc (?e - Suc i)" by simp
    moreover have "drop i str = str ! i # drop (Suc i) str" using True "1.prems" by (simp add: Cons_nth_drop_Suc)
    ultimately have "take (?e - i) (drop i str) = str ! i # take (?e - Suc i) (drop (Suc i) str)" by simp
    with True "1" show ?thesis using \<open>Suc i \<le> ?e\<close> by (auto simp: endOfToken.simps [of str n d i])
  next
    case False
    with "1.prems" show ?thesis by (auto simp: endOfToken.simps [of str n d i])
  qed
qed

text \<open>One round of the outer loop takes one token off the rest, or none where only delimiters are left.\<close>

lemma token_round:
  fixes str d i n
  defines "b \<equiv> skipDelims str n d i" and "e \<equiv> endOfToken str n d (skipDelims str n d i)"
  assumes "n \<le> length str" and "i < n"
  shows "tokensOf d (drop i (take n str)) =
         (if b < e then take (e - b) (drop b str) # tokensOf d (drop (Suc e) (take n str)) else tokensOf d (drop (Suc e) (take n str)))"
proof -
  have sk: "tokensOf d (drop i (take n str)) = tokensOf d (drop b (take n str))" "b \<le> n" "b < n \<Longrightarrow> str ! b \<noteq> d"
    using skipDelims_tokens [of n str i d] assms by auto
  have en: "e \<le> n" "d \<notin> set (take (e - b) (drop b str))" "e < n \<Longrightarrow> str ! e = d" "b < n \<Longrightarrow> b < e"
    using endOfToken_take [of n str b d] assms sk by auto
  have be: "b \<le> e" unfolding b_def e_def by (rule endOfToken_ge)
  show ?thesis
  proof (cases "b < e")
    case False
    with en(4) have "\<not> b < n" by blast
    with False be sk(2) en(1) have "b = n" "e = n" by simp_all
    with sk(1) False show ?thesis by simp
  next
    case True
    let ?w = "take (e - b) (drop b str)"
    have w: "?w \<noteq> []" using True en(1) assms by simp
    have pre: "drop b (take n str) = ?w @ drop e (take n str)"
    proof -
      have "take (e - b) (drop b (take n str)) = ?w" using en(1) True by (simp add: drop_take min_def)
      moreover have "drop (e - b) (drop b (take n str)) = drop e (take n str)" using True by simp
      ultimately show ?thesis by (metis append_take_drop_id)
    qed
    show ?thesis
    proof (cases "e < n")
      case e: True
      have "drop e (take n str) = d # drop (Suc e) (take n str)"
        using drop_take_step [OF e assms(3)] en(3) [OF e] by simp
      with pre w sk(1) en(2) True show ?thesis by (simp add: tokensOf_def splitOn_sep)
    next
      case False
      with pre w sk(1) en True show ?thesis by (simp add: tokensOf_def splitOn_free)
    qed
  qed
qed

lemma addToken_stores:
  assumes "length (ta_tokens a) \<le> ta_capacity a" and "0 < ta_capacity a"
  obtains (no_storage) slh' where "addToken slh token a = Some (None, slh')" "\<not> slh_total slh"
  | (stored) a' slh' where "addToken slh token a = Some (Some a', slh')" "ta_tokens a' = ta_tokens a @ [token]"
      "length (ta_tokens a') \<le> ta_capacity a'" "0 < ta_capacity a'" "slh_total slh \<Longrightarrow> slh_total slh'"
proof -
  obtain g slh1 where g: "growTokens slh a = (g, slh1)" by fastforce
  have grown: "slh_total slh \<longrightarrow> g \<noteq> None \<and> slh_total slh1"
    "g = Some a1 \<Longrightarrow> ta_tokens a1 = ta_tokens a \<and> length (ta_tokens a1) < ta_capacity a1" for a1
    using g assms SLHAlloc_total [of slh "sizeof_ptr * (ta_capacity a * 2)"]
    by (auto simp: growTokens_def split: if_splits prod.splits option.splits)
  show thesis
  proof (cases g)
    case None
    with g grown(1) show thesis by (intro no_storage [of slh1]) (auto simp: addToken_def)
  next
    case (Some a1)
    obtain r slh2 where r: "SLHAlloc slh1 (length token + 1) = (r, slh2)" by fastforce
    show thesis
    proof (cases r)
      case None
      with g Some r grown(1) SLHAlloc_total [OF _ r] show thesis by (intro no_storage [of slh2]) (auto simp: addToken_def)
    next
      case (Some v)
      with g \<open>g = Some a1\<close> r grown SLHAlloc_total(2) [OF _ r] show thesis
        by (intro stored [of "a1\<lparr>ta_tokens := ta_tokens a1 @ [token]\<rparr>" slh2]) (auto simp: addToken_def storeToken_def)
    qed
  qed
qed

lemma tokenize_loop_tokens:
  assumes "n \<le> length str" and "length (ta_tokens a) \<le> ta_capacity a" and "0 < ta_capacity a"
  shows "\<exists>r slh'. tokenize_loop slh str n d i a = Some (r, slh') \<and> (slh_total slh \<longrightarrow> r \<noteq> None) \<and>
     (\<forall>a'. r = Some a' \<longrightarrow> ta_tokens a' = ta_tokens a @ tokensOf d (drop i (take n str)))"
  using assms
proof (induction slh str n d i a rule: tokenize_loop.induct)
  case (1 slh str n d i a)
  define b where "b = skipDelims str n d i"
  define e where "e = endOfToken str n d b"
  show ?case
  proof (cases "i < n")
    case False
    then show ?thesis by (subst tokenize_loop.simps) simp
  next
    case i: True
    have r: "tokensOf d (drop i (take n str)) =
         (if b < e then take (e - b) (drop b str) # tokensOf d (drop (Suc e) (take n str)) else tokensOf d (drop (Suc e) (take n str)))"
      unfolding b_def e_def using "1.prems"(1) i by (rule token_round)
    have step: "tokenize_loop slh str n d i a =
       (if b < e then case addToken slh (take (e - b) (drop b str)) a of
                     None \<Rightarrow> None
                   | Some (None, slh1) \<Rightarrow> Some (None, slh1)
                   | Some (Some a1, slh1) \<Rightarrow> tokenize_loop slh1 str n d (Suc e) a1
        else tokenize_loop slh str n d (Suc e) a)"
      unfolding e_def b_def using i by (subst tokenize_loop.simps) (simp add: Let_def)
    show ?thesis
    proof (cases "b < e")
      case False
      with "1.IH"(2) [OF i b_def e_def refl] "1.prems" r step show ?thesis by simp
    next
      case True
      from "1.prems"(2,3) show ?thesis
      proof (cases rule: addToken_stores [where slh = slh and token = "take (e - b) (drop b str)"])
        case (no_storage slh')
        with step True show ?thesis by simp
      next
        case (stored a' slh')
        obtain q slh2 where q: "tokenize_loop slh' str n d (Suc e) a' = Some (q, slh2)" "slh_total slh' \<longrightarrow> q \<noteq> None"
          "\<forall>x. q = Some x \<longrightarrow> ta_tokens x = ta_tokens a' @ tokensOf d (drop (Suc e) (take n str))"
          using "1.IH"(1) [OF i b_def e_def refl _ stored(1) refl refl "1.prems"(1) stored(3,4)] True by auto
        have "tokenize_loop slh str n d i a = Some (q, slh2)" using step True stored(1) q(1) by simp
        moreover have "ta_tokens x = ta_tokens a @ tokensOf d (drop i (take n str))" if "q = Some x" for x
          using q(3) that stored(2) r True by simp
        ultimately show ?thesis using q(2) stored(5) by blast
      qed
    qed
  qed
qed

lemma tokenizeString_result:
  assumes "n \<le> length str"
  shows "\<exists>r slh'. auxutilTokenizeString slh str n delim = Some (r, slh') \<and>
     (r = None \<or> r = Some (tokensOf delim (take n str))) \<and> (slh_total slh \<longrightarrow> r \<noteq> None)"
proof -
  obtain r slh1 where r: "SLHAlloc slh (sizeof_ptr * 4) = (r, slh1)" by fastforce
  from tokenize_loop_tokens [OF assms, of "\<lparr>ta_tokens = [], ta_capacity = 4\<rparr>" slh1 delim 0]
  obtain q slh2 where q: "tokenize_loop slh1 str n delim 0 \<lparr>ta_tokens = [], ta_capacity = 4\<rparr> = Some (q, slh2)"
    "slh_total slh1 \<longrightarrow> q \<noteq> None" "\<forall>a'. q = Some a' \<longrightarrow> ta_tokens a' = tokensOf delim (take n str)"
    by auto
  with r SLHAlloc_total [OF _ r] show ?thesis
    by (cases r; cases q) (auto simp: auxutilTokenizeString_def)
qed

text \<open>
  C22. A command is split into its tokens: for a string of at least the given length, the two index loops and the array
  that doubles from four slots give exactly the non-empty pieces between delimiters, in order. No token is stored
  behind the array, and the only failure is that storage runs out.
\<close>

theorem auxutilTokenizeString_tokens:
  assumes "n \<le> length str"
  shows "\<exists>r slh'. auxutilTokenizeString slh str n delim = Some (r, slh') \<and>
     (r = None \<or> r = Some (tokensOf delim (take n str))) \<and> (slh_total slh \<longrightarrow> r \<noteq> None)"
  using assms by (rule tokenizeString_result)

theorem auxutilTokenizeString_tokens_witness:
  "\<exists>slh'. auxutilTokenizeString plain_heap ''  LOG STC   DEBUG A B C'' 21 CHR '' '' =
     Some (Some [''LOG'', ''STC'', ''DEBUG'', ''A'', ''B''], slh')"
proof -
  have total: "slh_total plain_heap" by (simp add: slh_total_def plain_heap_def)
  have toks: "tokensOf CHR '' '' (take 21 ''  LOG STC   DEBUG A B C'') = [''LOG'', ''STC'', ''DEBUG'', ''A'', ''B'']"
    by (simp add: tokensOf_def)
  from auxutilTokenizeString_tokens [of 21 "''  LOG STC   DEBUG A B C''" plain_heap "CHR '' ''"] total
  show ?thesis unfolding toks by auto
qed

section \<open>Log lines\<close>

lemma length_hex: "length (hex8 a) = 8" "length (hex4 a) = 4"
  by (simp_all add: hex8_def hex4_def)

text \<open>The format of the prefix has exactly its 57 characters, so that nothing but the NUL is lost.\<close>

lemma initLogMessagePrefix_exact:
  "length (initLogMessagePrefix t j a i c) = LOG_MSG_PREFIX_SIZE \<and>
   initLogMessagePrefix t j a i c =
     space_pad 22 (take 22 t) @ '' '' @ space_pad 8 (take 8 j) @ '' '' @ hex8 a @ ''('' @ hex4 i @ '') '' @ hex8 c @ ''  ''"
  by (simp add: initLogMessagePrefix_def LOG_MSG_PREFIX_SIZE_def length_space_pad length_hex)

text \<open>Packed digits become the EBCDIC digits.\<close>

lemma zoned_digits:
  assumes "a < 16" and "b < 16"
  shows "zonedHigh (of_nat (16 * a + b)) = of_nat (240 + a) \<and> zonedLow (of_nat (16 * a + b)) = of_nat (240 + b)"
proof -
  have "\<forall>a \<in> set [0..<16]. \<forall>b \<in> set [0..<16].
     zonedHigh (of_nat (16 * a + b)) = of_nat (240 + a) \<and> zonedLow (of_nat (16 * a + b)) = of_nat (240 + b)"
    by code_simp
  with assms show ?thesis by simp
qed

text \<open>The lines printed are the pieces between line ends, each behind a prefix, up to the limit.\<close>

lemma prefixedLines_split:
  "map (drop LOG_MSG_PREFIX_SIZE) (prefixedLines k p f s) =
     take k (if s = [] then [] else if List.last (splitOn newline s) = [] then butlast (splitOn newline s) else splitOn newline s)"
  if "length p = LOG_MSG_PREFIX_SIZE"
proof (induction k arbitrary: f s)
  case (Suc k)
  show ?case
  proof (cases "newline \<in> set s")
    case False
    then show ?thesis using that by (auto simp: split_at_none splitOn_free)
  next
    case True
    then obtain u v where s: "s = u @ newline # v" "newline \<notin> set u" by (auto dest: split_list_first)
    then show ?thesis
      using that Suc.IH [of False v] splitOn_nonempty [of newline v]
      by (cases "v = []") (auto simp: split_at_sep splitOn_sep)
  qed
qed simp

end
