(* ===== verification/AUX_Manager.thy ===== *)
theory AUX_Manager
  imports AUX_Utils
begin

text \<open>
  The manager of auxiliary address spaces (src/zis-aux/src/aux-manager.c, with the string functions of
  aux-utils.c and the module descriptors of aux-guest.c). A server starts a host address space for a guest
  module, finds its communication area by the guest's nickname, sends commands, work and the signal to
  terminate, and stops the space.

  Hash tables, the cell pool, shared storage, address space services and the call of the host's routine are
  parameters. An event control block is the code it was posted with, or nothing; a wait for one that is not
  posted does not return.
\<close>

section \<open>Return codes and data\<close>

abbreviation (input) RC_ZISAUX_OK :: rc where "RC_ZISAUX_OK \<equiv> 0"
abbreviation (input) RC_ZISAUX_ERROR :: rc where "RC_ZISAUX_ERROR \<equiv> 8"
abbreviation (input) RC_ZISAUX_CPOOL_ALLOC_FAILED :: rc where "RC_ZISAUX_CPOOL_ALLOC_FAILED \<equiv> 9"
abbreviation (input) RC_ZISAUX_COMM_NOT_ALLOCATED :: rc where "RC_ZISAUX_COMM_NOT_ALLOCATED \<equiv> 10"
abbreviation (input) RC_ZISAUX_PRINT_ERROR :: rc where "RC_ZISAUX_PRINT_ERROR \<equiv> 11"
abbreviation (input) RC_ZISAUX_AS_NOT_STARTED :: rc where "RC_ZISAUX_AS_NOT_STARTED \<equiv> 12"
abbreviation (input) RC_ZISAUX_COMM_NOT_FOUND :: rc where "RC_ZISAUX_COMM_NOT_FOUND \<equiv> 13"
abbreviation (input) RC_ZISAUX_AS_NOT_STOPPED :: rc where "RC_ZISAUX_AS_NOT_STOPPED \<equiv> 14"
abbreviation (input) RC_ZISAUX_BAD_EYECATCHER :: rc where "RC_ZISAUX_BAD_EYECATCHER \<equiv> 16"
abbreviation (input) RC_ZISAUX_AUX_NOT_READY :: rc where "RC_ZISAUX_AUX_NOT_READY \<equiv> 31"
abbreviation (input) RC_ZISAUX_COMMAND_TOO_LONG :: rc where "RC_ZISAUX_COMMAND_TOO_LONG \<equiv> 32"
abbreviation (input) RC_ZISAUX_AUX_STOPPED :: rc where "RC_ZISAUX_AUX_STOPPED \<equiv> 37"
abbreviation (input) RC_ZISAUX_SHR64_ERROR :: rc where "RC_ZISAUX_SHR64_ERROR \<equiv> 40"
abbreviation (input) RC_ZISAUX_BUFFER_TOO_SMALL :: rc where "RC_ZISAUX_BUFFER_TOO_SMALL \<equiv> 41"
abbreviation (input) RC_ZISAUX_NOT_MANAGER_TCB :: rc where "RC_ZISAUX_NOT_MANAGER_TCB \<equiv> 42"
abbreviation (input) RC_ZISAUX_COMM_PC_DISABLED :: rc where "RC_ZISAUX_COMM_PC_DISABLED \<equiv> 43"
abbreviation (input) RC_ZISAUX_XMEM_POST_FAILED :: rc where "RC_ZISAUX_XMEM_POST_FAILED \<equiv> 44"

definition ZISAUX_MGR_EYECATCHER :: string where "ZISAUX_MGR_EYECATCHER = ''ZISAUXM ''"
definition ZISAUX_COMM_EYECATCHER :: string where "ZISAUX_COMM_EYECATCHER = ''ZISAUXC ''"
definition ZISAUX_COMM_VERSION :: nat where "ZISAUX_COMM_VERSION = 2"
definition ZISAUX_HOST_FLAG_READY :: flags where "ZISAUX_HOST_FLAG_READY = 1"
definition ZISAUX_HOST_FLAG_TERMINATED :: flags where "ZISAUX_HOST_FLAG_TERMINATED = 2"
definition ZISAUX_HOST_FLAG_COMM_PC_ON :: flags where "ZISAUX_HOST_FLAG_COMM_PC_ON = 4"
definition ZIS_AUX_FLAG_NONE :: flags where "ZIS_AUX_FLAG_NONE = 0"
definition ZIS_AUX_FLAG_REUSASID_NO :: flags where "ZIS_AUX_FLAG_REUSASID_NO = 1"
definition ZIS_AUX_FLAG_COMM_PC_OFF :: flags where "ZIS_AUX_FLAG_COMM_PC_OFF = 2"
definition ZISAUX_COMM_SIGNAL_TERM :: int where "ZISAUX_COMM_SIGNAL_TERM = 1"
definition DEFAULT_HOST_STC :: string where "DEFAULT_HOST_STC = ''ZWESAUX ''"
definition ZISAUX_HOST_PARM_MOD_KEY :: string where "ZISAUX_HOST_PARM_MOD_KEY = ''MOD''"
definition ZISAUX_HOST_PARM_COMM_KEY :: string where "ZISAUX_HOST_PARM_COMM_KEY = ''COMM''"
definition ZISAUX_COMM_SERVICE_PARM_EYE :: string where "ZISAUX_COMM_SERVICE_PARM_EYE = ''ZISAUXCM''"
definition ZISAUX_COMM_SERVICE_PARM_VERSION :: nat where "ZISAUX_COMM_SERVICE_PARM_VERSION = 1"
definition ZISAUX_COMM_SERVICE_FUNC_COMMAND :: nat where "ZISAUX_COMM_SERVICE_FUNC_COMMAND = 1"
definition ZISAUX_COMM_SERVICE_FUNC_WORK :: nat where "ZISAUX_COMM_SERVICE_FUNC_WORK = 2"
definition ZISAUX_COMM_SERVICE_FUNC_TERM :: nat where "ZISAUX_COMM_SERVICE_FUNC_TERM = 3"

lemmas aux_flag_defs =
  ZISAUX_HOST_FLAG_READY_def ZISAUX_HOST_FLAG_TERMINATED_def ZISAUX_HOST_FLAG_COMM_PC_ON_def
  ZIS_AUX_FLAG_NONE_def ZIS_AUX_FLAG_REUSASID_NO_def ZIS_AUX_FLAG_COMM_PC_OFF_def

lemmas aux_func_defs =
  ZISAUX_COMM_SERVICE_FUNC_COMMAND_def ZISAUX_COMM_SERVICE_FUNC_WORK_def ZISAUX_COMM_SERVICE_FUNC_TERM_def

type_synonym ecb = "int option"

record ZISAUXCommArea =
  ac_eyecatcher :: string
  ac_flag :: flags
  ac_pcNumber :: "32 word"
  ac_sequenceNumber :: "32 word"
  ac_termECB :: ecb
  ac_stoken :: nat
  ac_ascb :: addr
  ac_parentASID :: nat
  ac_version :: nat
  ac_commECB :: ecb

record ZISAUXCommand =
  xc_routeInfo :: nat
  xc_length :: nat
  xc_text :: string

datatype CMSModifyCommandStatus = STATUS_UNKNOWN | STATUS_CONSUMED | STATUS_PROCESSED | STATUS_REJECTED

record ZISAUXCommandReponse =
  xr_status :: CMSModifyCommandStatus
  xr_length :: nat
  xr_text :: string

text \<open>
  Payload and response are two structures with the same three members: a length, 256 bytes inside and a
  pointer to shared storage. They share one record here, under two names.
\<close>

record ZISAUXRequestData =
  rq_length :: "64 word"
  rq_inlineData :: string
  rq_data :: "addr option"

type_synonym ZISAUXRequestPayload = ZISAUXRequestData
type_synonym ZISAUXRequestResponse = ZISAUXRequestData

record ZISAUXCommServiceParmList =
  cs_eyecatcher :: string
  cs_version :: nat
  cs_function :: nat
  cs_payload :: ZISAUXRequestPayload
  cs_response :: ZISAUXRequestResponse
  cs_auxRC :: rc
  cs_auxRSN :: rc
  cs_traceLevel :: int

definition emptyRequestData :: ZISAUXRequestData where
  "emptyRequestData = \<lparr>rq_length = 0, rq_inlineData = replicate 256 nul, rq_data = None\<rparr>"

section \<open>The manager and its environment\<close>

record 't ZISAUXManager =
  am_eyecatcher :: string
  am_hostSTC :: string
  am_ascbToComm :: "'t option"
  am_nicknameToComm :: "'t option"
  am_managerTCB :: addr
  am_commPool :: int
  am_sharedStorageToken :: nat

text \<open>
  The state: the manager, the communication areas in cells of the pool, the address spaces that run, with
  the area each was started for, and shared storage objects.
\<close>

record 't AuxState =
  as_mgr :: "'t ZISAUXManager"
  as_comm :: "addr \<rightharpoonup> ZISAUXCommArea"
  as_spaces :: "nat \<rightharpoonup> addr"
  as_shared :: "addr \<rightharpoonup> string"

text \<open>
  The environment: hash tables keyed by 64-bit integers; the pool, with the cell it gives; shared storage; address
  spaces, created with a token and an ASCB or refused with a return and a reason code; the current task and
  address space; attributes of \<open>as.h\<close> and the size of its parameter; what lies behind a module name.
\<close>

record 't AuxEnv =
  ax_lhtCreate :: "nat \<Rightarrow> 't option"
  ax_lhtPut :: "'t \<Rightarrow> nat \<Rightarrow> addr \<Rightarrow> 't"
  ax_lhtGet :: "'t \<Rightarrow> nat \<Rightarrow> addr option"
  ax_lhtRemove :: "'t \<Rightarrow> nat \<Rightarrow> 't"
  ax_cellpoolBuild :: "nat \<Rightarrow> nat \<Rightarrow> int"
  ax_cellpoolGet :: "(addr \<rightharpoonup> ZISAUXCommArea) \<Rightarrow> addr option"
  ax_shrToken :: nat
  ax_shrAlloc :: "(addr \<rightharpoonup> string) \<Rightarrow> nat \<Rightarrow> rc + addr"
  ax_shrGetAccess :: "addr \<Rightarrow> rc option"
  ax_shrRelease :: "addr \<Rightarrow> rc option"
  ax_shrReleaseAll :: "rc option"
  ax_asCreate :: "(nat \<rightharpoonup> addr) \<Rightarrow> string \<Rightarrow> string \<Rightarrow> flags \<Rightarrow> rc \<times> rc + nat \<times> addr"
  ax_asTerminate :: "nat \<Rightarrow> rc"
  ax_xmemPost :: "addr \<Rightarrow> rc"
  ax_getTCB :: addr
  ax_asid :: nat
  ax_AS_ATTR_NOSWAP :: flags
  ax_AS_ATTR_REUSASID :: flags
  ax_sizeof_ASParm_data :: nat
  ax_snprintfFails :: bool
  ax_afterModuleName :: string
  ax_encodeCommand :: "ZISAUXCommand \<Rightarrow> string"
  ax_decodeCommand :: "string \<Rightarrow> ZISAUXCommand"
  ax_encodeResponse :: "ZISAUXCommandReponse \<Rightarrow> string"
  ax_decodeResponse :: "string \<Rightarrow> ZISAUXCommandReponse"

definition STOKEN_MAP_BACKBONE :: nat where "STOKEN_MAP_BACKBONE = 257"
definition COMM_POOL_PSPACE :: nat where "COMM_POOL_PSPACE = 16"
definition COMM_POOL_SSPACE :: nat where "COMM_POOL_SSPACE = 4"

definition zisauxMgrInit :: "'t AuxEnv \<Rightarrow> rc \<times> 't ZISAUXManager" where
  "zisauxMgrInit env =
     (let mgr = \<lparr>am_eyecatcher = ZISAUX_MGR_EYECATCHER, am_hostSTC = DEFAULT_HOST_STC, am_ascbToComm = ax_lhtCreate env STOKEN_MAP_BACKBONE,
                 am_nicknameToComm = None, am_managerTCB = ax_getTCB env, am_commPool = 0, am_sharedStorageToken = 0\<rparr>
      in if am_ascbToComm mgr = None then (RC_ZISAUX_ERROR, mgr)
         else case ax_lhtCreate env STOKEN_MAP_BACKBONE of
           None \<Rightarrow> (RC_ZISAUX_ERROR, mgr\<lparr>am_ascbToComm := None\<rparr>)
         | Some t \<Rightarrow>
             (let mgr1 = mgr\<lparr>am_nicknameToComm := Some t, am_commPool := ax_cellpoolBuild env COMM_POOL_PSPACE COMM_POOL_SSPACE\<rparr>
              in if am_commPool mgr1 = - 1
                 then (RC_ZISAUX_CPOOL_ALLOC_FAILED, mgr1\<lparr>am_ascbToComm := None, am_nicknameToComm := None\<rparr>)
                 else (RC_ZISAUX_OK, mgr1\<lparr>am_sharedStorageToken := ax_shrToken env\<rparr>)))"

definition bad_manager :: "'t ZISAUXManager \<Rightarrow> bool" where
  "bad_manager mgr \<longleftrightarrow> am_eyecatcher mgr \<noteq> ZISAUX_MGR_EYECATCHER"

text \<open>The pool goes with all its cells; the hash tables are only forgotten.\<close>

definition zisauxMgrClean :: "'t AuxEnv \<Rightarrow> rc \<Rightarrow> 't AuxState \<Rightarrow> rc \<times> rc \<times> 't AuxState" where
  "zisauxMgrClean env reasonCode st =
     (let mgr = as_mgr st
      in if bad_manager mgr then (RC_ZISAUX_BAD_EYECATCHER, reasonCode, st)
         else let st1 = (if am_commPool mgr \<noteq> 0 then st\<lparr>as_mgr := mgr\<lparr>am_commPool := 0\<rparr>, as_comm := Map.empty\<rparr> else st);
                  st2 = st1\<lparr>as_mgr := (as_mgr st1)\<lparr>am_sharedStorageToken := 0\<rparr>\<rparr>;
                  done = \<lparr>am_eyecatcher = replicate 8 nul, am_hostSTC = replicate 8 nul, am_ascbToComm = None, am_nicknameToComm = None,
                          am_managerTCB = 0, am_commPool = 0, am_sharedStorageToken = 0\<rparr>
              in if am_sharedStorageToken mgr \<noteq> 0
                 then case ax_shrReleaseAll env of
                        Some rsn \<Rightarrow> (RC_ZISAUX_SHR64_ERROR, rsn, st2)
                      | None \<Rightarrow> (RC_ZISAUX_OK, reasonCode, st2\<lparr>as_mgr := done, as_shared := Map.empty\<rparr>)
                 else (RC_ZISAUX_OK, reasonCode, st1\<lparr>as_mgr := done\<rparr>))"

section \<open>Starting and stopping guests\<close>

text \<open>The exit that runs when the host address space has ended.\<close>

definition auxTermExit :: "addr \<Rightarrow> (addr \<rightharpoonup> ZISAUXCommArea) \<Rightarrow> addr \<rightharpoonup> ZISAUXCommArea" where
  "auxTermExit comm areas = (case areas comm of None \<Rightarrow> areas | Some a \<Rightarrow> areas(comm \<mapsto> a\<lparr>ac_termECB := Some 0\<rparr>))"

definition newCommArea :: ZISAUXCommArea where
  "newCommArea =
     \<lparr>ac_eyecatcher = ZISAUX_COMM_EYECATCHER, ac_flag = 0, ac_pcNumber = 0, ac_sequenceNumber = 0, ac_termECB = None, ac_stoken = 0,
      ac_ascb = 0, ac_parentASID = 0, ac_version = ZISAUX_COMM_VERSION, ac_commECB = None\<rparr>"

definition allocCommArea :: "'t AuxEnv \<Rightarrow> 't AuxState \<Rightarrow> addr option \<times> 't AuxState" where
  "allocCommArea env st =
     (case ax_cellpoolGet env (as_comm st) of
        None \<Rightarrow> (None, st)
      | Some a \<Rightarrow> (Some a, st\<lparr>as_comm := (as_comm st)(a \<mapsto> newCommArea)\<rparr>))"

definition freeCommArea :: "addr \<Rightarrow> 't AuxState \<Rightarrow> 't AuxState" where
  "freeCommArea a st = st\<lparr>as_comm := (as_comm st)(a := None)\<rparr>"

definition zisauxMgrSetHostSTC :: "string \<Rightarrow> 't AuxState \<Rightarrow> 't AuxState" where
  "zisauxMgrSetHostSTC hostSTC st = st\<lparr>as_mgr := (as_mgr st)\<lparr>am_hostSTC := hostSTC\<rparr>\<rparr>"

definition makeASCREAttributes :: "'t AuxEnv \<Rightarrow> flags \<Rightarrow> flags" where
  "makeASCREAttributes env auxFlags =
     (if has_flag auxFlags ZIS_AUX_FLAG_REUSASID_NO then ax_AS_ATTR_NOSWAP env else ax_AS_ATTR_NOSWAP env OR ax_AS_ATTR_REUSASID env)"

definition setCommAreaFlags :: "flags \<Rightarrow> ZISAUXCommArea \<Rightarrow> ZISAUXCommArea" where
  "setCommAreaFlags auxFlags commArea =
     (if has_flag auxFlags ZIS_AUX_FLAG_COMM_PC_OFF then commArea\<lparr>ac_flag := ac_flag commArea AND NOT ZISAUX_HOST_FLAG_COMM_PC_ON\<rparr>
      else commArea\<lparr>ac_flag := ac_flag commArea OR ZISAUX_HOST_FLAG_COMM_PC_ON\<rparr>)"

text \<open>
  The parameter of the host: a smiley, the module, the address of the communication area and the guest's
  own parameters. The name of the module is printed up to a NUL, which a name of eight characters does
  not have.
\<close>

definition hostParmText :: "'t AuxEnv \<Rightarrow> string \<Rightarrow> addr \<Rightarrow> string option \<Rightarrow> string" where
  "hostParmText env guestModuleName commArea guestParm =
     '':=),'' @ ZISAUX_HOST_PARM_MOD_KEY @ ''='' @ cstr (guestModuleName @ ax_afterModuleName env) @ '','' @
     ZISAUX_HOST_PARM_COMM_KEY @ ''='' @ hex8 commArea @ '','' @ (case guestParm of None \<Rightarrow> [] | Some p \<Rightarrow> cstr p)"

text \<open>The keys of the hash tables: 64-bit integers with four bytes of zeros in front.\<close>

definition nicknameKey :: "string \<Rightarrow> nat" where
  "nicknameKey nickname = foldl (\<lambda>n c. n * 256 + of_char c) 0 nickname"

definition ascbKey :: "addr \<Rightarrow> nat" where "ascbKey ascb = ascb"

definition lhtPutIn :: "'t AuxEnv \<Rightarrow> nat \<Rightarrow> addr \<Rightarrow> 't option \<Rightarrow> 't option" where
  "lhtPutIn env k a t = map_option (\<lambda>t. ax_lhtPut env t k a) t"

definition zisauxMgrStartGuest2 ::
    "'t AuxEnv \<Rightarrow> string \<Rightarrow> string \<Rightarrow> string option \<Rightarrow> flags \<Rightarrow> rc \<Rightarrow> 't AuxState \<Rightarrow> rc \<times> rc \<times> 't AuxState" where
  "zisauxMgrStartGuest2 env guestNickname guestModuleName guestParm flags reasonCode st =
     (let mgr = as_mgr st
      in if bad_manager mgr then (RC_ZISAUX_BAD_EYECATCHER, reasonCode, st)
         else if ax_getTCB env \<noteq> am_managerTCB mgr then (RC_ZISAUX_NOT_MANAGER_TCB, reasonCode, st)
         else case allocCommArea env st of
           (None, st1) \<Rightarrow> (RC_ZISAUX_COMM_NOT_ALLOCATED, reasonCode, st1)
         | (Some a, st1) \<Rightarrow>
             (let hostParm = take (ax_sizeof_ASParm_data env - 1) (hostParmText env guestModuleName a guestParm)
              in if ax_snprintfFails env then (RC_ZISAUX_PRINT_ERROR, reasonCode, freeCommArea a st1) else case ax_asCreate env (as_spaces st1) (am_hostSTC mgr) hostParm (makeASCREAttributes env flags) of
                   Inl (startRC, startRSN) \<Rightarrow> (RC_ZISAUX_AS_NOT_STARTED, or (push_bit 16 startRC) startRSN, freeCommArea a st1)
                 | Inr (stoken, ascb) \<Rightarrow>
                     (let commArea = setCommAreaFlags flags (newCommArea\<lparr>ac_stoken := stoken, ac_ascb := ascb, ac_parentASID := ax_asid env\<rparr>);
                          mgr1 = mgr\<lparr>am_nicknameToComm := lhtPutIn env (nicknameKey guestNickname) a (am_nicknameToComm mgr),
                                     am_ascbToComm := lhtPutIn env (ascbKey ascb) a (am_ascbToComm mgr)\<rparr>
                      in (RC_ZISAUX_OK, reasonCode,
                          st1\<lparr>as_mgr := mgr1, as_comm := (as_comm st1)(a \<mapsto> commArea), as_spaces := (as_spaces st1)(stoken \<mapsto> a)\<rparr>))))"

definition zisauxMgrStartGuest ::
    "'t AuxEnv \<Rightarrow> string \<Rightarrow> string \<Rightarrow> string option \<Rightarrow> rc \<Rightarrow> 't AuxState \<Rightarrow> rc \<times> rc \<times> 't AuxState" where
  "zisauxMgrStartGuest env guestNickname guestModuleName guestParm reasonCode st =
     zisauxMgrStartGuest2 env guestNickname guestModuleName guestParm ZIS_AUX_FLAG_NONE reasonCode st"

text \<open>The area of a guest by its nickname; there is nothing behind a table that was not made.\<close>

definition getCommArea :: "'t AuxEnv \<Rightarrow> 't AuxState \<Rightarrow> string \<Rightarrow> addr option option" where
  "getCommArea env st guestNickname =
     map_option (\<lambda>t. ax_lhtGet env t (nicknameKey guestNickname)) (am_nicknameToComm (as_mgr st))"

text \<open>
  The area itself: no value for a table or an area that is not there. \<open>found\<close> goes on with it behind the
  eyecatcher check that all functions have.
\<close>

definition found ::
    "'t AuxEnv \<Rightarrow> string \<Rightarrow> (rc \<Rightarrow> 'r) \<Rightarrow> (addr \<Rightarrow> ZISAUXCommArea \<Rightarrow> 'r option) \<Rightarrow> 't AuxState \<Rightarrow> 'r option" where
  "found env guestNickname fail k st =
     (if bad_manager (as_mgr st) then Some (fail RC_ZISAUX_BAD_EYECATCHER)
      else case getCommArea env st guestNickname of
        None \<Rightarrow> None
      | Some None \<Rightarrow> Some (fail RC_ZISAUX_COMM_NOT_FOUND)
      | Some (Some a) \<Rightarrow> (case as_comm st a of None \<Rightarrow> None | Some commArea \<Rightarrow> k a commArea))"

text \<open>
  Stopping a guest. When the termination is accepted the space ends. z/OS runs the exit that was set at the
  creation of the space whenever the space ends, in whatever way, so this is part of the step: the exit posts the area, and
  the wait is over; before that the call does not come back.
\<close>

definition endSpace :: "nat \<Rightarrow> 't AuxState \<Rightarrow> 't AuxState" where
  "endSpace stoken st =
     (case as_spaces st stoken of
        None \<Rightarrow> st
      | Some comm \<Rightarrow> st\<lparr>as_spaces := (as_spaces st)(stoken := None), as_comm := auxTermExit comm (as_comm st)\<rparr>)"

definition zisauxMgrStopGuest :: "'t AuxEnv \<Rightarrow> string \<Rightarrow> 't AuxState \<Rightarrow> (rc \<times> 't AuxState) option" where
  "zisauxMgrStopGuest env guestNickname st =
     found env guestNickname (\<lambda>r. (r, st)) (\<lambda>a commArea.
       if ax_asTerminate env (ac_stoken commArea) \<noteq> 0 then Some (RC_ZISAUX_AS_NOT_STOPPED, st)
       else let st1 = endSpace (ac_stoken commArea) st
            in case as_comm st1 a of
                 None \<Rightarrow> None
               | Some area \<Rightarrow>
                   (if ac_termECB area = None then None
                    else let mgr = as_mgr st1;
                             mgr1 = mgr\<lparr>am_nicknameToComm := map_option (\<lambda>t. ax_lhtRemove env t (nicknameKey guestNickname)) (am_nicknameToComm mgr),
                                        am_ascbToComm := map_option (\<lambda>t. ax_lhtRemove env t (ascbKey (ac_ascb area))) (am_ascbToComm mgr)\<rparr>
                         in Some (RC_ZISAUX_OK, freeCommArea a (st1\<lparr>as_mgr := mgr1\<rparr>)))) st"

definition zisauxMgrWaitForTerm :: "'t AuxEnv \<Rightarrow> string \<Rightarrow> 't AuxState \<Rightarrow> rc option" where
  "zisauxMgrWaitForTerm env guestNickname st =
     found env guestNickname id (\<lambda>a commArea. if ac_termECB commArea = None then None else Some RC_ZISAUX_OK) st"

section \<open>Commands, payloads and responses\<close>

text \<open>
  The result of the check for the length is not returned. The length is kept in one byte: of a longer text, its length modulo 256
  counts, and when that is above 126 too, the text is copied behind the array.
\<close>

definition zisauxMgrInitCommand :: "nat \<Rightarrow> string \<Rightarrow> (rc \<times> ZISAUXCommand) option" where
  "zisauxMgrInitCommand routeInfo commandText =
     (let n = length commandText mod 256
      in if n > 126 then None
         else Some (RC_ZISAUX_OK, \<lparr>xc_routeInfo = routeInfo, xc_length = n, xc_text = space_pad 126 (take n commandText)\<rparr>))"

definition zisauxMgrCleanCommand :: ZISAUXCommand where
  "zisauxMgrCleanCommand = \<lparr>xc_routeInfo = 0, xc_length = 0, xc_text = replicate 126 nul\<rparr>"

text \<open>\<open>memcpy\<close> to the start of a buffer.\<close>

definition overlay :: "string \<Rightarrow> string \<Rightarrow> string" where
  "overlay data buf = data @ drop (length data) buf"

text \<open>
  Storage for request data of a given size, inside or shared. When the shared storage cannot be accessed it is released again; the
  pointer to it stays in the data.
\<close>

definition obtainData ::
    "'t AuxEnv \<Rightarrow> nat \<Rightarrow> 't AuxState \<Rightarrow> rc \<times> ZISAUXRequestData \<times> 't AuxState + ZISAUXRequestData \<times> 't AuxState" where
  "obtainData env n st =
     (if n \<le> 256 then Inr (emptyRequestData, st)
      else case ax_shrAlloc env (as_shared st) n of
        Inl rsn \<Rightarrow> Inl (rsn, emptyRequestData, st)
      | Inr a \<Rightarrow>
          (let p = emptyRequestData\<lparr>rq_data := Some a\<rparr>;
               st1 = st\<lparr>as_shared := (as_shared st)(a \<mapsto> replicate n nul)\<rparr>
           in case ax_shrGetAccess env a of
                None \<Rightarrow> Inr (p, st1)
              | Some rsn \<Rightarrow>
                  (case ax_shrRelease env a of
                     Some rsn' \<Rightarrow> Inl (rsn', p, st1)
                   | None \<Rightarrow> Inl (rsn, p, st1\<lparr>as_shared := (as_shared st1)(a := None)\<rparr>))))"

text \<open>
  \<open>requestData\<close> has the bytes at the address of the data, in the server's own space (\<open>True\<close>) and in the
  secondary space (\<open>False\<close>); \<open>None\<close> where they cannot be fetched. There is no recovery around the fetch.
\<close>

definition zisauxMgrInitRequestPayload ::
    "'t AuxEnv \<Rightarrow> ZISAUXRequestPayload \<Rightarrow> (bool \<Rightarrow> string option) \<Rightarrow> nat \<Rightarrow> bool \<Rightarrow> rc \<Rightarrow> 't AuxState
     \<Rightarrow> (rc \<times> ZISAUXRequestPayload \<times> rc \<times> 't AuxState) option" where
  "zisauxMgrInitRequestPayload env payload requestData requestDataSize isRequestDataLocal reasonCode st =
     (if bad_manager (as_mgr st) then Some (RC_ZISAUX_BAD_EYECATCHER, payload, reasonCode, st)
      else case obtainData env requestDataSize st of
        Inl (rsn, p, st1) \<Rightarrow> Some (RC_ZISAUX_SHR64_ERROR, p, rsn, st1)
      | Inr (p, st1) \<Rightarrow>
          (case requestData isRequestDataLocal of
             None \<Rightarrow> None
           | Some bytes \<Rightarrow>
               (let data = take requestDataSize bytes
                in Some (case rq_data p of
                     None \<Rightarrow> (RC_ZISAUX_OK, p\<lparr>rq_inlineData := overlay data (rq_inlineData p), rq_length := of_nat requestDataSize\<rparr>,
                              reasonCode, st1)
                   | Some a \<Rightarrow> (RC_ZISAUX_OK, p\<lparr>rq_length := of_nat requestDataSize\<rparr>, reasonCode,
                                st1\<lparr>as_shared := (as_shared st1)(a \<mapsto> data)\<rparr>)))))"

definition zisauxMgrInitRequestResponse ::
    "'t AuxEnv \<Rightarrow> ZISAUXRequestResponse \<Rightarrow> nat \<Rightarrow> rc \<Rightarrow> 't AuxState \<Rightarrow> rc \<times> ZISAUXRequestResponse \<times> rc \<times> 't AuxState" where
  "zisauxMgrInitRequestResponse env response bufferSize reasonCode st =
     (if bad_manager (as_mgr st) then (RC_ZISAUX_BAD_EYECATCHER, response, reasonCode, st)
      else case obtainData env bufferSize st of
        Inl (rsn, p, st1) \<Rightarrow> (RC_ZISAUX_SHR64_ERROR, p, rsn, st1)
      | Inr (p, st1) \<Rightarrow> (RC_ZISAUX_OK, p\<lparr>rq_length := of_nat bufferSize\<rparr>, reasonCode, st1))"

text \<open>Both are cleaned alike.\<close>

definition cleanRequestData ::
    "'t AuxEnv \<Rightarrow> ZISAUXRequestData \<Rightarrow> rc \<Rightarrow> 't AuxState \<Rightarrow> rc \<times> ZISAUXRequestData \<times> rc \<times> 't AuxState" where
  "cleanRequestData env p reasonCode st =
     (if bad_manager (as_mgr st) then (RC_ZISAUX_BAD_EYECATCHER, p, reasonCode, st)
      else case rq_data p of
        None \<Rightarrow> (RC_ZISAUX_OK, emptyRequestData, reasonCode, st)
      | Some a \<Rightarrow>
          (case ax_shrRelease env a of
             Some rsn \<Rightarrow> (RC_ZISAUX_SHR64_ERROR, p, rsn, st)
           | None \<Rightarrow> (RC_ZISAUX_OK, emptyRequestData, reasonCode, st\<lparr>as_shared := (as_shared st)(a := None)\<rparr>)))"

definition zisauxMgrCleanRequestPayload ::
    "'t AuxEnv \<Rightarrow> ZISAUXRequestPayload \<Rightarrow> rc \<Rightarrow> 't AuxState \<Rightarrow> rc \<times> ZISAUXRequestPayload \<times> rc \<times> 't AuxState" where
  "zisauxMgrCleanRequestPayload env payload = cleanRequestData env payload"

definition zisauxMgrCleanRequestResponse ::
    "'t AuxEnv \<Rightarrow> ZISAUXRequestResponse \<Rightarrow> rc \<Rightarrow> 't AuxState \<Rightarrow> rc \<times> ZISAUXRequestResponse \<times> rc \<times> 't AuxState" where
  "zisauxMgrCleanRequestResponse env response = cleanRequestData env response"

text \<open>
  The bytes of request data; none are read behind its storage. A response is copied to a destination in
  the server's own space or in the secondary space; \<open>storable\<close> tells for both whether it can be stored to, and
  there is no recovery around the store.
\<close>

definition requestBytes :: "ZISAUXRequestData \<Rightarrow> (addr \<rightharpoonup> string) \<Rightarrow> string option" where
  "requestBytes p shared =
     (let n = unat (rq_length p)
      in case rq_data p of
           None \<Rightarrow> if n \<le> length (rq_inlineData p) then Some (take n (rq_inlineData p)) else None
         | Some a \<Rightarrow> (case shared a of None \<Rightarrow> None | Some s \<Rightarrow> if n \<le> length s then Some (take n s) else None))"

definition zisauxMgrCopyRequestResponseData ::
    "(bool \<Rightarrow> bool) \<Rightarrow> nat \<Rightarrow> bool \<Rightarrow> ZISAUXRequestResponse \<Rightarrow> 't AuxState \<Rightarrow> (rc \<times> string) option" where
  "zisauxMgrCopyRequestResponseData storable destSize isDestLocal response st =
     (if destSize < unat (rq_length response) then Some (RC_ZISAUX_BUFFER_TOO_SMALL, [])
      else case requestBytes response (as_shared st) of
        None \<Rightarrow> None
      | Some s \<Rightarrow> if storable isDestLocal then Some (RC_ZISAUX_OK, s) else None)"

section \<open>Communication with a guest\<close>

text \<open>
  The call of the host's routine by its PC number: it may change the list and the state. The check that
  commands and work share is \<open>readyForPC\<close>.
\<close>

type_synonym 't pcCall = "32 word \<Rightarrow> 32 word \<Rightarrow> ZISAUXCommServiceParmList \<Rightarrow> 't AuxState \<Rightarrow> rc \<times> ZISAUXCommServiceParmList \<times> 't AuxState"

definition newServiceList :: "nat \<Rightarrow> int \<Rightarrow> ZISAUXCommServiceParmList" where
  "newServiceList function traceLevel =
     \<lparr>cs_eyecatcher = ZISAUX_COMM_SERVICE_PARM_EYE, cs_version = ZISAUX_COMM_SERVICE_PARM_VERSION, cs_function = function,
      cs_payload = emptyRequestData, cs_response = emptyRequestData, cs_auxRC = 0, cs_auxRSN = 0, cs_traceLevel = traceLevel\<rparr>"

definition readyForPC :: "ZISAUXCommArea \<Rightarrow> rc" where
  "readyForPC commArea =
     (if \<not> has_flag (ac_flag commArea) ZISAUX_HOST_FLAG_READY then RC_ZISAUX_AUX_NOT_READY
      else if \<not> has_flag (ac_flag commArea) ZISAUX_HOST_FLAG_COMM_PC_ON then RC_ZISAUX_COMM_PC_DISABLED
      else RC_ZISAUX_OK)"

definition zisauxMgrSendTermSignal ::
    "'t AuxEnv \<Rightarrow> 't pcCall \<Rightarrow> string \<Rightarrow> rc \<Rightarrow> int \<Rightarrow> 't AuxState \<Rightarrow> (rc \<times> rc \<times> 't AuxState) option" where
  "zisauxMgrSendTermSignal env pcCallRoutine guestNickname reasonCode traceLevel st =
     found env guestNickname (\<lambda>r. (r, reasonCode, st)) (\<lambda>a commArea.
       if has_flag (ac_flag commArea) ZISAUX_HOST_FLAG_TERMINATED then Some (RC_ZISAUX_AUX_STOPPED, reasonCode, st)
       else if \<not> has_flag (ac_flag commArea) ZISAUX_HOST_FLAG_READY then Some (RC_ZISAUX_AUX_NOT_READY, reasonCode, st)
       else if has_flag (ac_flag commArea) ZISAUX_HOST_FLAG_COMM_PC_ON
       then let (callRC, parmList, st1) = pcCallRoutine (ac_pcNumber commArea) (ac_sequenceNumber commArea)
                                            (newServiceList ZISAUX_COMM_SERVICE_FUNC_TERM traceLevel) st
            in Some (callRC, cs_auxRSN parmList, st1)
       else if ax_xmemPost env (ac_ascb commArea) \<noteq> 0 then Some (RC_ZISAUX_XMEM_POST_FAILED, reasonCode, st)
       else Some (RC_ZISAUX_OK, reasonCode,
                  st\<lparr>as_comm := (as_comm st)(a \<mapsto> commArea\<lparr>ac_commECB := Some ZISAUX_COMM_SIGNAL_TERM\<rparr>)\<rparr>)) st"

text \<open>A command lies over the inline bytes of the payload, the answer over those of the response.\<close>

definition zisauxMgrSendCommand ::
    "'t AuxEnv \<Rightarrow> 't pcCall \<Rightarrow> string \<Rightarrow> ZISAUXCommand \<Rightarrow> ZISAUXCommandReponse \<Rightarrow> rc \<Rightarrow> int \<Rightarrow> 't AuxState
     \<Rightarrow> (rc \<times> ZISAUXCommandReponse \<times> rc \<times> 't AuxState) option" where
  "zisauxMgrSendCommand env pcCallRoutine guestNickname command response reasonCode traceLevel st =
     found env guestNickname (\<lambda>r. (r, response, reasonCode, st)) (\<lambda>a commArea.
       if readyForPC commArea \<noteq> RC_ZISAUX_OK then Some (readyForPC commArea, response, reasonCode, st)
       else if xc_length command > 126 then Some (RC_ZISAUX_COMMAND_TOO_LONG, response, reasonCode, st)
       else let parmList = newServiceList ZISAUX_COMM_SERVICE_FUNC_COMMAND traceLevel;
                pay = (cs_payload parmList)\<lparr>rq_inlineData := overlay (ax_encodeCommand env command) (rq_inlineData (cs_payload parmList))\<rparr>;
                res = (cs_response parmList)\<lparr>rq_inlineData :=
                         overlay (ax_encodeResponse env ((ax_decodeResponse env (rq_inlineData (cs_response parmList)))\<lparr>xr_status := STATUS_UNKNOWN\<rparr>))
                           (rq_inlineData (cs_response parmList))\<rparr>;
                (callRC, parmList1, st1) = pcCallRoutine (ac_pcNumber commArea) (ac_sequenceNumber commArea)
                                             (parmList\<lparr>cs_payload := pay, cs_response := res\<rparr>) st
            in Some (callRC, ax_decodeResponse env (rq_inlineData (cs_response parmList1)), cs_auxRSN parmList1, st1)) st"

definition zisauxMgrSendWork ::
    "'t AuxEnv \<Rightarrow> 't pcCall \<Rightarrow> string \<Rightarrow> ZISAUXRequestData \<Rightarrow> ZISAUXRequestData \<Rightarrow> rc \<Rightarrow> int \<Rightarrow> 't AuxState
     \<Rightarrow> (rc \<times> ZISAUXRequestData \<times> rc \<times> 't AuxState) option" where
  "zisauxMgrSendWork env pcCallRoutine guestNickname requestPayload response reasonCode traceLevel st =
     found env guestNickname (\<lambda>r. (r, response, reasonCode, st)) (\<lambda>a commArea.
       if readyForPC commArea \<noteq> RC_ZISAUX_OK then Some (readyForPC commArea, response, reasonCode, st)
       else let parmList = (newServiceList ZISAUX_COMM_SERVICE_FUNC_WORK traceLevel)\<lparr>cs_payload := requestPayload, cs_response := response\<rparr>;
                (callRC, parmList1, st1) = pcCallRoutine (ac_pcNumber commArea) (ac_sequenceNumber commArea) parmList st
            in Some (callRC, cs_response parmList1, cs_auxRSN parmList1, st1)) st"

section \<open>Facts\<close>

text \<open>The documented behaviour of the hash tables and of the pool.\<close>

definition lht_laws :: "'t AuxEnv \<Rightarrow> bool" where
  "lht_laws env \<longleftrightarrow>
     (\<forall>t k a k'. ax_lhtGet env (ax_lhtPut env t k a) k' = (if k' = k then Some a else ax_lhtGet env t k')) \<and>
     (\<forall>t k k'. ax_lhtGet env (ax_lhtRemove env t k) k' = (if k' = k then None else ax_lhtGet env t k'))"

definition pool_laws :: "'t AuxEnv \<Rightarrow> bool" where
  "pool_laws env \<longleftrightarrow> (\<forall>m a. ax_cellpoolGet env m = Some a \<longrightarrow> m a = None)"

text \<open>The token of a new address space is not the token of any other.\<close>

definition fresh_space :: "'t AuxEnv \<Rightarrow> 't AuxState \<Rightarrow> bool" where
  "fresh_space env st \<longleftrightarrow>
     (\<forall>stc parm attr stoken ascb. ax_asCreate env (as_spaces st) stc parm attr = Inr (stoken, ascb) \<longrightarrow>
        as_spaces st stoken = None \<and> (\<forall>b area. as_comm st b = Some area \<longrightarrow> ac_stoken area \<noteq> stoken))"

text \<open>
  The directory of guests: for every key an area, live, that no other key has, whose space runs or has ended
  with its exit run.
\<close>

definition nickTable :: "'t AuxState \<Rightarrow> 't" where
  "nickTable st = the (am_nicknameToComm (as_mgr st))"

definition area_tracked :: "'t AuxState \<Rightarrow> addr \<Rightarrow> bool" where
  "area_tracked st a \<longleftrightarrow>
     (\<exists>area. as_comm st a = Some area \<and>
        (as_spaces st (ac_stoken area) = Some a \<or> as_spaces st (ac_stoken area) = None \<and> ac_termECB area \<noteq> None))"

definition aux_inv :: "'t AuxEnv \<Rightarrow> 't AuxState \<Rightarrow> bool" where
  "aux_inv env st \<longleftrightarrow>
     \<not> bad_manager (as_mgr st) \<and> am_nicknameToComm (as_mgr st) \<noteq> None \<and> am_ascbToComm (as_mgr st) \<noteq> None \<and>
     (\<forall>k a. ax_lhtGet env (nickTable st) k = Some a \<longrightarrow> area_tracked st a) \<and>
     (\<forall>k k' a. ax_lhtGet env (nickTable st) k = Some a \<longrightarrow> ax_lhtGet env (nickTable st) k' = Some a \<longrightarrow> k = k')"

definition guests :: "'t AuxEnv \<Rightarrow> 't AuxState \<Rightarrow> nat \<rightharpoonup> addr" where
  "guests env st = ax_lhtGet env (nickTable st)"

lemma nicknameKey_Cons: "foldl (\<lambda>n c. n * 256 + of_char c) (k::nat) s = k * 256 ^ length s + nicknameKey s"
proof (induction s arbitrary: k)
  case (Cons c s)
  have "nicknameKey (c # s) = of_char c * 256 ^ length s + nicknameKey s"
    using Cons.IH [of "of_char c"] by (simp add: nicknameKey_def)
  with Cons.IH [of "k * 256 + of_char c"] show ?case by (simp add: algebra_simps)
qed (simp add: nicknameKey_def)

lemma nicknameKey_step: "nicknameKey (c # s) = of_char c * 256 ^ length s + nicknameKey s"
  using nicknameKey_Cons [of "of_char c" s] by (simp add: nicknameKey_def)

lemma nicknameKey_less: "nicknameKey s < 256 ^ length s"
proof (induction s)
  case (Cons c s)
  have "(of_char c :: nat) \<le> 255" using nat_of_char_less_256 [of c] by linarith
  then have "of_char c * 256 ^ length s \<le> 255 * (256::nat) ^ length s" by (rule mult_le_mono1)
  with Cons show ?case unfolding nicknameKey_step length_Cons power_Suc by linarith
qed (simp add: nicknameKey_def)

lemma nicknameKey_inject: "length s = length t \<Longrightarrow> nicknameKey s = nicknameKey t \<longleftrightarrow> s = t"
proof (induction s t rule: list_induct2)
  case (Cons c s d t)
  have "nicknameKey (x # u) div 256 ^ length u = of_char x \<and> nicknameKey (x # u) mod 256 ^ length u = nicknameKey u"
    for x :: char and u
    using nicknameKey_less [of u] by (simp add: nicknameKey_step)
  from this [of c s] this [of d t] Cons show ?case by (metis list.inject of_char_eq_iff)
qed simp

text \<open>Starting a guest, by cases.\<close>

lemma startGuest2_cases:
  assumes "zisauxMgrStartGuest2 env nick modname parm fl rsn st = (r, rsn', st')"
    and "pool_laws env"
  obtains (failed) "r \<noteq> RC_ZISAUX_OK" "st' = st"
  | (started) a stoken ascb area where "r = RC_ZISAUX_OK" "rsn' = rsn" "as_comm st a = None"
      "ax_asCreate env (as_spaces st) (am_hostSTC (as_mgr st))
         (take (ax_sizeof_ASParm_data env - 1) (hostParmText env modname a parm)) (makeASCREAttributes env fl) = Inr (stoken, ascb)"
      "area = setCommAreaFlags fl (newCommArea\<lparr>ac_stoken := stoken, ac_ascb := ascb, ac_parentASID := ax_asid env\<rparr>)"
      "st' = st\<lparr>as_mgr := (as_mgr st)\<lparr>am_nicknameToComm := lhtPutIn env (nicknameKey nick) a (am_nicknameToComm (as_mgr st)),
                                    am_ascbToComm := lhtPutIn env (ascbKey ascb) a (am_ascbToComm (as_mgr st))\<rparr>,
                as_comm := (as_comm st)(a \<mapsto> area), as_spaces := (as_spaces st)(stoken \<mapsto> a)\<rparr>"
proof -
  have restored: "freeCommArea a (st\<lparr>as_comm := (as_comm st)(a \<mapsto> x)\<rparr>) = st" if "ax_cellpoolGet env (as_comm st) = Some a" for a x
  proof -
    have "as_comm st a = None" using that assms(2) by (simp add: pool_laws_def)
    then have "(as_comm st)(a := None) = as_comm st" by (rule fun_upd_idem)
    then show ?thesis by (simp add: freeCommArea_def)
  qed
  show ?thesis
    using assms
    by (auto simp: zisauxMgrStartGuest2_def allocCommArea_def Let_def restored pool_laws_def simp del: One_nat_def
             intro: failed split: if_splits option.splits sum.splits)
       (rule started, auto)
qed

lemma guests_put:
  assumes "lht_laws env" and "am_nicknameToComm (as_mgr st) \<noteq> None"
    and "am_nicknameToComm (as_mgr st') = lhtPutIn env k a (am_nicknameToComm (as_mgr st))"
  shows "guests env st' = (guests env st)(k \<mapsto> a)"
  using assms by (auto simp: guests_def nickTable_def lhtPutIn_def lht_laws_def fun_eq_iff)

lemma guests_remove:
  assumes "lht_laws env" and "am_nicknameToComm (as_mgr st) \<noteq> None"
    and "am_nicknameToComm (as_mgr st') = map_option (\<lambda>t. ax_lhtRemove env t k) (am_nicknameToComm (as_mgr st))"
  shows "guests env st' = (guests env st)(k := None)"
  using assms by (auto simp: guests_def nickTable_def lht_laws_def fun_eq_iff)

lemma aux_inv_guests:
  "aux_inv env st \<longleftrightarrow>
     \<not> bad_manager (as_mgr st) \<and> am_nicknameToComm (as_mgr st) \<noteq> None \<and> am_ascbToComm (as_mgr st) \<noteq> None \<and>
     (\<forall>k a. guests env st k = Some a \<longrightarrow> area_tracked st a) \<and>
     (\<forall>k k' a. guests env st k = Some a \<longrightarrow> guests env st k' = Some a \<longrightarrow> k = k')"
  by (simp add: aux_inv_def guests_def)

lemma area_tracked_live: "area_tracked st a \<Longrightarrow> as_comm st a \<noteq> None"
  by (auto simp: area_tracked_def)

lemma area_tracked_start:
  assumes "area_tracked st b" and "as_comm st a = None" and "\<And>area. as_comm st b = Some area \<Longrightarrow> ac_stoken area \<noteq> stoken"
    and "as_comm st' = (as_comm st)(a \<mapsto> x)" and "as_spaces st' = (as_spaces st)(stoken \<mapsto> a)"
  shows "area_tracked st' b"
  using assms by (auto simp: area_tracked_def)

lemma setCommAreaFlags_frame [simp]:
  "ac_stoken (setCommAreaFlags fl c) = ac_stoken c" "ac_ascb (setCommAreaFlags fl c) = ac_ascb c"
  "ac_termECB (setCommAreaFlags fl c) = ac_termECB c" "ac_parentASID (setCommAreaFlags fl c) = ac_parentASID c"
  by (simp_all add: setCommAreaFlags_def)

lemma startGuest2_inv:
  assumes laws: "lht_laws env" "pool_laws env" and inv: "aux_inv env st" and fresh: "fresh_space env st"
    and start: "zisauxMgrStartGuest2 env nick modname parm fl rsn st = (r, rsn', st')"
  shows "aux_inv env st' \<and>
         (if r = RC_ZISAUX_OK then \<exists>a. as_comm st a = None \<and> guests env st' = (guests env st)(nicknameKey nick \<mapsto> a) else st' = st)"
  using start laws(2)
proof (cases rule: startGuest2_cases)
  case failed
  with inv show ?thesis by simp
next
  case (started a stoken ascb area)
  have g: "guests env st' = (guests env st)(nicknameKey nick \<mapsto> a)"
    using laws inv started by (intro guests_put) (simp_all add: aux_inv_def)
  have new: "as_comm st' = (as_comm st)(a \<mapsto> area)" "as_spaces st' = (as_spaces st)(stoken \<mapsto> a)" using started by simp_all
  have "area_tracked st' a" using started by (simp add: area_tracked_def)
  moreover have "area_tracked st' b" if "area_tracked st b" for b
    using that started(3) _ new
    by (rule area_tracked_start) (use fresh started(4) in \<open>unfold fresh_space_def, blast\<close>)
  moreover have "guests env st k \<noteq> Some a" for k
    using inv started(3) area_tracked_live [of st a] by (auto simp: aux_inv_guests)
  ultimately have "aux_inv env st'"
    using inv started g by (auto simp: aux_inv_guests lhtPutIn_def bad_manager_def split: if_splits)
  with g started show ?thesis by auto
qed

lemma stopGuest_inv:
  assumes laws: "lht_laws env" and inv: "aux_inv env st"
  obtains (failed) r where "r \<noteq> RC_ZISAUX_OK" "zisauxMgrStopGuest env nick st = Some (r, st)"
      "guests env st (nicknameKey nick) = None \<or> (\<exists>stoken. ax_asTerminate env stoken \<noteq> 0)"
  | (stopped) a area st' where "guests env st (nicknameKey nick) = Some a" "as_comm st a = Some area"
      "ax_asTerminate env (ac_stoken area) = 0"
      "zisauxMgrStopGuest env nick st = Some (RC_ZISAUX_OK, st')" "aux_inv env st'"
      "guests env st' = (guests env st)(nicknameKey nick := None)"
      "as_comm st' = (as_comm st)(a := None)" "as_spaces st' = (as_spaces st)(ac_stoken area := None)"
proof (cases "guests env st (nicknameKey nick)")
  case None
  with inv show ?thesis
    by (intro failed [of RC_ZISAUX_COMM_NOT_FOUND])
      (auto simp: zisauxMgrStopGuest_def found_def getCommArea_def aux_inv_def guests_def nickTable_def)
next
  case (Some a)
  with inv have "area_tracked st a" by (auto simp: aux_inv_guests)
  then obtain area where area: "as_comm st a = Some area"
    and alive: "as_spaces st (ac_stoken area) = Some a \<or> as_spaces st (ac_stoken area) = None \<and> ac_termECB area \<noteq> None"
    by (auto simp: area_tracked_def)
  have get: "found env nick f k st = k a area" for f :: "rc \<Rightarrow> 'r" and k
    using inv Some area by (auto simp: found_def getCommArea_def aux_inv_def guests_def nickTable_def)
  show ?thesis
  proof (cases "ax_asTerminate env (ac_stoken area) = 0")
    case False
    then show ?thesis by (intro failed [of RC_ZISAUX_AS_NOT_STOPPED]) (auto simp: zisauxMgrStopGuest_def get)
  next
    case True
    define mgr where "mgr = as_mgr st"
    define st' where "st' = st\<lparr>as_mgr := mgr\<lparr>am_nicknameToComm := map_option (\<lambda>t. ax_lhtRemove env t (nicknameKey nick)) (am_nicknameToComm mgr),
                                am_ascbToComm := map_option (\<lambda>t. ax_lhtRemove env t (ascbKey (ac_ascb area))) (am_ascbToComm mgr)\<rparr>,
                                as_comm := (as_comm st)(a := None), as_spaces := (as_spaces st)(ac_stoken area := None)\<rparr>"
    have call: "zisauxMgrStopGuest env nick st = Some (RC_ZISAUX_OK, st')"
      using True alive area
      by (auto simp: zisauxMgrStopGuest_def get endSpace_def auxTermExit_def Let_def freeCommArea_def st'_def mgr_def fun_upd_idem)
    have g: "guests env st' = (guests env st)(nicknameKey nick := None)"
      using laws inv by (intro guests_remove) (simp_all add: aux_inv_def st'_def mgr_def)
    have kept: "area_tracked st' b" if "guests env st k = Some b" "k \<noteq> nicknameKey nick" for k b
    proof -
      have "b \<noteq> a" using that Some inv by (auto simp: aux_inv_guests)
      moreover have "area_tracked st b" using that inv by (auto simp: aux_inv_guests)
      ultimately show ?thesis using alive by (auto simp: area_tracked_def st'_def)
    qed
    have "aux_inv env st'"
      using inv g kept by (auto simp: aux_inv_guests st'_def mgr_def bad_manager_def split: if_splits)
    with Some area True call g show ?thesis by (intro stopped [of a area st']) (simp_all add: st'_def)
  qed
qed

section \<open>Properties\<close>

text \<open>A concrete environment for the witnesses: hash tables are maps, the pool has one more cell than is in use.\<close>

definition demo_aux :: "(nat \<rightharpoonup> addr) AuxEnv" where
  "demo_aux =
     \<lparr>ax_lhtCreate = (\<lambda>n. Some Map.empty), ax_lhtPut = (\<lambda>t k a. t(k \<mapsto> a)), ax_lhtGet = (\<lambda>t. t), ax_lhtRemove = (\<lambda>t k. t(k := None)),
      ax_cellpoolBuild = (\<lambda>p s. 1), ax_cellpoolGet = (\<lambda>m. find (\<lambda>a. m a = None) [4096, 8192]), ax_shrToken = 7,
      ax_shrAlloc = (\<lambda>m n. Inr 65536), ax_shrGetAccess = (\<lambda>a. None), ax_shrRelease = (\<lambda>a. None), ax_shrReleaseAll = None,
      ax_asCreate = (\<lambda>m stc parm attr. case find (\<lambda>t. m t = None) [11, 12] of Some t \<Rightarrow> Inr (t, 100 + t) | None \<Rightarrow> Inl (8, 1)),
      ax_asTerminate = (\<lambda>t. 0), ax_xmemPost = (\<lambda>a. 0), ax_getTCB = 3, ax_asid = 42, ax_AS_ATTR_NOSWAP = 1, ax_AS_ATTR_REUSASID = 2,
      ax_sizeof_ASParm_data = 128, ax_snprintfFails = False, ax_afterModuleName = [nul],
      ax_encodeCommand = xc_text, ax_decodeCommand = (\<lambda>s. \<lparr>xc_routeInfo = 0, xc_length = 126, xc_text = take 126 s\<rparr>),
      ax_encodeResponse = xr_text, ax_decodeResponse = (\<lambda>s. \<lparr>xr_status = STATUS_UNKNOWN, xr_length = 0, xr_text = s\<rparr>)\<rparr>"

definition demo_aux_state :: "(nat \<rightharpoonup> addr) AuxState" where
  "demo_aux_state = \<lparr>as_mgr = snd (zisauxMgrInit demo_aux), as_comm = Map.empty, as_spaces = Map.empty, as_shared = Map.empty\<rparr>"

lemma demo_aux_laws:
  "lht_laws demo_aux" "pool_laws demo_aux" "aux_inv demo_aux demo_aux_state" "fresh_space demo_aux demo_aux_state"
proof -
  show "lht_laws demo_aux" by (simp add: lht_laws_def demo_aux_def)
  show "pool_laws demo_aux" by (auto simp: pool_laws_def demo_aux_def split: if_splits)
  show "aux_inv demo_aux demo_aux_state"
    by (simp add: aux_inv_def demo_aux_state_def demo_aux_def zisauxMgrInit_def Let_def nickTable_def bad_manager_def)
  show "fresh_space demo_aux demo_aux_state" by (simp add: fresh_space_def demo_aux_state_def)
qed

text \<open>
  C13. The manager keeps a directory of guests, from nicknames to communication areas. A start that reports
  success adds a fresh area under the nickname, one that fails leaves the state as it was; a stop always comes
  back, and takes the nickname away or changes nothing; lookup reads the directory. All keep the invariant that
  each nickname has an area of its own, whose address space runs or has ended.
\<close>

theorem zisauxMgr_directory:
  assumes "lht_laws env" and "pool_laws env" and "aux_inv env st" and "fresh_space env st"
  shows "(\<exists>r rsn' st'. zisauxMgrStartGuest2 env nick modname parm fl rsn st = (r, rsn', st') \<and> aux_inv env st' \<and>
            (if r = RC_ZISAUX_OK then \<exists>a. as_comm st a = None \<and> guests env st' = (guests env st)(nicknameKey nick \<mapsto> a)
             else st' = st)) \<and>
         (\<exists>r st'. zisauxMgrStopGuest env nick st = Some (r, st') \<and> aux_inv env st' \<and>
            (if r = RC_ZISAUX_OK then guests env st' = (guests env st)(nicknameKey nick := None) else st' = st)) \<and>
         getCommArea env st nick = Some (guests env st (nicknameKey nick))"
proof (intro conjI)
  obtain r rsn' st' where "zisauxMgrStartGuest2 env nick modname parm fl rsn st = (r, rsn', st')"
    using prod_cases3 by blast
  with startGuest2_inv [OF assms this]
  show "\<exists>r rsn' st'. zisauxMgrStartGuest2 env nick modname parm fl rsn st = (r, rsn', st') \<and> aux_inv env st' \<and>
            (if r = RC_ZISAUX_OK then \<exists>a. as_comm st a = None \<and> guests env st' = (guests env st)(nicknameKey nick \<mapsto> a)
             else st' = st)" by blast
  show "\<exists>r st'. zisauxMgrStopGuest env nick st = Some (r, st') \<and> aux_inv env st' \<and>
            (if r = RC_ZISAUX_OK then guests env st' = (guests env st)(nicknameKey nick := None) else st' = st)"
    using assms(1,3)
    by (rule stopGuest_inv [where nick = nick]) (use assms(3) in auto)
  show "getCommArea env st nick = Some (guests env st (nicknameKey nick))"
    using assms(3) by (auto simp: aux_inv_def getCommArea_def guests_def nickTable_def)
qed

theorem zisauxMgr_directory_witness:
  "aux_inv demo_aux (snd (snd (zisauxMgrStartGuest2 demo_aux ''ABCD'' ''MODULE01'' None 0 0 demo_aux_state)))"
  using zisauxMgr_directory [OF demo_aux_laws, of "''ABCD''" "''MODULE01''" None 0 0] by auto

text \<open>
  C23. A guest that was started under an unused nickname can be stopped, and then areas, address spaces and
  directory are what they were before the start. It is assumed that the system accepts the termination of the
  guest's address space (a stop that it refuses ends with \<open>RC_ZISAUX_AS_NOT_STOPPED\<close> and changes nothing), that the token of
  a new address space is not in use, that hash tables return what was put into them, that the pool gives out cells that are not in use, and that the manager's invariant holds before the start.
\<close>

theorem zisauxMgr_start_stop:
  assumes "lht_laws env" and "pool_laws env" and "aux_inv env st" and "fresh_space env st"
    and "getCommArea env st nick = Some None"
    and "zisauxMgrStartGuest2 env nick modname parm fl rsn st = (RC_ZISAUX_OK, rsn', st')"
    and "\<forall>stoken. ax_asTerminate env stoken = 0"
  shows "\<exists>st''. zisauxMgrStopGuest env nick st' = Some (RC_ZISAUX_OK, st'') \<and> as_comm st'' = as_comm st \<and>
                as_spaces st'' = as_spaces st \<and> guests env st'' = guests env st"
proof -
  from startGuest2_inv [OF assms(1-4,6)] have inv: "aux_inv env st'" by simp
  have unused: "guests env st (nicknameKey nick) = None"
    using assms(3,5) by (auto simp: aux_inv_def getCommArea_def guests_def nickTable_def)
  from assms(6,2) show ?thesis
  proof (cases rule: startGuest2_cases)
    case (started a stoken ascb area)
    have g: "guests env st' = (guests env st)(nicknameKey nick \<mapsto> a)"
      using assms started by (intro guests_put) (simp_all add: aux_inv_def)
    have free: "as_spaces st stoken = None" using assms(4) started(4) unfolding fresh_space_def by blast
    from assms(1) inv show ?thesis
    proof (cases rule: stopGuest_inv [where nick = nick])
      case (failed r)
      with g assms(7) show ?thesis by simp
    next
      case (stopped b area' st'')
      with g started free unused show ?thesis by (auto simp: fun_upd_idem)
    qed
  qed simp
qed

theorem zisauxMgr_start_stop_witness:
  "\<exists>st''. zisauxMgrStopGuest demo_aux ''ABCD'' (snd (snd (zisauxMgrStartGuest2 demo_aux ''ABCD'' ''MODULE01'' None 0 0 demo_aux_state))) =
     Some (0, st'') \<and> as_comm st'' = Map.empty"
proof -
  have unused: "getCommArea demo_aux demo_aux_state ''ABCD'' = Some None"
    by (simp add: getCommArea_def demo_aux_state_def demo_aux_def zisauxMgrInit_def Let_def)
  have ok: "zisauxMgrStartGuest2 demo_aux ''ABCD'' ''MODULE01'' None 0 0 demo_aux_state =
     (0, 0, snd (snd (zisauxMgrStartGuest2 demo_aux ''ABCD'' ''MODULE01'' None 0 0 demo_aux_state)))"
    by (simp add: zisauxMgrStartGuest2_def demo_aux_state_def demo_aux_def zisauxMgrInit_def Let_def bad_manager_def allocCommArea_def)
  have accepted: "\<forall>stoken. ax_asTerminate demo_aux stoken = 0" by (simp add: demo_aux_def)
  from zisauxMgr_start_stop [OF demo_aux_laws unused ok accepted] show ?thesis by (auto simp: demo_aux_state_def)
qed

text \<open>
  A start does not look for the nickname. When it is in use, the area of the guest that ran under it stays
  allocated and its address space runs on, but no nickname leads to it any more, so that it cannot be stopped.
\<close>

theorem zisauxMgr_restart_orphans:
  assumes "lht_laws env" and "pool_laws env" and "aux_inv env st" and "fresh_space env st"
    and "getCommArea env st nick = Some (Some old)"
    and "zisauxMgrStartGuest2 env nick modname parm fl rsn st = (RC_ZISAUX_OK, rsn', st')"
  shows "as_comm st' old = as_comm st old \<and> area_tracked st' old \<and> (\<forall>nick'. getCommArea env st' nick' \<noteq> Some (Some old))"
proof -
  have old: "guests env st (nicknameKey nick) = Some old"
    using assms(3,5) by (auto simp: aux_inv_def getCommArea_def guests_def nickTable_def)
  with assms(3) have tracked: "area_tracked st old" by (auto simp: aux_inv_guests)
  from assms(6,2) show ?thesis
  proof (cases rule: startGuest2_cases)
    case (started a stoken ascb area)
    have g: "guests env st' = (guests env st)(nicknameKey nick \<mapsto> a)"
      using assms started by (intro guests_put) (simp_all add: aux_inv_def)
    have "old \<noteq> a" using area_tracked_live [OF tracked] started(3) by auto
    moreover have "area_tracked st' old"
      using tracked started(3)
      by (rule area_tracked_start [of _ _ _ stoken])
        (use assms(4) started in \<open>simp_all, unfold fresh_space_def, blast\<close>)
    moreover have "guests env st' k \<noteq> Some old" for k
      using g old \<open>old \<noteq> a\<close> assms(3) by (auto simp: aux_inv_guests split: if_splits)
    ultimately show ?thesis
      using started by (auto simp: getCommArea_def guests_def nickTable_def)
  qed simp
qed

definition demo_started :: "(nat \<rightharpoonup> addr) AuxState" where
  "demo_started = snd (snd (zisauxMgrStartGuest2 demo_aux ''ABCD'' ''MODULE01'' None 0 0 demo_aux_state))"

lemma demo_started_state:
  "as_mgr demo_started = (as_mgr demo_aux_state)\<lparr>am_nicknameToComm := Some [nicknameKey ''ABCD'' \<mapsto> 4096], am_ascbToComm := Some [111 \<mapsto> 4096]\<rparr>"
  "as_comm demo_started = [4096 \<mapsto> newCommArea\<lparr>ac_stoken := 11, ac_ascb := 111, ac_parentASID := 42, ac_flag := 4\<rparr>]"
  "as_spaces demo_started = [11 \<mapsto> 4096]" "as_shared demo_started = Map.empty"
  by (simp_all add: demo_started_def zisauxMgrStartGuest2_def demo_aux_state_def demo_aux_def zisauxMgrInit_def Let_def bad_manager_def
      allocCommArea_def lhtPutIn_def ascbKey_def setCommAreaFlags_def newCommArea_def has_flag_def aux_flag_defs)

lemma demo_started_laws: "aux_inv demo_aux demo_started" "fresh_space demo_aux demo_started"
proof -
  have "zisauxMgrStartGuest2 demo_aux ''ABCD'' ''MODULE01'' None 0 0 demo_aux_state =
     (fst (zisauxMgrStartGuest2 demo_aux ''ABCD'' ''MODULE01'' None 0 0 demo_aux_state),
      fst (snd (zisauxMgrStartGuest2 demo_aux ''ABCD'' ''MODULE01'' None 0 0 demo_aux_state)), demo_started)"
    by (simp add: demo_started_def)
  from startGuest2_inv [OF demo_aux_laws this] show "aux_inv demo_aux demo_started" by simp
  show "fresh_space demo_aux demo_started"
    by (auto simp: fresh_space_def demo_started_state demo_aux_def)
qed

theorem zisauxMgr_restart_orphans_witness:
  "as_comm (snd (snd (zisauxMgrStartGuest2 demo_aux ''ABCD'' ''MODULE01'' None 0 0 demo_started))) 4096 \<noteq> None"
proof -
  have used: "getCommArea demo_aux demo_started ''ABCD'' = Some (Some 4096)"
    by (simp add: getCommArea_def demo_started_state demo_aux_def)
  have ok: "zisauxMgrStartGuest2 demo_aux ''ABCD'' ''MODULE01'' None 0 0 demo_started =
     (0, 0, snd (snd (zisauxMgrStartGuest2 demo_aux ''ABCD'' ''MODULE01'' None 0 0 demo_started)))"
    by (simp add: zisauxMgrStartGuest2_def demo_started_state demo_aux_state_def demo_aux_def zisauxMgrInit_def Let_def bad_manager_def
        allocCommArea_def)
  from zisauxMgr_restart_orphans [OF demo_aux_laws(1,2) demo_started_laws used ok] show ?thesis
    by (simp add: demo_started_state)
qed

lemma obtainData_data:
  "obtainData env n st = Inr (p, st1) \<Longrightarrow>
     (if n \<le> 256 then p = emptyRequestData \<and> st1 = st
      else \<exists>a. ax_shrAlloc env (as_shared st) n = Inr a \<and> p = emptyRequestData\<lparr>rq_data := Some a\<rparr> \<and>
               st1 = st\<lparr>as_shared := (as_shared st)(a \<mapsto> replicate n nul)\<rparr>)"
  by (auto simp: obtainData_def Let_def split: if_splits sum.splits option.splits)

text \<open>What the guest makes of a response: bytes of the length it has, inside or in its shared storage.\<close>

definition guestAnswers :: "string \<Rightarrow> ZISAUXRequestResponse \<Rightarrow> 't AuxState \<Rightarrow> ZISAUXRequestResponse \<times> 't AuxState" where
  "guestAnswers answer q st =
     (case rq_data q of
        None \<Rightarrow> (q\<lparr>rq_inlineData := overlay answer (rq_inlineData q)\<rparr>, st)
      | Some a \<Rightarrow> (q, st\<lparr>as_shared := (as_shared st)(a \<mapsto> answer)\<rparr>))"

definition shared_laws :: "'t AuxEnv \<Rightarrow> bool" where
  "shared_laws env \<longleftrightarrow> (\<forall>m n a. ax_shrAlloc env m n = Inr a \<longrightarrow> m a = None) \<and> (\<forall>a. ax_shrRelease env a = None)"

lemma unat_length64: "n < 2 ^ 64 \<Longrightarrow> unat (of_nat n :: 64 word) = n"
  by (simp add: unat_of_nat)

lemma shared_restored: "shared_laws env \<Longrightarrow> ax_shrAlloc env m n = Inr a \<Longrightarrow> m(a := None) = m"
  by (auto simp: shared_laws_def fun_upd_idem_iff)

lemma payload_data:
  assumes "zisauxMgrInitRequestPayload env payload requestData (length data) isLocal rsn st = Some (RC_ZISAUX_OK, p, rsn', st')"
    and "requestData isLocal = Some data" and "length data < 2 ^ 64" and "shared_laws env"
  shows "requestBytes p (as_shared st') = Some data \<and> (rq_data p = None \<longleftrightarrow> length data \<le> 256) \<and>
         zisauxMgrCleanRequestPayload env p rsn' st' = (RC_ZISAUX_OK, emptyRequestData, rsn', st)"
proof -
  from assms(1,2) obtain q st1 where q: "obtainData env (length data) st = Inr (q, st1)" and mgr: "\<not> bad_manager (as_mgr st)"
    by (auto simp: zisauxMgrInitRequestPayload_def split: if_splits sum.splits)
  show ?thesis
  proof (cases "length data \<le> 256")
    case True
    with obtainData_data [OF q] assms(1,2) q mgr
    have "p = emptyRequestData\<lparr>rq_inlineData := overlay data (replicate 256 nul), rq_length := of_nat (length data)\<rparr>" "st' = st"
      by (auto simp: zisauxMgrInitRequestPayload_def emptyRequestData_def)
    with True unat_length64 [OF assms(3)] mgr show ?thesis
      by (simp add: requestBytes_def zisauxMgrCleanRequestPayload_def cleanRequestData_def emptyRequestData_def overlay_def)
  next
    case False
    with obtainData_data [OF q] obtain a where a: "ax_shrAlloc env (as_shared st) (length data) = Inr a"
      "q = emptyRequestData\<lparr>rq_data := Some a\<rparr>" "st1 = st\<lparr>as_shared := (as_shared st)(a \<mapsto> replicate (length data) nul)\<rparr>" by auto
    with assms(1,2) q mgr have "p = q\<lparr>rq_length := of_nat (length data)\<rparr>" "st' = st\<lparr>as_shared := (as_shared st)(a \<mapsto> data)\<rparr>"
      by (auto simp: zisauxMgrInitRequestPayload_def)
    then show ?thesis
      using False unat_length64 [OF assms(3)] mgr a(2) assms(4) shared_restored [OF assms(4) a(1)]
      by (simp add: requestBytes_def zisauxMgrCleanRequestPayload_def cleanRequestData_def emptyRequestData_def shared_laws_def)
  qed
qed

lemma response_data:
  assumes "zisauxMgrInitRequestResponse env response (length answer) rsn st = (RC_ZISAUX_OK, q, rsn', st')"
    and "guestAnswers answer q st' = (q', st'')" and "length answer < 2 ^ 64" and "shared_laws env" and "storable isLocal"
  shows "zisauxMgrCopyRequestResponseData storable room isLocal q' st'' =
           Some (if room < length answer then (RC_ZISAUX_BUFFER_TOO_SMALL, []) else (RC_ZISAUX_OK, answer)) \<and>
         zisauxMgrCleanRequestResponse env q' rsn' st'' = (RC_ZISAUX_OK, emptyRequestData, rsn', st)"
proof -
  from assms(1) obtain b st1 where b: "obtainData env (length answer) st = Inr (b, st1)" and mgr: "\<not> bad_manager (as_mgr st)"
    and q: "q = b\<lparr>rq_length := of_nat (length answer)\<rparr>" "st' = st1"
    by (auto simp: zisauxMgrInitRequestResponse_def split: if_splits sum.splits)
  show ?thesis
  proof (cases "length answer \<le> 256")
    case True
    with obtainData_data [OF b] q assms(2)
    have "q' = q\<lparr>rq_inlineData := overlay answer (replicate 256 nul)\<rparr>" "st'' = st" "rq_data q = None"
      by (auto simp: guestAnswers_def emptyRequestData_def)
    with True q unat_length64 [OF assms(3)] mgr assms(5) show ?thesis
      by (simp add: zisauxMgrCopyRequestResponseData_def requestBytes_def zisauxMgrCleanRequestResponse_def cleanRequestData_def overlay_def)
  next
    case False
    with obtainData_data [OF b] obtain a where a: "ax_shrAlloc env (as_shared st) (length answer) = Inr a"
      "b = emptyRequestData\<lparr>rq_data := Some a\<rparr>" "st1 = st\<lparr>as_shared := (as_shared st)(a \<mapsto> replicate (length answer) nul)\<rparr>" by auto
    with assms(2) q have "q' = q" "st'' = st\<lparr>as_shared := (as_shared st)(a \<mapsto> answer)\<rparr>"
      by (auto simp: guestAnswers_def)
    then show ?thesis
      using q unat_length64 [OF assms(3)] mgr a(2) assms(4,5) shared_restored [OF assms(4) a(1)]
      by (simp add: zisauxMgrCopyRequestResponseData_def requestBytes_def zisauxMgrCleanRequestResponse_def cleanRequestData_def shared_laws_def)
  qed
qed

text \<open>
  C24. Payloads and responses of any size go inside the list up to 256 bytes and into shared storage above. It is assumed that
  shared storage is allocated where none is in use and that its release succeeds. What a successful
  \<open>zisauxMgrInitRequestPayload\<close> has taken from the request, in the server's space or the secondary one, is in the payload byte for
  byte. A response of a given size, once the guest has filled it, is copied byte for byte by
  \<open>zisauxMgrCopyRequestResponseData\<close> to a destination that can be stored to, or refused when the destination is too small. Cleaning
  either gives back the shared storage.
\<close>

theorem zisauxMgr_request_data:
  assumes "shared_laws env" and "length data < 2 ^ 64" and "length answer < 2 ^ 64"
    and "zisauxMgrInitRequestPayload env payload requestData (length data) isLocal rsn st = Some (RC_ZISAUX_OK, p, rsn', st')"
    and "requestData isLocal = Some data"
    and "zisauxMgrInitRequestResponse env response (length answer) rsn st = (RC_ZISAUX_OK, q, rsn'', st'')"
    and "guestAnswers answer q st'' = (q', st3)" and "storable isDestLocal"
  shows "requestBytes p (as_shared st') = Some data \<and> (rq_data p = None \<longleftrightarrow> length data \<le> 256) \<and>
         zisauxMgrCleanRequestPayload env p rsn' st' = (RC_ZISAUX_OK, emptyRequestData, rsn', st) \<and>
         zisauxMgrCopyRequestResponseData storable room isDestLocal q' st3 =
           Some (if room < length answer then (RC_ZISAUX_BUFFER_TOO_SMALL, []) else (RC_ZISAUX_OK, answer)) \<and>
         zisauxMgrCleanRequestResponse env q' rsn'' st3 = (RC_ZISAUX_OK, emptyRequestData, rsn'', st)"
  using payload_data [OF assms(4,5,2,1)] response_data [OF assms(6,7,3,1), of storable isDestLocal room] assms(8) by blast

theorem zisauxMgr_request_data_witness:
  "\<exists>p. \<exists>st' :: (nat \<rightharpoonup> addr) AuxState. \<exists>q st3. requestBytes p (as_shared st') = Some (replicate 300 CHR ''x'') \<and>
     zisauxMgrCopyRequestResponseData id 300 True q (st3 :: (nat \<rightharpoonup> addr) AuxState) = Some (RC_ZISAUX_OK, replicate 280 CHR ''y'')"
proof -
  define env where "env = demo_aux\<lparr>ax_shrAlloc := (\<lambda>m n. if m 65536 = None then Inr 65536 else Inl 8)\<rparr>"
  have laws: "shared_laws env" by (simp add: shared_laws_def env_def demo_aux_def)
  let ?data = "replicate 300 CHR ''x''" and ?answer = "replicate 280 CHR ''y''"
  obtain p rsn' st' where i: "zisauxMgrInitRequestPayload env emptyRequestData (\<lambda>_. Some ?data) (length ?data) False 0 demo_aux_state = Some (0, p, rsn', st')"
    by (auto simp: zisauxMgrInitRequestPayload_def obtainData_def env_def Let_def demo_aux_def demo_aux_state_def zisauxMgrInit_def Let_def
        bad_manager_def emptyRequestData_def)
  obtain q rsn'' st'' where r: "zisauxMgrInitRequestResponse env emptyRequestData (length ?answer) 0 demo_aux_state = (0, q, rsn'', st'')"
    by (auto simp: zisauxMgrInitRequestResponse_def obtainData_def env_def Let_def demo_aux_def demo_aux_state_def zisauxMgrInit_def Let_def
        bad_manager_def emptyRequestData_def)
  obtain q' st3 where g: "guestAnswers ?answer q st'' = (q', st3)" by fastforce
  have big: "length ?data < 2 ^ 64" "length ?answer < 2 ^ 64" by simp_all
  from zisauxMgr_request_data [OF laws big i refl r g, of id True 300]
  have "requestBytes p (as_shared st') = Some ?data \<and> zisauxMgrCopyRequestResponseData id 300 True q' st3 = Some (RC_ZISAUX_OK, ?answer)"
    by simp
  then show ?thesis by blast
qed

end
