(* ===== verification/AUX_Host.thy ===== *)
theory AUX_Host
  imports AUX_Manager
begin

text \<open>
  The host of an auxiliary address space (src/zis-aux/src/aux-host.c, with the module descriptors of
  aux-guest.c): the PC routine that a server calls, the pause elements it makes its callers wait on, the worker
  tasks that run a request, commands, cancellation, the configuration and the main sequence.

  A call is split where its caller pauses: \<open>scheduleBegin\<close> up to the pause, \<open>scheduleEnd\<close> behind it. Pause
  elements are the slots 0 to 15; the list of a caller that waits is on the caller's stack under its slot, and
  not there any more once the caller has gone on. Pause elements, shared storage, tasks, recovery and the guest
  module are parameters. An operation without a value uses storage that is not there, or stores through NULL.
\<close>

section \<open>Constants\<close>

abbreviation (input) RC_ZISAUX_PC_ENV_NOT_ESTABLISHED :: rc where "RC_ZISAUX_PC_ENV_NOT_ESTABLISHED \<equiv> 17"
abbreviation (input) RC_ZISAUX_PC_ABEND_DETECTED :: rc where "RC_ZISAUX_PC_ABEND_DETECTED \<equiv> 18"
abbreviation (input) RC_ZISAUX_PC_RECOVERY_ENV_FAILED :: rc where "RC_ZISAUX_PC_RECOVERY_ENV_FAILED \<equiv> 19"
abbreviation (input) RC_ZISAUX_PC_ENV_NOT_TERMINATED :: rc where "RC_ZISAUX_PC_ENV_NOT_TERMINATED \<equiv> 20"
abbreviation (input) RC_ZISAUX_PC_PARM_INVALID :: rc where "RC_ZISAUX_PC_PARM_INVALID \<equiv> 21"
abbreviation (input) RC_ZISAUX_COMM_AREA_INVALID :: rc where "RC_ZISAUX_COMM_AREA_INVALID \<equiv> 22"
abbreviation (input) RC_ZISAUX_ALLOC_FAILED :: rc where "RC_ZISAUX_ALLOC_FAILED \<equiv> 23"
abbreviation (input) RC_ZISAUX_COMM_SRVC_PARM_INVALID :: rc where "RC_ZISAUX_COMM_SRVC_PARM_INVALID \<equiv> 24"
abbreviation (input) RC_ZISAUX_UNSUPPORTED_VERSION :: rc where "RC_ZISAUX_UNSUPPORTED_VERSION \<equiv> 25"
abbreviation (input) RC_ZISAUX_REQUEST_LIMIT_REACHED :: rc where "RC_ZISAUX_REQUEST_LIMIT_REACHED \<equiv> 26"
abbreviation (input) RC_ZISAUX_AUX_TERMINATION :: rc where "RC_ZISAUX_AUX_TERMINATION \<equiv> 27"
abbreviation (input) RC_ZISAUX_REQUEST_TCB_ABEND :: rc where "RC_ZISAUX_REQUEST_TCB_ABEND \<equiv> 28"
abbreviation (input) RC_ZISAUX_BAD_PET :: rc where "RC_ZISAUX_BAD_PET \<equiv> 29"
abbreviation (input) RC_ZISAUX_HANDLER_ERROR :: rc where "RC_ZISAUX_HANDLER_ERROR \<equiv> 33"
abbreviation (input) RC_ZISAUX_USER_HANDLER_ERROR :: rc where "RC_ZISAUX_USER_HANDLER_ERROR \<equiv> 34"
abbreviation (input) RC_ZISAUX_BAD_FUNCTION_CODE :: rc where "RC_ZISAUX_BAD_FUNCTION_CODE \<equiv> 35"
abbreviation (input) RC_ZISAUX_HANDLER_NOT_SCHEDULED :: rc where "RC_ZISAUX_HANDLER_NOT_SCHEDULED \<equiv> 36"
abbreviation (input) RC_ZISAUX_HOST_ABENDED :: rc where "RC_ZISAUX_HOST_ABENDED \<equiv> 38"
abbreviation (input) RC_ZISAUX_BAD_CALLER_KEY :: rc where "RC_ZISAUX_BAD_CALLER_KEY \<equiv> 39"
abbreviation (input) RC_ZISAUX_CALLER_NOT_RECOGNIZED :: rc where "RC_ZISAUX_CALLER_NOT_RECOGNIZED \<equiv> 45"
abbreviation (input) RC_ZISAUX_GUEST_OK :: rc where "RC_ZISAUX_GUEST_OK \<equiv> 0"

abbreviation (input) ZISAUX_PE_OK :: int where "ZISAUX_PE_OK \<equiv> 0"
abbreviation (input) ZISAUX_PE_RC_SCHEDULE_ERROR :: int where "ZISAUX_PE_RC_SCHEDULE_ERROR \<equiv> 8"
abbreviation (input) ZISAUX_PE_RC_TERM :: int where "ZISAUX_PE_RC_TERM \<equiv> 9"
abbreviation (input) ZISAUX_PE_RC_CANCEL :: int where "ZISAUX_PE_RC_CANCEL \<equiv> 10"
abbreviation (input) ZISAUX_PE_RC_WORKER_ABEND :: int where "ZISAUX_PE_RC_WORKER_ABEND \<equiv> 11"
abbreviation (input) ZISAUX_PE_RC_ENV_ERROR :: int where "ZISAUX_PE_RC_ENV_ERROR \<equiv> 12"
abbreviation (input) ZISAUX_PE_RC_HOST_ABEND :: int where "ZISAUX_PE_RC_HOST_ABEND \<equiv> 13"

definition ZISAUX_MAX_REQUEST_COUNT :: nat where "ZISAUX_MAX_REQUEST_COUNT = 16"
definition ZISAUX_CALLER_KEY :: nat where "ZISAUX_CALLER_KEY = 4"
definition CROSS_MEMORY_SERVER_KEY_AUX :: nat where "CROSS_MEMORY_SERVER_KEY_AUX = 4"
definition ZISAUX_CONTEXT_EYE :: string where "ZISAUX_CONTEXT_EYE = ''ZISAUXC ''"
definition AUX_PC_PARM_EYECATCHER :: string where "AUX_PC_PARM_EYECATCHER = ''AUXPCPRM''"
definition ZISAUX_HOST_DESCRIPTOR_EYE :: string where "ZISAUX_HOST_DESCRIPTOR_EYE = ''ZISAUXD ''"
definition ZISAUX_CONTEXT_FLAG_TERM_COMMAND_RECEIVED :: flags where "ZISAUX_CONTEXT_FLAG_TERM_COMMAND_RECEIVED = 1"
definition ZISAUX_CONTEXT_FLAG_GUEST_INITIALIZED :: flags where "ZISAUX_CONTEXT_FLAG_GUEST_INITIALIZED = 2"
definition ZISAUX_CONTEXT_FLAG_LEGACY_API :: flags where "ZISAUX_CONTEXT_FLAG_LEGACY_API = 4"

lemmas aux_context_flag_defs =
  ZISAUX_CONTEXT_FLAG_TERM_COMMAND_RECEIVED_def ZISAUX_CONTEXT_FLAG_GUEST_INITIALIZED_def ZISAUX_CONTEXT_FLAG_LEGACY_API_def

section \<open>The guest module\<close>

record CMSModifyCommand =
  mc_routeInfo :: nat
  mc_commandVerb :: string
  mc_args :: "string list"

text \<open>
  The functions of a guest work on its data \<open>'g\<close>, which stands for everything the guest can reach, shared
  storage too. A function without a value has abended.
\<close>

record 'g ZISAUXModuleDescriptor =
  md_eyecatcher :: string
  md_version :: int
  md_moduleVersion :: int
  md_init :: "(int \<Rightarrow> 'g \<Rightarrow> (rc \<times> 'g) option) option"
  md_term :: "(int \<Rightarrow> 'g \<Rightarrow> (rc \<times> 'g) option) option"
  md_handleWork :: "(ZISAUXRequestData \<Rightarrow> ZISAUXRequestData \<Rightarrow> int \<Rightarrow> 'g \<Rightarrow> (rc \<times> ZISAUXRequestData \<times> 'g) option) option"
  md_handleCancel :: "('g \<Rightarrow> 'g) option"
  md_handleCommand ::
    "(ZISAUXCommand \<Rightarrow> CMSModifyCommand \<Rightarrow> ZISAUXCommandReponse \<Rightarrow> int \<Rightarrow> 'g \<Rightarrow> (rc \<times> ZISAUXCommandReponse \<times> 'g) option) option"
  md_moduleData :: 'g

definition zisAUXMakeModuleDescriptor ::
    "bool \<Rightarrow> (int \<Rightarrow> 'g \<Rightarrow> (rc \<times> 'g) option) option \<Rightarrow> (int \<Rightarrow> 'g \<Rightarrow> (rc \<times> 'g) option) option \<Rightarrow> ('g \<Rightarrow> 'g) option
     \<Rightarrow> (ZISAUXCommand \<Rightarrow> CMSModifyCommand \<Rightarrow> ZISAUXCommandReponse \<Rightarrow> int \<Rightarrow> 'g \<Rightarrow> (rc \<times> ZISAUXCommandReponse \<times> 'g) option) option
     \<Rightarrow> (ZISAUXRequestData \<Rightarrow> ZISAUXRequestData \<Rightarrow> int \<Rightarrow> 'g \<Rightarrow> (rc \<times> ZISAUXRequestData \<times> 'g) option) option
     \<Rightarrow> 'g \<Rightarrow> int \<Rightarrow> 'g ZISAUXModuleDescriptor option" where
  "zisAUXMakeModuleDescriptor storage initFunction termFunction handleCancelFunction handleCommandFunction handleWorkFunction moduleData moduleVersion =
     (if \<not> storage then None
      else Some \<lparr>md_eyecatcher = ZISAUX_HOST_DESCRIPTOR_EYE, md_version = 1, md_moduleVersion = moduleVersion, md_init = initFunction,
                 md_term = termFunction, md_handleWork = handleWorkFunction, md_handleCancel = handleCancelFunction,
                 md_handleCommand = handleCommandFunction, md_moduleData = moduleData\<rparr>)"

section \<open>The context and its environment\<close>

datatype LogLevel = LOG_NA | LOG_SEVERE | LOG_WARNING | LOG_INFO | LOG_DEBUG | LOG_DEBUG2 | LOG_DEBUG3

record ('s, 'g) ZISAUXContext =
  hc_eyecatcher :: string
  hc_flags :: flags
  hc_masterCommArea :: "ZISAUXCommArea option"
  hc_availablePETs :: "nat list"
  hc_startRouteInfo :: nat
  hc_termRouteInfo :: nat
  hc_parms :: "'s ZISParmSet"
  hc_userModuleDescriptor :: "'g ZISAUXModuleDescriptor option"

text \<open>
  A pause element token is a slot of the array and the number of the token, which is new after every pause.
  Around the context: the current tokens of the slots; the work elements that are enqueued, as the tokens of their
  callers; the lists on the stacks of the callers that wait; the codes pause elements are released with; the shared objects the address space has access to; the level of the log;
  whether the main loop was told to end.
\<close>

type_synonym PET = "nat \<times> nat"

record ('s, 'g) Host =
  h_ctx :: "('s, 'g) ZISAUXContext"
  h_tokens :: "nat \<Rightarrow> nat"
  h_work :: "PET list"
  h_lists :: "PET \<rightharpoonup> ZISAUXCommServiceParmList"
  h_posted :: "nat \<rightharpoonup> int"
  h_access :: "addr list"
  h_logLevel :: LogLevel
  h_shutdown :: bool

datatype Recovery = RCV_OK | RCV_ABENDED | RCV_FAILED

text \<open>
  The environment. \<open>he_qPick\<close> tells which element a queue gives up first; \<open>he_peTest\<close> the return code of a test of a
  pause element and whether it is paused; the other fields are answers of the services that the code calls.
\<close>

record 's HostEnv =
  he_qPick :: "nat list \<Rightarrow> nat"
  he_peTest :: "nat \<Rightarrow> rc \<times> bool"
  he_peRelease :: "nat \<Rightarrow> rc"
  he_peStale :: rc
  he_shrGetAccess :: "addr \<Rightarrow> rc"
  he_shrRemoveAccess :: "addr \<Rightarrow> rc"
  he_workStorage :: bool
  he_storeAbends :: bool
  he_SASN :: nat
  he_callersKey :: nat
  he_routerOK :: bool
  he_routerRemoved :: bool
  he_pcPush :: Recovery
  he_unsafePush :: bool
  he_asyncTask :: bool
  he_asyncPush :: Recovery
  he_slh :: "'s ShortLivedHeap option"
  he_decodeCommand :: "string \<Rightarrow> ZISAUXCommand"
  he_decodeResponse :: "string \<Rightarrow> ZISAUXCommandReponse"
  he_encodeResponse :: "ZISAUXCommandReponse \<Rightarrow> string"

definition qRemove :: "'s HostEnv \<Rightarrow> nat list \<Rightarrow> nat option \<times> nat list" where
  "qRemove env q = (if q = [] then (None, q) else (Some (he_qPick env q), remove1 (he_qPick env q) q))"

definition qInsert :: "nat \<Rightarrow> nat list \<Rightarrow> nat list" where "qInsert x q = q @ [x]"

definition setAvailable :: "nat list \<Rightarrow> ('s, 'g) Host \<Rightarrow> ('s, 'g) Host" where
  "setAvailable q h = h\<lparr>h_ctx := (h_ctx h)\<lparr>hc_availablePETs := q\<rparr>\<rparr>"

text \<open>A token that is not the current one of its slot is refused.\<close>

definition peRelease :: "'s HostEnv \<Rightarrow> PET \<Rightarrow> int \<Rightarrow> ('s, 'g) Host \<Rightarrow> rc \<times> ('s, 'g) Host" where
  "peRelease env pet releaseCode h =
     (let r = (if snd pet = h_tokens h (fst pet) then he_peRelease env (fst pet) else he_peStale env)
      in if r = 0 then (0, h\<lparr>h_posted := (h_posted h)(fst pet \<mapsto> releaseCode)\<rparr>) else (r, h))"

text \<open>The area is changed in place; before the configuration is read there is none.\<close>

definition updateCommArea :: "(ZISAUXCommArea \<Rightarrow> ZISAUXCommArea) \<Rightarrow> ('s, 'g) Host \<Rightarrow> ('s, 'g) Host option" where
  "updateCommArea f h =
     (case hc_masterCommArea (h_ctx h) of
        None \<Rightarrow> None
      | Some area \<Rightarrow> Some (h\<lparr>h_ctx := (h_ctx h)\<lparr>hc_masterCommArea := Some (f area)\<rparr>\<rparr>))"

definition setReadyFlag :: "bool \<Rightarrow> ('s, 'g) Host \<Rightarrow> ('s, 'g) Host option" where
  "setReadyFlag val = updateCommArea (\<lambda>a. a\<lparr>ac_flag := (if val then set_flag else clear_flag) (ac_flag a) ZISAUX_HOST_FLAG_READY\<rparr>)"

definition setTermFlag :: "bool \<Rightarrow> ('s, 'g) Host \<Rightarrow> ('s, 'g) Host option" where
  "setTermFlag val = updateCommArea (\<lambda>a. a\<lparr>ac_flag := (if val then set_flag else clear_flag) (ac_flag a) ZISAUX_HOST_FLAG_TERMINATED\<rparr>)"

definition setContextFlag :: "flags \<Rightarrow> ('s, 'g) Host \<Rightarrow> ('s, 'g) Host" where
  "setContextFlag f h = h\<lparr>h_ctx := (h_ctx h)\<lparr>hc_flags := set_flag (hc_flags (h_ctx h)) f\<rparr>\<rparr>"

definition isNormalTermination :: "('s, 'g) Host \<Rightarrow> bool" where
  "isNormalTermination h \<longleftrightarrow> has_flag (hc_flags (h_ctx h)) ZISAUX_CONTEXT_FLAG_TERM_COMMAND_RECEIVED"

definition isLegacyAPI :: "('s, 'g) Host \<Rightarrow> bool" where
  "isLegacyAPI h \<longleftrightarrow> has_flag (hc_flags (h_ctx h)) ZISAUX_CONTEXT_FLAG_LEGACY_API"

definition notifyAllPendingCallers :: "'s HostEnv \<Rightarrow> int \<Rightarrow> ('s, 'g) Host \<Rightarrow> ('s, 'g) Host" where
  "notifyAllPendingCallers env releaseCode h = fold (\<lambda>i h. snd (peRelease env (i, h_tokens h i) releaseCode h)) [0..<ZISAUX_MAX_REQUEST_COUNT] h"

text \<open>The data of the guest is behind its descriptor.\<close>

definition setModuleData :: "'g ZISAUXModuleDescriptor \<Rightarrow> 'g \<Rightarrow> ('s, 'g) Host \<Rightarrow> ('s, 'g) Host" where
  "setModuleData d g h = h\<lparr>h_ctx := (h_ctx h)\<lparr>hc_userModuleDescriptor := Some (d\<lparr>md_moduleData := g\<rparr>)\<rparr>\<rparr>"

definition handleCancel :: "'s HostEnv \<Rightarrow> ('s, 'g) Host \<Rightarrow> (rc \<times> ('s, 'g) Host) option" where
  "handleCancel env h =
     (case setReadyFlag False h of
        None \<Rightarrow> None
      | Some h1 \<Rightarrow>
          (case (if has_flag (hc_flags (h_ctx h1)) ZISAUX_CONTEXT_FLAG_GUEST_INITIALIZED
                 then case hc_userModuleDescriptor (h_ctx h1) of
                        None \<Rightarrow> None
                      | Some d \<Rightarrow> (case md_handleCancel d of None \<Rightarrow> Some h1 | Some f \<Rightarrow> Some (setModuleData d (f (md_moduleData d)) h1))
                 else Some h1) of
             None \<Rightarrow> None
           | Some h2 \<Rightarrow> map_option (\<lambda>h. (0, h)) (setTermFlag True (notifyAllPendingCallers env ZISAUX_PE_RC_CANCEL h2))))"

section \<open>The lists of the callers\<close>

record AUXPCParmList =
  px_eyecatcher :: string
  px_latentParmList :: bool
  px_serviceParmList :: "(ZISAUXCommServiceParmList option \<times> ZISAUXCommServiceParmList option) option"

text \<open>
  The routine fetches the caller's list twice, with the caller running beside it: \<open>px_serviceParmList\<close> has what
  the first and what the second fetch finds, \<open>None\<close> for a fetch that abends. The whole pointer may be NULL.
\<close>

definition isAUXPCParmListValid :: "AUXPCParmList \<Rightarrow> bool" where
  "isAUXPCParmListValid parmList \<longleftrightarrow>
     px_eyecatcher parmList = AUX_PC_PARM_EYECATCHER \<and> px_latentParmList parmList \<and> px_serviceParmList parmList \<noteq> None"

definition isAUXContextValid :: "('s, 'g) ZISAUXContext \<Rightarrow> bool" where
  "isAUXContextValid context \<longleftrightarrow> hc_eyecatcher context = ZISAUX_CONTEXT_EYE"

definition isCommServiceParmListValid :: "ZISAUXCommServiceParmList \<Rightarrow> bool" where
  "isCommServiceParmListValid parmList \<longleftrightarrow>
     cs_eyecatcher parmList = ZISAUX_COMM_SERVICE_PARM_EYE \<and>
     (cs_function parmList = ZISAUX_COMM_SERVICE_FUNC_COMMAND \<or> cs_function parmList = ZISAUX_COMM_SERVICE_FUNC_WORK \<or>
      cs_function parmList = ZISAUX_COMM_SERVICE_FUNC_TERM)"

definition getAccess :: "'s HostEnv \<Rightarrow> addr option \<Rightarrow> ('s, 'g) Host \<Rightarrow> rc \<times> ('s, 'g) Host" where
  "getAccess env p h =
     (case p of
        None \<Rightarrow> (RC_ZISAUX_OK, h)
      | Some a \<Rightarrow> if he_shrGetAccess env a = 0 then (RC_ZISAUX_OK, h\<lparr>h_access := a # h_access h\<rparr>) else (RC_ZISAUX_SHR64_ERROR, h))"

definition copyServiceParmList :: "'s HostEnv \<Rightarrow> ZISAUXCommServiceParmList \<Rightarrow> ('s, 'g) Host \<Rightarrow> rc \<times> ('s, 'g) Host" where
  "copyServiceParmList env original h =
     (case getAccess env (rq_data (cs_payload original)) h of
        (r, h1) \<Rightarrow> if r \<noteq> RC_ZISAUX_OK then (r, h1) else getAccess env (rq_data (cs_response original)) h1)"

definition removeAccess :: "'s HostEnv \<Rightarrow> addr option \<Rightarrow> ('s, 'g) Host \<Rightarrow> rc \<times> ('s, 'g) Host" where
  "removeAccess env p h =
     (case p of
        None \<Rightarrow> (RC_ZISAUX_OK, h)
      | Some a \<Rightarrow> if he_shrRemoveAccess env a = 0 then (RC_ZISAUX_OK, h\<lparr>h_access := remove1 a (h_access h)\<rparr>) else (RC_ZISAUX_SHR64_ERROR, h))"

definition cleanServiceParmListCopy :: "'s HostEnv \<Rightarrow> ZISAUXCommServiceParmList \<Rightarrow> ('s, 'g) Host \<Rightarrow> rc \<times> ('s, 'g) Host" where
  "cleanServiceParmListCopy env copy h =
     (let (r1, h1) = removeAccess env (rq_data (cs_payload copy)) h;
          (r2, h2) = removeAccess env (rq_data (cs_response copy)) h1
      in (if r1 \<noteq> RC_ZISAUX_OK then r1 else r2, h2))"

definition isPETValid :: "'s HostEnv \<Rightarrow> nat \<Rightarrow> bool" where
  "isPETValid env pet \<longleftrightarrow> fst (he_peTest env pet) = 0 \<and> \<not> snd (he_peTest env pet)"

section \<open>Scheduling a request\<close>

text \<open>
  Up to the pause. The answer is a return code, with the list given back as it came, or the token the caller now waits
  on. The slot is gone from the queue on every return before the pause. Where no storage is left for the work element
  the list is stored to the caller, which may abend (\<open>he_storeAbends\<close>), before the access is removed.
\<close>

definition makeAUXWorkElement ::
    "'s HostEnv \<Rightarrow> ZISAUXCommServiceParmList \<Rightarrow> PET \<Rightarrow> ('s, 'g) Host \<Rightarrow> ('s, 'g) Host option" where
  "makeAUXWorkElement env copy pet h =
     (if he_workStorage env then Some (h\<lparr>h_work := h_work h @ [pet], h_lists := (h_lists h)(pet \<mapsto> copy)\<rparr>) else None)"

definition scheduleBegin ::
    "'s HostEnv \<Rightarrow> ZISAUXCommServiceParmList \<Rightarrow> ('s, 'g) Host \<Rightarrow> (rc + PET) \<times> ('s, 'g) Host" where
  "scheduleBegin env serviceParmList h =
     (case qRemove env (hc_availablePETs (h_ctx h)) of
        (None, _) \<Rightarrow> (Inl RC_ZISAUX_REQUEST_LIMIT_REACHED, h)
      | (Some requestPET, q) \<Rightarrow>
          (let h1 = setAvailable q h
           in if \<not> isPETValid env requestPET then (Inl RC_ZISAUX_BAD_PET, h1)
              else case copyServiceParmList env serviceParmList h1 of
                (copyRC, h2) \<Rightarrow>
                  if copyRC \<noteq> RC_ZISAUX_OK then (Inl copyRC, h2)
                  else case makeAUXWorkElement env serviceParmList (requestPET, h_tokens h2 requestPET) h2 of
                    None \<Rightarrow>
                      (if he_storeAbends env then (Inl RC_ZISAUX_PC_ABEND_DETECTED, h2)
                       else (Inl RC_ZISAUX_ALLOC_FAILED, snd (cleanServiceParmListCopy env serviceParmList h2)))
                  | Some h3 \<Rightarrow> (Inr (requestPET, h_tokens h2 requestPET), h3)))"

text \<open>The same when the second fetch of the list abends: by then the slot has been taken, and nothing puts it back.\<close>

definition scheduleFetchAbends :: "'s HostEnv \<Rightarrow> ('s, 'g) Host \<Rightarrow> (rc + PET) \<times> ('s, 'g) Host" where
  "scheduleFetchAbends env h =
     (case qRemove env (hc_availablePETs (h_ctx h)) of
        (None, _) \<Rightarrow> (Inl RC_ZISAUX_REQUEST_LIMIT_REACHED, h)
      | (Some requestPET, q) \<Rightarrow>
          (Inl (if \<not> isPETValid env requestPET then RC_ZISAUX_BAD_PET else RC_ZISAUX_PC_ABEND_DETECTED), setAvailable q h))"

definition releaseStatus :: "int \<Rightarrow> rc \<Rightarrow> rc" where
  "releaseStatus releaseCode auxRC =
     (if releaseCode = ZISAUX_PE_OK then auxRC
      else if releaseCode = ZISAUX_PE_RC_TERM then RC_ZISAUX_AUX_TERMINATION
      else if releaseCode = ZISAUX_PE_RC_WORKER_ABEND then RC_ZISAUX_REQUEST_TCB_ABEND
      else if releaseCode = ZISAUX_PE_RC_SCHEDULE_ERROR then RC_ZISAUX_HANDLER_NOT_SCHEDULED
      else if releaseCode = ZISAUX_PE_RC_HOST_ABEND then RC_ZISAUX_HOST_ABENDED
      else RC_ZISAUX_OK)"

text \<open>Behind the pause: the slot, with a new token, is available again and the list is gone with the stack.\<close>

definition leaveSlot :: "PET \<Rightarrow> ('s, 'g) Host \<Rightarrow> ('s, 'g) Host" where
  "leaveSlot pet h =
     h\<lparr>h_lists := (h_lists h)(pet := None), h_posted := (h_posted h)(fst pet := None), h_tokens := (h_tokens h)(fst pet := Suc (snd pet))\<rparr>"

definition scheduleEnd ::
    "'s HostEnv \<Rightarrow> PET \<Rightarrow> int \<Rightarrow> ('s, 'g) Host \<Rightarrow> (rc \<times> ZISAUXCommServiceParmList \<times> ('s, 'g) Host) option" where
  "scheduleEnd env pet releaseCode h =
     (case h_lists h pet of
        None \<Rightarrow> None
      | Some copy \<Rightarrow>
          (let h1 = setAvailable (qInsert (fst pet) (hc_availablePETs (h_ctx h))) (leaveSlot pet h);
               status = releaseStatus releaseCode (cs_auxRC copy);
               (cleanRC, h2) = cleanServiceParmListCopy env copy h1
           in Some (if status \<noteq> RC_ZISAUX_OK then status else cleanRC, copy, h2)))"

text \<open>
  A store of the list to the caller that abends behind the pause: the slot is available again, but the access to
  shared storage stays. A pause that fails abends: the slot is lost and nothing is cleaned.
\<close>

definition storeFailed :: "PET \<Rightarrow> ('s, 'g) Host \<Rightarrow> ('s, 'g) Host" where
  "storeFailed pet h = setAvailable (qInsert (fst pet) (hc_availablePETs (h_ctx h))) (leaveSlot pet h)"

definition pauseFailed :: "PET \<Rightarrow> ('s, 'g) Host \<Rightarrow> ('s, 'g) Host" where
  "pauseFailed pet h = h\<lparr>h_lists := (h_lists h)(pet := None)\<rparr>"

section \<open>The PC routine\<close>

definition isCallerParentServer :: "'s HostEnv \<Rightarrow> ZISAUXCommArea \<Rightarrow> bool" where
  "isCallerParentServer env area \<longleftrightarrow> ac_parentASID area = he_SASN env"

definition handleUnsafePCSS ::
    "'s HostEnv \<Rightarrow> AUXPCParmList \<Rightarrow> ('s, 'g) Host \<Rightarrow> ((rc + PET) \<times> ('s, 'g) Host) option" where
  "handleUnsafePCSS env parmList h =
     (if \<not> isAUXPCParmListValid parmList then Some (Inl RC_ZISAUX_PC_PARM_INVALID, h)
      else if \<not> isAUXContextValid (h_ctx h) then Some (Inl RC_ZISAUX_COMM_AREA_INVALID, h)
      else case hc_masterCommArea (h_ctx h) of
        None \<Rightarrow> None
      | Some area \<Rightarrow>
          if \<not> isCallerParentServer env area then Some (Inl RC_ZISAUX_CALLER_NOT_RECOGNIZED, h)
          else case px_serviceParmList parmList of
            None \<Rightarrow> None
          | Some (None, _) \<Rightarrow> Some (Inl RC_ZISAUX_PC_ABEND_DETECTED, h)
          | Some (Some localServiceParmList, secondFetch) \<Rightarrow>
              if \<not> isCommServiceParmListValid localServiceParmList then Some (Inl RC_ZISAUX_COMM_SRVC_PARM_INVALID, h)
              else if cs_version localServiceParmList > ZISAUX_COMM_SERVICE_PARM_VERSION then Some (Inl RC_ZISAUX_UNSUPPORTED_VERSION, h)
              else case secondFetch of
                None \<Rightarrow> Some (scheduleFetchAbends env h)
              | Some l \<Rightarrow> Some (scheduleBegin env l h))"

text \<open>
  An abend of the routine comes back to the recovery entry of \<open>handleCommunicationPCSS\<close>: the answer is
  \<open>RC_ZISAUX_PC_ABEND_DETECTED\<close> with the state that the abend has left. \<open>he_pcPush\<close> stands for abends before a
  slot is taken. The test behind the removal of the environment replaces an error and keeps a success.\<close>

definition pcReturn :: "'s HostEnv \<Rightarrow> rc \<Rightarrow> rc" where
  "pcReturn env returnCode =
     (if \<not> he_routerRemoved env then (if returnCode \<noteq> RC_ZISAUX_OK then RC_ZISAUX_PC_ENV_NOT_TERMINATED else returnCode) else returnCode)"

definition handleCommunicationPCSS ::
    "'s HostEnv \<Rightarrow> AUXPCParmList \<Rightarrow> ('s, 'g) Host \<Rightarrow> ((rc + PET) \<times> ('s, 'g) Host) option" where
  "handleCommunicationPCSS env parmList h =
     (if he_callersKey env \<noteq> ZISAUX_CALLER_KEY then Some (Inl RC_ZISAUX_BAD_CALLER_KEY, h)
      else if \<not> he_routerOK env then Some (Inl RC_ZISAUX_PC_ENV_NOT_ESTABLISHED, h)
      else case he_pcPush env of
        RCV_ABENDED \<Rightarrow> Some (Inl (pcReturn env RC_ZISAUX_PC_ABEND_DETECTED), h)
      | RCV_FAILED \<Rightarrow> Some (Inl (pcReturn env RC_ZISAUX_PC_RECOVERY_ENV_FAILED), h)
      | RCV_OK \<Rightarrow>
          (case handleUnsafePCSS env parmList h of
             None \<Rightarrow> None
           | Some (Inl r, h1) \<Rightarrow> Some (Inl (pcReturn env r), h1)
           | Some (Inr pet, h1) \<Rightarrow> Some (Inr pet, h1)))"

text \<open>The rest of the call for a caller that was released, whose list could not be stored, or whose pause failed.\<close>

definition pcResume ::
    "'s HostEnv \<Rightarrow> PET \<Rightarrow> int \<Rightarrow> ('s, 'g) Host \<Rightarrow> (rc \<times> ZISAUXCommServiceParmList \<times> ('s, 'g) Host) option" where
  "pcResume env pet releaseCode h = map_option (\<lambda>(r, copy, h1). (pcReturn env r, copy, h1)) (scheduleEnd env pet releaseCode h)"

definition pcStoreFailed :: "'s HostEnv \<Rightarrow> PET \<Rightarrow> ('s, 'g) Host \<Rightarrow> rc \<times> ('s, 'g) Host" where
  "pcStoreFailed env pet h = (pcReturn env RC_ZISAUX_PC_ABEND_DETECTED, storeFailed pet h)"

definition pcPauseFailed :: "'s HostEnv \<Rightarrow> PET \<Rightarrow> ('s, 'g) Host \<Rightarrow> rc \<times> ('s, 'g) Host" where
  "pcPauseFailed env pet h = (pcReturn env RC_ZISAUX_PC_ABEND_DETECTED, pauseFailed pet h)"

section \<open>Calls of the guest\<close>

text \<open>A call behind a recovery routine: nothing when the routine is not there or the function abends.\<close>

definition CALL_UNSAFE_FUNCTION :: "'s HostEnv \<Rightarrow> 'r option \<Rightarrow> 'r option" where
  "CALL_UNSAFE_FUNCTION env call = (if he_unsafePush env then call else None)"

definition callUserModuleInit :: "'s HostEnv \<Rightarrow> int \<Rightarrow> ('s, 'g) Host \<Rightarrow> (rc \<times> ('s, 'g) Host) option" where
  "callUserModuleInit env traceLevel h =
     (case hc_userModuleDescriptor (h_ctx h) of
        None \<Rightarrow> None
      | Some d \<Rightarrow>
          (case md_init d of
             None \<Rightarrow> Some (RC_ZISAUX_OK, setContextFlag ZISAUX_CONTEXT_FLAG_GUEST_INITIALIZED h)
           | Some init \<Rightarrow>
               (case CALL_UNSAFE_FUNCTION env (init traceLevel (md_moduleData d)) of
                  None \<Rightarrow> Some (RC_ZISAUX_ERROR, h)
                | Some (initRC, g) \<Rightarrow>
                    (let h1 = setModuleData d g h
                     in if initRC \<noteq> RC_ZISAUX_GUEST_OK then Some (RC_ZISAUX_ERROR, h1)
                        else Some (RC_ZISAUX_OK, setContextFlag ZISAUX_CONTEXT_FLAG_GUEST_INITIALIZED h1)))))"

definition callUserModuleTerm :: "'s HostEnv \<Rightarrow> int \<Rightarrow> ('s, 'g) Host \<Rightarrow> (rc \<times> ('s, 'g) Host) option" where
  "callUserModuleTerm env traceLevel h =
     (case hc_userModuleDescriptor (h_ctx h) of
        None \<Rightarrow> None
      | Some d \<Rightarrow>
          (case md_term d of
             None \<Rightarrow> Some (RC_ZISAUX_OK, h)
           | Some trm \<Rightarrow>
               (case CALL_UNSAFE_FUNCTION env (trm traceLevel (md_moduleData d)) of
                  None \<Rightarrow> Some (RC_ZISAUX_ERROR, h)
                | Some (termRC, g) \<Rightarrow> Some (if termRC \<noteq> RC_ZISAUX_OK then RC_ZISAUX_ERROR else RC_ZISAUX_OK, setModuleData d g h))))"

text \<open>The return code and the reason code of a handler.\<close>

definition handlerResult :: "rc \<Rightarrow> rc \<times> rc" where
  "handlerResult handlerRC = (if handlerRC \<noteq> RC_ZISAUX_OK then (RC_ZISAUX_USER_HANDLER_ERROR, handlerRC) else (RC_ZISAUX_OK, 0))"

definition callUserModuleCommandHandler ::
    "'s HostEnv \<Rightarrow> ZISAUXCommand \<Rightarrow> CMSModifyCommand \<Rightarrow> ZISAUXCommandReponse \<Rightarrow> int \<Rightarrow> ('s, 'g) Host
     \<Rightarrow> (rc \<times> rc \<times> ZISAUXCommandReponse \<times> ('s, 'g) Host) option" where
  "callUserModuleCommandHandler env rawCommand parsedCommand response traceLevel h =
     (case hc_userModuleDescriptor (h_ctx h) of
        None \<Rightarrow> None
      | Some d \<Rightarrow>
          (case md_handleCommand d of
             None \<Rightarrow> Some (RC_ZISAUX_OK, 0, response, h)
           | Some handleCommand \<Rightarrow>
               (case CALL_UNSAFE_FUNCTION env (handleCommand rawCommand parsedCommand response traceLevel (md_moduleData d)) of
                  None \<Rightarrow> Some (RC_ZISAUX_HANDLER_ERROR, RC_ZISAUX_ERROR, response, h)
                | Some (handleCommandRC, response1, g) \<Rightarrow>
                    (let (r, rsn) = handlerResult handleCommandRC in Some (r, rsn, response1, setModuleData d g h)))))"

definition callUserModuleWorkHandler ::
    "'s HostEnv \<Rightarrow> ZISAUXRequestData \<Rightarrow> ZISAUXRequestData \<Rightarrow> int \<Rightarrow> ('s, 'g) Host
     \<Rightarrow> (rc \<times> rc \<times> ZISAUXRequestData \<times> ('s, 'g) Host) option" where
  "callUserModuleWorkHandler env payload response traceLevel h =
     (case hc_userModuleDescriptor (h_ctx h) of
        None \<Rightarrow> None
      | Some d \<Rightarrow>
          (case md_handleWork d of
             None \<Rightarrow> Some (RC_ZISAUX_OK, 0, response, h)
           | Some handleWork \<Rightarrow>
               (case CALL_UNSAFE_FUNCTION env (handleWork payload response traceLevel (md_moduleData d)) of
                  None \<Rightarrow> Some (RC_ZISAUX_HANDLER_ERROR, RC_ZISAUX_ERROR, response, h)
                | Some (handleWorkRC, response1, g) \<Rightarrow>
                    (let (r, rsn) = handlerResult handleWorkRC in Some (r, rsn, response1, setModuleData d g h)))))"

section \<open>Commands\<close>

datatype AuxMessage =
  CMD_RECEIVED string | CMD_NOT_RECOGNIZED string | CMD_REJECTED string | CMD_TOO_LONG nat | CMD_RESP string | TERM_CMD

definition reportCommandStatus :: "string \<Rightarrow> CMSModifyCommandStatus \<Rightarrow> AuxMessage list" where
  "reportCommandStatus command status =
     (if status = STATUS_UNKNOWN then [CMD_NOT_RECOGNIZED command]
      else if status \<noteq> STATUS_CONSUMED \<and> status \<noteq> STATUS_PROCESSED then [CMD_REJECTED command] else [])"

definition logLevelOf :: "string \<Rightarrow> LogLevel option" where
  "logLevelOf level =
     map_of [(''SEVERE'', LOG_SEVERE), (''WARNING'', LOG_WARNING), (''INFO'', LOG_INFO), (''DEBUG'', LOG_DEBUG), (''DEBUG2'', LOG_DEBUG2),
             (''DEBUG3'', LOG_DEBUG3)] level"

text \<open>There is no return behind the message for a bad level: the level is set and the status overwritten.\<close>

definition handleCommandVerbLog ::
    "CMSModifyCommand \<Rightarrow> ZISAUXCommandReponse \<Rightarrow> ('s, 'g) Host \<Rightarrow> rc \<times> ZISAUXCommandReponse \<times> ('s, 'g) Host" where
  "handleCommandVerbLog parsedCommand response h =
     (if length (mc_args parsedCommand) \<noteq> 2 then (RC_ZISAUX_OK, response\<lparr>xr_status := STATUS_REJECTED\<rparr>, h)
      else if mc_args parsedCommand ! 0 \<noteq> ''STC'' then (RC_ZISAUX_OK, response\<lparr>xr_status := STATUS_REJECTED\<rparr>, h)
      else let (logLevel, response1) =
                 (case logLevelOf (mc_args parsedCommand ! 1) of
                    Some l \<Rightarrow> (l, response)
                  | None \<Rightarrow> (LOG_NA, response\<lparr>xr_status := STATUS_REJECTED\<rparr>))
           in (RC_ZISAUX_OK, response1\<lparr>xr_status := STATUS_CONSUMED\<rparr>, h\<lparr>h_logLevel := logLevel\<rparr>))"

text \<open>A reason code is stored through a pointer, which may be NULL.\<close>

definition handleUserModuleCommand ::
    "'s HostEnv \<Rightarrow> CMSModifyCommand \<Rightarrow> ZISAUXCommand \<Rightarrow> ZISAUXCommandReponse \<Rightarrow> rc option \<Rightarrow> int \<Rightarrow> ('s, 'g) Host
     \<Rightarrow> (rc \<times> ZISAUXCommandReponse \<times> rc option \<times> ('s, 'g) Host) option" where
  "handleUserModuleCommand env parsedCommand rawCommand response reasonCode traceLevel h =
     (case callUserModuleCommandHandler env rawCommand parsedCommand response traceLevel h of
        None \<Rightarrow> None
      | Some (callRC, callRSN, response1, h1) \<Rightarrow>
          (if callRC \<noteq> RC_ZISAUX_OK
           then (case reasonCode of None \<Rightarrow> None | Some _ \<Rightarrow> Some (callRC, response1, Some callRSN, h1))
           else Some (RC_ZISAUX_OK, response1, reasonCode, h1)))"

definition runParsedCommand ::
    "'s HostEnv \<Rightarrow> CMSModifyCommand \<Rightarrow> ZISAUXCommand \<Rightarrow> ZISAUXCommandReponse \<Rightarrow> rc option \<Rightarrow> int \<Rightarrow> ('s, 'g) Host
     \<Rightarrow> (rc \<times> ZISAUXCommandReponse \<times> rc option \<times> ('s, 'g) Host) option" where
  "runParsedCommand env parsedCommand rawCommand response reasonCode traceLevel h =
     (if mc_commandVerb parsedCommand = ''LOG''
      then (case handleCommandVerbLog parsedCommand response h of (r, response1, h1) \<Rightarrow> Some (r, response1, reasonCode, h1))
      else handleUserModuleCommand env parsedCommand rawCommand response reasonCode traceLevel h)"

text \<open>
  The reason code in the end is a local one that nothing sets. The tokens are the characters of the text up to the
  command's length, which has to be inside the text; without a command handler of the guest no command is
  recognised, \<open>LOG\<close> neither.
\<close>

definition handleAUXCommand ::
    "'s HostEnv \<Rightarrow> ZISAUXCommand \<Rightarrow> ZISAUXCommandReponse \<Rightarrow> rc option \<Rightarrow> int \<Rightarrow> ('s, 'g) Host
     \<Rightarrow> (rc \<times> ZISAUXCommandReponse \<times> rc option \<times> ('s, 'g) Host) option" where
  "handleAUXCommand env rawCommand response reasonCode traceLevel h =
     (let response0 = response\<lparr>xr_status := STATUS_UNKNOWN\<rparr>
      in case he_slh env of
           None \<Rightarrow> Some (RC_ZISAUX_ALLOC_FAILED, response0, reasonCode, h)
         | Some slh \<Rightarrow>
             (if xc_length rawCommand > length (xc_text rawCommand) then None
              else case auxutilTokenizeString slh (xc_text rawCommand) (xc_length rawCommand) CHR '' '' of
                None \<Rightarrow> None
              | Some (tokens, _) \<Rightarrow>
                  (case (case tokens of
                           None \<Rightarrow> Some (RC_ZISAUX_OK, response0, reasonCode, h)
                         | Some toks \<Rightarrow>
                             (case hc_userModuleDescriptor (h_ctx h) of
                                None \<Rightarrow> None
                              | Some d \<Rightarrow>
                                  (if toks \<noteq> [] \<and> md_handleCommand d \<noteq> None
                                   then runParsedCommand env
                                          \<lparr>mc_routeInfo = xc_routeInfo rawCommand, mc_commandVerb = List.hd toks, mc_args = tl toks\<rparr>
                                          rawCommand response0 reasonCode traceLevel h
                                   else Some (RC_ZISAUX_OK, response0, reasonCode, h)))) of
                     None \<Rightarrow> None
                   | Some (r, response1, reason1, h1) \<Rightarrow>
                       Some (r, response1, (case reason1 of None \<Rightarrow> None | Some _ \<Rightarrow> Some 0), h1))))"

datatype STCConsoleCommandType = STC_COMMAND_MODIFY | STC_COMMAND_START | STC_COMMAND_STOP | STC_COMMAND_OTHER

definition handleModifyCommand ::
    "'s HostEnv \<Rightarrow> nat \<Rightarrow> STCConsoleCommandType \<Rightarrow> string \<Rightarrow> int \<Rightarrow> ('s, 'g) Host \<Rightarrow> (rc \<times> AuxMessage list \<times> ('s, 'g) Host) option" where
  "handleModifyCommand env routeInfo commandType command traceLevel h =
     (if length command > 126 then Some (8, [CMD_TOO_LONG (length command)], h)
      else case commandType of
        STC_COMMAND_MODIFY \<Rightarrow>
          (let auxCommand = \<lparr>xc_routeInfo = routeInfo, xc_length = length command, xc_text = overlay command (replicate 126 nul)\<rparr>
           in case handleAUXCommand env auxCommand \<lparr>xr_status = STATUS_UNKNOWN, xr_length = 0, xr_text = []\<rparr> None traceLevel h of
                None \<Rightarrow> None
              | Some (_, response, _, h1) \<Rightarrow>
                  Some (0, [CMD_RECEIVED command] @ (if xr_length response > 0 then [CMD_RESP (take (xr_length response) (xr_text response))] else []) @
                           reportCommandStatus command (xr_status response), h1))
      | STC_COMMAND_START \<Rightarrow> Some (0, [], h\<lparr>h_ctx := (h_ctx h)\<lparr>hc_startRouteInfo := routeInfo\<rparr>\<rparr>)
      | STC_COMMAND_STOP \<Rightarrow>
          Some (0, [TERM_CMD],
                setContextFlag ZISAUX_CONTEXT_FLAG_TERM_COMMAND_RECEIVED (h\<lparr>h_ctx := (h_ctx h)\<lparr>hc_termRouteInfo := routeInfo\<rparr>\<rparr>))
      | STC_COMMAND_OTHER \<Rightarrow> Some (0, [], h))"

section \<open>Requests in the worker\<close>

definition handleCommandRequest ::
    "'s HostEnv \<Rightarrow> ZISAUXCommServiceParmList \<Rightarrow> ('s, 'g) Host \<Rightarrow> (ZISAUXCommServiceParmList \<times> ('s, 'g) Host) option" where
  "handleCommandRequest env parmList h =
     (case handleAUXCommand env (he_decodeCommand env (rq_inlineData (cs_payload parmList)))
             (he_decodeResponse env (rq_inlineData (cs_response parmList))) (Some (cs_auxRSN parmList)) (cs_traceLevel parmList) h of
        None \<Rightarrow> None
      | Some (r, response, rsn, h1) \<Rightarrow>
          Some (parmList\<lparr>cs_response := (cs_response parmList)\<lparr>rq_inlineData :=
                                          overlay (he_encodeResponse env response) (rq_inlineData (cs_response parmList))\<rparr>,
                         cs_auxRC := r, cs_auxRSN := (case rsn of None \<Rightarrow> cs_auxRSN parmList | Some x \<Rightarrow> x)\<rparr>, h1))"

definition handleWorkRequest ::
    "'s HostEnv \<Rightarrow> ZISAUXCommServiceParmList \<Rightarrow> ('s, 'g) Host \<Rightarrow> (ZISAUXCommServiceParmList \<times> ('s, 'g) Host) option" where
  "handleWorkRequest env parmList h =
     (case callUserModuleWorkHandler env (cs_payload parmList) (cs_response parmList) (cs_traceLevel parmList) h of
        None \<Rightarrow> None
      | Some (r, rsn, response, h1) \<Rightarrow> Some (parmList\<lparr>cs_response := response, cs_auxRC := r, cs_auxRSN := rsn\<rparr>, h1))"

definition terminateAUX :: "('s, 'g) Host \<Rightarrow> ('s, 'g) Host option" where
  "terminateAUX h =
     (if isLegacyAPI h then Some ((setContextFlag ZISAUX_CONTEXT_FLAG_TERM_COMMAND_RECEIVED h)\<lparr>h_shutdown := True\<rparr>)
      else updateCommArea (\<lambda>a. a\<lparr>ac_commECB := Some ZISAUX_COMM_SIGNAL_TERM\<rparr>) h)"

definition handleTermRequest ::
    "ZISAUXCommServiceParmList \<Rightarrow> ('s, 'g) Host \<Rightarrow> (ZISAUXCommServiceParmList \<times> ('s, 'g) Host) option" where
  "handleTermRequest parmList h = map_option (\<lambda>h1. (parmList\<lparr>cs_auxRC := RC_ZISAUX_OK\<rparr>, h1)) (terminateAUX h)"

definition handleUknownRequest :: "ZISAUXCommServiceParmList \<Rightarrow> ZISAUXCommServiceParmList" where
  "handleUknownRequest parmList = parmList\<lparr>cs_auxRC := RC_ZISAUX_BAD_FUNCTION_CODE, cs_auxRSN := int (cs_function parmList)\<rparr>"

definition dispatchRequest ::
    "'s HostEnv \<Rightarrow> ZISAUXCommServiceParmList \<Rightarrow> ('s, 'g) Host \<Rightarrow> (ZISAUXCommServiceParmList \<times> ('s, 'g) Host) option" where
  "dispatchRequest env parmList h =
     (if cs_function parmList = ZISAUX_COMM_SERVICE_FUNC_COMMAND then handleCommandRequest env parmList h
      else if cs_function parmList = ZISAUX_COMM_SERVICE_FUNC_WORK then handleWorkRequest env parmList h
      else if cs_function parmList = ZISAUX_COMM_SERVICE_FUNC_TERM then handleTermRequest parmList h
      else Some (handleUknownRequest parmList, h))"

text \<open>
  The request of a caller: it works on the list on the caller's stack, then releases the caller, and cleans the
  list when that fails.
\<close>

definition zeroedList :: ZISAUXCommServiceParmList where
  "zeroedList =
     \<lparr>cs_eyecatcher = replicate 8 nul, cs_version = 0, cs_function = 0, cs_payload = emptyRequestData, cs_response = emptyRequestData,
      cs_auxRC = 0, cs_auxRSN = 0, cs_traceLevel = 0\<rparr>"

definition handleCommRequest :: "'s HostEnv \<Rightarrow> PET \<Rightarrow> ('s, 'g) Host \<Rightarrow> ('s, 'g) Host option" where
  "handleCommRequest env pet h =
     (case h_lists h pet of
        None \<Rightarrow> None
      | Some parmList \<Rightarrow>
          (case dispatchRequest env parmList h of
             None \<Rightarrow> None
           | Some (parmList1, h1) \<Rightarrow>
               (case peRelease env pet ZISAUX_PE_OK (h1\<lparr>h_lists := (h_lists h1)(pet \<mapsto> parmList1)\<rparr>) of
                  (releaseRC, h2) \<Rightarrow>
                    if releaseRC \<noteq> 0
                    then let (_, h3) = cleanServiceParmListCopy env parmList1 h2 in Some (h3\<lparr>h_lists := (h_lists h3)(pet \<mapsto> zeroedList)\<rparr>)
                    else Some h2)))"

definition asyncRequestHanler :: "'s HostEnv \<Rightarrow> PET \<Rightarrow> ('s, 'g) Host \<Rightarrow> ('s, 'g) Host option" where
  "asyncRequestHanler env pet h =
     (case he_asyncPush env of
        RCV_OK \<Rightarrow> handleCommRequest env pet h
      | RCV_ABENDED \<Rightarrow> Some (snd (peRelease env pet ZISAUX_PE_RC_WORKER_ABEND h))
      | RCV_FAILED \<Rightarrow> Some (snd (peRelease env pet ZISAUX_PE_RC_ENV_ERROR h)))"

definition workElementHandler :: "'s HostEnv \<Rightarrow> PET \<Rightarrow> ('s, 'g) Host \<Rightarrow> (rc \<times> ('s, 'g) Host) option" where
  "workElementHandler env pet h =
     (if \<not> he_asyncTask env then Some (8, snd (peRelease env pet ZISAUX_PE_RC_SCHEDULE_ERROR h))
      else map_option (\<lambda>h1. (0, h1)) (asyncRequestHanler env pet h))"

section \<open>The communication task\<close>

definition isCommunicationPCEnabled :: "('s, 'g) Host \<Rightarrow> bool option" where
  "isCommunicationPCEnabled h =
     (if isLegacyAPI h then Some True else map_option (\<lambda>a. has_flag (ac_flag a) ZISAUX_HOST_FLAG_COMM_PC_ON) (hc_masterCommArea (h_ctx h)))"

text \<open>No value while the block of the area is not posted.\<close>

definition commTaskMain :: "('s, 'g) Host \<Rightarrow> ('s, 'g) Host option" where
  "commTaskMain h =
     (case hc_masterCommArea (h_ctx h) of
        None \<Rightarrow> None
      | Some area \<Rightarrow>
          (if ac_commECB area = None then None
           else map_option (\<lambda>h1. (setContextFlag ZISAUX_CONTEXT_FLAG_TERM_COMMAND_RECEIVED h1)\<lparr>h_shutdown := True\<rparr>)
                  (updateCommArea (\<lambda>a. a\<lparr>ac_commECB := None\<rparr>) h)))"

section \<open>Steps of the host\<close>

text \<open>
  Calls, worker tasks, callers that go on, cancellation, operator commands and the communication task come in any
  order, each with its own answers of the environment. A queue gives up one of its elements.
\<close>

definition queue_law :: "'s HostEnv \<Rightarrow> bool" where
  "queue_law env \<longleftrightarrow> (\<forall>q. q \<noteq> [] \<longrightarrow> he_qPick env q \<in> set q)"

definition dequeueWork :: "PET \<Rightarrow> ('s, 'g) Host \<Rightarrow> ('s, 'g) Host" where
  "dequeueWork pet h = h\<lparr>h_work := remove1 pet (h_work h)\<rparr>"

inductive aux_step :: "('s, 'g) Host \<Rightarrow> ('s, 'g) Host \<Rightarrow> bool" where
  call: "queue_law env \<Longrightarrow> handleCommunicationPCSS env parmList h = Some (r, h') \<Longrightarrow> aux_step h h'"
| work: "pet \<in> set (h_work h) \<Longrightarrow> workElementHandler env pet (dequeueWork pet h) = Some (r, h') \<Longrightarrow> aux_step h h'"
| resume: "h_posted h (fst pet) = Some releaseCode \<Longrightarrow> pcResume env pet releaseCode h = Some (r, copy, h') \<Longrightarrow> aux_step h h'"
| store_failed: "h_lists h pet \<noteq> None \<Longrightarrow> pcStoreFailed env pet h = (r, h') \<Longrightarrow> aux_step h h'"
| pause_failed: "h_lists h pet \<noteq> None \<Longrightarrow> pcPauseFailed env pet h = (r, h') \<Longrightarrow> aux_step h h'"
| cancel: "handleCancel env h = Some (r, h') \<Longrightarrow> aux_step h h'"
| modify: "handleModifyCommand env routeInfo commandType command traceLevel h = Some (r, msgs, h') \<Longrightarrow> aux_step h h'"
| comm: "commTaskMain h = Some h' \<Longrightarrow> aux_step h h'"

inductive_cases aux_stepE: "aux_step h h'"

text \<open>
  Ownership of the slots: a slot is available, or one caller waits on it with its current token, or it is lost.
\<close>

definition pet_inv :: "('s, 'g) Host \<Rightarrow> bool" where
  "pet_inv h \<longleftrightarrow>
     distinct (hc_availablePETs (h_ctx h)) \<and> set (hc_availablePETs (h_ctx h)) \<subseteq> {..<ZISAUX_MAX_REQUEST_COUNT} \<and>
     (\<forall>pet \<in> dom (h_lists h).
        fst pet < ZISAUX_MAX_REQUEST_COUNT \<and> fst pet \<notin> set (hc_availablePETs (h_ctx h)) \<and> snd pet = h_tokens h (fst pet))"

text \<open>Most operations touch none of this; a worker may change a list in place.\<close>

definition same_pets :: "('s, 'g) Host \<Rightarrow> ('s, 'g) Host \<Rightarrow> bool" where
  "same_pets h h' \<longleftrightarrow>
     hc_availablePETs (h_ctx h') = hc_availablePETs (h_ctx h) \<and> h_tokens h' = h_tokens h \<and> dom (h_lists h') = dom (h_lists h)"

named_theorems pet_frames \<open>operations that leave the slots alone\<close>

lemma same_pets_refl [pet_frames, simp]: "same_pets h h"
  by (simp add: same_pets_def)

lemma same_pets_trans [trans]: "same_pets h1 h2 \<Longrightarrow> same_pets h2 h3 \<Longrightarrow> same_pets h1 h3"
  by (simp add: same_pets_def)

lemma same_pets_inv: "same_pets h h' \<Longrightarrow> pet_inv h \<Longrightarrow> pet_inv h'"
  by (simp add: same_pets_def pet_inv_def)

lemma peRelease_same [pet_frames]: "peRelease env pet c h = (r, h') \<Longrightarrow> same_pets h h'"
  by (auto simp: peRelease_def same_pets_def Let_def split: if_splits)

lemma peRelease_same_snd [pet_frames]: "same_pets h (snd (peRelease env pet c h))"
  by (metis peRelease_same prod.collapse)

lemma setModuleData_same [pet_frames]: "same_pets h (setModuleData d g h)"
  by (simp add: setModuleData_def same_pets_def)

lemma setContextFlag_same [pet_frames]: "same_pets h (setContextFlag f h)"
  by (simp add: setContextFlag_def same_pets_def)

lemma updateCommArea_same [pet_frames]: "updateCommArea f h = Some h' \<Longrightarrow> same_pets h h'"
  by (auto simp: updateCommArea_def same_pets_def split: option.splits)

lemma notifyAll_same [pet_frames]: "same_pets h (notifyAllPendingCallers env c h)"
proof -
  have "same_pets h (fold (\<lambda>i h. snd (peRelease env (i, h_tokens h i) c h)) is h)" for "is"
    by (induction "is" arbitrary: h) (auto intro: pet_frames same_pets_trans)
  then show ?thesis by (simp add: notifyAllPendingCallers_def)
qed

lemma access_same [pet_frames]: "getAccess env p h = (r, h') \<Longrightarrow> same_pets h h'" "removeAccess env p h = (r, h') \<Longrightarrow> same_pets h h'"
  by (auto simp: getAccess_def removeAccess_def same_pets_def split: option.splits if_splits)

lemma copyServiceParmList_same [pet_frames]: "copyServiceParmList env l h = (r, h') \<Longrightarrow> same_pets h h'"
  by (auto simp: copyServiceParmList_def intro: pet_frames same_pets_trans split: prod.splits if_splits)

lemma cleanServiceParmListCopy_same [pet_frames]: "cleanServiceParmListCopy env l h = (r, h') \<Longrightarrow> same_pets h h'"
  by (auto simp: cleanServiceParmListCopy_def Let_def intro: pet_frames same_pets_trans split: prod.splits)

lemma flags_same [pet_frames]: "setReadyFlag v h = Some h' \<Longrightarrow> same_pets h h'" "setTermFlag v h = Some h' \<Longrightarrow> same_pets h h'"
  unfolding setReadyFlag_def setTermFlag_def by (blast intro: updateCommArea_same)+

lemma handleCancel_parts:
  assumes "handleCancel env h = Some (r, h')"
  obtains h1 h2 where "setReadyFlag False h = Some h1" "h2 = h1 \<or> (\<exists>d g. h2 = setModuleData d g h1)"
    "setTermFlag True (notifyAllPendingCallers env ZISAUX_PE_RC_CANCEL h2) = Some h'" "r = 0"
  using assms by (auto simp: handleCancel_def split: option.splits if_splits)

lemma handleCancel_same [pet_frames]:
  assumes "handleCancel env h = Some (r, h')"
  shows "same_pets h h'"
  using assms
proof (rule handleCancel_parts)
  fix h1 h2
  assume "setReadyFlag False h = Some h1" and h2: "h2 = h1 \<or> (\<exists>d g. h2 = setModuleData d g h1)"
    and t: "setTermFlag True (notifyAllPendingCallers env ZISAUX_PE_RC_CANCEL h2) = Some h'"
  then have "same_pets h h1" by (intro flags_same)
  also from h2 have "same_pets h1 h2" by (auto intro: pet_frames)
  also have "same_pets h2 (notifyAllPendingCallers env ZISAUX_PE_RC_CANCEL h2)" by (rule notifyAll_same)
  also from t have "same_pets \<dots> h'" by (intro flags_same)
  finally show ?thesis .
qed

lemma commandHandler_same [pet_frames]:
  "callUserModuleCommandHandler env raw p resp t h = Some (r, rsn, resp', h') \<Longrightarrow> same_pets h h'"
  by (auto simp: callUserModuleCommandHandler_def Let_def intro: pet_frames split: option.splits prod.splits)

lemma workHandler_same [pet_frames]: "callUserModuleWorkHandler env p resp t h = Some (r, rsn, resp', h') \<Longrightarrow> same_pets h h'"
  by (auto simp: callUserModuleWorkHandler_def Let_def intro: pet_frames split: option.splits prod.splits)

lemma verbLog_same [pet_frames]: "handleCommandVerbLog p resp h = (r, resp', h') \<Longrightarrow> same_pets h h'"
  by (auto simp: handleCommandVerbLog_def Let_def same_pets_def split: option.splits prod.splits if_splits)

lemma runParsedCommand_same [pet_frames]:
  "runParsedCommand env p raw resp rsn t h = Some (r, resp', rsn', h') \<Longrightarrow> same_pets h h'"
  by (auto simp: runParsedCommand_def handleUserModuleCommand_def intro: pet_frames split: option.splits prod.splits if_splits)

lemma handleAUXCommand_same [pet_frames]: "handleAUXCommand env raw resp rsn t h = Some (r, resp', rsn', h') \<Longrightarrow> same_pets h h'"
  by (auto simp: handleAUXCommand_def Let_def intro: pet_frames split: option.splits prod.splits if_splits)

lemma setShutdown_same [pet_frames]: "same_pets h h' \<Longrightarrow> same_pets h (h'\<lparr>h_shutdown := b\<rparr>)"
  by (simp add: same_pets_def)

lemma terminateAUX_same [pet_frames]: "terminateAUX h = Some h' \<Longrightarrow> same_pets h h'"
  by (auto simp: terminateAUX_def intro: pet_frames split: if_splits)

lemma dispatchRequest_same [pet_frames]: "dispatchRequest env l h = Some (l', h') \<Longrightarrow> same_pets h h'"
  by (auto simp: dispatchRequest_def handleCommandRequest_def handleWorkRequest_def handleTermRequest_def
           intro: pet_frames split: option.splits if_splits)

lemma setList_same: "same_pets h h' \<Longrightarrow> h_lists h pet \<noteq> None \<Longrightarrow> same_pets h (h'\<lparr>h_lists := (h_lists h')(pet \<mapsto> l)\<rparr>)"
  by (auto simp: same_pets_def)

lemma handleCommRequest_same [pet_frames]:
  assumes "handleCommRequest env pet h = Some h'"
  shows "same_pets h h'"
proof -
  from assms obtain l l1 h1 where l: "h_lists h pet = Some l" "dispatchRequest env l h = Some (l1, h1)"
    by (auto simp: handleCommRequest_def split: option.splits)
  let ?h1 = "h1\<lparr>h_lists := (h_lists h1)(pet \<mapsto> l1)\<rparr>"
  obtain r h2 where r: "peRelease env pet ZISAUX_PE_OK ?h1 = (r, h2)" by fastforce
  have "same_pets h ?h1" using l by (intro setList_same) (auto intro: pet_frames)
  also have "same_pets ?h1 h2" using r by (rule peRelease_same)
  finally have s2: "same_pets h h2" .
  show ?thesis
  proof (cases "r = 0")
    case True
    with assms l r s2 show ?thesis by (simp add: handleCommRequest_def)
  next
    case False
    obtain c h3 where c: "cleanServiceParmListCopy env l1 h2 = (c, h3)" by fastforce
    have "same_pets h h3" using s2 cleanServiceParmListCopy_same [OF c] by (rule same_pets_trans)
    with False assms l r c show ?thesis by (auto simp: handleCommRequest_def intro: setList_same)
  qed
qed

lemma workElementHandler_same [pet_frames]: "workElementHandler env pet h = Some (r, h') \<Longrightarrow> same_pets h h'"
  by (auto simp: workElementHandler_def asyncRequestHanler_def intro: pet_frames split: if_splits Recovery.splits)

lemma handleModifyCommand_same [pet_frames]:
  "handleModifyCommand env i ty c t h = Some (r, m, h') \<Longrightarrow> same_pets h h'"
  by (auto simp: handleModifyCommand_def Let_def setContextFlag_def intro: pet_frames
           split: if_splits STCConsoleCommandType.splits option.splits)
    (simp_all add: same_pets_def)

lemma commTaskMain_same [pet_frames]: "commTaskMain h = Some h' \<Longrightarrow> same_pets h h'"
  by (auto simp: commTaskMain_def intro!: setShutdown_same same_pets_trans [OF updateCommArea_same setContextFlag_same]
           split: option.splits if_splits)

section \<open>The slots under scheduling\<close>

lemma scheduleBegin_cases:
  assumes "queue_law env" and "scheduleBegin env l h = (r, h')"
  obtains (limit) "hc_availablePETs (h_ctx h) = []" "r = Inl RC_ZISAUX_REQUEST_LIMIT_REACHED" "h' = h"
  | (lost) slot code where "slot \<in> set (hc_availablePETs (h_ctx h))" "r = Inl code" "h_work h' = h_work h"
      "same_pets (setAvailable (remove1 slot (hc_availablePETs (h_ctx h))) h) h'"
  | (waits) slot h2 where "slot \<in> set (hc_availablePETs (h_ctx h))" "isPETValid env slot"
      "copyServiceParmList env l (setAvailable (remove1 slot (hc_availablePETs (h_ctx h))) h) = (RC_ZISAUX_OK, h2)"
      "r = Inr (slot, h_tokens h slot)"
      "h' = h2\<lparr>h_work := h_work h2 @ [(slot, h_tokens h slot)], h_lists := (h_lists h2)((slot, h_tokens h slot) \<mapsto> l)\<rparr>"
proof (cases "hc_availablePETs (h_ctx h)")
  case Nil
  with assms(2) show thesis by (intro limit) (auto simp: scheduleBegin_def qRemove_def)
next
  case (Cons a list)
  let ?q = "hc_availablePETs (h_ctx h)"
  define slot where "slot = he_qPick env ?q"
  define h1 where "h1 = setAvailable (remove1 slot ?q) h"
  have ne: "?q \<noteq> []" using Cons by simp
  with assms(1) have slot: "slot \<in> set ?q" by (simp add: queue_law_def slot_def)
  have pick: "qRemove env ?q = (Some slot, remove1 slot ?q)" using ne by (simp add: qRemove_def slot_def)
  obtain c h2 where c: "copyServiceParmList env l h1 = (c, h2)" by fastforce
  have w1: "h_work h1 = h_work h" "h_tokens h1 = h_tokens h" by (simp_all add: h1_def setAvailable_def)
  have w2: "h_work h2 = h_work h1"
    using c by (auto simp: copyServiceParmList_def getAccess_def split: option.splits if_splits)
  have t2: "h_tokens h2 = h_tokens h1" using copyServiceParmList_same [OF c] by (simp add: same_pets_def)
  have eq: "(r, h') = (if \<not> isPETValid env slot then (Inl RC_ZISAUX_BAD_PET, h1)
     else if c \<noteq> RC_ZISAUX_OK then (Inl c, h2)
     else case makeAUXWorkElement env l (slot, h_tokens h2 slot) h2 of
            None \<Rightarrow> (if he_storeAbends env then (Inl RC_ZISAUX_PC_ABEND_DETECTED, h2)
                     else (Inl RC_ZISAUX_ALLOC_FAILED, snd (cleanServiceParmListCopy env l h2)))
          | Some h3 \<Rightarrow> (Inr (slot, h_tokens h2 slot), h3))"
    using assms(2) c unfolding h1_def by (cases "isPETValid env slot") (simp_all add: scheduleBegin_def pick Let_def)
  consider "\<not> isPETValid env slot" | "isPETValid env slot" "c \<noteq> RC_ZISAUX_OK"
    | "isPETValid env slot" "c = RC_ZISAUX_OK" "he_workStorage env" | "isPETValid env slot" "c = RC_ZISAUX_OK" "\<not> he_workStorage env" "\<not> he_storeAbends env"
    | "isPETValid env slot" "c = RC_ZISAUX_OK" "\<not> he_workStorage env" "he_storeAbends env"
    by blast
  then show thesis
  proof cases
    case 1
    with eq slot w1 show thesis by (intro lost [of slot]) (simp_all add: h1_def)
  next
    case 2
    with eq slot w1 w2 copyServiceParmList_same [OF c] show thesis by (intro lost [of slot]) (simp_all add: h1_def)
  next
    case 3
    with eq slot c t2 w1 show thesis by (intro waits [of slot h2]) (simp_all add: makeAUXWorkElement_def h1_def)
  next
    case 4
    obtain d h3 where d: "cleanServiceParmListCopy env l h2 = (d, h3)" by fastforce
    have "same_pets h1 h3" using copyServiceParmList_same [OF c] cleanServiceParmListCopy_same [OF d] by (rule same_pets_trans)
    moreover have "h_work h3 = h_work h2"
      using d by (auto simp: cleanServiceParmListCopy_def removeAccess_def Let_def split: option.splits if_splits prod.splits)
    ultimately show thesis using 4 eq slot w1 w2 d by (intro lost [of slot]) (simp_all add: makeAUXWorkElement_def h1_def)
  next
    case 5
    with eq slot w1 w2 copyServiceParmList_same [OF c] show thesis by (intro lost [of slot]) (simp_all add: makeAUXWorkElement_def h1_def)
  qed
qed

lemma scheduleFetchAbends_cases:
  assumes "queue_law env" and "scheduleFetchAbends env h = (r, h')"
  obtains (limit) "r = Inl RC_ZISAUX_REQUEST_LIMIT_REACHED" "h' = h"
  | (lost) slot code where "slot \<in> set (hc_availablePETs (h_ctx h))" "r = Inl code"
      "h' = setAvailable (remove1 slot (hc_availablePETs (h_ctx h))) h"
  using assms by (auto simp: scheduleFetchAbends_def qRemove_def queue_law_def split: if_splits)

lemma pet_inv_take: "pet_inv h \<Longrightarrow> pet_inv (setAvailable (remove1 slot (hc_availablePETs (h_ctx h))) h)"
  by (auto simp: pet_inv_def setAvailable_def dest: set_remove1_subset [THEN subsetD])

lemma scheduleBegin_inv:
  assumes "queue_law env" and "scheduleBegin env l h = (r, h')" and inv: "pet_inv h"
  shows "pet_inv h'"
  using assms(1,2)
proof (cases rule: scheduleBegin_cases)
  case limit
  with inv show ?thesis by simp
next
  case (lost slot code)
  with pet_inv_take [OF inv] show ?thesis by (blast intro: same_pets_inv)
next
  case (waits slot h2)
  let ?h1 = "setAvailable (remove1 slot (hc_availablePETs (h_ctx h))) h"
  have s: "same_pets ?h1 h2" using waits(3) by (rule copyServiceParmList_same)
  have "pet_inv h2" using s pet_inv_take [OF inv] by (rule same_pets_inv)
  moreover have "slot \<notin> set (hc_availablePETs (h_ctx h2))" "slot < ZISAUX_MAX_REQUEST_COUNT" "h_tokens h2 = h_tokens h"
    using s waits(1) inv by (auto simp: same_pets_def setAvailable_def pet_inv_def)
  ultimately show ?thesis using waits(5) by (auto simp: pet_inv_def)
qed

lemma storeFailed_inv:
  assumes inv: "pet_inv h" and l: "h_lists h pet \<noteq> None"
  shows "pet_inv (storeFailed pet h)"
proof -
  have p: "fst pet < ZISAUX_MAX_REQUEST_COUNT" "fst pet \<notin> set (hc_availablePETs (h_ctx h))" "snd pet = h_tokens h (fst pet)"
    using inv l by (auto simp: pet_inv_def)
  have "fst q \<noteq> fst pet" if "h_lists h q \<noteq> None" "q \<noteq> pet" for q
    using inv that p(3) unfolding pet_inv_def by (metis domIff prod.expand)
  with inv p show ?thesis
    by (auto simp: pet_inv_def storeFailed_def setAvailable_def leaveSlot_def qInsert_def)
qed

lemma scheduleEnd_inv:
  assumes "scheduleEnd env pet c h = Some (r, l, h')" and inv: "pet_inv h"
  shows "pet_inv h'"
proof -
  from assms(1) obtain d where l: "h_lists h pet = Some l" and d: "cleanServiceParmListCopy env l (storeFailed pet h) = (d, h')"
    by (auto simp: scheduleEnd_def storeFailed_def Let_def split: option.splits prod.splits)
  have "pet_inv (storeFailed pet h)" using inv l by (intro storeFailed_inv) simp_all
  with cleanServiceParmListCopy_same [OF d] show ?thesis by (rule same_pets_inv)
qed

lemma handleCommunicationPCSS_cases:
  assumes "handleCommunicationPCSS env parmList h = Some (r, h')"
  obtains (refused) code where "r = Inl code" "h' = h"
  | (abended) code r1 where "r = Inl code" "scheduleFetchAbends env h = (r1, h')"
  | (scheduled) area l1 l2 r1 where "hc_masterCommArea (h_ctx h) = Some area" "he_callersKey env = ZISAUX_CALLER_KEY"
      "isCallerParentServer env area" "px_serviceParmList parmList = Some (Some l1, Some l2)" "isCommServiceParmListValid l1"
      "cs_version l1 \<le> ZISAUX_COMM_SERVICE_PARM_VERSION" "scheduleBegin env l2 h = (r1, h')"
      "r = (case r1 of Inl code \<Rightarrow> Inl (pcReturn env code) | Inr pet \<Rightarrow> Inr pet)"
  using assms
  by (auto simp: handleCommunicationPCSS_def handleUnsafePCSS_def scheduleFetchAbends_def
           split: if_splits Recovery.splits option.splits sum.splits prod.splits)

lemma aux_step_inv: "aux_step h h' \<Longrightarrow> pet_inv h \<Longrightarrow> pet_inv h'"
proof (induction rule: aux_step.induct)
  case (call env parmList h r h')
  from call(2) show ?case
  proof (cases rule: handleCommunicationPCSS_cases)
    case (scheduled area l1 l2 r1)
    from scheduleBegin_inv [OF call(1) scheduled(7) call(3)] show ?thesis .
  next
    case (abended code r1)
    from call(1) abended(2) show ?thesis
      by (cases rule: scheduleFetchAbends_cases) (use call(3) pet_inv_take in auto)
  qed (use call(3) in simp)
next
  case (work pet h env r h')
  have "same_pets h (dequeueWork pet h)" by (simp add: dequeueWork_def same_pets_def)
  also from work(2) have "same_pets \<dots> h'" by (rule workElementHandler_same)
  finally show ?case using work(3) by (rule same_pets_inv)
next
  case (resume h pet releaseCode env r copy h')
  then show ?case by (auto simp: pcResume_def intro: scheduleEnd_inv)
next
  case (store_failed h pet env r h')
  then show ?case by (auto simp: pcStoreFailed_def intro: storeFailed_inv)
next
  case (pause_failed h pet env r h')
  then show ?case by (clarsimp simp only: pcPauseFailed_def pauseFailed_def) (simp add: pet_inv_def)
qed (auto intro: pet_frames same_pets_inv)

section \<open>A host to evaluate on\<close>

text \<open>A guest that answers work with its payload and counts it, and fails every command with return code 12.\<close>

definition demo_guest :: "nat ZISAUXModuleDescriptor" where
  "demo_guest =
     \<lparr>md_eyecatcher = ZISAUX_HOST_DESCRIPTOR_EYE, md_version = 1, md_moduleVersion = 1, md_init = None, md_term = None,
      md_handleWork = Some (\<lambda>p r t g. Some (0, r\<lparr>rq_inlineData := rq_inlineData p\<rparr>, Suc g)), md_handleCancel = None,
      md_handleCommand = Some (\<lambda>raw p r t g. Some (12, r, g)), md_moduleData = 0\<rparr>"

definition demo_henv :: "unit HostEnv" where
  "demo_henv =
     \<lparr>he_qPick = List.hd, he_peTest = (\<lambda>i. (0, False)), he_peRelease = (\<lambda>i. 0), he_peStale = 4, he_shrGetAccess = (\<lambda>a. 8), he_shrRemoveAccess = (\<lambda>a. 0),
      he_workStorage = True, he_storeAbends = False, he_SASN = 42, he_callersKey = 4, he_routerOK = True, he_routerRemoved = True, he_pcPush = RCV_OK, he_unsafePush = True,
      he_asyncTask = True, he_asyncPush = RCV_OK, he_slh = Some plain_heap,
      he_decodeCommand = (\<lambda>s. \<lparr>xc_routeInfo = 0, xc_length = 4, xc_text = take 126 s\<rparr>),
      he_decodeResponse = (\<lambda>s. \<lparr>xr_status = STATUS_UNKNOWN, xr_length = 0, xr_text = s\<rparr>), he_encodeResponse = xr_text\<rparr>"

definition demo_area :: ZISAUXCommArea where
  "demo_area = newCommArea\<lparr>ac_parentASID := 42, ac_flag := 5\<rparr>"

definition demo_host :: "(unit, nat) Host" where
  "demo_host =
     \<lparr>h_ctx = \<lparr>hc_eyecatcher = ZISAUX_CONTEXT_EYE, hc_flags = 2, hc_masterCommArea = Some demo_area,
               hc_availablePETs = [0..<ZISAUX_MAX_REQUEST_COUNT], hc_startRouteInfo = 0, hc_termRouteInfo = 0, hc_parms = empty_set,
               hc_userModuleDescriptor = Some demo_guest\<rparr>,
      h_tokens = (\<lambda>i. 0), h_work = [], h_lists = Map.empty, h_posted = Map.empty, h_access = [], h_logLevel = LOG_INFO, h_shutdown = False\<rparr>"

definition demo_work :: ZISAUXCommServiceParmList where
  "demo_work = (newServiceList ZISAUX_COMM_SERVICE_FUNC_WORK 0)\<lparr>cs_payload := emptyRequestData\<lparr>rq_inlineData := ''abc'', rq_length := 3\<rparr>\<rparr>"

definition demo_pc :: "ZISAUXCommServiceParmList \<Rightarrow> AUXPCParmList" where
  "demo_pc l = \<lparr>px_eyecatcher = AUX_PC_PARM_EYECATCHER, px_latentParmList = True, px_serviceParmList = Some (Some l, Some l)\<rparr>"

definition demo_waiting :: "(unit, nat) Host" where
  "demo_waiting =
     setAvailable [1..<ZISAUX_MAX_REQUEST_COUNT] (demo_host\<lparr>h_work := [(0, 0)], h_lists := [(0, 0) \<mapsto> demo_work]\<rparr>)"

lemma demo_queue_law: "queue_law demo_henv"
  by (simp add: queue_law_def demo_henv_def)

lemma sixteen_slots: "[0..<ZISAUX_MAX_REQUEST_COUNT] = 0 # [1..<ZISAUX_MAX_REQUEST_COUNT]"
  by (simp add: ZISAUX_MAX_REQUEST_COUNT_def upt_conv_Cons)

lemma demo_call: "handleCommunicationPCSS demo_henv (demo_pc demo_work) demo_host = Some (Inr (0, 0), demo_waiting)"
proof -
  have "isCommServiceParmListValid demo_work" "cs_version demo_work \<le> ZISAUX_COMM_SERVICE_PARM_VERSION"
    by (simp_all add: demo_work_def newServiceList_def isCommServiceParmListValid_def)
  moreover have "scheduleBegin demo_henv demo_work demo_host = (Inr (0, 0), demo_waiting)"
    by (simp add: scheduleBegin_def demo_henv_def demo_host_def demo_waiting_def qRemove_def sixteen_slots isPETValid_def copyServiceParmList_def
        getAccess_def demo_work_def newServiceList_def emptyRequestData_def makeAUXWorkElement_def setAvailable_def Let_def)
  moreover have "he_callersKey demo_henv = ZISAUX_CALLER_KEY" "he_routerOK demo_henv" "he_pcPush demo_henv = RCV_OK"
    "isAUXContextValid (h_ctx demo_host)" "hc_masterCommArea (h_ctx demo_host) = Some demo_area" "isCallerParentServer demo_henv demo_area"
    by (simp_all add: demo_henv_def demo_host_def isAUXContextValid_def isCallerParentServer_def demo_area_def ZISAUX_CALLER_KEY_def)
  ultimately show ?thesis
    by (simp add: handleCommunicationPCSS_def handleUnsafePCSS_def demo_pc_def isAUXPCParmListValid_def)
qed

section \<open>Properties\<close>

text \<open>
  C9. The slots of pause elements are owned. Whatever calls, workers, resumed callers, failed pauses,
  cancellations and commands do, in any order, from a context with its 16 slots in the queue: the queue holds a slot at
  most once, no caller waits on a slot of the queue, no two callers wait on one slot, and never are more
  than 16 slots queued or waited on.
\<close>

theorem aux_slots_owned:
  assumes "aux_step\<^sup>*\<^sup>* h0 h" and "hc_availablePETs (h_ctx h0) = [0..<ZISAUX_MAX_REQUEST_COUNT]" and "h_lists h0 = Map.empty"
  shows "distinct (hc_availablePETs (h_ctx h)) \<and> inj_on fst (dom (h_lists h)) \<and>
         fst ` dom (h_lists h) \<inter> set (hc_availablePETs (h_ctx h)) = {} \<and>
         length (hc_availablePETs (h_ctx h)) + card (dom (h_lists h)) \<le> ZISAUX_MAX_REQUEST_COUNT"
proof -
  have "pet_inv h0" using assms(2,3) by (auto simp: pet_inv_def)
  with assms(1) have inv: "pet_inv h" by (induction rule: rtranclp_induct) (auto intro: aux_step_inv)
  have inj: "inj_on fst (dom (h_lists h))"
    using inv unfolding pet_inv_def inj_on_def by (metis prod.expand)
  have disj: "fst ` dom (h_lists h) \<inter> set (hc_availablePETs (h_ctx h)) = {}"
    using inv unfolding pet_inv_def by blast
  have sub: "fst ` dom (h_lists h) \<union> set (hc_availablePETs (h_ctx h)) \<subseteq> {..<ZISAUX_MAX_REQUEST_COUNT}"
    using inv unfolding pet_inv_def by blast
  have "card (dom (h_lists h)) + length (hc_availablePETs (h_ctx h)) = card (fst ` dom (h_lists h)) + card (set (hc_availablePETs (h_ctx h)))"
    using inv inj by (simp add: card_image pet_inv_def distinct_card)
  also have "\<dots> = card (fst ` dom (h_lists h) \<union> set (hc_availablePETs (h_ctx h)))"
    using disj sub by (subst card_Un_disjoint) (auto dest: finite_subset)
  also have "\<dots> \<le> ZISAUX_MAX_REQUEST_COUNT" using card_mono [OF _ sub] by simp
  finally show ?thesis using inv inj disj by (simp add: pet_inv_def)
qed

theorem aux_slots_owned_witness:
  "length (hc_availablePETs (h_ctx demo_waiting)) + card (dom (h_lists demo_waiting)) \<le> ZISAUX_MAX_REQUEST_COUNT"
proof -
  have "aux_step\<^sup>*\<^sup>* demo_host demo_waiting" using demo_queue_law demo_call by (blast intro: aux_step.call)
  from aux_slots_owned [OF this] show ?thesis by (simp add: demo_host_def)
qed

text \<open>What a request needs to get through: services that answer, and a worker.\<close>

definition host_up :: "'s HostEnv \<Rightarrow> bool" where
  "host_up env \<longleftrightarrow>
     queue_law env \<and> he_callersKey env = ZISAUX_CALLER_KEY \<and> he_routerOK env \<and> he_routerRemoved env \<and> he_pcPush env = RCV_OK \<and>
     he_workStorage env \<and> (\<forall>i. isPETValid env i \<and> he_peRelease env i = 0) \<and> he_asyncTask env \<and> he_asyncPush env = RCV_OK \<and> he_unsafePush env"

definition inline_list :: "ZISAUXCommServiceParmList \<Rightarrow> bool" where
  "inline_list l \<longleftrightarrow> rq_data (cs_payload l) = None \<and> rq_data (cs_response l) = None"

lemma insert_set_remove1: "x \<in> set q \<Longrightarrow> insert x (set (remove1 x q)) = set q"
  by (induction q) auto

lemma scheduleBegin_up:
  assumes "host_up env" and "inline_list l" and "hc_availablePETs (h_ctx h) \<noteq> []"
  obtains slot where "slot \<in> set (hc_availablePETs (h_ctx h))"
    "scheduleBegin env l h = (Inr (slot, h_tokens h slot),
       (setAvailable (remove1 slot (hc_availablePETs (h_ctx h))) h)
         \<lparr>h_work := h_work h @ [(slot, h_tokens h slot)], h_lists := (h_lists h)((slot, h_tokens h slot) \<mapsto> l)\<rparr>)"
proof (rule that)
  show "he_qPick env (hc_availablePETs (h_ctx h)) \<in> set (hc_availablePETs (h_ctx h))"
    using assms(1,3) by (simp add: host_up_def queue_law_def)
qed (use assms in \<open>simp add: scheduleBegin_def qRemove_def Let_def host_up_def inline_list_def copyServiceParmList_def getAccess_def
       makeAUXWorkElement_def setAvailable_def\<close>)

lemma pc_accepts:
  assumes "host_up env" and "isAUXPCParmListValid p" and "px_serviceParmList p = Some (Some l1, Some l)" and "isCommServiceParmListValid l1"
    and "cs_version l1 \<le> ZISAUX_COMM_SERVICE_PARM_VERSION" and "isAUXContextValid (h_ctx h)"
    and "hc_masterCommArea (h_ctx h) = Some area" and "ac_parentASID area = he_SASN env"
    and "scheduleBegin env l h = (Inr pet, h1)"
  shows "handleCommunicationPCSS env p h = Some (Inr pet, h1)"
  using assms by (simp add: handleCommunicationPCSS_def handleUnsafePCSS_def host_up_def isCallerParentServer_def)

text \<open>
  C10. Only the parent server gets a request to the guest. A caller is made to wait, with its request enqueued, only
  when its key is 4, its secondary address space is the parent of the area, the list it passed is valid in
  its first fetch, the second fetch works and there is a slot for it; every other caller is turned away, and the queue of work
  is what it was. (A queue is relied on to give up one of its elements.) Conversely such a caller is made to wait when the lists and the context of the call are valid, the list
  found by the second fetch keeps its data inside and the services of the system do their part (\<open>host_up\<close>: the PC environment
  and the recovery entry can be made, the pause elements are valid, there is storage for the work element).
\<close>

theorem aux_caller_is_parent:
  assumes "queue_law env" and "handleCommunicationPCSS env parmList h = Some (r, h')"
  shows "(case r of
           Inl code \<Rightarrow> h_work h' = h_work h
         | Inr pet \<Rightarrow>
             (\<exists>area l1 l2. hc_masterCommArea (h_ctx h) = Some area \<and> he_callersKey env = ZISAUX_CALLER_KEY \<and> he_SASN env = ac_parentASID area \<and>
                px_serviceParmList parmList = Some (Some l1, Some l2) \<and> isCommServiceParmListValid l1 \<and>
                cs_version l1 \<le> ZISAUX_COMM_SERVICE_PARM_VERSION \<and>
                fst pet \<in> set (hc_availablePETs (h_ctx h)) \<and> h_work h' = h_work h @ [pet] \<and> h_lists h' pet = Some l2)) \<and>
         (\<forall>area l1 l2. host_up env \<and> isAUXPCParmListValid parmList \<and> isAUXContextValid (h_ctx h) \<and>
            hc_masterCommArea (h_ctx h) = Some area \<and> he_SASN env = ac_parentASID area \<and>
            px_serviceParmList parmList = Some (Some l1, Some l2) \<and> isCommServiceParmListValid l1 \<and>
            cs_version l1 \<le> ZISAUX_COMM_SERVICE_PARM_VERSION \<and> inline_list l2 \<and> hc_availablePETs (h_ctx h) \<noteq> [] \<longrightarrow>
            (\<exists>pet. r = Inr pet))"
proof (intro conjI allI impI)
  show "case r of
           Inl code \<Rightarrow> h_work h' = h_work h
         | Inr pet \<Rightarrow>
             (\<exists>area l1 l2. hc_masterCommArea (h_ctx h) = Some area \<and> he_callersKey env = ZISAUX_CALLER_KEY \<and> he_SASN env = ac_parentASID area \<and>
                px_serviceParmList parmList = Some (Some l1, Some l2) \<and> isCommServiceParmListValid l1 \<and>
                cs_version l1 \<le> ZISAUX_COMM_SERVICE_PARM_VERSION \<and>
                fst pet \<in> set (hc_availablePETs (h_ctx h)) \<and> h_work h' = h_work h @ [pet] \<and> h_lists h' pet = Some l2)"
    using assms(2)
  proof (cases rule: handleCommunicationPCSS_cases)
    case (refused code)
    then show ?thesis by simp
  next
    case (abended code r1)
    from assms(1) abended(2) show ?thesis
      by (cases rule: scheduleFetchAbends_cases) (simp_all add: abended(1) setAvailable_def)
  next
    case (scheduled area l1 l2 r1)
    from assms(1) scheduled(7) show ?thesis
    proof (cases rule: scheduleBegin_cases)
      case (waits slot h2)
      have "h_work h2 = h_work h"
        using waits(3) by (auto simp: copyServiceParmList_def getAccess_def setAvailable_def split: option.splits if_splits)
      with waits scheduled show ?thesis by (auto simp: isCallerParentServer_def)
    qed (use scheduled in auto)
  qed
next
  fix area l1 l2
  assume c: "host_up env \<and> isAUXPCParmListValid parmList \<and> isAUXContextValid (h_ctx h) \<and>
     hc_masterCommArea (h_ctx h) = Some area \<and> he_SASN env = ac_parentASID area \<and>
     px_serviceParmList parmList = Some (Some l1, Some l2) \<and> isCommServiceParmListValid l1 \<and>
     cs_version l1 \<le> ZISAUX_COMM_SERVICE_PARM_VERSION \<and> inline_list l2 \<and> hc_availablePETs (h_ctx h) \<noteq> []"
  then obtain pet h1 where "scheduleBegin env l2 h = (Inr pet, h1)" using scheduleBegin_up [of env l2 h] by metis
  with c have "handleCommunicationPCSS env parmList h = Some (Inr pet, h1)"
    using pc_accepts [of env parmList l1 l2 h area pet h1] by simp
  with assms(2) have "r = Inr pet" by simp
  then show "\<exists>pet. r = Inr pet" by blast
qed

theorem aux_caller_is_parent_witness: "he_SASN demo_henv = 42 \<and> h_work demo_waiting = [(0, 0)]"
  using aux_caller_is_parent [OF demo_queue_law demo_call] by (auto simp: demo_host_def demo_area_def)

definition failingCall :: "'s HostEnv \<Rightarrow> ZISAUXCommServiceParmList \<Rightarrow> ('s, 'g) Host \<Rightarrow> ('s, 'g) Host" where
  "failingCall env l h = snd (scheduleBegin env l h)"

lemma failingCall_loses:
  assumes "queue_law env" and "\<And>i. isPETValid env i" and "rq_data (cs_payload l) = Some a" and "he_shrGetAccess env a \<noteq> 0"
    and "hc_availablePETs (h_ctx h) \<noteq> []"
  shows "fst (scheduleBegin env l h) = Inl RC_ZISAUX_SHR64_ERROR"
    and "length (hc_availablePETs (h_ctx (failingCall env l h))) = length (hc_availablePETs (h_ctx h)) - 1"
    and "h_lists (failingCall env l h) = h_lists h"
proof -
  let ?q = "hc_availablePETs (h_ctx h)"
  have mem: "he_qPick env ?q \<in> set ?q" using assms(1,5) by (simp add: queue_law_def)
  have "scheduleBegin env l h = (Inl RC_ZISAUX_SHR64_ERROR, setAvailable (remove1 (he_qPick env ?q) ?q) h)"
    using assms by (simp add: scheduleBegin_def qRemove_def Let_def copyServiceParmList_def getAccess_def)
  with mem show "fst (scheduleBegin env l h) = Inl RC_ZISAUX_SHR64_ERROR"
    "length (hc_availablePETs (h_ctx (failingCall env l h))) = length ?q - 1" "h_lists (failingCall env l h) = h_lists h"
    by (simp_all add: failingCall_def setAvailable_def length_remove1)
qed

text \<open>
  C39. A slot whose request cannot be scheduled is not put back. When a caller's shared storage cannot be accessed, each
  of its calls takes a slot out of the queue for good; after as many calls as there were slots every call, with any list and
  in any environment, is turned away for the limit of requests, though nobody waits.
\<close>

theorem aux_failed_calls_exhaust:
  assumes "queue_law env" and "\<forall>i. isPETValid env i" and "rq_data (cs_payload l) = Some a" and "he_shrGetAccess env a \<noteq> 0"
    and "n = length (hc_availablePETs (h_ctx h))"
  shows "(\<forall>i < n. fst (scheduleBegin env l ((failingCall env l ^^ i) h)) = Inl RC_ZISAUX_SHR64_ERROR) \<and>
         (\<forall>env' l'. scheduleBegin env' l' ((failingCall env l ^^ n) h) = (Inl RC_ZISAUX_REQUEST_LIMIT_REACHED, (failingCall env l ^^ n) h)) \<and>
         h_lists ((failingCall env l ^^ n) h) = h_lists h"
proof -
  have left: "length (hc_availablePETs (h_ctx ((failingCall env l ^^ i) h))) = n - i \<and> h_lists ((failingCall env l ^^ i) h) = h_lists h"
    if "i \<le> n" for i
    using that
  proof (induction i)
    case (Suc i)
    let ?h = "(failingCall env l ^^ i) h"
    have "hc_availablePETs (h_ctx ?h) \<noteq> []" using Suc by auto
    with Suc failingCall_loses [OF assms(1) _ assms(3,4), of ?h] assms(2) show ?case by simp
  qed (simp add: assms(5))
  have "fst (scheduleBegin env l ((failingCall env l ^^ i) h)) = Inl RC_ZISAUX_SHR64_ERROR" if "i < n" for i
  proof -
    have "hc_availablePETs (h_ctx ((failingCall env l ^^ i) h)) \<noteq> []" using left [of i] that by auto
    with failingCall_loses(1) [OF assms(1) _ assms(3,4)] assms(2) show ?thesis by blast
  qed
  moreover have "hc_availablePETs (h_ctx ((failingCall env l ^^ n) h)) = []" using left [of n] by simp
  ultimately show ?thesis using left [of n] by (simp add: scheduleBegin_def qRemove_def)
qed

theorem aux_failed_calls_exhaust_witness:
  "fst (scheduleBegin demo_henv demo_work
     ((failingCall demo_henv (demo_work\<lparr>cs_payload := emptyRequestData\<lparr>rq_data := Some 65536\<rparr>\<rparr>) ^^ 16) demo_host)) = Inl RC_ZISAUX_REQUEST_LIMIT_REACHED"
proof -
  let ?l = "demo_work\<lparr>cs_payload := emptyRequestData\<lparr>rq_data := Some 65536\<rparr>\<rparr>"
  have "\<forall>i. isPETValid demo_henv i" "rq_data (cs_payload ?l) = Some 65536" "he_shrGetAccess demo_henv 65536 \<noteq> 0"
    "16 = length (hc_availablePETs (h_ctx demo_host))"
    by (simp_all add: isPETValid_def demo_henv_def demo_host_def ZISAUX_MAX_REQUEST_COUNT_def)
  from aux_failed_calls_exhaust [OF demo_queue_law this] show ?thesis by simp
qed

lemma peRelease_frame:
  "h_ctx (snd (peRelease env pet c h)) = h_ctx h" "h_lists (snd (peRelease env pet c h)) = h_lists h"
  "h_work (snd (peRelease env pet c h)) = h_work h" "h_tokens (snd (peRelease env pet c h)) = h_tokens h"
  by (simp_all add: peRelease_def Let_def)

lemma releaseAll_posts:
  assumes "\<And>i. he_peRelease env i = 0"
  shows "h_lists (fold (\<lambda>i h. snd (peRelease env (i, h_tokens h i) c h)) ks h) = h_lists h \<and>
         (i \<in> set ks \<longrightarrow> h_posted (fold (\<lambda>i h. snd (peRelease env (i, h_tokens h i) c h)) ks h) i = Some c) \<and>
         (i \<notin> set ks \<longrightarrow> h_posted (fold (\<lambda>i h. snd (peRelease env (i, h_tokens h i) c h)) ks h) i = h_posted h i)"
proof (induction ks arbitrary: h)
  case (Cons j js)
  have "h_posted (snd (peRelease env (j, h_tokens h j) c h)) i = (if i = j then Some c else h_posted h i)"
    using assms by (simp add: peRelease_def)
  with Cons.IH [of "snd (peRelease env (j, h_tokens h j) c h)"] show ?case
    by (auto simp: peRelease_frame)
qed simp

lemma handleCancel_posts:
  assumes "handleCancel env h = Some (r, h')" and "\<And>i. he_peRelease env i = 0" and "slot < ZISAUX_MAX_REQUEST_COUNT"
  shows "h_posted h' slot = Some ZISAUX_PE_RC_CANCEL \<and> h_lists h' = h_lists h"
  using assms(1)
proof (rule handleCancel_parts)
  fix h1 h2
  assume parts: "setReadyFlag False h = Some h1" "h2 = h1 \<or> (\<exists>d g. h2 = setModuleData d g h1)"
    "setTermFlag True (notifyAllPendingCallers env ZISAUX_PE_RC_CANCEL h2) = Some h'"
  have area: "updateCommArea f u = Some v \<Longrightarrow> h_lists v = h_lists u \<and> h_posted v = h_posted u" for f and u v :: "('a, 'b) Host"
    by (auto simp: updateCommArea_def split: option.splits)
  have "h_lists h2 = h_lists h" using parts(1,2) area by (auto simp: setReadyFlag_def setModuleData_def)
  moreover have "h_posted h' slot = Some ZISAUX_PE_RC_CANCEL \<and> h_lists h' = h_lists h2"
    using area [OF parts(3) [unfolded setTermFlag_def]] assms(3)
      releaseAll_posts [OF assms(2), where i = slot and ks = "[0..<ZISAUX_MAX_REQUEST_COUNT]" and c = ZISAUX_PE_RC_CANCEL and h = h2]
    by (simp add: notifyAllPendingCallers_def)
  ultimately show ?thesis by simp
qed

text \<open>
  C40. A cancellation of the host releases every caller that waits with code 10, which no branch of the call's end
  knows: a caller without shared storage gets return code \<open>RC_ZISAUX_OK\<close> and its own list back, though its request was never handled. A
  worker that comes to the request later works on a list on the stack of a call that has ended.
\<close>

theorem aux_cancel_reports_success:
  assumes "handleCancel env h = Some (r, h1)" and "\<forall>i. he_peRelease env i = 0" and "pet_inv h" and "h_lists h pet = Some l"
    and "rq_data (cs_payload l) = None" and "rq_data (cs_response l) = None"
  shows "h_posted h1 (fst pet) = Some ZISAUX_PE_RC_CANCEL \<and>
         (\<exists>h2. pcResume env pet ZISAUX_PE_RC_CANCEL h1 = Some (RC_ZISAUX_OK, l, h2) \<and> handleCommRequest env pet h2 = None)"
proof -
  have "fst pet < ZISAUX_MAX_REQUEST_COUNT" using assms(3,4) by (auto simp: pet_inv_def)
  with handleCancel_posts [OF assms(1)] assms(2,4)
  have "h_posted h1 (fst pet) = Some ZISAUX_PE_RC_CANCEL" "h_lists h1 pet = Some l" by simp_all
  with assms(5,6) show ?thesis
    by (simp add: pcResume_def scheduleEnd_def Let_def cleanServiceParmListCopy_def removeAccess_def releaseStatus_def pcReturn_def
        handleCommRequest_def setAvailable_def leaveSlot_def)
qed

theorem aux_cancel_reports_success_witness:
  "\<exists>h1 h2. handleCancel demo_henv demo_waiting = Some (0, h1) \<and> pcResume demo_henv (0, 0) ZISAUX_PE_RC_CANCEL h1 = Some (RC_ZISAUX_OK, demo_work, h2)"
proof -
  obtain h1 where c: "handleCancel demo_henv demo_waiting = Some (0, h1)"
    by (auto simp: handleCancel_def setReadyFlag_def setTermFlag_def updateCommArea_def demo_waiting_def demo_host_def setAvailable_def demo_guest_def
        notifyAllPendingCallers_def ZISAUX_MAX_REQUEST_COUNT_def upt_rec peRelease_def demo_henv_def Let_def)
  have "\<forall>i. he_peRelease demo_henv i = 0" "pet_inv demo_waiting" "h_lists demo_waiting (0, 0) = Some demo_work"
    "rq_data (cs_payload demo_work) = None" "rq_data (cs_response demo_work) = None"
    by (simp_all add: demo_henv_def pet_inv_def demo_waiting_def setAvailable_def demo_work_def newServiceList_def emptyRequestData_def demo_host_def
        ZISAUX_MAX_REQUEST_COUNT_def)
      auto
  from aux_cancel_reports_success [OF c this] c show ?thesis by blast
qed

text \<open>
  C11. Work of the parent server reaches the guest and comes back. This is for a host whose system does its part
  (\<open>host_up\<close>: the caller has the right key, the PC environment can be made and removed, the recovery entries can be made and are
  not entered, the pause elements are valid and can be released, there is storage for the work element and a task for the
  request), for a call whose list is valid and is the same in both fetches and can be stored back, and for a guest whose
  handler returns. With a list that keeps its data inside, before and behind the handler, and a slot in the queue, the call enqueues the
  request, the worker runs the guest's handler on the caller's payload and response and releases the caller, and the caller goes on
  with the guest's response, return code 0 or, when the handler's own code is not 0, \<open>RC_ZISAUX_USER_HANDLER_ERROR\<close> with that
  code as reason; the slot is back in the queue.
\<close>

theorem aux_work_roundtrip:
  assumes "host_up env" and "isAUXPCParmListValid p" and "px_serviceParmList p = Some (Some l, Some l)" and "isCommServiceParmListValid l"
    and "cs_version l \<le> ZISAUX_COMM_SERVICE_PARM_VERSION" and "cs_function l = ZISAUX_COMM_SERVICE_FUNC_WORK" and "inline_list l"
    and "isAUXContextValid (h_ctx h)" and "hc_masterCommArea (h_ctx h) = Some area" and "ac_parentASID area = he_SASN env"
    and "hc_availablePETs (h_ctx h) \<noteq> []" and "hc_userModuleDescriptor (h_ctx h) = Some d" and "md_handleWork d = Some handleWork"
    and "handleWork (cs_payload l) (cs_response l) (cs_traceLevel l) (md_moduleData d) = Some (workRC, response, g)" and "rq_data response = None"
  shows "\<exists>pet h1 h2 h3. handleCommunicationPCSS env p h = Some (Inr pet, h1) \<and>
     workElementHandler env pet (dequeueWork pet h1) = Some (0, h2) \<and> h_posted h2 (fst pet) = Some ZISAUX_PE_OK \<and>
     pcResume env pet ZISAUX_PE_OK h2 =
       Some (if workRC = 0 then RC_ZISAUX_OK else RC_ZISAUX_USER_HANDLER_ERROR,
             l\<lparr>cs_response := response, cs_auxRC := (if workRC = 0 then RC_ZISAUX_OK else RC_ZISAUX_USER_HANDLER_ERROR), cs_auxRSN := workRC\<rparr>, h3) \<and>
     hc_userModuleDescriptor (h_ctx h3) = Some (d\<lparr>md_moduleData := g\<rparr>) \<and>
     set (hc_availablePETs (h_ctx h3)) = set (hc_availablePETs (h_ctx h))"
proof -
  obtain slot where slot: "slot \<in> set (hc_availablePETs (h_ctx h))"
    and b: "scheduleBegin env l h = (Inr (slot, h_tokens h slot),
       (setAvailable (remove1 slot (hc_availablePETs (h_ctx h))) h)
         \<lparr>h_work := h_work h @ [(slot, h_tokens h slot)], h_lists := (h_lists h)((slot, h_tokens h slot) \<mapsto> l)\<rparr>)"
    using scheduleBegin_up [OF assms(1,7,11)] by blast
  let ?pet = "(slot, h_tokens h slot)"
  define h1 where "h1 = (setAvailable (remove1 slot (hc_availablePETs (h_ctx h))) h)
         \<lparr>h_work := h_work h @ [?pet], h_lists := (h_lists h)(?pet \<mapsto> l)\<rparr>"
  have call: "handleCommunicationPCSS env p h = Some (Inr ?pet, h1)"
    using pc_accepts [OF assms(1-5,8-10) b] by (simp add: h1_def)
  define r where "r = (if workRC = 0 then RC_ZISAUX_OK else RC_ZISAUX_USER_HANDLER_ERROR)"
  define l1 where "l1 = l\<lparr>cs_response := response, cs_auxRC := r, cs_auxRSN := workRC\<rparr>"
  define hw where "hw = setModuleData d g (dequeueWork ?pet h1)"
  define h2 where "h2 = hw\<lparr>h_lists := (h_lists hw)(?pet \<mapsto> l1), h_posted := (h_posted hw)(slot \<mapsto> ZISAUX_PE_OK)\<rparr>"
  have "dispatchRequest env l (dequeueWork ?pet h1) = Some (l1, hw)"
    using assms(1,6,12-14)
    by (simp add: dispatchRequest_def aux_func_defs handleWorkRequest_def callUserModuleWorkHandler_def CALL_UNSAFE_FUNCTION_def host_up_def
        handlerResult_def hw_def l1_def r_def dequeueWork_def h1_def setAvailable_def)
  then have work: "workElementHandler env ?pet (dequeueWork ?pet h1) = Some (0, h2)"
    using assms(1)
    by (simp add: workElementHandler_def asyncRequestHanler_def handleCommRequest_def host_up_def dequeueWork_def h1_def)
      (simp add: h2_def peRelease_def hw_def setModuleData_def dequeueWork_def h1_def setAvailable_def Let_def)
  have resume: "pcResume env ?pet ZISAUX_PE_OK h2 =
      Some (r, l1, setAvailable (qInsert slot (hc_availablePETs (h_ctx h2))) (leaveSlot ?pet h2))"
    using assms(1,7,15)
    by (simp add: pcResume_def scheduleEnd_def h2_def Let_def releaseStatus_def cleanServiceParmListCopy_def removeAccess_def l1_def inline_list_def
        pcReturn_def host_up_def)
  have "set (qInsert slot (hc_availablePETs (h_ctx h2))) = set (hc_availablePETs (h_ctx h))"
    using insert_set_remove1 [OF slot]
    by (simp add: qInsert_def h2_def hw_def setModuleData_def dequeueWork_def h1_def setAvailable_def)
  moreover have "hc_userModuleDescriptor (h_ctx h2) = Some (d\<lparr>md_moduleData := g\<rparr>)"
    by (simp add: h2_def hw_def setModuleData_def)
  moreover have "h_posted h2 slot = Some ZISAUX_PE_OK" by (simp add: h2_def)
  ultimately show ?thesis
    using call work resume
    by (intro exI [of _ ?pet] exI [of _ h1] exI [of _ h2] exI [of _ "setAvailable (qInsert slot (hc_availablePETs (h_ctx h2))) (leaveSlot ?pet h2)"])
      (simp add: r_def l1_def setAvailable_def leaveSlot_def)
qed

theorem aux_work_roundtrip_witness:
  "\<exists>pet h1 h2 h3. handleCommunicationPCSS demo_henv (demo_pc demo_work) demo_host = Some (Inr pet, h1) \<and>
     workElementHandler demo_henv pet (dequeueWork pet h1) = Some (0, h2) \<and>
     pcResume demo_henv pet ZISAUX_PE_OK h2 = Some (0, demo_work\<lparr>cs_response := emptyRequestData\<lparr>rq_inlineData := ''abc''\<rparr>\<rparr>, h3)"
proof -
  let ?resp = "emptyRequestData\<lparr>rq_inlineData := ''abc''\<rparr>"
  have up: "host_up demo_henv" using demo_queue_law by (simp add: host_up_def demo_henv_def isPETValid_def ZISAUX_CALLER_KEY_def)
  have l: "isCommServiceParmListValid demo_work" "cs_version demo_work \<le> ZISAUX_COMM_SERVICE_PARM_VERSION"
    "cs_function demo_work = ZISAUX_COMM_SERVICE_FUNC_WORK" "inline_list demo_work"
    by (simp_all add: demo_work_def newServiceList_def isCommServiceParmListValid_def inline_list_def emptyRequestData_def)
  have p: "isAUXPCParmListValid (demo_pc demo_work)" "px_serviceParmList (demo_pc demo_work) = Some (Some demo_work, Some demo_work)"
    by (simp_all add: demo_pc_def isAUXPCParmListValid_def)
  have h: "isAUXContextValid (h_ctx demo_host)" "hc_masterCommArea (h_ctx demo_host) = Some demo_area"
    "ac_parentASID demo_area = he_SASN demo_henv" "hc_availablePETs (h_ctx demo_host) \<noteq> []"
    "hc_userModuleDescriptor (h_ctx demo_host) = Some demo_guest"
    by (simp_all add: demo_host_def isAUXContextValid_def demo_area_def demo_henv_def ZISAUX_MAX_REQUEST_COUNT_def)
  have w: "md_handleWork demo_guest = Some (\<lambda>p r t g. Some (0, r\<lparr>rq_inlineData := rq_inlineData p\<rparr>, Suc g))"
    by (simp add: demo_guest_def)
  have f: "(\<lambda>p r t g. Some (0, r\<lparr>rq_inlineData := rq_inlineData p\<rparr>, Suc g)) (cs_payload demo_work) (cs_response demo_work) (cs_traceLevel demo_work)
     (md_moduleData demo_guest) = Some (0 :: rc, ?resp, 1)"
    by (simp add: demo_work_def newServiceList_def demo_guest_def)
  have n: "rq_data ?resp = None" by (simp add: emptyRequestData_def)
  have same: "demo_work\<lparr>cs_response := ?resp, cs_auxRC := 0, cs_auxRSN := 0\<rparr> = demo_work\<lparr>cs_response := ?resp\<rparr>"
    by (simp add: demo_work_def newServiceList_def)
  from aux_work_roundtrip [OF up p l h w f n] show ?thesis by (simp add: same) blast
qed

lemma handleAUXCommand_fails:
  assumes "he_slh env = Some slh" and "slh_total slh" and "he_unsafePush env" and "xc_length raw \<le> length (xc_text raw)"
    and "tokensOf CHR '' '' (take (xc_length raw) (xc_text raw)) = verb # args" and "verb \<noteq> ''LOG''"
    and "hc_userModuleDescriptor (h_ctx h) = Some d" and "md_handleCommand d = Some handleCommand"
    and "handleCommand raw \<lparr>mc_routeInfo = xc_routeInfo raw, mc_commandVerb = verb, mc_args = args\<rparr> (response\<lparr>xr_status := STATUS_UNKNOWN\<rparr>) t
           (md_moduleData d) = Some (commandRC, response1, g)" and "commandRC \<noteq> 0"
  shows "handleAUXCommand env raw response (Some rsn) t h = Some (RC_ZISAUX_USER_HANDLER_ERROR, response1, Some 0, setModuleData d g h)"
    and "handleAUXCommand env raw response None t h = None"
proof -
  obtain slh' where t: "auxutilTokenizeString slh (xc_text raw) (xc_length raw) CHR '' '' = Some (Some (verb # args), slh')"
    using tokenizeString_result [OF assms(4), of slh "CHR '' ''"] assms(2,5) by auto
  with assms show "handleAUXCommand env raw response (Some rsn) t h =
       Some (RC_ZISAUX_USER_HANDLER_ERROR, response1, Some 0, setModuleData d g h)" "handleAUXCommand env raw response None t h = None"
    by (simp_all add: handleAUXCommand_def Let_def runParsedCommand_def handleUserModuleCommand_def callUserModuleCommandHandler_def
        CALL_UNSAFE_FUNCTION_def handlerResult_def)
qed

text \<open>
  A command that the guest's handler fails: the server that sent it gets \<open>RC_ZISAUX_USER_HANDLER_ERROR\<close> with reason
  code 0 in place of the handler's return code; for the same command from the operator the host stores the reason code
  through a NULL pointer.
\<close>

theorem aux_failed_command:
  assumes "he_slh env = Some slh" and "slh_total slh" and "he_unsafePush env" and "length command \<le> 126"
    and "tokensOf CHR '' '' command = verb # args" and "verb \<noteq> ''LOG''"
    and "hc_userModuleDescriptor (h_ctx h) = Some d" and "md_handleCommand d = Some handleCommand"
    and "\<forall>raw resp. \<exists>resp' g. handleCommand raw \<lparr>mc_routeInfo = xc_routeInfo raw, mc_commandVerb = verb, mc_args = args\<rparr> resp t (md_moduleData d) =
           Some (commandRC, resp', g)" and "commandRC \<noteq> 0"
    and "raw = \<lparr>xc_routeInfo = routeInfo, xc_length = length command, xc_text = overlay command (replicate 126 nul)\<rparr>"
  shows "(\<exists>resp' h'. handleAUXCommand env raw resp (Some rsn) t h = Some (RC_ZISAUX_USER_HANDLER_ERROR, resp', Some 0, h')) \<and>
         handleModifyCommand env routeInfo STC_COMMAND_MODIFY command t h = None"
proof -
  have raw: "xc_length raw \<le> length (xc_text raw)" "tokensOf CHR '' '' (take (xc_length raw) (xc_text raw)) = verb # args"
    using assms(4,5,11) by (simp_all add: overlay_def)
  have fails: "handleAUXCommand env raw r1 None t h = None \<and>
     (\<exists>resp' h'. handleAUXCommand env raw r1 (Some rsn) t h = Some (RC_ZISAUX_USER_HANDLER_ERROR, resp', Some 0, h'))" for r1
  proof -
    obtain resp' g where "handleCommand raw \<lparr>mc_routeInfo = xc_routeInfo raw, mc_commandVerb = verb, mc_args = args\<rparr>
        (r1\<lparr>xr_status := STATUS_UNKNOWN\<rparr>) t (md_moduleData d) = Some (commandRC, resp', g)" using assms(9) by blast
    from handleAUXCommand_fails [OF assms(1-3) raw assms(6-8) this assms(10)] show ?thesis by blast
  qed
  moreover from fails have "handleModifyCommand env routeInfo STC_COMMAND_MODIFY command t h = None"
    using assms(4,11) by (simp add: handleModifyCommand_def Let_def)
  ultimately show ?thesis by blast
qed

theorem aux_failed_command_witness:
  "handleModifyCommand demo_henv 0 STC_COMMAND_MODIFY ''DUMP ALL'' 0 demo_host = None"
proof -
  have e: "he_slh demo_henv = Some plain_heap" "slh_total plain_heap" "he_unsafePush demo_henv" "length ''DUMP ALL'' \<le> 126"
    "tokensOf CHR '' '' ''DUMP ALL'' = ''DUMP'' # [''ALL'']" "''DUMP'' \<noteq> ''LOG''"
    "hc_userModuleDescriptor (h_ctx demo_host) = Some demo_guest"
    "md_handleCommand demo_guest = Some (\<lambda>raw p r t g. Some (12, r, g))"
    by (simp_all add: demo_henv_def slh_total_def plain_heap_def tokensOf_def demo_host_def demo_guest_def)
  have f: "\<forall>raw resp. \<exists>resp' g. (\<lambda>raw p r t g. Some (12, r, g)) raw \<lparr>mc_routeInfo = xc_routeInfo raw, mc_commandVerb = ''DUMP'', mc_args = [''ALL'']\<rparr>
     resp (0::int) (md_moduleData demo_guest) = Some (12 :: rc, resp', g)" by simp
  from aux_failed_command [OF e f _ refl, where routeInfo = 0] show ?thesis by simp
qed

end
