(* ===== verification/AUX_Run.thy ===== *)
theory AUX_Run
  imports AUX_Host
begin

text \<open>
  The configuration and the main sequence of the host of an auxiliary address space (src/zis-aux/src/aux-host.c):
  the environment checks, the context, the parameters of the address space with the communication area and the
  module, the PC routine, and \<open>run\<close>. The state is the one of \<open>AUX_Host\<close>.
\<close>

section \<open>The environment\<close>

text \<open>What loading the module and calling its entry point comes to.\<close>

datatype 'g LoadResult = NotLoaded | EntryAbended | NoDescriptor | Loaded "'g ZISAUXModuleDescriptor"

record ('s, 'g) RunEnv =
  re_host :: "'s HostEnv"
  re_testAuth :: int
  re_tcbKey :: nat
  re_dubStatus :: int
  re_contextStorage :: bool
  re_queueStorage :: bool
  re_petStorage :: bool
  re_peAlloc :: "nat \<Rightarrow> rc"
  re_parmHeap :: "'s ShortLivedHeap option"
  re_resmgrRC :: rc
  re_extractRC :: rc
  re_masterParm :: string
  re_areas :: "addr \<rightharpoonup> ZISAUXCommArea"
  re_workBuffer :: bool
  re_lib :: iefprmlb
  re_stackBytes :: string
  re_load :: "string \<Rightarrow> 'g LoadResult"
  re_entryTable :: bool
  re_setAuthority :: rc
  re_reserveIndex :: "rc \<times> 32 word \<times> 32 word"
  re_createTable :: rc
  re_connectTable :: rc
  re_mainPush :: bool
  re_commTask :: bool
  re_mainLoop :: "('s, 'g) Host \<Rightarrow> ('s, 'g) Host"

definition isDubStatusOk :: "int \<Rightarrow> bool" where "isDubStatusOk status \<longleftrightarrow> status \<noteq> 4"

definition checkEnv :: "('s, 'g) RunEnv \<Rightarrow> rc" where
  "checkEnv env =
     (if re_testAuth env \<noteq> 0 then RC_ZISAUX_ERROR
      else if re_tcbKey env \<noteq> CROSS_MEMORY_SERVER_KEY_AUX then RC_ZISAUX_ERROR
      else if \<not> isDubStatusOk (re_dubStatus env) then RC_ZISAUX_ERROR
      else RC_ZISAUX_OK)"

section \<open>The context\<close>

text \<open>
  The loop over the pause elements of the context looks into the array before the array is tested: without the
  array it has no value. What else is destroyed is storage.
\<close>

definition destroyHostContext :: "bool \<Rightarrow> unit option" where
  "destroyHostContext requestPETs = (if requestPETs then Some () else None)"

primrec allocPETs :: "('s, 'g) RunEnv \<Rightarrow> nat \<Rightarrow> nat list \<Rightarrow> rc \<times> nat list" where
  "allocPETs env 0 q = (RC_ZISAUX_OK, q)"
| "allocPETs env (Suc n) q =
     (let i = ZISAUX_MAX_REQUEST_COUNT - Suc n
      in if re_peAlloc env i \<noteq> 0 then (RC_ZISAUX_ERROR, q) else allocPETs env n (qInsert i q))"

definition newHost :: "nat list \<Rightarrow> 's ZISParmSet \<Rightarrow> ('s, 'g) Host" where
  "newHost q parms =
     \<lparr>h_ctx = \<lparr>hc_eyecatcher = ZISAUX_CONTEXT_EYE, hc_flags = 0, hc_masterCommArea = None, hc_availablePETs = q, hc_startRouteInfo = 0,
               hc_termRouteInfo = 0, hc_parms = parms, hc_userModuleDescriptor = None\<rparr>,
      h_tokens = (\<lambda>i. 0), h_work = [], h_lists = Map.empty, h_posted = Map.empty, h_access = [], h_logLevel = LOG_INFO, h_shutdown = False\<rparr>"

definition makeHostContext :: "('s, 'g) RunEnv \<Rightarrow> ('s, 'g) Host option option" where
  "makeHostContext env =
     (if \<not> re_contextStorage env then Some None
      else if \<not> re_queueStorage env then map_option (\<lambda>_. None) (destroyHostContext False)
      else if \<not> re_petStorage env then map_option (\<lambda>_. None) (destroyHostContext False)
      else case allocPETs env ZISAUX_MAX_REQUEST_COUNT [] of
        (r, q) \<Rightarrow>
          if r \<noteq> RC_ZISAUX_OK then map_option (\<lambda>_. None) (destroyHostContext True)
          else case zisMakeParmSet (re_parmHeap env) of
            None \<Rightarrow> None
          | Some None \<Rightarrow> map_option (\<lambda>_. None) (destroyHostContext True)
          | Some (Some parms) \<Rightarrow>
              if re_resmgrRC env \<noteq> 0 then map_option (\<lambda>_. None) (destroyHostContext True) else Some (Some (newHost q parms)))"

section \<open>Parameters\<close>

text \<open>\<open>sscanf\<close> with \<open>%p\<close>: hexadecimal digits behind white space, at least one.\<close>

definition hexValue :: "char \<Rightarrow> nat option" where
  "hexValue c =
     (let n = of_char c :: nat
      in if of_char CHR ''0'' \<le> n \<and> n \<le> of_char CHR ''9'' then Some (n - of_char CHR ''0'')
         else if of_char CHR ''A'' \<le> n \<and> n \<le> of_char CHR ''F'' then Some (n - of_char CHR ''A'' + 10)
         else if of_char CHR ''a'' \<le> n \<and> n \<le> of_char CHR ''f'' then Some (n - of_char CHR ''a'' + 10)
         else None)"

definition scanPointer :: "string \<Rightarrow> addr option" where
  "scanPointer s =
     (let digits = takeWhile (\<lambda>c. hexValue c \<noteq> None) (dropWhile (\<lambda>c. c = CHR '' '') s)
      in if digits = [] then None else Some (foldl (\<lambda>n c. n * 16 + the (hexValue c)) 0 digits))"

definition getMasterCommAreaAddress :: "('s, 'g) RunEnv \<Rightarrow> 's ZISParmSet \<Rightarrow> (addr \<times> ZISAUXCommArea) option option" where
  "getMasterCommAreaAddress env parms =
     (case zisGetParmValue parms ZISAUX_HOST_PARM_COMM_KEY of
        None \<Rightarrow> None
      | Some None \<Rightarrow> Some None
      | Some (Some addressString) \<Rightarrow>
          (case scanPointer addressString of
             None \<Rightarrow> Some None
           | Some a \<Rightarrow>
               (case re_areas env a of
                  None \<Rightarrow> None
                | Some area \<Rightarrow> if ac_eyecatcher area \<noteq> ZISAUX_COMM_EYECATCHER then Some None else Some (Some (a, area)))))"

definition setParms :: "'s ZISParmSet \<Rightarrow> ('s, 'g) Host \<Rightarrow> ('s, 'g) Host" where
  "setParms parms h = h\<lparr>h_ctx := (h_ctx h)\<lparr>hc_parms := parms\<rparr>\<rparr>"

definition loadMasterParm :: "('s, 'g) RunEnv \<Rightarrow> ('s, 'g) Host \<Rightarrow> (rc \<times> ('s, 'g) Host) option" where
  "loadMasterParm env h =
     (if re_extractRC env \<noteq> 0 then Some (RC_ZISAUX_ERROR, h)
      else case zisReadMainParms (re_workBuffer env) (hc_parms (h_ctx h)) (re_masterParm env) of
        None \<Rightarrow> None
      | Some (readRC, parms) \<Rightarrow>
          (let h1 = setParms parms h
           in if readRC \<noteq> RC_ZISPARM_OK then Some (RC_ZISAUX_ERROR, h1)
              else case getMasterCommAreaAddress env parms of
                None \<Rightarrow> None
              | Some None \<Rightarrow> Some (RC_ZISAUX_ERROR, h1)
              | Some (Some (_, area)) \<Rightarrow>
                  (let h2 = h1\<lparr>h_ctx := (h_ctx h1)\<lparr>hc_masterCommArea := Some area\<rparr>\<rparr>
                   in Some (RC_ZISAUX_OK,
                            if ac_version area < ZISAUX_COMM_VERSION then setContextFlag ZISAUX_CONTEXT_FLAG_LEGACY_API h2 else h2))))"

text \<open>A failure of reading the member is only reported.\<close>

definition loadHostConfig :: "('s, 'g) RunEnv \<Rightarrow> string \<Rightarrow> ('s, 'g) Host \<Rightarrow> (rc \<times> ('s, 'g) Host) option" where
  "loadHostConfig env mainParms h =
     (case zisReadMainParms (re_workBuffer env) (hc_parms (h_ctx h)) mainParms of
        None \<Rightarrow> None
      | Some (readMainParmsRC, parms) \<Rightarrow>
          (let h1 = setParms parms h
           in if readMainParmsRC \<noteq> RC_ZISPARM_OK then Some (RC_ZISAUX_ERROR, h1)
              else case loadMasterParm env h1 of
                None \<Rightarrow> None
              | Some (masterParmRC, h2) \<Rightarrow>
                  if masterParmRC \<noteq> RC_ZISAUX_OK then Some (masterParmRC, h2)
                  else case zisGetParmValue (hc_parms (h_ctx h2)) ''PARM'' of
                    None \<Rightarrow> None
                  | Some None \<Rightarrow> Some (RC_ZISAUX_OK, h2)
                  | Some (Some parmlibMember) \<Rightarrow>
                      (case zisReadParmlib (re_lib env) (hc_parms (h_ctx h2)) ''PARMLIB'' parmlibMember \<lparr>st_internalRC = 0, st_internalRSN = 0\<rparr> of
                         None \<Rightarrow> None
                       | Some (_, _, parms1) \<Rightarrow> Some (RC_ZISAUX_OK, setParms parms1 h2))))"

text \<open>
  The name of the module is copied into eight bytes of the stack that are not initialised: behind a shorter
  name the bytes stay what they were.
\<close>

definition getUserModuleName :: "('s, 'g) RunEnv \<Rightarrow> 's ZISParmSet \<Rightarrow> (rc \<times> string) option" where
  "getUserModuleName env parms =
     (case zisGetParmValue parms ZISAUX_HOST_PARM_MOD_KEY of
        None \<Rightarrow> None
      | Some None \<Rightarrow> Some (RC_ZISAUX_ERROR, re_stackBytes env)
      | Some (Some v) \<Rightarrow>
          if length v > 8 then Some (RC_ZISAUX_ERROR, re_stackBytes env) else Some (RC_ZISAUX_OK, overlay v (re_stackBytes env)))"

definition loadUserModule :: "('s, 'g) RunEnv \<Rightarrow> ('s, 'g) Host \<Rightarrow> (rc \<times> ('s, 'g) Host) option" where
  "loadUserModule env h =
     (case getUserModuleName env (hc_parms (h_ctx h)) of
        None \<Rightarrow> None
      | Some (getNameRC, moduleName) \<Rightarrow>
          if getNameRC \<noteq> RC_ZISAUX_OK then Some (RC_ZISAUX_ERROR, h)
          else case re_load env moduleName of
            Loaded d \<Rightarrow> Some (RC_ZISAUX_OK, h\<lparr>h_ctx := (h_ctx h)\<lparr>hc_userModuleDescriptor := Some d\<rparr>\<rparr>)
          | _ \<Rightarrow> Some (RC_ZISAUX_ERROR, h))"

section \<open>The PC routine and the tasks\<close>

definition establishCommunicationPC :: "('s, 'g) RunEnv \<Rightarrow> ('s, 'g) Host \<Rightarrow> (rc \<times> ('s, 'g) Host) option" where
  "establishCommunicationPC env h =
     (if \<not> re_entryTable env then Some (RC_ZISAUX_ERROR, h)
      else case re_reserveIndex env of
        (reserveRC, pcNumber, sequenceNumber) \<Rightarrow>
          if re_setAuthority env = 0 \<and> reserveRC = 0 \<and> re_createTable env = 0 \<and> re_connectTable env = 0
          then map_option (\<lambda>h1. (RC_ZISAUX_OK, h1))
                 (updateCommArea (\<lambda>a. a\<lparr>ac_pcNumber := pcNumber, ac_sequenceNumber := sequenceNumber\<rparr>) h)
          else Some (RC_ZISAUX_ERROR, h))"

definition launchCommTask :: "('s, 'g) RunEnv \<Rightarrow> ('s, 'g) Host \<Rightarrow> rc" where
  "launchCommTask env h = (if isLegacyAPI h then RC_ZISAUX_OK else if re_commTask env then RC_ZISAUX_OK else RC_ZISAUX_ALLOC_FAILED)"

section \<open>The main sequence\<close>

text \<open>A step that fails ends the sequence with its return code.\<close>

definition bindRC ::
    "(rc \<times> ('s, 'g) Host) option \<Rightarrow> (('s, 'g) Host \<Rightarrow> (rc \<times> ('s, 'g) Host) option) \<Rightarrow> (rc \<times> ('s, 'g) Host) option" where
  "bindRC m k = (case m of None \<Rightarrow> None | Some (r, h) \<Rightarrow> if r \<noteq> RC_ZISAUX_OK then Some (r, h) else k h)"

definition startPC :: "('s, 'g) RunEnv \<Rightarrow> ('s, 'g) Host \<Rightarrow> (rc \<times> ('s, 'g) Host) option" where
  "startPC env h =
     (case isCommunicationPCEnabled h of
        None \<Rightarrow> None
      | Some on \<Rightarrow> if on then establishCommunicationPC env h else Some (RC_ZISAUX_OK, h))"

definition serveGuest :: "('s, 'g) RunEnv \<Rightarrow> int \<Rightarrow> ('s, 'g) Host \<Rightarrow> (rc \<times> ('s, 'g) Host) option" where
  "serveGuest env traceLevel h =
     (case setReadyFlag True h of
        None \<Rightarrow> None
      | Some h1 \<Rightarrow>
          (case setReadyFlag False (re_mainLoop env h1) of
             None \<Rightarrow> None
           | Some h2 \<Rightarrow>
               (let status = (if isNormalTermination h2 then RC_ZISAUX_OK else RC_ZISAUX_ERROR)
                in case callUserModuleTerm (re_host env) traceLevel h2 of
                     None \<Rightarrow> None
                   | Some (userTermRC, h3) \<Rightarrow>
                       if userTermRC \<noteq> RC_ZISAUX_OK then Some (if status \<noteq> RC_ZISAUX_OK then status else userTermRC, h3)
                       else map_option (\<lambda>h4. (status, h4)) (setTermFlag True (h3\<lparr>h_shutdown := True\<rparr>)))))"

definition runHost :: "('s, 'g) RunEnv \<Rightarrow> string \<Rightarrow> int \<Rightarrow> (rc \<times> ('s, 'g) Host option) option" where
  "runHost env mainParms traceLevel =
     (if checkEnv env \<noteq> RC_ZISAUX_OK then Some (checkEnv env, None)
      else case makeHostContext env of
        None \<Rightarrow> None
      | Some None \<Rightarrow> Some (RC_ZISAUX_ERROR, None)
      | Some (Some h) \<Rightarrow>
          if \<not> re_mainPush env then Some (RC_ZISAUX_HOST_ABENDED, Some (notifyAllPendingCallers (re_host env) ZISAUX_PE_RC_HOST_ABEND h))
          else map_option (\<lambda>(r, h1). (r, Some h1))
                 (bindRC (loadHostConfig env mainParms h) (\<lambda>h1.
                  bindRC (Some (launchCommTask env h1, h1)) (\<lambda>h2.
                  bindRC (startPC env h2) (\<lambda>h3.
                  bindRC (loadUserModule env h3) (\<lambda>h4.
                  bindRC (callUserModuleInit (re_host env) traceLevel h4) (serveGuest env traceLevel)))))))"

section \<open>The parameter of the address space\<close>

lemma hexDigit_facts:
  assumes "n < 16"
  shows "hexValue (hexDigit n) = Some n \<and> hexDigit n \<noteq> CHR '','' \<and> hexDigit n \<noteq> nul \<and> hexDigit n \<noteq> CHR '' ''"
proof -
  have "\<forall>n \<in> set [0..<16]. hexValue (hexDigit n) = Some n \<and> hexDigit n \<noteq> CHR '','' \<and> hexDigit n \<noteq> nul \<and> hexDigit n \<noteq> CHR '' ''"
    by code_simp
  with assms show ?thesis by simp
qed

lemma hex_digits_value:
  "foldl (\<lambda>n c. n * 16 + the (hexValue c)) n (map (\<lambda>i. hexDigit (a div 16 ^ i mod 16)) (rev [0..<k])) = n * 16 ^ k + a mod 16 ^ k"
proof (induction k arbitrary: n)
  case (Suc k)
  have "a mod 16 ^ Suc k = 16 ^ k * (a div 16 ^ k mod 16) + a mod 16 ^ k"
    using mod_mult2_eq [of a "16 ^ k" 16] by (simp add: mult.commute)
  with Suc show ?case by (simp add: hexDigit_facts algebra_simps)
qed simp

lemma hex8_rev: "hex8 a = map (\<lambda>i. hexDigit (a div 16 ^ i mod 16)) (rev [0..<8])"
  by (simp add: hex8_def upt_rec)

lemma hex8_set: "c \<in> set (hex8 a) \<Longrightarrow> hexValue c \<noteq> None \<and> c \<noteq> CHR '','' \<and> c \<noteq> nul \<and> c \<noteq> CHR '' ''"
  by (auto simp: hex8_rev hexDigit_facts)

lemma scanPointer_hex8: "a < 2 ^ 32 \<Longrightarrow> scanPointer (hex8 a) = Some a"
proof -
  assume a: "a < 2 ^ 32"
  have "dropWhile (\<lambda>c. c = CHR '' '') (hex8 a) = hex8 a"
    using hex8_set [of "List.hd (hex8 a)" a] by (cases "hex8 a") auto
  moreover have "takeWhile (\<lambda>c. hexValue c \<noteq> None) (hex8 a) = hex8 a"
    using hex8_set by (auto simp: takeWhile_eq_all_conv)
  moreover have "foldl (\<lambda>n c. n * 16 + the (hexValue c)) 0 (hex8 a) = a"
    unfolding hex8_rev hex_digits_value using a by simp
  ultimately show ?thesis by (simp add: scanPointer_def Let_def hex8_def)
qed

text \<open>The settings in the text of the parameter, in order.\<close>

lemma hostParmText_settings:
  fixes env :: "'t AuxEnv"
  defines "nm \<equiv> \<lambda>m. cstr (m @ ax_afterModuleName env)"
  assumes "CHR '','' \<notin> set (nm m)"
  shows "map parmKeyValue (parm_tokens (hostParmText env m a gp)) =
     [('':'', '')'')] @ (ZISAUX_HOST_PARM_MOD_KEY, nm m) #
       ((ZISAUX_HOST_PARM_COMM_KEY, hex8 a) # map parmKeyValue (parm_tokens (case gp of None \<Rightarrow> [] | Some p \<Rightarrow> cstr p)))"
proof -
  let ?rest = "case gp of None \<Rightarrow> [] | Some p \<Rightarrow> cstr p"
  let ?mod = "ZISAUX_HOST_PARM_MOD_KEY @ CHR ''='' # nm m" and ?comm = "ZISAUX_HOST_PARM_COMM_KEY @ CHR ''='' # hex8 a"
  have whole: "hostParmText env m a gp = '':=)'' @ CHR '','' # (?mod @ CHR '','' # (?comm @ CHR '','' # ?rest))"
    by (simp add: hostParmText_def nm_def)
  have sep: "CHR '','' \<notin> set ?mod" "CHR '','' \<notin> set ?comm" "CHR '','' \<notin> set '':=)''"
    using assms(2) hex8_set [of "CHR '',''" a] by (auto simp: ZISAUX_HOST_PARM_MOD_KEY_def ZISAUX_HOST_PARM_COMM_KEY_def)
  have toks: "parm_tokens (hostParmText env m a gp) = '':=)'' # ?mod # ?comm # parm_tokens ?rest"
    unfolding whole parm_tokens_sep [OF sep(3)] parm_tokens_sep [OF sep(1)] parm_tokens_sep [OF sep(2)] by (rule refl)
  have "nul \<notin> set (nm m)" by (auto simp: nm_def cstr_def dest: set_takeWhileD)
  then have "clean_parm (ZISAUX_HOST_PARM_MOD_KEY, nm m)" "clean_parm (ZISAUX_HOST_PARM_COMM_KEY, hex8 a)" "clean_parm ('':'', '')'')"
    using assms(2) hex8_set [of _ a]
    by (auto simp: clean_parm_def nul_def ZISAUX_HOST_PARM_MOD_KEY_def ZISAUX_HOST_PARM_COMM_KEY_def)
  with toks parmKeyValue_clean [of "'':''" "'')''"] show ?thesis by (simp add: parmKeyValue_clean)
qed

lemma readHostParm:
  fixes env :: "'t AuxEnv"
  assumes good: "parm_good (parms_cost (map parmKeyValue (parm_tokens (hostParmText env m a gp)))) ps"
    and "CHR '','' \<notin> set (cstr (m @ ax_afterModuleName env))"
    and keys: "\<forall>p. gp = Some p \<longrightarrow> (\<forall>kv \<in> set (map parmKeyValue (parm_tokens (cstr p))).
                 fst kv \<noteq> ZISAUX_HOST_PARM_MOD_KEY \<and> fst kv \<noteq> ZISAUX_HOST_PARM_COMM_KEY)"
  shows "\<exists>ps'. zisReadMainParms True ps (hostParmText env m a gp) = Some (RC_ZISPARM_OK, ps') \<and>
     zisGetParmValue ps' ZISAUX_HOST_PARM_MOD_KEY = Some (Some (cstr (m @ ax_afterModuleName env))) \<and>
     zisGetParmValue ps' ZISAUX_HOST_PARM_COMM_KEY = Some (Some (hex8 a)) \<and>
     (gp = None \<and> k \<notin> {'':'', ZISAUX_HOST_PARM_MOD_KEY, ZISAUX_HOST_PARM_COMM_KEY} \<longrightarrow> zisGetParmValue ps' k = zisGetParmValue ps k)"
proof -
  let ?tx = "hostParmText env m a gp" and ?nm = "cstr (m @ ax_afterModuleName env)"
  let ?rest = "map parmKeyValue (parm_tokens (case gp of None \<Rightarrow> [] | Some p \<Rightarrow> cstr p))"
  let ?kvs = "[('':'', '')'')] @ (ZISAUX_HOST_PARM_MOD_KEY, ?nm) # ((ZISAUX_HOST_PARM_COMM_KEY, hex8 a) # ?rest)"
  obtain ps' where r: "readMainParms_loop ps ?tx 0 = Some (0, ps')" "parm_good 0 ps'"
    and f: "fold_opt put_ok (map parmKeyValue (parm_tokens ?tx)) ps = Some ps'"
    using readMainParms_loop_good [of 0 ?tx 0 ps] good by auto
  have f': "fold_opt put_ok ?kvs ps = Some ps'" using f hostParmText_settings [OF assms(2)] by simp
  have inv: "parm_inv ps" "parm_wf ps'" "parm_wf ps" using good r(2) by (auto simp: parm_good_def parm_inv_def)
  have "\<forall>kv \<in> set ?rest. fst kv \<noteq> ZISAUX_HOST_PARM_MOD_KEY \<and> fst kv \<noteq> ZISAUX_HOST_PARM_COMM_KEY"
    using keys by (cases gp) auto
  then have "k \<notin> fst ` set ?rest" if "k = ZISAUX_HOST_PARM_MOD_KEY \<or> k = ZISAUX_HOST_PARM_COMM_KEY" for k
    using that by (auto simp only: image_iff)
  then have rest: "ZISAUX_HOST_PARM_MOD_KEY \<notin> fst ` set ?rest" "ZISAUX_HOST_PARM_COMM_KEY \<notin> fst ` set ?rest" by simp_all
  have "parm_map ps' ZISAUX_HOST_PARM_MOD_KEY = Some ?nm"
    using zis_parms.put_all_last [OF inv(1) f'] rest(1) by (simp add: ZISAUX_HOST_PARM_MOD_KEY_def ZISAUX_HOST_PARM_COMM_KEY_def)
  moreover have "parm_map ps' ZISAUX_HOST_PARM_COMM_KEY = Some (hex8 a)"
    using zis_parms.put_all_last [OF inv(1), of "[('':'', '')''), (ZISAUX_HOST_PARM_MOD_KEY, ?nm)]"] f' rest(2) by simp
  moreover have "parm_map ps' k = parm_map ps k"
    if "gp = None" "k \<notin> {'':'', ZISAUX_HOST_PARM_MOD_KEY, ZISAUX_HOST_PARM_COMM_KEY}"
    using zis_parms.put_all_frame [OF inv(1) f', of k] that by simp
  ultimately show ?thesis
    using r inv(2,3) by (auto simp: zisReadMainParms_def zisGetParmValue_wf parm_map_def)
qed

lemma loadMasterParm_area:
  fixes env :: "'t AuxEnv"
  assumes "a < 2 ^ 32" and "CHR '','' \<notin> set (cstr (m @ ax_afterModuleName env))"
    and "\<forall>p. gp = Some p \<longrightarrow> (\<forall>kv \<in> set (map parmKeyValue (parm_tokens (cstr p))).
           fst kv \<noteq> ZISAUX_HOST_PARM_MOD_KEY \<and> fst kv \<noteq> ZISAUX_HOST_PARM_COMM_KEY)"
    and "re_areas renv a = Some area" and "ac_eyecatcher area = ZISAUX_COMM_EYECATCHER" and "ac_version area = ZISAUX_COMM_VERSION"
    and "re_masterParm renv = hostParmText env m a gp" and "re_extractRC renv = 0" and "re_workBuffer renv"
    and "parm_good (parms_cost (map parmKeyValue (parm_tokens (hostParmText env m a gp)))) (hc_parms (h_ctx h))"
  shows "\<exists>ps'. loadMasterParm renv h = Some (RC_ZISAUX_OK, h\<lparr>h_ctx := (h_ctx h)\<lparr>hc_parms := ps', hc_masterCommArea := Some area\<rparr>\<rparr>) \<and>
     zisGetParmValue ps' ZISAUX_HOST_PARM_MOD_KEY = Some (Some (cstr (m @ ax_afterModuleName env))) \<and>
     (gp = None \<and> k \<notin> {'':'', ZISAUX_HOST_PARM_MOD_KEY, ZISAUX_HOST_PARM_COMM_KEY} \<longrightarrow>
        zisGetParmValue ps' k = zisGetParmValue (hc_parms (h_ctx h)) k)"
proof -
  obtain ps' where ps: "zisReadMainParms True (hc_parms (h_ctx h)) (hostParmText env m a gp) = Some (RC_ZISPARM_OK, ps')"
    "zisGetParmValue ps' ZISAUX_HOST_PARM_MOD_KEY = Some (Some (cstr (m @ ax_afterModuleName env)))"
    "zisGetParmValue ps' ZISAUX_HOST_PARM_COMM_KEY = Some (Some (hex8 a))"
    "gp = None \<and> k \<notin> {'':'', ZISAUX_HOST_PARM_MOD_KEY, ZISAUX_HOST_PARM_COMM_KEY} \<longrightarrow>
       zisGetParmValue ps' k = zisGetParmValue (hc_parms (h_ctx h)) k"
    using readHostParm [OF assms(10,2,3), of k] by blast
  have "getMasterCommAreaAddress renv ps' = Some (Some (a, area))"
    using ps(3) scanPointer_hex8 [OF assms(1)] assms(4,5) by (simp add: getMasterCommAreaAddress_def)
  with ps assms(6-9) show ?thesis by (intro exI [of _ ps']) (simp add: loadMasterParm_def Let_def setParms_def)
qed

section \<open>The main sequence by its steps\<close>

lemma makeHostContext_slots:
  assumes "makeHostContext env = Some (Some h)"
  shows "hc_availablePETs (h_ctx h) = [0..<ZISAUX_MAX_REQUEST_COUNT] \<and> h_lists h = Map.empty \<and> isAUXContextValid (h_ctx h)"
proof -
  have alloc: "allocPETs env n q = (RC_ZISAUX_OK, q') \<Longrightarrow> n \<le> ZISAUX_MAX_REQUEST_COUNT \<Longrightarrow>
      q' = q @ [ZISAUX_MAX_REQUEST_COUNT - n..<ZISAUX_MAX_REQUEST_COUNT]" for n q q'
  proof (induction n arbitrary: q)
    case (Suc n)
    then have "allocPETs env n (q @ [ZISAUX_MAX_REQUEST_COUNT - Suc n]) = (RC_ZISAUX_OK, q')"
      by (simp add: Let_def qInsert_def split: if_splits)
    from Suc.IH [OF this] Suc.prems(2) show ?case by (simp add: upt_conv_Cons Suc_diff_Suc)
  qed simp
  from assms obtain q ps where "allocPETs env ZISAUX_MAX_REQUEST_COUNT [] = (RC_ZISAUX_OK, q)" "h = newHost q ps"
    by (auto simp: makeHostContext_def destroyHostContext_def split: if_splits option.splits prod.splits)
  with alloc [of ZISAUX_MAX_REQUEST_COUNT "[]" q] show ?thesis by (simp add: newHost_def isAUXContextValid_def)
qed

lemma bindRC_OK: "bindRC m k = Some (RC_ZISAUX_OK, h') \<Longrightarrow> \<exists>h. m = Some (RC_ZISAUX_OK, h) \<and> k h = Some (RC_ZISAUX_OK, h')"
  by (auto simp: bindRC_def split: option.splits if_splits)

lemma updateCommArea_area: "updateCommArea f h = Some h' \<Longrightarrow>
   \<exists>area. hc_masterCommArea (h_ctx h) = Some area \<and> h' = h\<lparr>h_ctx := (h_ctx h)\<lparr>hc_masterCommArea := Some (f area)\<rparr>\<rparr>"
  by (auto simp: updateCommArea_def split: option.splits)

lemma serveGuest_OK:
  assumes "serveGuest env t h = Some (RC_ZISAUX_OK, h')"
  shows "isNormalTermination h' \<and> h_shutdown h' \<and>
     (\<exists>area. hc_masterCommArea (h_ctx h') = Some area \<and> \<not> has_flag (ac_flag area) ZISAUX_HOST_FLAG_READY \<and>
             has_flag (ac_flag area) ZISAUX_HOST_FLAG_TERMINATED)"
proof -
  from assms obtain h1 h2 h3 where h2: "setReadyFlag False (re_mainLoop env h1) = Some h2" and n: "isNormalTermination h2"
    and t: "callUserModuleTerm (re_host env) t h2 = Some (RC_ZISAUX_OK, h3)" and h': "setTermFlag True (h3\<lparr>h_shutdown := True\<rparr>) = Some h'"
    by (auto simp: serveGuest_def Let_def split: option.splits if_splits)
  have c: "h_ctx h3 = h_ctx h2 \<or> (\<exists>d g. h3 = setModuleData d g h2)"
    using t by (auto simp: callUserModuleTerm_def split: option.splits if_splits)
  from updateCommArea_area [OF h2 [unfolded setReadyFlag_def]] obtain a0 where
    "hc_masterCommArea (h_ctx h2) = Some (a0\<lparr>ac_flag := clear_flag (ac_flag a0) ZISAUX_HOST_FLAG_READY\<rparr>)" by auto
  with c have a3: "hc_masterCommArea (h_ctx h3) = Some (a0\<lparr>ac_flag := clear_flag (ac_flag a0) ZISAUX_HOST_FLAG_READY\<rparr>)"
    by (auto simp: setModuleData_def)
  have n3: "isNormalTermination h3" using n c by (auto simp: isNormalTermination_def setModuleData_def)
  from updateCommArea_area [OF h' [unfolded setTermFlag_def]] a3
  have "h' = (h3\<lparr>h_shutdown := True\<rparr>)\<lparr>h_ctx := (h_ctx h3)\<lparr>hc_masterCommArea :=
      Some (a0\<lparr>ac_flag := set_flag (clear_flag (ac_flag a0) ZISAUX_HOST_FLAG_READY) ZISAUX_HOST_FLAG_TERMINATED\<rparr>)\<rparr>\<rparr>" by auto
  moreover have "ZISAUX_HOST_FLAG_TERMINATED \<noteq> 0" "ZISAUX_HOST_FLAG_TERMINATED AND ZISAUX_HOST_FLAG_READY = 0"
    by (simp_all add: aux_flag_defs)
  ultimately show ?thesis using n3 by (simp add: isNormalTermination_def set_flag_has has_flag_set_other)
qed

section \<open>Properties\<close>

text \<open>A concrete run for the witnesses.\<close>

definition demo_run :: "(unit, nat) RunEnv" where
  "demo_run =
     \<lparr>re_host = demo_henv, re_testAuth = 0, re_tcbKey = 4, re_dubStatus = 0, re_contextStorage = True, re_queueStorage = True, re_petStorage = True,
      re_peAlloc = (\<lambda>i. 0), re_parmHeap = Some plain_heap, re_resmgrRC = 0, re_extractRC = 0,
      re_masterParm = take 127 (hostParmText demo_aux ''MODULE01'' 4096 None), re_areas = as_comm demo_started, re_workBuffer = True, re_lib = demo_lib,
      re_stackBytes = ''????????'', re_load = (\<lambda>n. Loaded demo_guest), re_entryTable = True, re_setAuthority = 0,
      re_reserveIndex = (0, 1, 1), re_createTable = 0, re_connectTable = 0, re_mainPush = True, re_commTask = True,
      re_mainLoop = setContextFlag ZISAUX_CONTEXT_FLAG_TERM_COMMAND_RECEIVED\<rparr>"

text \<open>
  C12. The parameter that the manager builds for a host leads the host to its guest. A guest is started under a nickname at
  an area below 4 GB, by a manager that satisfies its invariant and whose hash tables and pool keep their laws; the parameter fits its field, the module's name has at most eight characters and no comma, and the
  guest's own parameters do not set \<open>MOD\<close> or \<open>COMM\<close>. The system hands this parameter to the host (the extraction returns
  0), the parser gets its work buffer, and the heap of the host's parameter set, which is limited, grants the requests for
  the settings of the parameter.
  Then the host reads the parameter with the parser of the main parameters and finds the communication area that the
  manager keeps under the nickname. It also finds the module's name: a name of eight characters is read exactly. A shorter
  name is stored without padding, so the bytes behind it stay those the host's stack happened to hold there.
\<close>

theorem aux_host_parm_roundtrip:
  assumes "lht_laws env" and "pool_laws env" and "aux_inv env st"
    and "zisauxMgrStartGuest2 env nick m gp fl rsn st = (RC_ZISAUX_OK, rsn', st')" and "getCommArea env st' nick = Some (Some a)"
    and "a < 2 ^ 32" and "length (hostParmText env m a gp) < ax_sizeof_ASParm_data env"
    and "CHR '','' \<notin> set (cstr (m @ ax_afterModuleName env))" and "length (cstr (m @ ax_afterModuleName env)) \<le> 8"
    and "\<forall>p. gp = Some p \<longrightarrow> (\<forall>kv \<in> set (map parmKeyValue (parm_tokens (cstr p))).
           fst kv \<noteq> ZISAUX_HOST_PARM_MOD_KEY \<and> fst kv \<noteq> ZISAUX_HOST_PARM_COMM_KEY)"
    and "re_areas renv = as_comm st'" and "re_masterParm renv = take (ax_sizeof_ASParm_data env - 1) (hostParmText env m a gp)"
    and "re_extractRC renv = 0" and "re_workBuffer renv"
    and "parm_good (parms_cost (map parmKeyValue (parm_tokens (hostParmText env m a gp)))) (hc_parms (h_ctx h))"
    and "length (re_stackBytes renv) = 8"
    and "name = cstr (m @ ax_afterModuleName env)"
  shows "\<exists>h' stored. loadMasterParm renv h = Some (RC_ZISAUX_OK, h') \<and> hc_masterCommArea (h_ctx h') = as_comm st' a \<and>
     getUserModuleName renv (hc_parms (h_ctx h')) = Some (RC_ZISAUX_OK, stored) \<and> length stored = 8 \<and>
     take (length name) stored = name \<and> drop (length name) stored = drop (length name) (re_stackBytes renv) \<and>
     (length name = 8 \<longrightarrow> stored = name)"
proof -
  have parm: "re_masterParm renv = hostParmText env m a gp" using assms(7,12) by simp
  have area: "\<exists>area. as_comm st' a = Some area \<and> ac_eyecatcher area = ZISAUX_COMM_EYECATCHER \<and> ac_version area = ZISAUX_COMM_VERSION"
    using assms(4,2)
  proof (cases rule: startGuest2_cases)
    case (started b stoken ascb area)
    have "guests env st' = (guests env st)(nicknameKey nick \<mapsto> b)"
      using assms(1,3) started by (intro guests_put) (simp_all add: aux_inv_def)
    moreover have "getCommArea env st' nick = Some (guests env st' (nicknameKey nick))"
      using assms(3) started by (auto simp: getCommArea_def guests_def nickTable_def aux_inv_def lhtPutIn_def)
    ultimately have "a = b" using assms(5) by simp
    with started show ?thesis by (simp add: setCommAreaFlags_def newCommArea_def)
  qed simp
  then obtain area where area: "as_comm st' a = Some area" "ac_eyecatcher area = ZISAUX_COMM_EYECATCHER" "ac_version area = ZISAUX_COMM_VERSION"
    by blast
  from area(1) assms(11) have "re_areas renv a = Some area" by simp
  from loadMasterParm_area [OF assms(6,8,10) this area(2,3) parm assms(13-15), of "[]"] area(1) assms(9,16,17) show ?thesis
    by (auto simp: getUserModuleName_def overlay_def)
qed

theorem aux_host_parm_roundtrip_witness:
  "\<exists>h'. loadMasterParm demo_run demo_host = Some (RC_ZISAUX_OK, h') \<and> hc_masterCommArea (h_ctx h') = as_comm demo_started 4096 \<and>
     getUserModuleName demo_run (hc_parms (h_ctx h')) = Some (RC_ZISAUX_OK, ''MODULE01'')"
proof -
  have start: "zisauxMgrStartGuest2 demo_aux ''ABCD'' ''MODULE01'' None 0 0 demo_aux_state = (RC_ZISAUX_OK, 0, demo_started)"
    unfolding demo_started_def
    by (simp add: zisauxMgrStartGuest2_def demo_aux_state_def demo_aux_def zisauxMgrInit_def Let_def bad_manager_def allocCommArea_def)
  have get: "getCommArea demo_aux demo_started ''ABCD'' = Some (Some 4096)"
    by (simp add: getCommArea_def demo_started_state demo_aux_def)
  have nm: "cstr (''MODULE01'' @ ax_afterModuleName demo_aux) = ''MODULE01''" by (simp add: demo_aux_def cstr_def nul_def)
  have len: "length (hostParmText demo_aux ''MODULE01'' 4096 None) < ax_sizeof_ASParm_data demo_aux"
    using nm by (simp add: hostParmText_def ZISAUX_HOST_PARM_MOD_KEY_def ZISAUX_HOST_PARM_COMM_KEY_def length_hex) (simp add: demo_aux_def)
  have small: "(4096 :: addr) < 2 ^ 32" by simp
  have run: "re_areas demo_run = as_comm demo_started"
    "re_masterParm demo_run = take (ax_sizeof_ASParm_data demo_aux - 1) (hostParmText demo_aux ''MODULE01'' 4096 None)"
    "re_extractRC demo_run = 0" "re_workBuffer demo_run" "parm_good N (hc_parms (h_ctx demo_host))" for N
    by (simp_all add: demo_run_def demo_host_def empty_set_good) (simp add: demo_aux_def)
  have stack: "length (re_stackBytes demo_run) = 8" by (simp add: demo_run_def)
  from aux_host_parm_roundtrip [OF demo_aux_laws(1-3) start get small len _ _ _ run stack nm [symmetric]] nm show ?thesis by auto
qed

text \<open>
  When the host ends with return code 0, it has run to its end in order: a command or signal to terminate was received, the
  main loop was told to end, and in the communication area the flag \<open>READY\<close> is off and \<open>TERMINATED\<close> is on, as the manager's
  functions expect of a guest that has stopped.
\<close>

theorem aux_run_terminated:
  assumes "runHost env mainParms t = Some (RC_ZISAUX_OK, Some h)"
  shows "isNormalTermination h \<and> h_shutdown h \<and>
     (\<exists>area. hc_masterCommArea (h_ctx h) = Some area \<and> \<not> has_flag (ac_flag area) ZISAUX_HOST_FLAG_READY \<and>
             has_flag (ac_flag area) ZISAUX_HOST_FLAG_TERMINATED)"
proof -
  from assms obtain h0 where "bindRC (loadHostConfig env mainParms h0) (\<lambda>h1. bindRC (Some (launchCommTask env h1, h1)) (\<lambda>h2.
      bindRC (startPC env h2) (\<lambda>h3. bindRC (loadUserModule env h3) (\<lambda>h4.
      bindRC (callUserModuleInit (re_host env) t h4) (serveGuest env t))))) = Some (RC_ZISAUX_OK, h)"
    by (auto simp: runHost_def split: if_splits option.splits)
  then obtain h5 where "serveGuest env t h5 = Some (RC_ZISAUX_OK, h)" by (blast dest: bindRC_OK)
  then show ?thesis by (rule serveGuest_OK)
qed

lemma demo_host_parms:
  "\<exists>ps. zisMakeParmSet (Some plain_heap) = Some (Some ps) \<and> parm_good N ps \<and> zisGetParmValue ps ''PARM'' = Some None"
proof -
  have heap: "SLHAlloc plain_heap n = (Some [], plain_heap)" for n by (simp add: SLHAlloc_def plain_heap_def)
  obtain ps where put: "zisPutParmValue empty_set ZIS_PARM_TEST_PARM_NAME ZIS_PARM_TEST_PARM_VALUE = Some (0, ps)" "parm_good N ps"
    using put_good [OF empty_set_good, of ZIS_PARM_TEST_PARM_NAME ZIS_PARM_TEST_PARM_VALUE N] by blast
  have mk: "zisMakeParmSet (Some plain_heap) = Some (Some ps)"
    using put(1) by (simp add: zisMakeParmSet_def heap empty_set_def)
  have "slh_zeroed plain_heap" by (simp add: slh_zeroed_def plain_heap_def)
  from makeParmSet_inv [OF this] mk have "parm_alist ps = [(ZIS_PARM_TEST_PARM_NAME, ZIS_PARM_TEST_PARM_VALUE)]" by auto
  with put(2) have "zisGetParmValue ps ''PARM'' = Some None"
    by (simp add: zisGetParmValue_wf parm_good_def parm_inv_def ZIS_PARM_TEST_PARM_NAME_def)
  with mk put(2) show ?thesis by blast
qed

lemma demo_host_context:
  "\<exists>h. makeHostContext demo_run = Some (Some h) \<and> parm_good N (hc_parms (h_ctx h)) \<and> hc_flags (h_ctx h) = 0 \<and>
       zisGetParmValue (hc_parms (h_ctx h)) ''PARM'' = Some None"
proof -
  have "fst (allocPETs demo_run n q) = RC_ZISAUX_OK" for n q
    by (induction n arbitrary: q) (simp_all add: demo_run_def Let_def)
  then obtain q where "allocPETs demo_run ZISAUX_MAX_REQUEST_COUNT [] = (RC_ZISAUX_OK, q)" by (metis prod.collapse)
  moreover obtain ps where "zisMakeParmSet (re_parmHeap demo_run) = Some (Some ps)" "parm_good N ps" "zisGetParmValue ps ''PARM'' = Some None"
    using demo_host_parms by (auto simp: demo_run_def)
  moreover have "re_contextStorage demo_run" "re_queueStorage demo_run" "re_petStorage demo_run" "re_resmgrRC demo_run = 0"
    by (simp_all add: demo_run_def)
  ultimately show ?thesis by (simp add: makeHostContext_def newHost_def)
qed

lemma demo_area_facts:
  "\<exists>area. as_comm demo_started 4096 = Some area \<and> ac_eyecatcher area = ZISAUX_COMM_EYECATCHER \<and> ac_version area = ZISAUX_COMM_VERSION \<and>
     has_flag (ac_flag area) ZISAUX_HOST_FLAG_COMM_PC_ON"
  by (simp add: demo_started_state newCommArea_def has_flag_def aux_flag_defs)

lemma demo_config:
  assumes "parm_good (parms_cost (map parmKeyValue (parm_tokens (hostParmText demo_aux ''MODULE01'' 4096 None)))) (hc_parms (h_ctx h))" and "zisGetParmValue (hc_parms (h_ctx h)) ''PARM'' = Some None"
    and "as_comm demo_started 4096 = Some area" and "ac_eyecatcher area = ZISAUX_COMM_EYECATCHER" and "ac_version area = ZISAUX_COMM_VERSION"
  shows "\<exists>ps. loadHostConfig demo_run [] h = Some (RC_ZISAUX_OK, h\<lparr>h_ctx := (h_ctx h)\<lparr>hc_parms := ps, hc_masterCommArea := Some area\<rparr>\<rparr>) \<and>
     zisGetParmValue ps ZISAUX_HOST_PARM_MOD_KEY = Some (Some ''MODULE01'')"
proof -
  have nm: "cstr (''MODULE01'' @ ax_afterModuleName demo_aux) = ''MODULE01''" by (simp add: demo_aux_def cstr_def nul_def)
  have len: "length (hostParmText demo_aux ''MODULE01'' 4096 None) < 128"
    using nm by (simp add: hostParmText_def ZISAUX_HOST_PARM_MOD_KEY_def ZISAUX_HOST_PARM_COMM_KEY_def length_hex)
  have r: "re_areas demo_run 4096 = Some area" "re_masterParm demo_run = hostParmText demo_aux ''MODULE01'' 4096 None" "re_extractRC demo_run = 0"
    "re_workBuffer demo_run"
    using assms(3) len by (simp_all add: demo_run_def)
  have key: "''PARM'' \<notin> {'':'', ZISAUX_HOST_PARM_MOD_KEY, ZISAUX_HOST_PARM_COMM_KEY}"
    by (simp add: ZISAUX_HOST_PARM_MOD_KEY_def ZISAUX_HOST_PARM_COMM_KEY_def)
  obtain ps where ps: "loadMasterParm demo_run h = Some (RC_ZISAUX_OK, h\<lparr>h_ctx := (h_ctx h)\<lparr>hc_parms := ps, hc_masterCommArea := Some area\<rparr>\<rparr>)"
    "zisGetParmValue ps ZISAUX_HOST_PARM_MOD_KEY = Some (Some ''MODULE01'')" "zisGetParmValue ps ''PARM'' = Some None"
    using loadMasterParm_area [of 4096 "''MODULE01''" demo_aux None demo_run area h "''PARM''"] r key assms nm by auto
  have "zisReadMainParms True (hc_parms (h_ctx h)) [] = Some (RC_ZISPARM_OK, hc_parms (h_ctx h))"
    by (simp add: zisReadMainParms_def readMainParms_loop.simps)
  with ps r(4) show ?thesis by (intro exI [of _ ps]) (simp add: loadHostConfig_def setParms_def)
qed

lemma demo_guest_served:
  fixes h :: "(unit, nat) Host"
  assumes "hc_userModuleDescriptor (h_ctx h) = Some demo_guest" and "hc_masterCommArea (h_ctx h) = Some area"
  shows "\<exists>h'. bindRC (callUserModuleInit (re_host demo_run) 0 h) (serveGuest demo_run 0) = Some (RC_ZISAUX_OK, h')"
proof -
  have g: "md_init demo_guest = None" "md_term demo_guest = None" by (simp_all add: demo_guest_def)
  have loop: "re_mainLoop demo_run = setContextFlag ZISAUX_CONTEXT_FLAG_TERM_COMMAND_RECEIVED" by (simp add: demo_run_def)
  have one: "has_flag (set_flag w ZISAUX_CONTEXT_FLAG_TERM_COMMAND_RECEIVED) ZISAUX_CONTEXT_FLAG_TERM_COMMAND_RECEIVED" for w
    by (rule set_flag_has) (simp add: aux_context_flag_defs)
  let ?h = "setContextFlag ZISAUX_CONTEXT_FLAG_GUEST_INITIALIZED h"
  have "callUserModuleInit (re_host demo_run) 0 h = Some (RC_ZISAUX_OK, ?h)"
    using assms(1) g by (simp add: callUserModuleInit_def)
  moreover have "\<exists>h'. serveGuest demo_run 0 ?h = Some (RC_ZISAUX_OK, h')"
    using assms g one
    by (simp add: serveGuest_def loop setReadyFlag_def setTermFlag_def updateCommArea_def setContextFlag_def isNormalTermination_def callUserModuleTerm_def)
  ultimately show ?thesis by (simp add: bindRC_def)
qed

lemma demo_run_ends: "\<exists>h. runHost demo_run [] 0 = Some (RC_ZISAUX_OK, Some h)"
proof -
  obtain h0 where h0: "makeHostContext demo_run = Some (Some h0)"
    "parm_good (parms_cost (map parmKeyValue (parm_tokens (hostParmText demo_aux ''MODULE01'' 4096 None)))) (hc_parms (h_ctx h0))" "hc_flags (h_ctx h0) = 0"
    "zisGetParmValue (hc_parms (h_ctx h0)) ''PARM'' = Some None" using demo_host_context by blast
  obtain area where area: "as_comm demo_started 4096 = Some area" "ac_eyecatcher area = ZISAUX_COMM_EYECATCHER"
    "ac_version area = ZISAUX_COMM_VERSION" "has_flag (ac_flag area) ZISAUX_HOST_FLAG_COMM_PC_ON" using demo_area_facts by blast
  obtain ps where c: "loadHostConfig demo_run [] h0 = Some (RC_ZISAUX_OK, h0\<lparr>h_ctx := (h_ctx h0)\<lparr>hc_parms := ps, hc_masterCommArea := Some area\<rparr>\<rparr>)"
    and m: "zisGetParmValue ps ZISAUX_HOST_PARM_MOD_KEY = Some (Some ''MODULE01'')"
    using demo_config [OF h0(2,4) area(1-3)] by blast
  let ?h1 = "h0\<lparr>h_ctx := (h_ctx h0)\<lparr>hc_parms := ps, hc_masterCommArea := Some area\<rparr>\<rparr>"
  have pc: "startPC demo_run ?h1 = Some (RC_ZISAUX_OK, ?h1\<lparr>h_ctx := (h_ctx ?h1)\<lparr>hc_masterCommArea := Some (area\<lparr>ac_pcNumber := 1, ac_sequenceNumber := 1\<rparr>)\<rparr>\<rparr>)"
    using h0(3) area(4) by (simp add: startPC_def isCommunicationPCEnabled_def isLegacyAPI_def establishCommunicationPC_def demo_run_def updateCommArea_def)
  let ?h2 = "h0\<lparr>h_ctx := (h_ctx h0)\<lparr>hc_parms := ps, hc_masterCommArea := Some (area\<lparr>ac_pcNumber := 1, ac_sequenceNumber := 1\<rparr>)\<rparr>\<rparr>"
  have load: "loadUserModule demo_run ?h2 = Some (RC_ZISAUX_OK, ?h2\<lparr>h_ctx := (h_ctx ?h2)\<lparr>hc_userModuleDescriptor := Some demo_guest\<rparr>\<rparr>)"
    using m by (simp add: loadUserModule_def getUserModuleName_def demo_run_def)
  have "launchCommTask demo_run ?h1 = RC_ZISAUX_OK" "checkEnv demo_run = RC_ZISAUX_OK" "re_mainPush demo_run"
    by (simp_all add: launchCommTask_def checkEnv_def isDubStatusOk_def demo_run_def CROSS_MEMORY_SERVER_KEY_AUX_def)
  with h0(1) c pc load demo_guest_served [of "?h2\<lparr>h_ctx := (h_ctx ?h2)\<lparr>hc_userModuleDescriptor := Some demo_guest\<rparr>\<rparr>"] show ?thesis
    by (auto simp: runHost_def bindRC_def)
qed

theorem aux_run_terminated_witness: "\<exists>h. runHost demo_run [] 0 = Some (RC_ZISAUX_OK, Some h) \<and> isNormalTermination h"
  using demo_run_ends aux_run_terminated by blast

end
