(* ===== verification/Spec2Isabelle.thy ===== *)
theory Spec2Isabelle
  imports ZIS_Router ZIS_Main ZIS_Snarfer TSS_Search AUX_Run
begin

text \<open>
  Verification of the cross-memory server of Zowe (ZIS) and of its client, from the C sources of the
  zss repository (src/c/zis and src/h/zis), and of the auxiliary address spaces it starts (src/zis-aux).

  \<^bold>\<open>The program.\<close> ZIS is a privileged server on z/OS. Its main function reads parameters from the JCL
  and from a PARMLIB member, creates a core server (zowe-common-c), registers core services with it and
  deploys plug-ins, whose services are installed in a table in common storage. Requests enter core
  services by number, and services of plug-ins through the service router. The core services modelled
  here check passwords, users and entities with SAF, extract and administer profiles and groups with R_admin,
  for RACF or for Top Secret, and copy storage of other address spaces. Clients, such as the web server, fill parameter lists, call the services across address
  spaces and read the answers. A server can start auxiliary address spaces: in each, a host loads a guest module and runs
  the commands and the work that the server sends through a PC routine.

  \<^bold>\<open>The theories.\<close>
  \<^item> ZIS_Prelude: types, C strings and buffers, flag bits, linked chains, sequencing of partial steps,
    and the lemmas the components share.
  \<^item> ZIS_Parm (src/c/zis/parm.c): the parameter set as a chain of entries in a short-lived heap, reading of
    the JCL string and of PARMLIB records with trimming, comments and continuations, transfer to the
    core server. Insertion and lookup refine an association list; while the limited heap grants the bytes that
    are needed (\<open>slh_serves\<close>, \<open>parms_cost\<close>, \<open>records_cost\<close>), the readers store exactly what the
    text says; the work area of a record is never left.
  \<^item> ZIS_Registry (service.c, plugin.c and their headers): descriptors and anchors of plug-ins and services,
    their names, versions and flags.
  \<^item> ZIS_Server (server.c): the service router, registration of core services, the service table, guarded
    calls of plug-in functions, installation of services.
  \<^item> ZIS_Lifecycle (server.c): LPA relocation, loading, validation and deployment of plug-ins, start, stop
    and modify commands, with the invariant of common storage that all of them keep.
  \<^item> ZIS_Router: the life of servers as a transition system, with the properties of its reachable states
    and of the router.
  \<^item> ZIS_Main (server.c): context, configuration, name and flags of the core server, the main sequence.
  \<^item> ZIS_Auth (services/auth.c): the authentication service. SAF is a function of the requests made so far.
    Success means that SAF granted the request; no ACEE is left behind; the service returns.
  \<^item> ZIS_Secmgmt (services/secmgmt.c, secmgmtUtils.c): validation of the lists, the extraction services and
    the administration services for RACF, with R_admin as a function of the requests made so far. Results
    fit the client's buffer; administration is confined to the caller's authority, to names of Zowe and to
    the configured class; the command output is bounded.
  \<^item> ZIS_Client (client.c): the functions of the client over a call across address spaces. Password and
    entity checks from end to end over the authentication service; the lists that are sent pass the
    validation of the services.
  \<^item> ZIS_Snarfer (services/snarfer.c, nwm.c): the copy from another address space through a transfer buffer in
    common storage, and the network management call. A copy that reports success is exact, one that fails changes
    nothing, and one whose store to the caller abends may have stored some of the bytes; from the client's
    function on it is shown from end to end; some abends leave the buffer behind.
  \<^item> TSS_Parsing (services/tssparsing.c): keys and values in the output of Top Secret commands; lines are read
    back.
  \<^item> TSS_Secmgmt (services/secmgmttss.c): the services of ZIS_Secmgmt for Top Secret. The handlers of command
    output share one loop over lines and blocks, \<open>walk\<close>, and one end for each kind of fault.
  \<^item> TSS_Contracts: what these services do with their buffers and commands. All handlers but one stay in their
    buffers; the administration of profiles is confined as the one for RACF is; a command can lose its end.
  \<^item> TSS_Search: the search for profiles from a start profile on ends and begins its list with that profile;
    for a client that asks for no profile it does not end.
  \<^item> AUX_Utils (zis-aux/src/aux-utils.c): the tokens of a command, which are the pieces between blanks, and the lines of log
    messages.
  \<^item> AUX_Manager (aux-manager.c): the server's side of auxiliary address spaces. It refines a directory of guests by
    nickname; start and stop cancel each other where the system accepts the termination; payloads hold the request's
    bytes, and responses are copied back as the guest stored them.
  \<^item> AUX_Host (aux-host.c, aux-guest.c): the PC routine, pause elements, workers, commands and cancellation as operations on
    the host's state and as steps that come in any order. Slots are owned by one caller at most; only the
    parent server reaches the guest; work comes back with the guest's answer; failures lose slots, and cancellation looks like success.
  \<^item> AUX_Run (aux-host.c): configuration and main sequence of the host. The parameter that the manager builds leads the host to
    its communication area and module.
  \<^item> This theory: calls of plug-in services from end to end, from installation through client and router.

  \<^bold>\<open>State and errors.\<close> Private and common storage are maps from addresses to records; a use of \<open>NULL\<close> or of
  an address that holds nothing has the value \<open>None\<close>, and so has a string that runs over the end of its
  array, or an abend without recovery. Return codes are integers with the values of the headers. Flags,
  counts and sizes whose wrap-around matters are words of their width.

  \<^bold>\<open>Interfaces.\<close> Code outside of the repository is a parameter: the short-lived heap and IEFPRMLB, the map,
  storage, queue and module services of zowe-common-c, pause elements, shared storage, SAF, R_admin, recovery, the configuration parameters, the
  call across address spaces, and string functions. What the proofs rely on is stated as a hypothesis
  (\<open>map_laws\<close>, \<open>map_available\<close>, \<open>alloc_fresh\<close>, \<open>env_ok\<close>, \<open>slh_serves\<close>, \<open>verify_stable\<close>, \<open>radmin_bounded\<close>, \<open>utils_ok\<close>, \<open>system_laws\<close>, \<open>nwm_laws\<close>,
  \<open>string_functions_ok\<close>, \<open>answers_ok\<close>, \<open>output_stays\<close>, \<open>lht_laws\<close>, \<open>pool_laws\<close>, \<open>shared_laws\<close>, \<open>fresh_space\<close>, \<open>queue_law\<close>,
  \<open>host_up\<close>). The text in front of a property states each condition it depends on, and every property with
  a hypothesis has a witness on a concrete instance. Contracts between components are locales, each
  interpreted on the definitions of the model: handlers of the authentication service, extraction and
  administration services, handlers of output lines, and the transports between client and services.

  \<^bold>\<open>Loops and bounds.\<close> Loops over text and tables are recursive functions with termination proofs. Chains
  in common storage are followed by a partial function, which has no value on a cyclic chain; the invariant
  excludes cycles. The handler of command output is bounded by its node count, so that it ends on cyclic
  chains too. The search for a start profile is a partial function as well, and its end is a theorem.

  \<^bold>\<open>Simplifications.\<close> The index of the tokenizer in aux-utils.c is a natural number, which differs from the
  unsigned one only for a text of \<open>2 ^ 32 - 1\<close> characters. The copies of results to the client in secmgmt.c are one
  step, so that an abend in the middle of such a copy is not modelled (the one of snarfer.c is). The functions of client.c
  for authentication, snarfer and NWM are modelled for a caller that passes a status; those that extract and administer profiles for any
  pointer. The end of an address space runs the exits that were set up for it, as z/OS does.

  \<^bold>\<open>Not modelled.\<close> Messages and debug output, the release of storage in some places (noted there), the
  macros that format statuses. The dynamic linkage plug-in, and the web server with its HTTP services (zss.c, securityService.c, datasetjson.c, unixFileService.c and others),
  which are mostly front ends of libraries outside of the repository.
\<close>

section \<open>The client and the service router\<close>

text \<open>The return code and status the client makes of the router's return code.\<close>

definition call_outcome :: "rc \<Rightarrow> ZISServiceStatus \<Rightarrow> rc \<times> ZISServiceStatus option" where
  "call_outcome r st =
     (if r = RC_ZIS_SRVC_OK then (RC_ZIS_SRVC_OK, Some st)
      else (if r = RC_ZIS_SRVC_SPECIFIC_AUTH_FAILED then RC_ZIS_SRVC_SPECIFIC_AUTH_FAILED else RC_ZIS_SRVC_SERVICE_FAILED,
            Some (st\<lparr>zs_serviceRC := r\<rparr>)))"

text \<open>A transport that enters the router of a server that is ready.\<close>

locale router_transport =
  fixes cms :: "'m ClientCMS" and env :: "'m ServerEnv" and v :: addr
  assumes area: "cmsGetGlobalArea cms name = (0, \<lparr>cg_ready = True, cg_userServerAnchor = Some v\<rparr>)"
    and enters: "serviceID \<in> {ZIS_SERVICE_ID_SRVC_ROUTER_SS, ZIS_SERVICE_ID_SRVC_ROUTER_CP} \<Longrightarrow>
      cmsCallService3 cms \<lparr>cg_ready = True, cg_userServerAnchor = Some v\<rparr> serviceID parm noSAF cs =
        map_option (\<lambda>(r, fn, cs'). ((0, r), cs')) (zisRouteService env (Some v) parm cs)"
begin

lemma call_installed:
  assumes "routes_to env cs v path s"
    and "zisRouteService env (Some v) (routerParm path parm version) cs = Some (r, fn, cs')"
  shows "zisCallServiceInternal cenv env cms name path parm version noSAF (Some st) cs = Some (call_outcome r st, cs')"
proof -
  from assms(1) obtain sv t a sa where "cs_servers cs v = Some sv" "sv_serviceTable sv = Some t"
    "crossMemoryMapGet env t path = Some a" "cs_services cs a = Some sa"
    by (auto simp: routes_to_def server_shape_def)
  moreover have "routerServiceID sa \<in> {ZIS_SERVICE_ID_SRVC_ROUTER_SS, ZIS_SERVICE_ID_SRVC_ROUTER_CP}"
    by (simp add: routerServiceID_def)
  ultimately show ?thesis using assms(2) by (simp add: zisCallServiceInternal_def area enters call_outcome_def)
qed

end

definition router_cms :: "'m ServerEnv \<Rightarrow> addr \<Rightarrow> 'm ClientCMS" where
  "router_cms env v =
     \<lparr>cmsGetGlobalArea = (\<lambda>_. (0, \<lparr>cg_ready = True, cg_userServerAnchor = Some v\<rparr>)),
      cmsCallService3 = (\<lambda>ga serviceID parm _ cs.
        map_option (\<lambda>(r, fn, cs'). ((0, r), cs')) (zisRouteService env (cg_userServerAnchor ga) parm cs))\<rparr>"

interpretation routed: router_transport "router_cms env v" env v for env v
  by unfold_locales (simp_all add: router_cms_def)

lemma routed_served:
  assumes "zisRouteService env ga parm cs = Some (r, Some fn, cs')"
  shows "\<exists>sd dat. serveCallback env fn (rp_targetServiceParm parm) sd = (r, dat)"
  using route_served [OF assms] by metis

text \<open>
  C5. A call of a plug-in's service from end to end. \<open>installServices\<close> returned \<open>RC_ZIS_OK\<close> for a well-formed plug-in whose
  services have different names, on common storage that satisfies the invariant, with the laws of the service map and of
  fresh storage. A service that has a function and whose init function succeeded (\<open>installServices\<close> returns
  \<open>RC_ZIS_OK\<close> for a plug-in with failed ones too, which stay unreachable) is called by its path, in a version it has, by a
  client whose call enters the router of this server. Then the service's own function is entered with the client's
  parameter: the client gets \<open>RC_ZIS_SRVC_OK\<close> exactly for the function's return code 0 and otherwise this code in its
  status. When the service asks for an authorization that the caller does not have, the function is not
  entered and the client gets \<open>RC_ZIS_SRVC_SPECIFIC_AUTH_FAILED\<close>.
\<close>

theorem plugin_service_call:
  assumes "map_laws env" and "alloc_fresh env" and "registry env cs v pas svcs" and "p \<in> set pas"
    and "named_chain cs (p_name plugin) (svcs p)" and "ps pl = Some plugin" and "plugin_wf plugin"
    and "distinct (map s_name (plugin_table plugin))"
    and "installServices env v pl p (cs, ps) = Some (RC_ZIS_OK, cs', ps')"
    and "s \<in> set (plugin_table plugin)" and "init_succeeds env s" and "s_serve s = Some fn"
    and "version \<le> s_serviceVersion s \<or> version = ZIS_SERVICE_ANY_VERSION"
  shows "\<exists>r sd dat cs''.
     zisCallVersionedService cenv env (router_cms env v) serverName
       \<lparr>pluginName = p_name plugin, serviceName = s_name s\<rparr> parm version (Some st) cs' =
     (if has_flag (s_flags s) ZIS_SERVICE_FLAG_SPECIFIC_AUTH \<and> \<not> cmsTestAuth env (s_safClassName s) (s_safEntityName s)
      then Some ((RC_ZIS_SRVC_SPECIFIC_AUTH_FAILED, Some (st\<lparr>zs_serviceRC := RC_ZIS_SRVC_SPECIFIC_AUTH_FAILED\<rparr>)), cs')
      else Some (call_outcome r st, cs'')) \<and>
     serveCallback env fn parm sd = (r, dat)"
proof -
  let ?path = "\<lparr>pluginName = p_name plugin, serviceName = s_name s\<rparr>"
  let ?denied = "has_flag (s_flags s) ZIS_SERVICE_FLAG_SPECIFIC_AUTH \<and> \<not> cmsTestAuth env (s_safClassName s) (s_safEntityName s)"
  have to: "routes_to env cs' v ?path s"
    using installServices_routes [where ps = ps and pl = pl, OF assms(1-11)] by (simp add: service_path_def)
  obtain r cs'' where r: "zisRouteService env (Some v) (routerParm ?path parm version) cs' =
      (if ?denied then Some (RC_ZIS_SRVC_SPECIFIC_AUTH_FAILED, None, cs') else Some (r, Some fn, cs''))"
    using route_installed [of env cs' v "routerParm ?path parm version" s fn] to assms(12,13)
    by (auto simp: routerParm_def)
  show ?thesis
  proof (cases ?denied)
    case True
    with r routed.call_installed [OF to, of parm version] show ?thesis
      by (simp add: zisCallVersionedService_def call_outcome_def) (metis surj_pair)
  next
    case False
    with r have e: "zisRouteService env (Some v) (routerParm ?path parm version) cs' = Some (r, Some fn, cs'')" by simp
    then obtain sd dat where "serveCallback env fn parm sd = (r, dat)"
      using routed_served by (fastforce simp: routerParm_def)
    moreover have "zisCallVersionedService cenv env (router_cms env v) serverName ?path parm version (Some st) cs' =
        Some (call_outcome r st, cs'')"
      unfolding zisCallVersionedService_def by (rule routed.call_installed [OF to e])
    ultimately show ?thesis using False by auto
  qed
qed

definition demo_status :: ZISServiceStatus where
  "demo_status = \<lparr>zs_serviceRC = 0, zs_serviceRSN = 0, zs_cmsRC = 0, zs_cmsRSN = 0\<rparr>"

theorem plugin_service_call_witness:
  "\<exists>cs' ps' r sd dat cs''. installServices demo_env 1 5 2 (demo_common, \<lambda>a. if a = 5 then Some demo_plugin else None)
     = Some (RC_ZIS_OK, cs', ps') \<and>
   zisCallVersionedService demo_client demo_env (router_cms demo_env 1) None
     \<lparr>pluginName = ''PLUGIN1         '', serviceName = ''SERVICE1        ''\<rparr> (Some 40) 2 (Some demo_status) cs' =
     Some (call_outcome r demo_status, cs'') \<and> serveCallback demo_env 77 (Some 40) sd = (r, dat)"
proof -
  let ?ps = "\<lambda>a :: nat. if a = 5 then Some demo_plugin else None"
  obtain cs' ps' where i: "installServices demo_env 1 5 2 (demo_common, ?ps) = Some (RC_ZIS_OK, cs', ps')"
    by (rule demo_install)
  note ds = demo_service_def zisCreateSpaceSwitchService_def zisCreateService_def emptyService_def
  have n: "p_name demo_plugin = ''PLUGIN1         ''" "s_name demo_service = ''SERVICE1        ''"
    by (simp_all add: demo_plugin_def ds)
  have "\<exists>r sd dat cs''.
     zisCallVersionedService demo_client demo_env (router_cms demo_env 1) None
       \<lparr>pluginName = p_name demo_plugin, serviceName = s_name demo_service\<rparr> (Some 40) 2 (Some demo_status) cs' =
     (if has_flag (s_flags demo_service) ZIS_SERVICE_FLAG_SPECIFIC_AUTH \<and>
         \<not> cmsTestAuth demo_env (s_safClassName demo_service) (s_safEntityName demo_service)
      then Some ((RC_ZIS_SRVC_SPECIFIC_AUTH_FAILED, Some (demo_status\<lparr>zs_serviceRC := RC_ZIS_SRVC_SPECIFIC_AUTH_FAILED\<rparr>)), cs')
      else Some (call_outcome r demo_status, cs'')) \<and>
     serveCallback demo_env 77 (Some 40) sd = (r, dat)"
    by (rule plugin_service_call [where ps = ?ps and pl = 5 and plugin = demo_plugin,
          OF demo_map_laws demo_alloc_fresh demo_common_registry _ _ _ _ _ i])
      (simp_all add: named_chain_def ds demo_plugin_def plugin_wf_def plugin_table_def init_succeeds_def demo_env_simps)
  moreover have "\<not> has_flag (s_flags demo_service) ZIS_SERVICE_FLAG_SPECIFIC_AUTH"
    by (simp add: ds has_flag_def flag_defs)
  ultimately show ?thesis using i n by auto
qed

end
